(* ===== verification/Prelude.thy ===== *)
theory Prelude
  imports Main "HOL-Library.Word" "HOL-Library.AList"
begin

text \<open>
  Shared material of the development: the error codes and option bits of
  \<^verbatim>\<open>browserid.h\<close> and \<^verbatim>\<open>bid_private.h\<close>, the combinators that stand for
  \<^verbatim>\<open>BID_BAIL_ON_ERROR\<close>, C string helpers, and the generic lemmas and named
  collections the component theories use.
\<close>

unbundle bit_operations_syntax

named_theorems bid_result \<open>inversion rules for results and error paths\<close>
named_theorems bid_flag \<open>option bits\<close>

section \<open>Machine types\<close>

type_synonym byte = "8 word"
type_synonym u32 = "32 word"

section \<open>Error codes\<close>

text \<open>
  \<^verbatim>\<open>BIDError\<close> is a C enumeration of 81 codes.  A function that returns a
  \<^verbatim>\<open>BIDError\<close> and writes its result through a pointer is modelled by a value of the
  sum type \<open>BIDError + 'a\<close>: \<open>Inl e\<close> when it returns \<open>e\<close>, \<open>Inr x\<close> when it returns
  \<^verbatim>\<open>BID_S_OK\<close>.  \<open>BID_UNDEFINED\<close> is not a code of the enumeration: it is the outcome
  of a model function whose C counterpart accesses memory out of bounds.
\<close>

datatype BIDError = BID_S int

abbreviation BID_S_OK :: BIDError where "BID_S_OK \<equiv> BID_S 0"
abbreviation BID_S_NO_CONTEXT :: BIDError where "BID_S_NO_CONTEXT \<equiv> BID_S 1"
abbreviation BID_S_NO_MEMORY :: BIDError where "BID_S_NO_MEMORY \<equiv> BID_S 2"
abbreviation BID_S_NOT_IMPLEMENTED :: BIDError where "BID_S_NOT_IMPLEMENTED \<equiv> BID_S 3"
abbreviation BID_S_INVALID_PARAMETER :: BIDError where "BID_S_INVALID_PARAMETER \<equiv> BID_S 4"
abbreviation BID_S_INVALID_USAGE :: BIDError where "BID_S_INVALID_USAGE \<equiv> BID_S 5"
abbreviation BID_S_UNAVAILABLE :: BIDError where "BID_S_UNAVAILABLE \<equiv> BID_S 6"
abbreviation BID_S_UNKNOWN_JSON_KEY :: BIDError where "BID_S_UNKNOWN_JSON_KEY \<equiv> BID_S 7"
abbreviation BID_S_INVALID_JSON :: BIDError where "BID_S_INVALID_JSON \<equiv> BID_S 8"
abbreviation BID_S_INVALID_BASE64 :: BIDError where "BID_S_INVALID_BASE64 \<equiv> BID_S 9"
abbreviation BID_S_INVALID_ASSERTION :: BIDError where "BID_S_INVALID_ASSERTION \<equiv> BID_S 10"
abbreviation BID_S_CANNOT_ENCODE_JSON :: BIDError where "BID_S_CANNOT_ENCODE_JSON \<equiv> BID_S 11"
abbreviation BID_S_CANNOT_ENCODE_BASE64 :: BIDError where "BID_S_CANNOT_ENCODE_BASE64 \<equiv> BID_S 12"
abbreviation BID_S_TOO_MANY_CERTS :: BIDError where "BID_S_TOO_MANY_CERTS \<equiv> BID_S 13"
abbreviation BID_S_UNTRUSTED_ISSUER :: BIDError where "BID_S_UNTRUSTED_ISSUER \<equiv> BID_S 14"
abbreviation BID_S_INVALID_ISSUER :: BIDError where "BID_S_INVALID_ISSUER \<equiv> BID_S 15"
abbreviation BID_S_MISSING_ISSUER :: BIDError where "BID_S_MISSING_ISSUER \<equiv> BID_S 16"
abbreviation BID_S_MISSING_AUDIENCE :: BIDError where "BID_S_MISSING_AUDIENCE \<equiv> BID_S 17"
abbreviation BID_S_BAD_AUDIENCE :: BIDError where "BID_S_BAD_AUDIENCE \<equiv> BID_S 18"
abbreviation BID_S_EXPIRED_ASSERTION :: BIDError where "BID_S_EXPIRED_ASSERTION \<equiv> BID_S 19"
abbreviation BID_S_ASSERTION_NOT_YET_VALID :: BIDError where "BID_S_ASSERTION_NOT_YET_VALID \<equiv> BID_S 20"
abbreviation BID_S_EXPIRED_CERT :: BIDError where "BID_S_EXPIRED_CERT \<equiv> BID_S 21"
abbreviation BID_S_CERT_NOT_YET_VALID :: BIDError where "BID_S_CERT_NOT_YET_VALID \<equiv> BID_S 22"
abbreviation BID_S_INVALID_SIGNATURE :: BIDError where "BID_S_INVALID_SIGNATURE \<equiv> BID_S 23"
abbreviation BID_S_MISSING_ALGORITHM :: BIDError where "BID_S_MISSING_ALGORITHM \<equiv> BID_S 24"
abbreviation BID_S_UNKNOWN_ALGORITHM :: BIDError where "BID_S_UNKNOWN_ALGORITHM \<equiv> BID_S 25"
abbreviation BID_S_INVALID_KEY :: BIDError where "BID_S_INVALID_KEY \<equiv> BID_S 26"
abbreviation BID_S_INVALID_KEYSET :: BIDError where "BID_S_INVALID_KEYSET \<equiv> BID_S 27"
abbreviation BID_S_NO_KEY :: BIDError where "BID_S_NO_KEY \<equiv> BID_S 28"
abbreviation BID_S_CRYPTO_ERROR :: BIDError where "BID_S_CRYPTO_ERROR \<equiv> BID_S 29"
abbreviation BID_S_HTTP_ERROR :: BIDError where "BID_S_HTTP_ERROR \<equiv> BID_S 30"
abbreviation BID_S_BUFFER_TOO_SMALL :: BIDError where "BID_S_BUFFER_TOO_SMALL \<equiv> BID_S 31"
abbreviation BID_S_BUFFER_TOO_LONG :: BIDError where "BID_S_BUFFER_TOO_LONG \<equiv> BID_S 32"
abbreviation BID_S_REMOTE_VERIFY_FAILURE :: BIDError where "BID_S_REMOTE_VERIFY_FAILURE \<equiv> BID_S 33"
abbreviation BID_S_MISSING_PRINCIPAL :: BIDError where "BID_S_MISSING_PRINCIPAL \<equiv> BID_S 34"
abbreviation BID_S_UNKNOWN_PRINCIPAL_TYPE :: BIDError where "BID_S_UNKNOWN_PRINCIPAL_TYPE \<equiv> BID_S 35"
abbreviation BID_S_MISSING_CERT :: BIDError where "BID_S_MISSING_CERT \<equiv> BID_S 36"
abbreviation BID_S_UNKNOWN_ATTRIBUTE :: BIDError where "BID_S_UNKNOWN_ATTRIBUTE \<equiv> BID_S 37"
abbreviation BID_S_MISSING_CHANNEL_BINDINGS :: BIDError where "BID_S_MISSING_CHANNEL_BINDINGS \<equiv> BID_S 38"
abbreviation BID_S_CHANNEL_BINDINGS_MISMATCH :: BIDError where "BID_S_CHANNEL_BINDINGS_MISMATCH \<equiv> BID_S 39"
abbreviation BID_S_NO_SESSION_KEY :: BIDError where "BID_S_NO_SESSION_KEY \<equiv> BID_S 40"
abbreviation BID_S_DOCUMENT_NOT_MODIFIED :: BIDError where "BID_S_DOCUMENT_NOT_MODIFIED \<equiv> BID_S 41"
abbreviation BID_S_INTERACT_UNAVAILABLE :: BIDError where "BID_S_INTERACT_UNAVAILABLE \<equiv> BID_S 42"
abbreviation BID_S_INTERACT_FAILURE :: BIDError where "BID_S_INTERACT_FAILURE \<equiv> BID_S 43"
abbreviation BID_S_INTERACT_REQUIRED :: BIDError where "BID_S_INTERACT_REQUIRED \<equiv> BID_S 44"
abbreviation BID_S_INVALID_AUDIENCE_URN :: BIDError where "BID_S_INVALID_AUDIENCE_URN \<equiv> BID_S 45"
abbreviation BID_S_INVALID_JSON_WEB_TOKEN :: BIDError where "BID_S_INVALID_JSON_WEB_TOKEN \<equiv> BID_S 46"
abbreviation BID_S_NO_MORE_ITEMS :: BIDError where "BID_S_NO_MORE_ITEMS \<equiv> BID_S 47"
abbreviation BID_S_CACHE_OPEN_ERROR :: BIDError where "BID_S_CACHE_OPEN_ERROR \<equiv> BID_S 48"
abbreviation BID_S_CACHE_READ_ERROR :: BIDError where "BID_S_CACHE_READ_ERROR \<equiv> BID_S 49"
abbreviation BID_S_CACHE_WRITE_ERROR :: BIDError where "BID_S_CACHE_WRITE_ERROR \<equiv> BID_S 50"
abbreviation BID_S_CACHE_CLOSE_ERROR :: BIDError where "BID_S_CACHE_CLOSE_ERROR \<equiv> BID_S 51"
abbreviation BID_S_CACHE_LOCK_ERROR :: BIDError where "BID_S_CACHE_LOCK_ERROR \<equiv> BID_S 52"
abbreviation BID_S_CACHE_LOCK_TIMEOUT :: BIDError where "BID_S_CACHE_LOCK_TIMEOUT \<equiv> BID_S 53"
abbreviation BID_S_CACHE_UNLOCK_ERROR :: BIDError where "BID_S_CACHE_UNLOCK_ERROR \<equiv> BID_S 54"
abbreviation BID_S_CACHE_DESTROY_ERROR :: BIDError where "BID_S_CACHE_DESTROY_ERROR \<equiv> BID_S 55"
abbreviation BID_S_CACHE_PERMISSION_DENIED :: BIDError where "BID_S_CACHE_PERMISSION_DENIED \<equiv> BID_S 56"
abbreviation BID_S_CACHE_INVALID_VERSION :: BIDError where "BID_S_CACHE_INVALID_VERSION \<equiv> BID_S 57"
abbreviation BID_S_CACHE_SCHEME_UNKNOWN :: BIDError where "BID_S_CACHE_SCHEME_UNKNOWN \<equiv> BID_S 58"
abbreviation BID_S_CACHE_ALREADY_EXISTS :: BIDError where "BID_S_CACHE_ALREADY_EXISTS \<equiv> BID_S 59"
abbreviation BID_S_CACHE_NOT_FOUND :: BIDError where "BID_S_CACHE_NOT_FOUND \<equiv> BID_S 60"
abbreviation BID_S_CACHE_KEY_NOT_FOUND :: BIDError where "BID_S_CACHE_KEY_NOT_FOUND \<equiv> BID_S 61"
abbreviation BID_S_REPLAYED_ASSERTION :: BIDError where "BID_S_REPLAYED_ASSERTION \<equiv> BID_S 62"
abbreviation BID_S_DH_PARAM_GENERATION_FAILURE :: BIDError where "BID_S_DH_PARAM_GENERATION_FAILURE \<equiv> BID_S 63"
abbreviation BID_S_DH_KEY_GENERATION_FAILURE :: BIDError where "BID_S_DH_KEY_GENERATION_FAILURE \<equiv> BID_S 64"
abbreviation BID_S_NO_TICKET_CACHE :: BIDError where "BID_S_NO_TICKET_CACHE \<equiv> BID_S 65"
abbreviation BID_S_BAD_TICKET_CACHE :: BIDError where "BID_S_BAD_TICKET_CACHE \<equiv> BID_S 66"
abbreviation BID_S_CERT_FILE_UNREADABLE :: BIDError where "BID_S_CERT_FILE_UNREADABLE \<equiv> BID_S 67"
abbreviation BID_S_KEY_FILE_UNREADABLE :: BIDError where "BID_S_KEY_FILE_UNREADABLE \<equiv> BID_S 68"
abbreviation BID_S_UNTRUSTED_X509_CERT :: BIDError where "BID_S_UNTRUSTED_X509_CERT \<equiv> BID_S 69"
abbreviation BID_S_NOT_REAUTH_ASSERTION :: BIDError where "BID_S_NOT_REAUTH_ASSERTION \<equiv> BID_S 70"
abbreviation BID_S_BAD_SUBJECT :: BIDError where "BID_S_BAD_SUBJECT \<equiv> BID_S 71"
abbreviation BID_S_MISMATCHED_RP_RESPONSE :: BIDError where "BID_S_MISMATCHED_RP_RESPONSE \<equiv> BID_S 72"
abbreviation BID_S_REFLECTED_RP_RESPONSE :: BIDError where "BID_S_REFLECTED_RP_RESPONSE \<equiv> BID_S 73"
abbreviation BID_S_MISSING_SIGNATURE :: BIDError where "BID_S_MISSING_SIGNATURE \<equiv> BID_S 74"
abbreviation BID_S_INVALID_SECRET :: BIDError where "BID_S_INVALID_SECRET \<equiv> BID_S 75"
abbreviation BID_S_KEY_TOO_SHORT :: BIDError where "BID_S_KEY_TOO_SHORT \<equiv> BID_S 76"
abbreviation BID_S_UNKNOWN_EC_CURVE :: BIDError where "BID_S_UNKNOWN_EC_CURVE \<equiv> BID_S 77"
abbreviation BID_S_INVALID_EC_CURVE :: BIDError where "BID_S_INVALID_EC_CURVE \<equiv> BID_S 78"
abbreviation BID_S_MISSING_NONCE :: BIDError where "BID_S_MISSING_NONCE \<equiv> BID_S 79"
abbreviation BID_S_UNKNOWN_ERROR_CODE :: BIDError where "BID_S_UNKNOWN_ERROR_CODE \<equiv> BID_S 80"

abbreviation BID_UNDEFINED :: BIDError where "BID_UNDEFINED \<equiv> BID_S (- 1)"

section \<open>Option bits\<close>

text \<open>The public and private option bits that the modelled code tests.\<close>

abbreviation BID_CONTEXT_USER_AGENT :: u32 where "BID_CONTEXT_USER_AGENT \<equiv> 1"
abbreviation BID_CONTEXT_RP :: u32 where "BID_CONTEXT_RP \<equiv> 2"
abbreviation BID_CONTEXT_VERIFY_REMOTE :: u32 where "BID_CONTEXT_VERIFY_REMOTE \<equiv> 4"
abbreviation BID_CONTEXT_AUTHORITY_CACHE :: u32 where "BID_CONTEXT_AUTHORITY_CACHE \<equiv> 8"
abbreviation BID_CONTEXT_GSS :: u32 where "BID_CONTEXT_GSS \<equiv> 16"
abbreviation BID_CONTEXT_REPLAY_CACHE :: u32 where "BID_CONTEXT_REPLAY_CACHE \<equiv> 32"
abbreviation BID_CONTEXT_INTERACTION_DISABLED :: u32 where "BID_CONTEXT_INTERACTION_DISABLED \<equiv> 64"
abbreviation BID_CONTEXT_REAUTH :: u32 where "BID_CONTEXT_REAUTH \<equiv> 512"
abbreviation BID_CONTEXT_TICKET_CACHE :: u32 where "BID_CONTEXT_TICKET_CACHE \<equiv> 1024"
abbreviation BID_CONTEXT_ECDH_KEYEX :: u32 where "BID_CONTEXT_ECDH_KEYEX \<equiv> 2048"
abbreviation BID_CONTEXT_HOST_SPN_ALIAS :: u32 where "BID_CONTEXT_HOST_SPN_ALIAS \<equiv> 4096"

abbreviation BID_ACQUIRE_FLAG_NO_INTERACT :: u32 where "BID_ACQUIRE_FLAG_NO_INTERACT \<equiv> 1"
abbreviation BID_ACQUIRE_FLAG_NO_CACHED :: u32 where "BID_ACQUIRE_FLAG_NO_CACHED \<equiv> 2"
abbreviation BID_ACQUIRE_FLAG_MUTUAL_AUTH :: u32 where "BID_ACQUIRE_FLAG_MUTUAL_AUTH \<equiv> 4"
abbreviation BID_ACQUIRE_FLAG_EXTRA_ROUND_TRIP :: u32 where "BID_ACQUIRE_FLAG_EXTRA_ROUND_TRIP \<equiv> 8"
abbreviation BID_ACQUIRE_FLAG_DCE :: u32 where "BID_ACQUIRE_FLAG_DCE \<equiv> 16"
abbreviation BID_ACQUIRE_FLAG_IDENTIFY :: u32 where "BID_ACQUIRE_FLAG_IDENTIFY \<equiv> 32"

abbreviation BID_VERIFY_FLAG_REAUTH :: u32 where "BID_VERIFY_FLAG_REAUTH \<equiv> 1"
abbreviation BID_VERIFY_FLAG_REMOTE :: u32 where "BID_VERIFY_FLAG_REMOTE \<equiv> 65536"
abbreviation BID_VERIFY_FLAG_VALIDATED_CERTS :: u32 where "BID_VERIFY_FLAG_VALIDATED_CERTS \<equiv> 131072"
abbreviation BID_VERIFY_FLAG_X509 :: u32 where "BID_VERIFY_FLAG_X509 \<equiv> 262144"
abbreviation BID_VERIFY_FLAG_REAUTH_MUTUAL :: u32 where "BID_VERIFY_FLAG_REAUTH_MUTUAL \<equiv> 524288"
abbreviation BID_VERIFY_FLAG_EXTRA_ROUND_TRIP :: u32 where "BID_VERIFY_FLAG_EXTRA_ROUND_TRIP \<equiv> 1048576"
abbreviation BID_VERIFY_FLAG_DCE :: u32 where "BID_VERIFY_FLAG_DCE \<equiv> 2097152"
abbreviation BID_VERIFY_FLAG_IDENTIFY :: u32 where "BID_VERIFY_FLAG_IDENTIFY \<equiv> 4194304"
abbreviation BID_VERIFY_FLAG_MUTUAL_AUTH :: u32 where "BID_VERIFY_FLAG_MUTUAL_AUTH \<equiv> 8388608"
abbreviation BID_VERIFY_FLAG_RP :: u32 where "BID_VERIFY_FLAG_RP \<equiv> 65536"
abbreviation BID_VERIFY_FLAG_NO_REPLAY_CACHE :: u32 where "BID_VERIFY_FLAG_NO_REPLAY_CACHE \<equiv> 131072"

abbreviation BID_CACHE_FLAG_UNVERSIONED :: u32 where "BID_CACHE_FLAG_UNVERSIONED \<equiv> 1"
abbreviation BID_CACHE_FLAG_READONLY :: u32 where "BID_CACHE_FLAG_READONLY \<equiv> 2"
abbreviation BID_JSON_FLAG_REQUIRED :: u32 where "BID_JSON_FLAG_REQUIRED \<equiv> 1"
abbreviation BID_JSON_FLAG_CONSUME_REF :: u32 where "BID_JSON_FLAG_CONSUME_REF \<equiv> 2"
abbreviation BID_TICKET_FLAG_RENEWED :: u32 where "BID_TICKET_FLAG_RENEWED \<equiv> 1"
abbreviation BID_TICKET_FLAG_MUTUAL_AUTH :: u32 where "BID_TICKET_FLAG_MUTUAL_AUTH \<equiv> 2"
abbreviation BID_ENCODING_UNKNOWN :: u32 where "BID_ENCODING_UNKNOWN \<equiv> 0"
abbreviation BID_ENCODING_BASE64_URL :: u32 where "BID_ENCODING_BASE64_URL \<equiv> 1"
abbreviation BID_ENCODING_BASE64 :: u32 where "BID_ENCODING_BASE64 \<equiv> 2"
abbreviation BID_CONTEXT_ECDH_CURVE_P256 :: u32 where "BID_CONTEXT_ECDH_CURVE_P256 \<equiv> 256"
abbreviation BID_CONTEXT_ECDH_CURVE_P384 :: u32 where "BID_CONTEXT_ECDH_CURVE_P384 \<equiv> 384"
abbreviation BID_CONTEXT_ECDH_CURVE_P521 :: u32 where "BID_CONTEXT_ECDH_CURVE_P521 \<equiv> 521"

text \<open>The C test \<^verbatim>\<open>(flags & bit)\<close> used as a truth value.\<close>

definition flag_set :: "u32 \<Rightarrow> u32 \<Rightarrow> bool" where
  "flag_set flags b \<longleftrightarrow> flags AND b \<noteq> 0"

text \<open>The C assignment \<^verbatim>\<open>flags |= bit\<close> under a condition.\<close>

definition or_flag :: "bool \<Rightarrow> u32 \<Rightarrow> u32 \<Rightarrow> u32" where
  "or_flag c b flags = (if c then flags OR b else flags)"

lemma flag_set_or [bid_flag]: "flag_set (a OR b) c \<longleftrightarrow> flag_set a c \<or> flag_set b c"
proof -
  have "(a OR b) AND c = (a AND c) OR (b AND c)"
    by (simp add: bit.conj_disj_distrib2)
  moreover have "((a AND c) OR (b AND c) = 0) = (a AND c = 0 \<and> b AND c = 0)"
    by (simp add: or_eq_0_iff)
  ultimately show ?thesis by (simp add: flag_set_def)
qed

lemma flag_set_zero [simp]: "\<not> flag_set 0 c"
  by (simp add: flag_set_def)

lemma flag_set_or_flag [bid_flag]:
  "flag_set (or_flag c b flags) d \<longleftrightarrow> flag_set flags d \<or> (c \<and> flag_set b d)"
  by (auto simp: or_flag_def flag_set_or)

section \<open>Error propagation\<close>

text \<open>
  \<open>bail r k\<close> is \<^verbatim>\<open>err = r; BID_BAIL_ON_ERROR(err); k\<close>: the error of \<open>r\<close> ends the
  function, its result is passed on.  \<open>bailS\<close> is the same for a step that also changes
  the state \<open>'s\<close> (the cache heap), whose changes survive an error, as in C.
\<close>

definition bail :: "'e + 'a \<Rightarrow> ('a \<Rightarrow> 'e + 'b) \<Rightarrow> 'e + 'b" where
  "bail r k = (case r of Inl e \<Rightarrow> Inl e | Inr x \<Rightarrow> k x)"

definition bailS :: "('e + 'a) \<times> 's \<Rightarrow> ('a \<Rightarrow> 's \<Rightarrow> ('e + 'b) \<times> 's) \<Rightarrow> ('e + 'b) \<times> 's" where
  "bailS rs k = (case fst rs of Inl e \<Rightarrow> (Inl e, snd rs) | Inr x \<Rightarrow> k x (snd rs))"

lemma bail_simps [simp]:
  "bail (Inl e) k = Inl e"
  "bail (Inr x) k = k x"
  by (simp_all add: bail_def)

lemma bailS_simps [simp]:
  "bailS (Inl e, s) k = (Inl e, s)"
  "bailS (Inr x, s) k = k x s"
  by (simp_all add: bailS_def)

lemma bail_cong [fundef_cong]:
  "r = r' \<Longrightarrow> (\<And>x. r' = Inr x \<Longrightarrow> k x = k' x) \<Longrightarrow> bail r k = bail r' k'"
  by (cases r') auto

lemma bailS_cong [fundef_cong]:
  "rs = rs' \<Longrightarrow> (\<And>x s. rs' = (Inr x, s) \<Longrightarrow> k x s = k' x s) \<Longrightarrow> bailS rs k = bailS rs' k'"
  by (cases rs'; cases "fst rs'") auto

lemma bail_Inr [bid_result]:
  "bail r k = Inr y \<longleftrightarrow> (\<exists>x. r = Inr x \<and> k x = Inr y)"
  by (cases r) auto

lemma bail_Inl [bid_result]:
  "bail r k = Inl e \<longleftrightarrow> r = Inl e \<or> (\<exists>x. r = Inr x \<and> k x = Inl e)"
  by (cases r) auto

lemma bailS_Inr [bid_result]:
  "bailS rs k = (Inr y, s'') \<longleftrightarrow> (\<exists>x s'. rs = (Inr x, s') \<and> k x s' = (Inr y, s''))"
  by (cases rs; cases "fst rs") auto

lemma bailS_Inl [bid_result]:
  "bailS rs k = (Inl e, s'') \<longleftrightarrow>
    rs = (Inl e, s'') \<or> (\<exists>x s'. rs = (Inr x, s') \<and> k x s' = (Inl e, s''))"
  by (cases rs; cases "fst rs") auto

text \<open>An error check \<^verbatim>\<open>if (c) return e;\<close>.\<close>

definition guard :: "bool \<Rightarrow> 'e \<Rightarrow> 'e + unit" where
  "guard c e = (if c then Inl e else Inr ())"

lemma guard_Inr [simp]: "guard c e = Inr u \<longleftrightarrow> \<not> c"
  by (simp add: guard_def)

lemma guard_Inl [simp]: "guard c e = Inl e' \<longleftrightarrow> c \<and> e' = e"
  by (auto simp: guard_def)

text \<open>A pointer that must not be \<^verbatim>\<open>NULL\<close>, with the code returned otherwise.\<close>

definition some_or :: "'a option \<Rightarrow> 'e \<Rightarrow> 'e + 'a" where
  "some_or p e = (case p of None \<Rightarrow> Inl e | Some x \<Rightarrow> Inr x)"

lemma some_or_simps [simp]:
  "some_or None e = Inl e"
  "some_or (Some x) e = Inr x"
  by (simp_all add: some_or_def)

lemma some_or_Inr [bid_result]: "some_or p e = Inr x \<longleftrightarrow> p = Some x"
  by (cases p) auto

lemma some_or_Inl [bid_result]: "some_or p e = Inl e' \<longleftrightarrow> p = None \<and> e' = e"
  by (cases p) auto

text \<open>A call whose error code is exchanged.\<close>

lemma map_error_Inr [bid_result]: "(case r of Inl e \<Rightarrow> Inl (f e) | Inr x \<Rightarrow> Inr x) = Inr y \<longleftrightarrow> r = Inr y"
  by (cases r) auto

section \<open>C strings\<close>

text \<open>
  A C string is a list of characters without its terminating NUL; \<^verbatim>\<open>NULL\<close> pointers
  are \<open>None\<close>.  Byte buffers are lists of 8-bit words.
\<close>

definition bytes_of_string :: "string \<Rightarrow> byte list" where
  "bytes_of_string s = map (\<lambda>c. word_of_nat (of_char c)) s"

definition string_of_bytes :: "byte list \<Rightarrow> string" where
  "string_of_bytes bs = map (\<lambda>b. char_of (unat b)) bs"

text \<open>The C string that starts at a buffer: everything before the first NUL byte.\<close>

definition c_string :: "byte list \<Rightarrow> string" where
  "c_string bs = string_of_bytes (takeWhile (\<lambda>b. b \<noteq> 0) bs)"

text \<open>
  \<^verbatim>\<open>strchr(s, c)\<close> splits the string: what is before the first \<open>c\<close> and what is after it.
\<close>

fun split_at :: "char \<Rightarrow> string \<Rightarrow> (string \<times> string) option" where
  "split_at c [] = None"
| "split_at c (x # xs) =
     (if x = c then Some ([], xs)
      else map_option (\<lambda>(a, b). (x # a, b)) (split_at c xs))"

text \<open>\<^verbatim>\<open>tolower\<close> of the C locale and the comparisons built on it.\<close>

definition tolower :: "char \<Rightarrow> char" where
  "tolower c = (let n = of_char c :: nat in
     if 65 \<le> n \<and> n \<le> 90 then char_of (n + 32) else c)"

definition strcaseeq :: "string \<Rightarrow> string \<Rightarrow> bool" where
  "strcaseeq a b \<longleftrightarrow> map tolower a = map tolower b"

definition has_prefix :: "string \<Rightarrow> string \<Rightarrow> bool" where
  "has_prefix pre s \<longleftrightarrow> take (length pre) s = pre"

lemma split_at_Some: "split_at c s = Some (a, b) \<longleftrightarrow> s = a @ c # b \<and> c \<notin> set a"
  by (induction s arbitrary: a b) (auto simp: Cons_eq_append_conv)

lemma split_at_None: "split_at c s = None \<longleftrightarrow> c \<notin> set s"
  by (induction s) auto

lemma split_at_append [simp]: "c \<notin> set a \<Longrightarrow> split_at c (a @ c # b) = Some (a, b)"
  by (simp add: split_at_Some)

lemma unat_of_char [simp]: "unat (word_of_nat (of_char c) :: byte) = of_char c"
  by (simp add: unat_of_nat)

lemma string_of_bytes_of_string [simp]: "string_of_bytes (bytes_of_string s) = s"
proof -
  have "char_of (unat (word_of_nat (of_char c) :: byte)) = c" for c
    by simp
  then show ?thesis by (simp add: string_of_bytes_def bytes_of_string_def comp_def)
qed

lemma length_bytes_of_string [simp]: "length (bytes_of_string s) = length s"
  by (simp add: bytes_of_string_def)

lemma c_string_bytes_of_string:
  assumes "CHR 0x00 \<notin> set s"
  shows "c_string (bytes_of_string s) = s"
proof -
  have "(word_of_nat (of_char c) :: byte) \<noteq> 0" if "c \<in> set s" for c
  proof
    assume "(word_of_nat (of_char c) :: byte) = 0"
    then have "unat (word_of_nat (of_char c) :: byte) = 0" by (simp only: unat_0)
    then have "of_char c = (of_char (CHR 0x00) :: nat)" by simp
    then have "c = CHR 0x00" by (simp only: of_char_eq_iff)
    with assms that show False by simp
  qed
  then have "\<forall>b\<in>set (bytes_of_string s). b \<noteq> 0"
    by (auto simp: bytes_of_string_def)
  then have "takeWhile (\<lambda>b. b \<noteq> 0) (bytes_of_string s) = bytes_of_string s"
    by (simp only: takeWhile_eq_all_conv)
  then show ?thesis by (simp only: c_string_def string_of_bytes_of_string)
qed

lemma of_char_tolower:
  "(of_char (tolower c) :: nat) =
    (if 65 \<le> (of_char c :: nat) \<and> (of_char c :: nat) \<le> 90 then of_char c + 32 else of_char c)"
  by (auto simp: tolower_def Let_def)

lemma tolower_idem [simp]: "tolower (tolower c) = tolower c"
  using of_char_tolower[of c] by (auto simp: tolower_def[of "tolower c"] Let_def)

lemma tolower_eq_iff:
  assumes "(of_char d :: nat) < 65 \<or> 90 < (of_char d :: nat) \<and> (of_char d :: nat) < 97
    \<or> 122 < (of_char d :: nat)"
  shows "tolower c = d \<longleftrightarrow> c = d"
proof -
  have "tolower c = d \<longleftrightarrow> (of_char (tolower c) :: nat) = of_char d" by simp
  also have "\<dots> \<longleftrightarrow> (of_char c :: nat) = of_char d"
    unfolding of_char_tolower using assms by auto
  finally show ?thesis by simp
qed

lemma tolower_separators [simp]:
  "tolower c = CHR 0x5C \<longleftrightarrow> c = CHR 0x5C"
  "tolower c = CHR ''/'' \<longleftrightarrow> c = CHR ''/''"
  "tolower c = CHR ''@'' \<longleftrightarrow> c = CHR ''@''"
  by (simp_all add: tolower_eq_iff)

lemma strcaseeq_refl [simp]: "strcaseeq a a"
  by (simp add: strcaseeq_def)

lemma strcaseeq_sym: "strcaseeq a b = strcaseeq b a"
  by (auto simp: strcaseeq_def)

lemma strcaseeq_trans: "strcaseeq a b \<Longrightarrow> strcaseeq b c \<Longrightarrow> strcaseeq a c"
  by (simp add: strcaseeq_def)

lemma has_prefix_append [simp]: "has_prefix pre (pre @ s)"
  by (simp add: has_prefix_def)

lemma has_prefix_iff: "has_prefix pre s \<longleftrightarrow> (\<exists>t. s = pre @ t)"
  by (metis append_take_drop_id has_prefix_append has_prefix_def)

section \<open>Codecs\<close>

text \<open>
  What the clients of a text encoding rely on: decoding gives back what was encoded, and the
  text is over a fixed alphabet, so that it can be joined with separators outside of it.
\<close>

locale text_codec =
  fixes enc :: "'a \<Rightarrow> BIDError + string"
    and dec :: "string \<Rightarrow> BIDError + 'a"
    and alphabet :: "char set"
  assumes dec_enc: "enc x = Inr s \<Longrightarrow> dec s = Inr x"
    and enc_alphabet: "enc x = Inr s \<Longrightarrow> set s \<subseteq> alphabet"
begin

lemma enc_inj: "enc x = Inr s \<Longrightarrow> enc y = Inr s \<Longrightarrow> x = y"
  by (metis dec_enc sum.inject(2))

lemma no_separator: "enc x = Inr s \<Longrightarrow> c \<notin> alphabet \<Longrightarrow> c \<notin> set s"
  using enc_alphabet by blast

text \<open>The text before the first separator is the encoding.\<close>

lemma split_enc: "enc x = Inr s \<Longrightarrow> c \<notin> alphabet \<Longrightarrow> split_at c (s @ c # rest) = Some (s, rest)"
  using no_separator by simp

end

end
