(* ===== verification/Base64.thy ===== *)
theory Base64
  imports Prelude
begin

text \<open>
  \<^verbatim>\<open>libbrowserid/bid_base64.c\<close>: the base64url encoder and the decoder that accepts
  both alphabets.  The theory models the output buffer of the encoder with the NUL
  bytes it writes, the packed marker word of the token decoder, and the buffer
  arithmetic of the decoder; a read or write outside a buffer is \<open>BID_UNDEFINED\<close>.
\<close>

section \<open>Definitions\<close>

definition base64url_chars :: string where
  "base64url_chars = ''ABCDEFGHIJKLMNOPQRSTUVWXYZabcdefghijklmnopqrstuvwxyz0123456789-_''"

definition base64_chars :: string where
  "base64_chars = ''ABCDEFGHIJKLMNOPQRSTUVWXYZabcdefghijklmnopqrstuvwxyz0123456789+/''"

text \<open>The scan of \<^verbatim>\<open>pos\<close> over the alphabet; \<open>None\<close> is \<^verbatim>\<open>DECODE_ERROR\<close>.\<close>

fun pos_scan :: "char \<Rightarrow> string \<Rightarrow> nat \<Rightarrow> nat option" where
  "pos_scan c [] i = None"
| "pos_scan c (x # p) i = (if x = c then Some i else pos_scan c p (Suc i))"

definition pos :: "char \<Rightarrow> nat option" where
  "pos c =
     (let c' = (if c = CHR ''+'' then CHR ''-'' else if c = CHR ''/'' then CHR ''_'' else c)
      in pos_scan c' base64url_chars 0)"

text \<open>The four characters written for one group of three bytes packed into \<open>c\<close>.\<close>

definition b64_quad :: "string \<Rightarrow> nat \<Rightarrow> string" where
  "b64_quad chars c =
     [chars ! drop_bit 18 (c AND 0x00fc0000), chars ! drop_bit 12 (c AND 0x0003f000),
      chars ! drop_bit 6 (c AND 0x00000fc0), chars ! (c AND 0x0000003f)]"

text \<open>
  The encoder loop: the buffer it fills, NUL characters included.  At the last,
  incomplete group \<open>i > size + 1\<close> when one byte is left and \<open>i > size\<close> when two are.
\<close>

fun BIDBase64Encode_loop :: "bool \<Rightarrow> byte list \<Rightarrow> string" where
  "BIDBase64Encode_loop urlEncode [] = []"
| "BIDBase64Encode_loop urlEncode [x] =
     (b64_quad (if urlEncode then base64url_chars else base64_chars) (unat x * 256 * 256))
       [2 := (if urlEncode then CHR 0x00 else CHR ''='')]"
| "BIDBase64Encode_loop urlEncode [x, y] =
     (b64_quad (if urlEncode then base64url_chars else base64_chars) ((unat x * 256 + unat y) * 256))
       [3 := (if urlEncode then CHR 0x00 else CHR ''='')]"
| "BIDBase64Encode_loop urlEncode (x # y # z # q) =
     b64_quad (if urlEncode then base64url_chars else base64_chars)
       ((unat x * 256 + unat y) * 256 + unat z) @ BIDBase64Encode_loop urlEncode q"

definition BIDBase64Encode :: "byte list \<Rightarrow> u32 \<Rightarrow> BIDError + string" where
  "BIDBase64Encode data encoding =
     (if encoding \<noteq> BID_ENCODING_BASE64_URL \<and> encoding \<noteq> BID_ENCODING_BASE64
      then Inl BID_S_INVALID_PARAMETER
      else if length data > 4294967295 div 4 then Inl BID_S_BUFFER_TOO_LONG
      else Inr (takeWhile (\<lambda>c. c \<noteq> CHR 0x00)
             (BIDBase64Encode_loop (encoding = BID_ENCODING_BASE64_URL) data)))"

definition BIDBase64UrlEncode :: "byte list \<Rightarrow> BIDError + string" where
  "BIDBase64UrlEncode data = BIDBase64Encode data BID_ENCODING_BASE64_URL"

text \<open>
  The loop of \<^verbatim>\<open>_BIDBase64UrlTokenDecode\<close> over the four positions of a token that was
  cut to \<open>toklen\<close> characters; it returns \<open>val\<close> and \<open>marker\<close>.
\<close>

fun token_loop :: "nat \<Rightarrow> string \<Rightarrow> nat \<Rightarrow> nat \<Rightarrow> (nat \<times> nat) option" where
  "token_loop 0 token val marker = Some (val, marker)"
| "token_loop (Suc k) [] val marker = token_loop k [] (val * 64) marker"
| "token_loop (Suc k) (t # token) val marker =
     (if t = CHR ''='' then token_loop k token (val * 64) (Suc marker)
      else if marker \<noteq> 0 then None
      else case pos t of
          None \<Rightarrow> None
        | Some tmp \<Rightarrow> token_loop k token (val * 64 + tmp) marker)"

definition BIDBase64UrlTokenDecode :: "string \<Rightarrow> nat option" where
  "BIDBase64UrlTokenDecode token =
     (let toklen = min 4 (length token)
      in if toklen < 2 then None
         else case token_loop 4 (take toklen token) 0 0 of
             None \<Rightarrow> None
           | Some (val, m) \<Rightarrow>
               (let marker = (if m = 0 then 4 - toklen else m)
                in if marker > 2 then None else Some (push_bit 24 marker OR val)))"

text \<open>The bytes the decoder stores for one token.\<close>

definition token_bytes :: "nat \<Rightarrow> byte list" where
  "token_bytes val =
     (let marker = drop_bit 24 val AND 0xff
      in [word_of_nat (drop_bit 16 val AND 0xff)]
         @ (if marker < 2 then [word_of_nat (drop_bit 8 val AND 0xff)] else [])
         @ (if marker < 1 then [word_of_nat (val AND 0xff)] else []))"

text \<open>Facts the termination of the decoder loop needs.\<close>

lemma pos_scan_bound: "pos_scan c p i = Some n \<Longrightarrow> i \<le> n \<and> n < i + length p \<and> p ! (n - i) = c"
proof (induction p arbitrary: i)
  case Nil
  then show ?case by simp
next
  case (Cons x p)
  show ?case
  proof (cases "x = c")
    case True
    with Cons.prems show ?thesis by simp
  next
    case False
    with Cons.prems have "pos_scan c p (Suc i) = Some n" by simp
    then have "Suc i \<le> n \<and> n < Suc i + length p \<and> p ! (n - Suc i) = c" by (rule Cons.IH)
    then show ?thesis by (auto simp: nth_Cons')
  qed
qed

lemma length_base64url_chars [simp]: "length base64url_chars = 64"
  by (simp add: base64url_chars_def)

lemma length_base64_chars [simp]: "length base64_chars = 64"
  by (simp add: base64_chars_def)

lemma pos_less: "pos c = Some n \<Longrightarrow> n < 64"
  using pos_scan_bound[of _ base64url_chars 0 n] by (auto simp: pos_def Let_def)

lemma token_loop_bound:
  "token_loop k token val marker = Some (v, m) \<Longrightarrow> v < (val + 1) * 64 ^ k \<and> marker \<le> m"
proof (induction k token val marker rule: token_loop.induct)
  case (1 token val marker)
  then show ?case by simp
next
  case (2 k val marker)
  then have "v < (val * 64 + 1) * 64 ^ k \<and> marker \<le> m" by simp
  moreover have "(val * 64 + 1) * 64 ^ k \<le> (val + 1) * 64 ^ Suc k" by simp
  ultimately show ?case by (meson less_le_trans)
next
  case (3 k t token val marker)
  have le: "(val * 64 + d + 1) * 64 ^ k \<le> (val + 1) * 64 ^ Suc k" if "d < 64" for d
  proof -
    have "val * 64 + d + 1 \<le> (val + 1) * 64" using that by simp
    then have "(val * 64 + d + 1) * 64 ^ k \<le> (val + 1) * 64 * 64 ^ k" by (rule mult_le_mono1)
    then show ?thesis by (simp only: power_Suc mult.assoc)
  qed
  show ?case
  proof (cases "t = CHR ''=''")
    case True
    with 3 have "v < (val * 64 + 1) * 64 ^ k \<and> Suc marker \<le> m" by simp
    with le[of 0] show ?thesis by (auto intro: less_le_trans)
  next
    case False
    with "3.prems" obtain d where d: "pos t = Some d" and "marker = 0"
      by (auto split: if_splits option.splits)
    with 3 False have "v < (val * 64 + d + 1) * 64 ^ k \<and> marker \<le> m" by simp
    with le[of d] pos_less[OF d] show ?thesis by (auto intro: less_le_trans)
  qed
qed

lemma pack_marker:
  assumes "v < 2 ^ 24"
  shows "push_bit 24 m OR v = m * 2 ^ 24 + (v::nat)"
proof -
  have "push_bit 24 m AND v = 0"
  proof (rule bit_eqI)
    fix n
    have "n < 24" if "bit v n"
      using that assms by (metis bit_take_bit_iff take_bit_nat_eq_self)
    then show "bit (push_bit 24 m AND v) n = bit 0 n"
      by (auto simp: bit_simps)
  qed
  then have "push_bit 24 m + v = push_bit 24 m OR v"
    by (rule disjunctive_add_eq_or)
  then show ?thesis by (simp add: push_bit_eq_mult)
qed

lemma and_ff [simp]: "(n::nat) AND 0xff = n mod 256"
  using take_bit_eq_mask[of 8 n] by (simp add: take_bit_eq_mod mask_eq_exp_minus_1)

lemma BIDBase64UrlTokenDecode_Some:
  assumes "BIDBase64UrlTokenDecode token = Some val"
  obtains v marker where "val = marker * 2 ^ 24 + v" "v < 2 ^ 24" "marker \<le> 2" "2 \<le> length token"
proof -
  let ?tl = "min 4 (length token)"
  from assms obtain v m where lp: "token_loop 4 (take ?tl token) 0 0 = Some (v, m)"
    and len: "2 \<le> ?tl"
    and val: "(if m = 0 then 4 - ?tl else m) \<le> 2"
      "val = push_bit 24 (if m = 0 then 4 - ?tl else m) OR v"
    by (auto simp: BIDBase64UrlTokenDecode_def Let_def split: option.splits if_splits)
  from token_loop_bound[OF lp] have v: "v < 2 ^ 24" by simp
  show thesis
  proof (rule that)
    show "val = (if m = 0 then 4 - ?tl else m) * 2 ^ 24 + v"
      using val(2) pack_marker[OF v] by simp
    show "(if m = 0 then 4 - ?tl else m) \<le> 2" by (rule val(1))
  qed (use v len in simp_all)
qed

lemma marker_of_val:
  assumes "v < 2 ^ 24" "m \<le> 2"
  shows "drop_bit 24 (m * 2 ^ 24 + v) AND 0xff = (m::nat)"
  using assms by (simp add: drop_bit_eq_div)

lemma BIDBase64UrlTokenDecode_marker:
  assumes "BIDBase64UrlTokenDecode token = Some val"
  shows "drop_bit 24 val AND 0xff \<le> 2" "2 \<le> length token"
  using assms by (auto elim!: BIDBase64UrlTokenDecode_Some simp: drop_bit_eq_div)

text \<open>
  The loop of \<^verbatim>\<open>_BIDBase64UrlDecode\<close> from the position \<open>p\<close>, with the bytes stored so
  far.  The three stores of an iteration are checked against the size of the buffer
  only through the test at the head of the loop, and \<^verbatim>\<open>p += 4 - marker\<close> may step over
  the terminating NUL: both are made visible as \<open>BID_UNDEFINED\<close>.
\<close>

function BIDBase64UrlDecode_loop :: "nat \<Rightarrow> string \<Rightarrow> byte list \<Rightarrow> BIDError + byte list" where
  "BIDBase64UrlDecode_loop maxLength p out =
     (if p = [] \<or> hd p = CHR ''='' then Inr out
      else if length out > maxLength then Inl BID_S_BUFFER_TOO_SMALL
      else case BIDBase64UrlTokenDecode p of
          None \<Rightarrow> Inl BID_S_INVALID_BASE64
        | Some val \<Rightarrow>
            (let marker = drop_bit 24 val AND 0xff; out' = out @ token_bytes val
             in if length out' > maxLength then Inl BID_UNDEFINED
                else if 4 - marker > length p then Inl BID_UNDEFINED
                else BIDBase64UrlDecode_loop maxLength (drop (4 - marker) p) out'))"
  by pat_completeness auto
termination
proof (relation "measure (\<lambda>(maxLength, p, out). length p)")
  fix maxLength p and out :: "byte list" and val marker out'
  assume "\<not> (p = [] \<or> hd p = CHR ''='')" "BIDBase64UrlTokenDecode p = Some val"
    "marker = drop_bit 24 val AND 0xff"
  then have "p \<noteq> []" "marker \<le> 2"
    using BIDBase64UrlTokenDecode_marker(1)[of p val] by auto
  then show "((maxLength, drop (4 - marker) p, out'), maxLength, p, out)
      \<in> measure (\<lambda>(maxLength, p, out). length p)" by (cases p) auto
qed simp

declare BIDBase64UrlDecode_loop.simps [simp del]

text \<open>
  \<open>buf = None\<close> is a call with \<^verbatim>\<open>*pData == NULL\<close>, which allocates \<^verbatim>\<open>strlen(str) + 1\<close>
  bytes; \<open>buf = Some n\<close> is a caller's buffer of \<open>n\<close> bytes.
\<close>

definition BIDBase64UrlDecode :: "string \<Rightarrow> nat option \<Rightarrow> BIDError + byte list" where
  "BIDBase64UrlDecode str buf =
     BIDBase64UrlDecode_loop (case buf of None \<Rightarrow> length str + 1 | Some n \<Rightarrow> n) str []"

section \<open>Lemmas on the alphabets and on one group\<close>

text \<open>What the decoder needs of an alphabet; both alphabets have it.\<close>

definition good_chars :: "string \<Rightarrow> bool" where
  "good_chars chars \<longleftrightarrow> length chars = 64 \<and>
     list_all (\<lambda>n. pos (chars ! n) = Some n \<and> chars ! n \<noteq> CHR 0x00 \<and> chars ! n \<noteq> CHR ''='')
       [0..<64]"

lemma good_base64url_chars [simp]: "good_chars base64url_chars"
  by code_simp

lemma good_base64_chars [simp]: "good_chars base64_chars"
  by code_simp

lemma good_charsD:
  assumes "good_chars chars" "n < 64"
  shows "pos (chars ! n) = Some n" "chars ! n \<noteq> CHR 0x00" "chars ! n \<noteq> CHR ''=''"
  using assms by (auto simp: good_chars_def list_all_iff)

definition b64_digits :: "nat \<Rightarrow> nat list" where
  "b64_digits c = [c div 64 ^ 3, c div 64 ^ 2 mod 64, c div 64 mod 64, c mod 64]"

lemma and_3f: "(n::nat) AND 0x3f = n mod 64"
  using take_bit_eq_mask[of 6 n] by (simp add: take_bit_eq_mod mask_eq_exp_minus_1)

lemma b64_quad_digits:
  assumes "c < 2 ^ 24"
  shows "b64_quad chars c = map ((!) chars) (b64_digits c)"
proof -
  have "drop_bit 18 (c AND 0x00fc0000) = drop_bit 18 c AND drop_bit 18 0x00fc0000"
    by (rule drop_bit_and)
  moreover have "drop_bit 12 (c AND 0x0003f000) = drop_bit 12 c AND drop_bit 12 0x0003f000"
    by (rule drop_bit_and)
  moreover have "drop_bit 6 (c AND 0x00000fc0) = drop_bit 6 c AND drop_bit 6 0x00000fc0"
    by (rule drop_bit_and)
  moreover have "drop_bit 18 (0x00fc0000::nat) = 0x3f" "drop_bit 12 (0x0003f000::nat) = 0x3f"
    "drop_bit 6 (0x00000fc0::nat) = 0x3f"
    by (simp_all add: drop_bit_eq_div)
  moreover have "drop_bit 18 c mod 64 = c div 64 ^ 3" "drop_bit 12 c = c div 64 ^ 2"
    "drop_bit 6 c = c div 64"
    using assms by (simp_all add: drop_bit_eq_div)
  ultimately show ?thesis
    by (simp only: b64_quad_def b64_digits_def and_3f list.map)
qed

lemma b64_digits_less: "c < 2 ^ 24 \<Longrightarrow> \<forall>d\<in>set (b64_digits c). d < 64"
  by (auto simp: b64_digits_def)

lemma b64_digits_value:
  fixes c :: nat
  shows "((c div 64 ^ 3 * 64 + c div 64 ^ 2 mod 64) * 64 + c div 64 mod 64) * 64 + c mod 64 = c"
proof -
  have 1: "c div 64 ^ 3 * 64 + c div 64 ^ 2 mod 64 = c div 64 ^ 2"
    using div_mult_mod_eq[of "c div 64 ^ 2" 64] by (simp add: div_mult2_eq[symmetric])
  have 2: "c div 64 ^ 2 * 64 + c div 64 mod 64 = c div 64"
    using div_mult_mod_eq[of "c div 64" 64] by (simp add: div_mult2_eq[symmetric])
  show ?thesis by (simp only: 1 2 div_mult_mod_eq)
qed

lemma token_bytes_val:
  assumes "v < 2 ^ 24" "m \<le> 2"
  shows "token_bytes (m * 2 ^ 24 + v) =
    [word_of_nat (v div 65536)]
      @ (if m < 2 then [word_of_nat (v div 256 mod 256)] else [])
      @ (if m < 1 then [word_of_nat (v mod 256)] else [])"
proof -
  have "(m * 2 ^ 24 + v) div 2 ^ 16 = m * 256 + v div 65536" by simp
  then have 1: "(m * 2 ^ 24 + v) div 2 ^ 16 mod 256 = v div 65536"
    using assms(1) by (simp only: mod_mult_self3) simp
  have "(m * 2 ^ 24 + v) div 2 ^ 8 = m * 256 * 256 + v div 256" by simp
  then have 2: "(m * 2 ^ 24 + v) div 2 ^ 8 mod 256 = v div 256 mod 256" by (simp only: mod_mult_self3)
  have "m * 2 ^ 24 + v = m * 65536 * 256 + v" by simp
  then have 3: "(m * 2 ^ 24 + v) mod 256 = v mod 256" by (simp only: mod_mult_self3)
  show ?thesis
    unfolding token_bytes_def Let_def marker_of_val[OF assms] unfolding and_ff drop_bit_eq_div 1 2 3 ..
qed

text \<open>
  The token decoder on the characters of a group: all four of them (and then it does not
  look further), the first three or the first two at the end of the text, or three
  followed by a padding character.
\<close>

lemma length_b64_digits [simp]: "length (b64_digits c) = 4"
  by (simp add: b64_digits_def)

lemma token_loop_digits:
  assumes "good_chars chars" "\<forall>d\<in>set ds. d < 64" "n = length ds + k"
  shows "token_loop n (map ((!) chars) ds @ token) val 0 =
    token_loop k token (fold (\<lambda>d v. v * 64 + d) ds val) 0"
  using assms(2,3)
proof (induction ds arbitrary: val n)
  case Nil
  then show ?case by simp
next
  case (Cons d ds)
  with good_charsD[OF assms(1), of d] show ?case by simp
qed

lemma digits_less_take: "c < 2 ^ 24 \<Longrightarrow> \<forall>d\<in>set (take k (b64_digits c)). d < 64"
  using b64_digits_less by (meson in_set_takeD)

lemma token_decode_4:
  assumes "good_chars chars" "c < 2 ^ 24"
  shows "BIDBase64UrlTokenDecode (map ((!) chars) (b64_digits c) @ rest) = Some c"
proof -
  have "fold (\<lambda>d v. v * 64 + d) (b64_digits c) 0 = c"
    using b64_digits_value[of c] by (simp add: b64_digits_def)
  then have "token_loop 4 (map ((!) chars) (b64_digits c)) 0 0 = Some (c, 0)"
    using token_loop_digits[OF assms(1) b64_digits_less[OF assms(2)], of 4 0 "[]" 0] by simp
  then show ?thesis
    by (simp add: BIDBase64UrlTokenDecode_def Let_def)
qed

lemma token_decode_3:
  assumes "good_chars chars" "c < 2 ^ 24" "c mod 64 = 0" "e = [] \<or> e = CHR ''='' # junk"
  shows "BIDBase64UrlTokenDecode (map ((!) chars) (take 3 (b64_digits c)) @ e)
    = Some (1 * 2 ^ 24 + c)"
proof -
  have "fold (\<lambda>d v. v * 64 + d) (take 3 (b64_digits c)) 0 * 64 = c"
    using b64_digits_value[of c] assms(3) by (simp add: b64_digits_def numeral_3_eq_3)
  then have "token_loop 4 (map ((!) chars) (take 3 (b64_digits c)) @ take 1 e) 0 0
      = Some (c, if e = [] then 0 else 1)"
    using assms(4) token_loop_digits[OF assms(1) digits_less_take[OF assms(2)], of 4 3 1 "take 1 e" 0]
    by auto
  moreover have "take (min 4 (3 + length e)) (map ((!) chars) (take 3 (b64_digits c)) @ e)
      = map ((!) chars) (take 3 (b64_digits c)) @ take 1 e"
    using assms(4) by auto
  ultimately show ?thesis
    using assms(4) pack_marker[OF assms(2), of 1]
    by (auto simp: BIDBase64UrlTokenDecode_def Let_def)
qed

lemma token_decode_2:
  assumes "good_chars chars" "c < 2 ^ 24" "c mod 64 ^ 2 = 0"
    and "e = [] \<or> e = CHR ''='' # CHR ''='' # junk"
  shows "BIDBase64UrlTokenDecode (map ((!) chars) (take 2 (b64_digits c)) @ e)
    = Some (2 * 2 ^ 24 + c)"
proof -
  from assms(3) obtain k where "c = 64 ^ 2 * k" by (meson dvd_def mod_eq_0_iff_dvd)
  then have "c mod 64 = 0" "c div 64 mod 64 = 0" by simp_all
  then have "fold (\<lambda>d v. v * 64 + d) (take 2 (b64_digits c)) 0 * 64 * 64 = c"
    using b64_digits_value[of c] by (simp add: b64_digits_def numeral_2_eq_2)
  then have "token_loop 4 (map ((!) chars) (take 2 (b64_digits c)) @ take 2 e) 0 0
      = Some (c, if e = [] then 0 else 2)"
    using assms(4) token_loop_digits[OF assms(1) digits_less_take[OF assms(2)], of 4 2 2 "take 2 e" 0]
    by (auto simp: numeral_2_eq_2)
  moreover have "take (min 4 (2 + length e)) (map ((!) chars) (take 2 (b64_digits c)) @ e)
      = map ((!) chars) (take 2 (b64_digits c)) @ take 2 e"
    using assms(4) by auto
  ultimately show ?thesis
    using assms(4) pack_marker[OF assms(2), of 2]
    by (auto simp: BIDBase64UrlTokenDecode_def Let_def)
qed

section \<open>The text of the encoder\<close>

definition b64_text :: "bool \<Rightarrow> byte list \<Rightarrow> string" where
  "b64_text url data = takeWhile (\<lambda>c. c \<noteq> CHR 0x00) (BIDBase64Encode_loop url data)"

abbreviation (input) alphabet :: "bool \<Rightarrow> string" where
  "alphabet url \<equiv> (if url then base64url_chars else base64_chars)"

lemma unat_byte_less: "unat (x::byte) < 256"
  using unsigned_less[of x] by simp

lemma group_less: "unat (x::byte) * 256 * 256 < 2 ^ 24"
    "(unat x * 256 + unat (y::byte)) * 256 < 2 ^ 24"
    "(unat x * 256 + unat y) * 256 + unat (z::byte) < 2 ^ 24"
  using unat_byte_less[of x] unat_byte_less[of y] unat_byte_less[of z] by simp_all

lemma takeWhile_quad:
  assumes "good_chars chars" "c < 2 ^ 24"
  shows
    "takeWhile (\<lambda>x. x \<noteq> CHR 0x00) ((b64_quad chars c)[2 := CHR 0x00])
      = map ((!) chars) (take 2 (b64_digits c))"
    "takeWhile (\<lambda>x. x \<noteq> CHR 0x00) ((b64_quad chars c)[3 := CHR 0x00])
      = map ((!) chars) (take 3 (b64_digits c))"
    "takeWhile (\<lambda>x. x \<noteq> CHR 0x00) ((b64_quad chars c)[2 := CHR ''=''])
      = map ((!) chars) (take 2 (b64_digits c)) @ [CHR ''='', chars ! (c mod 64)]"
    "takeWhile (\<lambda>x. x \<noteq> CHR 0x00) ((b64_quad chars c)[3 := CHR ''=''])
      = map ((!) chars) (take 3 (b64_digits c)) @ [CHR ''='']"
    "takeWhile (\<lambda>x. x \<noteq> CHR 0x00) (b64_quad chars c @ rest)
      = map ((!) chars) (b64_digits c) @ takeWhile (\<lambda>x. x \<noteq> CHR 0x00) rest"
proof -
  obtain d0 d1 d2 where ds: "b64_digits c = [d0, d1, d2, c mod 64]"
    by (simp add: b64_digits_def)
  moreover from ds have "d0 < 64" "d1 < 64" "d2 < 64" "c mod 64 < 64"
    using b64_digits_less[OF assms(2)] by simp_all
  note nul = this[THEN good_charsD(2)[OF assms(1)]]
  note simps = b64_quad_digits[OF assms(2)] ds nul numeral_2_eq_2 numeral_3_eq_3
  show "takeWhile (\<lambda>x. x \<noteq> CHR 0x00) ((b64_quad chars c)[2 := CHR 0x00])
      = map ((!) chars) (take 2 (b64_digits c))" by (simp add: simps)
  show "takeWhile (\<lambda>x. x \<noteq> CHR 0x00) ((b64_quad chars c)[3 := CHR 0x00])
      = map ((!) chars) (take 3 (b64_digits c))" by (simp add: simps)
  show "takeWhile (\<lambda>x. x \<noteq> CHR 0x00) ((b64_quad chars c)[2 := CHR ''=''])
      = map ((!) chars) (take 2 (b64_digits c)) @ [CHR ''='', chars ! (c mod 64)]"
    by (simp add: simps)
  show "takeWhile (\<lambda>x. x \<noteq> CHR 0x00) ((b64_quad chars c)[3 := CHR ''=''])
      = map ((!) chars) (take 3 (b64_digits c)) @ [CHR ''='']" by (simp add: simps)
  show "takeWhile (\<lambda>x. x \<noteq> CHR 0x00) (b64_quad chars c @ rest)
      = map ((!) chars) (b64_digits c) @ takeWhile (\<lambda>x. x \<noteq> CHR 0x00) rest"
    by (simp add: simps)
qed

lemma b64_text_simps:
  "b64_text url [] = []"
  "b64_text True [x] = map ((!) base64url_chars) (take 2 (b64_digits (unat x * 256 * 256)))"
  "b64_text False [x] = map ((!) base64_chars) (take 2 (b64_digits (unat x * 256 * 256)))
     @ [CHR ''='', base64_chars ! (unat x * 256 * 256 mod 64)]"
  "b64_text url [x, y] = map ((!) (alphabet url)) (take 3 (b64_digits ((unat x * 256 + unat y) * 256)))
     @ (if url then [] else [CHR ''=''])"
  "b64_text url (x # y # z # q) =
     map ((!) (alphabet url)) (b64_digits ((unat x * 256 + unat y) * 256 + unat z)) @ b64_text url q"
proof -
  note url = takeWhile_quad[OF good_base64url_chars]
  note std = takeWhile_quad[OF good_base64_chars]
  show "b64_text url [] = []" by (simp add: b64_text_def)
  show "b64_text True [x] = map ((!) base64url_chars) (take 2 (b64_digits (unat x * 256 * 256)))"
    by (simp only: b64_text_def BIDBase64Encode_loop.simps if_True url[OF group_less(1)])
  show "b64_text False [x] = map ((!) base64_chars) (take 2 (b64_digits (unat x * 256 * 256)))
     @ [CHR ''='', base64_chars ! (unat x * 256 * 256 mod 64)]"
    by (simp only: b64_text_def BIDBase64Encode_loop.simps if_False std[OF group_less(1)])
  show "b64_text url [x, y] = map ((!) (alphabet url)) (take 3 (b64_digits ((unat x * 256 + unat y) * 256)))
     @ (if url then [] else [CHR ''=''])"
    by (cases url) (simp_all only: b64_text_def BIDBase64Encode_loop.simps if_True if_False
        url[OF group_less(2)] std[OF group_less(2)] append_Nil2)
  show "b64_text url (x # y # z # q) =
     map ((!) (alphabet url)) (b64_digits ((unat x * 256 + unat y) * 256 + unat z)) @ b64_text url q"
    by (cases url) (simp_all only: b64_text_def BIDBase64Encode_loop.simps if_True if_False
        url[OF group_less(3)] std[OF group_less(3)])
qed

lemma BIDBase64Encode_eq:
  assumes "encoding = BID_ENCODING_BASE64_URL \<or> encoding = BID_ENCODING_BASE64"
    and "length data \<le> 1073741823"
  shows "BIDBase64Encode data encoding = Inr (b64_text (encoding = BID_ENCODING_BASE64_URL) data)"
  using assms by (auto simp: BIDBase64Encode_def b64_text_def)

section \<open>Decoding the text of the encoder\<close>

lemma group_bytes:
  fixes x y z :: byte
  shows "word_of_nat (((unat x * 256 + unat y) * 256 + unat z) div 65536) = x"
    "word_of_nat (((unat x * 256 + unat y) * 256 + unat z) div 256 mod 256) = y"
    "word_of_nat (((unat x * 256 + unat y) * 256 + unat z) mod 256) = z"
proof -
  note lt = unat_byte_less[of x] unat_byte_less[of y] unat_byte_less[of z]
  have "((unat x * 256 + unat y) * 256 + unat z) div 65536 = unat x" using lt by simp
  then show "word_of_nat (((unat x * 256 + unat y) * 256 + unat z) div 65536) = x" by simp
  have "((unat x * 256 + unat y) * 256 + unat z) div 256 = unat x * 256 + unat y" using lt by simp
  then have "((unat x * 256 + unat y) * 256 + unat z) div 256 mod 256 = unat y"
    using lt by (simp only: mod_mult_self3) simp
  then show "word_of_nat (((unat x * 256 + unat y) * 256 + unat z) div 256 mod 256) = y" by simp
  have "((unat x * 256 + unat y) * 256 + unat z) mod 256 = unat z"
    using lt by (simp only: mod_mult_self3) simp
  then show "word_of_nat (((unat x * 256 + unat y) * 256 + unat z) mod 256) = z" by simp
qed

text \<open>One iteration of the decoder on a token of which all bytes fit the buffer.\<close>

lemma decode_step:
  assumes "BIDBase64UrlTokenDecode (t # ts) = Some (m * 2 ^ 24 + v)" "t \<noteq> CHR ''=''"
    and "v < 2 ^ 24" "m \<le> 2" "4 - m \<le> length (t # ts)"
    and "length out + (3 - m) \<le> maxLength"
  shows "BIDBase64UrlDecode_loop maxLength (t # ts) out =
    BIDBase64UrlDecode_loop maxLength (drop (4 - m) (t # ts)) (out @ token_bytes (m * 2 ^ 24 + v))"
proof -
  have "length (token_bytes (m * 2 ^ 24 + v)) = 3 - m"
    unfolding token_bytes_val[OF assms(3,4)] using assms(4) by auto
  moreover have small: "\<not> maxLength < length out" using assms(4,6) by simp
  ultimately show ?thesis
    using assms marker_of_val[OF assms(3,4)]
    by (subst BIDBase64UrlDecode_loop.simps) (simp add: Let_def small)
qed

lemma digits_Cons:
  assumes "good_chars chars" "c < 2 ^ 24" "0 < k"
  obtains t ts where "map ((!) chars) (take k (b64_digits c)) = t # ts" "t \<noteq> CHR ''=''"
proof -
  have "c div 64 ^ 3 < 64" using assms(2) by simp
  from good_charsD(3)[OF assms(1) this] show thesis
    using that assms(3) by (cases k) (auto simp: b64_digits_def)
qed

lemma alphabet_good: "good_chars (alphabet url)"
  by simp

lemma decode_group_3:
  fixes x y z :: byte
  assumes "length out + 3 \<le> maxLength"
  shows "BIDBase64UrlDecode_loop maxLength
      (map ((!) (alphabet url)) (b64_digits ((unat x * 256 + unat y) * 256 + unat z)) @ rest) out
    = BIDBase64UrlDecode_loop maxLength rest (out @ [x, y, z])"
proof -
  let ?c = "(unat x * 256 + unat y) * 256 + unat z"
  let ?t = "map ((!) (alphabet url)) (b64_digits ?c)"
  obtain t ts where t: "?t @ rest = t # ts" "t \<noteq> CHR ''=''"
    by (rule digits_Cons[OF alphabet_good[of url] group_less(3)[of x y z], of 4]) auto
  have "BIDBase64UrlDecode_loop maxLength (t # ts) out
      = BIDBase64UrlDecode_loop maxLength (drop (4 - 0) (t # ts)) (out @ token_bytes (0 * 2 ^ 24 + ?c))"
  proof (rule decode_step)
    show "BIDBase64UrlTokenDecode (t # ts) = Some (0 * 2 ^ 24 + ?c)"
      using token_decode_4[OF alphabet_good group_less(3), of url x y z rest] t(1) by simp
    have "length (t # ts) = 4 + length rest"
      unfolding t(1)[symmetric] by simp
    then show "4 - 0 \<le> length (t # ts)" by simp
  qed (use assms t(2) group_less(3)[of x y z] in simp_all)
  moreover have "drop 4 (t # ts) = rest"
    unfolding t(1)[symmetric] by simp
  moreover have "token_bytes (0 * 2 ^ 24 + ?c) = [x, y, z]"
    using token_bytes_val[OF group_less(3)[of x y z], of 0] group_bytes[of x y z] by simp
  ultimately show ?thesis by (simp only: t(1) diff_zero)
qed

lemma decode_group_2:
  fixes x y :: byte
  assumes "length out + 2 \<le> maxLength" "e = [] \<or> e = CHR ''='' # junk"
  shows "BIDBase64UrlDecode_loop maxLength
      (map ((!) (alphabet url)) (take 3 (b64_digits ((unat x * 256 + unat y) * 256))) @ e) out
    = Inr (out @ [x, y])"
proof -
  let ?c = "(unat x * 256 + unat y) * 256"
  let ?t = "map ((!) (alphabet url)) (take 3 (b64_digits ?c))"
  obtain t ts where t: "?t @ e = t # ts" "t \<noteq> CHR ''=''"
    by (rule digits_Cons[OF alphabet_good[of url] group_less(2)[of x y], of 3]) auto
  have "BIDBase64UrlDecode_loop maxLength (t # ts) out
      = BIDBase64UrlDecode_loop maxLength (drop (4 - 1) (t # ts)) (out @ token_bytes (1 * 2 ^ 24 + ?c))"
  proof (rule decode_step)
    have "?c = 64 * (4 * (unat x * 256 + unat y))" by simp
    then have "?c mod 64 = 0" by (metis mod_mult_self1_is_0)
    from token_decode_3[OF alphabet_good group_less(2) this assms(2), of url]
    show "BIDBase64UrlTokenDecode (t # ts) = Some (1 * 2 ^ 24 + ?c)" by (simp only: t(1))
    have "length (t # ts) = 3 + length e"
      unfolding t(1)[symmetric] by simp
    then show "4 - 1 \<le> length (t # ts)" by simp
  qed (use assms t(2) group_less(2)[of x y] in simp_all)
  moreover have "drop (4 - 1) (t # ts) = e"
    unfolding t(1)[symmetric] by simp
  moreover have "token_bytes (1 * 2 ^ 24 + ?c) = [x, y]"
    using token_bytes_val[OF group_less(2)[of x y], of 1] group_bytes[of x y 0] by simp
  moreover have "BIDBase64UrlDecode_loop maxLength e out' = Inr out'" for out'
    using assms(2) by (auto simp: BIDBase64UrlDecode_loop.simps)
  ultimately show ?thesis by (simp only: t(1))
qed

lemma decode_group_1:
  fixes x :: byte
  assumes "length out + 1 \<le> maxLength" "e = [] \<or> e = CHR ''='' # CHR ''='' # junk"
  shows "BIDBase64UrlDecode_loop maxLength
      (map ((!) (alphabet url)) (take 2 (b64_digits (unat x * 256 * 256))) @ e) out
    = Inr (out @ [x])"
proof -
  let ?c = "unat x * 256 * 256"
  let ?t = "map ((!) (alphabet url)) (take 2 (b64_digits ?c))"
  obtain t ts where t: "?t @ e = t # ts" "t \<noteq> CHR ''=''"
    by (rule digits_Cons[OF alphabet_good[of url] group_less(1)[of x], of 2]) auto
  have "BIDBase64UrlDecode_loop maxLength (t # ts) out
      = BIDBase64UrlDecode_loop maxLength (drop (4 - 2) (t # ts)) (out @ token_bytes (2 * 2 ^ 24 + ?c))"
  proof (rule decode_step)
    have "?c = 64 ^ 2 * (16 * unat x)" by simp
    then have "?c mod 64 ^ 2 = 0" by (metis mod_mult_self1_is_0)
    from token_decode_2[OF alphabet_good group_less(1) this assms(2), of url]
    show "BIDBase64UrlTokenDecode (t # ts) = Some (2 * 2 ^ 24 + ?c)" by (simp only: t(1))
    have "length (t # ts) = 2 + length e"
      unfolding t(1)[symmetric] by simp
    then show "4 - 2 \<le> length (t # ts)" by simp
  qed (use assms t(2) group_less(1)[of x] in simp_all)
  moreover have "drop (4 - 2) (t # ts) = e"
    unfolding t(1)[symmetric] by simp
  moreover have "token_bytes (2 * 2 ^ 24 + ?c) = [x]"
    using token_bytes_val[OF group_less(1)[of x], of 2] group_bytes[of x 0 0] by simp
  moreover have "BIDBase64UrlDecode_loop maxLength e out' = Inr out'" for out'
    using assms(2) by (auto simp: BIDBase64UrlDecode_loop.simps)
  ultimately show ?thesis by (simp only: t(1))
qed

text \<open>
  The characters that may follow the text of \<open>n\<close> encoded bytes without changing what it
  decodes to: nothing, or padding followed by anything at all.
\<close>

definition b64_tail :: "nat \<Rightarrow> string \<Rightarrow> bool" where
  "b64_tail n e \<longleftrightarrow> e = [] \<or> (\<exists>junk. e = (if n mod 3 = 1 then ''=='' else ''='') @ junk)"

lemma decode_text:
  assumes "length out + length data \<le> maxLength" "b64_tail (length data) e"
  shows "BIDBase64UrlDecode_loop maxLength (b64_text True data @ e) out = Inr (out @ data)"
  using assms
proof (induction True data arbitrary: out rule: BIDBase64Encode_loop.induct)
  case 1
  then show ?case
    by (auto simp: b64_text_simps b64_tail_def BIDBase64UrlDecode_loop.simps)
next
  case (2 x)
  then obtain junk where "e = [] \<or> e = CHR ''='' # CHR ''='' # junk"
    by (auto simp: b64_tail_def)
  with decode_group_1[of out maxLength e junk True x] 2 show ?case
    by (simp add: b64_text_simps)
next
  case (3 x y)
  then obtain junk where "e = [] \<or> e = CHR ''='' # junk"
    by (auto simp: b64_tail_def)
  with decode_group_2[of out maxLength e junk True x y] 3 show ?case
    by (simp add: b64_text_simps)
next
  case (4 x y z q)
  then have "b64_tail (length q) e" by (simp add: b64_tail_def mod_simps flip: Suc_eq_plus1)
  with 4 have "BIDBase64UrlDecode_loop maxLength (b64_text True q @ e) (out @ [x, y, z])
      = Inr ((out @ [x, y, z]) @ q)" by simp
  then show ?case
    using decode_group_3[of out maxLength True x y z "b64_text True q @ e"] "4.prems"(1)
    by (simp only: b64_text_simps if_True append_assoc) simp
qed

lemma length_b64_text: "length (b64_text True data) = (4 * length data + 2) div 3"
  by (induction True data rule: BIDBase64Encode_loop.induct) (simp_all add: b64_text_simps)

text \<open>The standard alphabet: fine unless one byte is left over, an error then.\<close>

lemma decode_std_text:
  assumes "length out + length data \<le> maxLength" "length data mod 3 \<noteq> 1"
  shows "BIDBase64UrlDecode_loop maxLength (b64_text False data) out = Inr (out @ data)"
  using assms
proof (induction False data arbitrary: out rule: BIDBase64Encode_loop.induct)
  case (3 x y)
  with decode_group_2[of out maxLength "''=''" "[]" False x y] show ?case
    by (simp add: b64_text_simps)
next
  case (4 x y z q)
  then have "length q mod 3 \<noteq> 1" by (simp add: mod_simps flip: Suc_eq_plus1)
  with 4 have "BIDBase64UrlDecode_loop maxLength (b64_text False q) (out @ [x, y, z])
      = Inr ((out @ [x, y, z]) @ q)" by simp
  then show ?case
    using decode_group_3[of out maxLength False x y z "b64_text False q"] "4.prems"(1)
    by (simp only: b64_text_simps if_False) simp
qed (auto simp: b64_text_simps BIDBase64UrlDecode_loop.simps)

lemma token_decode_bad:
  assumes "good_chars chars" "c < 2 ^ 24" "d < 64"
  shows "BIDBase64UrlTokenDecode (map ((!) chars) (take 2 (b64_digits c)) @ [CHR ''='', chars ! d]) = None"
proof -
  have "token_loop 4 (map ((!) chars) (take 2 (b64_digits c)) @ [CHR ''='', chars ! d]) 0 0 = None"
    using token_loop_digits[OF assms(1) digits_less_take[OF assms(2)],
        of 4 2 2 "[CHR ''='', chars ! d]" 0] good_charsD(3)[OF assms(1,3)]
    by (simp add: numeral_2_eq_2)
  then show ?thesis by (simp add: BIDBase64UrlTokenDecode_def Let_def)
qed

lemma decode_std_text_bad:
  assumes "length out + length data \<le> maxLength" "length data mod 3 = 1"
  shows "BIDBase64UrlDecode_loop maxLength (b64_text False data) out = Inl BID_S_INVALID_BASE64"
  using assms
proof (induction False data arbitrary: out rule: BIDBase64Encode_loop.induct)
  case (2 x)
  let ?c = "unat x * 256 * 256"
  obtain t ts where t: "map ((!) base64_chars) (take 2 (b64_digits ?c)) = t # ts" "t \<noteq> CHR ''=''"
    by (rule digits_Cons[OF good_base64_chars group_less(1)[of x], of 2]) auto
  have "BIDBase64UrlTokenDecode (b64_text False [x]) = None"
    using token_decode_bad[OF good_base64_chars group_less(1)[of x], of "?c mod 64"]
    by (simp only: b64_text_simps)
  moreover have "b64_text False [x] = t # ts @ [CHR ''='', base64_chars ! (?c mod 64)]"
    by (simp only: b64_text_simps t(1) append_Cons)
  ultimately show ?case
    using 2 t(2) by (subst BIDBase64UrlDecode_loop.simps) auto
next
  case (4 x y z q)
  then have "length q mod 3 = 1" by (simp add: mod_simps flip: Suc_eq_plus1)
  with 4 have "BIDBase64UrlDecode_loop maxLength (b64_text False q) (out @ [x, y, z])
      = Inl BID_S_INVALID_BASE64" by simp
  then show ?case
    using decode_group_3[of out maxLength False x y z "b64_text False q"] "4.prems"(1)
    by (simp only: b64_text_simps if_False) simp
qed auto

section \<open>Bounds of the decoder\<close>

lemma length_token_bytes:
  assumes "BIDBase64UrlTokenDecode p = Some val"
  shows "length (token_bytes val) = 3 - (drop_bit 24 val AND 0xff)"
  using assms
proof (rule BIDBase64UrlTokenDecode_Some)
  fix v m assume "val = m * 2 ^ 24 + v" "v < 2 ^ 24" "m \<le> (2::nat)" "2 \<le> length p"
  then show ?thesis
    by (auto simp only: token_bytes_val marker_of_val) auto
qed

lemma decode_length:
  "BIDBase64UrlDecode_loop maxLength p out = Inr r \<Longrightarrow> length r \<le> length out + length p"
proof (induction maxLength p out rule: BIDBase64UrlDecode_loop.induct)
  case (1 maxLength p out)
  show ?case
  proof (cases "p = [] \<or> hd p = CHR ''=''")
    case True
    with "1.prems" show ?thesis by (auto simp: BIDBase64UrlDecode_loop.simps[of maxLength p out])
  next
    case False
    with "1.prems" obtain val where val: "BIDBase64UrlTokenDecode p = Some val"
      and small: "\<not> length out > maxLength" "\<not> length (out @ token_bytes val) > maxLength"
        "\<not> 4 - (drop_bit 24 val AND 0xff) > length p"
      and rec: "BIDBase64UrlDecode_loop maxLength (drop (4 - (drop_bit 24 val AND 0xff)) p)
        (out @ token_bytes val) = Inr r"
      by (auto simp: BIDBase64UrlDecode_loop.simps[of maxLength p out] Let_def
          split: if_splits option.splits)
    from "1.IH"[OF False small(1) val refl refl small(2,3) rec]
    show ?thesis using small(3) length_token_bytes[OF val] by simp
  qed
qed

text \<open>Without padding in its input the token decoder never steps over the end.\<close>

lemma token_loop_marker:
  "CHR ''='' \<notin> set token \<Longrightarrow> token_loop k token val marker = Some (v, m) \<Longrightarrow> m = marker"
  by (induction k token val marker rule: token_loop.induct) (auto split: if_splits option.splits)

lemma token_decode_advance:
  assumes "BIDBase64UrlTokenDecode p = Some val" "CHR ''='' \<notin> set p"
  shows "4 - (drop_bit 24 val AND 0xff) \<le> length p"
proof -
  let ?tl = "min 4 (length p)"
  from assms obtain v m where lp: "token_loop 4 (take ?tl p) 0 0 = Some (v, m)"
    and len: "2 \<le> ?tl" and val: "val = push_bit 24 (if m = 0 then 4 - ?tl else m) OR v"
    by (auto simp: BIDBase64UrlTokenDecode_def Let_def split: option.splits if_splits)
  have v: "v < 2 ^ 24" using token_loop_bound[OF lp] by simp
  have "m = 0"
    by (rule token_loop_marker[OF _ lp]) (use assms(2) in \<open>meson in_set_takeD\<close>)
  with val v pack_marker have "val = (4 - ?tl) * 2 ^ 24 + v" by simp
  with marker_of_val[OF v, of "4 - ?tl"] len show ?thesis by auto
qed

lemma decode_total:
  assumes "CHR ''='' \<notin> set p" "length out + length p < maxLength"
  shows "BIDBase64UrlDecode_loop maxLength p out = Inl BID_S_INVALID_BASE64 \<or>
    (\<exists>r. BIDBase64UrlDecode_loop maxLength p out = Inr r)"
  using assms
proof (induction maxLength p out rule: BIDBase64UrlDecode_loop.induct)
  case (1 maxLength p out)
  show ?case
  proof (cases "p = [] \<or> BIDBase64UrlTokenDecode p = None")
    case True
    with "1.prems" have "BIDBase64UrlDecode_loop maxLength p out =
        (if p = [] then Inr out else Inl BID_S_INVALID_BASE64)"
      by (subst BIDBase64UrlDecode_loop.simps) (cases p, auto)
    then show ?thesis by simp
  next
    case False
    then obtain val where val: "BIDBase64UrlTokenDecode p = Some val" by auto
    let ?n = "4 - (drop_bit 24 val AND 0xff)"
    from False "1.prems"(1) have p: "\<not> (p = [] \<or> hd p = CHR ''='')" by (cases p) auto
    note adv = token_decode_advance[OF val "1.prems"(1)]
    have small: "\<not> length out > maxLength" "\<not> length (out @ token_bytes val) > maxLength"
      using "1.prems"(2) adv length_token_bytes[OF val] by auto
    have "CHR ''='' \<notin> set (drop ?n p)" using "1.prems"(1) by (meson in_set_dropD)
    moreover have "length (out @ token_bytes val) + length (drop ?n p) < maxLength"
      using "1.prems"(2) adv length_token_bytes[OF val] by simp
    ultimately show ?thesis
      using "1.IH"[OF p small(1) val refl refl small(2)] adv small val p
      by (simp add: BIDBase64UrlDecode_loop.simps[of maxLength p out] Let_def)
  qed
qed

text \<open>
  The stores of one iteration are not checked: when they do not fit, the buffer
  overflows before the test at the head of the loop can report it.
\<close>

lemma decode_overflow_step:
  assumes "BIDBase64UrlTokenDecode (t # ts) = Some (m * 2 ^ 24 + v)" "t \<noteq> CHR ''=''"
    and "v < 2 ^ 24" "m \<le> 2" "length out \<le> maxLength" "maxLength < length out + (3 - m)"
  shows "BIDBase64UrlDecode_loop maxLength (t # ts) out = Inl BID_UNDEFINED"
proof -
  have "length (token_bytes (m * 2 ^ 24 + v)) = 3 - m"
    unfolding token_bytes_val[OF assms(3,4)] using assms(4) by auto
  then show ?thesis
    using assms by (subst BIDBase64UrlDecode_loop.simps) (simp add: Let_def)
qed

lemma decode_text_overflow:
  assumes "length out \<le> maxLength" "maxLength < length out + length data"
  shows "BIDBase64UrlDecode_loop maxLength (b64_text True data) out = Inl BID_UNDEFINED"
  using assms
proof (induction True data arbitrary: out rule: BIDBase64Encode_loop.induct)
  case (2 x)
  let ?c = "unat x * 256 * 256"
  obtain t ts where t: "map ((!) base64url_chars) (take 2 (b64_digits ?c)) = t # ts" "t \<noteq> CHR ''=''"
    by (rule digits_Cons[OF good_base64url_chars group_less(1)[of x], of 2]) auto
  have "?c = 64 ^ 2 * (16 * unat x)" by simp
  then have "?c mod 64 ^ 2 = 0" by (metis mod_mult_self1_is_0)
  from token_decode_2[OF good_base64url_chars group_less(1) this disjI1[OF refl]]
  have "BIDBase64UrlTokenDecode (t # ts) = Some (2 * 2 ^ 24 + ?c)" by (simp only: t(1) append_Nil2)
  then have "BIDBase64UrlDecode_loop maxLength (t # ts) out = Inl BID_UNDEFINED"
    by (rule decode_overflow_step) (use 2 t(2) group_less(1)[of x] in simp_all)
  then show ?case by (simp only: b64_text_simps t(1))
next
  case (3 x y)
  let ?c = "(unat x * 256 + unat y) * 256"
  obtain t ts where t: "map ((!) base64url_chars) (take 3 (b64_digits ?c)) = t # ts" "t \<noteq> CHR ''=''"
    by (rule digits_Cons[OF good_base64url_chars group_less(2)[of x y], of 3]) auto
  have "?c = 64 * (4 * (unat x * 256 + unat y))" by simp
  then have "?c mod 64 = 0" by (metis mod_mult_self1_is_0)
  from token_decode_3[OF good_base64url_chars group_less(2) this disjI1[OF refl]]
  have "BIDBase64UrlTokenDecode (t # ts) = Some (1 * 2 ^ 24 + ?c)" by (simp only: t(1) append_Nil2)
  then have "BIDBase64UrlDecode_loop maxLength (t # ts) out = Inl BID_UNDEFINED"
    by (rule decode_overflow_step) (use 3 t(2) group_less(2)[of x y] in simp_all)
  then show ?case by (simp only: b64_text_simps t(1) if_True append_Nil2)
next
  case (4 x y z q)
  show ?case
  proof (cases "length out + 3 \<le> maxLength")
    case True
    with 4 have "BIDBase64UrlDecode_loop maxLength (b64_text True q) (out @ [x, y, z])
        = Inl BID_UNDEFINED" by simp
    with decode_group_3[OF True, of True x y z "b64_text True q"] show ?thesis
      by (simp only: b64_text_simps if_True)
  next
    case False
    let ?c = "(unat x * 256 + unat y) * 256 + unat z"
    obtain t ts where t: "map ((!) base64url_chars) (b64_digits ?c) @ b64_text True q = t # ts"
      "t \<noteq> CHR ''=''"
      by (rule digits_Cons[OF good_base64url_chars group_less(3)[of x y z], of 4]) auto
    from token_decode_4[OF good_base64url_chars group_less(3)[of x y z], of "b64_text True q"]
    have "BIDBase64UrlTokenDecode (t # ts) = Some (0 * 2 ^ 24 + ?c)" by (simp only: t(1)) simp
    then have "BIDBase64UrlDecode_loop maxLength (t # ts) out = Inl BID_UNDEFINED"
      by (rule decode_overflow_step) (use 4 False t(2) group_less(3)[of x y z] in simp_all)
    then show ?thesis by (simp only: b64_text_simps t(1) if_True)
  qed
qed simp

lemma pos_padding [simp]: "pos (CHR ''='') = None"
  by (simp add: pos_def base64url_chars_def)

lemma decode_text_overread:
  assumes "length out + length data + 2 \<le> maxLength" "length data mod 3 = 0" "pos c = Some d"
  shows "BIDBase64UrlDecode_loop maxLength (b64_text True data @ [c, CHR ''='']) out = Inl BID_UNDEFINED"
  using assms(1,2)
proof (induction True data arbitrary: out rule: BIDBase64Encode_loop.induct)
  case 1
  have c: "c \<noteq> CHR ''=''" using assms(3) by auto
  have "d * 64 * 64 * 64 < 2 ^ 24" using pos_less[OF assms(3)] by simp
  note pm = pack_marker[OF this, of 1] marker_of_val[OF this, of 1]
  have "token_loop 4 [c, CHR ''=''] 0 0 = Some (d * 64 * 64 * 64, 1)"
    using assms(3) c by (simp add: eval_nat_numeral)
  then have "BIDBase64UrlTokenDecode [c, CHR ''=''] = Some (1 * 2 ^ 24 + d * 64 * 64 * 64)"
    using pm(1) by (simp add: BIDBase64UrlTokenDecode_def Let_def)
  with pm(2) c 1 show ?case
    by (subst BIDBase64UrlDecode_loop.simps) (simp add: Let_def b64_text_simps)
next
  case (4 x y z q)
  then have "length q mod 3 = 0" by (simp add: mod_simps flip: Suc_eq_plus1)
  with 4 have "BIDBase64UrlDecode_loop maxLength (b64_text True q @ [c, CHR ''='']) (out @ [x, y, z])
      = Inl BID_UNDEFINED" by simp
  then show ?case
    using decode_group_3[of out maxLength True x y z "b64_text True q @ [c, CHR ''='']"] "4.prems"(1)
    by (simp only: b64_text_simps if_True append_assoc) simp
qed simp_all

lemma set_b64_text: "set (b64_text True data) \<subseteq> set base64url_chars"
proof (induction True data rule: BIDBase64Encode_loop.induct)
  case (2 x)
  then show ?case
    using digits_less_take[OF group_less(1)[of x], of 2]
    by (auto simp only: b64_text_simps set_map intro!: nth_mem) auto
next
  case (3 x y)
  then show ?case
    using digits_less_take[OF group_less(2)[of x y], of 3]
    by (auto simp only: b64_text_simps set_map if_True append_Nil2 intro!: nth_mem) auto
next
  case (4 x y z q)
  then show ?case
    using b64_digits_less[OF group_less(3)[of x y z]]
    by (auto simp only: b64_text_simps set_map set_append if_True intro!: nth_mem) auto
qed (simp add: b64_text_simps)

lemma BIDBase64UrlEncode_text:
  "length data \<le> 1073741823 \<Longrightarrow> BIDBase64UrlEncode data = Inr (b64_text True data)"
  using BIDBase64Encode_eq[of BID_ENCODING_BASE64_URL data] by (simp add: BIDBase64UrlEncode_def)

lemma BIDBase64UrlEncode_Inr: "BIDBase64UrlEncode data = Inr s \<Longrightarrow> s = b64_text True data"
  by (auto simp: BIDBase64UrlEncode_def BIDBase64Encode_def b64_text_def Let_def split: if_splits)

lemma BIDBase64UrlDecode_text [simp]: "BIDBase64UrlDecode (b64_text True data) None = Inr data"
  using decode_text[of "[]" data "length (b64_text True data) + 1" "[]"]
  by (simp add: BIDBase64UrlDecode_def b64_tail_def length_b64_text)

lemma BIDBase64UrlDecode_text_buf [simp]:
  "length data \<le> n \<Longrightarrow> BIDBase64UrlDecode (b64_text True data) (Some n) = Inr data"
  using decode_text[of "[]" data n "[]"] by (simp add: BIDBase64UrlDecode_def b64_tail_def)

lemma length_b64_std: "length data \<le> length (b64_text False data)"
  by (induction False data rule: BIDBase64Encode_loop.induct) (simp_all add: b64_text_simps)

lemma BIDBase64UrlDecode_std_text:
  "BIDBase64UrlDecode (b64_text False data) None =
    (if length data mod 3 = 1 then Inl BID_S_INVALID_BASE64 else Inr data)"
  using decode_std_text[of "[]" data] decode_std_text_bad[of "[]" data] length_b64_std[of data]
  by (simp add: BIDBase64UrlDecode_def)

text \<open>The encoder and the decoder are a codec over the URL alphabet.\<close>

interpretation b64url: text_codec BIDBase64UrlEncode "\<lambda>s. BIDBase64UrlDecode s None" "set base64url_chars"
proof
  fix data s assume "BIDBase64UrlEncode data = Inr s"
  then have s: "s = b64_text True data" by (rule BIDBase64UrlEncode_Inr)
  show "BIDBase64UrlDecode s None = Inr data" by (simp add: s)
  show "set s \<subseteq> set base64url_chars" using set_b64_text by (simp add: s)
qed

lemma base64url_separators [simp]:
  "CHR ''.'' \<notin> set base64url_chars" "CHR ''~'' \<notin> set base64url_chars" "CHR ''='' \<notin> set base64url_chars"
  by (simp_all add: base64url_chars_def)

lemmas base64url_eval = BIDBase64UrlEncode_text b64_text_simps b64_digits_def base64url_chars_def

section \<open>Properties\<close>

text \<open>C16: whatever bytes the base64url encoder is given (up to its size limit), it returns
  a text over the URL alphabet of the expected length, and the decoder with a buffer of its
  own returns exactly those bytes.\<close>

theorem base64url_roundtrip:
  assumes "length data \<le> 1073741823"
  shows "\<exists>s. BIDBase64UrlEncode data = Inr s \<and> length s = (4 * length data + 2) div 3
    \<and> set s \<subseteq> set base64url_chars \<and> BIDBase64UrlDecode s None = Inr data"
proof -
  have "BIDBase64UrlEncode data = Inr (b64_text True data)"
    using BIDBase64Encode_eq[of BID_ENCODING_BASE64_URL data] assms
    by (simp add: BIDBase64UrlEncode_def)
  moreover have "BIDBase64UrlDecode (b64_text True data) None = Inr data"
    using decode_text[of "[]" data "length (b64_text True data) + 1" "[]"]
    by (simp add: BIDBase64UrlDecode_def b64_tail_def length_b64_text)
  ultimately show ?thesis using set_b64_text length_b64_text by blast
qed

theorem base64url_roundtrip_witness:
  "\<exists>s. BIDBase64UrlEncode [0xff, 0, 0x41, 7] = Inr s \<and> length s = 6
    \<and> set s \<subseteq> set base64url_chars \<and> BIDBase64UrlDecode s None = Inr [0xff, 0, 0x41, 7]"
  using base64url_roundtrip[of "[0xff, 0, 0x41, 7]"] by simp

text \<open>The decoder stops at the first padding character, so any characters may follow
  the padding of an encoded text: the same bytes have many encodings, which differ as
  strings.\<close>

theorem base64url_padding_malleable:
  assumes "length data \<le> 1073741823" "BIDBase64UrlEncode data = Inr s"
  shows "BIDBase64UrlDecode (s @ (if length data mod 3 = 1 then ''=='' else ''='') @ junk) None = Inr data"
proof -
  from assms have "s = b64_text True data"
    using BIDBase64Encode_eq[of BID_ENCODING_BASE64_URL data] by (simp add: BIDBase64UrlEncode_def)
  moreover have "b64_tail (length data) ((if length data mod 3 = 1 then ''=='' else ''='') @ junk)"
    by (auto simp: b64_tail_def)
  ultimately show ?thesis
    using decode_text[of "[]" data _ "(if length data mod 3 = 1 then ''=='' else ''='') @ junk"]
    by (simp add: BIDBase64UrlDecode_def length_b64_text)
qed

theorem base64url_padding_malleable_witness:
  "BIDBase64UrlEncode [1, 2, 3] = Inr ''AQID'' \<and>
   BIDBase64UrlDecode ''AQID=anything'' None = Inr [1, 2, 3]"
proof -
  have enc: "BIDBase64UrlEncode [1, 2, 3] = Inr ''AQID''"
    by (simp add: BIDBase64UrlEncode_def BIDBase64Encode_eq b64_text_simps b64_digits_def base64url_chars_def)
  with base64url_padding_malleable[OF _ enc, of "''anything''"] show ?thesis by simp
qed

text \<open>With the standard alphabet the encoder pads a last group of one byte with a single
  padding character in front of a digit, and the decoder rejects such a text: the round trip
  holds for every other length and fails for this one.\<close>

theorem base64_standard_roundtrip:
  assumes "length data \<le> 1073741823" "BIDBase64Encode data BID_ENCODING_BASE64 = Inr s"
  shows "BIDBase64UrlDecode s (Some (length data)) =
    (if length data mod 3 = 1 then Inl BID_S_INVALID_BASE64 else Inr data)"
proof -
  from assms have "s = b64_text False data"
    using BIDBase64Encode_eq[of BID_ENCODING_BASE64 data] by simp
  then show ?thesis
    using decode_std_text[of "[]" data] decode_std_text_bad[of "[]" data]
    by (simp add: BIDBase64UrlDecode_def)
qed

theorem base64_standard_roundtrip_witness:
  "BIDBase64Encode [0x66] BID_ENCODING_BASE64 = Inr ''Zg=A'' \<and>
   BIDBase64UrlDecode ''Zg=A'' (Some 1) = Inl BID_S_INVALID_BASE64"
proof -
  have enc: "BIDBase64Encode [0x66] BID_ENCODING_BASE64 = Inr ''Zg=A''"
    by (simp add: BIDBase64Encode_eq b64_text_simps b64_digits_def base64_chars_def)
  with base64_standard_roundtrip[OF _ enc] show ?thesis by simp
qed

text \<open>Decoding a string without padding into a buffer of its own either reports invalid
  base64 or returns at most as many bytes as the string has characters, so the buffer has
  room for them and for the NUL byte that \<^verbatim>\<open>_BIDDecodeJson\<close> appends; it never reads or writes
  out of bounds.\<close>

theorem base64url_decode_in_bounds:
  assumes "CHR ''='' \<notin> set s"
  shows "BIDBase64UrlDecode s None = Inl BID_S_INVALID_BASE64 \<or>
    (\<exists>r. BIDBase64UrlDecode s None = Inr r \<and> length r \<le> length s)"
  using decode_total[of s "[]" "length s + 1"] decode_length[of "length s + 1" s "[]"] assms
  by (auto simp: BIDBase64UrlDecode_def)

theorem base64url_decode_in_bounds_witness:
  "BIDBase64UrlDecode ''AQI!'' None = Inl BID_S_INVALID_BASE64 \<or>
    (\<exists>r. BIDBase64UrlDecode ''AQI!'' None = Inr r \<and> length r \<le> length ''AQI!'')"
  using base64url_decode_in_bounds[of "''AQI!''"] by simp

text \<open>With a buffer supplied by the caller the size test comes too late: decoding more
  bytes than the buffer holds always stores past its end and never returns
  \<^verbatim>\<open>BID_S_BUFFER_TOO_SMALL\<close>.\<close>

theorem base64url_decode_caller_buffer_overflow:
  assumes "length data \<le> 1073741823" "BIDBase64UrlEncode data = Inr s" "n < length data"
  shows "BIDBase64UrlDecode s (Some n) = Inl BID_UNDEFINED"
proof -
  from assms have "s = b64_text True data"
    using BIDBase64Encode_eq[of BID_ENCODING_BASE64_URL data] by (simp add: BIDBase64UrlEncode_def)
  with assms(3) decode_text_overflow[of "[]" n data] show ?thesis
    by (simp add: BIDBase64UrlDecode_def)
qed

theorem base64url_decode_caller_buffer_overflow_witness:
  "BIDBase64UrlEncode [1, 2, 3] = Inr ''AQID'' \<and>
   BIDBase64UrlDecode ''AQID'' (Some 2) = Inl BID_UNDEFINED"
proof -
  have enc: "BIDBase64UrlEncode [1, 2, 3] = Inr ''AQID''"
    by (simp add: BIDBase64UrlEncode_def BIDBase64Encode_eq b64_text_simps b64_digits_def base64url_chars_def)
  with base64url_decode_caller_buffer_overflow[OF _ enc, of 2] show ?thesis by simp
qed

text \<open>A digit and a padding character after complete groups make the decoder advance past
  the terminating NUL of its input: a text ending this way is read out of bounds.\<close>

theorem base64url_decode_overread:
  assumes "length data \<le> 1073741823" "BIDBase64UrlEncode data = Inr s" "length data mod 3 = 0"
    and "pos c = Some d"
  shows "BIDBase64UrlDecode (s @ [c, CHR ''='']) None = Inl BID_UNDEFINED"
proof -
  from assms(1,2) have "s = b64_text True data"
    using BIDBase64Encode_eq[of BID_ENCODING_BASE64_URL data] by (simp add: BIDBase64UrlEncode_def)
  then show ?thesis
    using decode_text_overread[OF _ assms(3,4), of "[]"]
    by (simp add: BIDBase64UrlDecode_def length_b64_text)
qed

theorem base64url_decode_overread_witness:
  "BIDBase64UrlEncode [1, 2, 3] = Inr ''AQID'' \<and> pos (CHR ''A'') = Some 0 \<and>
   BIDBase64UrlDecode ''AQIDA='' None = Inl BID_UNDEFINED"
proof -
  have enc: "BIDBase64UrlEncode [1, 2, 3] = Inr ''AQID''"
    by (simp add: BIDBase64UrlEncode_def BIDBase64Encode_eq b64_text_simps b64_digits_def base64url_chars_def)
  have "pos (CHR ''A'') = Some 0" by (simp add: pos_def base64url_chars_def)
  with enc base64url_decode_overread[OF _ enc _ this] show ?thesis by simp
qed

end
