(* ===== verification/Json.thy ===== *)
theory Json
  imports Base64 "HOL-Library.Signed_Division"
begin

text \<open>
  JSON values and the JSON helpers of \<^verbatim>\<open>libbrowserid/bid_util.c\<close>.  The values and their
  accessors are the documented interface of the JSON library the program is built on
  (Jansson): an accessor applied to \<^verbatim>\<open>NULL\<close> or to a value of another type returns
  \<^verbatim>\<open>NULL\<close>, \<^verbatim>\<open>0\<close> or \<^verbatim>\<open>-1\<close>.  Its parser and printer are parameters: the fields of the
  record \<open>json_env\<close>.  Objects are values: the code only modifies objects it has just
  created, or that the identity it works on owns.
\<close>

section \<open>JSON values\<close>

datatype json =
    JObject "(string \<times> json) list"
  | JArray "json list"
  | JString string
  | JInteger int
  | JReal "64 word"
  | JTrue
  | JFalse
  | JNull

fun json_object_get :: "json option \<Rightarrow> string \<Rightarrow> json option" where
  "json_object_get (Some (JObject ms)) key = map_of ms key"
| "json_object_get _ key = None"

fun json_object_set :: "json \<Rightarrow> string \<Rightarrow> json \<Rightarrow> json option" where
  "json_object_set (JObject ms) key val = Some (JObject (AList.update key val ms))"
| "json_object_set _ key val = None"

fun json_object_del :: "json \<Rightarrow> string \<Rightarrow> json option" where
  "json_object_del (JObject ms) key =
     (if map_of ms key = None then None else Some (JObject (AList.delete key ms)))"
| "json_object_del _ key = None"

fun json_object_members :: "json option \<Rightarrow> (string \<times> json) list" where
  "json_object_members (Some (JObject ms)) = ms"
| "json_object_members _ = []"

fun json_string_value :: "json option \<Rightarrow> string option" where
  "json_string_value (Some (JString s)) = Some s"
| "json_string_value _ = None"

fun json_integer_value :: "json option \<Rightarrow> int" where
  "json_integer_value (Some (JInteger i)) = i"
| "json_integer_value _ = 0"

fun json_array_elems :: "json option \<Rightarrow> json list" where
  "json_array_elems (Some (JArray xs)) = xs"
| "json_array_elems _ = []"

fun json_is_object :: "json option \<Rightarrow> bool" where
  "json_is_object (Some (JObject ms)) = True"
| "json_is_object _ = False"

fun json_is_array :: "json option \<Rightarrow> bool" where
  "json_is_array (Some (JArray xs)) = True"
| "json_is_array _ = False"

fun json_is_string :: "json option \<Rightarrow> bool" where
  "json_is_string (Some (JString s)) = True"
| "json_is_string _ = False"

text \<open>Values are equal when they have the same type and contents; the order of the members of an
  object does not matter.  \<^verbatim>\<open>NULL\<close> is not equal to anything.\<close>

function (sequential) json_eq :: "json \<Rightarrow> json \<Rightarrow> bool" where
  "json_eq (JObject ms) (JObject ns) \<longleftrightarrow> length ms = length ns \<and>
     list_all (\<lambda>(k, v). case map_of ns k of None \<Rightarrow> False | Some w \<Rightarrow> json_eq v w) ms"
| "json_eq (JArray xs) (JArray ys) \<longleftrightarrow> length xs = length ys \<and> list_all (\<lambda>(x, y). json_eq x y) (zip xs ys)"
| "json_eq x y \<longleftrightarrow> x = y"
  by pat_completeness auto

lemma json_member_size: "(k, v) \<in> set ms \<Longrightarrow> size v < Suc (size_list (size_prod (\<lambda>_. 0) size) ms)"
  by (induction ms) auto

lemma json_elem_size: "x \<in> set xs \<Longrightarrow> size (x :: json) < Suc (size_list size xs)"
  by (induction xs) auto

termination json_eq
  by (relation "measure (\<lambda>(x, y). size x)") (auto dest!: set_zip_leftD simp: json_member_size json_elem_size)

definition json_equal :: "json option \<Rightarrow> json option \<Rightarrow> bool" where
  "json_equal a b \<longleftrightarrow> (case (a, b) of (Some x, Some y) \<Rightarrow> json_eq x y | _ \<Rightarrow> False)"

lemma json_equal_string: "json_equal (Some (JString s)) b \<longleftrightarrow> b = Some (JString s)" "json_equal b (Some (JString s)) \<longleftrightarrow> b = Some (JString s)"
  by (cases b; cases "the b"; auto simp: json_equal_def)+

text \<open>The parser and the compact printer of the JSON library.\<close>

record json_env =
  json_loads :: "string \<Rightarrow> json option"
  json_dumps :: "json \<Rightarrow> string option"

section \<open>Operations\<close>

definition BIDJsonObjectDel :: "json \<Rightarrow> string \<Rightarrow> u32 \<Rightarrow> BIDError + json" where
  "BIDJsonObjectDel dst key ulFlags =
     (case json_object_del dst key of
        None \<Rightarrow> if flag_set ulFlags BID_JSON_FLAG_REQUIRED then Inl BID_S_UNKNOWN_JSON_KEY else Inr dst
      | Some dst' \<Rightarrow> Inr dst')"

definition BIDJsonObjectSetOld :: "json \<Rightarrow> string \<Rightarrow> json option \<Rightarrow> u32 \<Rightarrow> BIDError + json" where
  "BIDJsonObjectSetOld dst key src ulFlags =
     (case src of
        None \<Rightarrow>
          if flag_set ulFlags BID_JSON_FLAG_REQUIRED then Inl BID_S_UNKNOWN_JSON_KEY
          else BIDJsonObjectDel dst key 0
      | Some v \<Rightarrow> (case json_object_set dst key v of
            None \<Rightarrow> Inl BID_S_NO_MEMORY
          | Some dst' \<Rightarrow> Inr dst'))"

definition BIDJsonObjectSetNew :: "json \<Rightarrow> string \<Rightarrow> json option \<Rightarrow> u32 \<Rightarrow> BIDError + json" where
  "BIDJsonObjectSetNew dst key src ulFlags =
     BIDJsonObjectSetOld dst key src (ulFlags AND NOT BID_JSON_FLAG_CONSUME_REF)"

definition BIDJsonObjectSet :: "json \<Rightarrow> string \<Rightarrow> json option \<Rightarrow> u32 \<Rightarrow> BIDError + json" where
  "BIDJsonObjectSet dst key src ulFlags =
     (if flag_set ulFlags BID_JSON_FLAG_CONSUME_REF
      then BIDJsonObjectSetNew dst key src ulFlags
      else BIDJsonObjectSetOld dst key src ulFlags)"

definition BIDAllocJsonObject :: json where
  "BIDAllocJsonObject = JObject []"

definition BIDJsonBinaryValue :: "byte list \<Rightarrow> BIDError + json" where
  "BIDJsonBinaryValue pbData = bail (BIDBase64UrlEncode pbData) (\<lambda>szData. Inr (JString szData))"

definition BIDJsonObjectSetBinaryValue :: "json \<Rightarrow> string \<Rightarrow> byte list \<Rightarrow> BIDError + json" where
  "BIDJsonObjectSetBinaryValue dst key pbData =
     bail (BIDJsonBinaryValue pbData) (\<lambda>value.
       BIDJsonObjectSet dst key (Some value) BID_JSON_FLAG_CONSUME_REF)"

definition BIDEncodeJson :: "'x json_env_scheme \<Rightarrow> json \<Rightarrow> BIDError + string" where
  "BIDEncodeJson env jData =
     (case json_dumps env jData of
        None \<Rightarrow> Inl BID_S_CANNOT_ENCODE_JSON
      | Some szJson \<Rightarrow> BIDBase64UrlEncode (bytes_of_string szJson))"

definition BIDDecodeJson :: "'x json_env_scheme \<Rightarrow> string \<Rightarrow> BIDError + json" where
  "BIDDecodeJson env encodedJson =
     bail (BIDBase64UrlDecode encodedJson None) (\<lambda>szJson.
       some_or (json_loads env (c_string szJson)) BID_S_INVALID_JSON)"

definition BIDGetJsonStringValue :: "json option \<Rightarrow> string \<Rightarrow> BIDError + string" where
  "BIDGetJsonStringValue json key =
     some_or (json_string_value (json_object_get json key)) BID_S_UNKNOWN_JSON_KEY"

text \<open>
  The values that are strings; the result pointer stays \<^verbatim>\<open>NULL\<close> (\<open>None\<close>) when the key is
  missing or the value is neither a string nor an array.  The function ends with
  \<^verbatim>\<open>return BID_S_OK\<close>, whatever \<^verbatim>\<open>err\<close> is.
\<close>

definition BIDGetJsonStringValueArray :: "json option \<Rightarrow> string option \<Rightarrow> BIDError + string list option" where
  "BIDGetJsonStringValueArray json szKey =
     (let json = (case szKey of None \<Rightarrow> json | Some k \<Rightarrow> json_object_get json k) in
      case json of
        Some (JString s) \<Rightarrow> Inr (Some [s])
      | Some (JArray xs) \<Rightarrow> Inr (Some (List.map_filter (\<lambda>v. json_string_value (Some v)) xs))
      | _ \<Rightarrow> Inr None)"

definition BIDGetJsonBinaryValue :: "json option \<Rightarrow> string \<Rightarrow> BIDError + byte list" where
  "BIDGetJsonBinaryValue json key =
     bail (some_or (json_string_value (json_object_get json key)) BID_S_UNKNOWN_JSON_KEY)
       (\<lambda>src. BIDBase64UrlDecode src None)"

text \<open>Times are kept in seconds in the program and in milliseconds in JSON; the C division
  truncates.\<close>

definition BIDGetJsonTimestampValue :: "json option \<Rightarrow> string \<Rightarrow> BIDError + int" where
  "BIDGetJsonTimestampValue json key =
     (case json_object_get json key of
        None \<Rightarrow> Inl BID_S_UNKNOWN_JSON_KEY
      | Some j \<Rightarrow> Inr (json_integer_value (Some j) sdiv 1000))"

text \<open>A caller that ignores the code sees \<^verbatim>\<open>*ts = 0\<close> after a failure.\<close>

definition timestamp_or_zero :: "BIDError + int \<Rightarrow> int" where
  "timestamp_or_zero r = (case r of Inl _ \<Rightarrow> 0 | Inr ts \<Rightarrow> ts)"

definition BIDSetJsonTimestampValue :: "json \<Rightarrow> string \<Rightarrow> int \<Rightarrow> BIDError + json" where
  "BIDSetJsonTimestampValue json key ts =
     BIDJsonObjectSet json key (Some (JInteger (ts * 1000))) BID_JSON_FLAG_CONSUME_REF"

definition BIDJsonUInt32Value :: "json option \<Rightarrow> u32" where
  "BIDJsonUInt32Value object = word_of_int (json_integer_value object)"

definition BIDOptionsMap :: "(u32 \<times> u32 \<times> string) list" where
  "BIDOptionsMap =
     [(BID_ACQUIRE_FLAG_EXTRA_ROUND_TRIP, BID_VERIFY_FLAG_EXTRA_ROUND_TRIP, ''xrt''),
      (BID_ACQUIRE_FLAG_DCE, BID_VERIFY_FLAG_DCE, ''dce''),
      (BID_ACQUIRE_FLAG_IDENTIFY, BID_VERIFY_FLAG_IDENTIFY, ''ify''),
      (BID_ACQUIRE_FLAG_MUTUAL_AUTH, BID_VERIFY_FLAG_MUTUAL_AUTH, ''ma'')]"

definition BIDMakeProtocolOpts :: "u32 \<Rightarrow> BIDError + json option" where
  "BIDMakeProtocolOpts ulOpts =
     (let opts = map (\<lambda>(acq, ver, szOpt). JString szOpt)
                   (filter (\<lambda>(acq, ver, szOpt). flag_set ulOpts acq) BIDOptionsMap)
      in Inr (if opts = [] then None else Some (JArray opts)))"

text \<open>The inner loop: the first entry of the map with the name, if any.\<close>

definition parse_opt :: "json \<Rightarrow> u32 \<Rightarrow> u32" where
  "parse_opt opt pulOpts =
     (case json_string_value (Some opt) of
        None \<Rightarrow> pulOpts
      | Some szOpt \<Rightarrow>
          (case find (\<lambda>(acq, ver, name). szOpt = name) BIDOptionsMap of
             None \<Rightarrow> pulOpts
           | Some (acq, ver, name) \<Rightarrow> pulOpts OR ver))"

definition BIDParseProtocolOpts :: "json option \<Rightarrow> u32 \<Rightarrow> BIDError + u32" where
  "BIDParseProtocolOpts opts pulOpts =
     (case opts of
        None \<Rightarrow> Inr pulOpts
      | Some j \<Rightarrow>
          if \<not> json_is_array (Some j) then Inl BID_S_INVALID_JSON
          else Inr (fold parse_opt (json_array_elems (Some j)) pulOpts))"

text \<open>
  The scan of \<^verbatim>\<open>_BIDHostifySpn\<close>: \<open>bEscape\<close> counts pending backslashes, \<open>host\<close> is the text
  from \<^verbatim>\<open>szSpnHost\<close> on, \<open>None\<close> while that pointer is \<^verbatim>\<open>NULL\<close>.
\<close>

fun hostify_loop :: "string \<Rightarrow> nat \<Rightarrow> string option \<Rightarrow> string option" where
  "hostify_loop [] bEscape host = host"
| "hostify_loop (c # q) bEscape host =
     (if c = CHR 0x5C then hostify_loop q (Suc bEscape) (map_option (\<lambda>h. h @ [c]) host)
      else if bEscape \<noteq> 0 then hostify_loop q 0 (map_option (\<lambda>h. h @ [c]) host)
      else if host = None \<and> c = CHR ''/'' then hostify_loop q bEscape (Some [])
      else if c = CHR ''/'' \<or> c = CHR ''@'' then host
      else hostify_loop q bEscape (map_option (\<lambda>h. h @ [c]) host))"

definition BIDHostifySpn :: "string \<Rightarrow> BIDError + string" where
  "BIDHostifySpn szSpn =
     (case hostify_loop szSpn 0 None of
        None \<Rightarrow> Inl BID_S_BAD_AUDIENCE
      | Some host \<Rightarrow> Inr (''host/'' @ map tolower host))"

section \<open>Lemmas\<close>

lemma json_object_get_set [simp]:
  "json_object_set dst key v = Some dst' \<Longrightarrow>
    json_object_get (Some dst') k = (if k = key then Some v else json_object_get (Some dst) k)"
  by (cases dst) (auto simp: update_conv')

lemma json_object_get_del [simp]:
  "json_object_del dst key = Some dst' \<Longrightarrow>
    json_object_get (Some dst') k = (if k = key then None else json_object_get (Some dst) k)"
  by (cases dst) (auto simp: delete_conv' split: if_splits)

lemma json_object_del_None: "json_object_del dst key = None \<longleftrightarrow> json_object_get (Some dst) key = None"
  by (cases dst) auto

lemma json_object_get_None [simp]: "json_object_get None k = None"
  by simp

text \<open>What a successful store does to every key; a missing optional source removes the key.\<close>

lemma BIDJsonObjectDel_get:
  "BIDJsonObjectDel dst key fl = Inr dst' \<Longrightarrow>
    json_object_get (Some dst') k = (if k = key then None else json_object_get (Some dst) k)"
  by (auto simp: BIDJsonObjectDel_def json_object_del_None split: option.splits if_splits)

lemma BIDJsonObjectSet_get:
  "BIDJsonObjectSet dst key src fl = Inr dst' \<Longrightarrow>
    json_object_get (Some dst') k = (if k = key then src else json_object_get (Some dst) k)"
  by (auto simp: BIDJsonObjectSet_def BIDJsonObjectSetNew_def BIDJsonObjectSetOld_def
      BIDJsonObjectDel_get split: option.splits if_splits)

lemma BIDJsonObjectSet_object:
  "BIDJsonObjectSet (JObject ms) key src fl = Inr dst' \<Longrightarrow> json_is_object (Some dst')"
  by (auto simp: BIDJsonObjectSet_def BIDJsonObjectSetNew_def BIDJsonObjectSetOld_def
      BIDJsonObjectDel_def split: option.splits if_splits)

lemma BIDJsonObjectSet_some [simp]:
  "BIDJsonObjectSet (JObject ms) key (Some v) fl = Inr (JObject (AList.update key v ms))"
  by (simp add: BIDJsonObjectSet_def BIDJsonObjectSetNew_def BIDJsonObjectSetOld_def)

lemma BIDJsonObjectSet_none: "BIDJsonObjectSet (JObject ms) key None 0 = Inr (JObject (AList.delete key ms))"
proof (cases "map_of ms key")
  case None
  then have "key \<notin> fst ` set ms" by (simp add: map_of_eq_None_iff)
  then have "AList.delete key ms = ms" by (rule delete_id)
  with None show ?thesis by (simp add: BIDJsonObjectSet_def BIDJsonObjectSetOld_def BIDJsonObjectDel_def)
qed (simp add: BIDJsonObjectSet_def BIDJsonObjectSetOld_def BIDJsonObjectDel_def)

text \<open>Optional stores and removals in an object always succeed.\<close>

lemma BIDJsonObjectDel_opt: "\<exists>j'. BIDJsonObjectDel j key 0 = Inr j' \<and> (json_is_object (Some j) = json_is_object (Some j'))"
  by (cases j) (auto simp: BIDJsonObjectDel_def)

lemma BIDJsonObjectSet_opt:
  assumes "json_is_object (Some j)"
  shows "\<exists>j'. BIDJsonObjectSet j key src 0 = Inr j' \<and> json_is_object (Some j')"
proof (cases src)
  case None
  then show ?thesis using BIDJsonObjectDel_opt[of j key] assms
    by (auto simp: BIDJsonObjectSet_def BIDJsonObjectSetOld_def)
next
  case (Some v)
  with assms show ?thesis by (cases j) auto
qed

lemma sdiv_1000: "(ts * 1000) sdiv 1000 = (ts::int)"
proof -
  have "- (ts * 1000) = (- ts) * 1000" by simp
  then have "- (ts * 1000) div 1000 = - ts" by (metis nonzero_mult_div_cancel_right zero_neq_numeral)
  then show ?thesis by (auto simp: signed_divide_int_def sgn_if abs_if)
qed

lemma BIDSetJsonTimestampValue_get:
  assumes "BIDSetJsonTimestampValue j key ts = Inr j'"
  shows "BIDGetJsonTimestampValue (Some j') key = Inr ts"
  using BIDJsonObjectSet_get[OF assms[unfolded BIDSetJsonTimestampValue_def], of key]
  by (simp add: BIDGetJsonTimestampValue_def sdiv_1000)

lemma BIDEncodeJson_Inr:
  "BIDEncodeJson env j = Inr s \<longleftrightarrow>
    (\<exists>t. json_dumps env j = Some t \<and> BIDBase64UrlEncode (bytes_of_string t) = Inr s)"
  by (auto simp: BIDEncodeJson_def split: option.splits)

text \<open>
  The documented behaviour of the JSON library that the encoding relies on: what it printed it
  parses back, and the text it prints has no NUL character.
\<close>

definition json_library :: "'x json_env_scheme \<Rightarrow> bool" where
  "json_library env \<longleftrightarrow>
     (\<forall>j t. json_dumps env j = Some t \<longrightarrow> json_loads env t = Some j \<and> CHR 0x00 \<notin> set t)"

lemma json_codec:
  assumes "json_library env"
  shows "text_codec (BIDEncodeJson env) (BIDDecodeJson env) (set base64url_chars)"
proof
  fix j s assume "BIDEncodeJson env j = Inr s"
  then obtain t where t: "json_dumps env j = Some t" "BIDBase64UrlEncode (bytes_of_string t) = Inr s"
    by (auto simp: BIDEncodeJson_Inr)
  with assms show "BIDDecodeJson env s = Inr j"
    by (simp add: BIDDecodeJson_def b64url.dec_enc json_library_def c_string_bytes_of_string)
  show "set s \<subseteq> set base64url_chars" using b64url.enc_alphabet[OF t(2)] .
qed

text \<open>What the scan consumes after the host has started, it consumes again when it is run on
  the lowercase text.\<close>

lemma hostify_loop_again:
  "hostify_loop q e (Some h) = Some h' \<Longrightarrow>
    \<exists>x. h' = h @ x \<and> (\<forall>h2. hostify_loop (map tolower x) e (Some h2) = Some (h2 @ map tolower x))"
proof (induction q arbitrary: e h)
  case Nil
  then show ?case by auto
next
  case (Cons c q)
  show ?case
  proof (cases "c \<noteq> CHR 0x5C \<and> e = 0 \<and> (c = CHR ''/'' \<or> c = CHR ''@'')")
    case True
    with Cons.prems have "h' = h" by auto
    then show ?thesis by auto
  next
    case False
    define e' where "e' = (if c = CHR 0x5C then Suc e else 0)"
    have step: "hostify_loop (d # r) e (Some h2) = hostify_loop r e' (Some (h2 @ [d]))"
      if "d = CHR 0x5C \<longleftrightarrow> c = CHR 0x5C" "d = CHR ''/'' \<longleftrightarrow> c = CHR ''/''"
        "d = CHR ''@'' \<longleftrightarrow> c = CHR ''@''" for d r h2
      using that False by (auto simp: e'_def)
    from Cons.prems have "hostify_loop q e' (Some (h @ [c])) = Some h'"
      by (simp only: step)
    from Cons.IH[OF this] obtain x where x: "h' = (h @ [c]) @ x"
      "\<And>h2. hostify_loop (map tolower x) e' (Some h2) = Some (h2 @ map tolower x)" by blast
    have "hostify_loop (map tolower (c # x)) e (Some h2) = Some (h2 @ map tolower (c # x))" for h2
      unfolding list.map by (subst step) (simp_all add: x(2))
    with x(1) show ?thesis by (intro exI[of _ "c # x"]) simp
  qed
qed

lemma hostify_loop_start: "hostify_loop q e None = Some h \<Longrightarrow> \<exists>q'. hostify_loop q' 0 (Some []) = Some h"
  by (induction q e "None :: string option" rule: hostify_loop.induct) (auto split: if_splits)

section \<open>Properties\<close>

text \<open>The option names an initiator sends for its acquire flags are parsed by the acceptor
  into exactly the corresponding verify flags, added to those it has already set.\<close>

theorem protocol_opts_roundtrip:
  "\<exists>opts. BIDMakeProtocolOpts ulOpts = Inr opts \<and>
    BIDParseProtocolOpts opts ulRet = Inr
      (or_flag (flag_set ulOpts BID_ACQUIRE_FLAG_MUTUAL_AUTH) BID_VERIFY_FLAG_MUTUAL_AUTH
      (or_flag (flag_set ulOpts BID_ACQUIRE_FLAG_IDENTIFY) BID_VERIFY_FLAG_IDENTIFY
      (or_flag (flag_set ulOpts BID_ACQUIRE_FLAG_DCE) BID_VERIFY_FLAG_DCE
      (or_flag (flag_set ulOpts BID_ACQUIRE_FLAG_EXTRA_ROUND_TRIP) BID_VERIFY_FLAG_EXTRA_ROUND_TRIP
        ulRet))))"
  by (cases "flag_set ulOpts BID_ACQUIRE_FLAG_MUTUAL_AUTH"; cases "flag_set ulOpts BID_ACQUIRE_FLAG_IDENTIFY";
      cases "flag_set ulOpts BID_ACQUIRE_FLAG_DCE"; cases "flag_set ulOpts BID_ACQUIRE_FLAG_EXTRA_ROUND_TRIP")
    (simp_all add: BIDMakeProtocolOpts_def BIDParseProtocolOpts_def BIDOptionsMap_def parse_opt_def
      or_flag_def)

text \<open>Turning an audience into a host principal gives a principal in canonical form: doing it
  again changes nothing.\<close>

theorem hostify_spn_idempotent:
  assumes "BIDHostifySpn szSpn = Inr host"
  shows "BIDHostifySpn host = Inr host"
proof -
  from assms obtain h where h: "hostify_loop szSpn 0 None = Some h" "host = ''host/'' @ map tolower h"
    by (auto simp: BIDHostifySpn_def split: option.splits)
  from hostify_loop_start[OF h(1)] obtain q where "hostify_loop q 0 (Some []) = Some h" ..
  from hostify_loop_again[OF this]
  have "hostify_loop (map tolower h) 0 (Some []) = Some (map tolower h)" by auto
  then have "hostify_loop host 0 None = Some (map tolower h)" by (simp add: h(2))
  then show ?thesis by (simp add: BIDHostifySpn_def h(2) comp_def)
qed

theorem hostify_spn_idempotent_witness:
  "BIDHostifySpn ''HTTP/WWW.Example.COM/x@R'' = Inr ''host/www.example.com''
   \<and> BIDHostifySpn ''host/www.example.com'' = Inr ''host/www.example.com''"
proof -
  have h: "BIDHostifySpn ''HTTP/WWW.Example.COM/x@R'' = Inr ''host/www.example.com''"
    by code_simp
  with hostify_spn_idempotent[OF h] show ?thesis by simp
qed

end
