(* ===== verification/Crypto.thy ===== *)
theory Crypto
  imports Json
begin

text \<open>
  The signature algorithms, digests and keys of \<^verbatim>\<open>libbrowserid/bid_openssl.c\<close> and
  \<^verbatim>\<open>libbrowserid/bid_crypto.c\<close>.  The primitives of the OpenSSL library are fields of the
  record \<open>crypto_env\<close>, which extends the JSON environment; everything the program does around
  them (key decoding, algorithm table, digest prefixes, signature layout, comparison, key
  search, key derivation) is defined here.
\<close>

section \<open>Environment and data\<close>

datatype EVP_MD = EVP_sha1 | EVP_sha224 | EVP_sha256 | EVP_sha384 | EVP_sha512

type_synonym BIGNUM = int

record RSA =
  RSA_n :: BIGNUM
  RSA_e :: BIGNUM
  RSA_d :: "BIGNUM option"

record DSA =
  DSA_p :: BIGNUM
  DSA_q :: BIGNUM
  DSA_g :: BIGNUM
  DSA_pub_key :: "BIGNUM option"
  DSA_priv_key :: "BIGNUM option"

datatype EVP_PKEY = EVP_PKEY_RSA RSA | EVP_PKEY_DSA DSA | EVP_PKEY_OTHER

text \<open>
  A parsed certificate, by what the program reads from it: the public key, the alternative
  names (\<open>None\<close> without the extension), the names of subject and issuer, the validity period in
  ASN.1 form and the key usages.  The value of an OtherName is \<open>None\<close> when it is not a string.
\<close>

datatype GENERAL_NAME =
    GEN_OTHERNAME "string option" "string option"
  | GEN_EMAIL string
  | GEN_DNS string
  | GEN_URI string
  | GEN_UNSUPPORTED

record X509_NAME =
  name_CN :: "string option"
  name_DN :: "string option"

record X509 =
  X509_get_pubkey :: "EVP_PKEY option"
  X509_subject_alt_name :: "GENERAL_NAME list option"
  X509_get_subject_name :: X509_NAME
  X509_get_issuer_name :: X509_NAME
  X509_get_notBefore :: string
  X509_get_notAfter :: string
  X509_ext_key_usage :: "string list option"

text \<open>
  The OpenSSL functions the program calls.  \<open>None\<close> is an error return or \<^verbatim>\<open>NULL\<close>.
  The PEM readers take the path of the file; \<open>X509_verify\<close> stands for the set-up of a store with
  a CA file and directory (\<open>None\<close> when it fails) and \<^verbatim>\<open>X509_verify_cert\<close> on it.  The elliptic
  curve functions take the curve first; a point is its pair of affine coordinates.
  \<open>malloc_bytes n\<close> is the unspecified content of a fresh allocation of \<open>n\<close> bytes.
\<close>

record crypto_env = json_env +
  EVP_MD_size :: "EVP_MD \<Rightarrow> nat"
  EVP_Digest :: "EVP_MD \<Rightarrow> byte list \<Rightarrow> byte list"
  HMAC :: "EVP_MD \<Rightarrow> byte list \<Rightarrow> byte list \<Rightarrow> byte list"
  BN_bin2bn :: "byte list \<Rightarrow> BIGNUM"
  BN_bn2bin :: "BIGNUM \<Rightarrow> byte list"
  BN_dec2bn :: "string \<Rightarrow> BIGNUM option"
  BN_hex2bn :: "string \<Rightarrow> BIGNUM option"
  RSA_size :: "RSA \<Rightarrow> nat"
  RSA_private_encrypt :: "RSA \<Rightarrow> byte list \<Rightarrow> byte list option"
  RSA_public_decrypt :: "RSA \<Rightarrow> byte list \<Rightarrow> byte list option"
  DSA_do_sign :: "DSA \<Rightarrow> byte list \<Rightarrow> (BIGNUM \<times> BIGNUM) option"
  DSA_do_verify :: "DSA \<Rightarrow> byte list \<Rightarrow> BIGNUM \<times> BIGNUM \<Rightarrow> int"
  d2i_X509 :: "byte list \<Rightarrow> X509 option"
  X509_verify :: "string option \<Rightarrow> string option \<Rightarrow> X509 \<Rightarrow> X509 list \<Rightarrow> bool option"
  PEM_read_PrivateKey :: "string \<Rightarrow> EVP_PKEY option"
  PEM_read_X509 :: "string \<Rightarrow> byte list option"
  EC_KEY_generate_key :: "nat \<Rightarrow> (BIGNUM \<times> BIGNUM \<times> BIGNUM) option"
  EC_POINT_valid :: "nat \<Rightarrow> BIGNUM \<times> BIGNUM \<Rightarrow> bool"
  ECDH_compute_key :: "nat \<Rightarrow> BIGNUM \<Rightarrow> BIGNUM \<times> BIGNUM \<Rightarrow> byte list option"
  RAND_bytes :: "nat \<Rightarrow> byte list option"
  malloc_bytes :: "nat \<Rightarrow> byte list"

text \<open>The constant \<^verbatim>\<open>EVP_MAX_MD_SIZE\<close> of OpenSSL, the size of the program's digest buffers.\<close>

abbreviation EVP_MAX_MD_SIZE :: nat where "EVP_MAX_MD_SIZE \<equiv> 64"

text \<open>
  \<^verbatim>\<open>struct BIDJWTDesc\<close>.  \<open>EncData\<close> is the text of the token, of which the first
  \<open>EncDataLength\<close> characters are covered by the signature; \<^verbatim>\<open>SignatureLength\<close> is the length of
  \<open>Signature\<close>.
\<close>

record BIDJWTDesc =
  EncData :: "string option"
  EncDataLength :: nat
  Header :: "json option"
  Payload :: "json option"
  Signature :: "byte list"

definition jwt_data :: "BIDJWTDesc \<Rightarrow> byte list" where
  "jwt_data jwt = (case EncData jwt of None \<Rightarrow> []
     | Some s \<Rightarrow> take (EncDataLength jwt) (bytes_of_string s))"

text \<open>The three sets of function pointers an entry of the algorithm table can hold.\<close>

datatype SignatureImpl = RSASignature | DSASignature | HMACSHASignature

record BIDJWTAlgorithmDesc =
  szAlgID :: string
  szKeyAlgID :: string
  cbKey :: nat
  pbOid :: "byte list"
  SigImpl :: SignatureImpl

datatype BIDSecretHandleDesc = SecretHandleDesc (pbSecret: "byte list option")

section \<open>Keys\<close>

definition BIDIsLegacyJWK :: "json option \<Rightarrow> bool" where
  "BIDIsLegacyJWK jwk =
     (case json_string_value (json_object_get jwk ''version'') of
        None \<Rightarrow> True
      | Some version \<Rightarrow> version \<noteq> ''2012.08.15'')"

definition isdigit :: "char \<Rightarrow> bool" where
  "isdigit c \<longleftrightarrow> 48 \<le> (of_char c :: nat) \<and> (of_char c :: nat) \<le> 57"

text \<open>
  Base64url numbers are decoded into a stack buffer of 2048 bytes; the outcome of a store past
  its end is not an error the caller can see, so it is not turned into \<^verbatim>\<open>BID_S_INVALID_KEY\<close>.
\<close>

definition BIDGetJsonBNValue ::
  "'x crypto_env_scheme \<Rightarrow> json option \<Rightarrow> string option \<Rightarrow> u32 \<Rightarrow> BIDError + BIGNUM" where
  "BIDGetJsonBNValue env jwk key encoding =
     (let value = (case key of Some k \<Rightarrow> json_object_get jwk k | None \<Rightarrow> jwk) in
      if value = None then Inl BID_S_NO_KEY
      else case json_string_value value of
        None \<Rightarrow> Inl BID_S_INVALID_KEY
      | Some szValue \<Rightarrow>
          if encoding = BID_ENCODING_BASE64_URL \<or> \<not> BIDIsLegacyJWK jwk then
            (case BIDBase64UrlDecode szValue (Some 2048) of
               Inr buf \<Rightarrow> Inr (BN_bin2bn env buf)
             | Inl err2 \<Rightarrow> Inl (if err2 = BID_UNDEFINED then BID_UNDEFINED else BID_S_INVALID_KEY))
          else some_or (if list_all isdigit szValue then BN_dec2bn env szValue
                        else BN_hex2bn env szValue) BID_S_INVALID_KEY)"

definition BIDSetJsonBNValue ::
  "'x crypto_env_scheme \<Rightarrow> json \<Rightarrow> string \<Rightarrow> BIGNUM \<Rightarrow> BIDError + json" where
  "BIDSetJsonBNValue env jwk key bn =
     bail (BIDJsonBinaryValue (BN_bn2bin env bn)) (\<lambda>j. BIDJsonObjectSet jwk key (Some j) 0)"

definition BIDEvpForAlgorithmName :: "string option \<Rightarrow> BIDError + EVP_MD" where
  "BIDEvpForAlgorithmName alg =
     (case alg of
        None \<Rightarrow> Inl BID_S_UNKNOWN_ALGORITHM
      | Some name \<Rightarrow>
          if length name \<noteq> 4 then Inl BID_S_UNKNOWN_ALGORITHM
          else if name = ''S128'' then Inr EVP_sha1
          else if name = ''S512'' then Inr EVP_sha512
          else if name = ''S384'' then Inr EVP_sha384
          else if name = ''S256'' then Inr EVP_sha256
          else if name = ''S224'' then Inr EVP_sha224
          else Inl BID_S_UNKNOWN_ALGORITHM)"

definition BIDEvpForAlgorithm :: "BIDJWTAlgorithmDesc \<Rightarrow> BIDError + EVP_MD" where
  "BIDEvpForAlgorithm algorithm =
     (if length (szAlgID algorithm) \<noteq> 5 then Inl BID_S_CRYPTO_ERROR
      else BIDEvpForAlgorithmName (Some (drop 1 (szAlgID algorithm))))"

definition BIDMakeShaDigest ::
  "'x crypto_env_scheme \<Rightarrow> BIDJWTAlgorithmDesc \<Rightarrow> BIDJWTDesc \<Rightarrow> nat \<Rightarrow> BIDError + byte list" where
  "BIDMakeShaDigest env algorithm jwt digestLength =
     bail (BIDEvpForAlgorithm algorithm) (\<lambda>md.
     bail (guard (digestLength < EVP_MD_size env md) BID_S_BUFFER_TOO_SMALL) (\<lambda>_.
     Inr (take digestLength (EVP_Digest env md (jwt_data jwt)))))"

definition BIDCertDataToX509 ::
  "'x crypto_env_scheme \<Rightarrow> json option \<Rightarrow> nat \<Rightarrow> BIDError + X509" where
  "BIDCertDataToX509 env x5c index =
     (if x5c = None then Inl BID_S_MISSING_CERT
      else if index < length (json_array_elems x5c) then
        bail (some_or (json_string_value (Some (json_array_elems x5c ! index))) BID_S_MISSING_CERT)
          (\<lambda>szCert. bail (BIDBase64UrlDecode szCert None)
            (\<lambda>pbData. some_or (d2i_X509 env pbData) BID_S_MISSING_CERT))
      else Inl BID_S_MISSING_CERT)"

definition BIDCertDataToX509RsaKey :: "'x crypto_env_scheme \<Rightarrow> json option \<Rightarrow> BIDError + RSA" where
  "BIDCertDataToX509RsaKey env x5c =
     bail (BIDCertDataToX509 env x5c 0) (\<lambda>x509.
       case X509_get_pubkey x509 of Some (EVP_PKEY_RSA rsa) \<Rightarrow> Inr rsa | _ \<Rightarrow> Inl BID_S_NO_KEY)"

definition BIDMakeJwtRsaKey :: "'x crypto_env_scheme \<Rightarrow> json option \<Rightarrow> bool \<Rightarrow> BIDError + RSA" where
  "BIDMakeJwtRsaKey env jwk public =
     bail (BIDGetJsonBNValue env jwk (Some ''n'') BID_ENCODING_UNKNOWN) (\<lambda>n.
     bail (BIDGetJsonBNValue env jwk (Some ''e'') BID_ENCODING_UNKNOWN) (\<lambda>e.
     if public then Inr \<lparr>RSA_n = n, RSA_e = e, RSA_d = None\<rparr>
     else bail (BIDGetJsonBNValue env jwk (Some ''d'') BID_ENCODING_UNKNOWN) (\<lambda>d.
       Inr \<lparr>RSA_n = n, RSA_e = e, RSA_d = Some d\<rparr>)))"

definition BIDMakeRsaKey :: "'x crypto_env_scheme \<Rightarrow> json option \<Rightarrow> bool \<Rightarrow> BIDError + RSA" where
  "BIDMakeRsaKey env jwk public =
     (let x5c = json_object_get jwk ''x5c'' in
      if public \<and> x5c \<noteq> None then BIDCertDataToX509RsaKey env x5c
      else BIDMakeJwtRsaKey env jwk public)"

definition RSAKeySize :: "'x crypto_env_scheme \<Rightarrow> json option \<Rightarrow> BIDError + nat" where
  "RSAKeySize env jwk = bail (BIDMakeRsaKey env jwk False) (\<lambda>rsa. Inr (RSA_size env rsa))"

text \<open>
  The certificate check of the DSA key tests for an \<^emph>\<open>RSA\<close> key and then reads the union's DSA
  member: a DSA certificate is refused, an RSA one is used as if it were a DSA structure.
\<close>

definition BIDCertDataToX509DsaKey :: "'x crypto_env_scheme \<Rightarrow> json option \<Rightarrow> BIDError + DSA" where
  "BIDCertDataToX509DsaKey env x5c =
     bail (BIDCertDataToX509 env x5c 0) (\<lambda>x509.
       case X509_get_pubkey x509 of Some (EVP_PKEY_RSA rsa) \<Rightarrow> Inl BID_UNDEFINED | _ \<Rightarrow> Inl BID_S_NO_KEY)"

definition BIDMakeJwtDsaKey :: "'x crypto_env_scheme \<Rightarrow> json option \<Rightarrow> bool \<Rightarrow> BIDError + DSA" where
  "BIDMakeJwtDsaKey env jwk public =
     bail (BIDGetJsonBNValue env jwk (Some ''p'') BID_ENCODING_UNKNOWN) (\<lambda>p.
     bail (BIDGetJsonBNValue env jwk (Some ''q'') BID_ENCODING_UNKNOWN) (\<lambda>q.
     bail (BIDGetJsonBNValue env jwk (Some ''g'') BID_ENCODING_UNKNOWN) (\<lambda>g.
     if public then bail (BIDGetJsonBNValue env jwk (Some ''y'') BID_ENCODING_UNKNOWN) (\<lambda>y.
       Inr \<lparr>DSA_p = p, DSA_q = q, DSA_g = g, DSA_pub_key = Some y, DSA_priv_key = None\<rparr>)
     else bail (BIDGetJsonBNValue env jwk (Some ''x'') BID_ENCODING_UNKNOWN) (\<lambda>x.
       Inr \<lparr>DSA_p = p, DSA_q = q, DSA_g = g, DSA_pub_key = None, DSA_priv_key = Some x\<rparr>))))"

definition BIDMakeDsaKey :: "'x crypto_env_scheme \<Rightarrow> json option \<Rightarrow> bool \<Rightarrow> BIDError + DSA" where
  "BIDMakeDsaKey env jwk public =
     (let x5c = json_object_get jwk ''x5c'' in
      if public \<and> x5c \<noteq> None then BIDCertDataToX509DsaKey env x5c
      else BIDMakeJwtDsaKey env jwk public)"

definition DSAKeySize :: "'x crypto_env_scheme \<Rightarrow> json option \<Rightarrow> BIDError + nat" where
  "DSAKeySize env jwk =
     bail (BIDGetJsonBNValue env jwk (Some ''p'') BID_ENCODING_UNKNOWN) (\<lambda>p.
       let n = length (BN_bn2bin env p) in
       Inr (if n < 160 then 160 else if n < 224 then 224 else if n < 256 then 256 else n))"

section \<open>Signatures\<close>

text \<open>
  \<^verbatim>\<open>_BIDTimingSafeCompare\<close>: \<open>None\<close> when it reads past a buffer, otherwise whether the buffers
  differ in the first \<open>n\<close> bytes.
\<close>

fun BIDTimingSafeCompare_loop :: "byte list \<Rightarrow> byte list \<Rightarrow> nat \<Rightarrow> byte \<Rightarrow> bool option" where
  "BIDTimingSafeCompare_loop p1 p2 0 ret = Some (ret \<noteq> 0)"
| "BIDTimingSafeCompare_loop (a # p1) (b # p2) (Suc n) ret =
     BIDTimingSafeCompare_loop p1 p2 n (ret OR (a XOR b))"
| "BIDTimingSafeCompare_loop _ _ (Suc n) ret = None"

definition BIDTimingSafeCompare :: "byte list \<Rightarrow> byte list \<Rightarrow> nat \<Rightarrow> bool option" where
  "BIDTimingSafeCompare b1 b2 n = BIDTimingSafeCompare_loop b1 b2 n 0"

definition RSAMakeSignature ::
  "'x crypto_env_scheme \<Rightarrow> BIDJWTAlgorithmDesc \<Rightarrow> BIDJWTDesc \<Rightarrow> json option \<Rightarrow> BIDError + byte list" where
  "RSAMakeSignature env algorithm jwt jwk =
     bail (BIDMakeRsaKey env jwk False) (\<lambda>rsa.
     bail (BIDMakeShaDigest env algorithm jwt EVP_MAX_MD_SIZE) (\<lambda>digest.
     some_or (RSA_private_encrypt env rsa (pbOid algorithm @ digest)) BID_S_CRYPTO_ERROR))"

definition RSAVerifySignature ::
  "'x crypto_env_scheme \<Rightarrow> BIDJWTAlgorithmDesc \<Rightarrow> BIDJWTDesc \<Rightarrow> json option \<Rightarrow> BIDError + bool" where
  "RSAVerifySignature env algorithm jwt jwk =
     bail (BIDMakeRsaKey env jwk True) (\<lambda>rsa.
     bail (BIDMakeShaDigest env algorithm jwt EVP_MAX_MD_SIZE) (\<lambda>digest.
     case RSA_public_decrypt env rsa (Signature jwt) of
       None \<Rightarrow> Inr False
     | Some signature \<Rightarrow>
         Inr (length signature = length (pbOid algorithm @ digest) \<and>
              BIDTimingSafeCompare signature (pbOid algorithm @ digest) (length signature) = Some False)))"

text \<open>\<^verbatim>\<open>memcpy\<close> into a buffer at an offset.\<close>

definition store_at :: "nat \<Rightarrow> byte list \<Rightarrow> byte list \<Rightarrow> byte list" where
  "store_at off bs buf = take off buf @ bs @ drop (off + length bs) buf"

definition DSAMakeSignature ::
  "'x crypto_env_scheme \<Rightarrow> BIDJWTAlgorithmDesc \<Rightarrow> BIDJWTDesc \<Rightarrow> json option \<Rightarrow> BIDError + byte list" where
  "DSAMakeSignature env algorithm jwt jwk =
     bail (BIDMakeShaDigest env algorithm jwt EVP_MAX_MD_SIZE) (\<lambda>digest.
     bail (BIDMakeDsaKey env jwk False) (\<lambda>dsa.
     bail (some_or (DSA_do_sign env dsa digest) BID_S_CRYPTO_ERROR) (\<lambda>(r, s).
     let digestLength = length digest in
     bail (guard (length (BN_bn2bin env r) > digestLength \<or> length (BN_bn2bin env s) > digestLength)
                 BID_S_CRYPTO_ERROR) (\<lambda>_.
     Inr (store_at digestLength (BN_bn2bin env s)
           (store_at 0 (BN_bn2bin env r) (malloc_bytes env (2 * digestLength))))))))"

definition DSAVerifySignature ::
  "'x crypto_env_scheme \<Rightarrow> BIDJWTAlgorithmDesc \<Rightarrow> BIDJWTDesc \<Rightarrow> json option \<Rightarrow> BIDError + bool" where
  "DSAVerifySignature env algorithm jwt jwk =
     bail (BIDMakeDsaKey env jwk True) (\<lambda>dsa.
     bail (BIDMakeShaDigest env algorithm jwt EVP_MAX_MD_SIZE) (\<lambda>digest.
     let digestLength = length digest in
     bail (guard (length (Signature jwt) \<noteq> 2 * digestLength) BID_S_INVALID_SIGNATURE) (\<lambda>_.
     let valid = DSA_do_verify env dsa digest
           (BN_bin2bn env (take digestLength (Signature jwt)),
            BN_bin2bn env (take digestLength (drop digestLength (Signature jwt)))) in
     if valid < 0 then Inl BID_S_CRYPTO_ERROR else Inr (valid \<noteq> 0))))"

definition BIDHMACSHA ::
  "'x crypto_env_scheme \<Rightarrow> BIDJWTAlgorithmDesc \<Rightarrow> BIDJWTDesc \<Rightarrow> json option \<Rightarrow> BIDError + byte list" where
  "BIDHMACSHA env algorithm jwt jwk =
     bail (BIDEvpForAlgorithm algorithm) (\<lambda>md.
     bail (BIDGetJsonBinaryValue jwk ''secret-key'') (\<lambda>pbKey.
     Inr (HMAC env md pbKey (jwt_data jwt))))"

definition HMACSHAMakeSignature ::
  "'x crypto_env_scheme \<Rightarrow> BIDJWTAlgorithmDesc \<Rightarrow> BIDJWTDesc \<Rightarrow> json option \<Rightarrow> BIDError + byte list" where
  "HMACSHAMakeSignature env algorithm jwt jwk = BIDHMACSHA env algorithm jwt jwk"

definition HMACSHAVerifySignature ::
  "'x crypto_env_scheme \<Rightarrow> BIDJWTAlgorithmDesc \<Rightarrow> BIDJWTDesc \<Rightarrow> json option \<Rightarrow> BIDError + bool" where
  "HMACSHAVerifySignature env algorithm jwt jwk =
     bail (BIDHMACSHA env algorithm jwt jwk) (\<lambda>digest.
     Inr (length (Signature jwt) = length digest \<and>
          BIDTimingSafeCompare (Signature jwt) digest (length digest) = Some False))"

text \<open>The DER prefix of a SHA-256 digest, which all RSA entries of the table carry.\<close>

definition sha256_oid :: "byte list" where
  "sha256_oid =
     [48, 49] \<comment> \<open>a sequence of 49 bytes\<close>
     @ [48, 13] \<comment> \<open>of a sequence of 13 bytes\<close>
     @ [6, 9] @ [96, 134, 72] @ [1, 101, 3] @ [4, 2, 1] \<comment> \<open>of the identifier of SHA-256\<close>
     @ [5, 0] @ [4, 32] \<comment> \<open>and no parameters, and 32 bytes of digest\<close>"

definition BIDJWTAlgorithms :: "BIDJWTAlgorithmDesc list" where
  "BIDJWTAlgorithms =
    [\<lparr>szAlgID = ''RS256'', szKeyAlgID = ''RSA'', cbKey = 0, pbOid = sha256_oid, SigImpl = RSASignature\<rparr>,
     \<lparr>szAlgID = ''RS128'', szKeyAlgID = ''RSA'', cbKey = 0, pbOid = sha256_oid, SigImpl = RSASignature\<rparr>,
     \<lparr>szAlgID = ''RS64'', szKeyAlgID = ''RSA'', cbKey = 0, pbOid = sha256_oid, SigImpl = RSASignature\<rparr>,
     \<lparr>szAlgID = ''DS256'', szKeyAlgID = ''DSA'', cbKey = 256, pbOid = [], SigImpl = DSASignature\<rparr>,
     \<lparr>szAlgID = ''DS128'', szKeyAlgID = ''DSA'', cbKey = 160, pbOid = [], SigImpl = DSASignature\<rparr>,
     \<lparr>szAlgID = ''HS256'', szKeyAlgID = ''HS'', cbKey = 0, pbOid = [], SigImpl = HMACSHASignature\<rparr>]"

text \<open>The calls through the function pointers of the table; the HMAC entry has no
  \<^verbatim>\<open>KeySize\<close>.\<close>

definition alg_MakeSignature ::
  "'x crypto_env_scheme \<Rightarrow> BIDJWTAlgorithmDesc \<Rightarrow> BIDJWTDesc \<Rightarrow> json option \<Rightarrow> BIDError + byte list" where
  "alg_MakeSignature env alg jwt key =
     (case SigImpl alg of
        RSASignature \<Rightarrow> RSAMakeSignature env alg jwt key
      | DSASignature \<Rightarrow> DSAMakeSignature env alg jwt key
      | HMACSHASignature \<Rightarrow> HMACSHAMakeSignature env alg jwt key)"

definition alg_VerifySignature ::
  "'x crypto_env_scheme \<Rightarrow> BIDJWTAlgorithmDesc \<Rightarrow> BIDJWTDesc \<Rightarrow> json option \<Rightarrow> BIDError + bool" where
  "alg_VerifySignature env alg jwt key =
     (case SigImpl alg of
        RSASignature \<Rightarrow> RSAVerifySignature env alg jwt key
      | DSASignature \<Rightarrow> DSAVerifySignature env alg jwt key
      | HMACSHASignature \<Rightarrow> HMACSHAVerifySignature env alg jwt key)"

definition alg_KeySize :: "'x crypto_env_scheme \<Rightarrow> BIDJWTAlgorithmDesc \<Rightarrow> json option \<Rightarrow> BIDError + nat" where
  "alg_KeySize env alg jwk =
     (case SigImpl alg of
        RSASignature \<Rightarrow> RSAKeySize env jwk
      | DSASignature \<Rightarrow> DSAKeySize env jwk
      | HMACSHASignature \<Rightarrow> Inl BID_UNDEFINED)"

section \<open>Key search\<close>

definition BIDKeyMatchesP ::
  "'x crypto_env_scheme \<Rightarrow> BIDJWTAlgorithmDesc \<Rightarrow> json option \<Rightarrow> BIDError + bool" where
  "BIDKeyMatchesP env algorithm jwk =
     (if jwk = None then Inr False
      else
        let isSecretKey = (json_object_get jwk ''secret-key'' \<noteq> None);
            alg = (if isSecretKey then Some ''HS''
                   else case json_string_value (json_object_get jwk ''algorithm'') of
                     Some a \<Rightarrow> Some a
                   | None \<Rightarrow> json_string_value (json_object_get jwk ''alg''))
        in case alg of
             None \<Rightarrow> Inr False
           | Some a \<Rightarrow>
               if take 2 a \<noteq> take 2 (szKeyAlgID algorithm) then Inr False
               else if cbKey algorithm \<noteq> 0 then
                 (case alg_KeySize env algorithm jwk of
                    Inl e \<Rightarrow> if e = BID_UNDEFINED then Inl BID_UNDEFINED else Inr False
                  | Inr keySize \<Rightarrow> Inr (keySize = cbKey algorithm))
               else Inr True)"

lemma json_object_get_size:
  "json_object_get (Some j) k = Some v \<Longrightarrow> size v < size j"
proof (cases j)
  case (JObject ms)
  assume "json_object_get (Some j) k = Some v"
  then have "(k, v) \<in> set ms" by (simp add: JObject map_of_SomeD)
  then have "size_prod (\<lambda>_. 0) size (k, v) \<le> size_list (size_prod (\<lambda>_. 0) size) ms"
    by (intro size_list_estimation') auto
  then show ?thesis by (simp add: JObject)
qed auto

lemma json_array_elems_size: "size_list size (json_array_elems (Some v)) \<le> size v"
  by (cases v) auto

function (sequential)
  BIDFindKeyInKeyset ::
    "'x crypto_env_scheme \<Rightarrow> BIDJWTAlgorithmDesc \<Rightarrow> json option \<Rightarrow> BIDError + json" and
  find_key_loop ::
    "'x crypto_env_scheme \<Rightarrow> BIDJWTAlgorithmDesc \<Rightarrow> BIDError \<Rightarrow> json list \<Rightarrow> BIDError + json"
where
  "BIDFindKeyInKeyset env algorithm None = Inl BID_S_INVALID_KEYSET"
| "BIDFindKeyInKeyset env algorithm (Some keyset) =
     (case json_object_get (Some keyset) ''keys'' of
        None \<Rightarrow>
          let jwk = (case json_object_get (Some keyset) ''public-key'' of
                       None \<Rightarrow> keyset | Some k \<Rightarrow> k)
          in bail (BIDKeyMatchesP env algorithm (Some jwk)) (\<lambda>m.
               if m then Inr jwk else Inl BID_S_INVALID_KEYSET)
      | Some keys \<Rightarrow> find_key_loop env algorithm BID_S_NO_KEY (json_array_elems (Some keys)))"
| "find_key_loop env algorithm err [] = Inl err"
| "find_key_loop env algorithm err (jwk # rest) =
     (case BIDFindKeyInKeyset env algorithm (Some jwk) of
        Inr key \<Rightarrow> Inr key
      | Inl e \<Rightarrow> if e = BID_UNDEFINED then Inl BID_UNDEFINED else find_key_loop env algorithm e rest)"
  by pat_completeness auto
termination
proof (relation "measure (case_sum (\<lambda>(_, _, ks). case_option 0 size ks)
                                   (\<lambda>(_, _, _, js). size_list size js))", goal_cases)
  case (2 env algorithm keyset keys)
  then show ?case
    using json_object_get_size[OF 2] json_array_elems_size[of keys] by simp
qed auto

section \<open>Digests\<close>

definition BIDMakeDigestInternal :: "'x crypto_env_scheme \<Rightarrow> json option \<Rightarrow> json \<Rightarrow> BIDError + json" where
  "BIDMakeDigestInternal env value digestInfo =
     bail (some_or (json_string_value (json_object_get (Some digestInfo) ''alg'')) BID_S_UNKNOWN_ALGORITHM) (\<lambda>name.
     bail (BIDEvpForAlgorithmName (Some name)) (\<lambda>md.
     bail (some_or (json_string_value value) BID_UNDEFINED) (\<lambda>szValue.
     bail (BIDJsonBinaryValue (EVP_Digest env md (bytes_of_string szValue))) (\<lambda>dig.
     BIDJsonObjectSet digestInfo ''dig'' (Some dig) BID_JSON_FLAG_REQUIRED))))"

definition BIDMakeDigest :: "'x crypto_env_scheme \<Rightarrow> json option \<Rightarrow> BIDError + json" where
  "BIDMakeDigest env value =
     (if \<not> json_is_string value then Inl BID_S_INVALID_PARAMETER
      else bail (BIDJsonObjectSet BIDAllocJsonObject ''alg'' (Some (JString ''S256''))
                  (BID_JSON_FLAG_REQUIRED OR BID_JSON_FLAG_CONSUME_REF))
        (\<lambda>digestInfo. BIDMakeDigestInternal env value digestInfo))"

definition BIDVerifyDigest :: "'x crypto_env_scheme \<Rightarrow> json option \<Rightarrow> json option \<Rightarrow> BIDError + unit" where
  "BIDVerifyDigest env value assertedDigestInfo =
     (if \<not> json_is_string value then Inl BID_S_INVALID_PARAMETER
      else bail (BIDJsonObjectSet BIDAllocJsonObject ''alg'' (json_object_get assertedDigestInfo ''alg'')
                  BID_JSON_FLAG_REQUIRED) (\<lambda>digestInfo.
        bail (BIDMakeDigestInternal env value digestInfo) (\<lambda>digestInfo.
        if json_equal (json_object_get (Some digestInfo) ''dig'') (json_object_get assertedDigestInfo ''dig'')
        then Inr () else Inl BID_S_INVALID_SIGNATURE)))"

definition BIDDigestAssertion :: "'x crypto_env_scheme \<Rightarrow> string \<Rightarrow> BIDError + json" where
  "BIDDigestAssertion env szAssertion =
     bail (BIDMakeDigest env (Some (JString szAssertion))) (\<lambda>digestInfo.
       some_or (json_object_get (Some digestInfo) ''dig'') BID_S_CRYPTO_ERROR)"

section \<open>Secrets and key agreement objects\<close>

definition BIDGenerateNonce :: "'x crypto_env_scheme \<Rightarrow> BIDError + json" where
  "BIDGenerateNonce env = bail (some_or (RAND_bytes env 16) BID_S_CRYPTO_ERROR) BIDJsonBinaryValue"

definition BIDSalt :: "byte list" where
  "BIDSalt = bytes_of_string ''BrowserID''"

definition BIDDeriveKey ::
  "'x crypto_env_scheme \<Rightarrow> BIDSecretHandleDesc option \<Rightarrow> byte list option \<Rightarrow> BIDError + byte list" where
  "BIDDeriveKey env secretHandle pbSalt =
     bail (some_or secretHandle BID_S_INVALID_PARAMETER) (\<lambda>h.
     bail (some_or (pbSecret h) BID_S_INVALID_SECRET) (\<lambda>secret.
     Inr (HMAC env EVP_sha256 secret
           (BIDSalt @ secret @ (case pbSalt of None \<Rightarrow> [] | Some salt \<Rightarrow> salt) @ [0x01]))))"

text \<open>The secret is copied, or its buffer taken over, which is the same for values.\<close>

definition BIDAllocSecret :: "byte list option \<Rightarrow> BIDError + BIDSecretHandleDesc" where
  "BIDAllocSecret secret = Inr (SecretHandleDesc secret)"

definition BIDImportSecretKeyData :: "byte list \<Rightarrow> BIDError + BIDSecretHandleDesc" where
  "BIDImportSecretKeyData secret = BIDAllocSecret (Some secret)"

definition BIDImportSecretKey :: "json option \<Rightarrow> BIDError + BIDSecretHandleDesc" where
  "BIDImportSecretKey jwk = bail (BIDGetJsonBinaryValue jwk ''secret-key'') BIDImportSecretKeyData"

definition BIDGetKeyAgreementObject :: "json option \<Rightarrow> BIDError + json" where
  "BIDGetKeyAgreementObject json = some_or (json_object_get json ''epk'') BID_S_NO_KEY"

definition BIDSetKeyAgreementObject :: "json \<Rightarrow> json option \<Rightarrow> BIDError + json" where
  "BIDSetKeyAgreementObject json object = BIDJsonObjectSet json ''epk'' object BID_JSON_FLAG_REQUIRED"

definition BIDGetECDHCurve :: "json option \<Rightarrow> BIDError + nat" where
  "BIDGetECDHCurve ecDhParams =
     (if json_string_value (json_object_get ecDhParams ''kty'') \<noteq> Some ''EC'' then Inl BID_S_UNKNOWN_ALGORITHM
      else case json_string_value (json_object_get ecDhParams ''crv'') of
        None \<Rightarrow> Inl BID_S_UNKNOWN_EC_CURVE
      | Some szCurve \<Rightarrow>
          if szCurve = ''P-256'' then Inr 256
          else if szCurve = ''P-384'' then Inr 384
          else if szCurve = ''P-521'' then Inr 521
          else Inl BID_S_UNKNOWN_EC_CURVE)"

section \<open>Lemmas\<close>

lemma timing_loop:
  "n \<le> length p1 \<Longrightarrow> n \<le> length p2 \<Longrightarrow>
    BIDTimingSafeCompare_loop p1 p2 n ret = Some (ret \<noteq> 0 \<or> take n p1 \<noteq> take n p2)"
proof (induction p1 p2 n ret rule: BIDTimingSafeCompare_loop.induct)
  case (2 a p1 b p2 n ret)
  have "a XOR b = 0 \<longleftrightarrow> a = b" by (auto simp: bit_eq_iff bit_xor_iff)
  then have "(ret OR (a XOR b) \<noteq> 0) = (ret \<noteq> 0 \<or> a \<noteq> b)" by (simp add: or_eq_0_iff)
  with 2 show ?case by auto
qed auto

lemma timing_compare [simp]:
  "length a = length b \<Longrightarrow> n = length b \<Longrightarrow> BIDTimingSafeCompare a b n = Some (a \<noteq> b)"
  by (simp add: BIDTimingSafeCompare_def timing_loop)

text \<open>The keys a key set offers: itself, its public key, or what the elements of its
  \<^verbatim>\<open>keys\<close> offer.\<close>

inductive key_in_keyset :: "json \<Rightarrow> json \<Rightarrow> bool" where
  key_self: "json_object_get (Some ks) ''keys'' = None \<Longrightarrow> json_object_get (Some ks) ''public-key'' = None
    \<Longrightarrow> key_in_keyset ks ks"
| key_public: "json_object_get (Some ks) ''keys'' = None \<Longrightarrow> json_object_get (Some ks) ''public-key'' = Some k
    \<Longrightarrow> key_in_keyset ks k"
| key_nested: "json_object_get (Some ks) ''keys'' = Some keys \<Longrightarrow> jwk \<in> set (json_array_elems (Some keys))
    \<Longrightarrow> key_in_keyset jwk k \<Longrightarrow> key_in_keyset ks k"

inductive_simps key_in_keyset_iff: "key_in_keyset ks k"

lemma BIDKeyMatchesP_Inl: "BIDKeyMatchesP env alg jwk = Inl e \<Longrightarrow> e = BID_UNDEFINED"
  by (auto simp: BIDKeyMatchesP_def Let_def split: if_splits option.splits sum.splits)

text \<open>The search returns a matching key the set offers, and fails only when none matches.\<close>

lemma find_key_sound:
  "BIDFindKeyInKeyset env alg ks = Inr key \<Longrightarrow>
    (\<exists>s. ks = Some s \<and> key_in_keyset s key) \<and> BIDKeyMatchesP env alg (Some key) = Inr True"
  "find_key_loop env alg err js = Inr key \<Longrightarrow>
    (\<exists>j\<in>set js. key_in_keyset j key) \<and> BIDKeyMatchesP env alg (Some key) = Inr True"
proof (induction env alg ks and env alg err js rule: BIDFindKeyInKeyset_find_key_loop.induct)
  case (2 env alg keyset)
  then show ?case
    by (fastforce simp: Let_def bid_result intro: key_in_keyset.intros split: option.splits if_splits)
next
  case (4 env alg err jwk rest)
  then show ?case by (auto split: sum.splits if_splits)
qed auto

lemma find_key_complete:
  "BIDFindKeyInKeyset env alg ks = Inl e \<Longrightarrow> e \<noteq> BID_UNDEFINED \<Longrightarrow>
    e \<in> {BID_S_INVALID_KEYSET, BID_S_NO_KEY} \<and>
    (\<forall>s key. ks = Some s \<longrightarrow> key_in_keyset s key \<longrightarrow> BIDKeyMatchesP env alg (Some key) = Inr False)"
  "find_key_loop env alg err js = Inl e \<Longrightarrow> e \<noteq> BID_UNDEFINED \<Longrightarrow>
    err \<in> {BID_S_INVALID_KEYSET, BID_S_NO_KEY} \<Longrightarrow>
    e \<in> {BID_S_INVALID_KEYSET, BID_S_NO_KEY} \<and>
    (\<forall>j\<in>set js. \<forall>key. key_in_keyset j key \<longrightarrow> BIDKeyMatchesP env alg (Some key) = Inr False)"
proof (induction env alg ks and env alg err js arbitrary: e and e rule: BIDFindKeyInKeyset_find_key_loop.induct)
  case (2 env alg keyset)
  show ?case
  proof (cases "json_object_get (Some keyset) ''keys''")
    case None
    with 2 show ?thesis
      by (auto simp: Let_def bid_result key_in_keyset_iff[of keyset] dest: BIDKeyMatchesP_Inl
          split: option.splits if_splits)
  next
    case (Some keys)
    with 2 show ?thesis
      by (auto simp: key_in_keyset_iff[of keyset])
  qed
next
  case (4 env alg err jwk rest)
  show ?case
  proof (cases "BIDFindKeyInKeyset env alg (Some jwk)")
    case (Inl a)
    with "4.prems" have a: "a \<noteq> BID_UNDEFINED" "find_key_loop env alg a rest = Inl e"
      by (auto split: if_splits)
    from "4.IH"(1)[OF Inl a(1)] have head: "a \<in> {BID_S_INVALID_KEYSET, BID_S_NO_KEY}"
      "\<And>key. key_in_keyset jwk key \<Longrightarrow> BIDKeyMatchesP env alg (Some key) = Inr False" by blast+
    from "4.IH"(2)[OF Inl a(1) a(2) "4.prems"(2) head(1)] head(2) show ?thesis by simp
  qed (use "4.prems" in simp)
qed auto

lemma HMACSHAVerifySignature_iff:
  "HMACSHAVerifySignature env alg jwt jwk = Inr v \<longleftrightarrow>
    (\<exists>mac. BIDHMACSHA env alg jwt jwk = Inr mac \<and> v = (Signature jwt = mac))"
  by (auto simp: HMACSHAVerifySignature_def bid_result)

lemma RSAVerifySignature_iff:
  "RSAVerifySignature env alg jwt jwk = Inr v \<longleftrightarrow>
    (\<exists>rsa digest. BIDMakeRsaKey env jwk True = Inr rsa \<and>
      BIDMakeShaDigest env alg jwt EVP_MAX_MD_SIZE = Inr digest \<and>
      v = (RSA_public_decrypt env rsa (Signature jwt) = Some (pbOid alg @ digest)))"
  by (auto simp: RSAVerifySignature_def bid_result split: option.splits)

lemma jwt_data_Signature [simp]: "jwt_data (jwt\<lparr>Signature := sig\<rparr>) = jwt_data jwt"
  by (simp add: jwt_data_def split: option.split)

lemma signature_inputs [simp]:
  "BIDHMACSHA env alg (jwt\<lparr>Signature := sig\<rparr>) jwk = BIDHMACSHA env alg jwt jwk"
  "BIDMakeShaDigest env alg (jwt\<lparr>Signature := sig\<rparr>) n = BIDMakeShaDigest env alg jwt n"
  by (simp_all add: BIDHMACSHA_def BIDMakeShaDigest_def)

lemma length_store_at [simp]:
  "off + length bs \<le> length buf \<Longrightarrow> length (store_at off bs buf) = length buf"
  by (simp add: store_at_def)

lemma BIDMakeDigestInternal_Inr:
  "BIDMakeDigestInternal env value (JObject ms) = Inr info \<longleftrightarrow>
    (\<exists>name md szValue dig. json_string_value (map_of ms ''alg'') = Some name \<and>
      BIDEvpForAlgorithmName (Some name) = Inr md \<and> json_string_value value = Some szValue \<and>
      BIDBase64UrlEncode (EVP_Digest env md (bytes_of_string szValue)) = Inr dig \<and>
      info = JObject (AList.update ''dig'' (JString dig) ms))"
  by (auto simp: BIDMakeDigestInternal_def BIDJsonBinaryValue_def bid_result)

lemma json_string_value_Some [simp]: "json_string_value j = Some s \<longleftrightarrow> j = Some (JString s)"
  by (cases j; cases "the j") auto

section \<open>A concrete environment\<close>

text \<open>
  Simple functions in place of the libraries, at which the properties are evaluated: the JSON
  library knows only the empty object, a digest is the first two bytes of the message, the RSA
  operations are the identity, and a DSA signature is the pair \<open>(1, 2)\<close>.
\<close>

definition sample_env :: crypto_env where
  "sample_env =
    \<lparr>json_loads = (\<lambda>s. if s = ''{}'' then Some (JObject []) else None),
     json_dumps = (\<lambda>j. if j = JObject [] then Some ''{}'' else None),
     EVP_MD_size = (\<lambda>_. 2),
     EVP_Digest = (\<lambda>_ bs. take 2 (bs @ [0, 0])),
     HMAC = (\<lambda>_ key bs. take 2 (key @ bs @ [0, 0])),
     BN_bin2bn = (\<lambda>bs. foldl (\<lambda>n b. n * 256 + uint b) 0 bs),
     BN_bn2bin = (\<lambda>n. [word_of_int n]),
     BN_dec2bn = (\<lambda>s. Some (int (length s))),
     BN_hex2bn = (\<lambda>s. Some (int (length s))),
     RSA_size = (\<lambda>_. 32),
     RSA_private_encrypt = (\<lambda>_ m. Some m),
     RSA_public_decrypt = (\<lambda>_ c. Some c),
     DSA_do_sign = (\<lambda>_ _. Some (1, 2)),
     DSA_do_verify = (\<lambda>_ _ rs. if rs = (1, 2) then 1 else 0),
     d2i_X509 = (\<lambda>_. None),
     X509_verify = (\<lambda>_ _ _ _. Some True),
     PEM_read_PrivateKey = (\<lambda>_. None),
     PEM_read_X509 = (\<lambda>_. None),
     EC_KEY_generate_key = (\<lambda>_. Some (3, 4, 5)),
     EC_POINT_valid = (\<lambda>_ _. True),
     ECDH_compute_key = (\<lambda>_ d p. Some [word_of_int (d + fst p)]),
     RAND_bytes = (\<lambda>n. Some (replicate n 7)),
     malloc_bytes = (\<lambda>n. replicate n 0xff)\<rparr>"

lemma sample_env_simps [simp]:
  "json_loads sample_env s = (if s = ''{}'' then Some (JObject []) else None)"
  "json_dumps sample_env j = (if j = JObject [] then Some ''{}'' else None)"
  "EVP_MD_size sample_env md = 2"
  "EVP_Digest sample_env md bs = take 2 (bs @ [0, 0])"
  "HMAC sample_env md key bs = take 2 (key @ bs @ [0, 0])"
  "BN_bn2bin sample_env n = [word_of_int n]"
  "BN_dec2bn sample_env s = Some (int (length s))"
  "RSA_private_encrypt sample_env rsa m = Some m"
  "RSA_public_decrypt sample_env rsa m = Some m"
  "DSA_do_sign sample_env dsa m = Some (1, 2)"
  "malloc_bytes sample_env k = replicate k 0xff"
  by (simp_all add: sample_env_def)

definition sample_jwt :: BIDJWTDesc where
  "sample_jwt = \<lparr>EncData = Some ''ab.cd'', EncDataLength = 5, Header = None, Payload = None, Signature = []\<rparr>"

section \<open>Properties\<close>

text \<open>The comparison that does not depend on where buffers differ reads nothing outside two
  buffers of at least \<open>n\<close> bytes and reports a difference exactly when the first \<open>n\<close> bytes
  are not the same.\<close>

theorem timing_safe_compare_correct:
  assumes "n \<le> length b1" "n \<le> length b2"
  shows "BIDTimingSafeCompare b1 b2 n = Some (take n b1 \<noteq> take n b2)"
  using assms by (simp add: BIDTimingSafeCompare_def timing_loop)

theorem timing_safe_compare_correct_witness:
  "BIDTimingSafeCompare [1, 2, 3] [1, 2, 4] 3 = Some True \<and> BIDTimingSafeCompare [1, 2, 3] [1, 2, 4] 2 = Some False"
  using timing_safe_compare_correct[of 3 "[1, 2, 3]" "[1, 2, 4]"]
    timing_safe_compare_correct[of 2 "[1, 2, 3]" "[1, 2, 4]"] by simp

text \<open>The search for a key ends on every key set, however nested; the key it returns is one the
  set offers and fits the algorithm, and it reports that there is no key only when no key the set
  offers fits.\<close>

theorem find_key_in_keyset_correct:
  assumes "BIDFindKeyInKeyset env algorithm (Some keyset) \<noteq> Inl BID_UNDEFINED"
  shows "(\<exists>key. BIDFindKeyInKeyset env algorithm (Some keyset) = Inr key \<and> key_in_keyset keyset key \<and>
            BIDKeyMatchesP env algorithm (Some key) = Inr True) \<or>
         (\<exists>e. BIDFindKeyInKeyset env algorithm (Some keyset) = Inl e \<and>
            e \<in> {BID_S_INVALID_KEYSET, BID_S_NO_KEY} \<and>
            (\<forall>key. key_in_keyset keyset key \<longrightarrow> BIDKeyMatchesP env algorithm (Some key) = Inr False))"
proof (cases "BIDFindKeyInKeyset env algorithm (Some keyset)")
  case (Inl e)
  with assms find_key_complete(1)[OF Inl] show ?thesis by auto
next
  case (Inr key)
  with find_key_sound(1)[OF Inr] show ?thesis by auto
qed

theorem find_key_in_keyset_correct_witness:
  "\<exists>key. BIDFindKeyInKeyset sample_env (last BIDJWTAlgorithms)
     (Some (JObject [(''keys'', JArray [JObject [(''algorithm'', JString ''RS'')],
                                        JObject [(''secret-key'', JString ''AQID'')]])])) = Inr key \<and>
   key_in_keyset (JObject [(''keys'', JArray [JObject [(''algorithm'', JString ''RS'')],
                                        JObject [(''secret-key'', JString ''AQID'')]])]) key \<and>
   BIDKeyMatchesP sample_env (last BIDJWTAlgorithms) (Some key) = Inr True"
proof -
  let ?ks = "JObject [(''keys'', JArray [JObject [(''algorithm'', JString ''RS'')],
                                        JObject [(''secret-key'', JString ''AQID'')]])]"
  have k: "BIDFindKeyInKeyset sample_env (last BIDJWTAlgorithms) (Some ?ks)
      = Inr (JObject [(''secret-key'', JString ''AQID'')])"
    by (simp add: BIDJWTAlgorithms_def BIDKeyMatchesP_def)
  with find_key_in_keyset_correct[of sample_env "last BIDJWTAlgorithms" ?ks] show ?thesis
    by (metis Inr_Inl_False)
qed

text \<open>A digest object is accepted for a string exactly when its algorithm is a known hash and
  its digest is the encoding of the hash of the string; what \<^verbatim>\<open>_BIDMakeDigest\<close> makes is accepted.\<close>

theorem verify_digest_correct:
  assumes "\<And>md m. length (EVP_Digest env md m) \<le> EVP_MAX_MD_SIZE"
  shows "(BIDVerifyDigest env (Some (JString v)) (Some info) = Inr () \<longleftrightarrow>
      (\<exists>name md. json_object_get (Some info) ''alg'' = Some (JString name) \<and>
        BIDEvpForAlgorithmName (Some name) = Inr md \<and>
        json_object_get (Some info) ''dig'' =
          Some (JString (b64_text True (EVP_Digest env md (bytes_of_string v)))))) \<and>
    (\<exists>info. BIDMakeDigest env (Some (JString v)) = Inr info \<and>
           BIDVerifyDigest env (Some (JString v)) (Some info) = Inr ())" (is "?iff \<and> ?made")
proof -
  have enc: "BIDBase64UrlEncode (EVP_Digest env md m) = Inr (b64_text True (EVP_Digest env md m))" for md m
    using assms[of md m] by (simp add: BIDBase64UrlEncode_text)
  have ?iff
    by (cases "json_object_get (Some info) ''alg''")
      (auto simp: BIDVerifyDigest_def BIDAllocJsonObject_def BIDMakeDigestInternal_Inr bid_result enc json_equal_string
        update_conv' BIDJsonObjectSet_def BIDJsonObjectSetOld_def flag_set_def split: if_splits)
  moreover have ?made
    unfolding BIDVerifyDigest_def BIDMakeDigest_def
    by (simp add: BIDAllocJsonObject_def BIDMakeDigestInternal_def BIDJsonBinaryValue_def
        BIDEvpForAlgorithmName_def enc json_equal_string)
  ultimately show ?thesis ..
qed

theorem verify_digest_correct_witness:
  "\<exists>info. BIDMakeDigest sample_env (Some (JString ''x'')) = Inr info \<and>
     BIDVerifyDigest sample_env (Some (JString ''x'')) (Some info) = Inr ()"
  using verify_digest_correct[of sample_env "''x''", THEN conjunct2] by simp

text \<open>An HMAC signature is accepted exactly when it is the tag the key and the signed part of
  the token have: the one \<^verbatim>\<open>_HMACSHAMakeSignature\<close> makes, and no other.\<close>

theorem hmac_signature_correct:
  assumes "HMACSHAMakeSignature env alg jwt jwk = Inr mac"
  shows "HMACSHAVerifySignature env alg (jwt\<lparr>Signature := sig\<rparr>) jwk = Inr (sig = mac)"
  using assms by (simp add: HMACSHAVerifySignature_iff HMACSHAMakeSignature_def)

theorem hmac_signature_correct_witness:
  "HMACSHAVerifySignature sample_env (last BIDJWTAlgorithms) (sample_jwt\<lparr>Signature := [1, 2]\<rparr>)
     (Some (JObject [(''secret-key'', JString (b64_text True [1, 2, 3]))])) = Inr True"
proof -
  have "HMACSHAMakeSignature sample_env (last BIDJWTAlgorithms) sample_jwt
      (Some (JObject [(''secret-key'', JString (b64_text True [1, 2, 3]))])) = Inr [1, 2]"
    by (simp add: HMACSHAMakeSignature_def BIDHMACSHA_def BIDEvpForAlgorithm_def BIDEvpForAlgorithmName_def
        BIDGetJsonBinaryValue_def BIDJWTAlgorithms_def)
  from hmac_signature_correct[OF this, of "[1, 2]"] show ?thesis by simp
qed

text \<open>An RSA signature made with a private key is accepted under the matching public key for a
  token exactly when the token has the digest of the one that was signed, given that the public
  operation undoes the private one.\<close>

theorem rsa_signature_correct:
  assumes "BIDMakeRsaKey env privateKey False = Inr priv" "BIDMakeRsaKey env publicKey True = Inr pub"
    and inverse: "\<And>m c. RSA_private_encrypt env priv m = Some c \<Longrightarrow> RSA_public_decrypt env pub c = Some m"
    and "RSAMakeSignature env alg jwt privateKey = Inr sig"
    and "BIDMakeShaDigest env alg jwt' EVP_MAX_MD_SIZE = Inr digest'"
  shows "RSAVerifySignature env alg (jwt'\<lparr>Signature := sig\<rparr>) publicKey =
    Inr (BIDMakeShaDigest env alg jwt' EVP_MAX_MD_SIZE = BIDMakeShaDigest env alg jwt EVP_MAX_MD_SIZE)"
  using assms(1,2,4,5) by (auto simp: RSAMakeSignature_def RSAVerifySignature_iff bid_result dest!: inverse)

theorem rsa_signature_correct_witness:
  "RSAVerifySignature sample_env (hd BIDJWTAlgorithms) (sample_jwt\<lparr>Signature := sha256_oid @ [97, 98]\<rparr>)
     (Some (JObject [(''n'', JString ''33''), (''e'', JString ''3'')])) = Inr True"
proof -
  let ?pub = "Some (JObject [(''n'', JString ''33''), (''e'', JString ''3'')])"
  let ?priv = "Some (JObject [(''n'', JString ''33''), (''e'', JString ''3''), (''d'', JString ''7'')])"
  note ev = BIDMakeRsaKey_def BIDMakeJwtRsaKey_def BIDGetJsonBNValue_def BIDIsLegacyJWK_def Let_def
    BIDMakeShaDigest_def BIDEvpForAlgorithm_def BIDEvpForAlgorithmName_def BIDJWTAlgorithms_def sample_jwt_def
    jwt_data_def bytes_of_string_def guard_def
  have dig: "BIDMakeShaDigest sample_env (hd BIDJWTAlgorithms) sample_jwt EVP_MAX_MD_SIZE = Inr [97, 98]"
    by (simp add: ev)
  have priv: "BIDMakeRsaKey sample_env ?priv False = Inr \<lparr>RSA_n = 2, RSA_e = 1, RSA_d = Some 1\<rparr>"
    and pub: "BIDMakeRsaKey sample_env ?pub True = Inr \<lparr>RSA_n = 2, RSA_e = 1, RSA_d = None\<rparr>"
    by (simp_all add: ev isdigit_def)
  have "RSAMakeSignature sample_env (hd BIDJWTAlgorithms) sample_jwt ?priv = Inr (sha256_oid @ [97, 98])"
    by (simp add: RSAMakeSignature_def priv dig) (simp add: BIDJWTAlgorithms_def)
  from rsa_signature_correct[OF priv pub _ this dig] show ?thesis
    by simp
qed

text \<open>A DSA signature is the two numbers stored left-aligned in halves of the digest length:
  when a number has fewer bytes than the digest, the rest of its half is what the allocation
  happened to contain, and that is what a verifier takes for the number.\<close>

theorem dsa_signature_layout:
  assumes "DSAMakeSignature env alg jwt jwk = Inr sig"
    and "\<And>n. length (malloc_bytes env n) = n"
  shows "\<exists>dsa digest r s. BIDMakeDsaKey env jwk False = Inr dsa \<and>
    BIDMakeShaDigest env alg jwt EVP_MAX_MD_SIZE = Inr digest \<and> DSA_do_sign env dsa digest = Some (r, s) \<and>
    length sig = 2 * length digest \<and>
    take (length digest) sig = BN_bn2bin env r @
      drop (length (BN_bn2bin env r)) (take (length digest) (malloc_bytes env (2 * length digest))) \<and>
    drop (length digest) sig = BN_bn2bin env s @
      drop (length digest + length (BN_bn2bin env s)) (malloc_bytes env (2 * length digest))"
proof -
  from assms(1) obtain digest dsa r s where
    digest: "BIDMakeShaDigest env alg jwt EVP_MAX_MD_SIZE = Inr digest" and
    dsa: "BIDMakeDsaKey env jwk False = Inr dsa" and sign: "DSA_do_sign env dsa digest = Some (r, s)" and
    len: "length (BN_bn2bin env r) \<le> length digest" "length (BN_bn2bin env s) \<le> length digest" and
    sig: "sig = store_at (length digest) (BN_bn2bin env s)
      (store_at 0 (BN_bn2bin env r) (malloc_bytes env (2 * length digest)))"
    by (auto simp: DSAMakeSignature_def bid_result Let_def)
  have "length sig = 2 * length digest" using len assms(2) by (simp add: sig)
  moreover have "take (length digest) sig = BN_bn2bin env r @
      drop (length (BN_bn2bin env r)) (take (length digest) (malloc_bytes env (2 * length digest)))"
    using len assms(2) by (simp add: sig store_at_def drop_take)
  moreover have "drop (length digest) sig = BN_bn2bin env s @
      drop (length digest + length (BN_bn2bin env s)) (malloc_bytes env (2 * length digest))"
    using len assms(2) by (simp add: sig store_at_def)
  ultimately show ?thesis using digest dsa sign by blast
qed

theorem dsa_signature_layout_witness:
  "\<exists>sig. DSAMakeSignature sample_env (BIDJWTAlgorithms ! 4) sample_jwt
     (Some (JObject [(''p'', JString ''7''), (''q'', JString ''3''), (''g'', JString ''2''), (''x'', JString ''1'')]))
     = Inr sig \<and> take 2 sig = [1, 0xff] \<and> drop 2 sig = [2, 0xff]"
proof -
  let ?k = "Some (JObject [(''p'', JString ''7''), (''q'', JString ''3''), (''g'', JString ''2''), (''x'', JString ''1'')])"
  note ev = BIDMakeDsaKey_def BIDMakeJwtDsaKey_def BIDGetJsonBNValue_def BIDIsLegacyJWK_def Let_def
    BIDMakeShaDigest_def BIDEvpForAlgorithm_def BIDEvpForAlgorithmName_def BIDJWTAlgorithms_def sample_jwt_def
    jwt_data_def bytes_of_string_def guard_def
  have dig: "BIDMakeShaDigest sample_env (BIDJWTAlgorithms ! 4) sample_jwt EVP_MAX_MD_SIZE = Inr [97, 98]"
    by (simp add: ev)
  have key: "BIDMakeDsaKey sample_env ?k False =
      Inr \<lparr>DSA_p = 1, DSA_q = 1, DSA_g = 1, DSA_pub_key = None, DSA_priv_key = Some 1\<rparr>"
    by (simp add: ev isdigit_def)
  have "DSAMakeSignature sample_env (BIDJWTAlgorithms ! 4) sample_jwt ?k = Inr [1, 0xff, 2, 0xff]"
    by (simp add: DSAMakeSignature_def dig key) (simp add: guard_def store_at_def eval_nat_numeral)
  with dsa_signature_layout[OF this] show ?thesis by simp
qed

end
