(* ===== verification/Cache.thy ===== *)
theory Cache
  imports Json
begin

text \<open>
  Caches: the dispatch layer of \<^verbatim>\<open>libbrowserid/bid_cache.c\<close> over a table of operations, and the
  in-memory implementation of \<^verbatim>\<open>libbrowserid/bid_mcache.c\<close>.  A cache handle is an address in a
  heap of cache descriptors, so two variables that hold the same handle denote the same cache.
  The data of an implementation is the type parameter \<open>'d\<close>; the locale \<open>bid_cache\<close> states what
  the clients of a cache rely on, and is interpreted for the memory cache.
\<close>

section \<open>Operations table and heap\<close>

text \<open>\<^verbatim>\<open>struct BIDCacheIteratorDesc\<close>: the members of the copied object not visited yet.\<close>

type_synonym BIDCacheIterator = "(string \<times> json) list"

text \<open>
  \<^verbatim>\<open>struct BIDCacheOps\<close>.  A pointer the program tests for \<^verbatim>\<open>NULL\<close> is an option.  The first
  argument of the operations that change a cache is the current time.
\<close>

record 'd BIDCacheOps =
  Scheme :: string
  op_Acquire :: "string \<Rightarrow> u32 \<Rightarrow> BIDError + 'd"
  op_Release :: "('d \<Rightarrow> BIDError + unit) option"
  op_Initialize :: "('d \<Rightarrow> (BIDError + unit) \<times> 'd) option"
  op_Destroy :: "('d \<Rightarrow> (BIDError + unit) \<times> 'd) option"
  op_GetName :: "('d \<Rightarrow> BIDError + string) option"
  op_GetLastChangedTime :: "('d \<Rightarrow> BIDError + int) option"
  op_GetObject :: "('d \<Rightarrow> string \<Rightarrow> BIDError + json) option"
  op_SetObject :: "(int \<Rightarrow> 'd \<Rightarrow> string \<Rightarrow> json option \<Rightarrow> (BIDError + unit) \<times> 'd) option"
  op_RemoveObject :: "(int \<Rightarrow> 'd \<Rightarrow> string \<Rightarrow> (BIDError + unit) \<times> 'd) option"
  op_FirstObject :: "('d \<Rightarrow> (BIDError + string \<times> json) \<times> BIDCacheIterator option) option"
  op_NextObject :: "('d \<Rightarrow> BIDCacheIterator \<Rightarrow> (BIDError + string \<times> json) \<times> BIDCacheIterator option) option"

record 'd BIDCacheDesc =
  Ops :: "'d BIDCacheOps"
  Data :: 'd

type_synonym BIDCache = "nat option"

record 'd cache_heap =
  next_cell :: nat
  cells :: "nat \<Rightarrow> 'd BIDCacheDesc option"

definition set_cell :: "nat \<Rightarrow> 'd BIDCacheDesc \<Rightarrow> 'd cache_heap \<Rightarrow> 'd cache_heap" where
  "set_cell a desc heap = heap\<lparr>cells := (cells heap)(a := Some desc)\<rparr>"

text \<open>Following a handle: \<^verbatim>\<open>NULL\<close> is reported, a handle that was released is a dangling
  pointer.\<close>

definition deref_cache :: "'d cache_heap \<Rightarrow> BIDCache \<Rightarrow> BIDError + nat \<times> 'd BIDCacheDesc" where
  "deref_cache heap cache =
     bail (some_or cache BID_S_INVALID_PARAMETER) (\<lambda>a.
     bail (some_or (cells heap a) BID_UNDEFINED) (\<lambda>desc. Inr (a, desc)))"

section \<open>The dispatch layer\<close>

text \<open>The test \<^verbatim>\<open>strncmp(szCacheName, Scheme, cchScheme) == 0\<close> compares as many characters as the
  name has before its colon.\<close>

definition BIDAcquireCache ::
  "'d BIDCacheOps list \<Rightarrow> string \<Rightarrow> u32 \<Rightarrow> 'd cache_heap \<Rightarrow> (BIDError + nat) \<times> 'd cache_heap" where
  "BIDAcquireCache table szCacheName ulFlags heap =
     (let (ops, name) =
        (case split_at (CHR '':'') szCacheName of
           None \<Rightarrow> (Some (hd table), szCacheName)
         | Some (scheme, rest) \<Rightarrow> (find (\<lambda>ops. take (length scheme) (Scheme ops) = scheme) table, rest))
      in case ops of
           None \<Rightarrow> (Inl BID_S_CACHE_SCHEME_UNKNOWN, heap)
         | Some ops \<Rightarrow>
             (case op_Acquire ops name ulFlags of
                Inl e \<Rightarrow> (Inl e, heap)
              | Inr d \<Rightarrow>
                  (Inr (next_cell heap),
                   set_cell (next_cell heap) \<lparr>Ops = ops, Data = d\<rparr> (heap\<lparr>next_cell := Suc (next_cell heap)\<rparr>))))"

text \<open>\<^verbatim>\<open>_BIDFinalizeCache\<close> ignores the result of the operation.\<close>

definition BIDReleaseCache :: "BIDCache \<Rightarrow> 'd cache_heap \<Rightarrow> (BIDError + unit) \<times> 'd cache_heap" where
  "BIDReleaseCache cache heap =
     bailS (deref_cache heap cache, heap) (\<lambda>(a, desc) heap.
       if op_Release (Ops desc) = None then (Inl BID_S_NOT_IMPLEMENTED, heap)
       else (Inr (), heap\<lparr>cells := (cells heap)(a := None)\<rparr>))"

definition BIDInitializeCache :: "BIDCache \<Rightarrow> 'd cache_heap \<Rightarrow> (BIDError + unit) \<times> 'd cache_heap" where
  "BIDInitializeCache cache heap =
     bailS (deref_cache heap cache, heap) (\<lambda>(a, desc) heap.
       case op_Initialize (Ops desc) of
         None \<Rightarrow> (Inl BID_S_NOT_IMPLEMENTED, heap)
       | Some f \<Rightarrow> let (r, d) = f (Data desc) in (r, set_cell a (desc\<lparr>Data := d\<rparr>) heap))"

definition BIDDestroyCache :: "BIDCache \<Rightarrow> 'd cache_heap \<Rightarrow> (BIDError + unit) \<times> 'd cache_heap" where
  "BIDDestroyCache cache heap =
     bailS (deref_cache heap cache, heap) (\<lambda>(a, desc) heap.
       case op_Destroy (Ops desc) of
         None \<Rightarrow> (Inl BID_S_NOT_IMPLEMENTED, heap)
       | Some f \<Rightarrow> let (r, d) = f (Data desc) in (r, set_cell a (desc\<lparr>Data := d\<rparr>) heap))"

definition BIDGetCacheName :: "BIDCache \<Rightarrow> 'd cache_heap \<Rightarrow> BIDError + string" where
  "BIDGetCacheName cache heap =
     bail (deref_cache heap cache) (\<lambda>(a, desc).
       case op_GetName (Ops desc) of None \<Rightarrow> Inl BID_S_NOT_IMPLEMENTED | Some f \<Rightarrow> f (Data desc))"

definition BIDGetCacheObject :: "BIDCache \<Rightarrow> string option \<Rightarrow> 'd cache_heap \<Rightarrow> BIDError + json" where
  "BIDGetCacheObject cache key heap =
     bail (deref_cache heap cache) (\<lambda>(a, desc).
     bail (some_or key BID_S_INVALID_PARAMETER) (\<lambda>key.
       case op_GetObject (Ops desc) of None \<Rightarrow> Inl BID_S_NOT_IMPLEMENTED | Some f \<Rightarrow> f (Data desc) key))"

definition BIDSetCacheObject ::
  "int \<Rightarrow> BIDCache \<Rightarrow> string option \<Rightarrow> json option \<Rightarrow> 'd cache_heap \<Rightarrow> (BIDError + unit) \<times> 'd cache_heap" where
  "BIDSetCacheObject now cache key val heap =
     bailS (deref_cache heap cache, heap) (\<lambda>(a, desc) heap.
     bailS (some_or key BID_S_INVALID_PARAMETER, heap) (\<lambda>key heap.
       case op_SetObject (Ops desc) of
         None \<Rightarrow> (Inl BID_S_NOT_IMPLEMENTED, heap)
       | Some f \<Rightarrow> let (r, d) = f now (Data desc) key val in (r, set_cell a (desc\<lparr>Data := d\<rparr>) heap)))"

definition BIDRemoveCacheObject ::
  "int \<Rightarrow> BIDCache \<Rightarrow> string option \<Rightarrow> 'd cache_heap \<Rightarrow> (BIDError + unit) \<times> 'd cache_heap" where
  "BIDRemoveCacheObject now cache key heap =
     bailS (deref_cache heap cache, heap) (\<lambda>(a, desc) heap.
     bailS (some_or key BID_S_INVALID_PARAMETER, heap) (\<lambda>key heap.
       case op_RemoveObject (Ops desc) of
         None \<Rightarrow> (Inl BID_S_NOT_IMPLEMENTED, heap)
       | Some f \<Rightarrow> let (r, d) = f now (Data desc) key in (r, set_cell a (desc\<lparr>Data := d\<rparr>) heap)))"

definition BIDGetCacheLastChangedTime :: "BIDCache \<Rightarrow> 'd cache_heap \<Rightarrow> BIDError + int" where
  "BIDGetCacheLastChangedTime cache heap =
     bail (deref_cache heap cache) (\<lambda>(a, desc).
       case op_GetLastChangedTime (Ops desc) of None \<Rightarrow> Inl BID_S_NOT_IMPLEMENTED | Some f \<Rightarrow> f (Data desc))"

definition BIDGetFirstCacheObject ::
  "BIDCache \<Rightarrow> 'd cache_heap \<Rightarrow> (BIDError + string \<times> json) \<times> BIDCacheIterator option" where
  "BIDGetFirstCacheObject cache heap =
     bailS (deref_cache heap cache, None) (\<lambda>(a, desc) cookie.
       case op_FirstObject (Ops desc) of None \<Rightarrow> (Inl BID_S_NOT_IMPLEMENTED, None) | Some f \<Rightarrow> f (Data desc))"

definition BIDGetNextCacheObject ::
  "BIDCache \<Rightarrow> BIDCacheIterator option \<Rightarrow> 'd cache_heap \<Rightarrow>
    (BIDError + string \<times> json) \<times> BIDCacheIterator option" where
  "BIDGetNextCacheObject cache pCookie heap =
     (case pCookie of
        None \<Rightarrow> (Inl BID_S_INVALID_PARAMETER, None)
      | Some cookie \<Rightarrow>
          bailS (deref_cache heap cache, pCookie) (\<lambda>(a, desc) _.
            case op_NextObject (Ops desc) of
              None \<Rightarrow> (Inl BID_S_NOT_IMPLEMENTED, pCookie)
            | Some f \<Rightarrow> f (Data desc) cookie))"

definition BIDCacheIteratorAlloc :: "json option \<Rightarrow> BIDError + BIDCacheIterator" where
  "BIDCacheIteratorAlloc json =
     bail (some_or json BID_S_INVALID_PARAMETER) (\<lambda>data.
       case json_object_members (Some data) of
         [] \<Rightarrow> Inl BID_S_CACHE_KEY_NOT_FOUND
       | m # ms \<Rightarrow> Inr (m # ms))"

fun BIDCacheIteratorNext :: "BIDCacheIterator \<Rightarrow> (BIDError + string \<times> json) \<times> BIDCacheIterator option" where
  "BIDCacheIteratorNext [] = (Inl BID_S_NO_MORE_ITEMS, None)"
| "BIDCacheIteratorNext ((k, v) # iter) = (Inr (k, v), Some iter)"

text \<open>
  The loop of \<^verbatim>\<open>_BIDPerformCacheObjects\<close>.  It ends when the iterator of the implementation ends,
  which the dispatch layer cannot know: the result is an option, \<open>None\<close> for a loop that runs
  forever.  The state of the callback beside the heap is \<open>'u\<close>, the target of its \<^verbatim>\<open>void *data\<close>.
\<close>

type_synonym ('d, 'u) cache_callback =
  "string \<Rightarrow> json \<Rightarrow> 'd cache_heap \<times> 'u \<Rightarrow> (BIDError + unit) \<times> 'd cache_heap \<times> 'u"

partial_function (option) perform_loop ::
  "('d, 'u) cache_callback \<Rightarrow> BIDCache \<Rightarrow> BIDError + string \<times> json \<Rightarrow> BIDCacheIterator option \<Rightarrow>
    BIDError + unit \<Rightarrow> 'd cache_heap \<times> 'u \<Rightarrow> ((BIDError + unit) \<times> 'd cache_heap \<times> 'u) option" where
  "perform_loop callback cache err cookie err2 st =
     (case err of
        Inl e \<Rightarrow> Some (if e = BID_S_NO_MORE_ITEMS then err2 else Inl e, st)
      | Inr kj \<Rightarrow>
          let res = (if err2 = Inr () then callback (fst kj) (snd kj) st else (err2, st));
              nxt = BIDGetNextCacheObject cache cookie (fst (snd res))
          in perform_loop callback cache (fst nxt) (snd nxt) (fst res) (snd res))"

definition BIDPerformCacheObjects ::
  "BIDCache \<Rightarrow> ('d, 'u) cache_callback \<Rightarrow> 'd cache_heap \<times> 'u \<Rightarrow>
    ((BIDError + unit) \<times> 'd cache_heap \<times> 'u) option" where
  "BIDPerformCacheObjects cache callback st =
     (if cache = None then Some (Inl BID_S_INVALID_PARAMETER, st)
      else let frst = BIDGetFirstCacheObject cache (fst st)
           in perform_loop callback cache (fst frst) (snd frst) (Inr ()) st)"

definition BIDRemoveCacheObjectIfPredicateTrue ::
  "int \<Rightarrow> (string \<Rightarrow> json \<Rightarrow> bool) \<Rightarrow> BIDCache \<Rightarrow> ('d, unit) cache_callback" where
  "BIDRemoveCacheObjectIfPredicateTrue now predicate cache szKey jsonValue st =
     (if predicate szKey jsonValue
      then (Inr (), snd (BIDRemoveCacheObject now cache (Some szKey) (fst st)), ())
      else (Inr (), st))"

definition BIDPurgeCache ::
  "int \<Rightarrow> BIDCache \<Rightarrow> (string \<Rightarrow> json \<Rightarrow> bool) \<Rightarrow> 'd cache_heap \<Rightarrow>
    ((BIDError + unit) \<times> 'd cache_heap) option" where
  "BIDPurgeCache now cache predicate heap =
     map_option (\<lambda>(r, h, _). (r, h))
       (BIDPerformCacheObjects cache (BIDRemoveCacheObjectIfPredicateTrue now predicate cache) (heap, ()))"

text \<open>
  The name of a per-user cache on a Unix system: \<open>szRuntimeDir\<close> is the value of
  \<^verbatim>\<open>XDG_RUNTIME_DIR\<close>, \<open>uid\<close> the printed user number; \<^verbatim>\<open>snprintf\<close> cuts the name to the buffer.
\<close>

definition BIDAcquireCacheForUser ::
  "'d BIDCacheOps list \<Rightarrow> string option \<Rightarrow> string \<Rightarrow> string \<Rightarrow> 'd cache_heap \<Rightarrow>
    (BIDError + nat) \<times> 'd cache_heap" where
  "BIDAcquireCacheForUser table szRuntimeDir uid szTemplate heap =
     (let szFileName = take 4095
        (case szRuntimeDir of
           Some dir \<Rightarrow> ''file:'' @ dir @ ''/'' @ szTemplate @ ''.json''
         | None \<Rightarrow> ''file:/tmp/.'' @ szTemplate @ ''.'' @ uid @ ''.json'')
      in BIDAcquireCache table szFileName 0 heap)"

section \<open>The memory cache\<close>

record BIDMemoryCache =
  mc_Name :: string
  mc_Data :: json
  mc_Flags :: u32
  mc_LastChangedTime :: int

definition BIDMemoryCacheAcquire :: "string \<Rightarrow> u32 \<Rightarrow> BIDError + BIDMemoryCache" where
  "BIDMemoryCacheAcquire name ulFlags =
     Inr \<lparr>mc_Name = name, mc_Data = BIDAllocJsonObject, mc_Flags = ulFlags, mc_LastChangedTime = 0\<rparr>"

definition BIDMemoryCacheRelease :: "BIDMemoryCache \<Rightarrow> BIDError + unit" where
  "BIDMemoryCacheRelease mc = Inr ()"

definition BIDMemoryCacheInitialize :: "BIDMemoryCache \<Rightarrow> (BIDError + unit) \<times> BIDMemoryCache" where
  "BIDMemoryCacheInitialize mc = (Inr (), mc)"

definition BIDMemoryCacheDestroy :: "BIDMemoryCache \<Rightarrow> (BIDError + unit) \<times> BIDMemoryCache" where
  "BIDMemoryCacheDestroy mc = (Inr (), mc\<lparr>mc_Data := BIDAllocJsonObject\<rparr>)"

definition BIDMemoryCacheGetName :: "BIDMemoryCache \<Rightarrow> BIDError + string" where
  "BIDMemoryCacheGetName mc = Inr (mc_Name mc)"

definition BIDMemoryCacheGetLastChangedTime :: "BIDMemoryCache \<Rightarrow> BIDError + int" where
  "BIDMemoryCacheGetLastChangedTime mc = Inr (mc_LastChangedTime mc)"

definition BIDMemoryCacheGetObject :: "BIDMemoryCache \<Rightarrow> string \<Rightarrow> BIDError + json" where
  "BIDMemoryCacheGetObject mc key =
     some_or (json_object_get (Some (mc_Data mc)) key) BID_S_CACHE_KEY_NOT_FOUND"

definition BIDMemoryCacheSetOrRemoveObject ::
  "int \<Rightarrow> BIDMemoryCache \<Rightarrow> string \<Rightarrow> json option \<Rightarrow> bool \<Rightarrow> (BIDError + unit) \<times> BIDMemoryCache" where
  "BIDMemoryCacheSetOrRemoveObject now mc key val remove =
     (if val = None \<and> \<not> remove then (Inl BID_S_INVALID_PARAMETER, mc)
      else if flag_set (mc_Flags mc) BID_CACHE_FLAG_READONLY then (Inl BID_S_CACHE_PERMISSION_DENIED, mc)
      else case (if remove then BIDJsonObjectDel (mc_Data mc) key 0
                 else BIDJsonObjectSet (mc_Data mc) key val 0) of
             Inl e \<Rightarrow> (Inl e, mc)
           | Inr data \<Rightarrow> (Inr (), mc\<lparr>mc_Data := data, mc_LastChangedTime := now\<rparr>))"

definition BIDMemoryCacheSetObject ::
  "int \<Rightarrow> BIDMemoryCache \<Rightarrow> string \<Rightarrow> json option \<Rightarrow> (BIDError + unit) \<times> BIDMemoryCache" where
  "BIDMemoryCacheSetObject now mc key val = BIDMemoryCacheSetOrRemoveObject now mc key val False"

definition BIDMemoryCacheRemoveObject ::
  "int \<Rightarrow> BIDMemoryCache \<Rightarrow> string \<Rightarrow> (BIDError + unit) \<times> BIDMemoryCache" where
  "BIDMemoryCacheRemoveObject now mc key = BIDMemoryCacheSetOrRemoveObject now mc key None True"

definition BIDMemoryCacheFirstObject ::
  "BIDMemoryCache \<Rightarrow> (BIDError + string \<times> json) \<times> BIDCacheIterator option" where
  "BIDMemoryCacheFirstObject mc =
     (case BIDCacheIteratorAlloc (Some (mc_Data mc)) of
        Inl e \<Rightarrow> (Inl e, None)
      | Inr cookie \<Rightarrow> BIDCacheIteratorNext cookie)"

definition BIDMemoryCacheNextObject ::
  "BIDMemoryCache \<Rightarrow> BIDCacheIterator \<Rightarrow> (BIDError + string \<times> json) \<times> BIDCacheIterator option" where
  "BIDMemoryCacheNextObject mc cookie = BIDCacheIteratorNext cookie"

definition BIDMemoryCacheOps :: "BIDMemoryCache BIDCacheOps" where
  "BIDMemoryCacheOps =
     \<lparr>Scheme = ''memory'',
      op_Acquire = BIDMemoryCacheAcquire,
      op_Release = Some BIDMemoryCacheRelease,
      op_Initialize = Some BIDMemoryCacheInitialize,
      op_Destroy = Some BIDMemoryCacheDestroy,
      op_GetName = Some BIDMemoryCacheGetName,
      op_GetLastChangedTime = Some BIDMemoryCacheGetLastChangedTime,
      op_GetObject = Some BIDMemoryCacheGetObject,
      op_SetObject = Some BIDMemoryCacheSetObject,
      op_RemoveObject = Some BIDMemoryCacheRemoveObject,
      op_FirstObject = Some BIDMemoryCacheFirstObject,
      op_NextObject = Some BIDMemoryCacheNextObject\<rparr>"

section \<open>What clients rely on\<close>

text \<open>The callbacks of an iteration over a list, as a loop over the list.\<close>

fun run_callbacks ::
  "('d, 'u) cache_callback \<Rightarrow> (string \<times> json) list \<Rightarrow> BIDError + unit \<Rightarrow> 'd cache_heap \<times> 'u \<Rightarrow>
    (BIDError + unit) \<times> 'd cache_heap \<times> 'u" where
  "run_callbacks callback [] err2 st = (err2, st)"
| "run_callbacks callback (kj # rest) err2 st =
     (let res = (if err2 = Inr () then callback (fst kj) (snd kj) st else (err2, st))
      in run_callbacks callback rest (fst res) (snd res))"

text \<open>
  The interface between a cache implementation and its clients: the entries of the data, which
  are unique per key, the effect of the operations on them, and an iterator that walks through
  the entries there were when it was made.
\<close>

locale bid_cache =
  fixes ops :: "'d BIDCacheOps"
    and inv :: "'d \<Rightarrow> bool"
    and entries :: "'d \<Rightarrow> (string \<times> json) list"
    and writable :: "'d \<Rightarrow> bool"
    and get_op :: "'d \<Rightarrow> string \<Rightarrow> BIDError + json"
    and set_op :: "int \<Rightarrow> 'd \<Rightarrow> string \<Rightarrow> json option \<Rightarrow> (BIDError + unit) \<times> 'd"
    and remove_op :: "int \<Rightarrow> 'd \<Rightarrow> string \<Rightarrow> (BIDError + unit) \<times> 'd"
    and first_op :: "'d \<Rightarrow> (BIDError + string \<times> json) \<times> BIDCacheIterator option"
    and next_op :: "'d \<Rightarrow> BIDCacheIterator \<Rightarrow> (BIDError + string \<times> json) \<times> BIDCacheIterator option"
  assumes table: "op_GetObject ops = Some get_op" "op_SetObject ops = Some set_op"
      "op_RemoveObject ops = Some remove_op" "op_FirstObject ops = Some first_op" "op_NextObject ops = Some next_op"
    and distinct_entries: "inv d \<Longrightarrow> distinct (map fst (entries d))"
    and get_law: "inv d \<Longrightarrow> get_op d k = some_or (map_of (entries d) k) BID_S_CACHE_KEY_NOT_FOUND"
    and set_law: "inv d \<Longrightarrow> writable d \<Longrightarrow> \<exists>d'. set_op now d k (Some v) = (Inr (), d') \<and> inv d' \<and> writable d' \<and>
      map_of (entries d') = (map_of (entries d))(k \<mapsto> v)"
    and set_none: "set_op now d k None = (Inl BID_S_INVALID_PARAMETER, d)"
    and set_denied: "\<not> writable d \<Longrightarrow> set_op now d k (Some v) = (Inl BID_S_CACHE_PERMISSION_DENIED, d)"
    and remove_law: "inv d \<Longrightarrow> writable d \<Longrightarrow> \<exists>d'. remove_op now d k = (Inr (), d') \<and> inv d' \<and> writable d' \<and>
      map_of (entries d') = (map_of (entries d))(k := None)"
    and remove_denied: "\<not> writable d \<Longrightarrow> remove_op now d k = (Inl BID_S_CACHE_PERMISSION_DENIED, d)"
    and first_law: "inv d \<Longrightarrow> first_op d = (case entries d of [] \<Rightarrow> (Inl BID_S_CACHE_KEY_NOT_FOUND, None)
      | kv # rest \<Rightarrow> (Inr kv, Some rest))"
    and next_law: "next_op d it = BIDCacheIteratorNext it"
begin

text \<open>A heap cell holding such a cache, and the map it stands for.\<close>

definition holds :: "'d cache_heap \<Rightarrow> nat \<Rightarrow> 'd \<Rightarrow> bool" where
  "holds heap a d \<longleftrightarrow> cells heap a = Some \<lparr>Ops = ops, Data = d\<rparr> \<and> inv d"

lemma deref: "holds heap a d \<Longrightarrow> deref_cache heap (Some a) = Inr (a, \<lparr>Ops = ops, Data = d\<rparr>)"
  by (simp add: holds_def deref_cache_def)

lemma get_object:
  "holds heap a d \<Longrightarrow> BIDGetCacheObject (Some a) (Some k) heap = some_or (map_of (entries d) k) BID_S_CACHE_KEY_NOT_FOUND"
  by (auto simp: BIDGetCacheObject_def deref table holds_def get_law)

lemma set_object:
  assumes "holds heap a d" "writable d"
  shows "\<exists>d' heap'. BIDSetCacheObject now (Some a) (Some k) (Some v) heap = (Inr (), heap') \<and> holds heap' a d' \<and>
    writable d' \<and> map_of (entries d') = (map_of (entries d))(k \<mapsto> v) \<and>
    (\<forall>b. b \<noteq> a \<longrightarrow> cells heap' b = cells heap b) \<and> next_cell heap' = next_cell heap"
proof -
  from assms set_law[of d now k v] obtain d' where d': "set_op now d k (Some v) = (Inr (), d')" "inv d'" "writable d'"
    "map_of (entries d') = (map_of (entries d))(k \<mapsto> v)" by (auto simp: holds_def)
  then show ?thesis using deref[OF assms(1)]
    by (simp add: BIDSetCacheObject_def table holds_def set_cell_def)
qed

lemma remove_object:
  assumes "holds heap a d" "writable d"
  shows "\<exists>d' heap'. BIDRemoveCacheObject now (Some a) (Some k) heap = (Inr (), heap') \<and> holds heap' a d' \<and>
    writable d' \<and> map_of (entries d') = (map_of (entries d))(k := None) \<and>
    (\<forall>b. b \<noteq> a \<longrightarrow> cells heap' b = cells heap b) \<and> next_cell heap' = next_cell heap"
proof -
  from assms remove_law[of d now k] obtain d' where d': "remove_op now d k = (Inr (), d')" "inv d'" "writable d'"
    "map_of (entries d') = (map_of (entries d))(k := None)" by (auto simp: holds_def)
  then show ?thesis using deref[OF assms(1)]
    by (simp add: BIDRemoveCacheObject_def table holds_def set_cell_def)
qed

text \<open>A cache that is not writable keeps its cell.\<close>

lemma denied:
  assumes "holds heap a d" "\<not> writable d"
  shows "BIDSetCacheObject now (Some a) (Some k) (Some v) heap = (Inl BID_S_CACHE_PERMISSION_DENIED, heap)"
    "BIDRemoveCacheObject now (Some a) (Some k) heap = (Inl BID_S_CACHE_PERMISSION_DENIED, heap)"
proof -
  have [simp]: "set_cell a \<lparr>Ops = ops, Data = d\<rparr> heap = heap"
    using assms(1) by (auto simp: set_cell_def holds_def fun_upd_idem)
  show "BIDSetCacheObject now (Some a) (Some k) (Some v) heap = (Inl BID_S_CACHE_PERMISSION_DENIED, heap)"
    "BIDRemoveCacheObject now (Some a) (Some k) heap = (Inl BID_S_CACHE_PERMISSION_DENIED, heap)"
    using assms by (simp_all add: BIDSetCacheObject_def BIDRemoveCacheObject_def deref table set_denied remove_denied)
qed

text \<open>
  The iteration ends, and calls the callback on the entries in order, as long as the callback
  keeps a cache in the cell.
\<close>

lemma perform_loop_runs:
  assumes "\<And>k v st. P st \<Longrightarrow> P (snd (callback k v st))" "\<And>st. P st \<Longrightarrow> \<exists>d. holds (fst st) a d"
  shows "P st \<Longrightarrow> perform_loop callback (Some a) (Inr kv) (Some rest) err2 st =
    Some (run_callbacks callback (kv # rest) err2 st)"
proof (induction rest arbitrary: kv err2 st)
  case Nil
  let ?res = "if err2 = Inr () then callback (fst kv) (snd kv) st else (err2, st)"
  have "P (snd ?res)" using Nil assms(1) by auto
  then obtain d where "holds (fst (snd ?res)) a d" using assms(2) by blast
  then have "BIDGetNextCacheObject (Some a) (Some []) (fst (snd ?res)) = (Inl BID_S_NO_MORE_ITEMS, None)"
    by (simp only: BIDGetNextCacheObject_def deref option.case table next_law) (simp add: table next_law)
  then show ?case by (subst perform_loop.simps) (simp add: Let_def perform_loop.simps[of _ _ "Inl _"])
next
  case (Cons kv' rest)
  let ?res = "if err2 = Inr () then callback (fst kv) (snd kv) st else (err2, st)"
  have P: "P (snd ?res)" using Cons.prems assms(1) by auto
  then obtain d where "holds (fst (snd ?res)) a d" using assms(2) by blast
  then have "BIDGetNextCacheObject (Some a) (Some (kv' # rest)) (fst (snd ?res)) = (Inr kv', Some rest)"
    by (cases kv') (simp only: BIDGetNextCacheObject_def deref option.case table next_law, simp add: table next_law)
  with Cons.IH[OF P] show ?case by (subst perform_loop.simps) (simp add: Let_def)
qed

lemma perform_runs:
  assumes "\<And>k v st. P st \<Longrightarrow> P (snd (callback k v st))" "\<And>st. P st \<Longrightarrow> \<exists>d. holds (fst st) a d"
    and "P st" "holds (fst st) a d"
  shows "BIDPerformCacheObjects (Some a) callback st =
    Some (if entries d = [] then (Inl BID_S_CACHE_KEY_NOT_FOUND, st)
          else run_callbacks callback (entries d) (Inr ()) st)"
proof -
  have f: "BIDGetFirstCacheObject (Some a) (fst st) = first_op d"
    using deref[OF assms(4)] by (simp add: BIDGetFirstCacheObject_def table)
  have "inv d" using assms(4) by (simp add: holds_def)
  note f1 = first_law[OF this]
  show ?thesis
  proof (cases "entries d")
    case Nil
    then show ?thesis
      by (simp add: BIDPerformCacheObjects_def f f1 perform_loop.simps[of _ _ "Inl _"])
  next
    case (Cons kv rest)
    then show ?thesis using perform_loop_runs[of P callback a st kv rest "Inr ()", OF assms(1,2,3)]
      by (simp add: BIDPerformCacheObjects_def f f1)
  qed
qed

lemma purge_callbacks:
  "holds heap a d \<Longrightarrow> writable d \<Longrightarrow>
    \<exists>d' heap'. run_callbacks (BIDRemoveCacheObjectIfPredicateTrue now predicate (Some a)) es (Inr ()) (heap, ())
        = (Inr (), heap', ()) \<and> holds heap' a d' \<and> writable d' \<and>
      map_of (entries d') = (\<lambda>k. if \<exists>v. (k, v) \<in> set es \<and> predicate k v then None else map_of (entries d) k) \<and>
      (\<forall>b. b \<noteq> a \<longrightarrow> cells heap' b = cells heap b)"
proof (induction es arbitrary: heap d)
  case (Cons kv es)
  obtain k v where kv: "kv = (k, v)" by (cases kv)
  show ?case
  proof (cases "predicate k v")
    case True
    from remove_object[OF Cons.prems, of now k] obtain d1 h1 where
      r: "BIDRemoveCacheObject now (Some a) (Some k) heap = (Inr (), h1)" and h1: "holds h1 a d1" "writable d1"
      and m: "map_of (entries d1) = (map_of (entries d))(k := None)" "\<forall>b. b \<noteq> a \<longrightarrow> cells h1 b = cells heap b" by blast
    from Cons.IH[OF h1] obtain d' heap' where
      "run_callbacks (BIDRemoveCacheObjectIfPredicateTrue now predicate (Some a)) es (Inr ()) (h1, ()) = (Inr (), heap', ())"
      "holds heap' a d'" "writable d'" "\<forall>b. b \<noteq> a \<longrightarrow> cells heap' b = cells h1 b"
      and m': "map_of (entries d') = (\<lambda>k. if \<exists>v. (k, v) \<in> set es \<and> predicate k v then None else map_of (entries d1) k)"
      by blast
    moreover have "map_of (entries d') = (\<lambda>k. if \<exists>v. (k, v) \<in> set (kv # es) \<and> predicate k v then None else map_of (entries d) k)"
      using True unfolding m' kv by (intro ext) (auto simp: m(1))
    moreover have "run_callbacks (BIDRemoveCacheObjectIfPredicateTrue now predicate (Some a)) (kv # es) (Inr ()) (heap, ())
        = run_callbacks (BIDRemoveCacheObjectIfPredicateTrue now predicate (Some a)) es (Inr ()) (h1, ())"
      using True r BIDRemoveCacheObjectIfPredicateTrue_def[of now predicate "Some a" k v "(heap, ())"] by (simp add: kv)
    ultimately show ?thesis using m(2) by (intro exI[of _ d'] exI[of _ heap']) simp
  next
    case False
    from Cons.IH[OF Cons.prems] obtain d' heap' where
      "run_callbacks (BIDRemoveCacheObjectIfPredicateTrue now predicate (Some a)) es (Inr ()) (heap, ()) = (Inr (), heap', ())"
      "holds heap' a d'" "writable d'" "\<forall>b. b \<noteq> a \<longrightarrow> cells heap' b = cells heap b"
      and m': "map_of (entries d') = (\<lambda>k. if \<exists>v. (k, v) \<in> set es \<and> predicate k v then None else map_of (entries d) k)"
      by blast
    moreover have "map_of (entries d') = (\<lambda>k. if \<exists>v. (k, v) \<in> set (kv # es) \<and> predicate k v then None else map_of (entries d) k)"
      using False unfolding m' kv by (intro ext) auto
    moreover have "run_callbacks (BIDRemoveCacheObjectIfPredicateTrue now predicate (Some a)) (kv # es) (Inr ()) (heap, ())
        = run_callbacks (BIDRemoveCacheObjectIfPredicateTrue now predicate (Some a)) es (Inr ()) (heap, ())"
      using False BIDRemoveCacheObjectIfPredicateTrue_def[of now predicate "Some a" k v "(heap, ())"] by (simp add: kv)
    ultimately show ?thesis by (intro exI[of _ d'] exI[of _ heap']) simp
  qed
qed auto

text \<open>The purge callback keeps a writable cache in the cell.\<close>

lemma purge_keeps:
  assumes "\<exists>d. holds (fst st) a d \<and> writable d"
  shows "\<exists>d. holds (fst (snd (BIDRemoveCacheObjectIfPredicateTrue now predicate (Some a) k v st))) a d \<and> writable d"
proof -
  from assms obtain d where d: "holds (fst st) a d" "writable d" by blast
  from remove_object[OF d, of now k] d show ?thesis
    by (auto simp: BIDRemoveCacheObjectIfPredicateTrue_def)
qed

lemma purge:
  assumes "holds heap a d" "writable d" "entries d \<noteq> []"
  shows "\<exists>d' heap'. BIDPurgeCache now (Some a) predicate heap = Some (Inr (), heap') \<and> holds heap' a d' \<and> writable d' \<and>
    map_of (entries d') = (\<lambda>k. case map_of (entries d) k of None \<Rightarrow> None
      | Some v \<Rightarrow> if predicate k v then None else Some v) \<and>
    (\<forall>b. b \<noteq> a \<longrightarrow> cells heap' b = cells heap b)"
proof -
  let ?cb = "BIDRemoveCacheObjectIfPredicateTrue now predicate (Some a)"
  from purge_callbacks[OF assms(1,2), of now predicate "entries d"] obtain d' heap' where
    run: "run_callbacks ?cb (entries d) (Inr ()) (heap, ()) = (Inr (), heap', ())"
    and h: "holds heap' a d'" "writable d'" "\<forall>b. b \<noteq> a \<longrightarrow> cells heap' b = cells heap b"
    and m: "map_of (entries d') = (\<lambda>k. if \<exists>v. (k, v) \<in> set (entries d) \<and> predicate k v then None else map_of (entries d) k)"
    by blast
  have "BIDPerformCacheObjects (Some a) ?cb (heap, ()) = Some (Inr (), heap', ())"
    using perform_runs[of "\<lambda>st. \<exists>d. holds (fst st) a d \<and> writable d" ?cb a "(heap, ())" d] purge_keeps assms run by auto
  moreover have "(\<exists>v. (k, v) \<in> set (entries d) \<and> predicate k v) \<longleftrightarrow>
      (\<exists>v. map_of (entries d) k = Some v \<and> predicate k v)" for k
    using distinct_entries[of d] assms(1) by (auto simp: holds_def map_of_eq_Some_iff)
  then have "map_of (entries d') = (\<lambda>k. case map_of (entries d) k of None \<Rightarrow> None
      | Some v \<Rightarrow> if predicate k v then None else Some v)"
    by (auto simp: m split: option.split)
  ultimately show ?thesis using h by (auto simp: BIDPurgeCache_def)
qed

end

section \<open>The memory cache provides the interface\<close>

definition mc_inv :: "BIDMemoryCache \<Rightarrow> bool" where
  "mc_inv mc \<longleftrightarrow> (\<exists>ms. mc_Data mc = JObject ms \<and> distinct (map fst ms))"

abbreviation mc_entries :: "BIDMemoryCache \<Rightarrow> (string \<times> json) list" where
  "mc_entries mc \<equiv> json_object_members (Some (mc_Data mc))"

abbreviation mc_writable :: "BIDMemoryCache \<Rightarrow> bool" where
  "mc_writable mc \<equiv> \<not> flag_set (mc_Flags mc) BID_CACHE_FLAG_READONLY"

lemma BIDMemoryCacheAcquire_inv: "BIDMemoryCacheAcquire name fl = Inr mc \<Longrightarrow> mc_inv mc"
  by (auto simp: BIDMemoryCacheAcquire_def mc_inv_def BIDAllocJsonObject_def)

lemma BIDMemoryCacheDestroy_inv: "mc_inv (snd (BIDMemoryCacheDestroy mc))"
  by (simp add: BIDMemoryCacheDestroy_def mc_inv_def BIDAllocJsonObject_def)

interpretation mcache: bid_cache BIDMemoryCacheOps mc_inv mc_entries mc_writable
  BIDMemoryCacheGetObject BIDMemoryCacheSetObject BIDMemoryCacheRemoveObject
  BIDMemoryCacheFirstObject BIDMemoryCacheNextObject
proof (unfold_locales, goal_cases)
  case (6 d)
  then show ?case by (auto simp: mc_inv_def)
next
  case (7 d k)
  then show ?case by (auto simp: mc_inv_def BIDMemoryCacheGetObject_def)
next
  case (8 d now k v)
  then show ?case
    by (auto simp: mc_inv_def BIDMemoryCacheSetObject_def BIDMemoryCacheSetOrRemoveObject_def update_conv'
        distinct_update)
next
  case (9 now d k)
  then show ?case by (simp add: BIDMemoryCacheSetObject_def BIDMemoryCacheSetOrRemoveObject_def)
next
  case (10 d now k v)
  then show ?case by (simp add: BIDMemoryCacheSetObject_def BIDMemoryCacheSetOrRemoveObject_def)
next
  case (11 d now k)
  then obtain ms where ms: "mc_Data d = JObject ms" "distinct (map fst ms)" by (auto simp: mc_inv_def)
  have "map_of ms k = None \<Longrightarrow> map_of ms = (map_of ms)(k := None)" by (simp add: fun_upd_idem)
  with 11 ms show ?case
    by (auto simp: mc_inv_def BIDMemoryCacheRemoveObject_def BIDMemoryCacheSetOrRemoveObject_def
        BIDJsonObjectDel_def delete_conv' distinct_delete)
next
  case (12 d now k)
  then show ?case by (simp add: BIDMemoryCacheRemoveObject_def BIDMemoryCacheSetOrRemoveObject_def)
next
  case (13 d)
  then show ?case
    by (auto simp: mc_inv_def BIDMemoryCacheFirstObject_def BIDCacheIteratorAlloc_def split: list.splits)
next
  case (14 d it)
  then show ?case by (simp add: BIDMemoryCacheNextObject_def)
qed (simp_all add: BIDMemoryCacheOps_def)

text \<open>The cell of the heap at an address holds a memory cache.\<close>

definition memory_cache_at :: "BIDMemoryCache cache_heap \<Rightarrow> nat \<Rightarrow> BIDMemoryCache \<Rightarrow> bool" where
  "memory_cache_at heap a mc \<longleftrightarrow> cells heap a = Some \<lparr>Ops = BIDMemoryCacheOps, Data = mc\<rparr> \<and> mc_inv mc"

lemma memory_cache_holds: "mcache.holds = memory_cache_at"
  by (simp add: fun_eq_iff mcache.holds_def memory_cache_at_def)

lemmas memory_cache_facts = mcache.get_object[unfolded memory_cache_holds] mcache.set_object[unfolded memory_cache_holds]
  mcache.remove_object[unfolded memory_cache_holds]

lemma BIDMemoryCacheOps_sel [simp]:
  "Scheme BIDMemoryCacheOps = ''memory''" "op_Acquire BIDMemoryCacheOps = BIDMemoryCacheAcquire"
  by (simp_all add: BIDMemoryCacheOps_def)

section \<open>Properties\<close>

text \<open>A writable memory cache behaves as a finite map: after an object is stored, reading its
  key gives it, reading any other key gives what it gave before, and no other cache changes.\<close>

theorem memory_cache_set_get:
  assumes "memory_cache_at heap a mc" "\<not> flag_set (mc_Flags mc) BID_CACHE_FLAG_READONLY"
  shows "\<exists>heap'. BIDSetCacheObject now (Some a) (Some k) (Some v) heap = (Inr (), heap') \<and>
    BIDGetCacheObject (Some a) (Some k') heap' =
      (if k' = k then Inr v else BIDGetCacheObject (Some a) (Some k') heap) \<and>
    (\<forall>b. b \<noteq> a \<longrightarrow> cells heap' b = cells heap b)"
proof -
  from mcache.set_object[unfolded memory_cache_holds, OF assms, of now k v] obtain d' heap' where
    s: "BIDSetCacheObject now (Some a) (Some k) (Some v) heap = (Inr (), heap')"
    and h: "memory_cache_at heap' a d'" and m: "map_of (mc_entries d') = (map_of (mc_entries mc))(k \<mapsto> v)"
    and o: "\<forall>b. b \<noteq> a \<longrightarrow> cells heap' b = cells heap b" by blast
  show ?thesis using mcache.get_object[unfolded memory_cache_holds, OF h, of k'] mcache.get_object[unfolded memory_cache_holds, OF assms(1), of k'] s o by (simp add: m)
qed

text \<open>A heap with an empty memory cache at address 0.\<close>

definition sample_heap :: "BIDMemoryCache cache_heap" where
  "sample_heap = snd (BIDAcquireCache [BIDMemoryCacheOps] ''memory:x'' 0 \<lparr>next_cell = 0, cells = (\<lambda>_. None)\<rparr>)"

lemma sample_heap_holds: "\<exists>mc. memory_cache_at sample_heap 0 mc \<and> mc_Flags mc = 0 \<and> mc_entries mc = []"
  by (simp add: sample_heap_def BIDAcquireCache_def BIDMemoryCacheAcquire_def set_cell_def
      memory_cache_at_def mc_inv_def BIDAllocJsonObject_def)

theorem memory_cache_set_get_witness:
  "\<exists>heap'. BIDSetCacheObject 5 (Some 0) (Some ''k'') (Some JTrue) sample_heap = (Inr (), heap') \<and>
     BIDGetCacheObject (Some 0) (Some ''k'') heap' = Inr JTrue"
  using memory_cache_set_get[of sample_heap 0 _ 5 "''k''" JTrue "''k''"] sample_heap_holds by fastforce

text \<open>A cache that was opened read-only refuses every store and removal, and the heap of caches
  stays exactly as it was.\<close>

theorem memory_cache_readonly:
  assumes "memory_cache_at heap a mc" "flag_set (mc_Flags mc) BID_CACHE_FLAG_READONLY"
  shows "BIDSetCacheObject now (Some a) (Some k) (Some v) heap = (Inl BID_S_CACHE_PERMISSION_DENIED, heap) \<and>
    BIDRemoveCacheObject now (Some a) (Some k) heap = (Inl BID_S_CACHE_PERMISSION_DENIED, heap)"
  using mcache.denied[unfolded memory_cache_holds, OF assms(1)] assms(2) by simp

theorem memory_cache_readonly_witness:
  "\<exists>heap. BIDAcquireCache [BIDMemoryCacheOps] ''memory:'' BID_CACHE_FLAG_READONLY
       \<lparr>next_cell = 0, cells = (\<lambda>_. None)\<rparr> = (Inr 0, heap) \<and>
     BIDSetCacheObject 1 (Some 0) (Some ''k'') (Some JNull) heap = (Inl BID_S_CACHE_PERMISSION_DENIED, heap)"
proof -
  obtain heap where h: "BIDAcquireCache [BIDMemoryCacheOps] ''memory:'' BID_CACHE_FLAG_READONLY
       \<lparr>next_cell = 0, cells = (\<lambda>_. None)\<rparr> = (Inr 0, heap)"
    and c: "memory_cache_at heap 0 \<lparr>mc_Name = [], mc_Data = BIDAllocJsonObject, mc_Flags = 2, mc_LastChangedTime = 0\<rparr>"
    by (simp add: BIDAcquireCache_def BIDMemoryCacheAcquire_def set_cell_def
      memory_cache_at_def mc_inv_def BIDAllocJsonObject_def)
  from memory_cache_readonly[OF c, of 1 "''k''" JNull] h show ?thesis by (simp add: flag_set_def)
qed

text \<open>C14: purging a writable memory cache that has entries ends, succeeds, and leaves exactly the
  entries the predicate does not select, whatever order they are visited in; removing while
  iterating is safe because the iterator walks over a copy.  On an empty cache the call reports
  a missing key instead.\<close>

theorem memory_cache_purge:
  assumes "memory_cache_at heap a mc" "\<not> flag_set (mc_Flags mc) BID_CACHE_FLAG_READONLY"
  shows "(mc_entries mc = [] \<longrightarrow>
      BIDPurgeCache now (Some a) predicate heap = Some (Inl BID_S_CACHE_KEY_NOT_FOUND, heap)) \<and>
    (mc_entries mc \<noteq> [] \<longrightarrow> (\<exists>heap'. BIDPurgeCache now (Some a) predicate heap = Some (Inr (), heap') \<and>
      (\<forall>k. BIDGetCacheObject (Some a) (Some k) heap' =
        (case BIDGetCacheObject (Some a) (Some k) heap of
           Inr v \<Rightarrow> if predicate k v then Inl BID_S_CACHE_KEY_NOT_FOUND else Inr v
         | Inl e \<Rightarrow> Inl e)) \<and>
      (\<forall>b. b \<noteq> a \<longrightarrow> cells heap' b = cells heap b)))"
proof (intro conjI impI)
  assume "mc_entries mc = []"
  then show "BIDPurgeCache now (Some a) predicate heap = Some (Inl BID_S_CACHE_KEY_NOT_FOUND, heap)"
    using mcache.perform_runs[unfolded memory_cache_holds, of "\<lambda>st. \<exists>d. memory_cache_at (fst st) a d \<and> mc_writable d"
        "BIDRemoveCacheObjectIfPredicateTrue now predicate (Some a)" a "(heap, ())" mc]
      mcache.purge_keeps[unfolded memory_cache_holds] assms by (auto simp: BIDPurgeCache_def)
next
  assume "mc_entries mc \<noteq> []"
  from mcache.purge[unfolded memory_cache_holds, OF assms this, of now predicate] obtain d' heap' where
    p: "BIDPurgeCache now (Some a) predicate heap = Some (Inr (), heap')" and h: "memory_cache_at heap' a d'"
    and m: "map_of (mc_entries d') = (\<lambda>k. case map_of (mc_entries mc) k of None \<Rightarrow> None
      | Some v \<Rightarrow> if predicate k v then None else Some v)"
    and o: "\<forall>b. b \<noteq> a \<longrightarrow> cells heap' b = cells heap b" by blast
  have "BIDGetCacheObject (Some a) (Some k) heap' =
      (case BIDGetCacheObject (Some a) (Some k) heap of
         Inr v \<Rightarrow> if predicate k v then Inl BID_S_CACHE_KEY_NOT_FOUND else Inr v | Inl e \<Rightarrow> Inl e)" for k
    using mcache.get_object[unfolded memory_cache_holds, OF h, of k] mcache.get_object[unfolded memory_cache_holds, OF assms(1), of k]
    by (simp add: m split: option.splits)
  with p o show "\<exists>heap'. BIDPurgeCache now (Some a) predicate heap = Some (Inr (), heap') \<and>
      (\<forall>k. BIDGetCacheObject (Some a) (Some k) heap' =
        (case BIDGetCacheObject (Some a) (Some k) heap of
           Inr v \<Rightarrow> if predicate k v then Inl BID_S_CACHE_KEY_NOT_FOUND else Inr v
         | Inl e \<Rightarrow> Inl e)) \<and>
      (\<forall>b. b \<noteq> a \<longrightarrow> cells heap' b = cells heap b)" by blast
qed

theorem memory_cache_purge_witness:
  "BIDPurgeCache 5 (Some 0) (\<lambda>k v. True) sample_heap = Some (Inl BID_S_CACHE_KEY_NOT_FOUND, sample_heap)"
  using memory_cache_purge[of sample_heap 0 _ 5 "\<lambda>k v. True"] sample_heap_holds by fastforce

end
