(* ===== verification/Context.thy ===== *)
theory Context
  imports Cache
begin

text \<open>
  \<^verbatim>\<open>libbrowserid/bid_context.c\<close>: contexts, their configuration and parameters.  The state of the
  operations is the context together with the heap of caches it refers to.
\<close>

section \<open>Data\<close>

text \<open>\<^verbatim>\<open>struct BIDContextDesc\<close>; \<open>SecondaryAuthorities\<close> is \<open>None\<close> for a \<^verbatim>\<open>NULL\<close> array, and
  \<open>ParentWindow\<close> is an uninterpreted pointer.\<close>

record BIDContextDesc =
  ContextOptions :: u32
  SecondaryAuthorities :: "string list option"
  VerifierUrl :: "string option"
  MaxDelegations :: u32
  Skew :: u32
  AuthorityCache :: BIDCache
  ReplayCache :: BIDCache
  TicketCache :: BIDCache
  ECDHCurve :: u32
  TicketLifetime :: u32
  RenewLifetime :: u32
  Config :: BIDCache
  ParentWindow :: "nat option"

text \<open>What opening a cache by name depends on: the table of implementations, and the
  environment variable and user number that make up the name of a per-user cache.\<close>

record 'd cache_system =
  CacheTable :: "'d BIDCacheOps list"
  RuntimeDir :: "string option"
  Uid :: string

datatype BIDContextParameter =
    BID_PARAM_SECONDARY_AUTHORITIES | BID_PARAM_VERIFIER_URL | BID_PARAM_JSON_ERROR_INFO
  | BID_PARAM_MAX_DELEGATIONS | BID_PARAM_SKEW | BID_PARAM_CONTEXT_OPTIONS
  | BID_PARAM_REPLAY_CACHE_NAME | BID_PARAM_AUTHORITY_CACHE_NAME | BID_PARAM_TICKET_CACHE_NAME
  | BID_PARAM_CONFIG_NAME | BID_PARAM_REPLAY_CACHE | BID_PARAM_AUTHORITY_CACHE
  | BID_PARAM_TICKET_CACHE | BID_PARAM_CONFIG_CACHE | BID_PARAM_PARENT_WINDOW
  | BID_PARAM_TICKET_LIFETIME | BID_PARAM_ECDH_CURVE | BID_PARAM_RENEW_LIFETIME
  | BID_PARAM_OTHER

text \<open>The targets of the \<^verbatim>\<open>void *\<close> argument; a value of another type than the parameter has is
  undefined behaviour.\<close>

datatype param_value = PString "string option" | PStrings "string list option" | PUInt32 u32 | PPointer "nat option"
  | PJsonErrorInfo

record BIDAcquireContextArgsDesc =
  Version :: nat
  cbHeaderLength :: nat
  cbStructureLength :: nat
  args_AuthorityCache :: BIDCache
  args_ReplayCache :: BIDCache
  args_TicketCache :: BIDCache

text \<open>\<^verbatim>\<open>sizeof(struct BIDAcquireContextArgsDesc)\<close> with 8-byte pointers.\<close>

abbreviation sizeof_args :: nat where "sizeof_args \<equiv> 40"

definition BIDSecondaryAuthorities :: "string list" where
  "BIDSecondaryAuthorities =
     [''browserid.org'', ''diresworb.org'', ''dev.diresworb.org'', ''login.anosrep.org'', ''login.persona.org'']"

section \<open>Configuration\<close>

definition BIDGetConfigIntegerValue ::
  "BIDContextDesc \<Rightarrow> 'd cache_heap \<Rightarrow> string \<Rightarrow> u32 \<Rightarrow> BIDError + u32" where
  "BIDGetConfigIntegerValue context heap szKey ulDefaultValue =
     (case BIDGetCacheObject (Config context) (Some szKey) heap of
        Inr value \<Rightarrow> Inr (BIDJsonUInt32Value (Some value))
      | Inl _ \<Rightarrow> if ulDefaultValue \<noteq> 0 then Inr ulDefaultValue else Inl BID_S_UNKNOWN_JSON_KEY)"

text \<open>The callers ignore the code: on failure the target is 0.\<close>

definition config_u32 :: "BIDContextDesc \<Rightarrow> 'd cache_heap \<Rightarrow> string \<Rightarrow> u32 \<Rightarrow> u32" where
  "config_u32 context heap szKey ulDefaultValue =
     (case BIDGetConfigIntegerValue context heap szKey ulDefaultValue of Inr v \<Rightarrow> v | Inl _ \<Rightarrow> 0)"

text \<open>The function returns \<^verbatim>\<open>BID_S_OK\<close> on every path; a configured value that is neither a string
  nor an array leaves the result \<^verbatim>\<open>NULL\<close>.\<close>

definition BIDGetConfigStringValueArray ::
  "BIDContextDesc \<Rightarrow> 'd cache_heap \<Rightarrow> string \<Rightarrow> string list option \<Rightarrow> BIDError + string list option" where
  "BIDGetConfigStringValueArray context heap szKey rgszDefaultValues =
     (case BIDGetCacheObject (Config context) (Some szKey) heap of
        Inr value \<Rightarrow> BIDGetJsonStringValueArray (Some value) None
      | Inl _ \<Rightarrow> Inr rgszDefaultValues)"

section \<open>Parameters\<close>

definition cache_field :: "BIDContextParameter \<Rightarrow> BIDContextDesc \<Rightarrow> BIDCache" where
  "cache_field ulParam context =
     (if ulParam = BID_PARAM_AUTHORITY_CACHE_NAME \<or> ulParam = BID_PARAM_AUTHORITY_CACHE then AuthorityCache context
      else if ulParam = BID_PARAM_REPLAY_CACHE_NAME \<or> ulParam = BID_PARAM_REPLAY_CACHE then ReplayCache context
      else if ulParam = BID_PARAM_TICKET_CACHE_NAME \<or> ulParam = BID_PARAM_TICKET_CACHE then TicketCache context
      else Config context)"

definition set_cache_field :: "BIDContextParameter \<Rightarrow> BIDCache \<Rightarrow> BIDContextDesc \<Rightarrow> BIDContextDesc" where
  "set_cache_field ulParam cache context =
     (if ulParam = BID_PARAM_AUTHORITY_CACHE_NAME \<or> ulParam = BID_PARAM_AUTHORITY_CACHE
      then context\<lparr>AuthorityCache := cache\<rparr>
      else if ulParam = BID_PARAM_REPLAY_CACHE_NAME \<or> ulParam = BID_PARAM_REPLAY_CACHE
      then context\<lparr>ReplayCache := cache\<rparr>
      else if ulParam = BID_PARAM_TICKET_CACHE_NAME \<or> ulParam = BID_PARAM_TICKET_CACHE
      then context\<lparr>TicketCache := cache\<rparr>
      else context\<lparr>Config := cache\<rparr>)"

text \<open>The case of the four cache names: nothing changes when the cache already has the name.\<close>

definition set_cache_by_name ::
  "'d cache_system \<Rightarrow> BIDContextParameter \<Rightarrow> string \<Rightarrow> BIDContextDesc \<times> 'd cache_heap \<Rightarrow>
    (BIDError + unit) \<times> BIDContextDesc \<times> 'd cache_heap" where
  "set_cache_by_name sys ulParam name st =
     (let (context, heap) = st;
          cache = cache_field ulParam context;
          ulFlags = (if ulParam = BID_PARAM_CONFIG_NAME then BID_CACHE_FLAG_UNVERSIONED else 0);
          same = (if cache = None then Inr False
                  else bail (BIDGetCacheName cache heap) (\<lambda>szCacheName. Inr (szCacheName = name)))
      in case same of
           Inl e \<Rightarrow> (Inl e, st)
         | Inr True \<Rightarrow> (Inr (), st)
         | Inr False \<Rightarrow>
             (case BIDAcquireCache (CacheTable sys) name ulFlags heap of
                (Inl e, heap') \<Rightarrow> (Inl e, context, heap')
              | (Inr new, heap') \<Rightarrow>
                  (Inr (), set_cache_field ulParam (Some new) context, snd (BIDReleaseCache cache heap'))))"

text \<open>After the four cache handles there is no \<^verbatim>\<open>break\<close>: the code goes on with the case of the
  parent window.\<close>

definition BIDSetContextParam ::
  "'d cache_system \<Rightarrow> BIDContextParameter \<Rightarrow> param_value \<Rightarrow> BIDContextDesc \<times> 'd cache_heap \<Rightarrow>
    (BIDError + unit) \<times> BIDContextDesc \<times> 'd cache_heap" where
  "BIDSetContextParam sys ulParam val st =
     (let (context, heap) = st in
      case ulParam of
        BID_PARAM_SECONDARY_AUTHORITIES \<Rightarrow> (Inl BID_S_NOT_IMPLEMENTED, st)
      | BID_PARAM_VERIFIER_URL \<Rightarrow>
          (case val of
             PString (Some s) \<Rightarrow> (Inr (), context\<lparr>VerifierUrl := Some s\<rparr>, heap)
           | PString None \<Rightarrow> (Inl BID_S_INVALID_PARAMETER, context\<lparr>VerifierUrl := None\<rparr>, heap)
           | _ \<Rightarrow> (Inl BID_UNDEFINED, st))
      | BID_PARAM_MAX_DELEGATIONS \<Rightarrow>
          (case val of PUInt32 v \<Rightarrow> (Inr (), context\<lparr>MaxDelegations := v\<rparr>, heap) | _ \<Rightarrow> (Inl BID_UNDEFINED, st))
      | BID_PARAM_SKEW \<Rightarrow>
          (case val of PUInt32 v \<Rightarrow> (Inr (), context\<lparr>Skew := v\<rparr>, heap) | _ \<Rightarrow> (Inl BID_UNDEFINED, st))
      | BID_PARAM_PARENT_WINDOW \<Rightarrow>
          (case val of PPointer p \<Rightarrow> (Inr (), context\<lparr>ParentWindow := p\<rparr>, heap) | _ \<Rightarrow> (Inl BID_UNDEFINED, st))
      | BID_PARAM_TICKET_LIFETIME \<Rightarrow>
          (case val of PUInt32 v \<Rightarrow> (Inr (), context\<lparr>TicketLifetime := v\<rparr>, heap) | _ \<Rightarrow> (Inl BID_UNDEFINED, st))
      | BID_PARAM_RENEW_LIFETIME \<Rightarrow>
          (case val of PUInt32 v \<Rightarrow> (Inr (), context\<lparr>RenewLifetime := v\<rparr>, heap) | _ \<Rightarrow> (Inl BID_UNDEFINED, st))
      | BID_PARAM_ECDH_CURVE \<Rightarrow>
          if \<not> flag_set (ContextOptions context) BID_CONTEXT_ECDH_KEYEX then (Inl BID_S_INVALID_PARAMETER, st)
          else (case val of
             PString None \<Rightarrow> (Inl BID_S_INVALID_PARAMETER, st)
           | PString (Some s) \<Rightarrow>
               if s = ''P-256'' then (Inr (), context\<lparr>ECDHCurve := BID_CONTEXT_ECDH_CURVE_P256\<rparr>, heap)
               else if s = ''P-384'' then (Inr (), context\<lparr>ECDHCurve := BID_CONTEXT_ECDH_CURVE_P384\<rparr>, heap)
               else if s = ''P-521'' then (Inr (), context\<lparr>ECDHCurve := BID_CONTEXT_ECDH_CURVE_P521\<rparr>, heap)
               else (Inl BID_S_INVALID_PARAMETER, st)
           | _ \<Rightarrow> (Inl BID_UNDEFINED, st))
      | _ \<Rightarrow>
          if ulParam \<in> {BID_PARAM_AUTHORITY_CACHE_NAME, BID_PARAM_REPLAY_CACHE_NAME,
                        BID_PARAM_TICKET_CACHE_NAME, BID_PARAM_CONFIG_NAME} then
            (case val of PString (Some s) \<Rightarrow> set_cache_by_name sys ulParam s st | _ \<Rightarrow> (Inl BID_UNDEFINED, st))
          else if ulParam \<in> {BID_PARAM_AUTHORITY_CACHE, BID_PARAM_REPLAY_CACHE,
                             BID_PARAM_TICKET_CACHE, BID_PARAM_CONFIG_CACHE} then
            (case val of
               PPointer p \<Rightarrow> (Inr (), (set_cache_field ulParam p context)\<lparr>ParentWindow := p\<rparr>, heap)
             | _ \<Rightarrow> (Inl BID_UNDEFINED, st))
          else (Inl BID_S_INVALID_PARAMETER, st))"

text \<open>The constant \<^verbatim>\<open>BID_VERIFIER_URL\<close>.\<close>

definition BID_VERIFIER_URL :: string where
  "BID_VERIFIER_URL = ''https://verifier.login.persona.org/verify''"

definition curve_name :: "BIDContextDesc \<Rightarrow> BIDError + string" where
  "curve_name context =
     (if \<not> flag_set (ContextOptions context) BID_CONTEXT_ECDH_KEYEX then Inl BID_S_INVALID_PARAMETER
      else if ECDHCurve context = BID_CONTEXT_ECDH_CURVE_P256 then Inr ''P-256''
      else if ECDHCurve context = BID_CONTEXT_ECDH_CURVE_P384 then Inr ''P-384''
      else if ECDHCurve context = BID_CONTEXT_ECDH_CURVE_P521 then Inr ''P-521''
      else Inl BID_S_INVALID_PARAMETER)"

definition BIDGetContextParam ::
  "BIDContextDesc \<Rightarrow> 'd cache_heap \<Rightarrow> BIDContextParameter \<Rightarrow> BIDError + param_value" where
  "BIDGetContextParam context heap ulParam =
     (case ulParam of
        BID_PARAM_SECONDARY_AUTHORITIES \<Rightarrow> Inr (PStrings (SecondaryAuthorities context))
      | BID_PARAM_VERIFIER_URL \<Rightarrow>
          Inr (PString (Some (case VerifierUrl context of Some u \<Rightarrow> u | None \<Rightarrow> BID_VERIFIER_URL)))
      | BID_PARAM_MAX_DELEGATIONS \<Rightarrow> Inr (PUInt32 (MaxDelegations context))
      | BID_PARAM_JSON_ERROR_INFO \<Rightarrow> Inr PJsonErrorInfo
      | BID_PARAM_SKEW \<Rightarrow> Inr (PUInt32 (Skew context))
      | BID_PARAM_CONTEXT_OPTIONS \<Rightarrow> Inr (PUInt32 (ContextOptions context))
      | BID_PARAM_REPLAY_CACHE_NAME \<Rightarrow> bail (BIDGetCacheName (ReplayCache context) heap) (\<lambda>n. Inr (PString (Some n)))
      | BID_PARAM_AUTHORITY_CACHE_NAME \<Rightarrow> bail (BIDGetCacheName (AuthorityCache context) heap) (\<lambda>n. Inr (PString (Some n)))
      | BID_PARAM_TICKET_CACHE_NAME \<Rightarrow> bail (BIDGetCacheName (TicketCache context) heap) (\<lambda>n. Inr (PString (Some n)))
      | BID_PARAM_CONFIG_NAME \<Rightarrow> bail (BIDGetCacheName (Config context) heap) (\<lambda>n. Inr (PString (Some n)))
      | BID_PARAM_REPLAY_CACHE \<Rightarrow> Inr (PPointer (ReplayCache context))
      | BID_PARAM_AUTHORITY_CACHE \<Rightarrow> Inr (PPointer (AuthorityCache context))
      | BID_PARAM_TICKET_CACHE \<Rightarrow> Inr (PPointer (TicketCache context))
      | BID_PARAM_CONFIG_CACHE \<Rightarrow> Inr (PPointer (Config context))
      | BID_PARAM_PARENT_WINDOW \<Rightarrow> Inr (PPointer (ParentWindow context))
      | BID_PARAM_TICKET_LIFETIME \<Rightarrow> Inr (PUInt32 (TicketLifetime context))
      | BID_PARAM_RENEW_LIFETIME \<Rightarrow> Inr (PUInt32 (RenewLifetime context))
      | BID_PARAM_ECDH_CURVE \<Rightarrow> bail (curve_name context) (\<lambda>s. Inr (PString (Some s)))
      | BID_PARAM_OTHER \<Rightarrow> Inl BID_S_INVALID_PARAMETER)"

section \<open>Acquiring and releasing\<close>

text \<open>The caches are released in this order; the codes are ignored.\<close>

definition BIDFinalizeContext :: "BIDContextDesc \<Rightarrow> 'd cache_heap \<Rightarrow> 'd cache_heap" where
  "BIDFinalizeContext context heap =
     fold (\<lambda>cache heap. snd (BIDReleaseCache cache heap))
       [AuthorityCache context, ReplayCache context, TicketCache context, Config context] heap"

definition BIDReleaseContext :: "BIDContextDesc option \<Rightarrow> 'd cache_heap \<Rightarrow> (BIDError + unit) \<times> 'd cache_heap" where
  "BIDReleaseContext context heap =
     (case context of
        None \<Rightarrow> (Inl BID_S_NO_CONTEXT, heap)
      | Some c \<Rightarrow> (Inr (), BIDFinalizeContext c heap))"

definition new_context :: "u32 \<Rightarrow> BIDContextDesc" where
  "new_context ulContextOptions =
     \<lparr>ContextOptions = ulContextOptions, SecondaryAuthorities = None, VerifierUrl = None, MaxDelegations = 0,
      Skew = 0, AuthorityCache = None, ReplayCache = None, TicketCache = None, ECDHCurve = 0,
      TicketLifetime = 0, RenewLifetime = 0, Config = None, ParentWindow = None\<rparr>"

text \<open>The values read from the configuration.\<close>

definition configure_context :: "u32 \<Rightarrow> BIDContextDesc \<times> 'd cache_heap \<Rightarrow> BIDContextDesc \<times> 'd cache_heap" where
  "configure_context ulContextOptions st =
     (let (context, heap) = st;
          context = context\<lparr>Skew := config_u32 context heap ''maxclockskew'' 300\<rparr>
      in if flag_set ulContextOptions BID_CONTEXT_RP then
           (context\<lparr>MaxDelegations := config_u32 context heap ''maxdelegations'' 6,
                    TicketLifetime := config_u32 context heap ''maxticketage'' 36000,
                    RenewLifetime := config_u32 context heap ''maxrenewage'' 604800,
                    SecondaryAuthorities :=
                      (case BIDGetConfigStringValueArray context heap ''secondaryauthorities''
                              (Some BIDSecondaryAuthorities) of Inr v \<Rightarrow> v | Inl _ \<Rightarrow> None)\<rparr>, heap)
         else (context, heap))"

text \<open>One of the three optional caches: the one of the arguments, or the default one.\<close>

definition acquire_context_cache ::
  "'d cache_system \<Rightarrow> bool \<Rightarrow> bool \<Rightarrow> BIDCache \<Rightarrow> string \<Rightarrow> BIDContextParameter \<Rightarrow>
    BIDContextDesc \<times> 'd cache_heap \<Rightarrow> (BIDError + unit) \<times> BIDContextDesc \<times> 'd cache_heap" where
  "acquire_context_cache sys wanted allowed given szTemplate field st =
     (if \<not> wanted then (Inr (), st)
      else if \<not> allowed then (Inl BID_S_INVALID_PARAMETER, st)
      else if given \<noteq> None then (Inr (), set_cache_field field given (fst st), snd st)
      else case BIDAcquireCacheForUser (CacheTable sys) (RuntimeDir sys) (Uid sys) szTemplate (snd st) of
             (Inl e, heap) \<Rightarrow> (Inl e, fst st, heap)
           | (Inr new, heap) \<Rightarrow> (Inr (), set_cache_field field (Some new) (fst st), heap))"

definition acquire_context_body ::
  "'d cache_system \<Rightarrow> string option \<Rightarrow> u32 \<Rightarrow> BIDAcquireContextArgsDesc option \<Rightarrow>
    BIDContextDesc \<times> 'd cache_heap \<Rightarrow> (BIDError + unit) \<times> BIDContextDesc \<times> 'd cache_heap" where
  "acquire_context_body sys szConfig ulContextOptions args st =
     (let opt = flag_set ulContextOptions; arg = (\<lambda>f. case args of None \<Rightarrow> None | Some a \<Rightarrow> f a) in
      bailS (if szConfig = None then (Inr (), st)
             else BIDSetContextParam sys BID_PARAM_CONFIG_NAME (PString szConfig) st) (\<lambda>_ st.
      bailS (acquire_context_cache sys (opt BID_CONTEXT_AUTHORITY_CACHE) (opt BID_CONTEXT_RP)
               (arg args_AuthorityCache) ''browserid.authority'' BID_PARAM_AUTHORITY_CACHE
               (configure_context ulContextOptions st)) (\<lambda>_ st.
      bailS (acquire_context_cache sys (opt BID_CONTEXT_REPLAY_CACHE) (opt BID_CONTEXT_RP)
               (arg args_ReplayCache) ''browserid.replay'' BID_PARAM_REPLAY_CACHE st) (\<lambda>_ st.
      bailS (acquire_context_cache sys (opt BID_CONTEXT_TICKET_CACHE)
               (opt BID_CONTEXT_REAUTH \<and> opt BID_CONTEXT_USER_AGENT)
               (arg args_TicketCache) ''browserid.tickets'' BID_PARAM_TICKET_CACHE st) (\<lambda>_ st.
      (Inr (), (fst st)\<lparr>ECDHCurve := if opt BID_CONTEXT_ECDH_KEYEX then BID_CONTEXT_ECDH_CURVE_P256 else 0\<rparr>,
       snd st))))))"

definition BIDAcquireContext ::
  "'d cache_system \<Rightarrow> string option \<Rightarrow> u32 \<Rightarrow> BIDAcquireContextArgsDesc option \<Rightarrow> 'd cache_heap \<Rightarrow>
    (BIDError + BIDContextDesc) \<times> 'd cache_heap" where
  "BIDAcquireContext sys szConfig ulContextOptions args heap =
     (if (case args of None \<Rightarrow> False
          | Some a \<Rightarrow> Version a \<noteq> 1 \<or> cbHeaderLength a \<noteq> sizeof_args \<or> cbStructureLength a < cbHeaderLength a)
      then (Inl BID_S_INVALID_PARAMETER, heap)
      else case acquire_context_body sys szConfig ulContextOptions args (new_context ulContextOptions, heap) of
             (Inr _, context, heap') \<Rightarrow> (Inr context, heap')
           | (Inl e, context, heap') \<Rightarrow> (Inl e, snd (BIDReleaseContext (Some context) heap')))"

section \<open>Lemmas\<close>

lemma cache_field_simps [simp]:
  "ContextOptions (set_cache_field p c ctx) = ContextOptions ctx" "ECDHCurve (set_cache_field p c ctx) = ECDHCurve ctx"
  "Skew (set_cache_field p c ctx) = Skew ctx" "MaxDelegations (set_cache_field p c ctx) = MaxDelegations ctx"
  "TicketLifetime (set_cache_field p c ctx) = TicketLifetime ctx"
  "RenewLifetime (set_cache_field p c ctx) = RenewLifetime ctx"
  "SecondaryAuthorities (set_cache_field p c ctx) = SecondaryAuthorities ctx"
  "cache_field p (set_cache_field p c ctx) = c"
  by (simp_all add: set_cache_field_def cache_field_def)

lemma config_u32_none [simp]: "Config ctx = None \<Longrightarrow> d \<noteq> 0 \<Longrightarrow> config_u32 ctx heap k d = d"
  by (simp add: config_u32_def BIDGetConfigIntegerValue_def BIDGetCacheObject_def deref_cache_def)

lemma config_strings_none [simp]:
  "Config ctx = None \<Longrightarrow> BIDGetConfigStringValueArray ctx heap k d = Inr d"
  by (simp add: BIDGetConfigStringValueArray_def BIDGetCacheObject_def deref_cache_def)

lemma BIDSetContextParam_config:
  "BIDSetContextParam sys BID_PARAM_CONFIG_NAME v (new_context opts, heap) = (Inr (), ctx, heap') \<Longrightarrow>
    \<exists>c. ctx = (new_context opts)\<lparr>Config := c\<rparr>"
  by (auto simp: BIDSetContextParam_def set_cache_by_name_def new_context_def cache_field_def set_cache_field_def Let_def
      split: param_value.splits option.splits sum.splits prod.splits if_splits bool.splits)

lemma acquire_context_cache_Inr:
  "acquire_context_cache sys wanted allowed given tmpl field st = (Inr (), st') \<Longrightarrow>
    (if wanted then allowed \<and> (\<exists>a. fst st' = set_cache_field field (Some a) (fst st)) else fst st' = fst st)"
  by (auto simp: acquire_context_cache_def split: if_splits prod.splits sum.splits)

text \<open>The steps of a successful acquisition.\<close>

lemma acquire_context_body_Inr:
  fixes sys :: "'d cache_system"
  assumes "acquire_context_body sys szConfig opts args (new_context opts, heap) = (Inr (), ctx, heap')"
  obtains c0 and h0 :: "'d cache_heap" and c1 c2 c3 where
    "szConfig = None \<longrightarrow> c0 = new_context opts" "\<exists>c. c0 = (new_context opts)\<lparr>Config := c\<rparr>"
    "if flag_set opts BID_CONTEXT_AUTHORITY_CACHE
     then flag_set opts BID_CONTEXT_RP \<and>
       (\<exists>a. c1 = set_cache_field BID_PARAM_AUTHORITY_CACHE (Some a) (fst (configure_context opts (c0, h0))))
     else c1 = fst (configure_context opts (c0, h0))"
    "if flag_set opts BID_CONTEXT_REPLAY_CACHE
     then flag_set opts BID_CONTEXT_RP \<and> (\<exists>a. c2 = set_cache_field BID_PARAM_REPLAY_CACHE (Some a) c1) else c2 = c1"
    "if flag_set opts BID_CONTEXT_TICKET_CACHE
     then (flag_set opts BID_CONTEXT_REAUTH \<and> flag_set opts BID_CONTEXT_USER_AGENT) \<and>
       (\<exists>a. c3 = set_cache_field BID_PARAM_TICKET_CACHE (Some a) c2) else c3 = c2"
    "ctx = c3\<lparr>ECDHCurve := if flag_set opts BID_CONTEXT_ECDH_KEYEX then BID_CONTEXT_ECDH_CURVE_P256 else 0\<rparr>"
proof -
  let ?arg = "\<lambda>f. case args of None \<Rightarrow> None | Some a \<Rightarrow> f a"
  from assms obtain s0 s1 s2 s3 where
    s0: "(if szConfig = None then (Inr (), new_context opts, heap)
          else BIDSetContextParam sys BID_PARAM_CONFIG_NAME (PString szConfig) (new_context opts, heap)) = (Inr (), s0)" and
    s1: "acquire_context_cache sys (flag_set opts BID_CONTEXT_AUTHORITY_CACHE) (flag_set opts BID_CONTEXT_RP)
          (?arg args_AuthorityCache) ''browserid.authority'' BID_PARAM_AUTHORITY_CACHE (configure_context opts s0) = (Inr (), s1)" and
    s2: "acquire_context_cache sys (flag_set opts BID_CONTEXT_REPLAY_CACHE) (flag_set opts BID_CONTEXT_RP)
          (?arg args_ReplayCache) ''browserid.replay'' BID_PARAM_REPLAY_CACHE s1 = (Inr (), s2)" and
    s3: "acquire_context_cache sys (flag_set opts BID_CONTEXT_TICKET_CACHE)
          (flag_set opts BID_CONTEXT_REAUTH \<and> flag_set opts BID_CONTEXT_USER_AGENT)
          (?arg args_TicketCache) ''browserid.tickets'' BID_PARAM_TICKET_CACHE s2 = (Inr (), s3)" and
    ctx: "ctx = (fst s3)\<lparr>ECDHCurve := if flag_set opts BID_CONTEXT_ECDH_KEYEX then BID_CONTEXT_ECDH_CURVE_P256 else 0\<rparr>"
    unfolding acquire_context_body_def Let_def bailS_Inr by auto
  obtain c0 h0 where c0: "s0 = (c0, h0)" by (cases s0)
  have cfg: "szConfig = None \<longrightarrow> c0 = new_context opts" "\<exists>c. c0 = (new_context opts)\<lparr>Config := c\<rparr>"
    using s0 BIDSetContextParam_config[of sys "PString szConfig" opts heap c0 h0]
    by (auto simp: c0 new_context_def split: if_splits)
  show thesis
    by (rule that[OF cfg acquire_context_cache_Inr[OF s1, unfolded c0] acquire_context_cache_Inr[OF s2]
          acquire_context_cache_Inr[OF s3] ctx])
qed

section \<open>Properties\<close>

text \<open>C18: a context that was acquired has the options it was asked for; a cache option comes with the
  options it needs and with an open cache, the key agreement curve is P-256 exactly when key
  agreement is enabled, and without a configuration the limits have their documented defaults.\<close>

theorem acquire_context_wellformed:
  fixes sys :: "'d cache_system"
  assumes "BIDAcquireContext sys szConfig opts args heap = (Inr ctx, heap')"
  shows "ContextOptions ctx = opts \<and>
    (flag_set opts BID_CONTEXT_AUTHORITY_CACHE \<longrightarrow> flag_set opts BID_CONTEXT_RP \<and> AuthorityCache ctx \<noteq> None) \<and>
    (flag_set opts BID_CONTEXT_REPLAY_CACHE \<longrightarrow> flag_set opts BID_CONTEXT_RP \<and> ReplayCache ctx \<noteq> None) \<and>
    (flag_set opts BID_CONTEXT_TICKET_CACHE \<longrightarrow>
       flag_set opts BID_CONTEXT_REAUTH \<and> flag_set opts BID_CONTEXT_USER_AGENT \<and> TicketCache ctx \<noteq> None) \<and>
    ECDHCurve ctx = (if flag_set opts BID_CONTEXT_ECDH_KEYEX then BID_CONTEXT_ECDH_CURVE_P256 else 0) \<and>
    (szConfig = None \<longrightarrow> Skew ctx = 300 \<and>
       (flag_set opts BID_CONTEXT_RP \<longrightarrow> MaxDelegations ctx = 6 \<and> TicketLifetime ctx = 36000 \<and>
          RenewLifetime ctx = 604800 \<and> SecondaryAuthorities ctx = Some BIDSecondaryAuthorities))"
proof -
  from assms have "acquire_context_body sys szConfig opts args (new_context opts, heap) = (Inr (), ctx, heap')"
    by (auto simp: BIDAcquireContext_def split: if_splits prod.splits sum.splits)
  then show ?thesis
  proof (rule acquire_context_body_Inr)
    fix c0 c1 c2 c3 :: BIDContextDesc and h0 :: "'d cache_heap"
    let ?c = "fst (configure_context opts (c0, h0))"
    assume none: "szConfig = None \<longrightarrow> c0 = new_context opts" and cfg: "\<exists>c. c0 = (new_context opts)\<lparr>Config := c\<rparr>"
      and st: "if flag_set opts BID_CONTEXT_AUTHORITY_CACHE
        then flag_set opts BID_CONTEXT_RP \<and> (\<exists>a. c1 = set_cache_field BID_PARAM_AUTHORITY_CACHE (Some a) ?c) else c1 = ?c"
      "if flag_set opts BID_CONTEXT_REPLAY_CACHE
        then flag_set opts BID_CONTEXT_RP \<and> (\<exists>a. c2 = set_cache_field BID_PARAM_REPLAY_CACHE (Some a) c1) else c2 = c1"
      "if flag_set opts BID_CONTEXT_TICKET_CACHE
        then (flag_set opts BID_CONTEXT_REAUTH \<and> flag_set opts BID_CONTEXT_USER_AGENT) \<and>
          (\<exists>a. c3 = set_cache_field BID_PARAM_TICKET_CACHE (Some a) c2) else c3 = c2"
      and ctx: "ctx = c3\<lparr>ECDHCurve := if flag_set opts BID_CONTEXT_ECDH_KEYEX then BID_CONTEXT_ECDH_CURVE_P256 else 0\<rparr>"
    have o: "ContextOptions ?c = opts" using cfg by (auto simp: configure_context_def new_context_def Let_def)
    have d: "szConfig = None \<longrightarrow> Skew ?c = 300 \<and> (flag_set opts BID_CONTEXT_RP \<longrightarrow> MaxDelegations ?c = 6 \<and>
        TicketLifetime ?c = 36000 \<and> RenewLifetime ?c = 604800 \<and> SecondaryAuthorities ?c = Some BIDSecondaryAuthorities)"
      using none by (auto simp: configure_context_def new_context_def Let_def)
    from st show ?thesis unfolding ctx
      by (cases "flag_set opts BID_CONTEXT_AUTHORITY_CACHE"; cases "flag_set opts BID_CONTEXT_REPLAY_CACHE";
          cases "flag_set opts BID_CONTEXT_TICKET_CACHE") (use o d in \<open>auto simp: set_cache_field_def\<close>)
  qed
qed

text \<open>A system whose only cache implementation is the memory cache.\<close>

definition sample_sys :: "BIDMemoryCache cache_system" where
  "sample_sys = \<lparr>CacheTable = [BIDMemoryCacheOps], RuntimeDir = None, Uid = ''0''\<rparr>"

theorem acquire_context_wellformed_witness:
  "\<exists>ctx heap'. BIDAcquireContext sample_sys None
     (BID_CONTEXT_RP OR BID_CONTEXT_ECDH_KEYEX) None sample_heap = (Inr ctx, heap') \<and> Skew ctx = 300 \<and> MaxDelegations ctx = 6"
proof -
  let ?o = "BID_CONTEXT_RP OR BID_CONTEXT_ECDH_KEYEX"
  obtain ctx heap' where c: "BIDAcquireContext sample_sys None
     ?o None sample_heap = (Inr ctx, heap')"
    by (simp add: BIDAcquireContext_def acquire_context_body_def acquire_context_cache_def Let_def flag_set_def
        configure_context_def new_context_def)
  from acquire_context_wellformed[OF c] c show ?thesis by (auto simp: flag_set_def)
qed

text \<open>A parameter that was set is what a later query returns, for the numeric limits, the curve,
  the parent window and the cache handles.\<close>

theorem context_param_set_get:
  assumes "BIDSetContextParam sys ulParam val (ctx, heap) = (Inr (), ctx', heap')"
    and "ulParam \<in> {BID_PARAM_VERIFIER_URL, BID_PARAM_MAX_DELEGATIONS, BID_PARAM_SKEW, BID_PARAM_PARENT_WINDOW, BID_PARAM_TICKET_LIFETIME,
      BID_PARAM_RENEW_LIFETIME, BID_PARAM_ECDH_CURVE, BID_PARAM_AUTHORITY_CACHE, BID_PARAM_REPLAY_CACHE,
      BID_PARAM_TICKET_CACHE, BID_PARAM_CONFIG_CACHE}"
  shows "BIDGetContextParam ctx' heap' ulParam = Inr val"
  using assms(2)
  by (elim insertE emptyE; use assms(1) in hypsubst_thin)
    (auto simp: BIDSetContextParam_def BIDGetContextParam_def set_cache_field_def curve_name_def
      split: param_value.splits option.splits if_splits)

theorem context_param_set_get_witness:
  "BIDGetContextParam ((new_context BID_CONTEXT_ECDH_KEYEX)\<lparr>ECDHCurve := 384\<rparr>) sample_heap BID_PARAM_ECDH_CURVE
     = Inr (PString (Some ''P-384''))"
  by (rule context_param_set_get[of sample_sys _ _ "new_context BID_CONTEXT_ECDH_KEYEX" sample_heap])
    (simp_all add: BIDSetContextParam_def new_context_def flag_set_def)

text \<open>Setting a cache handle also overwrites the parent window with it, because a \<^verbatim>\<open>break\<close> is
  missing.\<close>

theorem context_cache_handle_clobbers_window:
  assumes "ulParam \<in> {BID_PARAM_AUTHORITY_CACHE, BID_PARAM_REPLAY_CACHE, BID_PARAM_TICKET_CACHE, BID_PARAM_CONFIG_CACHE}"
  shows "\<exists>ctx'. BIDSetContextParam sys ulParam (PPointer p) (ctx, heap) = (Inr (), ctx', heap) \<and>
    cache_field ulParam ctx' = p \<and> ParentWindow ctx' = p"
  using assms by (auto simp: BIDSetContextParam_def set_cache_field_def cache_field_def)

theorem context_cache_handle_clobbers_window_witness:
  "\<exists>ctx'. BIDSetContextParam sample_sys
     BID_PARAM_REPLAY_CACHE (PPointer (Some 0)) ((new_context 0)\<lparr>ParentWindow := Some 77\<rparr>, sample_heap)
     = (Inr (), ctx', sample_heap) \<and> ParentWindow ctx' = Some 0"
  using context_cache_handle_clobbers_window[of BID_PARAM_REPLAY_CACHE] by blast

end
