(* ===== verification/X509.thy ===== *)
theory X509
  imports Crypto Context
begin

text \<open>
  X.509 certificates: the parts of \<^verbatim>\<open>libbrowserid/bid_openssl.c\<close> that read them and
  \<^verbatim>\<open>libbrowserid/bid_x509.c\<close>.  Parsing and path validation are parameters of the environment;
  what the program makes of a parsed certificate is defined here.
\<close>

section \<open>Dates\<close>

text \<open>\<^verbatim>\<open>sscanf\<close> with \<^verbatim>\<open>%nd\<close>: white space, then an optional sign and digits, at most \<open>n\<close>
  characters.\<close>

definition isspace :: "char \<Rightarrow> bool" where
  "isspace c \<longleftrightarrow> c = CHR '' '' \<or> (9 \<le> (of_char c :: nat) \<and> (of_char c :: nat) \<le> 13)"

fun scan_digits :: "nat \<Rightarrow> string \<Rightarrow> nat \<Rightarrow> bool \<Rightarrow> (nat \<times> string) option" where
  "scan_digits (Suc n) (c # cs) acc seen =
     (if isdigit c then scan_digits n cs (acc * 10 + (of_char c - 48)) True
      else if seen then Some (acc, c # cs) else None)"
| "scan_digits _ cs acc seen = (if seen then Some (acc, cs) else None)"

definition scan_int :: "nat \<Rightarrow> string \<Rightarrow> (int \<times> string) option" where
  "scan_int w s =
     (case dropWhile isspace s of
        (c # cs) \<Rightarrow>
          if c = CHR ''-'' then map_option (\<lambda>(n, r). (- int n, r)) (scan_digits (w - 1) cs 0 False)
          else if c = CHR ''+'' then map_option (\<lambda>(n, r). (int n, r)) (scan_digits (w - 1) cs 0 False)
          else map_option (\<lambda>(n, r). (int n, r)) (scan_digits w (c # cs) 0 False)
      | [] \<Rightarrow> None)"

fun scan_ints :: "nat list \<Rightarrow> string \<Rightarrow> (int list \<times> string) option" where
  "scan_ints [] s = Some ([], s)"
| "scan_ints (w # ws) s =
     (case scan_int w s of
        None \<Rightarrow> None
      | Some (n, r) \<Rightarrow> map_option (\<lambda>(ns, r'). (n # ns, r')) (scan_ints ws r))"

text \<open>\<^verbatim>\<open>timegm\<close>: seconds since 1970 of a broken-down time, with the year counted from 1900 and the
  month from 0.\<close>

definition month_start :: "int list" where
  "month_start = [0, 31, 59, 90, 120, 151, 181, 212, 243, 273, 304, 334]"

definition timegm :: "int \<Rightarrow> int \<Rightarrow> int \<Rightarrow> int \<Rightarrow> int \<Rightarrow> int \<Rightarrow> int" where
  "timegm year mon mday hour minute second =
     (let y = year + 1900 + mon div 12; m = mon mod 12;
          leap = (y mod 4 = 0 \<and> (y mod 100 \<noteq> 0 \<or> y mod 400 = 0));
          days = 365 * (y - 1970) + ((y - 1) div 4 - (y - 1) div 100 + (y - 1) div 400 - 477)
                 + month_start ! nat m + (if leap \<and> 2 \<le> m then 1 else 0) + mday - 1
      in ((days * 24 + hour) * 60 + minute) * 60 + second)"

definition BIDSetJsonX509Time :: "json \<Rightarrow> string \<Rightarrow> string \<Rightarrow> BIDError + json" where
  "BIDSetJsonX509Time j key szTs =
     (let cchTs = length szTs in
      if cchTs \<noteq> 13 \<and> cchTs \<noteq> 15 then Inl BID_S_INVALID_PARAMETER
      else case scan_ints (if cchTs = 13 then [2, 2, 2, 2, 2, 2] else [4, 2, 2, 2, 2, 2]) szTs of
             Some ([year, mon, mday, hour, minute, second], zone # _) \<Rightarrow>
               if zone \<noteq> CHR ''Z'' then Inl BID_S_INVALID_PARAMETER
               else
                 let year = (if cchTs = 15 then year - 1900 else if year < 90 then year + 100 else year)
                 in BIDSetJsonTimestampValue j key (timegm year (mon - 1) mday hour minute second)
           | _ \<Rightarrow> Inl BID_S_INVALID_PARAMETER)"

section \<open>Loading keys and certificates\<close>

text \<open>A missing component of a key is a \<^verbatim>\<open>NULL\<close> number.\<close>

definition set_bn_member :: "'x crypto_env_scheme \<Rightarrow> string \<Rightarrow> BIGNUM option \<Rightarrow> json \<Rightarrow> BIDError + json" where
  "set_bn_member env key bn jwk = bail (some_or bn BID_UNDEFINED) (BIDSetJsonBNValue env jwk key)"

definition BIDLoadX509PrivateKey :: "'x crypto_env_scheme \<Rightarrow> string option \<Rightarrow> BIDError + json" where
  "BIDLoadX509PrivateKey env path =
     bail (some_or path BID_S_KEY_FILE_UNREADABLE) (\<lambda>path.
     bail (some_or (PEM_read_PrivateKey env path) BID_S_KEY_FILE_UNREADABLE) (\<lambda>pemKey.
     bail (BIDJsonObjectSet BIDAllocJsonObject ''version'' (Some (JString ''2012.08.15''))
             BID_JSON_FLAG_CONSUME_REF) (\<lambda>privateKey.
     case pemKey of
       EVP_PKEY_RSA rsa \<Rightarrow>
         bail (BIDJsonObjectSet privateKey ''algorithm'' (Some (JString ''RS'')) BID_JSON_FLAG_CONSUME_REF) (\<lambda>k.
         bail (set_bn_member env ''n'' (Some (RSA_n rsa)) k) (\<lambda>k.
         bail (set_bn_member env ''e'' (Some (RSA_e rsa)) k) (\<lambda>k.
         set_bn_member env ''d'' (RSA_d rsa) k)))
     | EVP_PKEY_DSA dsa \<Rightarrow>
         bail (BIDJsonObjectSet privateKey ''algorithm'' (Some (JString ''DS'')) BID_JSON_FLAG_CONSUME_REF) (\<lambda>k.
         bail (set_bn_member env ''p'' (Some (DSA_p dsa)) k) (\<lambda>k.
         bail (set_bn_member env ''q'' (Some (DSA_q dsa)) k) (\<lambda>k.
         bail (set_bn_member env ''g'' (Some (DSA_g dsa)) k) (\<lambda>k.
         set_bn_member env ''x'' (DSA_priv_key dsa) k))))
     | EVP_PKEY_OTHER \<Rightarrow> Inl BID_S_UNKNOWN_ALGORITHM)))"

definition BIDLoadX509Certificate :: "'x crypto_env_scheme \<Rightarrow> string \<Rightarrow> BIDError + json" where
  "BIDLoadX509Certificate env path =
     bail (some_or (PEM_read_X509 env path) BID_S_CERT_FILE_UNREADABLE) (\<lambda>pbData.
     bail (BIDBase64Encode pbData BID_ENCODING_BASE64) (\<lambda>szData. Inr (JString szData)))"

fun load_chain :: "'x crypto_env_scheme \<Rightarrow> string option list \<Rightarrow> BIDError + json list" where
  "load_chain env [] = Inr []"
| "load_chain env (path # rPaths) =
     bail (some_or path BID_S_INVALID_PARAMETER) (\<lambda>path.
     bail (BIDLoadX509Certificate env path) (\<lambda>cert.
     bail (load_chain env rPaths) (\<lambda>certs. Inr (cert # certs))))"

definition BIDLoadX509CertificateChain :: "'x crypto_env_scheme \<Rightarrow> string option list \<Rightarrow> BIDError + json" where
  "BIDLoadX509CertificateChain env rPaths = bail (load_chain env rPaths) (\<lambda>certs. Inr (JArray certs))"

text \<open>The flags \<open>wantKey\<close> and \<open>wantChain\<close> say which result pointers are not \<^verbatim>\<open>NULL\<close>.\<close>

definition BIDGetRPPrivateKey ::
  "'x crypto_env_scheme \<Rightarrow> BIDContextDesc \<Rightarrow> 'd cache_heap \<Rightarrow> bool \<Rightarrow> bool \<Rightarrow>
    BIDError + json option \<times> json option" where
  "BIDGetRPPrivateKey env context heap wantKey wantChain =
     bail (guard (Config context = None) BID_S_NO_KEY) (\<lambda>_.
     bail (BIDGetCacheObject (Config context) (Some ''certificate'') heap) (\<lambda>certificatePath.
     bail (guard (\<not> json_is_string (Some certificatePath)) BID_S_INVALID_JSON) (\<lambda>_.
     let privateKeyPath = (case BIDGetCacheObject (Config context) (Some ''private-key'') heap of
                             Inr p \<Rightarrow> Some p | Inl _ \<Rightarrow> None) in
     bail (if wantKey then bail (BIDLoadX509PrivateKey env (json_string_value privateKeyPath)) (\<lambda>k. Inr (Some k))
           else Inr None) (\<lambda>key.
     bail (if wantChain
           then bail (BIDLoadX509CertificateChain env [json_string_value (Some certificatePath)]) (\<lambda>c. Inr (Some c))
           else Inr None) (\<lambda>certChain.
     Inr (key, certChain))))))"

definition BIDCanMutualAuthP :: "'x crypto_env_scheme \<Rightarrow> BIDContextDesc \<Rightarrow> 'd cache_heap \<Rightarrow> bool" where
  "BIDCanMutualAuthP env context heap \<longleftrightarrow>
     (case BIDGetRPPrivateKey env context heap False False of Inr _ \<Rightarrow> True | Inl _ \<Rightarrow> False)"

section \<open>Attributes of a certificate\<close>

definition BIDSetJsonX509CommonName :: "json \<Rightarrow> string \<Rightarrow> X509_NAME \<Rightarrow> BIDError + json" where
  "BIDSetJsonX509CommonName j key name =
     bail (some_or (name_CN name) BID_S_MISSING_PRINCIPAL) (\<lambda>szValue.
     BIDJsonObjectSet j key (Some (JString szValue)) (BID_JSON_FLAG_REQUIRED OR BID_JSON_FLAG_CONSUME_REF))"

text \<open>\<^verbatim>\<open>BUFSIZ\<close> is 8192.\<close>

definition BIDSetJsonX509DN :: "json \<Rightarrow> string \<Rightarrow> X509_NAME \<Rightarrow> BIDError + json" where
  "BIDSetJsonX509DN j key name =
     bail (some_or (name_DN name) BID_S_BAD_SUBJECT) (\<lambda>s.
     bail (guard (8192 \<le> length s) BID_S_BUFFER_TOO_LONG) (\<lambda>_.
     BIDJsonObjectSet j key (Some (JString s)) (BID_JSON_FLAG_REQUIRED OR BID_JSON_FLAG_CONSUME_REF)))"

definition BIDSetJsonX509Name :: "json \<Rightarrow> string \<Rightarrow> X509_NAME \<Rightarrow> bool \<Rightarrow> BIDError + json" where
  "BIDSetJsonX509Name j key name cnOnly =
     (if cnOnly then BIDSetJsonX509CommonName j key name else BIDSetJsonX509DN j key name)"

definition BIDGetCertEKUs :: "X509 \<Rightarrow> BIDError + json option" where
  "BIDGetCertEKUs x509 = Inr (map_option (\<lambda>oids. JArray (map JString oids)) (X509_ext_key_usage x509))"

definition BIDGetCertOtherName :: "string option \<Rightarrow> string option \<Rightarrow> BIDError + json" where
  "BIDGetCertOtherName type_id val =
     bail (some_or type_id BID_S_INVALID_PARAMETER) (\<lambda>szOid.
     bail (BIDJsonObjectSet BIDAllocJsonObject ''oid'' (Some (JString szOid)) BID_JSON_FLAG_CONSUME_REF) (\<lambda>j.
     bail (some_or val BID_S_INVALID_PARAMETER) (\<lambda>stringValue.
     BIDJsonObjectSet j ''value'' (Some (JString stringValue)) BID_JSON_FLAG_CONSUME_REF)))"

text \<open>Appending a value to the array under a key of the principal.\<close>

definition append_principal :: "json \<Rightarrow> string \<Rightarrow> json \<Rightarrow> BIDError + json" where
  "append_principal prin key val =
     BIDJsonObjectSet prin key
       (Some (JArray (json_array_elems (json_object_get (Some prin) key) @ [val])))
       (BID_JSON_FLAG_REQUIRED OR BID_JSON_FLAG_CONSUME_REF)"

fun alt_names_loop :: "GENERAL_NAME list \<Rightarrow> json \<Rightarrow> BIDError + json" where
  "alt_names_loop [] prin = Inr prin"
| "alt_names_loop (gen # gens) prin =
     bail (case gen of
             GEN_OTHERNAME type_id val \<Rightarrow> bail (BIDGetCertOtherName type_id val) (append_principal prin ''othername'')
           | GEN_EMAIL s \<Rightarrow> append_principal prin ''email'' (JString s)
           | GEN_DNS s \<Rightarrow> append_principal prin ''hostname'' (JString s)
           | GEN_URI s \<Rightarrow> append_principal prin ''uri'' (JString s)
           | GEN_UNSUPPORTED \<Rightarrow> Inr prin)
       (alt_names_loop gens)"

text \<open>The attributes of the identity after the call; \<open>header\<close> is the header of the assertion.\<close>

definition BIDPopulateX509Identity ::
  "'x crypto_env_scheme \<Rightarrow> json option \<Rightarrow> json \<Rightarrow> u32 \<Rightarrow> BIDError + json" where
  "BIDPopulateX509Identity env header attributes ulReqFlags =
     bail (BIDCertDataToX509 env (json_object_get header ''x5c'') 0) (\<lambda>x509.
     bail (alt_names_loop (case X509_subject_alt_name x509 of None \<Rightarrow> [] | Some gens \<Rightarrow> gens) BIDAllocJsonObject) (\<lambda>prin.
     bail (BIDJsonObjectSet attributes ''principal'' (Some prin) 0) (\<lambda>a.
     bail (BIDSetJsonX509Name a ''sub'' (X509_get_subject_name x509) (flag_set ulReqFlags BID_VERIFY_FLAG_RP)) (\<lambda>a.
     bail (BIDSetJsonX509Name a ''iss'' (X509_get_issuer_name x509) False) (\<lambda>a.
     bail (BIDSetJsonX509Time a ''nbf'' (X509_get_notBefore x509)) (\<lambda>a.
     bail (BIDSetJsonX509Time a ''exp'' (X509_get_notAfter x509)) (\<lambda>a.
     bail (BIDGetCertEKUs x509) (\<lambda>eku.
     BIDJsonObjectSet a ''eku'' eku 0))))))))"

section \<open>Validation\<close>

fun chain_certs :: "'x crypto_env_scheme \<Rightarrow> json option \<Rightarrow> nat list \<Rightarrow> BIDError + X509 list" where
  "chain_certs env certChain [] = Inr []"
| "chain_certs env certChain (i # is) =
     bail (BIDCertDataToX509 env certChain i) (\<lambda>cert.
     bail (chain_certs env certChain is) (\<lambda>certs. Inr (cert # certs)))"

definition BIDValidateX509CertChain :: "'x crypto_env_scheme \<Rightarrow> json option \<Rightarrow> json \<Rightarrow> BIDError + unit" where
  "BIDValidateX509CertChain env certChain certParams =
     bail (guard (json_array_elems certChain = []) BID_S_MISSING_CERT) (\<lambda>_.
     bail (BIDCertDataToX509 env certChain 0) (\<lambda>leafCert.
     bail (chain_certs env certChain [1..<length (json_array_elems certChain)]) (\<lambda>chain.
     bail (some_or (X509_verify env
             (json_string_value (json_object_get (Some certParams) ''ca-certificate''))
             (json_string_value (json_object_get (Some certParams) ''ca-directory'')) leafCert chain)
           BID_S_CRYPTO_ERROR) (\<lambda>verified.
     guard (\<not> verified) BID_S_UNTRUSTED_X509_CERT))))"

definition BIDValidateX509 ::
  "'x crypto_env_scheme \<Rightarrow> BIDContextDesc \<Rightarrow> 'd cache_heap \<Rightarrow> json option \<Rightarrow> json option \<Rightarrow> BIDError + unit" where
  "BIDValidateX509 env context heap certChain certAnchors =
     bail (guard (\<not> json_is_array certChain) BID_S_INVALID_PARAMETER) (\<lambda>_.
     let certParams = (case certAnchors of None \<Rightarrow> BIDAllocJsonObject | Some a \<Rightarrow> a) in
     bail (case BIDGetCacheObject (Config context) (Some ''ca-certificate'') heap of
             Inr f \<Rightarrow> BIDJsonObjectSet certParams ''ca-certificate'' (Some f) 0 | Inl _ \<Rightarrow> Inr certParams) (\<lambda>certParams.
     bail (case BIDGetCacheObject (Config context) (Some ''ca-directory'') heap of
             Inr d \<Rightarrow> BIDJsonObjectSet certParams ''ca-directory'' (Some d) 0 | Inl _ \<Rightarrow> Inr certParams) (\<lambda>certParams.
     BIDValidateX509CertChain env certChain certParams)))"

section \<open>Lemmas\<close>

text \<open>A number stored in a key of the current format is read back.\<close>

lemma BIDGetJsonBNValue_stored:
  assumes "BN_bin2bn env (BN_bn2bin env n) = n" "length (BN_bn2bin env n) \<le> 2048"
    and "map_of ms ''version'' = Some (JString ''2012.08.15'')"
    and "map_of ms k = Some (JString (b64_text True (BN_bn2bin env n)))"
  shows "BIDGetJsonBNValue env (Some (JObject ms)) (Some k) BID_ENCODING_UNKNOWN = Inr n"
  using assms by (simp add: BIDGetJsonBNValue_def BIDIsLegacyJWK_def)

lemma set_bn_member_Inr:
  "length (BN_bn2bin env n) \<le> 2048 \<Longrightarrow>
    set_bn_member env k (Some n) (JObject ms) = Inr (JObject (AList.update k (JString (b64_text True (BN_bn2bin env n))) ms))"
  by (simp add: set_bn_member_def BIDSetJsonBNValue_def BIDJsonBinaryValue_def BIDBase64UrlEncode_text)

section \<open>Properties\<close>

text \<open>An RSA private key loaded from a file is usable: turned into a JSON key and read back for
  signing it is the same key, provided the number conversions are inverse to each other and the
  numbers fit the 2048-byte buffer.\<close>

theorem load_private_key_roundtrip:
  assumes "PEM_read_PrivateKey env path = Some (EVP_PKEY_RSA \<lparr>RSA_n = n, RSA_e = e, RSA_d = Some d\<rparr>)"
    and "\<And>m. m \<in> {n, e, d} \<Longrightarrow> BN_bin2bn env (BN_bn2bin env m) = m"
    and "\<And>m. m \<in> {n, e, d} \<Longrightarrow> length (BN_bn2bin env m) \<le> 2048"
  shows "\<exists>jwk. BIDLoadX509PrivateKey env (Some path) = Inr jwk \<and>
    BIDMakeRsaKey env (Some jwk) False = Inr \<lparr>RSA_n = n, RSA_e = e, RSA_d = Some d\<rparr> \<and>
    BIDKeyMatchesP env (hd BIDJWTAlgorithms) (Some jwk) = Inr True"
proof -
  let ?b = "\<lambda>m. JString (b64_text True (BN_bn2bin env m))"
  let ?ms = "[(''version'', JString ''2012.08.15''), (''algorithm'', JString ''RS''), (''n'', ?b n), (''e'', ?b e), (''d'', ?b d)]"
  have load: "BIDLoadX509PrivateKey env (Some path) = Inr (JObject ?ms)"
    using assms(1,3) by (simp add: BIDLoadX509PrivateKey_def BIDAllocJsonObject_def set_bn_member_Inr)
  have bn: "BIDGetJsonBNValue env (Some (JObject ?ms)) (Some k) BID_ENCODING_UNKNOWN = Inr m"
    if "(k, m) \<in> {(''n'', n), (''e'', e), (''d'', d)}" for k m
    using assms(2,3) that by (intro BIDGetJsonBNValue_stored) auto
  have "BIDMakeRsaKey env (Some (JObject ?ms)) False = Inr \<lparr>RSA_n = n, RSA_e = e, RSA_d = Some d\<rparr>"
    by (simp add: BIDMakeRsaKey_def BIDMakeJwtRsaKey_def bn del: json_object_get.simps)
  moreover have "BIDKeyMatchesP env (hd BIDJWTAlgorithms) (Some (JObject ?ms)) = Inr True"
    by (simp add: BIDKeyMatchesP_def BIDJWTAlgorithms_def)
  ultimately show ?thesis using load by blast
qed

theorem load_private_key_roundtrip_witness:
  "\<exists>jwk. BIDLoadX509PrivateKey
      (sample_env\<lparr>PEM_read_PrivateKey := \<lambda>p. Some (EVP_PKEY_RSA \<lparr>RSA_n = 33, RSA_e = 3, RSA_d = Some 7\<rparr>)\<rparr>) (Some ''k'') = Inr jwk \<and>
    BIDMakeRsaKey (sample_env\<lparr>PEM_read_PrivateKey := \<lambda>p. Some (EVP_PKEY_RSA \<lparr>RSA_n = 33, RSA_e = 3, RSA_d = Some 7\<rparr>)\<rparr>)
      (Some jwk) False = Inr \<lparr>RSA_n = 33, RSA_e = 3, RSA_d = Some 7\<rparr>"
proof -
  let ?env = "sample_env\<lparr>PEM_read_PrivateKey := \<lambda>p. Some (EVP_PKEY_RSA \<lparr>RSA_n = 33, RSA_e = 3, RSA_d = Some 7\<rparr>)\<rparr>"
  have "BN_bin2bn ?env (BN_bn2bin ?env m) = m" "length (BN_bn2bin ?env m) \<le> 2048" if "m \<in> {33, 3, 7}" for m
    using that by (auto simp: sample_env_def)
  from load_private_key_roundtrip[of ?env "''k''" 33 3 7, OF _ this] show ?thesis by auto
qed

text \<open>The certificate chain a relying party sends is the standard base64 encoding of the DER data,
  made with the defective padding: a verifier can decode a certificate exactly when its length is
  not one more than a multiple of three.\<close>

theorem load_certificate_decodable:
  assumes "PEM_read_X509 env path = Some der" "length der \<le> 1073741823"
  shows "\<exists>x5c. BIDLoadX509CertificateChain env [Some path] = Inr x5c \<and>
    BIDCertDataToX509 env (Some x5c) 0 =
      (if length der mod 3 = 1 then Inl BID_S_INVALID_BASE64 else some_or (d2i_X509 env der) BID_S_MISSING_CERT)"
  using assms BIDBase64Encode_eq[of BID_ENCODING_BASE64 der]
  by (simp add: BIDLoadX509CertificateChain_def BIDLoadX509Certificate_def BIDCertDataToX509_def
      BIDBase64UrlDecode_std_text)

theorem load_certificate_decodable_witness:
  "\<exists>x5c. BIDLoadX509CertificateChain (sample_env\<lparr>PEM_read_X509 := \<lambda>p. Some [1, 2, 3, 4]\<rparr>) [Some ''c.pem''] = Inr x5c \<and>
     BIDCertDataToX509 (sample_env\<lparr>PEM_read_X509 := \<lambda>p. Some [1, 2, 3, 4]\<rparr>) (Some x5c) 0 = Inl BID_S_INVALID_BASE64"
  using load_certificate_decodable[of "sample_env\<lparr>PEM_read_X509 := \<lambda>p. Some [1, 2, 3, 4]\<rparr>" "''c.pem''" "[1, 2, 3, 4]"] by simp

end
