(* ===== verification/Jwt.thy ===== *)
theory Jwt
  imports Crypto
begin

text \<open>
  \<^verbatim>\<open>libbrowserid/bid_jwt.c\<close>: header validation, parsing, signing and verification of JSON web
  tokens.  \<^verbatim>\<open>_BIDMakeSignature\<close> modifies the token it is given; the model returns the
  modified token beside the text.
\<close>

section \<open>Definitions\<close>

definition BIDValidJWTHeaderParameters :: "string list" where
  "BIDValidJWTHeaderParameters = [''alg'', ''crit'', ''cty'', ''typ'', ''x5c'', ''x5t'']"

definition BIDIsValidJWTHeaderParameterP :: "string \<Rightarrow> bool" where
  "BIDIsValidJWTHeaderParameterP szParam = list_ex (\<lambda>p. szParam = p) BIDValidJWTHeaderParameters"

text \<open>The loop over the members of the header object.\<close>

fun validate_header_loop :: "(string \<times> json) list \<Rightarrow> BIDError + unit" where
  "validate_header_loop [] = Inr ()"
| "validate_header_loop ((key, val) # iter) =
     (if key = ''cty'' then
        (case json_string_value (Some val) of
           None \<Rightarrow> Inl BID_S_INVALID_JSON_WEB_TOKEN
         | Some typ \<Rightarrow> if typ \<noteq> ''JWT'' then Inl BID_S_INVALID_JSON_WEB_TOKEN else validate_header_loop iter)
      else if key = ''typ'' then
        (case json_string_value (Some val) of
           None \<Rightarrow> Inl BID_S_INVALID_JSON_WEB_TOKEN
         | Some typ \<Rightarrow> if typ \<noteq> ''JWS'' then Inl BID_S_INVALID_JSON_WEB_TOKEN else validate_header_loop iter)
      else if key = ''crit'' then
        (if list_ex (\<lambda>claim. case json_string_value (Some claim) of
                None \<Rightarrow> True | Some s \<Rightarrow> \<not> BIDIsValidJWTHeaderParameterP s) (json_array_elems (Some val))
         then Inl BID_S_INVALID_JSON_WEB_TOKEN else validate_header_loop iter)
      else validate_header_loop iter)"

definition BIDValidateJWTHeader :: "json option \<Rightarrow> BIDError + unit" where
  "BIDValidateJWTHeader header =
     (if \<not> json_is_object header then Inl BID_S_INVALID_JSON_WEB_TOKEN
      else validate_header_loop (json_object_members header))"

text \<open>
  The result is \<open>None\<close> for an empty text.  \<open>EncDataLength\<close> is computed while the second dot is
  still replaced by a NUL, so it covers header and payload, and \<open>EncData\<close> ends up with the
  whole text.
\<close>

definition BIDParseJWT :: "'x crypto_env_scheme \<Rightarrow> string \<Rightarrow> BIDError + BIDJWTDesc option" where
  "BIDParseJWT env szJwt =
     (if szJwt = [] then Inr None
      else
        bail (some_or (split_at (CHR ''.'') szJwt) BID_S_INVALID_JSON_WEB_TOKEN) (\<lambda>(szHeader, rest).
        bail (some_or (split_at (CHR ''.'') rest) BID_S_INVALID_SIGNATURE) (\<lambda>(szPayload, szSignature).
        bail (BIDDecodeJson env szHeader) (\<lambda>header.
        bail (BIDValidateJWTHeader (Some header)) (\<lambda>_.
        bail (BIDDecodeJson env szPayload) (\<lambda>payload.
        bail (BIDBase64UrlDecode szSignature None) (\<lambda>signature.
        Inr (Some \<lparr>EncData = Some szJwt, EncDataLength = length szHeader + 1 + length szPayload,
                   Header = Some header, Payload = Some payload, Signature = signature\<rparr>))))))))"

text \<open>Printing a \<^verbatim>\<open>NULL\<close> value fails.\<close>

definition BIDMakeSignatureData :: "'x crypto_env_scheme \<Rightarrow> BIDJWTDesc \<Rightarrow> BIDError + BIDJWTDesc" where
  "BIDMakeSignatureData env jwt =
     bail (some_or (Header jwt) BID_S_CANNOT_ENCODE_JSON) (\<lambda>header.
     bail (BIDEncodeJson env header) (\<lambda>szEncodedHeader.
     bail (some_or (Payload jwt) BID_S_CANNOT_ENCODE_JSON) (\<lambda>payload.
     bail (BIDEncodeJson env payload) (\<lambda>szEncodedPayload.
     Inr (jwt\<lparr>EncData := Some (szEncodedHeader @ ''.'' @ szEncodedPayload),
              EncDataLength := length szEncodedHeader + 1 + length szEncodedPayload\<rparr>)))))"

text \<open>The first algorithm of the table for which the key set has a key.\<close>

fun sign_alg_loop ::
  "'x crypto_env_scheme \<Rightarrow> json option \<Rightarrow> BIDError \<Rightarrow> BIDJWTAlgorithmDesc list \<Rightarrow>
    BIDError + BIDJWTAlgorithmDesc \<times> json" where
  "sign_alg_loop env keyset err [] = Inl err"
| "sign_alg_loop env keyset err (alg # algs) =
     (case BIDFindKeyInKeyset env alg keyset of
        Inr key \<Rightarrow> Inr (alg, key)
      | Inl e \<Rightarrow> if e = BID_UNDEFINED then Inl BID_UNDEFINED else sign_alg_loop env keyset e algs)"

definition BIDMakeSignature ::
  "'x crypto_env_scheme \<Rightarrow> BIDJWTDesc \<Rightarrow> json option \<Rightarrow> json option \<Rightarrow> BIDError + string \<times> BIDJWTDesc" where
  "BIDMakeSignature env jwt keyset certChain =
     bail (if keyset \<noteq> None
           then bail (sign_alg_loop env keyset BID_S_UNKNOWN_ALGORITHM BIDJWTAlgorithms) (\<lambda>r. Inr (Some r))
           else Inr None) (\<lambda>algkey.
     bail (BIDJsonObjectSet (case Header jwt of None \<Rightarrow> BIDAllocJsonObject | Some h \<Rightarrow> h) ''alg''
             (Some (JString (case algkey of None \<Rightarrow> ''none'' | Some (alg, key) \<Rightarrow> szAlgID alg)))
             (BID_JSON_FLAG_REQUIRED OR BID_JSON_FLAG_CONSUME_REF)) (\<lambda>header.
     bail (if certChain \<noteq> None
           then BIDJsonObjectSet header ''x5c'' certChain BID_JSON_FLAG_REQUIRED
           else Inr header) (\<lambda>header.
     bail (BIDMakeSignatureData env (jwt\<lparr>Header := Some header\<rparr>)) (\<lambda>jwt.
     bail (case algkey of
             None \<Rightarrow> Inr ([], [])
           | Some (alg, key) \<Rightarrow>
               bail (alg_MakeSignature env alg (jwt\<lparr>Signature := []\<rparr>) (Some key)) (\<lambda>signature.
               bail (BIDBase64UrlEncode signature) (\<lambda>szEncSignature.
               Inr (signature, szEncSignature)))) (\<lambda>(signature, szEncSignature).
     bail (some_or (EncData jwt) BID_UNDEFINED) (\<lambda>szEncData.
     Inr (szEncData @ ''.'' @ szEncSignature, jwt\<lparr>Signature := signature\<rparr>)))))))"

fun verify_alg_loop ::
  "'x crypto_env_scheme \<Rightarrow> json option \<Rightarrow> string \<Rightarrow> BIDError \<Rightarrow> BIDJWTAlgorithmDesc list \<Rightarrow>
    BIDError + BIDJWTAlgorithmDesc \<times> json" where
  "verify_alg_loop env keyset sigAlg err [] = Inl err"
| "verify_alg_loop env keyset sigAlg err (alg # algs) =
     (if szAlgID alg = sigAlg then
        (case BIDFindKeyInKeyset env alg keyset of
           Inr key \<Rightarrow> Inr (alg, key)
         | Inl e \<Rightarrow> if e = BID_UNDEFINED then Inl BID_UNDEFINED else verify_alg_loop env keyset sigAlg e algs)
      else verify_alg_loop env keyset sigAlg err algs)"

definition BIDVerifySignature ::
  "'x crypto_env_scheme \<Rightarrow> BIDJWTDesc option \<Rightarrow> json option \<Rightarrow> BIDError + unit" where
  "BIDVerifySignature env jwt keyset =
     bail (some_or jwt BID_S_INVALID_PARAMETER) (\<lambda>jwt.
     bail (guard (Signature jwt = []) BID_S_MISSING_SIGNATURE) (\<lambda>_.
     bail (some_or (json_string_value (json_object_get (Header jwt) ''alg'')) BID_S_MISSING_ALGORITHM) (\<lambda>sigAlg.
     bail (verify_alg_loop env keyset sigAlg BID_S_UNKNOWN_ALGORITHM BIDJWTAlgorithms) (\<lambda>(alg, key).
     bail (alg_VerifySignature env alg jwt (Some key)) (\<lambda>bSignatureValid.
     guard (\<not> bSignatureValid) BID_S_INVALID_SIGNATURE)))))"

section \<open>Lemmas\<close>

definition header_member_ok :: "string \<times> json \<Rightarrow> bool" where
  "header_member_ok = (\<lambda>(key, val).
     (key = ''cty'' \<longrightarrow> val = JString ''JWT'') \<and>
     (key = ''typ'' \<longrightarrow> val = JString ''JWS'') \<and>
     (key = ''crit'' \<longrightarrow> (\<forall>claim\<in>set (json_array_elems (Some val)).
        \<exists>s\<in>set BIDValidJWTHeaderParameters. claim = JString s)))"

lemma crit_check:
  "list_ex (\<lambda>claim. case json_string_value (Some claim) of
       None \<Rightarrow> True | Some s \<Rightarrow> \<not> BIDIsValidJWTHeaderParameterP s) xs \<longleftrightarrow>
   \<not> (\<forall>claim\<in>set xs. \<exists>s\<in>set BIDValidJWTHeaderParameters. claim = JString s)"
proof -
  have "(case json_string_value (Some c) of None \<Rightarrow> True | Some s \<Rightarrow> \<not> BIDIsValidJWTHeaderParameterP s)
      \<longleftrightarrow> (\<forall>s\<in>set BIDValidJWTHeaderParameters. c \<noteq> JString s)" for c
    by (cases c) (auto simp: BIDIsValidJWTHeaderParameterP_def list_ex_iff)
  then show ?thesis by (auto simp: list_ex_iff)
qed

lemma validate_header_loop_iff:
  "validate_header_loop ms = (if list_all header_member_ok ms then Inr () else Inl BID_S_INVALID_JSON_WEB_TOKEN)"
proof (induction ms rule: validate_header_loop.induct)
  case (2 key val iter)
  then show ?case
    by (cases val) (simp_all only: validate_header_loop.simps crit_check, auto simp: header_member_ok_def)
qed simp

lemma validate_header_iff:
  "BIDValidateJWTHeader (Some h) = Inr () \<longleftrightarrow> (\<exists>ms. h = JObject ms \<and> list_all header_member_ok ms)"
  by (cases h) (auto simp: BIDValidateJWTHeader_def validate_header_loop_iff)

text \<open>Setting a member the validation does not look at keeps a header valid.\<close>

lemma list_all_update:
  "list_all header_member_ok ms \<Longrightarrow> header_member_ok (k, v) \<Longrightarrow>
    list_all header_member_ok (AList.update k v ms)"
  by (induction ms) auto

lemma sign_alg_loop_Inr:
  "sign_alg_loop env ks err algs = Inr (alg, key) \<Longrightarrow>
    alg \<in> set algs \<and> BIDFindKeyInKeyset env alg ks = Inr key"
  by (induction algs arbitrary: err) (auto split: sum.splits if_splits)

lemma verify_alg_loop_Inr:
  "verify_alg_loop env ks sigAlg err algs = Inr (alg, key) \<Longrightarrow>
    alg \<in> set algs \<and> szAlgID alg = sigAlg \<and> BIDFindKeyInKeyset env alg ks = Inr key"
  by (induction algs arbitrary: err) (auto split: sum.splits if_splits)

text \<open>What a successful call of \<^verbatim>\<open>_BIDMakeSignature\<close> has produced.\<close>

lemma BIDMakeSignature_Inr:
  assumes "BIDMakeSignature env jwt keyset certChain = Inr (s, jwt')"
  obtains h p hd pl sig where
    "Header jwt' = Some hd" "Payload jwt = Some pl" "Payload jwt' = Some pl"
    "BIDEncodeJson env hd = Inr h" "BIDEncodeJson env pl = Inr p"
    "EncData jwt' = Some (h @ ''.'' @ p)" "EncDataLength jwt' = length h + 1 + length p"
    "BIDBase64UrlEncode (Signature jwt') = Inr sig" "s = h @ ''.'' @ p @ ''.'' @ sig"
proof -
  from assms obtain algkey hd j signature encsig enc where
    d: "BIDMakeSignatureData env (jwt\<lparr>Header := Some hd\<rparr>) = Inr j" and
    sg: "(case algkey of None \<Rightarrow> Inr ([], [])
      | Some (alg, key) \<Rightarrow> bail (alg_MakeSignature env alg (j\<lparr>Signature := []\<rparr>) (Some key)) (\<lambda>signature.
          bail (BIDBase64UrlEncode signature) (\<lambda>szEncSignature. Inr (signature, szEncSignature)))) = Inr (signature, encsig)" and
    e: "EncData j = Some enc" "s = enc @ ''.'' @ encsig" "jwt' = j\<lparr>Signature := signature\<rparr>"
    by (simp only: BIDMakeSignature_def bid_result) (auto simp: bid_result)
  from d obtain h pl p where j: "BIDEncodeJson env hd = Inr h" "Payload jwt = Some pl" "BIDEncodeJson env pl = Inr p"
    "j = jwt\<lparr>Header := Some hd, EncData := Some (h @ ''.'' @ p), EncDataLength := length h + 1 + length p\<rparr>"
    by (auto simp: BIDMakeSignatureData_def bid_result)
  have "BIDBase64UrlEncode signature = Inr encsig"
    using sg by (cases algkey) (auto simp: bid_result BIDBase64UrlEncode_text b64_text_simps)
  with e j show thesis by (intro that[of hd pl h p encsig]) simp_all
qed

lemma BIDMakeSignature_header:
  assumes "BIDMakeSignature env jwt keyset certChain = Inr (s, jwt')"
    and "Header jwt = None \<or> BIDValidateJWTHeader (Header jwt) = Inr ()"
  shows "BIDValidateJWTHeader (Header jwt') = Inr ()"
proof -
  obtain ms where ms: "(case Header jwt of None \<Rightarrow> BIDAllocJsonObject | Some h \<Rightarrow> h) = JObject ms"
    "list_all header_member_ok ms"
    using assms(2) by (cases "Header jwt") (auto simp: BIDAllocJsonObject_def validate_header_iff)
  have ok: "header_member_ok (''alg'', v)" "header_member_ok (''x5c'', v)" for v
    by (simp_all add: header_member_ok_def)
  from assms(1) obtain a header h' where
    h: "BIDJsonObjectSet (JObject ms) ''alg'' (Some a)
          (BID_JSON_FLAG_REQUIRED OR BID_JSON_FLAG_CONSUME_REF) = Inr header" and
    h': "(if certChain \<noteq> None then BIDJsonObjectSet header ''x5c'' certChain BID_JSON_FLAG_REQUIRED
          else Inr header) = Inr h'" and hd: "Header jwt' = Some h'"
    by (simp only: BIDMakeSignature_def BIDMakeSignatureData_def bid_result ms(1))
      (auto simp del: BIDJsonObjectSet_some)
  from h h' hd have "Header jwt' = Some (JObject (AList.update ''alg'' a ms)) \<or>
      (\<exists>c. Header jwt' = Some (JObject (AList.update ''x5c'' c (AList.update ''alg'' a ms))))"
    by (cases certChain) auto
  then show ?thesis using ms(2) ok by (auto simp: validate_header_iff intro!: list_all_update)
qed

lemma alg_x5c_update:
  "map_of (AList.update ''x5c'' c (AList.update ''alg'' a ms)) ''alg'' = Some a"
  "map_of (AList.update ''alg'' a ms) ''alg'' = Some a"
  by (simp_all add: update_conv')

lemma BIDMakeSignature_signed:
  assumes "BIDMakeSignature env jwt (Some ks) certChain = Inr (s, jwt')"
  obtains alg key where
    "sign_alg_loop env (Some ks) BID_S_UNKNOWN_ALGORITHM BIDJWTAlgorithms = Inr (alg, key)"
    "json_object_get (Header jwt') ''alg'' = Some (JString (szAlgID alg))"
    "alg_MakeSignature env alg (jwt'\<lparr>Signature := []\<rparr>) (Some key) = Inr (Signature jwt')"
proof -
  let ?h = "case Header jwt of None \<Rightarrow> BIDAllocJsonObject | Some h \<Rightarrow> h"
  from assms obtain alg key header header' where
    loop: "sign_alg_loop env (Some ks) BID_S_UNKNOWN_ALGORITHM BIDJWTAlgorithms = Inr (alg, key)" and
    h: "BIDJsonObjectSet ?h ''alg'' (Some (JString (szAlgID alg)))
          (BID_JSON_FLAG_REQUIRED OR BID_JSON_FLAG_CONSUME_REF) = Inr header" and
    h': "(if certChain \<noteq> None then BIDJsonObjectSet header ''x5c'' certChain BID_JSON_FLAG_REQUIRED
          else Inr header) = Inr header'" and
    hd: "Header jwt' = Some header'" and
    sig: "alg_MakeSignature env alg (jwt'\<lparr>Signature := []\<rparr>) (Some key) = Inr (Signature jwt')"
    by (auto simp: BIDMakeSignature_def BIDMakeSignatureData_def bid_result split: prod.splits)
  from BIDJsonObjectSet_get[OF h] have "json_object_get (Some header) ''alg'' = Some (JString (szAlgID alg))"
    by simp
  moreover have "json_object_get (Some header') ''alg'' = json_object_get (Some header) ''alg''"
    using h' BIDJsonObjectSet_get[of header "''x5c''" certChain BID_JSON_FLAG_REQUIRED header']
    by (auto split: if_splits)
  ultimately show thesis using that loop hd sig by simp
qed

text \<open>A token that was made and is parsed again.\<close>

lemma parse_made:
  assumes "json_library env" "BIDMakeSignature env jwt keyset certChain = Inr (s, jwt')"
    and "Header jwt = None \<or> BIDValidateJWTHeader (Header jwt) = Inr ()"
  shows "BIDParseJWT env s = Inr (Some (jwt'\<lparr>EncData := Some s\<rparr>))" "Payload jwt' = Payload jwt"
    "jwt_data (jwt'\<lparr>EncData := Some s\<rparr>) = jwt_data jwt'"
proof -
  note json = json_codec[OF assms(1)]
  from BIDMakeSignature_Inr[OF assms(2)] obtain h p hd pl sig where
    j: "Header jwt' = Some hd" "Payload jwt = Some pl" "Payload jwt' = Some pl"
    and enc: "BIDEncodeJson env hd = Inr h" "BIDEncodeJson env pl = Inr p"
    and data: "EncData jwt' = Some (h @ ''.'' @ p)" "EncDataLength jwt' = length h + 1 + length p"
    and sig: "BIDBase64UrlEncode (Signature jwt') = Inr sig" and s: "s = h @ ''.'' @ p @ ''.'' @ sig" .
  have "split_at (CHR ''.'') s = Some (h, p @ ''.'' @ sig)" "split_at (CHR ''.'') (p @ ''.'' @ sig) = Some (p, sig)"
    using text_codec.split_enc[OF json] enc by (simp_all add: s)
  moreover have "BIDValidateJWTHeader (Some hd) = Inr ()"
    using BIDMakeSignature_header[OF assms(2,3)] j(1) by simp
  ultimately show "BIDParseJWT env s = Inr (Some (jwt'\<lparr>EncData := Some s\<rparr>))"
    using text_codec.dec_enc[OF json] enc b64url.dec_enc[OF sig] j data
    by (cases jwt') (simp add: BIDParseJWT_def s)
  show "Payload jwt' = Payload jwt" using j by simp
  show "jwt_data (jwt'\<lparr>EncData := Some s\<rparr>) = jwt_data jwt'"
    using data by (simp add: jwt_data_def s bytes_of_string_def)
qed

text \<open>A symmetric key fits the HMAC algorithm and no other.\<close>

definition hmac_jwk :: "byte list \<Rightarrow> json" where
  "hmac_jwk secret = JObject [(''secret-key'', JString (b64_text True secret))]"

lemma hmac_jwk_loops:
  "sign_alg_loop env (Some (hmac_jwk k)) err BIDJWTAlgorithms = Inr (last BIDJWTAlgorithms, hmac_jwk k)"
  "verify_alg_loop env (Some (hmac_jwk k)) ''HS256'' err BIDJWTAlgorithms = Inr (last BIDJWTAlgorithms, hmac_jwk k)"
  by (simp_all add: BIDJWTAlgorithms_def BIDKeyMatchesP_def hmac_jwk_def)

lemma hmac_jwk_HMACSHA:
  "BIDHMACSHA env (last BIDJWTAlgorithms) jwt (Some (hmac_jwk k)) = Inr (HMAC env EVP_sha256 k (jwt_data jwt))"
  by (simp add: BIDHMACSHA_def BIDJWTAlgorithms_def BIDEvpForAlgorithm_def BIDEvpForAlgorithmName_def
      BIDGetJsonBinaryValue_def hmac_jwk_def)

lemma hmac_alg [simp]:
  "szAlgID (last BIDJWTAlgorithms) = ''HS256''" "SigImpl (last BIDJWTAlgorithms) = HMACSHASignature"
  by (simp_all add: BIDJWTAlgorithms_def)

text \<open>Verification of a token under a symmetric key.\<close>

lemma BIDVerifySignature_hmac:
  assumes "json_object_get (Header jwt) ''alg'' = Some (JString ''HS256'')" "Signature jwt \<noteq> []"
  shows "BIDVerifySignature env (Some jwt) (Some (hmac_jwk k)) =
    (if Signature jwt = HMAC env EVP_sha256 k (jwt_data jwt) then Inr () else Inl BID_S_INVALID_SIGNATURE)"
proof -
  have "HMACSHAVerifySignature env (last BIDJWTAlgorithms) jwt (Some (hmac_jwk k)) =
      Inr (Signature jwt = HMAC env EVP_sha256 k (jwt_data jwt))"
    by (simp only: HMACSHAVerifySignature_iff hmac_jwk_HMACSHA) simp
  with assms show ?thesis
    by (simp add: BIDVerifySignature_def guard_def hmac_jwk_loops alg_VerifySignature_def)
qed

lemma matches_key_type:
  assumes "BIDKeyMatchesP env alg (Some key) = Inr True" "alg \<in> set BIDJWTAlgorithms"
    and "json_object_get (Some key) ''secret-key'' \<noteq> None"
  shows "SigImpl alg = HMACSHASignature"
  using assms by (auto simp: BIDKeyMatchesP_def BIDJWTAlgorithms_def)

text \<open>Signing and parsing with a shared secret, and verification under any secret.\<close>

lemma hmac_sign_verify:
  assumes "json_library env" "BIDMakeSignature env jwt (Some (hmac_jwk k)) certChain = Inr (s, jwt')"
    and "Header jwt = None \<or> BIDValidateJWTHeader (Header jwt) = Inr ()"
    and "\<And>m. HMAC env EVP_sha256 k m \<noteq> []"
  shows "\<exists>parsed. BIDParseJWT env s = Inr (Some parsed) \<and> Payload parsed = Payload jwt \<and>
    (\<forall>k2. BIDVerifySignature env (Some parsed) (Some (hmac_jwk k2)) =
      (if HMAC env EVP_sha256 k2 (jwt_data parsed) = HMAC env EVP_sha256 k (jwt_data parsed)
       then Inr () else Inl BID_S_INVALID_SIGNATURE))"
proof -
  note made = parse_made[OF assms(1-3)]
  from BIDMakeSignature_signed[OF assms(2)] obtain alg key where
    "sign_alg_loop env (Some (hmac_jwk k)) BID_S_UNKNOWN_ALGORITHM BIDJWTAlgorithms = Inr (alg, key)"
    and hd: "json_object_get (Header jwt') ''alg'' = Some (JString (szAlgID alg))"
    and sig: "alg_MakeSignature env alg (jwt'\<lparr>Signature := []\<rparr>) (Some key) = Inr (Signature jwt')" .
  then have ak: "alg = last BIDJWTAlgorithms" "key = hmac_jwk k" by (simp_all add: hmac_jwk_loops)
  with sig have mac: "Signature jwt' = HMAC env EVP_sha256 k (jwt_data jwt')"
    by (simp add: alg_MakeSignature_def HMACSHAMakeSignature_def hmac_jwk_HMACSHA)
  let ?p = "jwt'\<lparr>EncData := Some s\<rparr>"
  have "BIDVerifySignature env (Some ?p) (Some (hmac_jwk k2)) =
      (if Signature ?p = HMAC env EVP_sha256 k2 (jwt_data ?p) then Inr () else Inl BID_S_INVALID_SIGNATURE)" for k2
    by (rule BIDVerifySignature_hmac) (use hd mac assms(4) ak in simp_all)
  with made mac show ?thesis by auto
qed

section \<open>A concrete token\<close>

text \<open>A JSON library that knows one header and the empty object, and a token signed with the
  secret \<open>[1, 2, 3]\<close>.\<close>

definition hs256_header :: json where
  "hs256_header = JObject [(''alg'', JString ''HS256'')]"

definition jwt_env :: crypto_env where
  "jwt_env = sample_env\<lparr>
     json_loads := (\<lambda>s. if s = ''h'' then Some hs256_header else if s = ''p'' then Some (JObject []) else None),
     json_dumps := (\<lambda>j. if j = hs256_header then Some ''h'' else if j = JObject [] then Some ''p'' else None)\<rparr>"

definition empty_jwt :: BIDJWTDesc where
  "empty_jwt = \<lparr>EncData = None, EncDataLength = 0, Header = None, Payload = Some (JObject []), Signature = []\<rparr>"

lemma jwt_env_simps [simp]:
  "json_dumps jwt_env hs256_header = Some ''h''" "json_dumps jwt_env (JObject []) = Some ''p''"
  "HMAC jwt_env md key bs = take 2 (key @ bs @ [0, 0])"
  by (simp_all add: jwt_env_def hs256_header_def)

lemma jwt_env_library: "json_library jwt_env"
  by (simp add: json_library_def jwt_env_def hs256_header_def)

lemma sample_token:
  "\<exists>s jwt'. BIDMakeSignature jwt_env empty_jwt (Some (hmac_jwk [1, 2, 3])) None = Inr (s, jwt')"
proof -
  have "BIDJsonObjectSet BIDAllocJsonObject ''alg'' (Some (JString ''HS256''))
      (BID_JSON_FLAG_REQUIRED OR BID_JSON_FLAG_CONSUME_REF) = Inr hs256_header"
    by (simp add: BIDAllocJsonObject_def hs256_header_def)
  then show ?thesis
    by (simp add: BIDMakeSignature_def empty_jwt_def hmac_jwk_loops BIDMakeSignatureData_def BIDEncodeJson_def
        alg_MakeSignature_def HMACSHAMakeSignature_def hmac_jwk_HMACSHA BIDBase64UrlEncode_text)
qed

section \<open>Properties\<close>

text \<open>A header is accepted exactly when it is an object in which \<^verbatim>\<open>cty\<close> is \<^verbatim>\<open>JWT\<close>, \<^verbatim>\<open>typ\<close> is
  \<^verbatim>\<open>JWS\<close> and every element of \<^verbatim>\<open>crit\<close> names a parameter the program understands, for the
  members that are present.\<close>

theorem validate_jwt_header_iff:
  "BIDValidateJWTHeader (Some header) = Inr () \<longleftrightarrow>
    (\<exists>ms. header = JObject ms \<and>
      (\<forall>(key, val)\<in>set ms.
        (key = ''cty'' \<longrightarrow> val = JString ''JWT'') \<and> (key = ''typ'' \<longrightarrow> val = JString ''JWS'') \<and>
        (key = ''crit'' \<longrightarrow> (\<forall>claim\<in>set (json_array_elems (Some val)).
           \<exists>s\<in>set BIDValidJWTHeaderParameters. claim = JString s))))"
  unfolding validate_header_iff list_all_iff header_member_ok_def by simp

theorem validate_jwt_header_iff_witness:
  "BIDValidateJWTHeader (Some (JObject [(''typ'', JString ''JWS''), (''crit'', JArray [JString ''alg''])])) = Inr ()"
  unfolding validate_jwt_header_iff by (auto simp: BIDValidJWTHeaderParameters_def)

text \<open>C7: the text \<^verbatim>\<open>_BIDMakeSignature\<close> returns is parsed back into the token that was signed: same
  header, payload and signature bytes, the signature covers the same characters, and the payload
  is the one given.\<close>

theorem jwt_make_parse_roundtrip:
  assumes "json_library env" "BIDMakeSignature env jwt keyset certChain = Inr (s, jwt')"
    and "Header jwt = None \<or> BIDValidateJWTHeader (Header jwt) = Inr ()"
  shows "\<exists>parsed. BIDParseJWT env s = Inr (Some parsed) \<and> Payload parsed = Payload jwt \<and>
    Header parsed = Header jwt' \<and> Signature parsed = Signature jwt' \<and> jwt_data parsed = jwt_data jwt' \<and>
    EncData parsed = Some s"
  using parse_made[OF assms] by simp

theorem jwt_make_parse_roundtrip_witness:
  "\<exists>s parsed. BIDParseJWT jwt_env s = Inr (Some parsed) \<and> Payload parsed = Some (JObject [])"
proof -
  from sample_token obtain s jwt' where
    m: "BIDMakeSignature jwt_env empty_jwt (Some (hmac_jwk [1, 2, 3])) None = Inr (s, jwt')" by blast
  from jwt_make_parse_roundtrip[OF jwt_env_library m] show ?thesis by (auto simp: empty_jwt_def)
qed

text \<open>C6: a token is accepted only if it has a signature, its \<^verbatim>\<open>alg\<close> names an entry of the algorithm
  table, the key set offers a key that fits this algorithm and the signature verifies under that
  key.  The type of the key decides: a symmetric key is used for HMAC only and HMAC with a
  symmetric key only, so a public key is never taken for a shared secret.\<close>

theorem verify_signature_sound:
  assumes "BIDVerifySignature env (Some jwt) (Some keyset) = Inr ()"
  shows "\<exists>alg key. Signature jwt \<noteq> [] \<and> alg \<in> set BIDJWTAlgorithms \<and>
    json_object_get (Header jwt) ''alg'' = Some (JString (szAlgID alg)) \<and>
    key_in_keyset keyset key \<and> BIDKeyMatchesP env alg (Some key) = Inr True \<and>
    alg_VerifySignature env alg jwt (Some key) = Inr True \<and>
    (SigImpl alg = HMACSHASignature \<longleftrightarrow> json_object_get (Some key) ''secret-key'' \<noteq> None)"
proof -
  from assms obtain sigAlg alg key where sig: "Signature jwt \<noteq> []"
    and a: "json_object_get (Header jwt) ''alg'' = Some (JString sigAlg)"
    and loop: "verify_alg_loop env (Some keyset) sigAlg BID_S_UNKNOWN_ALGORITHM BIDJWTAlgorithms = Inr (alg, key)"
    and v: "alg_VerifySignature env alg jwt (Some key) = Inr True"
    by (auto simp: BIDVerifySignature_def bid_result)
  from verify_alg_loop_Inr[OF loop] have alg: "alg \<in> set BIDJWTAlgorithms" "szAlgID alg = sigAlg"
    and find: "BIDFindKeyInKeyset env alg (Some keyset) = Inr key" by auto
  from find_key_sound(1)[OF find] have key: "key_in_keyset keyset key" "BIDKeyMatchesP env alg (Some key) = Inr True"
    by auto
  have "json_object_get (Some key) ''secret-key'' \<noteq> None" if "SigImpl alg = HMACSHASignature"
    using v that by (auto simp: alg_VerifySignature_def HMACSHAVerifySignature_iff BIDHMACSHA_def
        BIDGetJsonBinaryValue_def bid_result)
  with matches_key_type[OF key(2) alg(1)] sig a alg key v show ?thesis by blast
qed

theorem verify_signature_sound_witness:
  "\<exists>alg key. alg \<in> set BIDJWTAlgorithms \<and> key_in_keyset (hmac_jwk [1, 2, 3]) key \<and>
    alg_VerifySignature sample_env alg (empty_jwt\<lparr>Header := Some hs256_header, Signature := [1, 2]\<rparr>) (Some key) = Inr True"
proof -
  have "BIDVerifySignature sample_env (Some (empty_jwt\<lparr>Header := Some hs256_header, Signature := [1, 2]\<rparr>))
      (Some (hmac_jwk [1, 2, 3])) = Inr ()"
    by (subst BIDVerifySignature_hmac) (simp_all add: hs256_header_def)
  from verify_signature_sound[OF this] show ?thesis by blast
qed

text \<open>A token signed with a shared secret is parsed and accepted under a secret exactly when the
  two secrets give the signed text the same tag, in particular under the secret itself.\<close>

theorem jwt_hmac_sign_verify:
  assumes "json_library env" "BIDMakeSignature env jwt (Some (hmac_jwk k)) certChain = Inr (s, jwt')"
    and "Header jwt = None \<or> BIDValidateJWTHeader (Header jwt) = Inr ()"
    and "\<And>m. HMAC env EVP_sha256 k m \<noteq> []"
  shows "\<exists>parsed. BIDParseJWT env s = Inr (Some parsed) \<and> Payload parsed = Payload jwt \<and>
    (\<forall>k2. BIDVerifySignature env (Some parsed) (Some (hmac_jwk k2)) =
      (if HMAC env EVP_sha256 k2 (jwt_data parsed) = HMAC env EVP_sha256 k (jwt_data parsed)
       then Inr () else Inl BID_S_INVALID_SIGNATURE))"
  by (rule hmac_sign_verify[OF assms])

theorem jwt_hmac_sign_verify_witness:
  "\<exists>s parsed. BIDParseJWT jwt_env s = Inr (Some parsed) \<and>
    BIDVerifySignature jwt_env (Some parsed) (Some (hmac_jwk [1, 2, 3])) = Inr () \<and>
    BIDVerifySignature jwt_env (Some parsed) (Some (hmac_jwk [9, 9])) = Inl BID_S_INVALID_SIGNATURE"
proof -
  from sample_token obtain s jwt' where
    m: "BIDMakeSignature jwt_env empty_jwt (Some (hmac_jwk [1, 2, 3])) None = Inr (s, jwt')" by blast
  have h: "Header empty_jwt = None \<or> BIDValidateJWTHeader (Header empty_jwt) = Inr ()"
    by (simp add: empty_jwt_def)
  obtain parsed where "BIDParseJWT jwt_env s = Inr (Some parsed)"
    "\<And>k2. BIDVerifySignature jwt_env (Some parsed) (Some (hmac_jwk k2)) =
      (if HMAC jwt_env EVP_sha256 k2 (jwt_data parsed) = HMAC jwt_env EVP_sha256 [1, 2, 3] (jwt_data parsed)
       then Inr () else Inl BID_S_INVALID_SIGNATURE)"
    using jwt_hmac_sign_verify[OF jwt_env_library m h] by auto
  then show ?thesis by (intro exI[of _ s] exI[of _ parsed]) simp
qed

end
