(* ===== verification/Backed.thy ===== *)
theory Backed
  imports Jwt
begin

text \<open>
  Backed assertions (\<^verbatim>\<open>libbrowserid/bid_util.c\<close>): a list of certificates and an assertion, each
  a signed token, joined by tildes.
\<close>

section \<open>Definitions\<close>

abbreviation BID_MAX_CERTS :: nat where "BID_MAX_CERTS \<equiv> 10"

text \<open>\<^verbatim>\<open>struct BIDBackedAssertionDesc\<close>; \<^verbatim>\<open>cCertificates\<close> is the length of the list.\<close>

record BIDBackedAssertionDesc =
  ba_EncData :: string
  Assertion :: "BIDJWTDesc option"
  rCertificates :: "BIDJWTDesc list"

text \<open>
  The loop over the text.  An empty part is parsed into \<^verbatim>\<open>NULL\<close>, which is the value of the
  assertion field until the last part, so it is not counted as a certificate.
\<close>

lemma split_at_length: "split_at c s = Some (a, b) \<Longrightarrow> length b < length s"
  by (auto simp: split_at_Some)

function unpack_loop ::
  "'x crypto_env_scheme \<Rightarrow> string \<Rightarrow> BIDJWTDesc list \<Rightarrow> BIDError + BIDJWTDesc list \<times> BIDJWTDesc option" where
  "unpack_loop env p certs =
     (case split_at (CHR ''~'') p of
        None \<Rightarrow> bail (BIDParseJWT env p) (\<lambda>jwt. Inr (certs, jwt))
      | Some (part, rest) \<Rightarrow>
          if BID_MAX_CERTS \<le> length certs then Inl BID_S_TOO_MANY_CERTS
          else bail (BIDParseJWT env part) (\<lambda>jwt.
            unpack_loop env rest (case jwt of None \<Rightarrow> certs | Some cert \<Rightarrow> certs @ [cert])))"
  by pat_completeness auto
termination
  by (relation "measure (\<lambda>(env, p, certs). length p)") (auto dest: split_at_length)

declare unpack_loop.simps [simp del]

definition BIDUnpackBackedAssertion ::
  "'x crypto_env_scheme \<Rightarrow> string option \<Rightarrow> BIDError + BIDBackedAssertionDesc" where
  "BIDUnpackBackedAssertion env encodedJson =
     bail (some_or encodedJson BID_S_INVALID_ASSERTION) (\<lambda>encodedJson.
     bail (unpack_loop env encodedJson []) (\<lambda>(certs, assertion).
     bail (guard (assertion = None) BID_S_INVALID_ASSERTION) (\<lambda>_.
     Inr \<lparr>ba_EncData = encodedJson, Assertion = assertion, rCertificates = certs\<rparr>)))"

text \<open>The certificates are signed with the key of the assertion, without a certificate chain.\<close>

fun pack_certs ::
  "'x crypto_env_scheme \<Rightarrow> json option \<Rightarrow> BIDJWTDesc list \<Rightarrow> BIDError + (string \<times> BIDJWTDesc) list" where
  "pack_certs env keyset [] = Inr []"
| "pack_certs env keyset (cert # certs) =
     bail (BIDMakeSignature env cert keyset None) (\<lambda>enc.
     bail (pack_certs env keyset certs) (\<lambda>encs. Inr (enc # encs)))"

definition BIDPackBackedAssertion ::
  "'x crypto_env_scheme \<Rightarrow> BIDBackedAssertionDesc \<Rightarrow> json option \<Rightarrow> json option \<Rightarrow>
    BIDError + string \<times> BIDBackedAssertionDesc" where
  "BIDPackBackedAssertion env assertion keyset certChain =
     bail (some_or (Assertion assertion) BID_UNDEFINED) (\<lambda>jwt.
     bail (BIDMakeSignature env jwt keyset certChain) (\<lambda>(szEncodedAssertion, jwt').
     bail (pack_certs env keyset (rCertificates assertion)) (\<lambda>encs.
     Inr (''~'' @ szEncodedAssertion @
            concat (map (\<lambda>enc. ''~'' @ enc) (takeWhile (\<lambda>enc. enc \<noteq> []) (map fst encs))),
          assertion\<lparr>Assertion := Some jwt', rCertificates := map snd encs\<rparr>))))"

definition BIDLeafCert :: "BIDBackedAssertionDesc \<Rightarrow> json option" where
  "BIDLeafCert backedAssertion =
     (if rCertificates backedAssertion = [] then None
      else Payload (rCertificates backedAssertion ! (length (rCertificates backedAssertion) - 1)))"

definition BIDRootCert :: "BIDBackedAssertionDesc \<Rightarrow> json option" where
  "BIDRootCert backedAssertion =
     (if rCertificates backedAssertion = [] then None else Payload (rCertificates backedAssertion ! 0))"

section \<open>Lemmas\<close>

lemma unpack_last:
  "CHR ''~'' \<notin> set p \<Longrightarrow> unpack_loop env p certs = bail (BIDParseJWT env p) (\<lambda>jwt. Inr (certs, jwt))"
  by (subst unpack_loop.simps) (simp add: split_at_None[THEN iffD2])

lemma unpack_part:
  "CHR ''~'' \<notin> set part \<Longrightarrow> length certs < BID_MAX_CERTS \<Longrightarrow>
    unpack_loop env (part @ ''~'' @ rest) certs = bail (BIDParseJWT env part) (\<lambda>jwt.
      unpack_loop env rest (case jwt of None \<Rightarrow> certs | Some cert \<Rightarrow> certs @ [cert]))"
  by (subst unpack_loop.simps) simp

lemma BIDParseJWT_None: "BIDParseJWT env s = Inr None \<longleftrightarrow> s = []"
  by (auto simp: BIDParseJWT_def bid_result)

text \<open>What the loop accepted: the parts before the last tilde that are not empty are the
  certificates, the last part is the assertion.\<close>

lemma unpack_loop_sound:
  "unpack_loop env p certs = Inr (certs', jwt) \<Longrightarrow> length certs \<le> BID_MAX_CERTS \<Longrightarrow>
    length certs' \<le> BID_MAX_CERTS \<and>
    (\<exists>parts lst new. p = concat (map (\<lambda>x. x @ ''~'') parts) @ lst \<and>
      CHR ''~'' \<notin> set lst \<and> (\<forall>x\<in>set parts. CHR ''~'' \<notin> set x) \<and> certs' = certs @ new \<and>
      map (BIDParseJWT env) (filter (\<lambda>x. x \<noteq> []) parts) = map (\<lambda>c. Inr (Some c)) new \<and>
      BIDParseJWT env lst = Inr jwt)"
proof (induction env p certs rule: unpack_loop.induct)
  case (1 env p certs)
  show ?case
  proof (cases "split_at (CHR ''~'') p")
    case None
    with "1.prems" show ?thesis
      by (intro conjI exI[of _ "[]"] exI[of _ p])
        (auto simp: unpack_loop.simps[of env p] bid_result split_at_None)
  next
    case (Some pr)
    obtain part rest where pr: "pr = (part, rest)" by (cases pr)
    with Some have p: "p = part @ ''~'' @ rest" "CHR ''~'' \<notin> set part" by (auto simp: split_at_Some)
    from "1.prems"(1) Some pr obtain j where len: "\<not> BID_MAX_CERTS \<le> length certs"
      and j: "BIDParseJWT env part = Inr j"
      and rec: "unpack_loop env rest (case j of None \<Rightarrow> certs | Some cert \<Rightarrow> certs @ [cert]) = Inr (certs', jwt)"
      by (auto simp: unpack_loop.simps[of env p] bid_result split: if_splits)
    let ?c = "case j of None \<Rightarrow> certs | Some cert \<Rightarrow> certs @ [cert]"
    have "length ?c \<le> BID_MAX_CERTS" using len by (cases j) auto
    from "1.IH"[OF Some pr[symmetric] len j rec this] obtain parts lst new where
      b: "length certs' \<le> BID_MAX_CERTS" and r: "rest = concat (map (\<lambda>x. x @ ''~'') parts) @ lst"
      "CHR ''~'' \<notin> set lst" "\<forall>x\<in>set parts. CHR ''~'' \<notin> set x" "certs' = ?c @ new"
      "map (BIDParseJWT env) (filter (\<lambda>x. x \<noteq> []) parts) = map (\<lambda>c. Inr (Some c)) new"
      "BIDParseJWT env lst = Inr jwt" by auto
    show ?thesis
      using b p r j BIDParseJWT_None[of env part]
      by (intro conjI exI[of _ "part # parts"] exI[of _ lst]
          exI[of _ "(case j of None \<Rightarrow> [] | Some c \<Rightarrow> [c]) @ new"]) (cases j, auto)+
  qed
qed

text \<open>Parts that all parse to a token are taken in order.\<close>

lemma unpack_parts:
  "map (BIDParseJWT env) (x # xs) = map (\<lambda>j. Inr (Some j)) js \<Longrightarrow>
    \<forall>y\<in>set (x # xs). CHR ''~'' \<notin> set y \<Longrightarrow> length certs + length xs \<le> BID_MAX_CERTS \<Longrightarrow>
    unpack_loop env (x @ concat (map (\<lambda>y. ''~'' @ y) xs)) certs = Inr (certs @ butlast js, Some (last js))"
proof (induction xs arbitrary: x js certs)
  case Nil
  then show ?case by (cases js) (auto simp: unpack_last)
next
  case (Cons y ys)
  then obtain j js' where js: "js = j # js'" "js' \<noteq> []" "BIDParseJWT env x = Inr (Some j)"
    "map (BIDParseJWT env) (y # ys) = map (\<lambda>j. Inr (Some j)) js'"
    by (cases js) auto
  from Cons.IH[OF js(4), of "certs @ [j]"] Cons.prems
  have "unpack_loop env (y @ concat (map (\<lambda>y. ''~'' @ y) ys)) (certs @ [j]) = Inr (certs @ butlast js, Some (last js))"
    by (simp add: js)
  with unpack_part[of x certs env "y @ concat (map (\<lambda>y. ''~'' @ y) ys)"] Cons.prems js(3)
  show ?case by simp
qed

lemma made_no_tilde: "BIDMakeSignature env jwt keyset certChain = Inr (s, jwt') \<Longrightarrow> CHR ''~'' \<notin> set s \<and> s \<noteq> []"
proof (erule BIDMakeSignature_Inr)
  fix h p hd pl sig assume enc: "BIDEncodeJson env hd = Inr h" "BIDEncodeJson env pl = Inr p"
    "BIDBase64UrlEncode (Signature jwt') = Inr sig" and s: "s = h @ ''.'' @ p @ ''.'' @ sig"
  then have "CHR ''~'' \<notin> set h" "CHR ''~'' \<notin> set p" "CHR ''~'' \<notin> set sig"
    by (auto simp: BIDEncodeJson_Inr dest!: b64url.no_separator[of _ _ "CHR ''~''"])
  then show ?thesis by (simp add: s)
qed

lemma made_no_nul: "BIDMakeSignature env jwt keyset certChain = Inr (s, jwt') \<Longrightarrow> CHR 0x00 \<notin> set s"
proof (erule BIDMakeSignature_Inr)
  fix h p hd pl sig assume enc: "BIDEncodeJson env hd = Inr h" "BIDEncodeJson env pl = Inr p"
    "BIDBase64UrlEncode (Signature jwt') = Inr sig" and s: "s = h @ ''.'' @ p @ ''.'' @ sig"
  have "CHR 0x00 \<notin> set base64url_chars" by (simp add: base64url_chars_def)
  with enc have "CHR 0x00 \<notin> set h" "CHR 0x00 \<notin> set p" "CHR 0x00 \<notin> set sig"
    by (auto simp: BIDEncodeJson_Inr dest!: b64url.no_separator[of _ _ "CHR 0x00"])
  then show ?thesis by (simp add: s)
qed

lemma pack_certs_made:
  "pack_certs env keyset certs = Inr encs \<Longrightarrow>
    length encs = length certs \<and>
    (\<forall>i<length certs. BIDMakeSignature env (certs ! i) keyset None = Inr (encs ! i))"
  by (induction certs arbitrary: encs) (auto simp: bid_result nth_Cons split: nat.splits)

text \<open>The tokens of a packed assertion, as a parser sees them.\<close>

lemma pack_certs_parse:
  assumes "json_library env" "pack_certs env keyset certs = Inr encs"
    and "\<forall>c\<in>set certs. Header c = None \<or> BIDValidateJWTHeader (Header c) = Inr ()"
  shows "\<exists>js. map (BIDParseJWT env) (map fst encs) = map (\<lambda>j. Inr (Some j)) js \<and>
    map Payload js = map Payload certs \<and> (\<forall>s\<in>set (map fst encs). CHR ''~'' \<notin> set s \<and> s \<noteq> [])"
  using assms(2,3)
proof (induction certs arbitrary: encs)
  case (Cons c cs)
  from Cons.prems(1) obtain s c' encs' where c: "BIDMakeSignature env c keyset None = Inr (s, c')"
    "pack_certs env keyset cs = Inr encs'" "encs = (s, c') # encs'"
    by (auto simp: bid_result)
  from Cons.IH[OF c(2)] Cons.prems(2) obtain js where
    "map (BIDParseJWT env) (map fst encs') = map (\<lambda>j. Inr (Some j)) js" "map Payload js = map Payload cs"
    "\<forall>s\<in>set (map fst encs'). CHR ''~'' \<notin> set s \<and> s \<noteq> []" by auto
  with parse_made[OF assms(1) c(1)] made_no_tilde[OF c(1)] Cons.prems(2) c(3) show ?case
    by (intro exI[of _ "c'\<lparr>EncData := Some s\<rparr> # js"]) auto
qed simp

text \<open>An assertion packed without certificates comes back as itself.\<close>

lemma pack_unpack_bare:
  assumes "json_library env"
    and "BIDPackBackedAssertion env \<lparr>ba_EncData = e, Assertion = Some jwt, rCertificates = []\<rparr> keyset certChain = Inr (s, a)"
    and "Header jwt = None \<or> BIDValidateJWTHeader (Header jwt) = Inr ()"
  obtains t jwt' where "BIDMakeSignature env jwt keyset certChain = Inr (t, jwt')" "s = ''~'' @ t"
    "BIDUnpackBackedAssertion env (Some s) =
      Inr \<lparr>ba_EncData = s, Assertion = Some (jwt'\<lparr>EncData := Some t\<rparr>), rCertificates = []\<rparr>"
    "BIDParseJWT env t = Inr (Some (jwt'\<lparr>EncData := Some t\<rparr>))"
proof -
  from assms(2) obtain t jwt' where m: "BIDMakeSignature env jwt keyset certChain = Inr (t, jwt')" and s: "s = ''~'' @ t"
    by (auto simp: BIDPackBackedAssertion_def bid_result)
  note made = made_no_tilde[OF m] parse_made[OF assms(1) m assms(3)]
  have "BIDParseJWT env [] = Inr None" by (simp add: BIDParseJWT_None)
  then have "BIDUnpackBackedAssertion env (Some s) =
      Inr \<lparr>ba_EncData = s, Assertion = Some (jwt'\<lparr>EncData := Some t\<rparr>), rCertificates = []\<rparr>"
    using unpack_part[of "[]" "[]" env t] made by (simp add: BIDUnpackBackedAssertion_def unpack_last guard_def s)
  with m s made show ?thesis by (intro that) auto
qed

section \<open>Properties\<close>

text \<open>C17: an unpacked text has at most \<^verbatim>\<open>BID_MAX_CERTS\<close> certificates, so the certificate array is
  never overrun; the certificates are the parsed non-empty parts before the last tilde, in order,
  and the assertion is the parsed part after it, which is not empty.\<close>

theorem unpack_backed_assertion_sound:
  assumes "BIDUnpackBackedAssertion env (Some s) = Inr a"
  shows "length (rCertificates a) \<le> BID_MAX_CERTS \<and> ba_EncData a = s \<and>
    (\<exists>parts lst jwt. s = concat (map (\<lambda>x. x @ ''~'') parts) @ lst \<and>
      CHR ''~'' \<notin> set lst \<and> (\<forall>x\<in>set parts. CHR ''~'' \<notin> set x) \<and>
      map (BIDParseJWT env) (filter (\<lambda>x. x \<noteq> []) parts) = map (\<lambda>c. Inr (Some c)) (rCertificates a) \<and>
      Assertion a = Some jwt \<and> BIDParseJWT env lst = Inr (Some jwt))"
proof -
  from assms obtain jwt where u: "unpack_loop env s [] = Inr (rCertificates a, Some jwt)"
    and a: "Assertion a = Some jwt" "ba_EncData a = s"
    by (auto simp: BIDUnpackBackedAssertion_def bid_result)
  from unpack_loop_sound[OF u] a show ?thesis by auto
qed

text \<open>Packing writes the assertion first and the certificates after it, while unpacking takes
  the last token for the assertion: what is unpacked has the same tokens in the same order, with
  the last certificate in the place of the assertion.  Only an assertion without certificates
  comes back as it was packed.\<close>

theorem pack_unpack_rotates:
  assumes "json_library env" "BIDPackBackedAssertion env a keyset certChain = Inr (s, a')"
    and "Assertion a = Some jwt" "length (rCertificates a) \<le> BID_MAX_CERTS"
    and "\<forall>c\<in>set (jwt # rCertificates a). Header c = None \<or> BIDValidateJWTHeader (Header c) = Inr ()"
  shows "\<exists>b jwt2. BIDUnpackBackedAssertion env (Some s) = Inr b \<and> Assertion b = Some jwt2 \<and>
    map Payload (rCertificates b @ [jwt2]) = map Payload (jwt # rCertificates a)"
proof -
  from assms(2,3) obtain sa jwt' encs where m: "BIDMakeSignature env jwt keyset certChain = Inr (sa, jwt')"
    and p: "pack_certs env keyset (rCertificates a) = Inr encs"
    and s: "s = ''~'' @ sa @ concat (map (\<lambda>enc. ''~'' @ enc) (takeWhile (\<lambda>enc. enc \<noteq> []) (map fst encs)))"
    by (auto simp: BIDPackBackedAssertion_def bid_result)
  from pack_certs_parse[OF assms(1) p] assms(5) obtain js where
    js: "map (BIDParseJWT env) (map fst encs) = map (\<lambda>j. Inr (Some j)) js"
    "map Payload js = map Payload (rCertificates a)" "\<forall>s\<in>set (map fst encs). CHR ''~'' \<notin> set s \<and> s \<noteq> []"
    by auto
  have tw: "takeWhile (\<lambda>enc. enc \<noteq> []) (map fst encs) = map fst encs" using js(3) by simp
  let ?js = "jwt'\<lparr>EncData := Some sa\<rparr> # js"
  have n: "length (map fst encs) \<le> BID_MAX_CERTS" using pack_certs_made[OF p] assms(4) by simp
  have "map (BIDParseJWT env) (sa # map fst encs) = map (\<lambda>j. Inr (Some j)) ?js"
    using js(1) parse_made(1)[OF assms(1) m] assms(5) by simp
  moreover have "\<forall>y\<in>set (sa # map fst encs). CHR ''~'' \<notin> set y" using js(3) made_no_tilde[OF m] by simp
  ultimately have "unpack_loop env (sa @ concat (map (\<lambda>y. ''~'' @ y) (map fst encs))) [] =
      Inr ([] @ butlast ?js, Some (last ?js))" using n by (intro unpack_parts) simp_all
  then have "unpack_loop env s [] = Inr (butlast ?js, Some (last ?js))"
    using unpack_part[of "[]" "[]" env] by (simp add: s tw BIDParseJWT_def)
  then have "BIDUnpackBackedAssertion env (Some s) =
      Inr \<lparr>ba_EncData = s, Assertion = Some (last ?js), rCertificates = butlast ?js\<rparr>"
    by (simp add: BIDUnpackBackedAssertion_def guard_def)
  moreover have "butlast ?js @ [last ?js] = ?js" by (rule append_butlast_last_id) simp
  then have "map Payload (butlast ?js @ [last ?js]) = map Payload (jwt # rCertificates a)"
    using parse_made(2)[OF assms(1) m] assms(5) js(2) by (simp only: list.map) simp
  ultimately show ?thesis by auto
qed

text \<open>An assertion with the token of \<open>sample_token\<close> and no certificates.\<close>

lemma sample_packed:
  "\<exists>s a'. BIDPackBackedAssertion jwt_env \<lparr>ba_EncData = [], Assertion = Some empty_jwt, rCertificates = []\<rparr>
     (Some (hmac_jwk [1, 2, 3])) None = Inr (s, a')"
  using sample_token by (auto simp: BIDPackBackedAssertion_def)

theorem pack_unpack_rotates_witness:
  "\<exists>s b jwt2. BIDUnpackBackedAssertion jwt_env (Some s) = Inr b \<and> Assertion b = Some jwt2 \<and>
     rCertificates b = [] \<and> Payload jwt2 = Some (JObject [])"
proof -
  from sample_packed obtain s a' where p: "BIDPackBackedAssertion jwt_env
      \<lparr>ba_EncData = [], Assertion = Some empty_jwt, rCertificates = []\<rparr> (Some (hmac_jwk [1, 2, 3])) None = Inr (s, a')"
    by blast
  from pack_unpack_rotates[OF jwt_env_library p, of empty_jwt] obtain b jwt2 where
    "BIDUnpackBackedAssertion jwt_env (Some s) = Inr b" "Assertion b = Some jwt2"
    "map Payload (rCertificates b @ [jwt2]) = [Payload empty_jwt]" by (auto simp: empty_jwt_def)
  then show ?thesis by (auto simp: empty_jwt_def)
qed

theorem unpack_backed_assertion_sound_witness:
  "\<exists>s a. BIDUnpackBackedAssertion jwt_env (Some s) = Inr a \<and> length (rCertificates a) \<le> BID_MAX_CERTS \<and>
     (\<exists>jwt. Assertion a = Some jwt)"
proof -
  let ?s = "b64_text True (bytes_of_string ''h'') @ ''.'' @ b64_text True (bytes_of_string ''p'') @ ''.''"
  have h: "json_loads jwt_env ''h'' = Some hs256_header" "json_loads jwt_env ''p'' = Some (JObject [])"
    by (simp_all add: jwt_env_def)
  have nd: "CHR ''.'' \<notin> set (b64_text True bs)" "CHR ''~'' \<notin> set (b64_text True bs)" for bs
    using set_b64_text base64url_separators by blast+
  have dec: "BIDDecodeJson jwt_env (b64_text True (bytes_of_string ''h'')) = Inr hs256_header"
    "BIDDecodeJson jwt_env (b64_text True (bytes_of_string ''p'')) = Inr (JObject [])"
    by (simp_all add: BIDDecodeJson_def c_string_bytes_of_string h)
  have "BIDValidateJWTHeader (Some hs256_header) = Inr ()"
    by (simp add: validate_header_iff hs256_header_def header_member_ok_def)
  moreover have "BIDBase64UrlDecode [] None = Inr []"
    using BIDBase64UrlDecode_text[of "[]"] by (simp add: b64_text_simps)
  ultimately have "\<exists>j. BIDParseJWT jwt_env ?s = Inr (Some j)" by (simp add: BIDParseJWT_def nd dec)
  then obtain a where "BIDUnpackBackedAssertion jwt_env (Some ?s) = Inr a"
    using nd by (auto simp: BIDUnpackBackedAssertion_def unpack_last guard_def)
  with unpack_backed_assertion_sound[OF this] show ?thesis by blast
qed

end
