(* ===== verification/Identity.thy ===== *)
theory Identity
  imports X509 Backed
begin

text \<open>
  Identities: the key agreement of \<^verbatim>\<open>libbrowserid/bid_crypto.c\<close> and \<^verbatim>\<open>bid_openssl.c\<close>, and the
  attributes, construction and subject validation of \<^verbatim>\<open>libbrowserid/bid_identity.c\<close>.
\<close>

section \<open>Data\<close>

record BIDIdentityDesc =
  Attributes :: json
  PrivateAttributes :: json
  SecretHandle :: "BIDSecretHandleDesc option"

text \<open>Storing a member in an object that the identity owns, in place.\<close>

definition set_member :: "json \<Rightarrow> string \<Rightarrow> json \<Rightarrow> json" where
  "set_member obj key val = (case json_object_set obj key val of None \<Rightarrow> obj | Some obj' \<Rightarrow> obj')"

text \<open>A sequence of required stores into one object: what was stored before a failure stays.\<close>

fun set_required :: "(string \<times> json option) list \<Rightarrow> json \<Rightarrow> (BIDError + unit) \<times> json" where
  "set_required [] obj = (Inr (), obj)"
| "set_required ((key, src) # rest) obj =
     (case BIDJsonObjectSet obj key src BID_JSON_FLAG_REQUIRED of
        Inl e \<Rightarrow> (Inl e, obj)
      | Inr obj' \<Rightarrow> set_required rest obj')"

section \<open>Elliptic curve keys\<close>

definition BIDGetJsonECPointValue ::
  "'x crypto_env_scheme \<Rightarrow> nat \<Rightarrow> json option \<Rightarrow> BIDError + BIGNUM \<times> BIGNUM" where
  "BIDGetJsonECPointValue env curve json =
     bail (BIDGetJsonBNValue env json (Some ''x'') BID_ENCODING_BASE64_URL) (\<lambda>x.
     bail (BIDGetJsonBNValue env json (Some ''y'') BID_ENCODING_BASE64_URL) (\<lambda>y.
     bail (guard (\<not> EC_POINT_valid env curve (x, y)) BID_S_CRYPTO_ERROR) (\<lambda>_. Inr (x, y))))"

definition BIDMakeECKeyByCurve :: "json option \<Rightarrow> BIDError + nat" where
  "BIDMakeECKeyByCurve ecDhParams =
     bail (BIDGetECDHCurve ecDhParams) (\<lambda>curve.
       if curve = 256 \<or> curve = 384 \<or> curve = 521 then Inr curve else Inl BID_S_UNKNOWN_EC_CURVE)"

definition BIDGenerateECDHKey :: "'x crypto_env_scheme \<Rightarrow> json option \<Rightarrow> BIDError + json" where
  "BIDGenerateECDHKey env ecDhParams =
     bail (BIDMakeECKeyByCurve ecDhParams) (\<lambda>curve.
     bail (some_or (EC_KEY_generate_key env curve) BID_S_DH_KEY_GENERATION_FAILURE) (\<lambda>(x, y, d).
     bail (BIDJsonObjectSet BIDAllocJsonObject ''params'' ecDhParams BID_JSON_FLAG_REQUIRED) (\<lambda>ecDhKey.
     bail (BIDSetJsonBNValue env ecDhKey ''x'' x) (\<lambda>ecDhKey.
     bail (BIDSetJsonBNValue env ecDhKey ''y'' y) (\<lambda>ecDhKey.
     BIDSetJsonBNValue env ecDhKey ''d'' d)))))"

definition BIDKDFIdentity :: "byte list \<Rightarrow> nat \<Rightarrow> byte list option" where
  "BIDKDFIdentity inp outlen = (if outlen < length inp then None else Some inp)"

text \<open>The results of the functions that install the key pair are only tested for negative values,
  which they do not return.\<close>

definition BIDECDHSecretAgreement ::
  "'x crypto_env_scheme \<Rightarrow> json option \<Rightarrow> json option \<Rightarrow> BIDError + BIDSecretHandleDesc" where
  "BIDECDHSecretAgreement env ecDhKey pubValue =
     bail (guard (ecDhKey = None \<or> pubValue = None) BID_S_INVALID_PARAMETER) (\<lambda>_.
     bail (some_or (json_object_get ecDhKey ''params'') BID_S_INVALID_KEY) (\<lambda>ecDhParams.
     bail (BIDGetJsonBNValue env ecDhKey (Some ''d'') BID_ENCODING_BASE64_URL) (\<lambda>d.
     bail (BIDMakeECKeyByCurve (Some ecDhParams)) (\<lambda>curve.
     bail (BIDGetJsonECPointValue env curve ecDhKey) (\<lambda>localKey.
     bail (BIDGetJsonECPointValue env curve pubValue) (\<lambda>peerKey.
     bail (BIDGetECDHCurve (Some ecDhParams)) (\<lambda>cbits.
     case ECDH_compute_key env curve d peerKey of
       None \<Rightarrow> Inl BID_S_CRYPTO_ERROR
     | Some raw \<Rightarrow>
         (case BIDKDFIdentity raw (cbits div 8 + 1) of
            None \<Rightarrow> Inl BID_S_CRYPTO_ERROR
          | Some secret \<Rightarrow> BIDAllocSecret (Some secret)))))))))"

section \<open>Key agreement of identities\<close>

definition BIDGenerateECDHParams :: "BIDContextDesc \<Rightarrow> BIDError + json" where
  "BIDGenerateECDHParams context =
     bail (curve_name context) (\<lambda>szCurve.
     bail (BIDJsonObjectSet BIDAllocJsonObject ''kty'' (Some (JString ''EC''))
             (BID_JSON_FLAG_REQUIRED OR BID_JSON_FLAG_CONSUME_REF)) (\<lambda>ecDhParams.
     BIDJsonObjectSet ecDhParams ''crv'' (Some (JString szCurve))
             (BID_JSON_FLAG_REQUIRED OR BID_JSON_FLAG_CONSUME_REF)))"

definition BIDGetKeyAgreementParams :: "BIDContextDesc \<Rightarrow> BIDError + json" where
  "BIDGetKeyAgreementParams context = BIDGenerateECDHParams context"

definition BIDIdentitySecretAgreement ::
  "'x crypto_env_scheme \<Rightarrow> BIDContextDesc \<Rightarrow> BIDIdentityDesc \<Rightarrow> (BIDError + unit) \<times> BIDIdentityDesc" where
  "BIDIdentitySecretAgreement env context identity =
     (if SecretHandle identity \<noteq> None then (Inr (), identity)
      else case
        bail (BIDGetKeyAgreementObject (Some (PrivateAttributes identity))) (\<lambda>dh.
        bail (guard (\<not> flag_set (ContextOptions context) BID_CONTEXT_ECDH_KEYEX) BID_S_NO_KEY) (\<lambda>_.
        let params = json_object_get (Some dh) ''params'' in
        bail (BIDGetECDHCurve params) (\<lambda>cbits.
        bail (guard (cbits < unat (ECDHCurve context)) BID_S_INVALID_EC_CURVE) (\<lambda>_.
        BIDECDHSecretAgreement env (Some dh) params)))) of
          Inl e \<Rightarrow> (Inl e, identity)
        | Inr h \<Rightarrow> (Inr (), identity\<lparr>SecretHandle := Some h\<rparr>))"

definition BIDDeriveSessionSubkey ::
  "'x crypto_env_scheme \<Rightarrow> BIDContextDesc \<Rightarrow> BIDIdentityDesc \<Rightarrow> string \<Rightarrow> (BIDError + json) \<times> BIDIdentityDesc" where
  "BIDDeriveSessionSubkey env context identity szSalt =
     bailS (BIDIdentitySecretAgreement env context identity) (\<lambda>_ identity.
       (bail (BIDDeriveKey env (SecretHandle identity) (Some (bytes_of_string szSalt))) (\<lambda>pbSubkey.
        bail (BIDJsonBinaryValue pbSubkey) (\<lambda>sk.
        BIDJsonObjectSet BIDAllocJsonObject ''secret-key'' (Some sk) 0)), identity))"

definition BIDVerifierKeyAgreement ::
  "'x crypto_env_scheme \<Rightarrow> BIDIdentityDesc \<Rightarrow> (BIDError + unit) \<times> BIDIdentityDesc" where
  "BIDVerifierKeyAgreement env identity =
     (case bail (BIDGetKeyAgreementObject (Some (PrivateAttributes identity))) (\<lambda>dh.
           bail (BIDGenerateECDHKey env (json_object_get (Some dh) ''params'')) (\<lambda>key. Inr (dh, key))) of
        Inl e \<Rightarrow> (Inl e, identity)
      | Inr (dh, key) \<Rightarrow>
          let (r, dh') = set_required [(''x'', json_object_get (Some key) ''x''), (''y'', json_object_get (Some key) ''y''),
                                       (''d'', json_object_get (Some key) ''d'')] dh
          in (r, identity\<lparr>PrivateAttributes := set_member (PrivateAttributes identity) ''epk'' dh'\<rparr>))"

definition BIDGetKeyAgreementPublicValue :: "BIDIdentityDesc \<Rightarrow> BIDError + json" where
  "BIDGetKeyAgreementPublicValue identity =
     bail (BIDGetKeyAgreementObject (Some (PrivateAttributes identity))) (\<lambda>dh.
     bail (some_or (json_object_get (Some dh) ''x'') BID_S_NO_KEY) (\<lambda>x.
     bail (some_or (json_object_get (Some dh) ''y'') BID_S_NO_KEY) (\<lambda>y.
     bail (BIDJsonObjectSet BIDAllocJsonObject ''x'' (Some x) BID_JSON_FLAG_REQUIRED) (\<lambda>pub.
     BIDJsonObjectSet pub ''y'' (Some y) BID_JSON_FLAG_REQUIRED))))"

definition BIDSetKeyAgreementPublicValue ::
  "BIDIdentityDesc \<Rightarrow> json option \<Rightarrow> (BIDError + unit) \<times> BIDIdentityDesc" where
  "BIDSetKeyAgreementPublicValue identity peerDh =
     (case bail (BIDGetKeyAgreementObject (Some (PrivateAttributes identity))) (\<lambda>dh.
           bail (some_or (json_object_get (Some dh) ''params'') BID_S_NO_KEY) (\<lambda>params. Inr (dh, params))) of
        Inl e \<Rightarrow> (Inl e, identity)
      | Inr (dh, params) \<Rightarrow>
          let (r, params') = set_required [(''x'', json_object_get peerDh ''x''), (''y'', json_object_get peerDh ''y'')] params
          in (r, identity\<lparr>PrivateAttributes :=
                  set_member (PrivateAttributes identity) ''epk'' (set_member dh ''params'' params')\<rparr>))"

text \<open>The object a caller wants the curve saved in, after the call.\<close>

definition BIDSaveKeyAgreementStrength ::
  "BIDContextDesc \<Rightarrow> BIDIdentityDesc \<Rightarrow> json \<Rightarrow> BIDError + json" where
  "BIDSaveKeyAgreementStrength context identity cred =
     (if json_object_get (Some cred) ''crv'' \<noteq> None then Inr cred
      else case BIDGetKeyAgreementObject (Some (PrivateAttributes identity)) of
        Inl _ \<Rightarrow> BIDJsonObjectSet cred ''crv'' (json_object_get (Some (PrivateAttributes identity)) ''crv'') 0
      | Inr dh \<Rightarrow>
          if flag_set (ContextOptions context) BID_CONTEXT_ECDH_KEYEX
          then BIDJsonObjectSet cred ''crv'' (json_object_get (json_object_get (Some dh) ''params'') ''crv'')
                 BID_JSON_FLAG_REQUIRED
          else Inr cred)"

section \<open>Attributes\<close>

definition BIDGetIdentityAttribute :: "BIDIdentityDesc \<Rightarrow> string \<Rightarrow> bool \<Rightarrow> BIDError + string" where
  "BIDGetIdentityAttribute identity attribute bPrivateAttribute =
     some_or (json_string_value (json_object_get
       (Some (if bPrivateAttribute then PrivateAttributes identity else Attributes identity)) attribute))
       BID_S_UNKNOWN_ATTRIBUTE"

definition BIDGetIdentityAudience :: "BIDIdentityDesc \<Rightarrow> BIDError + string" where
  "BIDGetIdentityAudience identity = BIDGetIdentityAttribute identity ''aud'' True"

definition BIDGetIdentitySubject :: "BIDIdentityDesc \<Rightarrow> BIDError + string" where
  "BIDGetIdentitySubject identity = BIDGetIdentityAttribute identity ''sub'' False"

definition BIDGetIdentityIssuer :: "BIDIdentityDesc \<Rightarrow> BIDError + string" where
  "BIDGetIdentityIssuer identity = BIDGetIdentityAttribute identity ''iss'' False"

definition BIDGetIdentityJsonObject :: "BIDIdentityDesc \<Rightarrow> string option \<Rightarrow> BIDError + json" where
  "BIDGetIdentityJsonObject identity attribute =
     (case attribute of
        Some a \<Rightarrow> some_or (json_object_get (Some (Attributes identity)) a) BID_S_UNKNOWN_ATTRIBUTE
      | None \<Rightarrow> Inr (Attributes identity))"

definition BIDGetIdentityReauthTicket :: "BIDIdentityDesc \<Rightarrow> BIDError + json" where
  "BIDGetIdentityReauthTicket identity =
     some_or (json_object_get (Some (PrivateAttributes identity)) ''tkt'') BID_S_UNKNOWN_ATTRIBUTE"

definition BIDGetIdentityReauthTicket_pub :: "BIDIdentityDesc \<Rightarrow> BIDError + string" where
  "BIDGetIdentityReauthTicket_pub identity =
     bail (BIDGetIdentityReauthTicket identity) (\<lambda>tkt. some_or (json_string_value (Some tkt)) BID_S_UNKNOWN_ATTRIBUTE)"

definition BIDIdentityDeriveKey ::
  "'x crypto_env_scheme \<Rightarrow> BIDContextDesc \<Rightarrow> BIDIdentityDesc \<Rightarrow> byte list option \<Rightarrow>
    (BIDError + byte list) \<times> BIDIdentityDesc" where
  "BIDIdentityDeriveKey env context identity pbSalt =
     bailS (BIDIdentitySecretAgreement env context identity) (\<lambda>_ identity.
       (BIDDeriveKey env (SecretHandle identity) pbSalt, identity))"

definition BIDGetIdentityExpiryTime :: "BIDIdentityDesc \<Rightarrow> BIDError + int" where
  "BIDGetIdentityExpiryTime identity = BIDGetJsonTimestampValue (Some (Attributes identity)) ''exp''"

definition BIDAllocIdentity :: "json option \<Rightarrow> BIDIdentityDesc" where
  "BIDAllocIdentity attributes =
     \<lparr>Attributes = (case attributes of None \<Rightarrow> BIDAllocJsonObject | Some a \<Rightarrow> a),
      PrivateAttributes = BIDAllocJsonObject, SecretHandle = None\<rparr>"

text \<open>The private attributes an identity gets from its assertion.\<close>

definition populate_private :: "BIDContextDesc \<Rightarrow> json option \<Rightarrow> json \<Rightarrow> BIDError + json" where
  "populate_private context assertion priv =
     bail (BIDJsonObjectSet priv ''aud'' (json_object_get assertion ''aud'') 0) (\<lambda>p.
     bail (if flag_set (ContextOptions context) BID_CONTEXT_ECDH_KEYEX then
             (case BIDGetKeyAgreementObject assertion of
                Inl _ \<Rightarrow> Inr p
              | Inr params \<Rightarrow> bail (BIDJsonObjectSet BIDAllocJsonObject ''params'' (Some params) 0) (\<lambda>dh.
                  BIDSetKeyAgreementObject p (Some dh)))
           else Inr p) (\<lambda>p.
     bail (BIDJsonObjectSet p ''a-exp'' (json_object_get assertion ''exp'') BID_JSON_FLAG_REQUIRED) (\<lambda>p.
     bail (BIDJsonObjectSet p ''nonce'' (json_object_get assertion ''nonce'') 0) (\<lambda>p.
     BIDJsonObjectSet p ''opts'' (json_object_get assertion ''opts'') 0))))"

definition BIDPopulateIdentity ::
  "'x crypto_env_scheme \<Rightarrow> BIDContextDesc \<Rightarrow> BIDBackedAssertionDesc \<Rightarrow> u32 \<Rightarrow> BIDError + BIDIdentityDesc" where
  "BIDPopulateIdentity env context backedAssertion ulFlags =
     bail (some_or (Assertion backedAssertion) BID_UNDEFINED) (\<lambda>jwt.
     let leafCert = BIDLeafCert backedAssertion; identity = BIDAllocIdentity leafCert in
     bail (if flag_set ulFlags BID_VERIFY_FLAG_X509 then
             bail (BIDPopulateX509Identity env (Header jwt) (Attributes identity) ulFlags) (\<lambda>a.
               Inr (identity\<lparr>Attributes := a\<rparr>, Some a))
           else Inr (identity, leafCert)) (\<lambda>(identity, leafCert).
     if flag_set ulFlags BID_VERIFY_FLAG_RP then Inr identity
     else
       let prin = json_object_get leafCert ''principal'' in
       bail (some_or (json_object_get prin ''email'') BID_S_MISSING_PRINCIPAL) (\<lambda>email.
       bail (BIDJsonObjectSet (Attributes identity) ''sub'' (Some email) 0) (\<lambda>a.
       bail (populate_private context (Payload jwt) (PrivateAttributes identity)) (\<lambda>p.
       Inr (identity\<lparr>Attributes := a, PrivateAttributes := p\<rparr>))))))"

section \<open>Subjects\<close>

definition BIDSubjectCompare :: "string \<Rightarrow> string \<Rightarrow> u32 \<Rightarrow> bool" where
  "BIDSubjectCompare a1 a2 ulReqFlags \<longleftrightarrow>
     (if flag_set ulReqFlags BID_VERIFY_FLAG_RP then strcaseeq a1 a2 else a1 = a2)"

definition BIDSubjectEqualP :: "json option \<Rightarrow> string \<Rightarrow> u32 \<Rightarrow> bool" where
  "BIDSubjectEqualP assertedSubject szSubject ulReqFlags \<longleftrightarrow>
     (case assertedSubject of
        Some (JString s) \<Rightarrow> BIDSubjectCompare s szSubject ulReqFlags
      | Some (JArray subs) \<Rightarrow>
          list_ex (\<lambda>sub. case json_string_value (Some sub) of
            None \<Rightarrow> False | Some s \<Rightarrow> BIDSubjectCompare s szSubject ulReqFlags) subs
      | _ \<Rightarrow> False)"

definition BIDSRVNameEqualP :: "string option \<Rightarrow> string \<Rightarrow> bool" where
  "BIDSRVNameEqualP szSRVName szSubjectName \<longleftrightarrow>
     (case szSRVName of
        Some (c # srv) \<Rightarrow>
          c = CHR ''_'' \<and>
          (case (split_at (CHR ''.'') srv, split_at (CHR ''/'') szSubjectName) of
             (Some (service, host), Some (service', host')) \<Rightarrow>
               length service = length service' \<and> strcaseeq service service' \<and>
               BIDSubjectCompare host host' BID_VERIFY_FLAG_RP
           | _ \<Rightarrow> False)
      | _ \<Rightarrow> False)"

text \<open>An object identifier that is not a string is passed to \<^verbatim>\<open>strcmp\<close> as \<^verbatim>\<open>NULL\<close>.\<close>

fun other_name_loop :: "json list \<Rightarrow> string \<Rightarrow> BIDError + bool" where
  "other_name_loop [] szSubjectName = Inr False"
| "other_name_loop (otherName # names) szSubjectName =
     (let oid = json_object_get (Some otherName) ''oid''; srv = json_object_get (Some otherName) ''value'' in
      if oid = None then other_name_loop names szSubjectName
      else case json_string_value oid of
             None \<Rightarrow> Inl BID_UNDEFINED
           | Some szOid \<Rightarrow>
               if szOid = ''1.3.6.1.5.5.7.8.7'' \<and> json_is_string srv \<and>
                  BIDSRVNameEqualP (json_string_value srv) szSubjectName
               then Inr True else other_name_loop names szSubjectName)"

definition BIDOtherNameEqualP :: "json option \<Rightarrow> string \<Rightarrow> BIDError + bool" where
  "BIDOtherNameEqualP assertedOtherName szSubjectName =
     (if \<not> json_is_array assertedOtherName then Inr False
      else other_name_loop (json_array_elems assertedOtherName) szSubjectName)"

definition BIDEKUIsPresentP :: "json \<Rightarrow> string \<Rightarrow> bool" where
  "BIDEKUIsPresentP eku szDesiredOid \<longleftrightarrow>
     list_ex (\<lambda>oid. json_string_value (Some oid) = Some szDesiredOid) (json_array_elems (Some eku))"

text \<open>In a GSS context only the service name of the table is compared, not the usages of the
  certificate.\<close>

definition BIDValidateEKUs :: "BIDContextDesc \<Rightarrow> BIDIdentityDesc \<Rightarrow> string \<Rightarrow> BIDError + unit" where
  "BIDValidateEKUs context identity szSubjectName =
     (let valid =
        (case json_object_get (Some (Attributes identity)) ''eku'' of
           None \<Rightarrow> True
         | Some eku \<Rightarrow>
             if length (json_array_elems (Some eku)) = 1 \<and> BIDEKUIsPresentP eku ''2.5.29.37.0'' then True
             else if flag_set (ContextOptions context) BID_CONTEXT_GSS
             then strcaseeq (take 5 szSubjectName) ''http/''
             else BIDEKUIsPresentP eku ''1.3.6.1.5.5.7.3.1'')
      in guard (\<not> valid) BID_S_BAD_SUBJECT)"

text \<open>The name that is compared with the asserted ones: the host of the audience for a server, the
  subject itself for a user.\<close>

definition subject_host :: "BIDContextDesc \<Rightarrow> string \<Rightarrow> BIDError + string" where
  "subject_host context szSubjectName =
     (if flag_set (ContextOptions context) BID_CONTEXT_GSS
      then bail (BIDHostifySpn szSubjectName) (\<lambda>szHostnameAudience. Inr (drop 5 szHostnameAudience))
      else if has_prefix ''http://'' szSubjectName then Inr (drop 7 szSubjectName)
      else if has_prefix ''https://'' szSubjectName then Inr (drop 8 szSubjectName)
      else Inl BID_S_BAD_AUDIENCE)"

definition BIDValidateSubject ::
  "BIDContextDesc \<Rightarrow> BIDIdentityDesc \<Rightarrow> string option \<Rightarrow> u32 \<Rightarrow> BIDError + unit" where
  "BIDValidateSubject context identity szSubjectName ulReqFlags =
     (case szSubjectName of
        None \<Rightarrow> Inr ()
      | Some szSubjectName \<Rightarrow>
          bail (some_or (json_object_get (Some (Attributes identity)) ''principal'') BID_S_MISSING_PRINCIPAL) (\<lambda>prin.
          bail (if flag_set ulReqFlags BID_VERIFY_FLAG_RP then
                  bail (subject_host context szSubjectName) (\<lambda>p.
                  let other = json_object_get (Some prin) ''othername'' in
                  bail (BIDOtherNameEqualP other szSubjectName) (\<lambda>matched.
                  bail (guard (\<not> matched \<and> other \<noteq> None) BID_S_BAD_SUBJECT) (\<lambda>_.
                  Inr (p, matched, json_object_get (Some prin) ''hostname''))))
                else Inr (szSubjectName, False, json_object_get (Some prin) ''email''))
            (\<lambda>(p, bMatchedServiceName, assertedPrincipalValue).
          let bMatchedSubject = bMatchedServiceName \<or>
                BIDSubjectEqualP assertedPrincipalValue p ulReqFlags \<or>
                BIDSubjectEqualP (json_object_get (Some (Attributes identity)) ''sub'') p ulReqFlags in
          bail (if bMatchedSubject \<and> flag_set ulReqFlags BID_VERIFY_FLAG_RP \<and> \<not> bMatchedServiceName
                then BIDValidateEKUs context identity szSubjectName else Inr ()) (\<lambda>_.
          guard (\<not> bMatchedSubject) BID_S_BAD_SUBJECT))))"

section \<open>Lemmas\<close>

lemma BIDMakeECKeyByCurve_Inr: "BIDMakeECKeyByCurve p = Inr c \<Longrightarrow> BIDGetECDHCurve p = Inr c"
  by (auto simp: BIDMakeECKeyByCurve_def bid_result split: if_splits)

text \<open>A number stored by \<^verbatim>\<open>_BIDSetJsonBNValue\<close> is read back from base64url, whatever the format
  version of the key.\<close>

lemma BIDGetJsonBNValue_b64url:
  assumes "BN_bin2bn env (BN_bn2bin env n) = n" "length (BN_bn2bin env n) \<le> 2048"
    and "map_of ms k = Some (JString (b64_text True (BN_bn2bin env n)))"
  shows "BIDGetJsonBNValue env (Some (JObject ms)) (Some k) BID_ENCODING_BASE64_URL = Inr n"
  using assms by (simp add: BIDGetJsonBNValue_def)

text \<open>The members of a generated key.\<close>

lemma BIDGenerateECDHKey_members:
  assumes "BIDGenerateECDHKey env (Some params) = Inr key" "EC_KEY_generate_key env = (\<lambda>_. Some (x, y, d))"
    and "\<And>n. n \<in> {x, y, d} \<Longrightarrow> length (BN_bn2bin env n) \<le> 2048"
  shows "\<exists>curve. BIDMakeECKeyByCurve (Some params) = Inr curve \<and>
    key = JObject [(''params'', params), (''x'', JString (b64_text True (BN_bn2bin env x))),
      (''y'', JString (b64_text True (BN_bn2bin env y))), (''d'', JString (b64_text True (BN_bn2bin env d)))]"
  using assms by (auto simp: BIDGenerateECDHKey_def bid_result BIDAllocJsonObject_def BIDSetJsonBNValue_def
      BIDJsonBinaryValue_def dest!: BIDBase64UrlEncode_Inr)

lemma ecdh_key_agreement:
  assumes "BIDMakeECKeyByCurve (Some params) = Inr curve"
    and key: "key = JObject [(''params'', params), (''x'', JString (b64_text True (BN_bn2bin env x))),
      (''y'', JString (b64_text True (BN_bn2bin env y))), (''d'', JString (b64_text True (BN_bn2bin env d)))]"
    and peer: "peer = JObject (m # [(''x'', JString (b64_text True (BN_bn2bin env x'))),
      (''y'', JString (b64_text True (BN_bn2bin env y')))] @ ms)" "fst m = ''params''"
    and bn: "\<And>n. n \<in> {x, y, d, x', y'} \<Longrightarrow> BN_bin2bn env (BN_bn2bin env n) = n \<and> length (BN_bn2bin env n) \<le> 2048"
    and valid: "EC_POINT_valid env curve (x, y)" "EC_POINT_valid env curve (x', y')"
  shows "BIDECDHSecretAgreement env (Some key) (Some peer) =
    (case ECDH_compute_key env curve d (x', y') of
       None \<Rightarrow> Inl BID_S_CRYPTO_ERROR
     | Some raw \<Rightarrow> if curve div 8 + 1 < length raw then Inl BID_S_CRYPTO_ERROR else Inr (SecretHandleDesc (Some raw)))"
proof -
  have get: "BIDGetJsonBNValue env (Some key) (Some k) BID_ENCODING_BASE64_URL = Inr n"
    if "(k, n) \<in> {(''x'', x), (''y'', y), (''d'', d)}" for k n
    unfolding key by (rule BIDGetJsonBNValue_b64url) (use that bn in auto)
  have get': "BIDGetJsonBNValue env (Some peer) (Some k) BID_ENCODING_BASE64_URL = Inr n"
    if "(k, n) \<in> {(''x'', x'), (''y'', y')}" for k n
    unfolding peer(1) by (rule BIDGetJsonBNValue_b64url) (use that bn peer(2) in \<open>auto split: prod.splits\<close>)
  have params: "json_object_get (Some key) ''params'' = Some params" by (simp add: key)
  show ?thesis
    using assms(1) BIDMakeECKeyByCurve_Inr[OF assms(1)] valid
    by (simp add: BIDECDHSecretAgreement_def guard_def params get get' BIDGetJsonECPointValue_def BIDKDFIdentity_def
        BIDAllocSecret_def split: option.split)
qed

section \<open>Properties\<close>

text \<open>Two parties that generate key pairs for the same parameters and use each other's public
  value arrive at the same secret, given that the curve operation itself agrees and that the
  number conversions are faithful.\<close>

theorem key_agreement_symmetric:
  assumes "BIDGenerateECDHKey (env\<lparr>EC_KEY_generate_key := \<lambda>_. Some (xa, ya, da)\<rparr>) (Some params) = Inr ka"
    and "BIDGenerateECDHKey (env\<lparr>EC_KEY_generate_key := \<lambda>_. Some (xb, yb, db)\<rparr>) (Some params) = Inr kb"
    and "\<And>n. n \<in> {xa, ya, da, xb, yb, db} \<Longrightarrow> BN_bin2bn env (BN_bn2bin env n) = n \<and> length (BN_bn2bin env n) \<le> 2048"
    and "\<And>curve. EC_POINT_valid env curve (xa, ya) \<and> EC_POINT_valid env curve (xb, yb) \<and>
      ECDH_compute_key env curve da (xb, yb) = ECDH_compute_key env curve db (xa, ya)"
  shows "BIDECDHSecretAgreement env (Some ka) (Some kb) = BIDECDHSecretAgreement env (Some kb) (Some ka)"
proof -
  let ?m = "\<lambda>x y d. [(''params'', params), (''x'', JString (b64_text True (BN_bn2bin env x))),
      (''y'', JString (b64_text True (BN_bn2bin env y))), (''d'', JString (b64_text True (BN_bn2bin env d)))]"
  from BIDGenerateECDHKey_members[OF assms(1), of xa ya da] assms(3) obtain curve where
    c: "BIDMakeECKeyByCurve (Some params) = Inr curve" and ka: "ka = JObject (?m xa ya da)" by auto
  from BIDGenerateECDHKey_members[OF assms(2), of xb yb db] assms(3) have kb: "kb = JObject (?m xb yb db)" by auto
  have "BIDECDHSecretAgreement env (Some ka) (Some kb) =
      (case ECDH_compute_key env curve da (xb, yb) of None \<Rightarrow> Inl BID_S_CRYPTO_ERROR
       | Some raw \<Rightarrow> if curve div 8 + 1 < length raw then Inl BID_S_CRYPTO_ERROR else Inr (SecretHandleDesc (Some raw)))"
    by (rule ecdh_key_agreement[OF c ka, of _ "(''params'', params)" xb yb "[(''d'', JString (b64_text True (BN_bn2bin env db)))]"])
      (use assms(3,4) kb in auto)
  moreover have "BIDECDHSecretAgreement env (Some kb) (Some ka) =
      (case ECDH_compute_key env curve db (xa, ya) of None \<Rightarrow> Inl BID_S_CRYPTO_ERROR
       | Some raw \<Rightarrow> if curve div 8 + 1 < length raw then Inl BID_S_CRYPTO_ERROR else Inr (SecretHandleDesc (Some raw)))"
    by (rule ecdh_key_agreement[OF c kb, of _ "(''params'', params)" xa ya "[(''d'', JString (b64_text True (BN_bn2bin env da)))]"])
      (use assms(3,4) ka in auto)
  ultimately show ?thesis using assms(4)[of curve] by simp
qed

definition sample_params :: json where
  "sample_params = JObject [(''kty'', JString ''EC''), (''crv'', JString ''P-256'')]"

theorem key_agreement_symmetric_witness:
  "\<exists>ka kb. BIDGenerateECDHKey (sample_env\<lparr>EC_KEY_generate_key := \<lambda>_. Some (3, 4, 3)\<rparr>) (Some sample_params) = Inr ka \<and>
     BIDGenerateECDHKey (sample_env\<lparr>EC_KEY_generate_key := \<lambda>_. Some (5, 6, 5)\<rparr>) (Some sample_params) = Inr kb \<and>
     BIDECDHSecretAgreement sample_env (Some ka) (Some kb) = BIDECDHSecretAgreement sample_env (Some kb) (Some ka)"
proof -
  note ev = BIDGenerateECDHKey_def BIDMakeECKeyByCurve_def BIDGetECDHCurve_def BIDAllocJsonObject_def BIDSetJsonBNValue_def
    BIDJsonBinaryValue_def BIDBase64UrlEncode_text sample_params_def
  obtain ka where ka: "BIDGenerateECDHKey (sample_env\<lparr>EC_KEY_generate_key := \<lambda>_. Some (3, 4, 3)\<rparr>) (Some sample_params) = Inr ka"
    by (simp add: ev)
  obtain kb where kb: "BIDGenerateECDHKey (sample_env\<lparr>EC_KEY_generate_key := \<lambda>_. Some (5, 6, 5)\<rparr>) (Some sample_params) = Inr kb"
    by (simp add: ev)
  have "BIDECDHSecretAgreement sample_env (Some ka) (Some kb) = BIDECDHSecretAgreement sample_env (Some kb) (Some ka)"
    by (rule key_agreement_symmetric[OF ka kb]) (auto simp: sample_env_def)
  with ka kb show ?thesis by blast
qed

text \<open>An identity derives a secret only from a curve at least as strong as the one the context
  demands, and only if key agreement is enabled; a secret it already has is kept.\<close>

theorem secret_agreement_strength:
  assumes "BIDIdentitySecretAgreement env context identity = (Inr (), identity')"
  shows "(SecretHandle identity \<noteq> None \<and> identity' = identity) \<or>
    (\<exists>dh bits secret. flag_set (ContextOptions context) BID_CONTEXT_ECDH_KEYEX \<and>
      json_object_get (Some (PrivateAttributes identity)) ''epk'' = Some dh \<and>
      BIDGetECDHCurve (json_object_get (Some dh) ''params'') = Inr bits \<and> unat (ECDHCurve context) \<le> bits \<and>
      BIDECDHSecretAgreement env (Some dh) (json_object_get (Some dh) ''params'') = Inr secret \<and>
      identity' = identity\<lparr>SecretHandle := Some secret\<rparr>)"
  using assms
  by (auto simp: BIDIdentitySecretAgreement_def BIDGetKeyAgreementObject_def Let_def bid_result
      split: if_splits sum.splits)

definition sample_dh :: json where
  "sample_dh = JObject [(''params'', JObject [(''kty'', JString ''EC''), (''crv'', JString ''P-256''),
       (''x'', JString (b64_text True [5])), (''y'', JString (b64_text True [6]))]),
     (''x'', JString (b64_text True [3])), (''y'', JString (b64_text True [4])), (''d'', JString (b64_text True [3]))]"

theorem secret_agreement_strength_witness:
  "\<exists>bits secret. BIDIdentitySecretAgreement sample_env (new_context BID_CONTEXT_ECDH_KEYEX)
       \<lparr>Attributes = JNull, PrivateAttributes = JObject [(''epk'', sample_dh)], SecretHandle = None\<rparr> =
     (Inr (), \<lparr>Attributes = JNull, PrivateAttributes = JObject [(''epk'', sample_dh)], SecretHandle = Some secret\<rparr>) \<and>
     BIDGetECDHCurve (json_object_get (Some sample_dh) ''params'') = Inr bits \<and>
     unat (ECDHCurve (new_context BID_CONTEXT_ECDH_KEYEX)) \<le> bits"
proof -
  let ?ctx = "new_context BID_CONTEXT_ECDH_KEYEX"
  let ?i = "\<lparr>Attributes = JNull, PrivateAttributes = JObject [(''epk'', sample_dh)], SecretHandle = None\<rparr>"
  have p: "json_object_get (Some sample_dh) ''params'' = Some (JObject [(''kty'', JString ''EC''), (''crv'', JString ''P-256''),
       (''x'', JString (b64_text True [5])), (''y'', JString (b64_text True [6]))])" (is "_ = Some ?p")
    by (simp add: sample_dh_def)
  have own: "BIDGetJsonBNValue sample_env (Some sample_dh) (Some k) BID_ENCODING_BASE64_URL = Inr n"
    if "(k, n) \<in> {(''x'', 3), (''y'', 4), (''d'', 3)}" for k n
    unfolding sample_dh_def by (rule BIDGetJsonBNValue_b64url) (use that in \<open>auto simp: sample_env_def\<close>)
  have peer: "BIDGetJsonBNValue sample_env (Some ?p) (Some k) BID_ENCODING_BASE64_URL = Inr n"
    if "(k, n) \<in> {(''x'', 5), (''y'', 6)}" for k n
    by (rule BIDGetJsonBNValue_b64url) (use that in \<open>auto simp: sample_env_def\<close>)
  have "\<exists>secret. BIDECDHSecretAgreement sample_env (Some sample_dh) (Some ?p) = Inr secret"
    by (simp add: BIDECDHSecretAgreement_def guard_def p own peer BIDMakeECKeyByCurve_def BIDGetECDHCurve_def BIDGetJsonECPointValue_def)
      (simp add: sample_env_def BIDKDFIdentity_def BIDAllocSecret_def)
  then obtain secret where s: "BIDIdentitySecretAgreement sample_env ?ctx ?i = (Inr (), ?i\<lparr>SecretHandle := Some secret\<rparr>)"
    by (auto simp: BIDIdentitySecretAgreement_def BIDGetKeyAgreementObject_def guard_def p BIDGetECDHCurve_def new_context_def flag_set_def)
  from secret_agreement_strength[OF this] s show ?thesis by auto
qed


text \<open>In a GSS context the extended key usages of a server certificate do not matter for an
  HTTP service: a certificate with any usages is accepted, because the usage of the table entry
  is never compared.\<close>

theorem eku_ignored_in_gss:
  assumes "flag_set (ContextOptions context) BID_CONTEXT_GSS"
  shows "BIDValidateEKUs context identity (''http/'' @ host) = Inr ()"
  using assms by (simp add: BIDValidateEKUs_def guard_def split: option.split)

theorem eku_ignored_in_gss_witness:
  "BIDValidateEKUs (new_context BID_CONTEXT_GSS)
     \<lparr>Attributes = JObject [(''eku'', JArray [JString ''1.3.6.1.5.5.7.3.4''])], PrivateAttributes = JNull, SecretHandle = None\<rparr>
     ''http/www.example.com'' = Inr ()"
  using eku_ignored_in_gss[of "new_context BID_CONTEXT_GSS" _ "''www.example.com''"]
  by (simp add: new_context_def flag_set_def)

end
