(* ===== verification/Authority.thy ===== *)
theory Authority
  imports Identity
begin

text \<open>
  \<^verbatim>\<open>libbrowserid/bid_authority.c\<close>: the documents in which hosts publish their keys, fetched from the
  well-known location and kept in the authority cache, and the delegation of authority between
  hosts.  The validity check of \<^verbatim>\<open>libbrowserid/bid_verify.c\<close> that the cache uses is here too.
\<close>

section \<open>Definitions\<close>

text \<open>
  The HTTP clients: \<open>RetrieveDocument host path\<close> is \<^verbatim>\<open>_BIDRetrieveDocument\<close> without a modification
  date, whose result is a document and its expiry time, and \<open>PostDocument url fields\<close> is
  \<^verbatim>\<open>_BIDPostDocument\<close>.
\<close>

record bid_env = crypto_env +
  RetrieveDocument :: "string \<Rightarrow> string \<Rightarrow> BIDError + json \<times> int"
  PostDocument :: "string \<Rightarrow> string \<Rightarrow> BIDError + json"

definition BID_WELL_KNOWN_URL :: string where
  "BID_WELL_KNOWN_URL = ''/.well-known/browserid''"

definition BIDValidateExpiry :: "BIDContextDesc \<Rightarrow> int \<Rightarrow> json option \<Rightarrow> BIDError + unit" where
  "BIDValidateExpiry context verificationTime jwt =
     (let iat = BIDGetJsonTimestampValue jwt ''iat'';
          nbf = BIDGetJsonTimestampValue jwt ''nbf'';
          skew = int (unat (Skew context));
          issueTime = timestamp_or_zero iat;
          notBefore = timestamp_or_zero nbf in
      bail (guard (\<not> isl iat \<and> issueTime - verificationTime > skew) BID_S_INVALID_ASSERTION) (\<lambda>_.
      bail (guard (\<not> isl nbf \<and> notBefore - verificationTime > skew) BID_S_ASSERTION_NOT_YET_VALID) (\<lambda>_.
      bail (case BIDGetJsonTimestampValue jwt ''exp'' of
              Inl e \<Rightarrow> if e = BID_S_UNKNOWN_JSON_KEY \<and> issueTime \<noteq> 0 then Inr (issueTime + skew) else Inl e
            | Inr t \<Rightarrow> Inr t) (\<lambda>expiryTime.
      guard (verificationTime - expiryTime > skew) BID_S_EXPIRED_ASSERTION))))"

text \<open>A document from the cache is used while it is valid; the results of storing a fetched one
  are ignored.  \<open>now\<close> is the time of the clock, which the caches record.\<close>

definition BIDAcquireAuthority ::
  "'x bid_env_scheme \<Rightarrow> int \<Rightarrow> BIDContextDesc \<Rightarrow> string \<Rightarrow> int \<Rightarrow> 'd cache_heap \<Rightarrow>
    (BIDError + json) \<times> 'd cache_heap" where
  "BIDAcquireAuthority env now context szHostname verificationTime heap =
     (let useCache = flag_set (ContextOptions context) BID_CONTEXT_AUTHORITY_CACHE;
          cached = (if useCache
                    then bail (BIDGetCacheObject (AuthorityCache context) (Some szHostname) heap) (\<lambda>authority.
                         bail (BIDValidateExpiry context verificationTime (Some authority)) (\<lambda>_. Inr authority))
                    else Inl BID_S_CACHE_NOT_FOUND)
      in case cached of
           Inr authority \<Rightarrow> (Inr authority, heap)
         | Inl _ \<Rightarrow>
             (case bail (RetrieveDocument env szHostname BID_WELL_KNOWN_URL) (\<lambda>(authority, expiryTime).
                   BIDSetJsonTimestampValue authority ''exp'' expiryTime) of
                Inl e \<Rightarrow> (Inl e, heap)
              | Inr authority \<Rightarrow>
                  (Inr authority,
                   if useCache
                   then snd (BIDSetCacheObject now (AuthorityCache context) (Some szHostname) (Some authority) heap)
                   else heap)))"

text \<open>The whole document serves as the key set.\<close>

definition BIDGetAuthorityPublicKey :: "json \<Rightarrow> BIDError + json" where
  "BIDGetAuthorityPublicKey authority =
     bail (some_or (json_object_get (Some authority) ''public-key'') BID_S_NO_KEY) (\<lambda>_. Inr authority)"

definition BIDAuthorityEqual :: "string \<Rightarrow> string \<Rightarrow> bool" where
  "BIDAuthorityEqual a1 a2 \<longleftrightarrow> strcaseeq a1 a2"

text \<open>The loop over delegations: \<open>n\<close> turns are left.  The document of the delegate is fetched even
  in the last turn.\<close>

fun delegation_loop ::
  "'x bid_env_scheme \<Rightarrow> int \<Rightarrow> BIDContextDesc \<Rightarrow> string \<Rightarrow> int \<Rightarrow> nat \<Rightarrow> json \<Rightarrow> 'd cache_heap \<Rightarrow>
    (BIDError + bool) \<times> 'd cache_heap" where
  "delegation_loop env now context szIssuer verificationTime 0 authority heap = (Inr False, heap)"
| "delegation_loop env now context szIssuer verificationTime (Suc n) authority heap =
     (case json_string_value (json_object_get (Some authority) ''authority'') of
        None \<Rightarrow> (Inr False, heap)
      | Some szAuthority \<Rightarrow>
          if BIDAuthorityEqual szIssuer szAuthority then (Inr True, heap)
          else bailS (BIDAcquireAuthority env now context szAuthority verificationTime heap) (\<lambda>tmp heap.
                 delegation_loop env now context szIssuer verificationTime n tmp heap))"

definition BIDIssuerIsAuthoritative ::
  "'x bid_env_scheme \<Rightarrow> int \<Rightarrow> BIDContextDesc \<Rightarrow> string \<Rightarrow> string \<Rightarrow> int \<Rightarrow> 'd cache_heap \<Rightarrow>
    (BIDError + unit) \<times> 'd cache_heap" where
  "BIDIssuerIsAuthoritative env now context szHostname szIssuer verificationTime heap =
     (if BIDAuthorityEqual szHostname szIssuer then (Inr (), heap)
      else if (case SecondaryAuthorities context of
                 None \<Rightarrow> False | Some auths \<Rightarrow> list_ex (BIDAuthorityEqual szIssuer) auths) then (Inr (), heap)
      else bailS (BIDAcquireAuthority env now context szHostname verificationTime heap) (\<lambda>authority heap.
           bailS (delegation_loop env now context szIssuer verificationTime (unat (MaxDelegations context)) authority heap)
             (\<lambda>bIsAuthoritative heap. (guard (\<not> bIsAuthoritative) BID_S_UNTRUSTED_ISSUER, heap))))"

section \<open>Lemmas\<close>

text \<open>When a token is valid at a time.\<close>

definition valid_at :: "nat \<Rightarrow> int \<Rightarrow> json option \<Rightarrow> bool" where
  "valid_at skew t jwt \<longleftrightarrow>
     (\<forall>iat. BIDGetJsonTimestampValue jwt ''iat'' = Inr iat \<longrightarrow> iat \<le> t + int skew) \<and>
     (\<forall>nbf. BIDGetJsonTimestampValue jwt ''nbf'' = Inr nbf \<longrightarrow> nbf \<le> t + int skew) \<and>
     (case BIDGetJsonTimestampValue jwt ''exp'' of
        Inr exp \<Rightarrow> t \<le> exp + int skew
      | Inl _ \<Rightarrow> (\<exists>iat. BIDGetJsonTimestampValue jwt ''iat'' = Inr iat \<and> iat \<noteq> 0 \<and> t \<le> iat + 2 * int skew))"

lemma BIDGetJsonTimestampValue_Inl: "BIDGetJsonTimestampValue j k = Inl e \<Longrightarrow> e = BID_S_UNKNOWN_JSON_KEY"
  by (auto simp: BIDGetJsonTimestampValue_def split: option.splits)

lemma BIDValidateExpiry_valid:
  "BIDValidateExpiry context t jwt = Inr () \<longleftrightarrow> valid_at (unat (Skew context)) t jwt"
  by (cases "BIDGetJsonTimestampValue jwt ''iat''"; cases "BIDGetJsonTimestampValue jwt ''nbf''";
      cases "BIDGetJsonTimestampValue jwt ''exp''")
    (auto simp: BIDValidateExpiry_def valid_at_def timestamp_or_zero_def Let_def bid_result
      dest: BIDGetJsonTimestampValue_Inl)

text \<open>The document that is fetched for a host, and the operations on the heap of caches that the
  authority code makes: only the cell of the authority cache changes.\<close>

definition fetched :: "'x bid_env_scheme \<Rightarrow> string \<Rightarrow> BIDError + json" where
  "fetched env host = bail (RetrieveDocument env host BID_WELL_KNOWN_URL) (\<lambda>(authority, expiryTime).
     BIDSetJsonTimestampValue authority ''exp'' expiryTime)"

lemma acquire_authority_uncached:
  "\<not> flag_set (ContextOptions context) BID_CONTEXT_AUTHORITY_CACHE \<Longrightarrow>
    BIDAcquireAuthority env now context host t heap = (fetched env host, heap)"
  by (simp add: BIDAcquireAuthority_def fetched_def split: sum.split)

lemma BIDSetCacheObject_frame [simp]:
  "cache \<noteq> Some b \<Longrightarrow> cells (snd (BIDSetCacheObject now cache key val heap)) b = cells heap b"
  by (cases cache) (auto simp: BIDSetCacheObject_def deref_cache_def some_or_def set_cell_def bailS_def Let_def
      split: option.split sum.split prod.split)

lemma BIDAcquireAuthority_frame [simp]:
  "AuthorityCache context \<noteq> Some b \<Longrightarrow>
    cells (snd (BIDAcquireAuthority env now context host t heap)) b = cells heap b"
  by (simp add: BIDAcquireAuthority_def Let_def split: sum.split)

lemma delegation_loop_frame [simp]:
  "AuthorityCache context \<noteq> Some b \<Longrightarrow>
    cells (snd (delegation_loop env now context iss t n authority heap)) b = cells heap b"
  by (induction n arbitrary: authority heap) (auto simp: bailS_def split: option.split sum.split)

lemma BIDIssuerIsAuthoritative_frame [simp]:
  "AuthorityCache context \<noteq> Some b \<Longrightarrow>
    cells (snd (BIDIssuerIsAuthoritative env now context host iss t heap)) b = cells heap b"
  by (auto simp: BIDIssuerIsAuthoritative_def bailS_def split: sum.split)

text \<open>A host delegates to an issuer in a number of steps.\<close>

inductive delegates :: "(string \<Rightarrow> BIDError + json) \<Rightarrow> nat \<Rightarrow> string \<Rightarrow> string \<Rightarrow> bool"
  for wk :: "string \<Rightarrow> BIDError + json" where
  direct: "wk host = Inr doc \<Longrightarrow> json_object_get (Some doc) ''authority'' = Some (JString a) \<Longrightarrow>
    strcaseeq iss a \<Longrightarrow> delegates wk 1 host iss"
| step: "wk host = Inr doc \<Longrightarrow> json_object_get (Some doc) ''authority'' = Some (JString a) \<Longrightarrow>
    \<not> strcaseeq iss a \<Longrightarrow> delegates wk n a iss \<Longrightarrow> delegates wk (Suc n) host iss"

inductive_cases delegatesE: "delegates wk n host iss"

lemma delegates_from:
  assumes "wk host = Inr doc" "json_object_get (Some doc) ''authority'' = Some (JString a)"
  shows "delegates wk m host iss \<longleftrightarrow>
    (if strcaseeq iss a then m = 1 else \<exists>k. m = Suc k \<and> delegates wk k a iss)"
  using assms by (subst delegates.simps) auto

lemma delegates_doc:
  "delegates wk m host iss \<Longrightarrow> \<exists>doc a. wk host = Inr doc \<and> json_object_get (Some doc) ''authority'' = Some (JString a)"
  by (erule delegatesE) auto

lemma delegates_pos: "delegates wk n host iss \<Longrightarrow> 0 < n"
  by (induction rule: delegates.induct) auto

lemma delegation_loop_iff:
  assumes "\<not> flag_set (ContextOptions context) BID_CONTEXT_AUTHORITY_CACHE" "fetched env host = Inr doc"
  shows "fst (delegation_loop env now context iss t n doc heap) = Inr True \<longleftrightarrow>
    (\<exists>m\<le>n. delegates (fetched env) m host iss)"
  using assms(2)
proof (induction n arbitrary: host doc)
  case (Suc n)
  show ?case
  proof (cases "json_string_value (json_object_get (Some doc) ''authority'')")
    case None
    with Suc.prems show ?thesis by (auto dest!: delegates_doc)
  next
    case (Some a)
    show ?thesis
    proof (cases "strcaseeq iss a")
      case True
      with Some Suc.prems show ?thesis by (auto simp: BIDAuthorityEqual_def delegates_from)
    next
      case False
      have eq: "(\<exists>m\<le>Suc n. delegates (fetched env) m host iss) \<longleftrightarrow> (\<exists>m\<le>n. delegates (fetched env) m a iss)"
        using Some False Suc.prems by (auto simp: delegates_from)
      show ?thesis
      proof (cases "fetched env a")
        case (Inl e)
        with Some False show ?thesis unfolding eq
          by (auto simp: BIDAuthorityEqual_def acquire_authority_uncached[OF assms(1)] dest!: delegates_doc)
      next
        case (Inr d)
        with Some False Suc.IH[OF Inr] show ?thesis unfolding eq
          by (simp add: BIDAuthorityEqual_def acquire_authority_uncached[OF assms(1)])
      qed
    qed
  qed
qed (auto dest: delegates_pos)

section \<open>Properties\<close>

text \<open>The validity check accepts a token exactly when its issue time and start of validity are at
  most the clock skew in the future, and its expiry at most the clock skew in the past; a token
  without expiry lives for the clock skew after a nonzero issue time.\<close>

theorem validate_expiry_iff:
  "BIDValidateExpiry context t jwt = Inr () \<longleftrightarrow> valid_at (unat (Skew context)) t jwt"
  by (rule BIDValidateExpiry_valid)

text \<open>C5: without an authority cache, a host accepts an issuer exactly when the names agree up to
  case, the issuer is a configured secondary authority, or the published documents delegate from
  the host to the issuer in at most the configured number of steps.\<close>

theorem issuer_is_authoritative_iff:
  assumes "\<not> flag_set (ContextOptions context) BID_CONTEXT_AUTHORITY_CACHE"
  shows "fst (BIDIssuerIsAuthoritative env now context host iss t heap) = Inr () \<longleftrightarrow>
    strcaseeq host iss \<or>
    (\<exists>auths. SecondaryAuthorities context = Some auths \<and> list_ex (strcaseeq iss) auths) \<or>
    (\<exists>n\<le>unat (MaxDelegations context). delegates (fetched env) n host iss)"
proof (cases "fetched env host")
  case (Inl e)
  then show ?thesis
    by (auto simp: BIDIssuerIsAuthoritative_def acquire_authority_uncached[OF assms] BIDAuthorityEqual_def[abs_def]
        dest!: delegates_doc split: option.splits)
next
  case (Inr doc)
  let ?loop = "delegation_loop env now context iss t (unat (MaxDelegations context)) doc heap"
  have "fst (bailS ?loop (\<lambda>b heap. (guard (\<not> b) BID_S_UNTRUSTED_ISSUER, heap))) = Inr () \<longleftrightarrow> fst ?loop = Inr True"
    by (cases ?loop; cases "fst ?loop") auto
  also note delegation_loop_iff[OF assms Inr]
  finally show ?thesis
    by (auto simp: BIDIssuerIsAuthoritative_def acquire_authority_uncached[OF assms] Inr BIDAuthorityEqual_def[abs_def]
        split: option.splits)
qed

text \<open>Two hosts: \<open>a.org\<close> delegates to \<open>b.org\<close>, which publishes a key.\<close>

definition sample_bid_env :: bid_env where
  "sample_bid_env = crypto_env.extend sample_env
    \<lparr>RetrieveDocument = (\<lambda>host path. if host = ''a.org'' then Inr (JObject [(''authority'', JString ''b.org'')], 9)
       else if host = ''b.org'' then Inr (JObject [(''public-key'', JObject [])], 9) else Inl BID_S_HTTP_ERROR),
     PostDocument = (\<lambda>url fields. Inl BID_S_HTTP_ERROR)\<rparr>"

lemma sample_bid_env_doc [simp]:
  "RetrieveDocument sample_bid_env host path =
    (if host = ''a.org'' then Inr (JObject [(''authority'', JString ''b.org'')], 9)
     else if host = ''b.org'' then Inr (JObject [(''public-key'', JObject [])], 9) else Inl BID_S_HTTP_ERROR)"
  by (simp add: sample_bid_env_def crypto_env.defs)

theorem issuer_is_authoritative_iff_witness:
  "fst (BIDIssuerIsAuthoritative sample_bid_env 5 ((new_context 0)\<lparr>MaxDelegations := 1\<rparr>) ''a.org'' ''B.ORG'' 5 sample_heap) = Inr ()"
proof -
  have "delegates (fetched sample_bid_env) 1 ''a.org'' ''B.ORG''"
    by (rule direct[of _ _ "JObject [(''authority'', JString ''b.org''), (''exp'', JInteger 9000)]" "''b.org''"])
      (simp add: fetched_def BIDSetJsonTimestampValue_def, simp, code_simp)
  then show ?thesis
    using issuer_is_authoritative_iff[of "(new_context 0)\<lparr>MaxDelegations := 1\<rparr>" sample_bid_env 5 "''a.org''" "''B.ORG''" 5 sample_heap]
    by (auto simp: new_context_def)
qed

text \<open>With a writable authority cache the document of a host is fetched once: until it stops
  being valid every later request gives the same document without the network, and leaves the
  caches alone.\<close>

theorem authority_cached:
  assumes "memory_cache_at heap a mc" "\<not> flag_set (mc_Flags mc) BID_CACHE_FLAG_READONLY"
    and "flag_set (ContextOptions context) BID_CONTEXT_AUTHORITY_CACHE" "AuthorityCache context = Some a"
    and "BIDAcquireAuthority env now context host t heap = (Inr doc, heap')"
    and "valid_at (unat (Skew context)) t' (Some doc)"
  shows "BIDAcquireAuthority env' now' context host t' heap' = (Inr doc, heap')"
proof -
  from mcache.set_object[unfolded memory_cache_holds, OF assms(1,2), of now host doc] obtain d' h' where
    s: "BIDSetCacheObject now (Some a) (Some host) (Some doc) heap = (Inr (), h')"
    and m: "memory_cache_at h' a d'" "map_of (mc_entries d') = (map_of (mc_entries mc))(host \<mapsto> doc)" by blast
  have "BIDGetCacheObject (Some a) (Some host) h' = Inr doc"
    using mcache.get_object[unfolded memory_cache_holds, OF m(1), of host] m(2) by simp
  then have "BIDGetCacheObject (Some a) (Some host) heap' = Inr doc"
    using assms(3-5) s by (auto simp: BIDAcquireAuthority_def bid_result split: sum.splits)
  moreover have "BIDValidateExpiry context t' (Some doc) = Inr ()" using assms(6) by (simp add: BIDValidateExpiry_valid)
  ultimately show ?thesis using assms(3,4) by (simp add: BIDAcquireAuthority_def)
qed

theorem authority_cached_witness:
  "\<exists>doc heap'. BIDAcquireAuthority sample_bid_env 5 ((new_context BID_CONTEXT_AUTHORITY_CACHE)\<lparr>AuthorityCache := Some 0\<rparr>)
       ''b.org'' 5 sample_heap = (Inr doc, heap') \<and>
     BIDAcquireAuthority (sample_bid_env\<lparr>RetrieveDocument := \<lambda>_ _. Inl BID_S_HTTP_ERROR\<rparr>) 8
       ((new_context BID_CONTEXT_AUTHORITY_CACHE)\<lparr>AuthorityCache := Some 0\<rparr>) ''b.org'' 8 heap' = (Inr doc, heap')"
proof -
  let ?c = "(new_context BID_CONTEXT_AUTHORITY_CACHE)\<lparr>AuthorityCache := Some 0\<rparr>"
  let ?doc = "JObject [(''public-key'', JObject []), (''exp'', JInteger 9000)]"
  from sample_heap_holds obtain mc where mc: "memory_cache_at sample_heap 0 mc" "mc_Flags mc = 0" "mc_entries mc = []" by blast
  have flag: "flag_set (ContextOptions ?c) BID_CONTEXT_AUTHORITY_CACHE" by (simp add: new_context_def flag_set_def)
  have "BIDGetCacheObject (Some 0) (Some ''b.org'') sample_heap = Inl BID_S_CACHE_KEY_NOT_FOUND"
    using mcache.get_object[unfolded memory_cache_holds, OF mc(1), of "''b.org''"] mc(3) by simp
  then obtain heap' where acq: "BIDAcquireAuthority sample_bid_env 5 ?c ''b.org'' 5 sample_heap = (Inr ?doc, heap')"
    using flag by (simp add: BIDAcquireAuthority_def BIDSetJsonTimestampValue_def)
  have "valid_at (unat (Skew ?c)) 8 (Some ?doc)"
    by (simp add: valid_at_def BIDGetJsonTimestampValue_def new_context_def signed_divide_int_def)
  from authority_cached[OF mc(1) _ flag _ acq this] acq mc(2) show ?thesis by auto
qed

end
