(* ===== verification/Reauth.thy ===== *)
theory Reauth
  imports Authority
begin

text \<open>
  \<^verbatim>\<open>libbrowserid/bid_reauth.c\<close>: fast reauthentication.  A relying party leaves a ticket in its replay
  cache, the user agent keeps the matching ticket and key in its ticket cache, and an
  authenticator signed with that key later stands for an assertion.
\<close>

section \<open>Keys\<close>

definition BIDMakeTicketCacheKey :: "BIDContextDesc \<Rightarrow> string option \<Rightarrow> BIDError + string" where
  "BIDMakeTicketCacheKey context szAudienceOrSpn =
     bail (some_or szAudienceOrSpn BID_S_INVALID_PARAMETER) (\<lambda>szAudienceOrSpn.
       if flag_set (ContextOptions context) BID_CONTEXT_ECDH_KEYEX
       then bail (curve_name context) (\<lambda>szCurve. Inr (szCurve @ ''$'' @ szAudienceOrSpn))
       else Inl BID_S_CACHE_KEY_NOT_FOUND)"

definition BIDDeriveAuthenticatorSessionKey ::
  "'x crypto_env_scheme \<Rightarrow> json option \<Rightarrow> BIDJWTDesc \<Rightarrow> BIDError + BIDSecretHandleDesc" where
  "BIDDeriveAuthenticatorSessionKey env ark ap =
     bail (BIDImportSecretKey ark) (\<lambda>secretHandle.
     bail (BIDGetJsonBinaryValue (Payload ap) ''nonce'') (\<lambda>pbNonce.
     bail (BIDDeriveKey env (Some secretHandle) (Some pbNonce)) (\<lambda>pbASK.
     BIDImportSecretKeyData pbASK)))"

section \<open>The ticket cache\<close>

text \<open>The identity is part of the state: deriving the key may add the agreed secret to it.\<close>

definition BIDStoreTicketInCache ::
  "'x crypto_env_scheme \<Rightarrow> int \<Rightarrow> BIDContextDesc \<Rightarrow> BIDIdentityDesc option \<Rightarrow> json option \<Rightarrow> u32 \<Rightarrow>
    'd cache_heap \<Rightarrow> (BIDError + unit) \<times> BIDIdentityDesc option \<times> 'd cache_heap" where
  "BIDStoreTicketInCache env now context identity ticket ulTicketFlags heap =
     (case (identity, ticket) of
        (Some identity, Some ticket) \<Rightarrow>
          if TicketCache context = None then (Inl BID_S_NO_TICKET_CACHE, Some identity, heap)
          else
            let aud = json_object_get (Some (PrivateAttributes identity)) ''aud'' in
            (case json_string_value aud of
               None \<Rightarrow> (Inl BID_S_INVALID_PARAMETER, Some identity, heap)
             | Some szAudienceOrSpn \<Rightarrow>
                 let (r, identity) = BIDDeriveSessionSubkey env context identity ''ARK'' in
                 (case bail r (\<lambda>ark.
                       bail (BIDJsonObjectSet (Attributes identity) ''tkt'' (Some ticket) BID_JSON_FLAG_REQUIRED) (\<lambda>cred.
                       bail (BIDJsonObjectSet cred ''aud'' aud BID_JSON_FLAG_REQUIRED) (\<lambda>cred.
                       bail (BIDJsonObjectSet cred ''ark'' (Some ark) BID_JSON_FLAG_REQUIRED) (\<lambda>cred.
                       bail (BIDJsonObjectSet cred ''flags'' (Some (JInteger (uint ulTicketFlags)))
                               (BID_JSON_FLAG_REQUIRED OR BID_JSON_FLAG_CONSUME_REF)) (\<lambda>cred.
                       bail (BIDSaveKeyAgreementStrength context identity cred) (\<lambda>cred.
                       bail (BIDGetIdentitySubject identity) (\<lambda>szSubject.
                       bail (BIDMakeTicketCacheKey context (Some szAudienceOrSpn)) (\<lambda>szCacheKey.
                       Inr (szCacheKey, cred))))))))) of
                    Inl e \<Rightarrow> (Inl e, Some identity, heap)
                  | Inr (szCacheKey, cred) \<Rightarrow>
                      let (r, heap) = BIDSetCacheObject now (TicketCache context) (Some szCacheKey) (Some cred) heap
                      in (r, Some identity, heap)))
      | _ \<Rightarrow> (Inl BID_S_INVALID_PARAMETER, identity, heap))"

definition BIDStoreTicketInCache_pub ::
  "'x crypto_env_scheme \<Rightarrow> int \<Rightarrow> BIDContextDesc \<Rightarrow> BIDIdentityDesc option \<Rightarrow> string \<Rightarrow> 'd cache_heap \<Rightarrow>
    (BIDError + unit) \<times> BIDIdentityDesc option \<times> 'd cache_heap" where
  "BIDStoreTicketInCache_pub env now context identity szTicket heap =
     (case json_loads env szTicket of
        None \<Rightarrow> (Inl BID_S_INVALID_JSON, identity, heap)
      | Some ticket \<Rightarrow> BIDStoreTicketInCache env now context identity (Some ticket) 0 heap)"

text \<open>The callback of the search: \<open>cred\<close> is the entry found so far.\<close>

definition BIDMatchTicketInCacheCB :: "string \<Rightarrow> string \<Rightarrow> ('d, json option) cache_callback" where
  "BIDMatchTicketInCacheCB szCacheKey szIdentityName szKey cacheVal st =
     (if szKey = szCacheKey \<and> json_string_value (json_object_get (Some cacheVal) ''sub'') = Some szIdentityName
      then (Inl BID_S_NO_MORE_ITEMS, fst st, Some cacheVal)
      else (Inr (), st))"

definition BIDFindTicketInCache ::
  "BIDContextDesc \<Rightarrow> BIDCache \<Rightarrow> string option \<Rightarrow> string option \<Rightarrow> 'd cache_heap \<Rightarrow> (BIDError + json) option" where
  "BIDFindTicketInCache context ticketCache szAudienceOrSpn szIdentityName heap =
     (case BIDMakeTicketCacheKey context szAudienceOrSpn of
        Inl e \<Rightarrow> Some (Inl e)
      | Inr szCacheKey \<Rightarrow>
          (case szIdentityName of
             None \<Rightarrow> Some (BIDGetCacheObject ticketCache (Some szCacheKey) heap)
           | Some name \<Rightarrow>
               map_option (\<lambda>(r, _, cred).
                   case r of
                     Inl e \<Rightarrow> (case cred of
                        Some c \<Rightarrow> if e = BID_S_NO_MORE_ITEMS then Inr c else Inl e | None \<Rightarrow> Inl e)
                   | Inr _ \<Rightarrow> some_or cred BID_S_CACHE_KEY_NOT_FOUND)
                 (BIDPerformCacheObjects ticketCache (BIDMatchTicketInCacheCB szCacheKey name) (heap, None))))"

section \<open>Authenticators\<close>

text \<open>\<open>nowms\<close> is the clock in milliseconds; the product of the skew is computed in 32 bits.\<close>

definition BIDMakeAuthenticator ::
  "'x crypto_env_scheme \<Rightarrow> int \<Rightarrow> BIDContextDesc \<Rightarrow> string option \<Rightarrow> byte list option \<Rightarrow> u32 \<Rightarrow> json option \<Rightarrow>
    BIDError + BIDJWTDesc" where
  "BIDMakeAuthenticator env nowms context szAudienceOrSpn pbChannelBindings ulReqFlags tid =
     bail (some_or tid BID_S_BAD_TICKET_CACHE) (\<lambda>tid.
     let expms = nowms + uint (Skew context * 1000) in
     bail (BIDGenerateNonce env) (\<lambda>nonce.
     bail (some_or szAudienceOrSpn BID_S_NO_MEMORY) (\<lambda>szAudienceOrSpn.
     bail (case pbChannelBindings of
             None \<Rightarrow> Inr None | Some bs \<Rightarrow> bail (BIDJsonBinaryValue bs) (\<lambda>cb. Inr (Some cb))) (\<lambda>cb.
     bail (BIDJsonObjectSet BIDAllocJsonObject ''iat'' (Some (JInteger nowms)) BID_JSON_FLAG_REQUIRED) (\<lambda>p.
     bail (BIDJsonObjectSet p ''exp'' (Some (JInteger expms)) BID_JSON_FLAG_REQUIRED) (\<lambda>p.
     bail (BIDJsonObjectSet p ''nonce'' (Some nonce) BID_JSON_FLAG_REQUIRED) (\<lambda>p.
     bail (BIDJsonObjectSet BIDAllocJsonObject ''tid'' (Some tid) BID_JSON_FLAG_REQUIRED) (\<lambda>tkt.
     bail (BIDJsonObjectSet p ''tkt'' (Some tkt) BID_JSON_FLAG_REQUIRED) (\<lambda>p.
     bail (BIDJsonObjectSet p ''aud'' (Some (JString szAudienceOrSpn)) BID_JSON_FLAG_REQUIRED) (\<lambda>p.
     bail (BIDJsonObjectSet p ''cb'' cb 0) (\<lambda>p.
     bail (BIDMakeProtocolOpts ulReqFlags) (\<lambda>opts.
     bail (if opts = None then Inr p else BIDJsonObjectSet p ''opts'' opts 0) (\<lambda>p.
     Inr \<lparr>EncData = None, EncDataLength = 0, Header = None, Payload = Some p, Signature = []\<rparr>)))))))))))))"

text \<open>The attributes are those of the credential without the secret ones.\<close>

definition BIDMakeReauthIdentity ::
  "'x crypto_env_scheme \<Rightarrow> json \<Rightarrow> BIDJWTDesc \<Rightarrow> BIDError + BIDIdentityDesc" where
  "BIDMakeReauthIdentity env cred ap =
     (let identity = BIDAllocIdentity (Some cred) in
      bail (BIDJsonObjectDel (Attributes identity) ''ark'' 0) (\<lambda>a.
      bail (BIDJsonObjectDel a ''a-exp'' 0) (\<lambda>a.
      bail (BIDJsonObjectDel a ''flags'' 0) (\<lambda>a.
      bail (BIDJsonObjectDel a ''aud'' 0) (\<lambda>a.
      bail (BIDJsonObjectSet (PrivateAttributes identity) ''a-exp'' (json_object_get (Some cred) ''a-exp'') 0) (\<lambda>p.
      bail (BIDJsonObjectSet p ''aud'' (json_object_get (Some cred) ''aud'') 0) (\<lambda>p.
      bail (BIDJsonObjectSet p ''opts'' (json_object_get (Payload ap) ''opts'') 0) (\<lambda>p.
      bail (BIDDeriveAuthenticatorSessionKey env (json_object_get (Some cred) ''ark'') ap) (\<lambda>h.
      Inr (identity\<lparr>Attributes := a, PrivateAttributes := p, SecretHandle := Some h\<rparr>))))))))))"

definition BIDValidateReauthCredStrength :: "BIDContextDesc \<Rightarrow> json \<Rightarrow> BIDError + unit" where
  "BIDValidateReauthCredStrength context cred =
     (if flag_set (ContextOptions context) BID_CONTEXT_ECDH_KEYEX then
        bail (curve_name context) (\<lambda>szContextCurve.
        guard (json_string_value (json_object_get (Some cred) ''crv'') \<noteq> Some szContextCurve) BID_S_INVALID_EC_CURVE)
      else Inr ())"

text \<open>What is made once a credential was found; the two flags say whether the caller asks for the
  assertion and for the identity.  The issue time is only used to check the ticket.\<close>

definition make_reauth_assertion ::
  "'x crypto_env_scheme \<Rightarrow> int \<Rightarrow> BIDContextDesc \<Rightarrow> string option \<Rightarrow> byte list option \<Rightarrow> u32 \<Rightarrow> bool \<Rightarrow> bool \<Rightarrow>
    json \<Rightarrow> BIDError + string option \<times> BIDIdentityDesc option \<times> int \<times> u32" where
  "make_reauth_assertion env nowms context szAudienceOrSpn pbChannelBindings ulReqFlags bAssertion bIdentity cred =
     bail (some_or (json_object_get (Some cred) ''tkt'') BID_S_BAD_TICKET_CACHE) (\<lambda>tkt.
     bail (BIDMakeAuthenticator env nowms context szAudienceOrSpn pbChannelBindings ulReqFlags
             (json_object_get (Some tkt) ''tid'')) (\<lambda>ap.
     let now = timestamp_or_zero (BIDGetJsonTimestampValue (Payload ap) ''iat'') in
     bail (some_or (Payload ap) BID_UNDEFINED) (\<lambda>p.
     bail (BIDJsonObjectDel p ''iat'' 0) (\<lambda>p.
     let ap = ap\<lparr>Payload := Some p\<rparr> in
     bail (BIDValidateExpiry context now (Some tkt)) (\<lambda>_.
     bail (BIDValidateReauthCredStrength context cred) (\<lambda>_.
     bail (if bAssertion
           then bail (BIDPackBackedAssertion env \<lparr>ba_EncData = [], Assertion = Some ap, rCertificates = []\<rparr>
                        (json_object_get (Some cred) ''ark'') None) (\<lambda>(s, _). Inr (Some s))
           else Inr None) (\<lambda>szAssertion.
     bail (if bIdentity then bail (BIDMakeReauthIdentity env cred ap) (\<lambda>i. Inr (Some i)) else Inr None) (\<lambda>identity.
     Inr (szAssertion, identity, timestamp_or_zero (BIDGetJsonTimestampValue (Some tkt) ''exp''),
          BIDJsonUInt32Value (json_object_get (Some cred) ''flags''))))))))))"

definition BIDGetReauthAssertion ::
  "'x crypto_env_scheme \<Rightarrow> int \<Rightarrow> BIDContextDesc \<Rightarrow> BIDCache \<Rightarrow> string option \<Rightarrow> byte list option \<Rightarrow> string option \<Rightarrow>
    u32 \<Rightarrow> bool \<Rightarrow> bool \<Rightarrow> 'd cache_heap \<Rightarrow> (BIDError + string option \<times> BIDIdentityDesc option \<times> int \<times> u32) option" where
  "BIDGetReauthAssertion env nowms context ticketCache szAudienceOrSpn pbChannelBindings szIdentityName ulReqFlags
       bAssertion bIdentity heap =
     (let ticketCache = (if ticketCache = None then TicketCache context else ticketCache);
          make = (\<lambda>r. bail r (make_reauth_assertion env nowms context szAudienceOrSpn pbChannelBindings ulReqFlags
                                bAssertion bIdentity))
      in case BIDFindTicketInCache context ticketCache szAudienceOrSpn szIdentityName heap of
           None \<Rightarrow> None
         | Some r \<Rightarrow>
             if r = Inl BID_S_CACHE_KEY_NOT_FOUND \<and> flag_set (ContextOptions context) BID_CONTEXT_HOST_SPN_ALIAS then
               (case bail (some_or szAudienceOrSpn BID_UNDEFINED) BIDHostifySpn of
                  Inl e \<Rightarrow> Some (Inl e)
                | Inr szHostSpnAudience \<Rightarrow>
                    map_option make (BIDFindTicketInCache context ticketCache (Some szHostSpnAudience) szIdentityName heap))
             else Some (make r))"

text \<open>The verified identity and the key of the ticket; the flags are changed also on failure.\<close>

definition BIDVerifyReauthAssertion ::
  "'x crypto_env_scheme \<Rightarrow> BIDContextDesc \<Rightarrow> BIDCache \<Rightarrow> BIDBackedAssertionDesc \<Rightarrow> int \<Rightarrow> u32 \<Rightarrow> 'd cache_heap \<Rightarrow>
    (BIDError + BIDIdentityDesc \<times> json option) \<times> u32" where
  "BIDVerifyReauthAssertion env context replayCache assertion verificationTime pulRetFlags heap =
     bailS (some_or (Assertion assertion) BID_UNDEFINED, pulRetFlags) (\<lambda>ap fl.
     bailS (some_or (json_string_value (json_object_get (json_object_get (Payload ap) ''tkt'') ''tid''))
              BID_S_NOT_REAUTH_ASSERTION, fl) (\<lambda>szTicket fl.
     let replayCache = (if replayCache = None then ReplayCache context else replayCache) in
     bailS (case BIDGetCacheObject replayCache (Some szTicket) heap of
              Inl e \<Rightarrow> Inl (if e = BID_S_CACHE_NOT_FOUND \<or> e = BID_S_CACHE_KEY_NOT_FOUND
                            then BID_S_INVALID_ASSERTION else e)
            | Inr cred \<Rightarrow> Inr cred, fl OR BID_VERIFY_FLAG_REAUTH) (\<lambda>cred fl.
     bailS (BIDValidateReauthCredStrength context cred, fl) (\<lambda>_ fl.
     bailS (BIDValidateExpiry context verificationTime (Some cred), fl) (\<lambda>_ fl.
     let ark = json_object_get (Some cred) ''ark'' in
     (bail (BIDVerifySignature env (Some ap) ark) (\<lambda>_.
      bail (BIDMakeReauthIdentity env cred ap) (\<lambda>identity.
      bail (BIDJsonObjectSet (PrivateAttributes identity) ''renew-exp'' (json_object_get (Some cred) ''renew-exp'') 0) (\<lambda>p.
      bail (BIDJsonObjectSet p ''crv'' (json_object_get (Some cred) ''crv'') 0) (\<lambda>p.
      Inr (identity\<lparr>PrivateAttributes := p\<rparr>, ark))))),
      or_flag (flag_set (BIDJsonUInt32Value (json_object_get (Some cred) ''flags'')) BID_TICKET_FLAG_MUTUAL_AUTH)
        BID_VERIFY_FLAG_REAUTH_MUTUAL fl))))))"

section \<open>Lemmas\<close>

lemma BIDMakeReauthIdentity_ok:
  assumes "BIDDeriveAuthenticatorSessionKey env (json_object_get (Some cred) ''ark'') ap = Inr h"
  shows "\<exists>i. BIDMakeReauthIdentity env cred ap = Inr i \<and> SecretHandle i = Some h \<and>
    json_is_object (Some (PrivateAttributes i))"
proof -
  obtain a1 where 1: "BIDJsonObjectDel cred ''ark'' 0 = Inr a1" using BIDJsonObjectDel_opt by blast
  obtain a2 where 2: "BIDJsonObjectDel a1 ''a-exp'' 0 = Inr a2" using BIDJsonObjectDel_opt by blast
  obtain a3 where 3: "BIDJsonObjectDel a2 ''flags'' 0 = Inr a3" using BIDJsonObjectDel_opt by blast
  obtain a4 where 4: "BIDJsonObjectDel a3 ''aud'' 0 = Inr a4" using BIDJsonObjectDel_opt by blast
  have "json_is_object (Some BIDAllocJsonObject)" by (simp add: BIDAllocJsonObject_def)
  from BIDJsonObjectSet_opt[OF this] obtain p1 where
    p1: "BIDJsonObjectSet BIDAllocJsonObject ''a-exp'' (json_object_get (Some cred) ''a-exp'') 0 = Inr p1"
      "json_is_object (Some p1)" by blast
  from BIDJsonObjectSet_opt[OF p1(2)] obtain p2 where
    p2: "BIDJsonObjectSet p1 ''aud'' (json_object_get (Some cred) ''aud'') 0 = Inr p2" "json_is_object (Some p2)" by blast
  from BIDJsonObjectSet_opt[OF p2(2)] obtain p3 where
    p3: "BIDJsonObjectSet p2 ''opts'' (json_object_get (Payload ap) ''opts'') 0 = Inr p3" "json_is_object (Some p3)" by blast
  show ?thesis
    using assms by (simp add: BIDMakeReauthIdentity_def BIDAllocIdentity_def 1 2 3 4 p1 p2 p3)
qed

lemma BIDMakeReauthIdentity_Inr:
  assumes "BIDMakeReauthIdentity env cred ap = Inr i"
  obtains h where "BIDDeriveAuthenticatorSessionKey env (json_object_get (Some cred) ''ark'') ap = Inr h"
    "SecretHandle i = Some h" "json_is_object (Some (PrivateAttributes i))"
    "\<And>k. json_object_get (Some (Attributes i)) k =
      (if k \<in> {''ark'', ''a-exp'', ''flags'', ''aud''} then None else json_object_get (Some cred) k)"
proof -
  from assms obtain a1 a2 a3 h where
    a: "BIDJsonObjectDel cred ''ark'' 0 = Inr a1" "BIDJsonObjectDel a1 ''a-exp'' 0 = Inr a2"
      "BIDJsonObjectDel a2 ''flags'' 0 = Inr a3" "BIDJsonObjectDel a3 ''aud'' 0 = Inr (Attributes i)"
    and h: "BIDDeriveAuthenticatorSessionKey env (json_object_get (Some cred) ''ark'') ap = Inr h"
    by (auto simp: BIDMakeReauthIdentity_def BIDAllocIdentity_def bid_result)
  from BIDMakeReauthIdentity_ok[OF h] assms show ?thesis
    using a[THEN BIDJsonObjectDel_get] by (intro that[OF h]) auto
qed

text \<open>The payload of an authenticator without its issue time, as it is sent.\<close>

lemma BIDMakeAuthenticator_members:
  assumes "BIDMakeAuthenticator env nowms context (Some aud) cb fl (Some tid) = Inr ap"
  obtains p where "ap = \<lparr>EncData = None, EncDataLength = 0, Header = None, Payload = Some p, Signature = []\<rparr>"
    "json_object_get (Some p) ''tkt'' = Some (JObject [(''tid'', tid)])"
    "json_object_get (Some p) ''aud'' = Some (JString aud)" "json_object_get (Some p) ''iat'' = Some (JInteger nowms)"
proof -
  from assms obtain nonce cb' opts q p where
    q: "BIDJsonObjectSet (JObject [(''iat'', JInteger nowms), (''exp'', JInteger (nowms + uint (Skew context * 1000))),
      (''nonce'', nonce), (''tkt'', JObject [(''tid'', tid)]), (''aud'', JString aud)]) ''cb'' cb' 0 = Inr q"
    and p: "(if opts = None then Inr q else BIDJsonObjectSet q ''opts'' opts 0) = Inr p"
    and ap: "ap = \<lparr>EncData = None, EncDataLength = 0, Header = None, Payload = Some p, Signature = []\<rparr>"
    by (auto simp only: BIDMakeAuthenticator_def bid_result Let_def BIDAllocJsonObject_def BIDJsonObjectSet_some
        some_or_simps sum.inject update.simps list.simps char.inject) (simp add: bid_result)
  from p have "json_object_get (Some p) k = json_object_get (Some q) k" if "k \<noteq> ''opts''" for k
    using that by (auto dest: BIDJsonObjectSet_get split: if_splits)
  then show ?thesis using BIDJsonObjectSet_get[OF q] by (intro that[OF ap]) auto
qed

lemma make_reauth_assertion_Inr:
  assumes "make_reauth_assertion env nowms context aud cb fl True True cred = Inr (Some s, Some uid, e, tfl)"
  obtains tkt ap p0 p a where "json_object_get (Some cred) ''tkt'' = Some tkt"
    "BIDMakeAuthenticator env nowms context aud cb fl (json_object_get (Some tkt) ''tid'') = Inr ap" "Payload ap = Some p0"
    "BIDJsonObjectDel p0 ''iat'' 0 = Inr p"
    "BIDPackBackedAssertion env \<lparr>ba_EncData = [], Assertion = Some (ap\<lparr>Payload := Some p\<rparr>), rCertificates = []\<rparr>
      (json_object_get (Some cred) ''ark'') None = Inr (s, a)"
    "BIDMakeReauthIdentity env cred (ap\<lparr>Payload := Some p\<rparr>) = Inr uid"
  using assms unfolding make_reauth_assertion_def Let_def
  by (simp only: bail_Inr some_or_Inr if_True sum.inject prod.inject option.inject prod.case_eq_if ex_simps simp_thms split_paired_Ex)
    (elim exE conjE, simp only: fst_conv snd_conv option.inject)

text \<open>A ticket entry with a matching key makes the relying party accept.\<close>

lemma BIDVerifyReauthAssertion_accepts:
  assumes "Assertion ba = Some ap"
    and "json_object_get (json_object_get (Payload ap) ''tkt'') ''tid'' = Some (JString tid)"
    and "BIDGetCacheObject (Some rc) (Some tid) heap = Inr entry"
    and "BIDValidateReauthCredStrength context entry = Inr ()" "BIDValidateExpiry context t (Some entry) = Inr ()"
    and "BIDVerifySignature env (Some ap) (json_object_get (Some entry) ''ark'') = Inr ()"
    and "BIDDeriveAuthenticatorSessionKey env (json_object_get (Some entry) ''ark'') ap = Inr h"
  shows "\<exists>i fl'. BIDVerifyReauthAssertion env context (Some rc) ba t fl heap =
    (Inr (i, json_object_get (Some entry) ''ark''), fl') \<and> SecretHandle i = Some h"
proof -
  from BIDMakeReauthIdentity_ok[OF assms(7)] obtain i where i: "BIDMakeReauthIdentity env entry ap = Inr i"
    "SecretHandle i = Some h" "json_is_object (Some (PrivateAttributes i))" by blast
  from BIDJsonObjectSet_opt[OF i(3)] obtain p1 where
    p1: "BIDJsonObjectSet (PrivateAttributes i) ''renew-exp'' (json_object_get (Some entry) ''renew-exp'') 0 = Inr p1"
      "json_is_object (Some p1)" by blast
  from BIDJsonObjectSet_opt[OF p1(2)] obtain p2 where
    p2: "BIDJsonObjectSet p1 ''crv'' (json_object_get (Some entry) ''crv'') 0 = Inr p2" by blast
  show ?thesis using assms i p1(1) p2 by (simp add: BIDVerifyReauthAssertion_def)
qed

section \<open>A concrete ticket\<close>

text \<open>A credential that serves both sides, the authenticator made from it, and a JSON library that
  knows the two objects of the token.\<close>

definition sample_cred :: json where
  "sample_cred = JObject [(''tkt'', JObject [(''tid'', JString ''T''), (''exp'', JInteger 9000000)]),
     (''ark'', hmac_jwk [1, 2, 3]), (''crv'', JString ''P-256''), (''exp'', JInteger 9000000)]"

definition sample_claims :: "(string \<times> json) list" where
  "sample_claims = [(''exp'', JInteger 1100000), (''nonce'', JString (b64_text True (replicate 16 7))),
     (''tkt'', JObject [(''tid'', JString ''T'')]), (''aud'', JString ''aud'')]"

definition reauth_env :: crypto_env where
  "reauth_env = sample_env\<lparr>
     json_loads := (\<lambda>s. if s = ''h'' then Some hs256_header else if s = ''p'' then Some (JObject sample_claims) else None),
     json_dumps := (\<lambda>j. if j = hs256_header then Some ''h'' else if j = JObject sample_claims then Some ''p'' else None)\<rparr>"

definition sample_uctx :: BIDContextDesc where
  "sample_uctx = (new_context BID_CONTEXT_ECDH_KEYEX)\<lparr>ECDHCurve := 256, Skew := 100\<rparr>"

lemma claims_not_header: "JObject sample_claims \<noteq> hs256_header"
  by (simp add: sample_claims_def hs256_header_def)

lemma reauth_env_simps [simp]:
  "json_dumps reauth_env hs256_header = Some ''h''" "json_dumps reauth_env (JObject sample_claims) = Some ''p''"
  "HMAC reauth_env md key bs = take 2 (key @ bs @ [0, 0])" "RAND_bytes reauth_env n = Some (replicate n 7)"
  using claims_not_header by (simp_all add: reauth_env_def sample_env_def)

lemma reauth_env_library: "json_library reauth_env"
  using claims_not_header by (auto simp: json_library_def reauth_env_def)

lemma sample_uctx_simps [simp]:
  "flag_set (ContextOptions sample_uctx) BID_CONTEXT_ECDH_KEYEX" "curve_name sample_uctx = Inr ''P-256''"
  "Skew sample_uctx = 100"
  by (simp_all add: sample_uctx_def new_context_def curve_name_def flag_set_def)

lemma sample_authenticator:
  "BIDMakeAuthenticator reauth_env 1000000 sample_uctx (Some ''aud'') None 0 (Some (JString ''T'')) =
    Inr \<lparr>EncData = None, EncDataLength = 0, Header = None,
         Payload = Some (JObject ((''iat'', JInteger 1000000) # sample_claims)), Signature = []\<rparr>"
  by (simp add: BIDMakeAuthenticator_def BIDGenerateNonce_def BIDJsonBinaryValue_def BIDBase64UrlEncode_text
      BIDAllocJsonObject_def BIDMakeProtocolOpts_def BIDOptionsMap_def sample_claims_def
      BIDJsonObjectSet_def[of _ "''cb''"] BIDJsonObjectSetOld_def[of _ "''cb''"] BIDJsonObjectDel_def[of _ "''cb''"])

lemma sample_reauth_token:
  "\<exists>s a. BIDPackBackedAssertion reauth_env \<lparr>ba_EncData = [], Assertion = Some \<lparr>EncData = None, EncDataLength = 0,
       Header = None, Payload = Some (JObject sample_claims), Signature = []\<rparr>, rCertificates = []\<rparr>
     (Some (hmac_jwk [1, 2, 3])) None = Inr (s, a)"
proof -
  have "BIDJsonObjectSet BIDAllocJsonObject ''alg'' (Some (JString ''HS256''))
      (BID_JSON_FLAG_REQUIRED OR BID_JSON_FLAG_CONSUME_REF) = Inr hs256_header"
    by (simp add: BIDAllocJsonObject_def hs256_header_def)
  then show ?thesis
    by (simp add: BIDPackBackedAssertion_def BIDMakeSignature_def hmac_jwk_loops BIDMakeSignatureData_def BIDEncodeJson_def
        alg_MakeSignature_def HMACSHAMakeSignature_def hmac_jwk_HMACSHA BIDBase64UrlEncode_text)
qed

lemma sample_session_key:
  "Payload ap = Some (JObject sample_claims) \<Longrightarrow>
    \<exists>h. BIDDeriveAuthenticatorSessionKey reauth_env (Some (hmac_jwk [1, 2, 3])) ap = Inr h"
  by (simp add: BIDDeriveAuthenticatorSessionKey_def BIDImportSecretKey_def BIDImportSecretKeyData_def BIDAllocSecret_def
      BIDGetJsonBinaryValue_def hmac_jwk_def sample_claims_def BIDDeriveKey_def)

lemma sample_cred_simps [simp]:
  "json_object_get (Some sample_cred) ''tkt'' = Some (JObject [(''tid'', JString ''T''), (''exp'', JInteger 9000000)])"
  "json_object_get (Some sample_cred) ''ark'' = Some (hmac_jwk [1, 2, 3])"
  "json_object_get (Some sample_cred) ''crv'' = Some (JString ''P-256'')"
  by (simp_all add: sample_cred_def)

lemma sample_cred_valid: "valid_at 100 1000 (Some sample_cred)"
  "valid_at 100 1000 (Some (JObject [(''tid'', JString ''T''), (''exp'', JInteger 9000000)]))"
  by (simp_all add: valid_at_def sample_cred_def BIDGetJsonTimestampValue_def signed_divide_int_def)

lemma sample_strength: "BIDValidateReauthCredStrength sample_uctx sample_cred = Inr ()"
  by (simp add: BIDValidateReauthCredStrength_def guard_def)

lemma sample_make:
  "\<exists>s uid e tfl. make_reauth_assertion reauth_env 1000000 sample_uctx (Some ''aud'') None 0 True True sample_cred =
    Inr (Some s, Some uid, e, tfl)"
proof -
  let ?ap = "\<lparr>EncData = None, EncDataLength = 0, Header = None, Payload = Some (JObject sample_claims), Signature = []\<rparr>"
  from sample_session_key[of ?ap] obtain h where
    "BIDDeriveAuthenticatorSessionKey reauth_env (json_object_get (Some sample_cred) ''ark'') ?ap = Inr h" by auto
  from BIDMakeReauthIdentity_ok[OF this] obtain i where i: "BIDMakeReauthIdentity reauth_env sample_cred ?ap = Inr i" by blast
  from sample_reauth_token obtain s a where
    p: "BIDPackBackedAssertion reauth_env \<lparr>ba_EncData = [], Assertion = Some ?ap, rCertificates = []\<rparr>
      (Some (hmac_jwk [1, 2, 3])) None = Inr (s, a)" by blast
  have del: "BIDJsonObjectDel (JObject ((''iat'', JInteger 1000000) # sample_claims)) ''iat'' 0 = Inr (JObject sample_claims)"
    by (simp add: BIDJsonObjectDel_def sample_claims_def)
  have now: "timestamp_or_zero (BIDGetJsonTimestampValue (Some (JObject ((''iat'', JInteger 1000000) # sample_claims))) ''iat'') = 1000"
    by (simp add: BIDGetJsonTimestampValue_def timestamp_or_zero_def signed_divide_int_def)
  have "BIDValidateExpiry sample_uctx 1000 (Some (JObject [(''tid'', JString ''T''), (''exp'', JInteger 9000000)])) = Inr ()"
    using sample_cred_valid(2) by (simp add: BIDValidateExpiry_valid)
  with i p del now show ?thesis
    by (simp add: make_reauth_assertion_def sample_authenticator sample_strength)
qed

text \<open>A heap in which one cache holds the credential both as a ticket and as a replay entry.\<close>

lemma sample_reauth_heap:
  "\<exists>heap. BIDFindTicketInCache sample_uctx (Some 0) (Some ''aud'') None heap = Some (Inr sample_cred) \<and>
    BIDGetCacheObject (Some 0) (Some ''T'') (heap :: BIDMemoryCache cache_heap) = Inr sample_cred"
proof -
  from sample_heap_holds obtain mc where mc: "memory_cache_at sample_heap 0 mc" "mc_writable mc" by fastforce
  from mcache.set_object[unfolded memory_cache_holds, OF mc, of 1 "''P-256$aud''" sample_cred] obtain h1 d1 where
    h1: "memory_cache_at h1 0 d1" "mc_writable d1" "map_of (mc_entries d1) = (map_of (mc_entries mc))(''P-256$aud'' \<mapsto> sample_cred)"
    by blast
  from mcache.set_object[unfolded memory_cache_holds, OF h1(1,2), of 1 "''T''" sample_cred] obtain h2 d2 where
    h2: "memory_cache_at h2 0 d2" "map_of (mc_entries d2) = (map_of (mc_entries d1))(''T'' \<mapsto> sample_cred)" by blast
  have "BIDGetCacheObject (Some 0) (Some k) h2 = some_or (map_of (mc_entries d2) k) BID_S_CACHE_KEY_NOT_FOUND" for k
    by (rule mcache.get_object[unfolded memory_cache_holds, OF h2(1)])
  then show ?thesis by (intro exI[of _ h2]) (simp add: BIDFindTicketInCache_def BIDMakeTicketCacheKey_def h2(2) h1(3))
qed

section \<open>Properties\<close>

text \<open>C10: a reauthentication is accepted only for a ticket that is in the replay cache and still
  valid, and only with a signature under the key of that ticket; the identity has the attributes
  of the ticket without its key and the other private members.\<close>

theorem reauth_verify_sound:
  assumes "BIDVerifyReauthAssertion env context rc ba t fl heap = (Inr (identity, key), fl')"
  shows "\<exists>ap tid cred. Assertion ba = Some ap \<and>
    json_object_get (json_object_get (Payload ap) ''tkt'') ''tid'' = Some (JString tid) \<and>
    BIDGetCacheObject (if rc = None then ReplayCache context else rc) (Some tid) heap = Inr cred \<and>
    valid_at (unat (Skew context)) t (Some cred) \<and> BIDValidateReauthCredStrength context cred = Inr () \<and>
    key = json_object_get (Some cred) ''ark'' \<and> BIDVerifySignature env (Some ap) key = Inr () \<and>
    flag_set fl' BID_VERIFY_FLAG_REAUTH \<and>
    (\<forall>k. json_object_get (Some (Attributes identity)) k =
      (if k \<in> {''ark'', ''a-exp'', ''flags'', ''aud''} then None else json_object_get (Some cred) k))"
proof -
  from assms obtain ap tid cred i where
    r: "Assertion ba = Some ap" "json_object_get (json_object_get (Payload ap) ''tkt'') ''tid'' = Some (JString tid)"
      "BIDGetCacheObject (if rc = None then ReplayCache context else rc) (Some tid) heap = Inr cred"
      "BIDValidateReauthCredStrength context cred = Inr ()" "BIDValidateExpiry context t (Some cred) = Inr ()"
      "key = json_object_get (Some cred) ''ark''" "BIDVerifySignature env (Some ap) key = Inr ()"
    and i: "BIDMakeReauthIdentity env cred ap = Inr i" "Attributes identity = Attributes i"
    and fl: "flag_set fl' BID_VERIFY_FLAG_REAUTH"
    by (auto simp: BIDVerifyReauthAssertion_def bid_result Let_def bid_flag flag_set_def[of 1])
  from BIDMakeReauthIdentity_Inr[OF i(1)] have "\<And>k. json_object_get (Some (Attributes identity)) k =
      (if k \<in> {''ark'', ''a-exp'', ''flags'', ''aud''} then None else json_object_get (Some cred) k)"
    unfolding i(2) by metis
  with r fl show ?thesis by (intro exI[of _ ap] exI[of _ tid] exI[of _ cred]) (simp add: BIDValidateExpiry_valid)
qed

theorem reauth_verify_sound_witness:
  "\<exists>heap ba fl' identity. Assertion ba = Some \<lparr>EncData = None, EncDataLength = 0, Header = Some hs256_header,
       Payload = Some (JObject sample_claims), Signature = [1, 2]\<rparr> \<and>
     BIDVerifyReauthAssertion reauth_env sample_uctx (Some 0) ba 1000 0 (heap :: BIDMemoryCache cache_heap) =
       (Inr (identity, Some (hmac_jwk [1, 2, 3])), fl') \<and>
     json_object_get (Some (Attributes identity)) ''ark'' = None"
proof -
  let ?ap = "\<lparr>EncData = None, EncDataLength = 0, Header = Some hs256_header,
       Payload = Some (JObject sample_claims), Signature = [1, 2]\<rparr>"
  let ?ba = "\<lparr>ba_EncData = [], Assertion = Some ?ap, rCertificates = []\<rparr>"
  from sample_reauth_heap obtain heap where g: "BIDGetCacheObject (Some 0) (Some ''T'') (heap :: BIDMemoryCache cache_heap) = Inr sample_cred"
    by blast
  have v: "BIDVerifySignature reauth_env (Some ?ap) (json_object_get (Some sample_cred) ''ark'') = Inr ()"
    by (simp add: BIDVerifySignature_hmac hs256_header_def)
  obtain h where k: "BIDDeriveAuthenticatorSessionKey reauth_env (json_object_get (Some sample_cred) ''ark'') ?ap = Inr h"
    using sample_session_key[of ?ap] by auto
  have t: "json_object_get (json_object_get (Payload ?ap) ''tkt'') ''tid'' = Some (JString ''T'')"
    by (simp add: sample_claims_def)
  have e: "BIDValidateExpiry sample_uctx 1000 (Some sample_cred) = Inr ()"
    using sample_cred_valid(1) by (simp add: BIDValidateExpiry_valid)
  from BIDVerifyReauthAssertion_accepts[of ?ba, OF _ t g sample_strength e v k, of 0] obtain i fl' where
    r: "BIDVerifyReauthAssertion reauth_env sample_uctx (Some 0) ?ba 1000 0 heap = (Inr (i, Some (hmac_jwk [1, 2, 3])), fl')" by auto
  from reauth_verify_sound[OF this] have "json_object_get (Some (Attributes i)) ''ark'' = None" by auto
  with r show ?thesis by (intro exI[of _ heap] exI[of _ ?ba]) auto
qed

text \<open>C4: reauthentication works.  If the user agent has a credential whose ticket the relying party
  still has, with the same key, then the assertion the user agent makes is unpacked and accepted,
  and both sides end up with the same session secret.\<close>

theorem reauth_roundtrip:
  assumes "json_library env" "\<And>m. HMAC env EVP_sha256 k m \<noteq> []"
    and "BIDFindTicketInCache uctx (Some tc) (Some aud) name uheap = Some (Inr cred)"
    and "json_object_get (json_object_get (Some cred) ''tkt'') ''tid'' = Some (JString tid)"
    and "json_object_get (Some cred) ''ark'' = Some (hmac_jwk k)"
    and "BIDGetReauthAssertion env nowms uctx (Some tc) (Some aud) cb name fl True True uheap =
      Some (Inr (Some s, Some uid, uexp, tfl))"
    and "BIDGetCacheObject (Some rc) (Some tid) heap = Inr entry" "json_object_get (Some entry) ''ark'' = Some (hmac_jwk k)"
    and "BIDValidateReauthCredStrength context entry = Inr ()" "valid_at (unat (Skew context)) t (Some entry)"
  shows "\<exists>ba i fl'. BIDUnpackBackedAssertion env (Some s) = Inr ba \<and>
    BIDVerifyReauthAssertion env context (Some rc) ba t 0 heap = (Inr (i, Some (hmac_jwk k)), fl') \<and>
    SecretHandle i = SecretHandle uid"
proof -
  from assms(3,6) have "make_reauth_assertion env nowms uctx (Some aud) cb fl True True cred = Inr (Some s, Some uid, uexp, tfl)"
    by (simp add: BIDGetReauthAssertion_def)
  from make_reauth_assertion_Inr[OF this] obtain tkt ap0 p0 p a where
    m: "json_object_get (Some cred) ''tkt'' = Some tkt"
      "BIDMakeAuthenticator env nowms uctx (Some aud) cb fl (json_object_get (Some tkt) ''tid'') = Inr ap0" "Payload ap0 = Some p0"
    and del: "BIDJsonObjectDel p0 ''iat'' 0 = Inr p"
    and pack: "BIDPackBackedAssertion env \<lparr>ba_EncData = [], Assertion = Some (ap0\<lparr>Payload := Some p\<rparr>), rCertificates = []\<rparr>
      (Some (hmac_jwk k)) None = Inr (s, a)"
    and i: "BIDMakeReauthIdentity env cred (ap0\<lparr>Payload := Some p\<rparr>) = Inr uid"
    unfolding assms(5) .
  have tid: "json_object_get (Some tkt) ''tid'' = Some (JString tid)" using assms(4) m(1) by simp
  let ?ap = "ap0\<lparr>Payload := Some p\<rparr>"
  from BIDMakeAuthenticator_members[OF m(2)[unfolded tid]] obtain q where
    ap0: "ap0 = \<lparr>EncData = None, EncDataLength = 0, Header = None, Payload = Some q, Signature = []\<rparr>"
    and "json_object_get (Some q) ''tkt'' = Some (JObject [(''tid'', JString tid)])" .
  then have hd: "Header ?ap = None" and "json_object_get (Some p0) ''tkt'' = Some (JObject [(''tid'', JString tid)])"
    using m(3) by simp_all
  with BIDJsonObjectDel_get[OF del, of "''tkt''"]
  have tkt: "json_object_get (Some p) ''tkt'' = Some (JObject [(''tid'', JString tid)])" by simp
  from pack_unpack_bare[OF assms(1) pack disjI1[OF hd]] obtain enc jwt' where
    mk: "BIDMakeSignature env ?ap (Some (hmac_jwk k)) None = Inr (enc, jwt')"
    and un: "BIDUnpackBackedAssertion env (Some s) =
      Inr \<lparr>ba_EncData = s, Assertion = Some (jwt'\<lparr>EncData := Some enc\<rparr>), rCertificates = []\<rparr>" by blast
  let ?p = "jwt'\<lparr>EncData := Some enc\<rparr>"
  note made = parse_made[OF assms(1) mk disjI1[OF hd]]
  from hmac_sign_verify[OF assms(1) mk disjI1[OF hd] assms(2)] made(1)
  have v: "BIDVerifySignature env (Some ?p) (Some (hmac_jwk k)) = Inr ()" by auto
  from BIDMakeReauthIdentity_Inr[OF i] obtain h where
    h: "BIDDeriveAuthenticatorSessionKey env (Some (hmac_jwk k)) ?ap = Inr h" "SecretHandle uid = Some h"
    using assms(5) by metis
  then have "BIDDeriveAuthenticatorSessionKey env (Some (hmac_jwk k)) ?p = Inr h"
    using made(2) by (simp add: BIDDeriveAuthenticatorSessionKey_def)
  with BIDVerifyReauthAssertion_accepts[of "\<lparr>ba_EncData = s, Assertion = Some ?p, rCertificates = []\<rparr>" ?p tid rc heap entry
      "context" t env h 0] assms(7-10) v tkt made(2) h(2) un show ?thesis
    by (auto simp: BIDValidateExpiry_valid)
qed

theorem reauth_roundtrip_witness:
  "\<exists>s uid ba i fl' heap. BIDGetReauthAssertion reauth_env 1000000 sample_uctx (Some 0) (Some ''aud'') None None 0 True True
       (heap :: BIDMemoryCache cache_heap) = Some (Inr (Some s, Some uid, 9000, 0)) \<and>
     BIDUnpackBackedAssertion reauth_env (Some s) = Inr ba \<and>
     BIDVerifyReauthAssertion reauth_env sample_uctx (Some 0) ba 1000 0 heap = (Inr (i, Some (hmac_jwk [1, 2, 3])), fl') \<and>
     SecretHandle i = SecretHandle uid"
proof -
  from sample_reauth_heap obtain heap where f: "BIDFindTicketInCache sample_uctx (Some 0) (Some ''aud'') None heap = Some (Inr sample_cred)"
    and g: "BIDGetCacheObject (Some 0) (Some ''T'') (heap :: BIDMemoryCache cache_heap) = Inr sample_cred" by blast
  from sample_make obtain s uid e tfl where
    m: "make_reauth_assertion reauth_env 1000000 sample_uctx (Some ''aud'') None 0 True True sample_cred = Inr (Some s, Some uid, e, tfl)"
    by blast
  then have "e = 9000" "tfl = 0"
    by (auto simp: make_reauth_assertion_def bid_result Let_def BIDGetJsonTimestampValue_def timestamp_or_zero_def
        signed_divide_int_def BIDJsonUInt32Value_def sample_cred_def)
  with m f have r: "BIDGetReauthAssertion reauth_env 1000000 sample_uctx (Some 0) (Some ''aud'') None None 0 True True heap =
      Some (Inr (Some s, Some uid, 9000, 0))" by (simp add: BIDGetReauthAssertion_def)
  have v: "valid_at (unat (Skew sample_uctx)) 1000 (Some sample_cred)" using sample_cred_valid(1) by simp
  from reauth_roundtrip[OF reauth_env_library _ f _ _ r g _ sample_strength v, of "[1, 2, 3]"] obtain ba i fl' where
    "BIDUnpackBackedAssertion reauth_env (Some s) = Inr ba"
    "BIDVerifyReauthAssertion reauth_env sample_uctx (Some 0) ba 1000 0 heap = (Inr (i, Some (hmac_jwk [1, 2, 3])), fl')"
    "SecretHandle i = SecretHandle uid" by auto
  with r show ?thesis by blast
qed

end
