(* ===== verification/Replay.thy ===== *)
theory Replay
  imports Authority
begin

text \<open>
  \<^verbatim>\<open>libbrowserid/bid_rcache.c\<close>: the replay cache of a relying party.  It remembers the digests of
  accepted assertions, and the same entries are the tickets for reauthentication.
\<close>

section \<open>Definitions\<close>

definition BIDCheckReplayCache ::
  "'x crypto_env_scheme \<Rightarrow> BIDContextDesc \<Rightarrow> BIDCache \<Rightarrow> string \<Rightarrow> int \<Rightarrow> 'd cache_heap \<Rightarrow> BIDError + unit" where
  "BIDCheckReplayCache env context replayCache szAssertion verificationTime heap =
     bail (BIDDigestAssertion env szAssertion) (\<lambda>digest.
     let replayCache = (if replayCache = None then ReplayCache context else replayCache) in
     case BIDGetCacheObject replayCache (json_string_value (Some digest)) heap of
       Inl e \<Rightarrow> if e = BID_UNDEFINED then Inl BID_UNDEFINED else Inr ()
     | Inr rdata \<Rightarrow>
         let expHash = timestamp_or_zero (BIDGetJsonTimestampValue (Some rdata) ''exp'') in
         guard (verificationTime < expHash) BID_S_REPLAYED_ASSERTION)"

text \<open>Whether the entry is to serve as a ticket: always for an assertion with a certificate, and
  for a reauthentication within the renewable lifetime.\<close>

definition store_reauth_creds :: "BIDContextDesc \<Rightarrow> BIDIdentityDesc \<Rightarrow> int \<Rightarrow> u32 \<Rightarrow> bool" where
  "store_reauth_creds context identity verificationTime ulFlags \<longleftrightarrow>
     flag_set (ContextOptions context) BID_CONTEXT_REAUTH \<and>
     (\<not> flag_set ulFlags BID_VERIFY_FLAG_REAUTH \<or>
      verificationTime - timestamp_or_zero (BIDGetJsonTimestampValue (Some (PrivateAttributes identity)) ''renew-exp'')
        \<le> int (unat (Skew context)))"

text \<open>The members a ticket has beside those of every entry.\<close>

definition replay_ticket_data ::
  "'x crypto_env_scheme \<Rightarrow> BIDContextDesc \<Rightarrow> BIDIdentityDesc \<Rightarrow> int \<Rightarrow> u32 \<Rightarrow> 'd cache_heap \<Rightarrow> json \<Rightarrow> json \<Rightarrow>
    BIDError + json" where
  "replay_ticket_data env context identity verificationTime ulFlags heap ark rdata =
     (let reauth = flag_set ulFlags BID_VERIFY_FLAG_REAUTH;
          ticketExpiry = (if TicketLifetime context \<noteq> 0 then verificationTime + uint (TicketLifetime context) else 0);
          renewExpiry = (if \<not> reauth \<and> RenewLifetime context \<noteq> 0 then verificationTime + uint (RenewLifetime context)
             else timestamp_or_zero (BIDGetJsonTimestampValue (Some (PrivateAttributes identity)) ''renew-exp''));
          ulTicketFlags = or_flag (BIDCanMutualAuthP env context heap) BID_TICKET_FLAG_MUTUAL_AUTH
             (or_flag reauth BID_TICKET_FLAG_RENEWED 0) in
      bail (BIDJsonObjectSet rdata ''ark'' (Some ark) 0) (\<lambda>rdata.
      bail (if ulTicketFlags \<noteq> 0
            then BIDJsonObjectSet rdata ''flags'' (Some (JInteger (uint ulTicketFlags)))
                   (BID_JSON_FLAG_REQUIRED OR BID_JSON_FLAG_CONSUME_REF)
            else Inr rdata) (\<lambda>rdata.
      bail (if ticketExpiry \<noteq> 0 then BIDSetJsonTimestampValue rdata ''exp'' ticketExpiry else Inr rdata) (\<lambda>rdata.
      bail (if renewExpiry \<noteq> 0 then BIDSetJsonTimestampValue rdata ''renew-exp'' renewExpiry else Inr rdata) (\<lambda>rdata.
      BIDSaveKeyAgreementStrength context identity rdata)))))"

text \<open>The entry that is stored for an identity.  Deriving the key of the ticket may add the agreed
  secret to the identity.\<close>

definition replay_entry ::
  "'x crypto_env_scheme \<Rightarrow> BIDContextDesc \<Rightarrow> BIDIdentityDesc \<Rightarrow> int \<Rightarrow> u32 \<Rightarrow> 'd cache_heap \<Rightarrow>
    (BIDError + json) \<times> BIDIdentityDesc" where
  "replay_entry env context identity verificationTime ulFlags heap =
     (let bStoreReauthCreds = store_reauth_creds context identity verificationTime ulFlags in
      bailS (bail (BIDSetJsonTimestampValue (if bStoreReauthCreds then Attributes identity else BIDAllocJsonObject)
                     ''iat'' verificationTime) (\<lambda>rdata.
              BIDJsonObjectSet rdata ''a-exp'' (json_object_get (Some (PrivateAttributes identity)) ''a-exp'') 0), identity)
        (\<lambda>rdata identity.
           if bStoreReauthCreds then
             bailS (BIDDeriveSessionSubkey env context identity ''ARK'') (\<lambda>ark identity.
               (replay_ticket_data env context identity verificationTime ulFlags heap ark rdata, identity))
           else (BIDJsonObjectSet rdata ''exp'' (json_object_get (Some (Attributes identity)) ''exp'') BID_JSON_FLAG_REQUIRED,
                 identity)))"

definition BIDUpdateReplayCache ::
  "'x crypto_env_scheme \<Rightarrow> int \<Rightarrow> BIDContextDesc \<Rightarrow> BIDCache \<Rightarrow> BIDIdentityDesc \<Rightarrow> string \<Rightarrow> int \<Rightarrow> u32 \<Rightarrow>
    'd cache_heap \<Rightarrow> (BIDError + unit) \<times> BIDIdentityDesc \<times> 'd cache_heap" where
  "BIDUpdateReplayCache env now context replayCache identity szAssertion verificationTime ulFlags heap =
     (case BIDDigestAssertion env szAssertion of
        Inl e \<Rightarrow> (Inl e, identity, heap)
      | Inr digest \<Rightarrow>
          (case replay_entry env context identity verificationTime ulFlags heap of
             (Inl e, identity') \<Rightarrow> (Inl e, identity', heap)
           | (Inr rdata, identity') \<Rightarrow>
               (case BIDSetCacheObject now (if replayCache = None then ReplayCache context else replayCache)
                       (json_string_value (Some digest)) (Some rdata) heap of
                  (Inl e, heap') \<Rightarrow> (Inl e, identity', heap')
                | (Inr _, heap') \<Rightarrow>
                    if store_reauth_creds context identity verificationTime ulFlags then
                      (case bail (BIDJsonObjectSet BIDAllocJsonObject ''tid'' (Some digest) BID_JSON_FLAG_REQUIRED) (\<lambda>tkt.
                            bail (BIDJsonObjectSet tkt ''exp'' (json_object_get (Some rdata) ''exp'') 0) (\<lambda>tkt.
                            BIDJsonObjectSet (PrivateAttributes identity') ''tkt'' (Some tkt) 0)) of
                         Inl e \<Rightarrow> (Inl e, identity', heap')
                       | Inr p \<Rightarrow> (Inr (), identity'\<lparr>PrivateAttributes := p\<rparr>, heap'))
                    else (Inr (), identity', heap'))))"

definition BIDAcquireReplayCache ::
  "'d BIDCacheOps list \<Rightarrow> string \<Rightarrow> 'd cache_heap \<Rightarrow> (BIDError + nat) \<times> 'd cache_heap" where
  "BIDAcquireReplayCache table szCacheName heap = BIDAcquireCache table szCacheName 0 heap"

definition BIDReleaseReplayCache :: "BIDCache \<Rightarrow> 'd cache_heap \<Rightarrow> (BIDError + unit) \<times> 'd cache_heap" where
  "BIDReleaseReplayCache cache heap = BIDReleaseCache cache heap"

text \<open>A ticket is purged when it expires, another entry when its assertion expires.\<close>

definition BIDShouldPurgeReplayCacheEntryP :: "int \<Rightarrow> string \<Rightarrow> json \<Rightarrow> bool" where
  "BIDShouldPurgeReplayCacheEntryP now szKey j \<longleftrightarrow>
     (let expiryTime = timestamp_or_zero (BIDGetJsonTimestampValue (Some j)
            (if json_object_get (Some j) ''ark'' \<noteq> None then ''exp'' else ''a-exp''))
      in expiryTime = 0 \<or> expiryTime \<le> now)"

definition BIDPurgeReplayCache ::
  "int \<Rightarrow> BIDCache \<Rightarrow> int \<Rightarrow> 'd cache_heap \<Rightarrow> ((BIDError + unit) \<times> 'd cache_heap) option" where
  "BIDPurgeReplayCache now cache currentTime heap =
     BIDPurgeCache now cache (BIDShouldPurgeReplayCacheEntryP currentTime) heap"

section \<open>What an entry protects\<close>

abbreviation ts :: "json \<Rightarrow> string \<Rightarrow> int" where
  "ts j k \<equiv> timestamp_or_zero (BIDGetJsonTimestampValue (Some j) k)"

text \<open>The expiry of the entry for an identity, and the time until which a purge keeps it: a
  ticket until it expires, another entry only until the assertion itself expires.\<close>

definition replay_expiry :: "BIDContextDesc \<Rightarrow> BIDIdentityDesc \<Rightarrow> int \<Rightarrow> u32 \<Rightarrow> int" where
  "replay_expiry context identity t fl =
     (if store_reauth_creds context identity t fl \<and> TicketLifetime context \<noteq> 0
         \<and> t + uint (TicketLifetime context) \<noteq> 0
      then t + uint (TicketLifetime context) else ts (Attributes identity) ''exp'')"

definition protected_until :: "BIDContextDesc \<Rightarrow> BIDIdentityDesc \<Rightarrow> int \<Rightarrow> u32 \<Rightarrow> int" where
  "protected_until context identity t fl =
     (if store_reauth_creds context identity t fl then replay_expiry context identity t fl
      else min (replay_expiry context identity t fl) (ts (PrivateAttributes identity) ''a-exp''))"

lemma ts_eq: "json_object_get (Some j) k = json_object_get (Some j') k' \<Longrightarrow> ts j k = ts j' k'"
  by (simp add: BIDGetJsonTimestampValue_def)

lemma BIDSetJsonTimestampValue_other:
  "BIDSetJsonTimestampValue j key t = Inr j' \<Longrightarrow> k \<noteq> key \<Longrightarrow> json_object_get (Some j') k = json_object_get (Some j) k"
  unfolding BIDSetJsonTimestampValue_def by (simp add: BIDJsonObjectSet_get)

lemma BIDSetJsonTimestampValue_ts: "BIDSetJsonTimestampValue j key t = Inr j' \<Longrightarrow> ts j' key = t"
  by (simp add: BIDSetJsonTimestampValue_get timestamp_or_zero_def)

lemma BIDSaveKeyAgreementStrength_other:
  "BIDSaveKeyAgreementStrength context identity cred = Inr cred' \<Longrightarrow> k \<noteq> ''crv'' \<Longrightarrow>
    json_object_get (Some cred') k = json_object_get (Some cred) k"
  by (auto simp: BIDSaveKeyAgreementStrength_def BIDJsonObjectSet_get split: if_splits sum.splits)

text \<open>The members of a stored ticket.\<close>

lemma replay_ticket_data_members:
  assumes "replay_ticket_data env context identity t fl heap ark rdata = Inr j"
  shows "json_object_get (Some j) ''ark'' = Some ark"
    "ts j ''exp'' = (if TicketLifetime context \<noteq> 0 \<and> t + uint (TicketLifetime context) \<noteq> 0
       then t + uint (TicketLifetime context) else ts rdata ''exp'')"
proof -
  let ?T = "if TicketLifetime context \<noteq> 0 then t + uint (TicketLifetime context) else 0"
  from assms obtain r1 r2 r3 r4 c n v c' w where
    1: "BIDJsonObjectSet rdata ''ark'' (Some ark) 0 = Inr r1"
    and 2: "(if c then BIDJsonObjectSet r1 ''flags'' v n else Inr r1) = Inr r2"
    and 3: "(if ?T \<noteq> 0 then BIDSetJsonTimestampValue r2 ''exp'' ?T else Inr r2) = Inr r3"
    and 4: "(if c' then BIDSetJsonTimestampValue r3 ''renew-exp'' w else Inr r3) = Inr r4"
    and 5: "BIDSaveKeyAgreementStrength context identity r4 = Inr j"
    unfolding replay_ticket_data_def Let_def bail_Inr by (elim exE conjE) (rule that)
  note g = BIDJsonObjectSet_get[OF 1] BIDSaveKeyAgreementStrength_other[OF 5]
  have g2: "json_object_get (Some r2) k = json_object_get (Some r1) k" if "k \<noteq> ''flags''" for k
    using 2 that by (cases c) (simp_all add: BIDJsonObjectSet_get)
  have g4: "json_object_get (Some r4) k = json_object_get (Some r3) k" if "k \<noteq> ''renew-exp''" for k
    using 4 that by (cases c') (simp_all add: BIDSetJsonTimestampValue_other)
  have g3: "json_object_get (Some r3) k = json_object_get (Some r2) k" if "k \<noteq> ''exp''" for k
    using 3 that by (cases "?T \<noteq> 0") (simp_all add: BIDSetJsonTimestampValue_other del: not_None_eq)
  show "json_object_get (Some j) ''ark'' = Some ark" by (simp add: g g2 g3 g4)
  have "ts j ''exp'' = ts r3 ''exp''" by (rule ts_eq) (simp add: g g4)
  also have "\<dots> = (if ?T \<noteq> 0 then ?T else ts r2 ''exp'')"
    using 3 BIDSetJsonTimestampValue_ts[of r2 "''exp''" ?T r3] by (auto split: if_splits)
  also have "ts r2 ''exp'' = ts rdata ''exp''" by (rule ts_eq) (simp add: g g2)
  finally show "ts j ''exp'' = (if TicketLifetime context \<noteq> 0 \<and> t + uint (TicketLifetime context) \<noteq> 0
       then t + uint (TicketLifetime context) else ts rdata ''exp'')" by simp
qed

lemma replay_entry_members:
  assumes "replay_entry env context identity t fl heap = (Inr j, identity')"
  shows "ts j ''exp'' = replay_expiry context identity t fl"
    "store_reauth_creds context identity t fl \<Longrightarrow> json_object_get (Some j) ''ark'' \<noteq> None"
    "\<not> store_reauth_creds context identity t fl \<Longrightarrow> json_object_get (Some j) ''ark'' = None \<and>
      ts j ''a-exp'' = ts (PrivateAttributes identity) ''a-exp''"
proof -
  let ?s = "store_reauth_creds context identity t fl"
  from assms obtain r0 r1 where
    0: "BIDSetJsonTimestampValue (if ?s then Attributes identity else BIDAllocJsonObject) ''iat'' t = Inr r0"
    and 1: "BIDJsonObjectSet r0 ''a-exp'' (json_object_get (Some (PrivateAttributes identity)) ''a-exp'') 0 = Inr r1"
    and 2: "if ?s then \<exists>ark i. replay_ticket_data env context i t fl heap ark r1 = Inr j
       else BIDJsonObjectSet r1 ''exp'' (json_object_get (Some (Attributes identity)) ''exp'') BID_JSON_FLAG_REQUIRED = Inr j"
    by (auto simp: replay_entry_def Let_def bid_result split: if_splits)
  note g0 = BIDSetJsonTimestampValue_other[OF 0] and g1 = BIDJsonObjectSet_get[OF 1]
  show "ts j ''exp'' = replay_expiry context identity t fl"
  proof (cases ?s)
    case True
    with 2 obtain ark i where "replay_ticket_data env context i t fl heap ark r1 = Inr j" by auto
    from replay_ticket_data_members(2)[OF this] ts_eq[of r1 "''exp''" "Attributes identity" "''exp''"] g0 g1 True
    show ?thesis by (simp add: replay_expiry_def)
  next
    case False
    with 2 have "json_object_get (Some j) ''exp'' = json_object_get (Some (Attributes identity)) ''exp''"
      by (simp add: BIDJsonObjectSet_get)
    from ts_eq[OF this] False show ?thesis by (simp add: replay_expiry_def)
  qed
  show "json_object_get (Some j) ''ark'' \<noteq> None" if ?s using 2 that replay_ticket_data_members(1) by fastforce
  show "json_object_get (Some j) ''ark'' = None \<and> ts j ''a-exp'' = ts (PrivateAttributes identity) ''a-exp''" if "\<not> ?s"
  proof -
    from 2 that have g: "json_object_get (Some j) k = json_object_get (Some r1) k" if "k \<noteq> ''exp''" for k
      using that by (simp add: BIDJsonObjectSet_get)
    have "json_object_get (Some BIDAllocJsonObject) ''ark'' = None" by (simp add: BIDAllocJsonObject_def)
    with g g0[of "''ark''"] g1 that show ?thesis by (auto intro: ts_eq)
  qed
qed

section \<open>Over any cache implementation\<close>

text \<open>The history of a relying party: the clock advances, assertions that pass the check are
  recorded, and the cache is purged.  The log has the accepted assertions with the times until
  which their entries are kept.\<close>

inductive replay_run ::
  "'x crypto_env_scheme \<Rightarrow> BIDContextDesc \<Rightarrow> nat \<Rightarrow> ('d cache_heap \<Rightarrow> bool) \<Rightarrow>
    'd cache_heap \<Rightarrow> int \<Rightarrow> (string \<times> int) list \<Rightarrow> bool"
  for env "context" r init where
  run_start: "init heap \<Longrightarrow> 0 \<le> clk \<Longrightarrow> replay_run env context r init heap clk []"
| run_tick: "replay_run env context r init heap clk log \<Longrightarrow> clk \<le> clk' \<Longrightarrow> replay_run env context r init heap clk' log"
| run_accept: "replay_run env context r init heap clk log \<Longrightarrow>
    BIDCheckReplayCache env context (Some r) s clk heap = Inr () \<Longrightarrow>
    BIDUpdateReplayCache env now context (Some r) identity s clk fl heap = (Inr (), identity', heap') \<Longrightarrow>
    replay_run env context r init heap' clk ((s, protected_until context identity clk fl) # log)"
| run_purge: "replay_run env context r init heap clk log \<Longrightarrow>
    BIDPurgeReplayCache now (Some r) clk heap = Some (res, heap') \<Longrightarrow>
    replay_run env context r init heap' clk log"

text \<open>A stored entry that guards against a replay of the assertion before a time, and that a purge
  before that time keeps.\<close>

definition guarded_by :: "'x crypto_env_scheme \<Rightarrow> (string \<rightharpoonup> json) \<Rightarrow> string \<Rightarrow> int \<Rightarrow> bool" where
  "guarded_by env m s u \<longleftrightarrow> (\<exists>key j. BIDDigestAssertion env s = Inr (JString key) \<and> m key = Some j \<and>
     u \<le> ts j ''exp'' \<and> (json_object_get (Some j) ''ark'' = None \<longrightarrow> u \<le> ts j ''a-exp''))"

lemma guarded_by_keep:
  assumes "guarded_by env m s u" "clk < u" "0 \<le> clk"
    and "m' = (\<lambda>k. case m k of None \<Rightarrow> None | Some v \<Rightarrow> if BIDShouldPurgeReplayCacheEntryP clk k v then None else Some v)"
  shows "guarded_by env m' s u"
  using assms unfolding guarded_by_def BIDShouldPurgeReplayCacheEntryP_def Let_def by fastforce

context bid_cache
begin

lemma update_replay:
  assumes "holds heap r d" "writable d"
    and "BIDUpdateReplayCache env now context (Some r) identity s t fl heap = (Inr (), identity', heap')"
  obtains key j i d' where "BIDDigestAssertion env s = Inr (JString key)"
    "replay_entry env context identity t fl heap = (Inr j, i)"
    "holds heap' r d'" "writable d'" "map_of (entries d') = (map_of (entries d))(key \<mapsto> j)"
    "\<And>b. b \<noteq> r \<Longrightarrow> cells heap' b = cells heap b"
proof -
  from assms(3) obtain digest j i where
    dig: "BIDDigestAssertion env s = Inr digest" and ent: "replay_entry env context identity t fl heap = (Inr j, i)"
    and set: "BIDSetCacheObject now (Some r) (json_string_value (Some digest)) (Some j) heap = (Inr (), heap')"
    by (auto simp: BIDUpdateReplayCache_def split: sum.splits prod.splits if_splits)
  from set obtain key where key: "digest = JString key"
    by (cases "json_string_value (Some digest)") (auto simp: BIDSetCacheObject_def bid_result)
  from set_object[OF assms(1,2), of now key j] set key obtain d' where
    "holds heap' r d'" "writable d'" "map_of (entries d') = (map_of (entries d))(key \<mapsto> j)"
    "\<And>b. b \<noteq> r \<Longrightarrow> cells heap' b = cells heap b" by auto
  with dig ent key show ?thesis by (intro that) auto
qed

lemma check_replay:
  assumes "holds heap r d" "BIDDigestAssertion env s = Inr (JString key)"
  shows "BIDCheckReplayCache env context (Some r) s t heap =
    (case map_of (entries d) key of None \<Rightarrow> Inr ()
     | Some j \<Rightarrow> guard (t < ts j ''exp'') BID_S_REPLAYED_ASSERTION)"
  using assms get_object[OF assms(1), of key]
  by (simp add: BIDCheckReplayCache_def split: option.split)

lemma purge_any:
  assumes "holds heap a d" "writable d"
  shows "\<exists>res heap' d'. BIDPurgeCache now (Some a) predicate heap = Some (res, heap') \<and> holds heap' a d' \<and> writable d' \<and>
    map_of (entries d') = (\<lambda>k. case map_of (entries d) k of None \<Rightarrow> None
      | Some v \<Rightarrow> if predicate k v then None else Some v)"
proof (cases "entries d = []")
  case True
  from perform_runs[of "\<lambda>st. \<exists>d. holds (fst st) a d \<and> writable d" "BIDRemoveCacheObjectIfPredicateTrue now predicate (Some a)" a
      "(heap, ())" d] purge_keeps assms True
  have "BIDPurgeCache now (Some a) predicate heap = Some (Inl BID_S_CACHE_KEY_NOT_FOUND, heap)"
    by (auto simp: BIDPurgeCache_def)
  with assms True show ?thesis by auto
next
  case False
  from purge[OF assms False, of now predicate] show ?thesis by blast
qed

lemma replay_run_guarded:
  assumes "replay_run env context r (\<lambda>h. \<exists>d. holds h r d \<and> writable d) heap clk log"
  shows "0 \<le> clk \<and> (\<exists>d. holds heap r d \<and> writable d \<and>
    (\<forall>s u. (s, u) \<in> set log \<longrightarrow> clk < u \<longrightarrow> guarded_by env (map_of (entries d)) s u))"
  using assms
proof (induction rule: replay_run.induct)
  case (run_tick heap clk log clk')
  then show ?case by force
next
  case (run_accept heap clk log s now identity fl identity' heap')
  then obtain d where d: "holds heap r d" "writable d"
    and log: "\<And>s u. (s, u) \<in> set log \<Longrightarrow> clk < u \<Longrightarrow> guarded_by env (map_of (entries d)) s u" by blast
  from update_replay[OF d run_accept.hyps(3)] obtain key j i d' where dig: "BIDDigestAssertion env s = Inr (JString key)"
    and ent: "replay_entry env context identity clk fl heap = (Inr j, i)"
    and d': "holds heap' r d'" "writable d'" "map_of (entries d') = (map_of (entries d))(key \<mapsto> j)" .
  note mem = replay_entry_members[OF ent]
  have "guarded_by env (map_of (entries d')) s (protected_until context identity clk fl)"
    using mem dig d'(3) by (cases "store_reauth_creds context identity clk fl") (auto simp: guarded_by_def protected_until_def)
  moreover have "guarded_by env (map_of (entries d')) s' u" if "(s', u) \<in> set log" "clk < u" for s' u
  proof -
    from log[OF that] obtain key' j' where j': "BIDDigestAssertion env s' = Inr (JString key')"
      "map_of (entries d) key' = Some j'" "u \<le> ts j' ''exp''" "json_object_get (Some j') ''ark'' = None \<longrightarrow> u \<le> ts j' ''a-exp''"
      by (auto simp: guarded_by_def)
    with run_accept.hyps(2) check_replay[OF d(1) dig] that(2) have "key' \<noteq> key" by (auto simp: guard_def split: if_splits)
    with j' d'(3) show ?thesis by (auto simp: guarded_by_def)
  qed
  ultimately show ?case using run_accept.IH d' by auto
next
  case (run_purge heap clk log now res heap')
  then obtain d where d: "holds heap r d" "writable d"
    and log: "\<And>s u. (s, u) \<in> set log \<Longrightarrow> clk < u \<Longrightarrow> guarded_by env (map_of (entries d)) s u" by blast
  from purge_any[OF d, of now "BIDShouldPurgeReplayCacheEntryP clk"] run_purge.hyps(2) obtain d' where
    "holds heap' r d'" "writable d'" "map_of (entries d') = (\<lambda>k. case map_of (entries d) k of None \<Rightarrow> None
      | Some v \<Rightarrow> if BIDShouldPurgeReplayCacheEntryP clk k v then None else Some v)"
    by (auto simp: BIDPurgeReplayCache_def)
  with run_purge.IH log guarded_by_keep show ?case by blast
qed auto

lemma replay_run_detects:
  assumes "replay_run env context r (\<lambda>h. \<exists>d. holds h r d \<and> writable d) heap clk log" "(s, u) \<in> set log" "clk < u"
  shows "BIDCheckReplayCache env context (Some r) s clk heap = Inl BID_S_REPLAYED_ASSERTION"
proof -
  from replay_run_guarded[OF assms(1)] assms(2,3) obtain d where d: "holds heap r d"
    and "guarded_by env (map_of (entries d)) s u" by blast
  then show ?thesis using assms(3) check_replay[OF d] by (fastforce simp: guarded_by_def guard_def)
qed

end

section \<open>Properties\<close>

text \<open>An assertion that was recorded is reported as replayed at every time before the expiry of
  its entry and at no later time.  That expiry is the lifetime of the ticket if one is issued and
  the expiry of the identity otherwise; the expiry of the assertion itself plays no part in it.\<close>

theorem replay_update_check:
  assumes "memory_cache_at heap r mc" "\<not> flag_set (mc_Flags mc) BID_CACHE_FLAG_READONLY"
    and "BIDUpdateReplayCache env now context (Some r) identity s t fl heap = (Inr (), identity', heap')"
  shows "BIDCheckReplayCache env context (Some r) s t' heap' =
    (if t' < replay_expiry context identity t fl then Inl BID_S_REPLAYED_ASSERTION else Inr ())"
proof -
  from mcache.update_replay[unfolded memory_cache_holds, OF assms] obtain key j i d' where
    dig: "BIDDigestAssertion env s = Inr (JString key)" and ent: "replay_entry env context identity t fl heap = (Inr j, i)"
    and d': "memory_cache_at heap' r d'" "mc_writable d'" "map_of (mc_entries d') = (map_of (mc_entries mc))(key \<mapsto> j)" .
  then show ?thesis
    using mcache.check_replay[unfolded memory_cache_holds, OF d'(1) dig] replay_entry_members(1)[OF ent]
    by (simp add: guard_def)
qed

definition sample_identity :: BIDIdentityDesc where
  "sample_identity = \<lparr>Attributes = JObject [(''exp'', JInteger 9000)],
     PrivateAttributes = JObject [(''a-exp'', JInteger 8000)], SecretHandle = None\<rparr>"

lemma sample_replay_expiry:
  "replay_expiry (new_context 0) sample_identity 5 0 = 9" "protected_until (new_context 0) sample_identity 5 0 = 8"
  by (simp_all add: replay_expiry_def protected_until_def store_reauth_creds_def new_context_def sample_identity_def
      BIDGetJsonTimestampValue_def timestamp_or_zero_def signed_divide_int_def)

lemma sample_digest: "\<exists>key. BIDDigestAssertion sample_env ''a'' = Inr (JString key)"
  by (simp add: BIDDigestAssertion_def BIDMakeDigest_def BIDMakeDigestInternal_def BIDEvpForAlgorithmName_def
      BIDAllocJsonObject_def BIDBase64UrlEncode_text BIDJsonObjectSetBinaryValue_def BIDJsonBinaryValue_def)

lemma sample_update:
  "\<exists>i heap'. BIDUpdateReplayCache sample_env 5 (new_context 0) (Some 0) sample_identity ''a'' 5 0 sample_heap = (Inr (), i, heap')"
proof -
  from sample_digest obtain key where k: "BIDDigestAssertion sample_env ''a'' = Inr (JString key)" by blast
  from sample_heap_holds obtain mc where "memory_cache_at sample_heap 0 mc" "mc_writable mc" by fastforce
  note set = mcache.set_object[unfolded memory_cache_holds, OF this, of 5 key]
  have s: "\<not> store_reauth_creds (new_context 0) sample_identity 5 0" by (simp add: store_reauth_creds_def new_context_def)
  then have "\<exists>j. replay_entry sample_env (new_context 0) sample_identity 5 0 sample_heap = (Inr j, sample_identity)"
    by (simp add: replay_entry_def sample_identity_def BIDAllocJsonObject_def BIDSetJsonTimestampValue_def)
  then obtain j where "replay_entry sample_env (new_context 0) sample_identity 5 0 sample_heap = (Inr j, sample_identity)" ..
  then show ?thesis using k set[of j] s by (auto simp: BIDUpdateReplayCache_def)
qed

theorem replay_update_check_witness:
  "\<exists>i heap'. BIDUpdateReplayCache sample_env 5 (new_context 0) (Some 0) sample_identity ''a'' 5 0 sample_heap = (Inr (), i, heap') \<and>
     BIDCheckReplayCache sample_env (new_context 0) (Some 0) ''a'' 8 heap' = Inl BID_S_REPLAYED_ASSERTION \<and>
     BIDCheckReplayCache sample_env (new_context 0) (Some 0) ''a'' 9 heap' = Inr ()"
proof -
  from sample_update obtain i heap' where
    u: "BIDUpdateReplayCache sample_env 5 (new_context 0) (Some 0) sample_identity ''a'' 5 0 sample_heap = (Inr (), i, heap')" by blast
  from sample_heap_holds obtain mc where mc: "memory_cache_at sample_heap 0 mc" "mc_writable mc" by fastforce
  show ?thesis
    using replay_update_check[OF mc u, of 8] replay_update_check[OF mc u, of 9] u by (auto simp: sample_replay_expiry)
qed

text \<open>C3: in every history of accepted assertions, purges and clock steps, an assertion that was
  accepted is refused as replayed as long as its entry is protected: until the ticket expires, or
  without a ticket until the assertion or the identity expires.\<close>

theorem replay_run_safe:
  assumes "replay_run env context r (\<lambda>h. \<exists>mc. memory_cache_at h r mc \<and> \<not> flag_set (mc_Flags mc) BID_CACHE_FLAG_READONLY) heap clk log"
    and "(s, u) \<in> set log" "clk < u"
  shows "BIDCheckReplayCache env context (Some r) s clk heap = Inl BID_S_REPLAYED_ASSERTION"
  by (rule mcache.replay_run_detects[unfolded memory_cache_holds, OF assms])

theorem replay_run_safe_witness:
  "\<exists>heap. replay_run sample_env (new_context 0) 0
       (\<lambda>h. \<exists>mc. memory_cache_at h 0 mc \<and> \<not> flag_set (mc_Flags mc) BID_CACHE_FLAG_READONLY) heap 7 [(''a'', 8)] \<and>
     BIDCheckReplayCache sample_env (new_context 0) (Some 0) ''a'' 7 heap = Inl BID_S_REPLAYED_ASSERTION"
proof -
  let ?init = "\<lambda>h. \<exists>mc. memory_cache_at h 0 mc \<and> \<not> flag_set (mc_Flags mc) BID_CACHE_FLAG_READONLY"
  from sample_update obtain i heap' where
    u: "BIDUpdateReplayCache sample_env 5 (new_context 0) (Some 0) sample_identity ''a'' 5 0 sample_heap = (Inr (), i, heap')" by blast
  from sample_heap_holds obtain mc where mc: "memory_cache_at sample_heap 0 mc" "mc_writable mc" "mc_entries mc = []" by fastforce
  from sample_digest obtain key where "BIDDigestAssertion sample_env ''a'' = Inr (JString key)" by blast
  from mcache.check_replay[unfolded memory_cache_holds, OF mc(1) this] mc(3)
  have c: "BIDCheckReplayCache sample_env (new_context 0) (Some 0) ''a'' 5 sample_heap = Inr ()" by simp
  have "replay_run sample_env (new_context 0) 0 ?init sample_heap 5 []" using mc by (intro run_start) auto
  from run_accept[OF this c u] have "replay_run sample_env (new_context 0) 0 ?init heap' 5 [(''a'', 8)]"
    by (simp add: sample_replay_expiry)
  then have run: "replay_run sample_env (new_context 0) 0 ?init heap' 7 [(''a'', 8)]" by (rule run_tick) simp
  from replay_run_safe[OF this, of "''a''" 8] run show ?thesis by auto
qed

end
