(* ===== verification/Verify.thy ===== *)
theory Verify
  imports Reauth Replay
begin

text \<open>
  Verification of assertions: \<^verbatim>\<open>libbrowserid/bid_verify.c\<close> (local), \<^verbatim>\<open>libbrowserid/bid_rverify.c\<close>
  (remote) and the public entry point \<^verbatim>\<open>BIDVerifyAssertion\<close> of \<^verbatim>\<open>libbrowserid/bid_identity.c\<close>.
\<close>

section \<open>Audience\<close>

definition BIDValidateAudienceHostAlias :: "string \<Rightarrow> string \<Rightarrow> BIDError + unit" where
  "BIDValidateAudienceHostAlias szAudienceOrSpn szAssertionSpn =
     (if has_prefix ''host/'' szAssertionSpn
      then bail (BIDHostifySpn szAudienceOrSpn) (\<lambda>szHostSpnAudience.
             guard (szAssertionSpn \<noteq> szHostSpnAudience) BID_S_BAD_AUDIENCE)
      else Inl BID_S_BAD_AUDIENCE)"

definition BIDValidateAudience ::
  "BIDContextDesc \<Rightarrow> BIDBackedAssertionDesc \<Rightarrow> string option \<Rightarrow> byte list option \<Rightarrow> BIDError + unit" where
  "BIDValidateAudience context backedAssertion szAudienceOrSpn pbChannelBindings =
     bail (some_or (Assertion backedAssertion) BID_UNDEFINED) (\<lambda>jwt.
     bail (some_or (Payload jwt) BID_S_MISSING_AUDIENCE) (\<lambda>userClaims.
     bail (case szAudienceOrSpn of
             None \<Rightarrow> Inr ()
           | Some szAudienceOrSpn \<Rightarrow>
               (case json_string_value (json_object_get (Some userClaims) ''aud'') of
                  None \<Rightarrow> Inl BID_S_MISSING_AUDIENCE
                | Some szAssertionSpn \<Rightarrow>
                    if szAudienceOrSpn = szAssertionSpn then Inr ()
                    else if flag_set (ContextOptions context) BID_CONTEXT_HOST_SPN_ALIAS
                    then BIDValidateAudienceHostAlias szAudienceOrSpn szAssertionSpn
                    else Inl BID_S_BAD_AUDIENCE)) (\<lambda>_.
     case pbChannelBindings of
       None \<Rightarrow> Inr ()
     | Some pbChannelBindings \<Rightarrow>
         bail (case BIDGetJsonBinaryValue (Some userClaims) ''cb'' of
                 Inl e \<Rightarrow> Inl (if e = BID_S_UNKNOWN_JSON_KEY then BID_S_MISSING_CHANNEL_BINDINGS else e)
               | Inr cb \<Rightarrow> Inr cb) (\<lambda>pbAssertionCB.
         guard (length pbChannelBindings \<noteq> length pbAssertionCB \<or>
                BIDTimingSafeCompare pbChannelBindings pbAssertionCB (length pbAssertionCB) \<noteq> Some False)
           BID_S_CHANNEL_BINDINGS_MISMATCH))))"

section \<open>Certificates\<close>

definition BIDValidateCertIssuer ::
  "'x bid_env_scheme \<Rightarrow> int \<Rightarrow> BIDContextDesc \<Rightarrow> BIDBackedAssertionDesc \<Rightarrow> int \<Rightarrow> u32 \<Rightarrow> 'd cache_heap \<Rightarrow>
    (BIDError + unit) \<times> 'd cache_heap" where
  "BIDValidateCertIssuer env now context backedAssertion verificationTime ulReqFlags heap =
     (let leafCert = BIDLeafCert backedAssertion in
      bailS (bail (guard (rCertificates backedAssertion = []) BID_S_MISSING_CERT) (\<lambda>_.
             bail (some_or (json_object_get leafCert ''principal'') BID_S_MISSING_PRINCIPAL) (\<lambda>prin.
             bail (if flag_set ulReqFlags BID_VERIFY_FLAG_RP
                   then Inr (json_string_value (json_object_get (Some prin) ''hostname''))
                   else bail (some_or (json_string_value (json_object_get (Some prin) ''email''))
                                BID_S_UNKNOWN_PRINCIPAL_TYPE) (\<lambda>szEmail.
                        Inr (map_option snd (split_at (CHR ''@'') szEmail)))) (\<lambda>szAuthority.
             bail (some_or szAuthority BID_S_INVALID_ISSUER) (\<lambda>szAuthority.
             bail (some_or (json_string_value (json_object_get leafCert ''iss'')) BID_S_MISSING_ISSUER) (\<lambda>szCertIssuer.
             Inr (szAuthority, szCertIssuer)))))), heap) (\<lambda>(szAuthority, szCertIssuer) heap.
      BIDIssuerIsAuthoritative env now context szAuthority szCertIssuer verificationTime heap))"

text \<open>The loop: each certificate must be valid and signed under the key before it.\<close>

fun cert_chain_loop ::
  "'x crypto_env_scheme \<Rightarrow> BIDContextDesc \<Rightarrow> int \<Rightarrow> json option \<Rightarrow> BIDJWTDesc list \<Rightarrow> BIDError + unit" where
  "cert_chain_loop env context verificationTime pKey [] = Inr ()"
| "cert_chain_loop env context verificationTime pKey (cert # certs) =
     bail (BIDValidateExpiry context verificationTime (Payload cert)) (\<lambda>_.
     bail (BIDVerifySignature env (Some cert) pKey) (\<lambda>_.
     cert_chain_loop env context verificationTime (Payload cert) certs))"

definition cert_error :: "BIDError \<Rightarrow> BIDError" where
  "cert_error err =
     (if err = BID_S_ASSERTION_NOT_YET_VALID then BID_S_CERT_NOT_YET_VALID
      else if err = BID_S_EXPIRED_ASSERTION then BID_S_EXPIRED_CERT else err)"

definition BIDValidateCertChain ::
  "'x bid_env_scheme \<Rightarrow> int \<Rightarrow> BIDContextDesc \<Rightarrow> BIDBackedAssertionDesc \<Rightarrow> int \<Rightarrow> 'd cache_heap \<Rightarrow>
    (BIDError + unit) \<times> 'd cache_heap" where
  "BIDValidateCertChain env now context backedAssertion verificationTime heap =
     (if rCertificates backedAssertion = [] then (Inl BID_S_MISSING_CERT, heap)
      else
        let (r, heap') =
          bailS (some_or (json_string_value (json_object_get (BIDRootCert backedAssertion) ''iss'')) BID_S_MISSING_ISSUER, heap)
            (\<lambda>szCertIssuer heap.
          bailS (BIDAcquireAuthority env now context szCertIssuer verificationTime heap) (\<lambda>authority heap.
            (bail (BIDGetAuthorityPublicKey authority) (\<lambda>rootKey.
             cert_chain_loop env context verificationTime (Some rootKey) (rCertificates backedAssertion)), heap)))
        in (case r of Inl e \<Rightarrow> Inl (cert_error e) | Inr u \<Rightarrow> Inr u, heap'))"

section \<open>Local verification\<close>

text \<open>How an assertion without certificates is authenticated: by a certificate chain in its
  header, whose header then is the key set; by a ticket; or, for a response of a relying party,
  by the key the caller has.  The flags are returned also on failure.\<close>

definition local_credential ::
  "'x crypto_env_scheme \<Rightarrow> BIDContextDesc \<Rightarrow> BIDCache \<Rightarrow> BIDBackedAssertionDesc \<Rightarrow> BIDJWTDesc \<Rightarrow> int \<Rightarrow> u32 \<Rightarrow>
    json option \<Rightarrow> json option \<Rightarrow> u32 \<Rightarrow> 'd cache_heap \<Rightarrow> (BIDError + BIDIdentityDesc option \<times> json option) \<times> u32" where
  "local_credential env context replayCache backedAssertion jwt verificationTime ulReqFlags verifyCred certAnchors fl heap =
     (if rCertificates backedAssertion \<noteq> [] then (Inr (None, verifyCred), fl)
      else case json_object_get (Header jwt) ''x5c'' of
        Some x5c \<Rightarrow>
          bailS (BIDValidateX509 env context heap (Some x5c) certAnchors, fl) (\<lambda>_ fl.
            (Inr (None, Header jwt), fl OR BID_VERIFY_FLAG_X509 OR BID_VERIFY_FLAG_VALIDATED_CERTS))
      | None \<Rightarrow>
          if flag_set ulReqFlags BID_VERIFY_FLAG_REAUTH then
            bailS (BIDVerifyReauthAssertion env context replayCache backedAssertion verificationTime fl heap)
              (\<lambda>(identity, key) fl. (Inr (Some identity, key), fl))
          else if \<not> flag_set ulReqFlags BID_VERIFY_FLAG_RP then (Inl BID_S_INVALID_ASSERTION, fl)
          else (Inr (None, verifyCred), fl))"

text \<open>The signature, the identity, its subject and the options.\<close>

definition local_finish ::
  "'x crypto_env_scheme \<Rightarrow> BIDContextDesc \<Rightarrow> BIDBackedAssertionDesc \<Rightarrow> BIDJWTDesc \<Rightarrow> BIDIdentityDesc option \<Rightarrow>
    string option \<Rightarrow> u32 \<Rightarrow> json option \<Rightarrow> u32 \<Rightarrow> (BIDError + BIDIdentityDesc) \<times> u32" where
  "local_finish env context backedAssertion jwt identity szSubjectName ulReqFlags verifyCred fl =
     bailS (bail (BIDVerifySignature env (Some jwt) verifyCred) (\<lambda>_.
            bail (case identity of
                    Some i \<Rightarrow> Inr i | None \<Rightarrow> BIDPopulateIdentity env context backedAssertion fl) (\<lambda>i.
            bail (if flag_set fl BID_VERIFY_FLAG_VALIDATED_CERTS
                  then BIDValidateSubject context i szSubjectName ulReqFlags else Inr ()) (\<lambda>_. Inr i))), fl) (\<lambda>i fl.
     if flag_set ulReqFlags BID_VERIFY_FLAG_RP then (Inr i, fl)
     else case BIDParseProtocolOpts (json_object_get (Payload jwt) ''opts'') fl of
            Inl e \<Rightarrow> (Inl e, fl)
          | Inr fl' \<Rightarrow> (Inr i, fl'))"

definition BIDVerifyLocal ::
  "'x bid_env_scheme \<Rightarrow> int \<Rightarrow> BIDContextDesc \<Rightarrow> BIDCache \<Rightarrow> BIDBackedAssertionDesc \<Rightarrow> string option \<Rightarrow> string option \<Rightarrow>
    byte list option \<Rightarrow> int \<Rightarrow> u32 \<Rightarrow> json option \<Rightarrow> json option \<Rightarrow> 'd cache_heap \<Rightarrow>
    (BIDError + BIDIdentityDesc) \<times> u32 \<times> 'd cache_heap" where
  "BIDVerifyLocal env now context replayCache backedAssertion szAudience szSubjectName pbChannelBindings
       verificationTime ulReqFlags verifyCred certAnchors heap =
     (case Assertion backedAssertion of
        None \<Rightarrow> (Inl BID_UNDEFINED, 0, heap)
      | Some jwt \<Rightarrow>
          let ulReqFlags = (if flag_set ulReqFlags BID_VERIFY_FLAG_REAUTH \<and> \<not> flag_set (ContextOptions context) BID_CONTEXT_REAUTH
                            then ulReqFlags AND NOT BID_VERIFY_FLAG_REAUTH else ulReqFlags);
              certs = rCertificates backedAssertion
          in case local_credential env context replayCache backedAssertion jwt verificationTime ulReqFlags
                    verifyCred certAnchors (or_flag (flag_set ulReqFlags BID_VERIFY_FLAG_RP) BID_VERIFY_FLAG_RP 0) heap of
               (Inl e, fl) \<Rightarrow> (Inl e, fl, heap)
             | (Inr (identity, verifyCred), fl) \<Rightarrow>
                 (case bail (BIDValidateAudience context backedAssertion szAudience pbChannelBindings) (\<lambda>_.
                       bail (BIDValidateExpiry context verificationTime (Payload jwt)) (\<lambda>_.
                       guard (1 < length certs) BID_S_TOO_MANY_CERTS)) of
                    Inl e \<Rightarrow> (Inl e, fl, heap)
                  | Inr _ \<Rightarrow>
                      (case (if certs = [] then (Inr (), heap)
                             else bailS (BIDValidateCertIssuer env now context backedAssertion verificationTime ulReqFlags heap)
                                    (\<lambda>_ heap. BIDValidateCertChain env now context backedAssertion verificationTime heap)) of
                         (Inl e, heap') \<Rightarrow> (Inl e, fl, heap')
                       | (Inr _, heap') \<Rightarrow>
                           let (r, fl') = local_finish env context backedAssertion jwt identity szSubjectName ulReqFlags
                                 (if certs = [] then verifyCred else BIDLeafCert backedAssertion)
                                 (or_flag (certs \<noteq> []) BID_VERIFY_FLAG_VALIDATED_CERTS fl)
                           in (r, fl', heap'))))"

section \<open>Remote verification\<close>

definition BIDRemoteVerifierResponseToIdentity ::
  "'x crypto_env_scheme \<Rightarrow> BIDContextDesc \<Rightarrow> BIDBackedAssertionDesc \<Rightarrow> json \<Rightarrow> BIDError + BIDIdentityDesc" where
  "BIDRemoteVerifierResponseToIdentity env context backedAssertion response =
     bail (guard (json_string_value (json_object_get (Some response) ''status'') \<noteq> Some ''okay'')
             BID_S_REMOTE_VERIFY_FAILURE) (\<lambda>_.
     bail (BIDPopulateIdentity env context backedAssertion 0) (\<lambda>identity.
     bail (BIDJsonObjectSet (Attributes identity) ''sub'' (json_object_get (Some response) ''email'') 0) (\<lambda>a.
     bail (BIDJsonObjectSet (PrivateAttributes identity) ''aud'' (json_object_get (Some response) ''audience'') 0) (\<lambda>p.
     bail (BIDJsonObjectSet a ''iss'' (json_object_get (Some response) ''issuer'') 0) (\<lambda>a.
     bail (BIDJsonObjectSet p ''a-exp'' (json_object_get (Some response) ''expires'') 0) (\<lambda>p.
     Inr (identity\<lparr>Attributes := a, PrivateAttributes := p\<rparr>)))))))"

definition BIDVerifyRemote ::
  "'x bid_env_scheme \<Rightarrow> BIDContextDesc \<Rightarrow> BIDBackedAssertionDesc \<Rightarrow> string option \<Rightarrow> string option \<Rightarrow>
    byte list option \<Rightarrow> u32 \<Rightarrow> (BIDError + BIDIdentityDesc) \<times> u32" where
  "BIDVerifyRemote env context backedAssertion szAudienceOrSpn szSubjectName pbChannelBindings ulReqFlags =
     (let szVerifierUrl = (case VerifierUrl context of Some u \<Rightarrow> u | None \<Rightarrow> BID_VERIFIER_URL) in
      bailS (bail (BIDValidateAudience context backedAssertion szAudienceOrSpn pbChannelBindings) (\<lambda>_.
             bail (some_or (case szAudienceOrSpn of
                              Some a \<Rightarrow> Some a
                            | None \<Rightarrow> json_string_value (json_object_get
                                 (case Assertion backedAssertion of None \<Rightarrow> None | Some jwt \<Rightarrow> Payload jwt) ''aud''))
                     BID_S_MISSING_AUDIENCE) (\<lambda>szAudienceOrSpn.
             bail (PostDocument env szVerifierUrl
                     (''assertion='' @ ba_EncData backedAssertion @ ''&audience='' @ szAudienceOrSpn)) (\<lambda>response.
             bail (BIDRemoteVerifierResponseToIdentity env context backedAssertion response) (\<lambda>identity.
             bail (BIDValidateSubject context identity szSubjectName ulReqFlags) (\<lambda>_. Inr identity))))),
             BID_VERIFY_FLAG_REMOTE) (\<lambda>identity fl.
      (Inr identity, fl OR BID_VERIFY_FLAG_VALIDATED_CERTS)))"

section \<open>The entry point\<close>

text \<open>What follows the verification itself.  The identity is handed to the caller also when one of
  these steps fails.\<close>

definition verify_finish ::
  "'x crypto_env_scheme \<Rightarrow> int \<Rightarrow> BIDContextDesc \<Rightarrow> BIDCache \<Rightarrow> string \<Rightarrow> int \<Rightarrow> u32 \<Rightarrow> BIDIdentityDesc \<Rightarrow> u32 \<Rightarrow>
    'd cache_heap \<Rightarrow> (BIDError + int) \<times> BIDIdentityDesc \<times> 'd cache_heap" where
  "verify_finish env now context replayCache szAssertion verificationTime ulReqFlags identity ulRetFlags heap =
     (let bUseReplayCache = (\<not> flag_set ulRetFlags BID_VERIFY_FLAG_EXTRA_ROUND_TRIP \<and>
                             flag_set (ContextOptions context) BID_CONTEXT_REPLAY_CACHE);
          bNoCache = flag_set ulReqFlags BID_VERIFY_FLAG_NO_REPLAY_CACHE in
      bailS (if bUseReplayCache \<and> \<not> bNoCache
             then BIDCheckReplayCache env context replayCache szAssertion verificationTime heap else Inr (), identity, heap)
        (\<lambda>_ (identity, heap).
      bailS (if \<not> flag_set ulRetFlags BID_VERIFY_FLAG_REAUTH \<and> flag_set (ContextOptions context) BID_CONTEXT_ECDH_KEYEX
             then let (r, identity) = BIDVerifierKeyAgreement env identity in (r, identity, heap)
             else (Inr (), identity, heap)) (\<lambda>_ (identity, heap).
      bailS (if (bUseReplayCache \<or> flag_set (ContextOptions context) BID_CONTEXT_REAUTH) \<and> \<not> bNoCache
             then BIDUpdateReplayCache env now context replayCache identity szAssertion verificationTime ulRetFlags heap
             else (Inr (), identity, heap)) (\<lambda>_ (identity, heap).
      (Inr (timestamp_or_zero (BIDGetJsonTimestampValue (Some (Attributes identity)) ''exp'')), identity, heap)))))"

definition BIDVerifyAssertion ::
  "'x bid_env_scheme \<Rightarrow> int \<Rightarrow> BIDContextDesc \<Rightarrow> BIDCache \<Rightarrow> string option \<Rightarrow> string option \<Rightarrow> byte list option \<Rightarrow>
    int \<Rightarrow> u32 \<Rightarrow> 'd cache_heap \<Rightarrow> (BIDError + int) \<times> BIDIdentityDesc option \<times> u32 \<times> 'd cache_heap" where
  "BIDVerifyAssertion env now context replayCache szAssertion szAudienceOrSpn pbChannelBindings verificationTime ulReqFlags heap =
     (case szAssertion of
        None \<Rightarrow> (Inl BID_S_INVALID_PARAMETER, None, 0, heap)
      | Some szAssertion \<Rightarrow>
          if \<not> flag_set (ContextOptions context) BID_CONTEXT_RP then (Inl BID_S_INVALID_USAGE, None, 0, heap)
          else
            let replayCache = (if replayCache = None then ReplayCache context else replayCache) in
            (case BIDUnpackBackedAssertion env (Some szAssertion) of
               Inl e \<Rightarrow> (Inl e, None, 0, heap)
             | Inr backedAssertion \<Rightarrow>
                 (case (if flag_set (ContextOptions context) BID_CONTEXT_VERIFY_REMOTE
                        then let (r, fl) = BIDVerifyRemote env context backedAssertion szAudienceOrSpn None pbChannelBindings ulReqFlags
                             in (r, fl, heap)
                        else BIDVerifyLocal env now context replayCache backedAssertion szAudienceOrSpn None pbChannelBindings
                               verificationTime ulReqFlags None None heap) of
                    (Inl e, fl, heap') \<Rightarrow> (Inl e, None, fl, heap')
                  | (Inr identity, fl, heap') \<Rightarrow>
                      let (r, identity', heap'') =
                        verify_finish env now context replayCache szAssertion verificationTime ulReqFlags identity fl heap'
                      in (r, Some identity', fl, heap''))))"

section \<open>Lemmas\<close>

text \<open>The domain that is responsible for a certified principal: the host itself, or what follows
  the first at sign of the email address.\<close>

definition responsible_domain :: "u32 \<Rightarrow> json \<Rightarrow> string \<Rightarrow> bool" where
  "responsible_domain fl prin domain \<longleftrightarrow>
     (if flag_set fl BID_VERIFY_FLAG_RP then json_object_get (Some prin) ''hostname'' = Some (JString domain)
      else \<exists>user. json_object_get (Some prin) ''email'' = Some (JString (user @ ''@'' @ domain)) \<and> CHR ''@'' \<notin> set user)"

lemma BIDValidateCertIssuer_Inr:
  assumes "BIDValidateCertIssuer env now context ba t fl heap = (Inr (), heap')"
  obtains prin domain iss where "json_object_get (BIDLeafCert ba) ''principal'' = Some prin"
    "responsible_domain fl prin domain" "json_object_get (BIDLeafCert ba) ''iss'' = Some (JString iss)"
    "BIDIssuerIsAuthoritative env now context domain iss t heap = (Inr (), heap')"
proof (cases "flag_set fl BID_VERIFY_FLAG_RP")
  case True
  with assms show ?thesis
    by (auto simp: BIDValidateCertIssuer_def Let_def bid_result responsible_domain_def intro!: that)
next
  case False
  with assms obtain prin email user domain iss where
    "json_object_get (BIDLeafCert ba) ''principal'' = Some prin" "json_object_get (Some prin) ''email'' = Some (JString email)"
    "split_at (CHR ''@'') email = Some (user, domain)" "json_object_get (BIDLeafCert ba) ''iss'' = Some (JString iss)"
    "BIDIssuerIsAuthoritative env now context domain iss t heap = (Inr (), heap')"
    by (auto simp: BIDValidateCertIssuer_def Let_def bid_result)
  with False show ?thesis by (intro that) (auto simp: responsible_domain_def split_at_Some)
qed

lemma BIDValidateCertChain_single:
  assumes "BIDValidateCertChain env now context ba t heap = (Inr (), heap')" "rCertificates ba = [cert]"
  obtains iss doc where "json_object_get (Payload cert) ''iss'' = Some (JString iss)"
    "BIDAcquireAuthority env now context iss t heap = (Inr doc, heap')" "json_object_get (Some doc) ''public-key'' \<noteq> None"
    "valid_at (unat (Skew context)) t (Payload cert)" "BIDVerifySignature env (Some cert) (Some doc) = Inr ()"
  using assms
  by (auto simp: BIDValidateCertChain_def BIDRootCert_def BIDGetAuthorityPublicKey_def bid_result BIDValidateExpiry_valid
      split: prod.splits)

lemma local_finish_Inr:
  assumes "local_finish env context ba jwt ident subj fl cred rfl = (Inr i, rfl')"
  shows "BIDVerifySignature env (Some jwt) cred = Inr ()"
    "case ident of None \<Rightarrow> BIDPopulateIdentity env context ba rfl = Inr i | Some j \<Rightarrow> i = j"
    "flag_set rfl BID_VERIFY_FLAG_VALIDATED_CERTS \<Longrightarrow> BIDValidateSubject context i subj fl = Inr ()"
  using assms by (auto simp: local_finish_def bid_result split: if_splits sum.splits option.splits)

lemma BIDVerifyLocal_certified:
  assumes "BIDVerifyLocal env now context rc ba aud subj cb t fl cred anchors heap = (Inr i, rfl', heap')"
    and "rCertificates ba \<noteq> []"
  obtains jwt cert heap1 fl1 where "Assertion ba = Some jwt" "rCertificates ba = [cert]"
    "BIDValidateAudience context ba aud cb = Inr ()" "BIDValidateExpiry context t (Payload jwt) = Inr ()"
    "flag_set fl1 BID_VERIFY_FLAG_RP = flag_set fl BID_VERIFY_FLAG_RP"
    "BIDValidateCertIssuer env now context ba t fl1 heap = (Inr (), heap1)"
    "BIDValidateCertChain env now context ba t heap1 = (Inr (), heap')"
    "BIDVerifySignature env (Some jwt) (Payload cert) = Inr ()"
    "BIDPopulateIdentity env context ba (or_flag (flag_set fl BID_VERIFY_FLAG_RP) BID_VERIFY_FLAG_RP 0 OR BID_VERIFY_FLAG_VALIDATED_CERTS) = Inr i"
    "BIDValidateSubject context i subj fl1 = Inr ()"
proof -
  let ?fl = "if flag_set fl BID_VERIFY_FLAG_REAUTH \<and> \<not> flag_set (ContextOptions context) BID_CONTEXT_REAUTH
             then fl AND NOT BID_VERIFY_FLAG_REAUTH else fl"
  let ?rfl = "or_flag (flag_set ?fl BID_VERIFY_FLAG_RP) BID_VERIFY_FLAG_RP 0 OR BID_VERIFY_FLAG_VALIDATED_CERTS"
  have rp: "flag_set ?fl BID_VERIFY_FLAG_RP = flag_set fl BID_VERIFY_FLAG_RP"
    by (auto simp: flag_set_def ac_simps)
  from assms(1) obtain jwt where jwt: "Assertion ba = Some jwt" by (auto simp: BIDVerifyLocal_def split: option.splits)
  with assms have len: "\<not> 1 < length (rCertificates ba)"
    and a: "BIDValidateAudience context ba aud cb = Inr ()" and e: "BIDValidateExpiry context t (Payload jwt) = Inr ()"
    by (auto simp: BIDVerifyLocal_def local_credential_def Let_def bid_result split: sum.splits prod.splits)
  from len assms(2) obtain cert where cert: "rCertificates ba = [cert]"
    by (cases "rCertificates ba"; cases "tl (rCertificates ba)") auto
  from assms jwt a e obtain heap1 where
    ci: "BIDValidateCertIssuer env now context ba t ?fl heap = (Inr (), heap1)"
    and cc: "BIDValidateCertChain env now context ba t heap1 = (Inr (), heap')"
    and fin: "local_finish env context ba jwt None subj ?fl (BIDLeafCert ba) ?rfl = (Inr i, rfl')"
    by (auto simp: BIDVerifyLocal_def local_credential_def Let_def bid_result or_flag_def cert split: sum.splits prod.splits)
  have leaf: "BIDLeafCert ba = Payload cert" by (simp add: BIDLeafCert_def cert)
  have "flag_set ?rfl BID_VERIFY_FLAG_VALIDATED_CERTS" by (simp add: bid_flag flag_set_def)
  with local_finish_Inr[OF fin] leaf rp show ?thesis by (intro that[OF jwt cert a e rp ci cc]) auto
qed

lemma hmac_header_key:
  assumes "json_object_get (Some h) ''keys'' = None" "json_object_get (Some h) ''public-key'' = None"
    and "json_object_get (Some h) ''secret-key'' = Some (JString (b64_text True k))"
    and "json_object_get (Header jwt) ''alg'' = Some (JString ''HS256'')" "Signature jwt \<noteq> []"
    and "Signature jwt = HMAC env EVP_sha256 k (jwt_data jwt)"
  shows "BIDVerifySignature env (Some jwt) (Some h) = Inr ()"
proof -
  have loop: "verify_alg_loop env (Some h) ''HS256'' err BIDJWTAlgorithms = Inr (last BIDJWTAlgorithms, h)" for err
    using assms(1-3) by (simp add: BIDJWTAlgorithms_def BIDKeyMatchesP_def)
  have "BIDHMACSHA env (last BIDJWTAlgorithms) jwt (Some h) = Inr (HMAC env EVP_sha256 k (jwt_data jwt))"
    using assms(3) by (simp add: BIDHMACSHA_def BIDJWTAlgorithms_def BIDEvpForAlgorithm_def BIDEvpForAlgorithmName_def
      BIDGetJsonBinaryValue_def)
  then have "HMACSHAVerifySignature env (last BIDJWTAlgorithms) jwt (Some h) = Inr True"
    using assms(6) by (simp add: HMACSHAVerifySignature_iff)
  with assms(4,5) loop show ?thesis by (simp add: BIDVerifySignature_def guard_def alg_VerifySignature_def)
qed

text \<open>Verification changes no cache but the authority cache.\<close>

lemma BIDValidateCertIssuer_frame [simp]:
  "AuthorityCache context \<noteq> Some b \<Longrightarrow>
    cells (snd (BIDValidateCertIssuer env now context ba t fl heap)) b = cells heap b"
  unfolding BIDValidateCertIssuer_def Let_def by (subst bailS_def) (auto split: sum.split prod.split)

lemma BIDValidateCertChain_frame [simp]:
  "AuthorityCache context \<noteq> Some b \<Longrightarrow>
    cells (snd (BIDValidateCertChain env now context ba t heap)) b = cells heap b"
  by (auto simp: BIDValidateCertChain_def bailS_def split: sum.split prod.split)

lemma BIDVerifyLocal_frame:
  assumes "BIDVerifyLocal env now context rc ba aud subj cb t fl cred anchors heap = (r, rfl, heap')"
    and "AuthorityCache context \<noteq> Some b"
  shows "cells heap' b = cells heap b"
proof -
  have "cells (snd (if rCertificates ba = [] then (Inr (), heap)
      else bailS (BIDValidateCertIssuer env now context ba t fl' heap)
        (\<lambda>_ heap. BIDValidateCertChain env now context ba t heap))) b = cells heap b" for fl'
    using assms(2) by (auto simp: bailS_def split: sum.split)
  from this[of "if flag_set fl BID_VERIFY_FLAG_REAUTH \<and> \<not> flag_set (ContextOptions context) BID_CONTEXT_REAUTH
             then fl AND NOT BID_VERIFY_FLAG_REAUTH else fl"] assms(1) show ?thesis
    unfolding BIDVerifyLocal_def Let_def by (auto split: option.splits prod.splits sum.splits)
qed

text \<open>Recording an assertion leaves what the entry depends on in the identity.\<close>

lemma BIDDeriveSessionSubkey_attributes:
  "BIDDeriveSessionSubkey env context i salt = (r, i') \<Longrightarrow>
    Attributes i' = Attributes i \<and> PrivateAttributes i' = PrivateAttributes i"
  by (auto simp: BIDDeriveSessionSubkey_def BIDIdentitySecretAgreement_def bailS_def Let_def split: if_splits sum.splits)

lemma replay_entry_attributes:
  "replay_entry env context i t fl heap = (r, i') \<Longrightarrow> Attributes i' = Attributes i \<and> PrivateAttributes i' = PrivateAttributes i"
  by (cases "BIDDeriveSessionSubkey env context i ''ARK''")
    (auto simp: replay_entry_def bailS_def Let_def split: if_splits sum.splits dest!: BIDDeriveSessionSubkey_attributes)

lemma BIDUpdateReplayCache_expiry:
  assumes "BIDUpdateReplayCache env now context rc i s t fl heap = (Inr (), i', heap')"
  shows "replay_expiry context i' t fl = replay_expiry context i t fl"
proof -
  from assms obtain j i1 where e: "replay_entry env context i t fl heap = (Inr j, i1)"
    and i': "i' = i1 \<or> (\<exists>tkt p. BIDJsonObjectSet (PrivateAttributes i1) ''tkt'' (Some tkt) 0 = Inr p \<and> i' = i1\<lparr>PrivateAttributes := p\<rparr>)"
    by (auto simp: BIDUpdateReplayCache_def bid_result split: sum.splits prod.splits if_splits)
  from i' replay_entry_attributes[OF e] have "Attributes i' = Attributes i"
    "json_object_get (Some (PrivateAttributes i')) ''renew-exp'' = json_object_get (Some (PrivateAttributes i)) ''renew-exp''"
    by (auto simp: BIDJsonObjectSet_get)
  then show ?thesis by (auto simp: replay_expiry_def store_reauth_creds_def BIDGetJsonTimestampValue_def)
qed

lemma verify_finish_recorded:
  assumes "verify_finish env now context rc s t fl i rfl heap = (Inr e, i', heap')"
    and "flag_set (ContextOptions context) BID_CONTEXT_REPLAY_CACHE" "\<not> flag_set rfl BID_VERIFY_FLAG_EXTRA_ROUND_TRIP"
      "\<not> flag_set fl BID_VERIFY_FLAG_NO_REPLAY_CACHE"
  obtains i0 where "BIDUpdateReplayCache env now context rc i0 s t rfl heap = (Inr (), i', heap')"
  using assms by (auto simp: verify_finish_def bid_result split: if_splits prod.splits)

lemma verify_finish_checked:
  assumes "BIDCheckReplayCache env context rc s t heap = Inl err"
    and "flag_set (ContextOptions context) BID_CONTEXT_REPLAY_CACHE" "\<not> flag_set rfl BID_VERIFY_FLAG_EXTRA_ROUND_TRIP"
      "\<not> flag_set fl BID_VERIFY_FLAG_NO_REPLAY_CACHE"
  shows "verify_finish env now context rc s t fl i rfl heap = (Inl err, i, heap)"
  using assms by (simp add: verify_finish_def)

lemma BIDDigestAssertion_cong:
  assumes "EVP_Digest env' = EVP_Digest env"
  shows "BIDDigestAssertion env' s = BIDDigestAssertion env s"
proof -
  have "BIDMakeDigestInternal env' = BIDMakeDigestInternal env"
    by (intro ext) (simp add: BIDMakeDigestInternal_def assms)
  then show ?thesis by (simp add: BIDDigestAssertion_def BIDMakeDigest_def)
qed

text \<open>The two halves of the entry point.\<close>

lemma BIDVerifyAssertion_halves:
  assumes "BIDVerifyAssertion env now context None (Some s) aud cb t fl heap = (res, oi, rfl, heap')"
    and "AuthorityCache context \<noteq> Some r" "ReplayCache context = Some r"
  shows "(\<exists>err. res = Inl err \<and> oi = None) \<or>
    (\<exists>i i' heapL. oi = Some i' \<and> verify_finish env now context (Some r) s t fl i rfl heapL = (res, i', heap') \<and>
      cells heapL r = cells heap r)"
proof (cases "\<not> flag_set (ContextOptions context) BID_CONTEXT_RP")
  case True
  with assms(1) show ?thesis by (auto simp: BIDVerifyAssertion_def)
next
  case rp: False
  show ?thesis
  proof (cases "BIDUnpackBackedAssertion env (Some s)")
    case (Inl e)
    with rp assms(1) show ?thesis by (auto simp: BIDVerifyAssertion_def)
  next
    case (Inr ba)
    let ?v = "if flag_set (ContextOptions context) BID_CONTEXT_VERIFY_REMOTE
        then let (r, fl) = BIDVerifyRemote env context ba aud None cb fl in (r, fl, heap)
        else BIDVerifyLocal env now context (Some r) ba aud None cb t fl None None heap"
    obtain rv rfl' heapL where v: "?v = (rv, rfl', heapL)" by (cases ?v) auto
    have "cells heapL r = cells heap r"
      using v BIDVerifyLocal_frame[OF _ assms(2)] by (auto split: if_splits prod.splits)
    with rp Inr v assms(1,3) show ?thesis
      by (cases rv) (auto simp: BIDVerifyAssertion_def split: prod.splits)
  qed
qed

section \<open>A concrete verification\<close>

text \<open>A key set that publishes a symmetric key is used like the key itself.\<close>

lemma hmac_public_key:
  assumes "json_object_get (Some ks) ''keys'' = None" "json_object_get (Some ks) ''public-key'' = Some (hmac_jwk k)"
  shows "BIDVerifySignature env jwt (Some ks) = BIDVerifySignature env jwt (Some (hmac_jwk k))"
proof -
  have "BIDFindKeyInKeyset env alg (Some ks) = BIDFindKeyInKeyset env alg (Some (hmac_jwk k))" for alg
    using assms by (simp add: hmac_jwk_def)
  then have "verify_alg_loop env (Some ks) a err algs = verify_alg_loop env (Some (hmac_jwk k)) a err algs" for a err algs
    by (induction algs arbitrary: err) (simp_all split: sum.split)
  then show ?thesis by (simp add: BIDVerifySignature_def)
qed

text \<open>Making a token with a symmetric key.\<close>

definition token_for :: "json \<Rightarrow> BIDJWTDesc" where
  "token_for p = \<lparr>EncData = None, EncDataLength = 0, Header = None, Payload = Some p, Signature = []\<rparr>"

lemma token_made:
  assumes "json_library env" "json_dumps env hs256_header = Some [x]" "json_dumps env p = Some [y]"
    and "\<And>m. length (HMAC env EVP_sha256 k m) = 2"
  obtains s jwt where "BIDMakeSignature env (token_for p) (Some (hmac_jwk k)) None = Inr (s, jwt)" "CHR ''~'' \<notin> set s"
    "BIDParseJWT env s = Inr (Some (jwt\<lparr>EncData := Some s\<rparr>))" "Payload (jwt\<lparr>EncData := Some s\<rparr>) = Some p"
    "BIDVerifySignature env (Some (jwt\<lparr>EncData := Some s\<rparr>)) (Some (hmac_jwk k)) = Inr ()"
proof -
  have "BIDJsonObjectSet BIDAllocJsonObject ''alg'' (Some (JString ''HS256''))
      (BID_JSON_FLAG_REQUIRED OR BID_JSON_FLAG_CONSUME_REF) = Inr hs256_header"
    by (simp add: BIDAllocJsonObject_def hs256_header_def)
  then obtain s jwt where m: "BIDMakeSignature env (token_for p) (Some (hmac_jwk k)) None = Inr (s, jwt)"
    using assms(2-4) by (simp add: BIDMakeSignature_def token_for_def hmac_jwk_loops BIDMakeSignatureData_def BIDEncodeJson_def
        alg_MakeSignature_def HMACSHAMakeSignature_def hmac_jwk_HMACSHA BIDBase64UrlEncode_text)
  have h: "Header (token_for p) = None \<or> BIDValidateJWTHeader (Header (token_for p)) = Inr ()" by (simp add: token_for_def)
  note made = parse_made[OF assms(1) m h]
  have "HMAC env EVP_sha256 k m \<noteq> []" for m using assms(4)[of m] by auto
  from hmac_sign_verify[OF assms(1) m h this] made(1)
  have "BIDVerifySignature env (Some (jwt\<lparr>EncData := Some s\<rparr>)) (Some (hmac_jwk k)) = Inr ()" by auto
  with m made made_no_tilde[OF m] show ?thesis by (intro that) (auto simp: token_for_def)
qed

text \<open>A certificate of \<open>b.org\<close> for the user \<open>a@b.org\<close>, an assertion under it, and a relying party.\<close>

definition sample_cert :: json where
  "sample_cert = JObject [(''principal'', JObject [(''email'', JString ''a@b.org'')]), (''iss'', JString ''b.org''),
     (''exp'', JInteger 9000), (''public-key'', hmac_jwk [2, 3])]"

definition sample_assertion :: json where
  "sample_assertion = JObject [(''exp'', JInteger 8000)]"

definition sample_doc :: json where
  "sample_doc = JObject [(''public-key'', hmac_jwk [1])]"

definition none_header :: json where
  "none_header = JObject [(''alg'', JString ''none'')]"

definition verify_env :: bid_env where
  "verify_env = sample_bid_env\<lparr>
     json_loads := (\<lambda>s. if s = ''h'' then Some hs256_header else if s = ''c'' then Some sample_cert
       else if s = ''a'' then Some sample_assertion else if s = ''n'' then Some none_header else if s = ''o'' then Some (JObject []) else None),
     json_dumps := (\<lambda>j. if j = hs256_header then Some ''h'' else if j = sample_cert then Some ''c''
       else if j = sample_assertion then Some ''a'' else if j = none_header then Some ''n'' else if j = JObject [] then Some ''o'' else None),
     RetrieveDocument := (\<lambda>_ _. Inr (sample_doc, 9))\<rparr>"

definition rp_ctx :: BIDContextDesc where
  "rp_ctx = (new_context (BID_CONTEXT_RP OR BID_CONTEXT_REPLAY_CACHE))\<lparr>ReplayCache := Some 0\<rparr>"

lemma rp_ctx_simps [simp]:
  "flag_set (ContextOptions rp_ctx) BID_CONTEXT_RP" "flag_set (ContextOptions rp_ctx) BID_CONTEXT_REPLAY_CACHE"
  "\<not> flag_set (ContextOptions rp_ctx) BID_CONTEXT_VERIFY_REMOTE" "\<not> flag_set (ContextOptions rp_ctx) BID_CONTEXT_AUTHORITY_CACHE"
  "\<not> flag_set (ContextOptions rp_ctx) BID_CONTEXT_REAUTH" "\<not> flag_set (ContextOptions rp_ctx) BID_CONTEXT_ECDH_KEYEX"
  "ReplayCache rp_ctx = Some 0" "AuthorityCache rp_ctx = None" "Skew rp_ctx = 0"
  by (simp_all add: rp_ctx_def new_context_def flag_set_def)

lemma verify_env_simps [simp]:
  "json_dumps verify_env hs256_header = Some ''h''" "json_dumps verify_env sample_cert = Some ''c''"
  "json_dumps verify_env sample_assertion = Some ''a''" "HMAC verify_env md key bs = take 2 (key @ bs @ [0, 0])"
  "RetrieveDocument verify_env host path = Inr (sample_doc, 9)" "EVP_Digest verify_env md bs = take 2 (bs @ [0, 0])"
  "json_dumps verify_env none_header = Some ''n''" "json_dumps verify_env (JObject []) = Some ''o''"
  by (simp_all add: verify_env_def sample_bid_env_def crypto_env.defs hs256_header_def sample_cert_def sample_assertion_def
      none_header_def sample_env_def)

lemma verify_env_library: "json_library verify_env"
  by (simp add: json_library_def verify_env_def hs256_header_def sample_cert_def sample_assertion_def none_header_def)

lemma sample_fetched: "BIDAcquireAuthority verify_env now rp_ctx host t heap =
    (Inr (JObject [(''public-key'', hmac_jwk [1]), (''exp'', JInteger 9000)]), heap)"
  by (simp add: acquire_authority_uncached fetched_def BIDSetJsonTimestampValue_def sample_doc_def)

lemma sample_local:
  assumes "Payload jwt = Some sample_assertion" "Payload cert = Some sample_cert"
    and "BIDVerifySignature verify_env (Some cert) (Some (hmac_jwk [1])) = Inr ()"
    and "BIDVerifySignature verify_env (Some jwt) (Some (hmac_jwk [2, 3])) = Inr ()"
  shows "\<exists>i. BIDVerifyLocal verify_env 5 rp_ctx (Some 0) \<lparr>ba_EncData = e, Assertion = Some jwt, rCertificates = [cert]\<rparr>
      None None None 5 0 None None heap = (Inr i, BID_VERIFY_FLAG_VALIDATED_CERTS, heap) \<and>
    json_object_get (Some (Attributes i)) ''exp'' = Some (JInteger 9000) \<and> BIDGetIdentitySubject i = Inr ''a@b.org'' \<and>
    json_object_get (Some (PrivateAttributes i)) ''opts'' = None \<and> SecretHandle i = None"
proof -
  let ?ba = "\<lparr>ba_EncData = e, Assertion = Some jwt, rCertificates = [cert]\<rparr>"
  have exp: "BIDValidateExpiry rp_ctx 5 (Some sample_assertion) = Inr ()" "BIDValidateExpiry rp_ctx 5 (Some sample_cert) = Inr ()"
    by (simp_all add: BIDValidateExpiry_valid valid_at_def sample_assertion_def sample_cert_def BIDGetJsonTimestampValue_def
        signed_divide_int_def)
  have aud: "BIDValidateAudience rp_ctx ?ba None None = Inr ()" using assms(1) by (simp add: BIDValidateAudience_def)
  have leaf: "BIDLeafCert ?ba = Some sample_cert" using assms(2) by (simp add: BIDLeafCert_def)
  have ci: "BIDValidateCertIssuer verify_env 5 rp_ctx ?ba 5 0 heap = (Inr (), heap)"
    by (simp add: BIDValidateCertIssuer_def leaf guard_def sample_cert_def BIDIssuerIsAuthoritative_def BIDAuthorityEqual_def)
  have "BIDVerifySignature verify_env (Some cert) (Some (JObject [(''public-key'', hmac_jwk [1]), (''exp'', JInteger 9000)])) = Inr ()"
    using assms(3) by (subst hmac_public_key) simp_all
  then have cc: "BIDValidateCertChain verify_env 5 rp_ctx ?ba 5 heap = (Inr (), heap)"
    using assms(2) exp(2) by (simp add: BIDValidateCertChain_def BIDRootCert_def sample_fetched BIDGetAuthorityPublicKey_def)
      (simp add: sample_cert_def sample_fetched)
  have sg: "BIDVerifySignature verify_env (Some jwt) (Some sample_cert) = Inr ()"
    using assms(4) by (subst hmac_public_key[of sample_cert "[2, 3]"]) (simp_all add: sample_cert_def)
  have [simp]: "\<not> flag_set BID_VERIFY_FLAG_VALIDATED_CERTS BID_VERIFY_FLAG_X509" "\<not> flag_set BID_VERIFY_FLAG_VALIDATED_CERTS BID_VERIFY_FLAG_RP"
    by (simp_all add: flag_set_def)
  obtain p where "populate_private rp_ctx (Some sample_assertion) BIDAllocJsonObject = Inr p" "json_object_get (Some p) ''opts'' = None"
    by (simp add: populate_private_def sample_assertion_def BIDAllocJsonObject_def BIDJsonObjectSet_none)
  then obtain i where pop: "BIDPopulateIdentity verify_env rp_ctx ?ba BID_VERIFY_FLAG_VALIDATED_CERTS = Inr i"
    "json_object_get (Some (Attributes i)) ''exp'' = Some (JInteger 9000)" "BIDGetIdentitySubject i = Inr ''a@b.org''"
    "json_object_get (Some (PrivateAttributes i)) ''opts'' = None" "SecretHandle i = None"
    using assms(1) by (simp add: BIDPopulateIdentity_def leaf BIDAllocIdentity_def)
      (simp add: sample_cert_def BIDGetIdentitySubject_def BIDGetIdentityAttribute_def BIDGetJsonStringValue_def)
  show ?thesis
    using assms(1,2) aud exp ci cc sg pop leaf
    by (simp add: BIDVerifyLocal_def local_credential_def local_finish_def guard_def or_flag_def BIDValidateSubject_def
        BIDParseProtocolOpts_def) (simp add: sample_assertion_def)
qed

text \<open>The text of the assertion and what it is unpacked into.\<close>

lemma sample_backed:
  obtains s ba i where "BIDUnpackBackedAssertion verify_env (Some s) = Inr ba" "rCertificates ba \<noteq> []"
    "\<forall>heap. BIDVerifyLocal verify_env 5 rp_ctx (Some 0) ba None None None 5 0 None None heap =
      (Inr i, BID_VERIFY_FLAG_VALIDATED_CERTS, heap)"
    "json_object_get (Some (Attributes i)) ''exp'' = Some (JInteger 9000)" "BIDGetIdentitySubject i = Inr ''a@b.org''"
    "json_object_get (Some (PrivateAttributes i)) ''opts'' = None" "CHR 0x00 \<notin> set s"
proof -
  have mac: "length (HMAC verify_env EVP_sha256 k m) = 2" for k m by simp
  from token_made[OF verify_env_library verify_env_simps(1,2) mac, of "[1]"] obtain c cert where
    mc: "BIDMakeSignature verify_env (token_for sample_cert) (Some (hmac_jwk [1])) None = Inr (c, cert)" and
    c: "CHR ''~'' \<notin> set c" "BIDParseJWT verify_env c = Inr (Some (cert\<lparr>EncData := Some c\<rparr>))"
      "Payload (cert\<lparr>EncData := Some c\<rparr>) = Some sample_cert"
      "BIDVerifySignature verify_env (Some (cert\<lparr>EncData := Some c\<rparr>)) (Some (hmac_jwk [1])) = Inr ()" .
  from token_made[OF verify_env_library verify_env_simps(1,3) mac, of "[2, 3]"] obtain a jwt where
    ma: "BIDMakeSignature verify_env (token_for sample_assertion) (Some (hmac_jwk [2, 3])) None = Inr (a, jwt)" and
    a: "CHR ''~'' \<notin> set a" "BIDParseJWT verify_env a = Inr (Some (jwt\<lparr>EncData := Some a\<rparr>))"
      "Payload (jwt\<lparr>EncData := Some a\<rparr>) = Some sample_assertion"
      "BIDVerifySignature verify_env (Some (jwt\<lparr>EncData := Some a\<rparr>)) (Some (hmac_jwk [2, 3])) = Inr ()" .
  let ?s = "c @ ''~'' @ a"
  let ?ba = "\<lparr>ba_EncData = ?s, Assertion = Some (jwt\<lparr>EncData := Some a\<rparr>), rCertificates = [cert\<lparr>EncData := Some c\<rparr>]\<rparr>"
  have "unpack_loop verify_env ?s [] = Inr ([cert\<lparr>EncData := Some c\<rparr>], Some (jwt\<lparr>EncData := Some a\<rparr>))"
    using unpack_part[OF c(1), of "[]" verify_env a] c(2) a(1,2) by (simp add: unpack_last)
  then have un: "BIDUnpackBackedAssertion verify_env (Some ?s) = Inr ?ba"
    by (simp add: BIDUnpackBackedAssertion_def guard_def)
  note loc = sample_local[OF a(3) c(3) c(4) a(4), of ?s]
  from loc[of sample_heap] obtain i where i: "BIDVerifyLocal verify_env 5 rp_ctx (Some 0) ?ba None None None 5 0 None None sample_heap =
      (Inr i, BID_VERIFY_FLAG_VALIDATED_CERTS, sample_heap)" "json_object_get (Some (Attributes i)) ''exp'' = Some (JInteger 9000)"
    "BIDGetIdentitySubject i = Inr ''a@b.org''" "json_object_get (Some (PrivateAttributes i)) ''opts'' = None" by blast
  have "CHR 0x00 \<notin> set ?s" using made_no_nul[OF mc] made_no_nul[OF ma] by simp
  note that = that[OF un _ _ i(2,3,4) this]
  show ?thesis
  proof (rule that, simp, rule allI)
    fix heap :: "'a cache_heap"
    from loc[of heap] obtain i' where i': "BIDVerifyLocal verify_env 5 rp_ctx (Some 0) ?ba None None None 5 0 None None heap =
      (Inr i', BID_VERIFY_FLAG_VALIDATED_CERTS, heap)" by blast
    from BIDVerifyLocal_certified[OF i(1)] BIDVerifyLocal_certified[OF i'] have "i' = i" by (metis list.distinct(1) BIDBackedAssertionDesc.select_convs(3) sum.inject(2))
    with i' show "BIDVerifyLocal verify_env 5 rp_ctx (Some 0) ?ba None None None 5 0 None None heap =
      (Inr i, BID_VERIFY_FLAG_VALIDATED_CERTS, heap)" by simp
  qed
qed

section \<open>Properties\<close>

text \<open>C1: what a relying party may conclude when an assertion with certificates is accepted: there is
  exactly one certificate; audience and validity are right; the issuer of the certificate is
  authoritative for the domain of the certified principal; the certificate is valid and signed
  under the key that the issuer publishes; and the assertion is signed under the certified key.\<close>

theorem verify_local_sound:
  assumes "BIDVerifyLocal env now context rc ba aud subj cb t fl cred anchors heap = (Inr i, rfl', heap')"
    and "rCertificates ba \<noteq> []"
  shows "\<exists>jwt cert prin domain iss doc heap1. Assertion ba = Some jwt \<and> rCertificates ba = [cert] \<and>
    BIDValidateAudience context ba aud cb = Inr () \<and> valid_at (unat (Skew context)) t (Payload jwt) \<and>
    json_object_get (Payload cert) ''principal'' = Some prin \<and> responsible_domain fl prin domain \<and>
    json_object_get (Payload cert) ''iss'' = Some (JString iss) \<and>
    BIDIssuerIsAuthoritative env now context domain iss t heap = (Inr (), heap1) \<and>
    BIDAcquireAuthority env now context iss t heap1 = (Inr doc, heap') \<and>
    valid_at (unat (Skew context)) t (Payload cert) \<and> BIDVerifySignature env (Some cert) (Some doc) = Inr () \<and>
    BIDVerifySignature env (Some jwt) (Payload cert) = Inr ()"
proof -
  from BIDVerifyLocal_certified[OF assms] obtain jwt cert heap1 fl1 where
    v: "Assertion ba = Some jwt" "rCertificates ba = [cert]" "BIDValidateAudience context ba aud cb = Inr ()"
      "BIDValidateExpiry context t (Payload jwt) = Inr ()" "flag_set fl1 BID_VERIFY_FLAG_RP = flag_set fl BID_VERIFY_FLAG_RP"
    and ci: "BIDValidateCertIssuer env now context ba t fl1 heap = (Inr (), heap1)"
    and cc: "BIDValidateCertChain env now context ba t heap1 = (Inr (), heap')"
    and s: "BIDVerifySignature env (Some jwt) (Payload cert) = Inr ()" .
  have leaf: "BIDLeafCert ba = Payload cert" by (simp add: BIDLeafCert_def v(2))
  from BIDValidateCertIssuer_Inr[OF ci, unfolded leaf] obtain prin domain iss where
    1: "json_object_get (Payload cert) ''principal'' = Some prin" "responsible_domain fl1 prin domain"
      "json_object_get (Payload cert) ''iss'' = Some (JString iss)"
      "BIDIssuerIsAuthoritative env now context domain iss t heap = (Inr (), heap1)" .
  from BIDValidateCertChain_single[OF cc v(2)] obtain iss' doc where
    2: "json_object_get (Payload cert) ''iss'' = Some (JString iss')"
      "BIDAcquireAuthority env now context iss' t heap1 = (Inr doc, heap')" "json_object_get (Some doc) ''public-key'' \<noteq> None"
      "valid_at (unat (Skew context)) t (Payload cert)" "BIDVerifySignature env (Some cert) (Some doc) = Inr ()" .
  have "responsible_domain fl prin domain" using 1(2) v(5) by (simp add: responsible_domain_def)
  moreover have "iss' = iss" using 1(3) 2(1) by simp
  moreover have "valid_at (unat (Skew context)) t (Payload jwt)" using v(4) by (simp add: BIDValidateExpiry_valid)
  ultimately show ?thesis using v(1-3) s 1(1,3,4) 2(2,4,5) by blast
qed

theorem verify_local_sound_witness:
  "\<exists>ba i heap' jwt cert. BIDVerifyLocal verify_env 5 rp_ctx (Some 0) ba None None None 5 0 None None sample_heap =
       (Inr i, BID_VERIFY_FLAG_VALIDATED_CERTS, heap') \<and> Assertion ba = Some jwt \<and> rCertificates ba = [cert] \<and>
     BIDVerifySignature verify_env (Some jwt) (Payload cert) = Inr ()"
proof -
  from sample_backed obtain ba i where c: "rCertificates ba \<noteq> []"
    and v: "BIDVerifyLocal verify_env 5 rp_ctx (Some 0) ba None None None 5 0 None None sample_heap =
      (Inr i, BID_VERIFY_FLAG_VALIDATED_CERTS, sample_heap)" by metis
  from verify_local_sound[OF v c] v show ?thesis by blast
qed



lemma sample_update_verify:
  assumes "json_object_get (Some (Attributes i)) ''exp'' = Some (JInteger 9000)"
  shows "\<exists>heap'. BIDUpdateReplayCache verify_env 5 rp_ctx (Some 0) i s 5 BID_VERIFY_FLAG_VALIDATED_CERTS sample_heap = (Inr (), i, heap')"
    "replay_expiry rp_ctx i 5 BID_VERIFY_FLAG_VALIDATED_CERTS = 9"
proof -
  have s: "\<not> store_reauth_creds rp_ctx i 5 BID_VERIFY_FLAG_VALIDATED_CERTS" by (simp add: store_reauth_creds_def)
  show "replay_expiry rp_ctx i 5 BID_VERIFY_FLAG_VALIDATED_CERTS = 9"
    using assms s by (simp add: replay_expiry_def BIDGetJsonTimestampValue_def timestamp_or_zero_def signed_divide_int_def)
  obtain key where k: "BIDDigestAssertion verify_env s = Inr (JString key)"
    by (simp add: BIDDigestAssertion_def BIDMakeDigest_def BIDMakeDigestInternal_def BIDEvpForAlgorithmName_def
      BIDAllocJsonObject_def BIDBase64UrlEncode_text BIDJsonObjectSetBinaryValue_def BIDJsonBinaryValue_def)
  from sample_heap_holds obtain mc where "memory_cache_at sample_heap 0 mc" "mc_writable mc" by fastforce
  note set = mcache.set_object[unfolded memory_cache_holds, OF this, of 5 key]
  obtain j where "replay_entry verify_env rp_ctx i 5 BID_VERIFY_FLAG_VALIDATED_CERTS sample_heap = (Inr j, i)"
    using s assms by (cases "json_object_get (Some (PrivateAttributes i)) ''a-exp''")
      (simp_all add: replay_entry_def BIDAllocJsonObject_def BIDSetJsonTimestampValue_def BIDJsonObjectSet_none)
  then show "\<exists>heap'. BIDUpdateReplayCache verify_env 5 rp_ctx (Some 0) i s 5 BID_VERIFY_FLAG_VALIDATED_CERTS sample_heap = (Inr (), i, heap')"
    using k set[of j] s by (auto simp: BIDUpdateReplayCache_def)
qed

lemma sample_check_verify: "BIDCheckReplayCache verify_env rp_ctx (Some 0) s 5 sample_heap = Inr ()"
proof -
  obtain key where k: "BIDDigestAssertion verify_env s = Inr (JString key)"
    by (simp add: BIDDigestAssertion_def BIDMakeDigest_def BIDMakeDigestInternal_def BIDEvpForAlgorithmName_def
      BIDAllocJsonObject_def BIDBase64UrlEncode_text BIDJsonObjectSetBinaryValue_def BIDJsonBinaryValue_def)
  from sample_heap_holds obtain mc where "memory_cache_at sample_heap 0 mc" "mc_entries mc = []" by fastforce
  with mcache.check_replay[unfolded memory_cache_holds, OF this(1) k] show ?thesis by simp
qed


text \<open>C19: the key that signs an assertion with an X.509 chain is not bound to the chain.  Whoever
  knows a chain that validates can choose any secret, put it into the header next to the chain,
  and sign with it: the response of a relying party is accepted as that of the certified host.\<close>

theorem x509_header_key_forgery:
  assumes "Assertion ba = Some jwt" "rCertificates ba = []" "Header jwt = Some h"
    and "json_object_get (Some h) ''x5c'' = Some x5c" "BIDValidateX509 env context heap (Some x5c) anchors = Inr ()"
    and "json_object_get (Some h) ''keys'' = None" "json_object_get (Some h) ''public-key'' = None"
    and "json_object_get (Some h) ''alg'' = Some (JString ''HS256'')"
    and "json_object_get (Some h) ''secret-key'' = Some (JString (b64_text True k))"
    and "Signature jwt = HMAC env EVP_sha256 k (jwt_data jwt)" "Signature jwt \<noteq> []"
    and "BIDValidateAudience context ba aud cb = Inr ()" "valid_at (unat (Skew context)) t (Payload jwt)"
    and "BIDPopulateIdentity env context ba (BID_VERIFY_FLAG_RP OR BID_VERIFY_FLAG_X509 OR BID_VERIFY_FLAG_VALIDATED_CERTS) = Inr i"
    and "BIDValidateSubject context i subj BID_VERIFY_FLAG_RP = Inr ()"
  shows "BIDVerifyLocal env now context rc ba aud subj cb t BID_VERIFY_FLAG_RP cred anchors heap =
    (Inr i, BID_VERIFY_FLAG_RP OR BID_VERIFY_FLAG_X509 OR BID_VERIFY_FLAG_VALIDATED_CERTS, heap)"
proof -
  have [simp]: "\<not> flag_set BID_VERIFY_FLAG_RP BID_VERIFY_FLAG_REAUTH" "flag_set BID_VERIFY_FLAG_RP BID_VERIFY_FLAG_RP"
    "flag_set (BID_VERIFY_FLAG_RP OR BID_VERIFY_FLAG_X509 OR BID_VERIFY_FLAG_VALIDATED_CERTS) BID_VERIFY_FLAG_VALIDATED_CERTS"
    by (simp_all add: flag_set_def)
  have v: "BIDVerifySignature env (Some jwt) (Some h) = Inr ()"
    by (rule hmac_header_key[OF assms(6,7,9)]) (use assms(3,8,10,11) in simp_all)
  have e: "BIDValidateExpiry context t (Payload jwt) = Inr ()" using assms(13) by (simp add: BIDValidateExpiry_valid)
  have lc: "local_credential env context rc ba jwt t BID_VERIFY_FLAG_RP cred anchors BID_VERIFY_FLAG_RP heap =
      (Inr (None, Some h), BID_VERIFY_FLAG_RP OR BID_VERIFY_FLAG_X509 OR BID_VERIFY_FLAG_VALIDATED_CERTS)"
    using assms(2-5) by (simp add: local_credential_def)
  have lf: "local_finish env context ba jwt None subj BID_VERIFY_FLAG_RP (Some h)
      (BID_VERIFY_FLAG_RP OR BID_VERIFY_FLAG_X509 OR BID_VERIFY_FLAG_VALIDATED_CERTS) =
      (Inr i, BID_VERIFY_FLAG_RP OR BID_VERIFY_FLAG_X509 OR BID_VERIFY_FLAG_VALIDATED_CERTS)"
    using v assms(14,15) by (simp add: local_finish_def)
  show ?thesis using assms(1,2,12) e lc lf by (simp add: BIDVerifyLocal_def guard_def or_flag_def)
qed

definition x509_env :: bid_env where
  "x509_env = verify_env\<lparr>
     d2i_X509 := (\<lambda>_. Some \<lparr>X509_get_pubkey = None, X509_subject_alt_name = None,
       X509_get_subject_name = \<lparr>name_CN = Some ''h.org'', name_DN = None\<rparr>,
       X509_get_issuer_name = \<lparr>name_CN = None, name_DN = Some ''CN=ca''\<rparr>,
       X509_get_notBefore = ''130101000000Z'', X509_get_notAfter = ''140101000000Z'', X509_ext_key_usage = None\<rparr>),
     X509_verify := (\<lambda>_ _ _ _. Some True)\<rparr>"

definition forged :: BIDJWTDesc where
  "forged = \<lparr>EncData = Some ''aa.bb'', EncDataLength = 5,
     Header = Some (JObject [(''alg'', JString ''HS256''), (''x5c'', JArray [JString (b64_text True [1, 2, 3])]),
                             (''secret-key'', JString (b64_text True [7]))]),
     Payload = Some sample_assertion, Signature = [7, of_char CHR ''a'']\<rparr>"

theorem x509_header_key_forgery_witness:
  "\<exists>i. BIDVerifyLocal x509_env 5 rp_ctx (Some 0) \<lparr>ba_EncData = ''~aa.bb.cc'', Assertion = Some forged, rCertificates = []\<rparr>
     None (Some ''https://h.org'') None 5 BID_VERIFY_FLAG_RP None None sample_heap =
     (Inr i, BID_VERIFY_FLAG_RP OR BID_VERIFY_FLAG_X509 OR BID_VERIFY_FLAG_VALIDATED_CERTS, sample_heap) \<and>
   BIDGetIdentitySubject i = Inr ''h.org''"
proof -
  let ?ba = "\<lparr>ba_EncData = ''~aa.bb.cc'', Assertion = Some forged, rCertificates = []\<rparr>"
  let ?fl = "BID_VERIFY_FLAG_RP OR BID_VERIFY_FLAG_X509 OR BID_VERIFY_FLAG_VALIDATED_CERTS"
  have val: "BIDValidateX509 x509_env rp_ctx sample_heap (Some (JArray [JString (b64_text True [1, 2, 3])])) None = Inr ()"
    by (simp add: BIDValidateX509_def BIDValidateX509CertChain_def BIDCertDataToX509_def guard_def rp_ctx_def new_context_def
        BIDGetCacheObject_def deref_cache_def x509_env_def BIDAllocJsonObject_def)
  have scan: "scan_ints [2, 2, 2, 2, 2, 2] ''130101000000Z'' = Some ([13, 1, 1, 0, 0, 0], ''Z'')"
    "scan_ints [2, 2, 2, 2, 2, 2] ''140101000000Z'' = Some ([14, 1, 1, 0, 0, 0], ''Z'')" by code_simp+
  have times: "BIDSetJsonX509Time (JObject ms) k ''130101000000Z'' = Inr (JObject (AList.update k (JInteger 1356998400000) ms))"
    "BIDSetJsonX509Time (JObject ms) k ''140101000000Z'' = Inr (JObject (AList.update k (JInteger 1388534400000) ms))" for ms k
    by (simp_all add: BIDSetJsonX509Time_def scan timegm_def month_start_def BIDSetJsonTimestampValue_def Let_def
        del: scan_ints.simps)
  have "\<exists>a. BIDPopulateX509Identity x509_env (Header forged) (JObject []) ?fl = Inr a \<and>
      json_object_get (Some a) ''sub'' = Some (JString ''h.org'') \<and> json_object_get (Some a) ''principal'' = Some (JObject []) \<and>
      json_object_get (Some a) ''eku'' = None"
    by (simp add: BIDPopulateX509Identity_def forged_def BIDCertDataToX509_def x509_env_def BIDAllocJsonObject_def BIDSetJsonX509Name_def
        BIDSetJsonX509CommonName_def BIDSetJsonX509DN_def guard_def times BIDGetCertEKUs_def BIDJsonObjectSet_none flag_set_def)
  then obtain a where a: "BIDPopulateX509Identity x509_env (Header forged) (JObject []) ?fl = Inr a"
      "json_object_get (Some a) ''sub'' = Some (JString ''h.org'')" "json_object_get (Some a) ''principal'' = Some (JObject [])"
      "json_object_get (Some a) ''eku'' = None" by blast
  let ?i = "\<lparr>Attributes = a, PrivateAttributes = JObject [], SecretHandle = None\<rparr>"
  have pop: "BIDPopulateIdentity x509_env rp_ctx ?ba ?fl = Inr ?i"
    using a(1) by (simp add: BIDPopulateIdentity_def BIDLeafCert_def BIDAllocIdentity_def BIDAllocJsonObject_def flag_set_def)
  have sub: "BIDValidateSubject rp_ctx ?i (Some ''https://h.org'') BID_VERIFY_FLAG_RP = Inr ()"
    using a(2-4) by (simp add: BIDValidateSubject_def subject_host_def flag_set_def rp_ctx_def new_context_def BIDOtherNameEqualP_def
        guard_def BIDSubjectEqualP_def BIDSubjectCompare_def BIDValidateEKUs_def has_prefix_def strcaseeq_def)
  have t: "valid_at (unat (Skew rp_ctx)) 5 (Payload forged)"
    by (simp add: forged_def valid_at_def sample_assertion_def BIDGetJsonTimestampValue_def signed_divide_int_def)
  have mac: "Signature forged = HMAC x509_env EVP_sha256 [7] (jwt_data forged)"
    by (simp add: forged_def x509_env_def jwt_data_def bytes_of_string_def)
  have aud: "BIDValidateAudience rp_ctx ?ba None None = Inr ()" by (simp add: BIDValidateAudience_def forged_def)
  have "BIDVerifyLocal x509_env 5 rp_ctx (Some 0) ?ba None (Some ''https://h.org'') None 5 BID_VERIFY_FLAG_RP None None sample_heap =
      (Inr ?i, ?fl, sample_heap)"
    by (rule x509_header_key_forgery[OF _ _ _ _ val _ _ _ _ mac _ aud t pop sub]) (simp_all add: forged_def)+
  then show ?thesis using a(2) by (auto simp: BIDGetIdentitySubject_def BIDGetIdentityAttribute_def)
qed

end
