(* ===== verification/Rp.thy ===== *)
theory Rp
  imports Verify
begin

text \<open>
  The messages that follow an assertion: the response of the relying party
  (\<^verbatim>\<open>libbrowserid/bid_rp.c\<close>) and the token of an extra round trip (\<^verbatim>\<open>libbrowserid/bid_xrt.c\<close>).
  An operation that changes an identity returns it, also when it fails.
\<close>

section \<open>Flags\<close>

abbreviation BID_RP_FLAG_HAVE_SESSION_KEY :: u32 where "BID_RP_FLAG_HAVE_SESSION_KEY \<equiv> 0x00000001"
abbreviation BID_RP_FLAG_INITIAL :: u32 where "BID_RP_FLAG_INITIAL \<equiv> 0x00000002"
abbreviation BID_RP_FLAG_FORCE_EXTRA_ROUND_TRIP :: u32 where "BID_RP_FLAG_FORCE_EXTRA_ROUND_TRIP \<equiv> 0x00000010"
abbreviation BID_RP_FLAG_VALIDATED_CERTS :: u32 where "BID_RP_FLAG_VALIDATED_CERTS \<equiv> 0x00020000"
abbreviation BID_RP_FLAG_X509 :: u32 where "BID_RP_FLAG_X509 \<equiv> 0x00040000"
abbreviation BID_RP_FLAG_EXTRA_ROUND_TRIP :: u32 where "BID_RP_FLAG_EXTRA_ROUND_TRIP \<equiv> 0x00080000"

section \<open>The response of a relying party\<close>

text \<open>The token a message is packed from.\<close>

definition bare_token :: "json \<Rightarrow> BIDBackedAssertionDesc" where
  "bare_token payload =
     \<lparr>ba_EncData = [], Assertion = Some \<lparr>EncData = None, EncDataLength = 0, Header = None, Payload = Some payload, Signature = []\<rparr>,
      rCertificates = []\<rparr>"

text \<open>With a session key: the public value for a first response, and the ticket if there is one.\<close>

definition rp_session_claims :: "BIDIdentityDesc \<Rightarrow> bool \<Rightarrow> json \<Rightarrow> BIDError + json" where
  "rp_session_claims identity initial payload =
     bail (if initial then bail (BIDGetKeyAgreementPublicValue identity) (\<lambda>dh. BIDSetKeyAgreementObject payload (Some dh))
           else Inr payload) (\<lambda>payload.
     case BIDGetIdentityReauthTicket identity of
       Inr ticket \<Rightarrow> BIDJsonObjectSet payload ''tkt'' (Some ticket) BID_JSON_FLAG_CONSUME_REF
     | Inl _ \<Rightarrow> Inr payload)"

text \<open>The options of the request, and whether there are private attributes at all.\<close>

definition has_private :: "BIDIdentityDesc \<Rightarrow> bool" where
  "has_private identity \<longleftrightarrow> json_object_members (Some (PrivateAttributes identity)) \<noteq> []"

definition rp_proto_opts :: "BIDIdentityDesc option \<Rightarrow> BIDError + u32" where
  "rp_proto_opts identity =
     (case identity of
        Some i \<Rightarrow> if has_private i then BIDParseProtocolOpts (json_object_get (Some (PrivateAttributes i)) ''opts'') 0 else Inr 0
      | None \<Rightarrow> Inr 0)"

text \<open>The certified key, whether it and its chain could be loaded, and the chain.  A key that was
  loaded stays when the chain cannot be.\<close>

definition rp_private_key ::
  "'x crypto_env_scheme \<Rightarrow> BIDContextDesc \<Rightarrow> 'd cache_heap \<Rightarrow> bool \<times> json option \<times> json option" where
  "rp_private_key env context heap =
     (case BIDGetRPPrivateKey env context heap True True of
        Inr (key, certChain) \<Rightarrow> (True, key, certChain)
      | Inl _ \<Rightarrow> (False, case BIDGetRPPrivateKey env context heap True False of Inr (key, _) \<Rightarrow> key | Inl _ \<Rightarrow> None, None))"

text \<open>The identifier of an extra round trip and, with a certificate, the nonce of the request.\<close>

definition rp_nonces ::
  "'x crypto_env_scheme \<Rightarrow> BIDIdentityDesc \<Rightarrow> bool \<Rightarrow> bool \<Rightarrow> json \<Rightarrow> (BIDError + json) \<times> BIDIdentityDesc" where
  "rp_nonces env identity xrt x509 payload =
     (if \<not> has_private identity then (Inr payload, identity)
      else
        bailS (if xrt
               then case bail (BIDGenerateNonce env) (\<lambda>jti.
                         bail (BIDJsonObjectSet payload ''jti'' (Some jti) 0) (\<lambda>payload.
                         bail (BIDJsonObjectSet (PrivateAttributes identity) ''jti'' (Some jti) 0) (\<lambda>p. Inr (payload, p)))) of
                      Inl e \<Rightarrow> (Inl e, identity)
                    | Inr (payload, p) \<Rightarrow> (Inr payload, identity\<lparr>PrivateAttributes := p\<rparr>)
               else (Inr payload, identity)) (\<lambda>payload identity.
        if x509
        then (case BIDJsonObjectSet payload ''nonce'' (json_object_get (Some (PrivateAttributes identity)) ''nonce'')
                     BID_JSON_FLAG_REQUIRED of
                Inl e \<Rightarrow> Inl (if e = BID_S_UNKNOWN_JSON_KEY then BID_S_MISSING_NONCE else e)
              | Inr payload \<Rightarrow> Inr payload, identity)
        else (Inr payload, identity)))"

definition BIDMakeRPResponseToken ::
  "'x crypto_env_scheme \<Rightarrow> BIDContextDesc \<Rightarrow> BIDIdentityDesc option \<Rightarrow> json option \<Rightarrow> u32 \<Rightarrow> 'd cache_heap \<Rightarrow>
    (BIDError + string) \<times> u32 \<times> BIDIdentityDesc option" where
  "BIDMakeRPResponseToken env context identity additionalClaims ulReqFlags heap =
     (let payload = (case additionalClaims of None \<Rightarrow> BIDAllocJsonObject | Some c \<Rightarrow> c);
          haveKey = flag_set ulReqFlags BID_RP_FLAG_HAVE_SESSION_KEY; initial = flag_set ulReqFlags BID_RP_FLAG_INITIAL in
      case bail (if haveKey
                 then bail (some_or identity BID_UNDEFINED) (\<lambda>i. rp_session_claims i initial payload)
                 else Inr payload) (\<lambda>payload.
           bail (rp_proto_opts identity) (\<lambda>ulProtoOpts. Inr (payload, ulProtoOpts))) of
        Inl e \<Rightarrow> (Inl e, 0, identity)
      | Inr (payload, ulProtoOpts) \<Rightarrow>
          let (x509, key, certChain) = (if initial \<and> flag_set ulProtoOpts BID_VERIFY_FLAG_MUTUAL_AUTH
                                        then rp_private_key env context heap else (False, None, None));
              fl = or_flag x509 BID_RP_FLAG_X509 0
          in case (if \<not> x509 \<and> haveKey
                   then case identity of
                          None \<Rightarrow> (Inl BID_UNDEFINED, None)
                        | Some i \<Rightarrow> let (r, i) = BIDDeriveSessionSubkey env context i ''RRK''
                                   in (bail r (\<lambda>key. Inr (Some key)), Some i)
                   else (Inr key, identity)) of
               (Inl e, identity) \<Rightarrow> (Inl e, fl, identity)
             | (Inr key, identity) \<Rightarrow>
                 (case (case identity of
                          None \<Rightarrow> (Inr payload, None)
                        | Some i \<Rightarrow> let (r, i) = rp_nonces env i (flag_set ulReqFlags BID_RP_FLAG_FORCE_EXTRA_ROUND_TRIP \<or>
                                            flag_set ulProtoOpts BID_VERIFY_FLAG_EXTRA_ROUND_TRIP) x509 payload
                                   in (r, Some i)) of
                    (Inl e, identity) \<Rightarrow> (Inl e, fl, identity)
                  | (Inr payload, identity) \<Rightarrow>
                      (bail (BIDPackBackedAssertion env (bare_token payload) key certChain) (\<lambda>(s, _). Inr s), fl, identity)))"

text \<open>What is checked after the response itself was verified: it is not an assertion, and with a
  certificate it answers this request and starts a session.  The flags are returned on failure too.\<close>

definition rp_response_checks ::
  "BIDIdentityDesc \<Rightarrow> json option \<Rightarrow> u32 \<Rightarrow> u32 \<Rightarrow> (BIDError + BIDIdentityDesc) \<times> u32" where
  "rp_response_checks identity payload ulReqFlags ulVerifyRetFlags =
     (if json_object_get payload ''aud'' \<noteq> None then (Inl BID_S_REFLECTED_RP_RESPONSE, 0)
      else
        let validated = flag_set ulVerifyRetFlags BID_VERIFY_FLAG_VALIDATED_CERTS;
            fl = or_flag (flag_set ulVerifyRetFlags BID_VERIFY_FLAG_X509) BID_RP_FLAG_X509
                   (or_flag validated BID_RP_FLAG_VALIDATED_CERTS 0);
            storedNonce = json_object_get (Some (PrivateAttributes identity)) ''nonce'';
            assertedNonce = json_object_get payload ''nonce'' in
        bailS (bail (guard (validated \<and> assertedNonce = None) BID_S_MISSING_NONCE) (\<lambda>_.
               bail (guard (validated \<and> \<not> json_equal storedNonce assertedNonce) BID_S_MISMATCHED_RP_RESPONSE) (\<lambda>_.
               guard (validated \<and> \<not> flag_set ulReqFlags BID_RP_FLAG_INITIAL) BID_S_MISMATCHED_RP_RESPONSE)), fl) (\<lambda>_ fl.
        case json_object_get payload ''jti'' of
          None \<Rightarrow> (Inr identity, fl)
        | Some jti \<Rightarrow>
            bailS (BIDJsonObjectSet (PrivateAttributes identity) ''jti'' (Some jti) 0, fl) (\<lambda>p fl.
              (Inr (identity\<lparr>PrivateAttributes := p\<rparr>), fl OR BID_RP_FLAG_EXTRA_ROUND_TRIP))))"

text \<open>The key the response should be signed with, after a public value in it was taken over.\<close>

definition rp_verify_cred ::
  "'x crypto_env_scheme \<Rightarrow> BIDContextDesc \<Rightarrow> BIDIdentityDesc \<Rightarrow> json option \<Rightarrow> u32 \<Rightarrow> (BIDError + json option) \<times> BIDIdentityDesc" where
  "rp_verify_cred env context identity payload ulReqFlags =
     bailS (case BIDGetKeyAgreementObject payload of
              Inr dh \<Rightarrow> BIDSetKeyAgreementPublicValue identity (Some dh)
            | Inl _ \<Rightarrow> (Inr (), identity)) (\<lambda>_ identity.
     if flag_set ulReqFlags BID_RP_FLAG_HAVE_SESSION_KEY
     then bailS (BIDDeriveSessionSubkey env context identity ''RRK'') (\<lambda>key identity. (Inr (Some key), identity))
     else (Inr None, identity))"

definition BIDVerifyRPResponseToken ::
  "'x bid_env_scheme \<Rightarrow> int \<Rightarrow> BIDContextDesc \<Rightarrow> BIDIdentityDesc \<Rightarrow> string option \<Rightarrow> string option \<Rightarrow> u32 \<Rightarrow> 'd cache_heap \<Rightarrow>
    (BIDError + unit) \<times> json option \<times> u32 \<times> BIDIdentityDesc \<times> 'd cache_heap" where
  "BIDVerifyRPResponseToken env now context identity szAssertion szAudienceName ulReqFlags heap =
     (case BIDUnpackBackedAssertion env szAssertion of
        Inl e \<Rightarrow> (Inl e, None, 0, identity, heap)
      | Inr backedAssertion \<Rightarrow>
          let payload = (case Assertion backedAssertion of None \<Rightarrow> None | Some jwt \<Rightarrow> Payload jwt) in
          case rp_verify_cred env context identity payload ulReqFlags of
            (Inl e, identity) \<Rightarrow> (Inl e, payload, 0, identity, heap)
          | (Inr verifyCred, identity) \<Rightarrow>
              (case BIDVerifyLocal env now context None backedAssertion None szAudienceName None now BID_VERIFY_FLAG_RP
                      verifyCred (json_object_get (Some (PrivateAttributes identity)) ''anchors'') heap of
                 (Inl e, _, heap) \<Rightarrow> (Inl e, payload, 0, identity, heap)
               | (Inr _, ulVerifyRetFlags, heap) \<Rightarrow>
                   (case rp_response_checks identity payload ulReqFlags ulVerifyRetFlags of
                      (Inl e, fl) \<Rightarrow> (Inl e, payload, fl, identity, heap)
                    | (Inr identity, fl) \<Rightarrow> (Inr (), payload, fl, identity, heap))))"

section \<open>The extra round trip\<close>

text \<open>The key of the round trip from a secret and the identifier; it also is the new secret.\<close>

definition xrt_key ::
  "'x crypto_env_scheme \<Rightarrow> BIDSecretHandleDesc option \<Rightarrow> byte list \<Rightarrow> BIDError + json \<times> BIDSecretHandleDesc" where
  "xrt_key env secretHandle pbSalt =
     bail (BIDDeriveKey env secretHandle (Some pbSalt)) (\<lambda>pbXRTK.
     bail (BIDImportSecretKeyData pbXRTK) (\<lambda>newCMK.
     bail (BIDJsonBinaryValue pbXRTK) (\<lambda>sk.
     bail (BIDJsonObjectSet BIDAllocJsonObject ''secret-key'' (Some sk) 0) (\<lambda>signKey. Inr (signKey, newCMK)))))"

definition BIDDeriveXRTKey ::
  "'x crypto_env_scheme \<Rightarrow> BIDContextDesc \<Rightarrow> BIDIdentityDesc \<Rightarrow> (BIDError + json) \<times> BIDIdentityDesc" where
  "BIDDeriveXRTKey env context identity =
     bailS (BIDGetJsonBinaryValue (Some (PrivateAttributes identity)) ''jti'', identity) (\<lambda>pbSalt identity.
     bailS (BIDIdentitySecretAgreement env context identity) (\<lambda>_ identity.
     bailS (xrt_key env (SecretHandle identity) pbSalt, identity) (\<lambda>(signKey, newCMK) identity.
       (Inr signKey, identity\<lparr>SecretHandle := Some newCMK\<rparr>))))"

definition BIDMakeXRTToken ::
  "'x crypto_env_scheme \<Rightarrow> BIDContextDesc \<Rightarrow> BIDIdentityDesc \<Rightarrow> json option \<Rightarrow> (BIDError + string) \<times> BIDIdentityDesc" where
  "BIDMakeXRTToken env context identity additionalClaims =
     bailS (BIDDeriveXRTKey env context identity) (\<lambda>key identity.
       (bail (BIDPackBackedAssertion env (bare_token (case additionalClaims of None \<Rightarrow> BIDAllocJsonObject | Some c \<Rightarrow> c))
                (Some key) None) (\<lambda>(s, _). Inr s), identity))"

definition BIDVerifyXRTToken ::
  "'x crypto_env_scheme \<Rightarrow> BIDContextDesc \<Rightarrow> BIDIdentityDesc \<Rightarrow> string option \<Rightarrow>
    (BIDError + unit) \<times> json option \<times> BIDIdentityDesc" where
  "BIDVerifyXRTToken env context identity szAssertion =
     (case BIDUnpackBackedAssertion env szAssertion of
        Inl e \<Rightarrow> (Inl e, None, identity)
      | Inr backedAssertion \<Rightarrow>
          let (r, identity) =
            bailS (guard (rCertificates backedAssertion \<noteq> []) BID_S_TOO_MANY_CERTS, identity) (\<lambda>_ identity.
            bailS (BIDDeriveXRTKey env context identity) (\<lambda>verifyCred identity.
              (BIDVerifySignature env (Assertion backedAssertion) (Some verifyCred), identity)))
          in (r, case Assertion backedAssertion of None \<Rightarrow> None | Some jwt \<Rightarrow> Payload jwt, identity))"

section \<open>Lemmas\<close>

text \<open>Keys that are derived from the secret of an identity.\<close>

lemma session_subkey_hmac:
  assumes "BIDDeriveSessionSubkey env context i salt = (Inr key, i')"
  obtains secret where "SecretHandle i' = Some (SecretHandleDesc (Some secret))"
    "key = hmac_jwk (HMAC env EVP_sha256 secret (BIDSalt @ secret @ bytes_of_string salt @ [1]))"
proof -
  from assms obtain h secret sk where "SecretHandle i' = Some h" "pbSecret h = Some secret"
    "BIDBase64UrlEncode (HMAC env EVP_sha256 secret (BIDSalt @ secret @ bytes_of_string salt @ [1])) = Inr sk"
    "key = JObject [(''secret-key'', JString sk)]"
    by (auto simp: BIDDeriveSessionSubkey_def BIDDeriveKey_def BIDJsonBinaryValue_def BIDAllocJsonObject_def bid_result)
  then show ?thesis by (cases h) (auto intro!: that simp: hmac_jwk_def dest!: BIDBase64UrlEncode_Inr)
qed

lemma xrt_key_hmac:
  assumes "BIDDeriveXRTKey env context i = (Inr key, i')"
  obtains k where "SecretHandle i' = Some (SecretHandleDesc (Some k))" "key = hmac_jwk k"
  using assms by (auto simp: BIDDeriveXRTKey_def xrt_key_def BIDJsonBinaryValue_def BIDAllocJsonObject_def BIDImportSecretKeyData_def
      BIDAllocSecret_def bid_result hmac_jwk_def intro!: that dest!: BIDBase64UrlEncode_Inr)

text \<open>With a secret of its own an identity derives keys that depend on nothing else.\<close>

lemma session_subkey_shared:
  assumes "BIDDeriveSessionSubkey env context i salt = (Inr key, i')" "SecretHandle i \<noteq> None" "SecretHandle j = SecretHandle i"
  shows "BIDDeriveSessionSubkey env context' j salt = (Inr key, j)" "i' = i"
  using assms by (auto simp: BIDDeriveSessionSubkey_def BIDIdentitySecretAgreement_def)

lemma xrt_key_shared:
  assumes "BIDDeriveXRTKey env context i = (Inr key, i')" "SecretHandle i \<noteq> None" "SecretHandle j = SecretHandle i"
    and "json_object_get (Some (PrivateAttributes j)) ''jti'' = json_object_get (Some (PrivateAttributes i)) ''jti''"
  shows "BIDDeriveXRTKey env context' j = (Inr key, j\<lparr>SecretHandle := SecretHandle i'\<rparr>)"
proof -
  have "BIDGetJsonBinaryValue (Some (PrivateAttributes j)) ''jti'' = BIDGetJsonBinaryValue (Some (PrivateAttributes i)) ''jti''"
    using assms(4) by (simp add: BIDGetJsonBinaryValue_def BIDGetJsonStringValue_def)
  then show ?thesis using assms(1-3) by (auto simp: BIDDeriveXRTKey_def BIDIdentitySecretAgreement_def bid_result)
qed

text \<open>A message packed under a symmetric key is unpacked and verified under it.\<close>

lemma packed_message:
  assumes "json_library env" "\<And>m. HMAC env EVP_sha256 k m \<noteq> []"
    and "BIDPackBackedAssertion env (bare_token p) (Some (hmac_jwk k)) None = Inr (s, a)"
  obtains jwt where "BIDUnpackBackedAssertion env (Some s) = Inr \<lparr>ba_EncData = s, Assertion = Some jwt, rCertificates = []\<rparr>"
    "Payload jwt = Some p" "json_object_get (Header jwt) ''x5c'' = None" "BIDVerifySignature env (Some jwt) (Some (hmac_jwk k)) = Inr ()"
proof -
  let ?jwt = "\<lparr>EncData = None, EncDataLength = 0, Header = None, Payload = Some p, Signature = []\<rparr>"
  have hd: "Header ?jwt = None \<or> BIDValidateJWTHeader (Header ?jwt) = Inr ()" by simp
  from pack_unpack_bare[OF assms(1) assms(3)[unfolded bare_token_def] hd] obtain t jwt' where
    mk: "BIDMakeSignature env ?jwt (Some (hmac_jwk k)) None = Inr (t, jwt')" and "s = ''~'' @ t"
    and un: "BIDUnpackBackedAssertion env (Some s) =
      Inr \<lparr>ba_EncData = s, Assertion = Some (jwt'\<lparr>EncData := Some t\<rparr>), rCertificates = []\<rparr>"
    and ps: "BIDParseJWT env t = Inr (Some (jwt'\<lparr>EncData := Some t\<rparr>))" .
  note made = parse_made[OF assms(1) mk hd]
  from hmac_sign_verify[OF assms(1) mk hd assms(2)] made(1)
  have v: "BIDVerifySignature env (Some (jwt'\<lparr>EncData := Some t\<rparr>)) (Some (hmac_jwk k)) = Inr ()" by auto
  from mk have "json_object_get (Header jwt') ''x5c'' = None"
    by (simp only: BIDMakeSignature_def bid_result) (auto simp: BIDMakeSignatureData_def BIDAllocJsonObject_def bid_result)
  then show ?thesis using made(2) by (intro that[OF un _ _ v]) simp_all
qed

lemma valid_at_cong:
  assumes "\<And>k. k \<in> {''iat'', ''nbf'', ''exp''} \<Longrightarrow> json_object_get (Some p) k = json_object_get (Some q) k"
  shows "valid_at skew t (Some p) \<longleftrightarrow> valid_at skew t (Some q)"
proof -
  have eq: "BIDGetJsonTimestampValue (Some p) k = BIDGetJsonTimestampValue (Some q) k" if "k \<in> {''iat'', ''nbf'', ''exp''}" for k
    using assms[OF that] by (simp add: BIDGetJsonTimestampValue_def)
  have "BIDGetJsonTimestampValue (Some p) ''iat'' = BIDGetJsonTimestampValue (Some q) ''iat''"
    "BIDGetJsonTimestampValue (Some p) ''nbf'' = BIDGetJsonTimestampValue (Some q) ''nbf''"
    "BIDGetJsonTimestampValue (Some p) ''exp'' = BIDGetJsonTimestampValue (Some q) ''exp''" by (rule eq, simp)+
  then show ?thesis unfolding valid_at_def by (simp only:)
qed

text \<open>A response that is signed with the session key is verified without certificates.\<close>

lemma verify_local_session:
  assumes "Assertion ba = Some jwt" "rCertificates ba = []" "Payload jwt = Some p" "json_object_get (Header jwt) ''x5c'' = None"
    and "BIDVerifySignature env (Some jwt) cred = Inr ()" "valid_at (unat (Skew context)) t (Some p)"
  shows "\<exists>i. BIDVerifyLocal env now context rc ba None subj None t BID_VERIFY_FLAG_RP cred anchors heap =
    (Inr i, BID_VERIFY_FLAG_RP, heap)"
proof -
  have [simp]: "\<not> flag_set BID_VERIFY_FLAG_RP BID_VERIFY_FLAG_REAUTH" "flag_set BID_VERIFY_FLAG_RP BID_VERIFY_FLAG_RP"
    "\<not> flag_set BID_VERIFY_FLAG_RP BID_VERIFY_FLAG_VALIDATED_CERTS" "\<not> flag_set BID_VERIFY_FLAG_RP BID_VERIFY_FLAG_X509"
    by (simp_all add: flag_set_def)
  have aud: "BIDValidateAudience context ba None None = Inr ()" using assms(1,3) by (simp add: BIDValidateAudience_def)
  have lc: "local_credential env context rc ba jwt t BID_VERIFY_FLAG_RP cred anchors BID_VERIFY_FLAG_RP heap =
      (Inr (None, cred), BID_VERIFY_FLAG_RP)"
    using assms(2,4) by (simp add: local_credential_def)
  have lf: "\<exists>i. local_finish env context ba jwt None subj BID_VERIFY_FLAG_RP cred BID_VERIFY_FLAG_RP = (Inr i, BID_VERIFY_FLAG_RP)"
    using assms(1,2,5) by (simp add: local_finish_def BIDPopulateIdentity_def)
  have "BIDValidateExpiry context t (Payload jwt) = Inr ()" using assms(3,6) by (simp add: BIDValidateExpiry_valid)
  then show ?thesis using assms(1-2) aud lc lf by (auto simp: BIDVerifyLocal_def guard_def or_flag_def)
qed

text \<open>The claims of a response: those of the caller, except for the members of the protocol.\<close>

lemma rp_session_claims_get:
  assumes "rp_session_claims i initial claims = Inr p" "key \<notin> {''epk'', ''tkt''}"
  shows "json_object_get (Some p) key = json_object_get (Some claims) key"
  using assms by (cases "BIDGetIdentityReauthTicket i"; cases initial)
    (auto simp: rp_session_claims_def BIDSetKeyAgreementObject_def bid_result BIDJsonObjectSet_get)

lemma rp_session_claims_epk:
  assumes "rp_session_claims i initial claims = Inr p"
  shows "if initial then \<exists>dh. BIDGetKeyAgreementPublicValue i = Inr dh \<and> json_object_get (Some p) ''epk'' = Some dh
    else json_object_get (Some p) ''epk'' = json_object_get (Some claims) ''epk''"
  using assms by (cases "BIDGetIdentityReauthTicket i"; cases initial)
    (auto simp: rp_session_claims_def BIDSetKeyAgreementObject_def bid_result BIDJsonObjectSet_get)

lemma rp_session_claims_tkt:
  assumes "rp_session_claims i initial claims = Inr p" "json_object_get (Some (PrivateAttributes i)) ''tkt'' = Some tkt"
  shows "json_object_get (Some p) ''tkt'' = Some tkt"
  using assms by (auto simp: rp_session_claims_def BIDGetIdentityReauthTicket_def bid_result BIDJsonObjectSet_get)

lemma rp_nonces_Inr:
  assumes "rp_nonces env i xrt False payload = (Inr p, i')"
  shows "SecretHandle i' = SecretHandle i" "key \<noteq> ''jti'' \<Longrightarrow> json_object_get (Some p) key = json_object_get (Some payload) key"
    "(\<exists>jti. has_private i \<and> xrt \<and> json_object_get (Some p) ''jti'' = Some jti \<and> json_object_get (Some (PrivateAttributes i')) ''jti'' = Some jti) \<or>
     p = payload \<and> i' = i"
  using assms by (auto simp: rp_nonces_def bid_result BIDJsonObjectSet_get split: if_splits sum.splits)

lemma rp_make_session:
  assumes "BIDMakeRPResponseToken env context (Some ri) (Some claims) fl heap = (Inr s, rfl, oi)"
    and "flag_set fl BID_RP_FLAG_HAVE_SESSION_KEY"
    and "rp_proto_opts (Some ri) = Inr opts" "\<not> (flag_set fl BID_RP_FLAG_INITIAL \<and> flag_set opts BID_VERIFY_FLAG_MUTUAL_AUTH)"
  obtains p0 key i1 p ri' a where "rp_session_claims ri (flag_set fl BID_RP_FLAG_INITIAL) claims = Inr p0"
    "BIDDeriveSessionSubkey env context ri ''RRK'' = (Inr key, i1)"
    "rp_nonces env i1 (flag_set fl BID_RP_FLAG_FORCE_EXTRA_ROUND_TRIP \<or> flag_set opts BID_VERIFY_FLAG_EXTRA_ROUND_TRIP) False p0 = (Inr p, ri')"
    "oi = Some ri'" "BIDPackBackedAssertion env (bare_token p) (Some key) None = Inr (s, a)"
  using assms(1) unfolding BIDMakeRPResponseToken_def Let_def
  by (cases "rp_session_claims ri (flag_set fl BID_RP_FLAG_INITIAL) claims"; cases "BIDDeriveSessionSubkey env context ri ''RRK''")
    (use assms(2-4) that in \<open>auto simp: bid_result or_flag_def split: sum.splits prod.splits\<close>)

lemma rp_response_checks_session:
  assumes "json_object_get payload ''aud'' = None" "json_is_object (Some (PrivateAttributes i))"
  shows "\<exists>i' fl. rp_response_checks i payload req BID_VERIFY_FLAG_RP = (Inr i', fl) \<and> SecretHandle i' = SecretHandle i \<and>
    \<not> flag_set fl BID_RP_FLAG_VALIDATED_CERTS \<and> json_object_get (Some (PrivateAttributes i')) ''jti'' =
      (case json_object_get payload ''jti'' of None \<Rightarrow> json_object_get (Some (PrivateAttributes i)) ''jti'' | Some jti \<Rightarrow> Some jti)"
proof -
  have [simp]: "\<not> flag_set BID_VERIFY_FLAG_RP BID_VERIFY_FLAG_VALIDATED_CERTS" "\<not> flag_set BID_VERIFY_FLAG_RP BID_VERIFY_FLAG_X509"
    "\<not> flag_set 0 BID_RP_FLAG_VALIDATED_CERTS" "\<not> flag_set BID_RP_FLAG_EXTRA_ROUND_TRIP BID_RP_FLAG_VALIDATED_CERTS"
    by (simp_all add: flag_set_def)
  from assms(2) obtain ms where "PrivateAttributes i = JObject ms" by (cases "PrivateAttributes i") auto
  then show ?thesis using assms(1)
    by (cases "json_object_get payload ''jti''") (auto simp: rp_response_checks_def guard_def or_flag_def update_conv')
qed

lemma rp_verify_session:
  assumes "json_library env" "\<And>k m. HMAC env EVP_sha256 k m \<noteq> []"
    and "BIDPackBackedAssertion env (bare_token p) (Some key) None = Inr (s, a)"
    and "(case BIDGetKeyAgreementObject (Some p) of
        Inr dh \<Rightarrow> BIDSetKeyAgreementPublicValue ui (Some dh) | Inl _ \<Rightarrow> (Inr (), ui)) = (Inr (), ui0)"
    and "BIDDeriveSessionSubkey env context ui0 ''RRK'' = (Inr key, ui1)" "flag_set fl BID_RP_FLAG_HAVE_SESSION_KEY"
    and "json_object_get (Some p) ''aud'' = None" "valid_at (unat (Skew context)) now (Some p)"
    and "json_is_object (Some (PrivateAttributes ui1))"
  shows "\<exists>rfl ui'. BIDVerifyRPResponseToken env now context ui (Some s) subj fl heap = (Inr (), Some p, rfl, ui', heap) \<and>
    \<not> flag_set rfl BID_RP_FLAG_VALIDATED_CERTS \<and> SecretHandle ui' = SecretHandle ui1 \<and>
    json_object_get (Some (PrivateAttributes ui')) ''jti'' = (case json_object_get (Some p) ''jti'' of
      None \<Rightarrow> json_object_get (Some (PrivateAttributes ui1)) ''jti'' | Some jti \<Rightarrow> Some jti)"
proof -
  from session_subkey_hmac[OF assms(5)] obtain k where key: "key = hmac_jwk k" by blast
  from packed_message[OF assms(1,2) assms(3)[unfolded key]] obtain jwt where
    un: "BIDUnpackBackedAssertion env (Some s) = Inr \<lparr>ba_EncData = s, Assertion = Some jwt, rCertificates = []\<rparr>"
    and jwt: "Payload jwt = Some p" "json_object_get (Header jwt) ''x5c'' = None"
      "BIDVerifySignature env (Some jwt) (Some (hmac_jwk k)) = Inr ()" .
  have "\<exists>i. BIDVerifyLocal env now context None \<lparr>ba_EncData = s, Assertion = Some jwt, rCertificates = []\<rparr> None subj None now
      BID_VERIFY_FLAG_RP (Some (hmac_jwk k)) (json_object_get (Some (PrivateAttributes ui1)) ''anchors'') heap =
    (Inr i, BID_VERIFY_FLAG_RP, heap)"
    by (rule verify_local_session) (use jwt assms(8) in simp_all)
  then obtain i where "BIDVerifyLocal env now context None \<lparr>ba_EncData = s, Assertion = Some jwt, rCertificates = []\<rparr> None subj None now
      BID_VERIFY_FLAG_RP (Some (hmac_jwk k)) (json_object_get (Some (PrivateAttributes ui1)) ''anchors'') heap =
    (Inr i, BID_VERIFY_FLAG_RP, heap)" ..
  moreover from rp_response_checks_session[OF assms(7,9), of fl] obtain ui' rfl where
    "rp_response_checks ui1 (Some p) fl BID_VERIFY_FLAG_RP = (Inr ui', rfl)" "SecretHandle ui' = SecretHandle ui1"
    "\<not> flag_set rfl BID_RP_FLAG_VALIDATED_CERTS" "json_object_get (Some (PrivateAttributes ui')) ''jti'' = (case json_object_get (Some p) ''jti'' of
      None \<Rightarrow> json_object_get (Some (PrivateAttributes ui1)) ''jti'' | Some jti \<Rightarrow> Some jti)" by blast
  ultimately show ?thesis using un jwt(1) assms(4-6) key by (simp add: BIDVerifyRPResponseToken_def rp_verify_cred_def)
qed

lemma rp_make_reauth:
  assumes "BIDMakeRPResponseToken env context (Some ri) (Some claims) fl heap = (Inr s, rfl, Some ri')"
    and "flag_set fl BID_RP_FLAG_HAVE_SESSION_KEY" "\<not> flag_set fl BID_RP_FLAG_INITIAL"
  obtains key p i1 a where "BIDDeriveSessionSubkey env context ri ''RRK'' = (Inr key, i1)"
    "BIDPackBackedAssertion env (bare_token p) (Some key) None = Inr (s, a)"
    "\<forall>k. k \<notin> {''tkt'', ''jti''} \<longrightarrow> json_object_get (Some p) k = json_object_get (Some claims) k"
    "\<forall>tkt. json_object_get (Some (PrivateAttributes ri)) ''tkt'' = Some tkt \<longrightarrow> json_object_get (Some p) ''tkt'' = Some tkt"
    "flag_set fl BID_RP_FLAG_FORCE_EXTRA_ROUND_TRIP \<and> has_private ri \<longrightarrow> (\<exists>jti. json_object_get (Some p) ''jti'' = Some jti \<and>
      json_object_get (Some (PrivateAttributes ri')) ''jti'' = Some jti)"
    "SecretHandle ri' = SecretHandle i1"
proof -
  from assms(1) obtain opts where opts: "rp_proto_opts (Some ri) = Inr opts"
    by (cases "rp_proto_opts (Some ri)") (auto simp: BIDMakeRPResponseToken_def Let_def bail_def split: sum.splits)
  have "\<not> (flag_set fl BID_RP_FLAG_INITIAL \<and> flag_set opts BID_VERIFY_FLAG_MUTUAL_AUTH)" using assms(3) by simp
  from rp_make_session[OF assms(1,2) opts this] obtain p0 key i1 p r a where
    p0: "rp_session_claims ri (flag_set fl BID_RP_FLAG_INITIAL) claims = Inr p0"
    and d: "BIDDeriveSessionSubkey env context ri ''RRK'' = (Inr key, i1)"
    and n: "rp_nonces env i1 (flag_set fl BID_RP_FLAG_FORCE_EXTRA_ROUND_TRIP \<or> flag_set opts BID_VERIFY_FLAG_EXTRA_ROUND_TRIP) False p0 = (Inr p, r)"
    and r: "Some ri' = Some r" and pack: "BIDPackBackedAssertion env (bare_token p) (Some key) None = Inr (s, a)" .
  note get = rp_nonces_Inr[OF n] rp_session_claims_get[OF p0]
  have priv: "PrivateAttributes i1 = PrivateAttributes ri" using BIDDeriveSessionSubkey_attributes[OF d] by simp
  have same: "\<forall>k. k \<notin> {''tkt'', ''jti''} \<longrightarrow> json_object_get (Some p) k = json_object_get (Some claims) k"
  proof (intro allI impI)
    fix k assume "k \<notin> {''tkt'', ''jti''}"
    then show "json_object_get (Some p) k = json_object_get (Some claims) k"
      using get(2)[of k] get(4)[of k] rp_session_claims_epk[OF p0] assms(3) by (cases "k = ''epk''") simp_all
  qed
  show ?thesis
  proof (rule that[OF d pack same])
    show "\<forall>tkt. json_object_get (Some (PrivateAttributes ri)) ''tkt'' = Some tkt \<longrightarrow> json_object_get (Some p) ''tkt'' = Some tkt"
      using rp_session_claims_tkt[OF p0] get(2)[of "''tkt''"] by simp
    show "flag_set fl BID_RP_FLAG_FORCE_EXTRA_ROUND_TRIP \<and> has_private ri \<longrightarrow> (\<exists>jti. json_object_get (Some p) ''jti'' = Some jti \<and>
      json_object_get (Some (PrivateAttributes ri')) ''jti'' = Some jti)"
      using n r priv by (auto simp: rp_nonces_def has_private_def bid_result BIDJsonObjectSet_get split: sum.splits)
    show "SecretHandle ri' = SecretHandle i1" using get(1) r by simp
  qed
qed

lemma set_public_value_nonce:
  "BIDSetKeyAgreementPublicValue i dh = (r, i') \<Longrightarrow> k \<noteq> ''epk'' \<Longrightarrow>
    json_object_get (Some (PrivateAttributes i')) k = json_object_get (Some (PrivateAttributes i)) k"
  by (auto simp: BIDSetKeyAgreementPublicValue_def set_member_def json_object_get_set split: sum.splits prod.splits option.splits)

lemma rp_verify_cred_Inr:
  assumes "rp_verify_cred env context ui p fl = (Inr cred, u1)"
  shows "json_object_get (Some (PrivateAttributes u1)) ''nonce'' = json_object_get (Some (PrivateAttributes ui)) ''nonce''"
    "if flag_set fl BID_RP_FLAG_HAVE_SESSION_KEY
     then \<exists>secret. SecretHandle u1 = Some (SecretHandleDesc (Some secret)) \<and>
       cred = Some (hmac_jwk (HMAC env EVP_sha256 secret (BIDSalt @ secret @ bytes_of_string ''RRK'' @ [1])))
     else cred = None"
proof -
  let ?set = "case BIDGetKeyAgreementObject p of Inr dh \<Rightarrow> BIDSetKeyAgreementPublicValue ui (Some dh) | Inl _ \<Rightarrow> (Inr (), ui)"
  from assms obtain u0 where s0: "?set = (Inr (), u0)" by (auto simp: rp_verify_cred_def bid_result)
  then have n: "json_object_get (Some (PrivateAttributes u0)) ''nonce'' = json_object_get (Some (PrivateAttributes ui)) ''nonce''"
    by (auto split: sum.splits dest: set_public_value_nonce[where k = "''nonce''"])
  have k: "(if flag_set fl BID_RP_FLAG_HAVE_SESSION_KEY
      then bailS (BIDDeriveSessionSubkey env context u0 ''RRK'') (\<lambda>key i. (Inr (Some key), i)) else (Inr None, u0)) = (Inr cred, u1)"
    using assms s0 by (simp add: rp_verify_cred_def)
  show "json_object_get (Some (PrivateAttributes u1)) ''nonce'' = json_object_get (Some (PrivateAttributes ui)) ''nonce''"
    using k n by (auto simp: bid_result split: if_splits dest!: BIDDeriveSessionSubkey_attributes)
  show "if flag_set fl BID_RP_FLAG_HAVE_SESSION_KEY
     then \<exists>secret. SecretHandle u1 = Some (SecretHandleDesc (Some secret)) \<and>
       cred = Some (hmac_jwk (HMAC env EVP_sha256 secret (BIDSalt @ secret @ bytes_of_string ''RRK'' @ [1])))
     else cred = None"
    using k by (auto simp: bid_result split: if_splits elim: session_subkey_hmac)
qed

text \<open>What a verified response rests on.\<close>

lemma verify_local_rp:
  assumes "BIDVerifyLocal env now context rc ba None subj None t BID_VERIFY_FLAG_RP cred anchors heap = (Inr i, rfl, heap')"
  obtains jwt cred' where "Assertion ba = Some jwt" "valid_at (unat (Skew context)) t (Payload jwt)"
    "BIDVerifySignature env (Some jwt) cred' = Inr ()" "\<not> flag_set rfl BID_VERIFY_FLAG_VALIDATED_CERTS \<longrightarrow> cred' = cred"
proof -
  have [simp]: "\<not> flag_set BID_VERIFY_FLAG_RP BID_VERIFY_FLAG_REAUTH" "flag_set BID_VERIFY_FLAG_RP BID_VERIFY_FLAG_RP"
    by (simp_all add: flag_set_def)
  from assms obtain jwt where jwt: "Assertion ba = Some jwt" by (auto simp: BIDVerifyLocal_def split: option.splits)
  let ?lc = "local_credential env context rc ba jwt t BID_VERIFY_FLAG_RP cred anchors BID_VERIFY_FLAG_RP heap"
  from assms jwt obtain ident c fl where lc: "?lc = (Inr (ident, c), fl)"
    by (cases ?lc; cases "fst ?lc") (auto simp: BIDVerifyLocal_def or_flag_def)
  let ?c = "if rCertificates ba = [] then c else BIDLeafCert ba"
  from assms jwt lc have e: "BIDValidateExpiry context t (Payload jwt) = Inr ()"
    and lf: "local_finish env context ba jwt ident subj BID_VERIFY_FLAG_RP ?c
      (or_flag (rCertificates ba \<noteq> []) BID_VERIFY_FLAG_VALIDATED_CERTS fl) = (Inr i, rfl)"
    by (auto simp: BIDVerifyLocal_def Let_def or_flag_def bid_result split: sum.splits prod.splits if_splits)
  have "rfl = or_flag (rCertificates ba \<noteq> []) BID_VERIFY_FLAG_VALIDATED_CERTS fl"
    using lf by (auto simp: local_finish_def bid_result)
  moreover have "flag_set (fl' OR BID_VERIFY_FLAG_VALIDATED_CERTS) BID_VERIFY_FLAG_VALIDATED_CERTS" for fl'
    by (simp add: bid_flag flag_set_def)
  moreover have "flag_set (BID_VERIFY_FLAG_RP OR BID_VERIFY_FLAG_X509 OR BID_VERIFY_FLAG_VALIDATED_CERTS) BID_VERIFY_FLAG_VALIDATED_CERTS"
    by (simp add: flag_set_def)
  ultimately have "\<not> flag_set rfl BID_VERIFY_FLAG_VALIDATED_CERTS \<longrightarrow> ?c = cred"
    using lc by (auto simp: local_credential_def or_flag_def bid_result split: if_splits option.splits)
  with jwt e local_finish_Inr(1)[OF lf] show ?thesis by (intro that) (simp_all add: BIDValidateExpiry_valid)
qed

lemma verify_signature_keyset: "BIDVerifySignature env jwt None \<noteq> Inr ()"
proof -
  have "verify_alg_loop env None alg err algs \<noteq> Inr r" for alg err algs r by (induction algs arbitrary: err) auto
  then show ?thesis by (auto simp: BIDVerifySignature_def bid_result)
qed

lemma rp_response_checks_Inr:
  assumes "rp_response_checks i payload fl vfl = (Inr i', rfl)"
  shows "json_object_get payload ''aud'' = None" "SecretHandle i' = SecretHandle i"
    "flag_set rfl BID_RP_FLAG_VALIDATED_CERTS \<longleftrightarrow> flag_set vfl BID_VERIFY_FLAG_VALIDATED_CERTS"
    "flag_set vfl BID_VERIFY_FLAG_VALIDATED_CERTS \<Longrightarrow> flag_set fl BID_RP_FLAG_INITIAL \<and>
      json_equal (json_object_get (Some (PrivateAttributes i)) ''nonce'') (json_object_get payload ''nonce'')"
proof -
  have [simp]: "flag_set BID_RP_FLAG_VALIDATED_CERTS BID_RP_FLAG_VALIDATED_CERTS" "\<not> flag_set 0 BID_RP_FLAG_VALIDATED_CERTS"
    "\<not> flag_set BID_RP_FLAG_X509 BID_RP_FLAG_VALIDATED_CERTS" "\<not> flag_set BID_RP_FLAG_EXTRA_ROUND_TRIP BID_RP_FLAG_VALIDATED_CERTS"
    by (simp_all add: flag_set_def)
  have fl: "flag_set (or_flag b BID_RP_FLAG_X509 (or_flag c BID_RP_FLAG_VALIDATED_CERTS 0)) BID_RP_FLAG_VALIDATED_CERTS = c" for b c
    by (simp only: or_flag_def flag_set_or split: if_split) simp
  let ?fl = "or_flag (flag_set vfl BID_VERIFY_FLAG_X509) BID_RP_FLAG_X509
    (or_flag (flag_set vfl BID_VERIFY_FLAG_VALIDATED_CERTS) BID_RP_FLAG_VALIDATED_CERTS 0)"
  from assms have "rfl = ?fl \<or> rfl = ?fl OR BID_RP_FLAG_EXTRA_ROUND_TRIP"
    by (auto simp: rp_response_checks_def Let_def bid_result split: if_splits option.splits)
  then show "flag_set rfl BID_RP_FLAG_VALIDATED_CERTS \<longleftrightarrow> flag_set vfl BID_VERIFY_FLAG_VALIDATED_CERTS"
    by (auto simp only: flag_set_or fl) simp_all
qed (use assms in \<open>auto simp: rp_response_checks_def Let_def bid_result split: if_splits option.splits\<close>)

section \<open>A concrete response\<close>

definition sample_response :: json where
  "sample_response = JObject [(''exp'', JInteger 8000), (''tkt'', JString ''T'')]"

definition rp_env :: bid_env where
  "rp_env = verify_env\<lparr>
     json_loads := (\<lambda>s. if s = ''h'' then Some hs256_header else if s = ''r'' then Some sample_response else None),
     json_dumps := (\<lambda>j. if j = hs256_header then Some ''h'' else if j = sample_response then Some ''r'' else None)\<rparr>"

definition sample_session :: BIDIdentityDesc where
  "sample_session = \<lparr>Attributes = JObject [], PrivateAttributes = JObject [(''tkt'', JString ''T''), (''jti'', JString (b64_text True [9]))],
     SecretHandle = Some (SecretHandleDesc (Some [7]))\<rparr>"

lemma rp_env_simps [simp]:
  "json_dumps rp_env hs256_header = Some ''h''" "json_dumps rp_env sample_response = Some ''r''"
  "HMAC rp_env md key bs = take 2 (key @ bs @ [0, 0])"
  by (simp_all add: rp_env_def hs256_header_def sample_response_def)

lemma rp_env_mac: "HMAC rp_env EVP_sha256 k m \<noteq> []"
  by (cases k) simp_all

lemma rp_env_library: "json_library rp_env"
  by (simp add: json_library_def rp_env_def hs256_header_def sample_response_def)

lemma sample_packed_response:
  obtains s a where "BIDPackBackedAssertion rp_env (bare_token sample_response) (Some (hmac_jwk k)) None = Inr (s, a)"
proof -
  have mac: "length (HMAC rp_env EVP_sha256 k m) = 2" for m by simp
  obtain s jwt where "BIDMakeSignature rp_env (token_for sample_response) (Some (hmac_jwk k)) None = Inr (s, jwt)"
    by (rule token_made[OF rp_env_library rp_env_simps(1,2) mac])
  then show ?thesis by (intro that[of "''~'' @ s"]) (simp add: BIDPackBackedAssertion_def bare_token_def token_for_def)
qed

lemma sample_rrk: "BIDDeriveSessionSubkey rp_env context sample_session ''RRK'' = (Inr (hmac_jwk [7, 66]), sample_session)"
  by (simp add: BIDDeriveSessionSubkey_def BIDIdentitySecretAgreement_def BIDDeriveKey_def sample_session_def BIDSalt_def
      bytes_of_string_def BIDJsonBinaryValue_def BIDBase64UrlEncode_text BIDAllocJsonObject_def hmac_jwk_def)

lemma sample_rp_make:
  obtains s a where "BIDPackBackedAssertion rp_env (bare_token sample_response) (Some (hmac_jwk [7, 66])) None = Inr (s, a)"
    "BIDMakeRPResponseToken rp_env rp_ctx (Some sample_session) (Some sample_assertion) BID_RP_FLAG_HAVE_SESSION_KEY sample_heap =
      (Inr s, 0, Some sample_session)"
proof -
  have fl: "flag_set BID_RP_FLAG_HAVE_SESSION_KEY BID_RP_FLAG_HAVE_SESSION_KEY" "\<not> flag_set BID_RP_FLAG_HAVE_SESSION_KEY BID_RP_FLAG_INITIAL"
    "\<not> flag_set BID_RP_FLAG_HAVE_SESSION_KEY BID_RP_FLAG_FORCE_EXTRA_ROUND_TRIP" "\<not> flag_set 0 BID_VERIFY_FLAG_EXTRA_ROUND_TRIP"
    by (simp_all add: flag_set_def)
  have c: "rp_session_claims sample_session False sample_assertion = Inr sample_response" "rp_proto_opts (Some sample_session) = Inr 0"
    "rp_nonces rp_env sample_session False False sample_response = (Inr sample_response, sample_session)"
    by (simp_all add: rp_session_claims_def BIDGetIdentityReauthTicket_def sample_session_def sample_assertion_def sample_response_def
        rp_proto_opts_def has_private_def BIDParseProtocolOpts_def rp_nonces_def)
  obtain s a where p: "BIDPackBackedAssertion rp_env (bare_token sample_response) (Some (hmac_jwk [7, 66])) None = Inr (s, a)"
    by (rule sample_packed_response)
  then show ?thesis by (intro that[OF p]) (simp add: BIDMakeRPResponseToken_def fl c sample_rrk or_flag_def)
qed

section \<open>Properties\<close>





text \<open>C13: the extra round trip works and changes keys.  If both sides have the same secret and the
  identifier of the round trip, the token of the user agent is accepted, its claims arrive, and
  both sides then have the same new secret, which is the key the token is signed with.\<close>

theorem xrt_roundtrip:
  assumes "json_library env" "\<And>k m. HMAC env EVP_sha256 k m \<noteq> []"
    and "BIDMakeXRTToken env uctx ui (Some claims) = (Inr s, ui')"
    and "SecretHandle ui \<noteq> None" "SecretHandle ri = SecretHandle ui"
    and "json_object_get (Some (PrivateAttributes ri)) ''jti'' = json_object_get (Some (PrivateAttributes ui)) ''jti''"
  shows "\<exists>k. SecretHandle ui' = Some (SecretHandleDesc (Some k)) \<and> BIDDeriveXRTKey env uctx ui = (Inr (hmac_jwk k), ui') \<and>
    BIDVerifyXRTToken env rctx ri (Some s) = (Inr (), Some claims, ri\<lparr>SecretHandle := SecretHandle ui'\<rparr>)"
proof -
  from assms(3) obtain key a where d: "BIDDeriveXRTKey env uctx ui = (Inr key, ui')"
    and p: "BIDPackBackedAssertion env (bare_token claims) (Some key) None = Inr (s, a)"
    by (auto simp: BIDMakeXRTToken_def bid_result)
  from xrt_key_hmac[OF d] obtain k where k: "SecretHandle ui' = Some (SecretHandleDesc (Some k))" "key = hmac_jwk k" .
  from packed_message[OF assms(1,2) p[unfolded k(2)]] obtain jwt where
    un: "BIDUnpackBackedAssertion env (Some s) = Inr \<lparr>ba_EncData = s, Assertion = Some jwt, rCertificates = []\<rparr>"
    and jwt: "Payload jwt = Some claims" "json_object_get (Header jwt) ''x5c'' = None"
      "BIDVerifySignature env (Some jwt) (Some (hmac_jwk k)) = Inr ()" .
  from xrt_key_shared[OF d assms(4,5,6), of rctx] have "BIDDeriveXRTKey env rctx ri = (Inr (hmac_jwk k), ri\<lparr>SecretHandle := SecretHandle ui'\<rparr>)"
    using k(2) by simp
  with un jwt have "BIDVerifyXRTToken env rctx ri (Some s) = (Inr (), Some claims, ri\<lparr>SecretHandle := SecretHandle ui'\<rparr>)"
    by (simp add: BIDVerifyXRTToken_def guard_def)
  with k d show ?thesis by blast
qed

theorem xrt_roundtrip_witness:
  "\<exists>s ui'. BIDMakeXRTToken rp_env rp_ctx sample_session (Some sample_response) = (Inr s, ui') \<and>
     BIDVerifyXRTToken rp_env rp_ctx sample_session (Some s) =
       (Inr (), Some sample_response, sample_session\<lparr>SecretHandle := SecretHandle ui'\<rparr>)"
proof -
  have d: "BIDDeriveXRTKey rp_env rp_ctx sample_session =
      (Inr (hmac_jwk [7, 66]), sample_session\<lparr>SecretHandle := Some (SecretHandleDesc (Some [7, 66]))\<rparr>)"
    by (simp add: BIDDeriveXRTKey_def xrt_key_def BIDIdentitySecretAgreement_def BIDDeriveKey_def sample_session_def BIDSalt_def
        BIDGetJsonBinaryValue_def bytes_of_string_def BIDJsonBinaryValue_def BIDBase64UrlEncode_text
        BIDAllocJsonObject_def hmac_jwk_def BIDImportSecretKeyData_def BIDAllocSecret_def)
  obtain s a where "BIDPackBackedAssertion rp_env (bare_token sample_response) (Some (hmac_jwk [7, 66])) None = Inr (s, a)"
    by (rule sample_packed_response)
  then have m: "BIDMakeXRTToken rp_env rp_ctx sample_session (Some sample_response) =
      (Inr s, sample_session\<lparr>SecretHandle := Some (SecretHandleDesc (Some [7, 66]))\<rparr>)"
    by (simp add: BIDMakeXRTToken_def d)
  have "SecretHandle sample_session \<noteq> None" by (simp add: sample_session_def)
  from xrt_roundtrip[OF rp_env_library rp_env_mac m this refl refl, of rp_ctx] m show ?thesis by blast
qed

end
