(* ===== verification/User.thy ===== *)
theory User
  imports Rp
begin

text \<open>
  The user agent: acquiring an assertion, \<^verbatim>\<open>libbrowserid/bid_user.c\<close>, and the initial
  key agreement between a user agent and a relying party.
\<close>

section \<open>Data\<close>

abbreviation BID_ACQUIRE_FLAG_REAUTH :: u32 where "BID_ACQUIRE_FLAG_REAUTH \<equiv> 0x00010000"
abbreviation BID_ACQUIRE_FLAG_REAUTH_MUTUAL :: u32 where "BID_ACQUIRE_FLAG_REAUTH_MUTUAL \<equiv> 0x00020000"

text \<open>A session with the user, and what its completion handler stores for
  \<^verbatim>\<open>BIDAcquireAssertionEx\<close>.  The handler keeps nothing but the error if there is one.\<close>

record BIDModalSessionDesc =
  ms_ulReqFlags :: u32
  ms_Claims :: json
  ms_Key :: "json option"

record BIDAcquireAssertionCompletionContextDesc =
  cc_szAssertion :: "string option"
  cc_identity :: "BIDIdentityDesc option"
  cc_expiryTime :: int
  cc_ulRetFlags :: u32

datatype modal_session = SessionDone BIDAcquireAssertionCompletionContextDesc | SessionPending BIDModalSessionDesc

text \<open>The browser, a parameter: whether a dialog for an audience, claims, an identity and flags can
  be opened, and how it ends, with a return code and, if it completes the session, an error or
  an assertion.\<close>

record browser =
  BrowserGetAssertion :: "string \<Rightarrow> json \<Rightarrow> string option \<Rightarrow> u32 \<Rightarrow> BIDError + unit"
  RunModalSession :: "string \<Rightarrow> json \<Rightarrow> string option \<Rightarrow> u32 \<Rightarrow> BIDError + (BIDError + string) option"

section \<open>Claims\<close>

text \<open>The parameters of the key agreement are shared by the claims and the key, so that both have
  the public value that is added to them.\<close>

definition claims_key :: "'x crypto_env_scheme \<Rightarrow> BIDContextDesc \<Rightarrow> json \<Rightarrow> BIDError + json \<times> json" where
  "claims_key env context claims =
     bail (BIDGetKeyAgreementParams context) (\<lambda>dh.
     bail (BIDSetKeyAgreementObject claims (Some dh)) (\<lambda>claims.
     bail (BIDGenerateECDHKey env (Some dh)) (\<lambda>key.
     bail (BIDJsonObjectSet dh ''x'' (json_object_get (Some key) ''x'') BID_JSON_FLAG_REQUIRED) (\<lambda>dh.
     bail (BIDJsonObjectSet dh ''y'' (json_object_get (Some key) ''y'') BID_JSON_FLAG_REQUIRED) (\<lambda>dh.
     Inr (set_member claims ''epk'' dh, set_member key ''params'' dh))))))"

definition BIDMakeClaims ::
  "'x crypto_env_scheme \<Rightarrow> BIDContextDesc \<Rightarrow> byte list option \<Rightarrow> u32 \<Rightarrow> json option \<Rightarrow> BIDError + json \<times> json option" where
  "BIDMakeClaims env context pbChannelBindings ulReqFlags userClaims =
     (let claims = (case userClaims of None \<Rightarrow> BIDAllocJsonObject | Some c \<Rightarrow> c) in
      bail (case pbChannelBindings of
              None \<Rightarrow> Inr claims
            | Some bs \<Rightarrow> bail (BIDJsonBinaryValue bs) (\<lambda>cb. BIDJsonObjectSet claims ''cb'' (Some cb) 0)) (\<lambda>claims.
      bail (if flag_set (ContextOptions context) BID_CONTEXT_ECDH_KEYEX
            then bail (claims_key env context claims) (\<lambda>(claims, key). Inr (claims, Some key))
            else Inr (claims, None)) (\<lambda>(claims, key).
      bail (BIDMakeProtocolOpts ulReqFlags) (\<lambda>opts.
      bail (if opts = None then Inr claims else BIDJsonObjectSet claims ''opts'' opts 0) (\<lambda>claims.
      Inr (claims, key))))))"

section \<open>Sessions\<close>

definition BIDCanInteractP :: "BIDContextDesc \<Rightarrow> u32 \<Rightarrow> bool" where
  "BIDCanInteractP context ulReqFlags \<longleftrightarrow>
     \<not> (flag_set (ContextOptions context) BID_CONTEXT_INTERACTION_DISABLED \<or> flag_set ulReqFlags BID_ACQUIRE_FLAG_NO_INTERACT)"

text \<open>The flag says whether the caller wants the identity.\<close>

definition BIDAcquireAssertionFromString ::
  "'x crypto_env_scheme \<Rightarrow> BIDContextDesc \<Rightarrow> string option \<Rightarrow> bool \<Rightarrow> BIDError + BIDIdentityDesc option \<times> int" where
  "BIDAcquireAssertionFromString env context szAssertion bIdentity =
     bail (BIDUnpackBackedAssertion env szAssertion) (\<lambda>backedAssertion.
     bail (if bIdentity then bail (BIDPopulateIdentity env context backedAssertion 0) (\<lambda>i. Inr (Some i)) else Inr None) (\<lambda>identity.
     Inr (identity, timestamp_or_zero (BIDGetJsonTimestampValue (BIDLeafCert backedAssertion) ''exp''))))"

definition BIDCompleteModalSession ::
  "'x crypto_env_scheme \<Rightarrow> BIDContextDesc \<Rightarrow> BIDError + string \<Rightarrow> BIDModalSessionDesc \<Rightarrow>
    BIDError + BIDAcquireAssertionCompletionContextDesc" where
  "BIDCompleteModalSession env context outcome session =
     bail outcome (\<lambda>szAssertion.
     bail (BIDAcquireAssertionFromString env context (Some szAssertion) True) (\<lambda>(identity, expiryTime).
     bail (some_or identity BID_UNDEFINED) (\<lambda>identity.
     bail (if flag_set (ContextOptions context) BID_CONTEXT_ECDH_KEYEX
           then BIDSetKeyAgreementObject (PrivateAttributes identity) (ms_Key session)
           else Inr (PrivateAttributes identity)) (\<lambda>p.
     bail (if flag_set (ms_ulReqFlags session) BID_ACQUIRE_FLAG_MUTUAL_AUTH
           then BIDJsonObjectSet p ''nonce'' (json_object_get (Some (ms_Claims session)) ''nonce'') 0
           else Inr p) (\<lambda>p.
     Inr \<lparr>cc_szAssertion = Some szAssertion, cc_identity = Some (identity\<lparr>PrivateAttributes := p\<rparr>),
          cc_expiryTime = expiryTime, cc_ulRetFlags = 0\<rparr>)))))"

definition BIDBeginModalSessionReauth ::
  "'x crypto_env_scheme \<Rightarrow> int \<Rightarrow> BIDContextDesc \<Rightarrow> BIDCache \<Rightarrow> string option \<Rightarrow> byte list option \<Rightarrow> string option \<Rightarrow> u32 \<Rightarrow>
    'd cache_heap \<Rightarrow> (BIDError + BIDAcquireAssertionCompletionContextDesc) option" where
  "BIDBeginModalSessionReauth env nowms context ticketCache szAudienceOrSpn pbChannelBindings szIdentityName ulReqFlags heap =
     map_option (\<lambda>r. bail r (\<lambda>(szAssertion, identity, expiryTime, ulTicketFlags).
         Inr \<lparr>cc_szAssertion = szAssertion, cc_identity = identity, cc_expiryTime = expiryTime,
              cc_ulRetFlags = or_flag (flag_set ulTicketFlags BID_TICKET_FLAG_MUTUAL_AUTH) BID_ACQUIRE_FLAG_REAUTH_MUTUAL
                (0 OR BID_ACQUIRE_FLAG_REAUTH)\<rparr>))
       (BIDGetReauthAssertion env nowms context ticketCache szAudienceOrSpn pbChannelBindings szIdentityName ulReqFlags True True heap)"

text \<open>A session with the user is opened only if there is no usable ticket.\<close>

definition begin_interaction ::
  "'x crypto_env_scheme \<Rightarrow> browser \<Rightarrow> BIDContextDesc \<Rightarrow> string \<Rightarrow> byte list option \<Rightarrow> string option \<Rightarrow> u32 \<Rightarrow>
    json option \<Rightarrow> BIDError + modal_session" where
  "begin_interaction env ui context szAudienceOrSpn pbChannelBindings szIdentityName ulReqFlags userClaims =
     bail (guard (\<not> BIDCanInteractP context ulReqFlags) BID_S_INTERACT_REQUIRED) (\<lambda>_.
     bail (BIDMakeClaims env context pbChannelBindings ulReqFlags userClaims) (\<lambda>(claims, key).
     bail (if flag_set ulReqFlags BID_ACQUIRE_FLAG_MUTUAL_AUTH
           then bail (BIDGenerateNonce env) (\<lambda>nonce. BIDJsonObjectSet claims ''nonce'' (Some nonce) BID_JSON_FLAG_REQUIRED)
           else Inr claims) (\<lambda>claims.
     bail (BrowserGetAssertion ui szAudienceOrSpn claims szIdentityName ulReqFlags) (\<lambda>_.
     Inr (SessionPending \<lparr>ms_ulReqFlags = ulReqFlags, ms_Claims = claims, ms_Key = key\<rparr>)))))"

definition BIDBeginModalSession ::
  "'x crypto_env_scheme \<Rightarrow> browser \<Rightarrow> int \<Rightarrow> BIDContextDesc \<Rightarrow> BIDCache \<Rightarrow> string option \<Rightarrow> byte list option \<Rightarrow> string option \<Rightarrow>
    u32 \<Rightarrow> json option \<Rightarrow> 'd cache_heap \<Rightarrow> (BIDError + modal_session) option" where
  "BIDBeginModalSession env ui nowms context ticketCache szAudienceOrSpn pbChannelBindings szIdentityName ulReqFlags userClaims heap =
     (case szAudienceOrSpn of
        None \<Rightarrow> Some (Inl BID_S_INVALID_AUDIENCE_URN)
      | Some szAudience \<Rightarrow>
          let interact = begin_interaction env ui context szAudience pbChannelBindings szIdentityName ulReqFlags userClaims in
          if flag_set (ContextOptions context) BID_CONTEXT_REAUTH \<and> \<not> flag_set ulReqFlags BID_ACQUIRE_FLAG_NO_CACHED
          then (case BIDBeginModalSessionReauth env nowms context ticketCache szAudienceOrSpn pbChannelBindings szIdentityName
                       ulReqFlags heap of
                  None \<Rightarrow> None
                | Some (Inr cc) \<Rightarrow> Some (Inr (SessionDone cc))
                | Some (Inl e) \<Rightarrow> Some (if e = BID_UNDEFINED then Inl BID_UNDEFINED else interact))
          else Some interact)"

text \<open>The completion context starts with zeros, and stays so if the browser ends without completing
  the session.\<close>

definition BIDAcquireAssertionEx ::
  "'x crypto_env_scheme \<Rightarrow> browser \<Rightarrow> int \<Rightarrow> BIDContextDesc \<Rightarrow> BIDCache \<Rightarrow> string option \<Rightarrow> byte list option \<Rightarrow> string option \<Rightarrow>
    u32 \<Rightarrow> json option \<Rightarrow> 'd cache_heap \<Rightarrow> (BIDError + BIDAcquireAssertionCompletionContextDesc) option" where
  "BIDAcquireAssertionEx env ui nowms context ticketCache szAudienceOrSpn pbChannelBindings szIdentityName ulReqFlags userClaims heap =
     map_option (\<lambda>r. bail r (\<lambda>state.
       case state of
         SessionDone cc \<Rightarrow> Inr cc
       | SessionPending session \<Rightarrow>
           bail (some_or szAudienceOrSpn BID_UNDEFINED) (\<lambda>szAudience.
           bail (RunModalSession ui szAudience (ms_Claims session) szIdentityName ulReqFlags) (\<lambda>res.
           case res of
             None \<Rightarrow> Inr \<lparr>cc_szAssertion = None, cc_identity = None, cc_expiryTime = 0, cc_ulRetFlags = 0\<rparr>
           | Some outcome \<Rightarrow> BIDCompleteModalSession env context outcome session))))
       (BIDBeginModalSession env ui nowms context ticketCache szAudienceOrSpn pbChannelBindings szIdentityName ulReqFlags userClaims heap)"

definition BIDAcquireAssertion ::
  "'x crypto_env_scheme \<Rightarrow> browser \<Rightarrow> int \<Rightarrow> BIDContextDesc \<Rightarrow> BIDCache \<Rightarrow> string option \<Rightarrow> byte list option \<Rightarrow> string option \<Rightarrow>
    u32 \<Rightarrow> 'd cache_heap \<Rightarrow> (BIDError + BIDAcquireAssertionCompletionContextDesc) option" where
  "BIDAcquireAssertion env ui nowms context ticketCache szAudienceOrSpn pbChannelBindings szIdentityName ulReqFlags heap =
     BIDAcquireAssertionEx env ui nowms context ticketCache szAudienceOrSpn pbChannelBindings szIdentityName ulReqFlags None heap"

definition BIDFreeAssertion :: "string option \<Rightarrow> BIDError + unit" where
  "BIDFreeAssertion assertion = guard (assertion = None) BID_S_INVALID_PARAMETER"

section \<open>Lemmas\<close>

text \<open>The objects of a key agreement: the public value of a point, parameters with the public value
  of a party, and a key pair.\<close>

definition point_of :: "'x crypto_env_scheme \<Rightarrow> BIGNUM \<times> BIGNUM \<Rightarrow> (string \<times> json) list" where
  "point_of env q = [(''x'', JString (b64_text True (BN_bn2bin env (fst q)))), (''y'', JString (b64_text True (BN_bn2bin env (snd q))))]"

definition dh_params :: "'x crypto_env_scheme \<Rightarrow> string \<Rightarrow> BIGNUM \<times> BIGNUM \<Rightarrow> json" where
  "dh_params env crv q = JObject ([(''kty'', JString ''EC''), (''crv'', JString crv)] @ point_of env q)"

definition dh_key :: "'x crypto_env_scheme \<Rightarrow> string \<Rightarrow> BIGNUM \<times> BIGNUM \<Rightarrow> BIGNUM \<times> BIGNUM \<Rightarrow> BIGNUM \<Rightarrow> json" where
  "dh_key env crv peer q d =
     JObject ([(''params'', dh_params env crv peer)] @ point_of env q @ [(''d'', JString (b64_text True (BN_bn2bin env d)))])"

lemma make_key_env [simp]:
  "BN_bn2bin (env\<lparr>EC_KEY_generate_key := g\<rparr>) = BN_bn2bin env" by simp

lemma BIDGenerateECDHKey_pair:
  assumes "BIDGenerateECDHKey (env\<lparr>EC_KEY_generate_key := \<lambda>_. Some (x, y, d)\<rparr>) (Some params) = Inr key"
    and "\<And>n. n \<in> {x, y, d} \<Longrightarrow> length (BN_bn2bin env n) \<le> 2048"
  shows "key = JObject ([(''params'', params)] @ point_of env (x, y) @ [(''d'', JString (b64_text True (BN_bn2bin env d)))])"
  using BIDGenerateECDHKey_members[OF assms(1), of x y d] assms(2) by (auto simp: point_of_def)

text \<open>What the user agent sends and keeps.\<close>

lemma claims_key_members:
  assumes "claims_key (env\<lparr>EC_KEY_generate_key := \<lambda>_. Some (x, y, d)\<rparr>) context claims = Inr (claims', key)"
    and "\<And>n. n \<in> {x, y, d} \<Longrightarrow> length (BN_bn2bin env n) \<le> 2048"
  obtains crv where "curve_name context = Inr crv" "json_object_get (Some claims') ''epk'' = Some (dh_params env crv (x, y))"
    "key = dh_key env crv (x, y) (x, y) d"
proof -
  let ?env = "env\<lparr>EC_KEY_generate_key := \<lambda>_. Some (x, y, d)\<rparr>"
  from assms(1) obtain crv c1 k where crv: "curve_name context = Inr crv"
    and c1: "BIDJsonObjectSet claims ''epk'' (Some (JObject [(''kty'', JString ''EC''), (''crv'', JString crv)])) BID_JSON_FLAG_REQUIRED = Inr c1"
    and k: "BIDGenerateECDHKey ?env (Some (JObject [(''kty'', JString ''EC''), (''crv'', JString crv)])) = Inr k"
    and r: "bail (BIDJsonObjectSet (JObject [(''kty'', JString ''EC''), (''crv'', JString crv)]) ''x'' (json_object_get (Some k) ''x'') BID_JSON_FLAG_REQUIRED) (\<lambda>dh.
      bail (BIDJsonObjectSet dh ''y'' (json_object_get (Some k) ''y'') BID_JSON_FLAG_REQUIRED) (\<lambda>dh.
      Inr (set_member c1 ''epk'' dh, set_member k ''params'' dh))) = Inr (claims', key)"
    by (auto simp: claims_key_def BIDGetKeyAgreementParams_def BIDGenerateECDHParams_def BIDSetKeyAgreementObject_def
        BIDAllocJsonObject_def bid_result)
  have pair: "k = JObject ([(''params'', JObject [(''kty'', JString ''EC''), (''crv'', JString crv)])] @ point_of env (x, y) @
      [(''d'', JString (b64_text True (BN_bn2bin env d)))])"
    by (rule BIDGenerateECDHKey_pair[OF k]) (use assms(2) in auto)
  have "\<exists>ms. c1 = JObject ms" using BIDJsonObjectSet_get[OF c1, of "''epk''"] by (cases c1) simp_all
  with r crv show ?thesis
    by (intro that[OF crv]) (auto simp: pair point_of_def dh_params_def dh_key_def set_member_def update_conv')
qed

text \<open>The agreement, for a key pair whose parameters have the public value of the peer.\<close>

lemma dh_key_agreement:
  assumes "crv \<in> {''P-256'', ''P-384'', ''P-521''}"
    and "\<And>n. n \<in> {fst q, snd q, d, fst peer, snd peer} \<Longrightarrow> BN_bin2bn env (BN_bn2bin env n) = n \<and> length (BN_bn2bin env n) \<le> 2048"
    and "\<And>curve. EC_POINT_valid env curve q \<and> EC_POINT_valid env curve peer"
  shows "BIDECDHSecretAgreement env (Some (dh_key env crv peer q d)) (Some (dh_params env crv peer)) =
    (let curve = (if crv = ''P-256'' then 256 else if crv = ''P-384'' then 384 else 521) in
     case ECDH_compute_key env curve d peer of
       None \<Rightarrow> Inl BID_S_CRYPTO_ERROR
     | Some raw \<Rightarrow> if curve div 8 + 1 < length raw then Inl BID_S_CRYPTO_ERROR else Inr (SecretHandleDesc (Some raw)))"
proof -
  have own: "BIDGetJsonBNValue env (Some (dh_key env crv peer q d)) (Some k) BID_ENCODING_BASE64_URL = Inr n"
    if "(k, n) \<in> {(''x'', fst q), (''y'', snd q), (''d'', d)}" for k n
    unfolding dh_key_def by (rule BIDGetJsonBNValue_b64url) (use that assms(2) in \<open>auto simp: point_of_def\<close>)
  have other: "BIDGetJsonBNValue env (Some (dh_params env crv peer)) (Some k) BID_ENCODING_BASE64_URL = Inr n"
    if "(k, n) \<in> {(''x'', fst peer), (''y'', snd peer)}" for k n
    unfolding dh_params_def by (rule BIDGetJsonBNValue_b64url) (use that assms(2) in \<open>auto simp: point_of_def\<close>)
  have params: "json_object_get (Some (dh_key env crv peer q d)) ''params'' = Some (dh_params env crv peer)" by (simp add: dh_key_def)
  have curve: "BIDGetECDHCurve (Some (dh_params env crv peer)) = Inr (if crv = ''P-256'' then 256 else if crv = ''P-384'' then 384 else 521)"
    using assms(1) by (auto simp: dh_params_def BIDGetECDHCurve_def)
  show ?thesis
    using assms(3) by (simp add: BIDECDHSecretAgreement_def guard_def params own other curve BIDMakeECKeyByCurve_def
        BIDGetJsonECPointValue_def BIDKDFIdentity_def BIDAllocSecret_def split: option.split)
qed

text \<open>The relying party takes the parameters from the assertion and adds its own key pair.\<close>

lemma populate_private_epk:
  assumes "populate_private context (Some claims) BIDAllocJsonObject = Inr p" "flag_set (ContextOptions context) BID_CONTEXT_ECDH_KEYEX"
    and "json_object_get (Some claims) ''epk'' = Some params"
  shows "json_object_get (Some p) ''epk'' = Some (JObject [(''params'', params)])"
  using assms by (auto simp: populate_private_def BIDGetKeyAgreementObject_def BIDSetKeyAgreementObject_def bid_result
      BIDJsonObjectSet_get BIDAllocJsonObject_def)

lemma verifier_key_agreement:
  assumes "BIDVerifierKeyAgreement (env\<lparr>EC_KEY_generate_key := \<lambda>_. Some (x, y, d)\<rparr>) ri0 = (Inr (), ri)"
    and "json_object_get (Some (PrivateAttributes ri0)) ''epk'' = Some (JObject [(''params'', dh_params env crv peer)])"
    and "\<And>n. n \<in> {x, y, d} \<Longrightarrow> length (BN_bn2bin env n) \<le> 2048"
  shows "json_object_get (Some (PrivateAttributes ri)) ''epk'' = Some (dh_key env crv peer (x, y) d)" "SecretHandle ri = SecretHandle ri0"
proof -
  let ?env = "env\<lparr>EC_KEY_generate_key := \<lambda>_. Some (x, y, d)\<rparr>"
  from assms(1,2) obtain k where k: "BIDGenerateECDHKey ?env (Some (dh_params env crv peer)) = Inr k"
    by (cases "BIDGenerateECDHKey ?env (Some (dh_params env crv peer))") (auto simp: BIDVerifierKeyAgreement_def BIDGetKeyAgreementObject_def)
  have pair: "k = JObject ([(''params'', dh_params env crv peer)] @ point_of env (x, y) @
      [(''d'', JString (b64_text True (BN_bn2bin env d)))])"
    by (rule BIDGenerateECDHKey_pair[OF k]) (use assms(3) in auto)
  obtain ms where ms: "PrivateAttributes ri0 = JObject ms" using assms(2) by (cases "PrivateAttributes ri0") simp_all
  have "BIDVerifierKeyAgreement ?env ri0 =
      (Inr (), ri0\<lparr>PrivateAttributes := JObject (AList.update ''epk'' (dh_key env crv peer (x, y) d) ms)\<rparr>)"
    using assms(2) k by (simp add: BIDVerifierKeyAgreement_def BIDGetKeyAgreementObject_def pair point_of_def dh_key_def set_member_def ms)
  with assms(1) show "json_object_get (Some (PrivateAttributes ri)) ''epk'' = Some (dh_key env crv peer (x, y) d)"
    "SecretHandle ri = SecretHandle ri0" by (auto simp: update_conv')
qed

lemma dh_public_value:
  "json_object_get (Some (PrivateAttributes i)) ''epk'' = Some (dh_key env crv peer q d) \<Longrightarrow>
    BIDGetKeyAgreementPublicValue i = Inr (JObject (point_of env q))"
  by (simp add: BIDGetKeyAgreementPublicValue_def BIDGetKeyAgreementObject_def dh_key_def point_of_def BIDAllocJsonObject_def)

text \<open>The user agent replaces its own public value in the parameters by that of the relying party.\<close>

lemma dh_set_public_value:
  assumes "json_object_get (Some (PrivateAttributes i)) ''epk'' = Some (dh_key env crv peer q d)"
  obtains i' where "BIDSetKeyAgreementPublicValue i (Some (JObject (point_of env q'))) = (Inr (), i')"
    "json_object_get (Some (PrivateAttributes i')) ''epk'' = Some (dh_key env crv q' q d)" "SecretHandle i' = SecretHandle i"
    "json_is_object (Some (PrivateAttributes i'))"
proof -
  obtain ms where ms: "PrivateAttributes i = JObject ms" using assms by (cases "PrivateAttributes i") simp_all
  have "BIDSetKeyAgreementPublicValue i (Some (JObject (point_of env q'))) =
      (Inr (), i\<lparr>PrivateAttributes := JObject (AList.update ''epk'' (dh_key env crv q' q d) ms)\<rparr>)"
    using assms by (simp add: BIDSetKeyAgreementPublicValue_def BIDGetKeyAgreementObject_def dh_key_def dh_params_def point_of_def
        set_member_def ms)
  then show ?thesis by (rule that) (simp_all add: update_conv')
qed

lemma dh_secret_agreement:
  assumes "SecretHandle i = None" "json_object_get (Some (PrivateAttributes i)) ''epk'' = Some (dh_key env crv peer q d)"
    and "BIDIdentitySecretAgreement env context i = (Inr (), i')"
  obtains h where "BIDECDHSecretAgreement env (Some (dh_key env crv peer q d)) (Some (dh_params env crv peer)) = Inr h"
    "SecretHandle i' = Some h"
  using assms by (auto simp: BIDIdentitySecretAgreement_def BIDGetKeyAgreementObject_def Let_def bid_result dh_key_def
      split: sum.splits intro: that)

lemma dh_secret_agreement_ok:
  assumes "SecretHandle i = None" "json_object_get (Some (PrivateAttributes i)) ''epk'' = Some (dh_key env crv peer q d)"
    and "curve_name context = Inr crv"
    and "BIDECDHSecretAgreement env (Some (dh_key env crv peer q d)) (Some (dh_params env crv peer)) = Inr h"
  shows "BIDIdentitySecretAgreement env context i = (Inr (), i\<lparr>SecretHandle := Some h\<rparr>)"
proof -
  have params: "json_object_get (Some (dh_key env crv peer q d)) ''params'' = Some (dh_params env crv peer)" by (simp add: dh_key_def)
  have "\<exists>bits. BIDGetECDHCurve (Some (dh_params env crv peer)) = Inr bits \<and> \<not> bits < unat (ECDHCurve context)"
    "flag_set (ContextOptions context) BID_CONTEXT_ECDH_KEYEX"
    using assms(3) by (auto simp: curve_name_def BIDGetECDHCurve_def dh_params_def split: if_splits)
  then show ?thesis using assms(1,2,4) by (auto simp: BIDIdentitySecretAgreement_def BIDGetKeyAgreementObject_def params guard_def)
qed

text \<open>A session key depends on the agreed secret only.\<close>

lemma session_subkey_agreed:
  assumes "BIDDeriveSessionSubkey env context i salt = (Inr key, i1)"
  shows "BIDIdentitySecretAgreement env context i = (Inr (), i1)"
    "BIDIdentitySecretAgreement env context' j = (Inr (), j1) \<Longrightarrow> SecretHandle j1 = SecretHandle i1 \<Longrightarrow>
      BIDDeriveSessionSubkey env context' j salt = (Inr key, j1)"
  using assms by (auto simp: BIDDeriveSessionSubkey_def bid_result)

lemma curve_name_cases: "curve_name context = Inr crv \<Longrightarrow> crv \<in> {''P-256'', ''P-384'', ''P-521''}"
  by (auto simp: curve_name_def split: if_splits)

text \<open>Both key pairs lead to the same secret.\<close>

lemma dh_agreement_commutes:
  assumes "crv \<in> {''P-256'', ''P-384'', ''P-521''}"
    and "\<And>n. n \<in> {xu, yu, du, xr, yr, dr} \<Longrightarrow> BN_bin2bn env (BN_bn2bin env n) = n \<and> length (BN_bn2bin env n) \<le> 2048"
    and "\<And>curve. EC_POINT_valid env curve (xu, yu) \<and> EC_POINT_valid env curve (xr, yr) \<and>
      ECDH_compute_key env curve du (xr, yr) = ECDH_compute_key env curve dr (xu, yu)"
  shows "BIDECDHSecretAgreement env (Some (dh_key env crv (xr, yr) (xu, yu) du)) (Some (dh_params env crv (xr, yr))) =
    BIDECDHSecretAgreement env (Some (dh_key env crv (xu, yu) (xr, yr) dr)) (Some (dh_params env crv (xu, yu)))"
proof -
  have u: "BIDECDHSecretAgreement env (Some (dh_key env crv (xr, yr) (xu, yu) du)) (Some (dh_params env crv (xr, yr))) =
      (let curve = (if crv = ''P-256'' then 256 else if crv = ''P-384'' then 384 else 521) in
       case ECDH_compute_key env curve du (xr, yr) of
         None \<Rightarrow> Inl BID_S_CRYPTO_ERROR
       | Some raw \<Rightarrow> if curve div 8 + 1 < length raw then Inl BID_S_CRYPTO_ERROR else Inr (SecretHandleDesc (Some raw)))"
    by (rule dh_key_agreement[OF assms(1)]) (use assms(2,3) in auto)
  have r: "BIDECDHSecretAgreement env (Some (dh_key env crv (xu, yu) (xr, yr) dr)) (Some (dh_params env crv (xu, yu))) =
      (let curve = (if crv = ''P-256'' then 256 else if crv = ''P-384'' then 384 else 521) in
       case ECDH_compute_key env curve dr (xu, yu) of
         None \<Rightarrow> Inl BID_S_CRYPTO_ERROR
       | Some raw \<Rightarrow> if curve div 8 + 1 < length raw then Inl BID_S_CRYPTO_ERROR else Inr (SecretHandleDesc (Some raw)))"
    by (rule dh_key_agreement[OF assms(1)]) (use assms(2,3) in auto)
  show ?thesis by (simp only: u r Let_def assms(3))
qed

text \<open>The claims of a context with key agreement, and the key that is kept for them.\<close>

lemma make_claims_members:
  assumes "BIDMakeClaims (env\<lparr>EC_KEY_generate_key := \<lambda>_. Some (x, y, d)\<rparr>) context cb fl userClaims = Inr (claims, Some key)"
    and "\<And>n. n \<in> {x, y, d} \<Longrightarrow> length (BN_bn2bin env n) \<le> 2048"
  obtains crv where "curve_name context = Inr crv" "json_object_get (Some claims) ''epk'' = Some (dh_params env crv (x, y))"
    "key = dh_key env crv (x, y) (x, y) d"
proof -
  let ?env = "env\<lparr>EC_KEY_generate_key := \<lambda>_. Some (x, y, d)\<rparr>"
  from assms(1) obtain c0 c1 where k: "claims_key ?env context c0 = Inr (c1, key)"
    and c: "claims = c1 \<or> (\<exists>opts. BIDJsonObjectSet c1 ''opts'' opts 0 = Inr claims)"
    by (auto simp: BIDMakeClaims_def Let_def bid_result split: if_splits prod.splits)
  obtain crv where crv: "curve_name context = Inr crv" "json_object_get (Some c1) ''epk'' = Some (dh_params env crv (x, y))"
    "key = dh_key env crv (x, y) (x, y) d"
    by (rule claims_key_members[OF k]) (use assms(2) in auto)
  have "json_object_get (Some claims) ''epk'' = json_object_get (Some c1) ''epk''"
    using c BIDJsonObjectSet_get[of c1 "''opts''" _ 0 claims "''epk''"] by auto
  with crv show ?thesis by (intro that) simp_all
qed

text \<open>The answer of the relying party: its public value, and the secret it computed to sign it.\<close>

lemma handshake_response:
  assumes make: "BIDMakeRPResponseToken env rctx (Some ri) (Some rclaims) (BID_RP_FLAG_HAVE_SESSION_KEY OR BID_RP_FLAG_INITIAL) heap =
      (Inr s, rfl, Some ri')"
    and opts: "rp_proto_opts (Some ri) = Inr opts" "\<not> flag_set opts BID_VERIFY_FLAG_MUTUAL_AUTH"
    and rkey: "SecretHandle ri = None" "json_object_get (Some (PrivateAttributes ri)) ''epk'' = Some (dh_key env crv peer q d)"
  obtains p key a i1 h where "BIDPackBackedAssertion env (bare_token p) (Some key) None = Inr (s, a)"
    "json_object_get (Some p) ''epk'' = Some (JObject (point_of env q))"
    "\<forall>k. k \<notin> {''epk'', ''tkt'', ''jti''} \<longrightarrow> json_object_get (Some p) k = json_object_get (Some rclaims) k"
    "BIDDeriveSessionSubkey env rctx ri ''RRK'' = (Inr key, i1)" "SecretHandle i1 = Some h" "SecretHandle ri' = Some h"
    "BIDECDHSecretAgreement env (Some (dh_key env crv peer q d)) (Some (dh_params env crv peer)) = Inr h"
proof -
  let ?fl = "BID_RP_FLAG_HAVE_SESSION_KEY OR BID_RP_FLAG_INITIAL :: u32"
  have fl: "flag_set ?fl BID_RP_FLAG_HAVE_SESSION_KEY" "flag_set ?fl BID_RP_FLAG_INITIAL" by (simp_all add: flag_set_def)
  have "\<not> (flag_set ?fl BID_RP_FLAG_INITIAL \<and> flag_set opts BID_VERIFY_FLAG_MUTUAL_AUTH)" using opts(2) by simp
  from rp_make_session[OF make fl(1) opts(1) this] obtain p0 key i1 p r a where
    p0: "rp_session_claims ri (flag_set ?fl BID_RP_FLAG_INITIAL) rclaims = Inr p0"
    and d: "BIDDeriveSessionSubkey env rctx ri ''RRK'' = (Inr key, i1)"
    and n: "rp_nonces env i1 (flag_set ?fl BID_RP_FLAG_FORCE_EXTRA_ROUND_TRIP \<or> flag_set opts BID_VERIFY_FLAG_EXTRA_ROUND_TRIP) False p0 = (Inr p, r)"
    and r: "Some ri' = Some r" and pack: "BIDPackBackedAssertion env (bare_token p) (Some key) None = Inr (s, a)" .
  have epk: "json_object_get (Some p) ''epk'' = Some (JObject (point_of env q))"
    using rp_session_claims_epk[OF p0] fl(2) dh_public_value[OF rkey(2)] rp_nonces_Inr(2)[OF n, of "''epk''"] by simp
  from dh_secret_agreement[OF rkey session_subkey_agreed(1)[OF d]] obtain h where
    h: "BIDECDHSecretAgreement env (Some (dh_key env crv peer q d)) (Some (dh_params env crv peer)) = Inr h" "SecretHandle i1 = Some h" .
  have same: "json_object_get (Some p) k = json_object_get (Some rclaims) k" if "k \<notin> {''epk'', ''tkt'', ''jti''}" for k
    using rp_nonces_Inr(2)[OF n, of k] rp_session_claims_get[OF p0, of k] that by simp
  show ?thesis by (rule that[OF pack epk _ d h(2) _ h(1)]) (use same rp_nonces_Inr(1)[OF n] h(2) r in auto)
qed

text \<open>The user agent computes the same secret from the answer.\<close>

lemma handshake_user:
  assumes "curve_name uctx = Inr crv" "json_object_get (Some (PrivateAttributes ui)) ''epk'' = Some (dh_key env crv peer q d)"
    and "SecretHandle ui = None" "BIDECDHSecretAgreement env (Some (dh_key env crv q' q d)) (Some (dh_params env crv q')) = Inr h"
    and "BIDDeriveSessionSubkey env rctx ri salt = (Inr key, i1)" "SecretHandle i1 = Some h"
  obtains u0 where "BIDSetKeyAgreementPublicValue ui (Some (JObject (point_of env q'))) = (Inr (), u0)"
    "json_is_object (Some (PrivateAttributes u0))" "BIDDeriveSessionSubkey env uctx u0 salt = (Inr key, u0\<lparr>SecretHandle := Some h\<rparr>)"
proof -
  from dh_set_public_value[OF assms(2), of q'] obtain u0 where
    u0: "BIDSetKeyAgreementPublicValue ui (Some (JObject (point_of env q'))) = (Inr (), u0)"
      "json_object_get (Some (PrivateAttributes u0)) ''epk'' = Some (dh_key env crv q' q d)"
      "SecretHandle u0 = SecretHandle ui" "json_is_object (Some (PrivateAttributes u0))" .
  have "BIDIdentitySecretAgreement env uctx u0 = (Inr (), u0\<lparr>SecretHandle := Some h\<rparr>)"
    by (rule dh_secret_agreement_ok[OF _ u0(2) assms(1,4)]) (simp add: u0(3) assms(3))
  then have "BIDDeriveSessionSubkey env uctx u0 salt = (Inr key, u0\<lparr>SecretHandle := Some h\<rparr>)"
    by (rule session_subkey_agreed(2)[OF assms(5)]) (simp add: assms(6))
  then show ?thesis by (rule that[OF u0(1,4)])
qed

text \<open>A session that was opened for the user, and its completion.\<close>

lemma begin_interaction_Inr:
  assumes "begin_interaction env ui context aud cb name fl userClaims = Inr st"
  obtains ms where "st = SessionPending ms" "BIDCanInteractP context fl" "ms_ulReqFlags ms = fl"
    "BrowserGetAssertion ui aud (ms_Claims ms) name fl = Inr ()"
  using assms by (auto simp: begin_interaction_def bid_result split: if_splits prod.splits intro: that)

lemma complete_session_Inr:
  assumes "BIDCompleteModalSession env context outcome session = Inr cc"
  obtains a i p where "outcome = Inr a" "cc_szAssertion cc = Some a" "cc_ulRetFlags cc = 0"
    "BIDAcquireAssertionFromString env context (Some a) True = Inr (Some i, cc_expiryTime cc)"
    "cc_identity cc = Some (i\<lparr>PrivateAttributes := p\<rparr>)"
    "flag_set (ContextOptions context) BID_CONTEXT_ECDH_KEYEX \<longrightarrow> json_object_get (Some p) ''epk'' = ms_Key session"
    "flag_set (ms_ulReqFlags session) BID_ACQUIRE_FLAG_MUTUAL_AUTH \<longrightarrow>
      json_object_get (Some p) ''nonce'' = json_object_get (Some (ms_Claims session)) ''nonce''"
proof -
  from assms obtain a i e p0 p where 1: "outcome = Inr a" "BIDAcquireAssertionFromString env context (Some a) True = Inr (Some i, e)"
    and p0: "(if flag_set (ContextOptions context) BID_CONTEXT_ECDH_KEYEX then BIDSetKeyAgreementObject (PrivateAttributes i) (ms_Key session)
        else Inr (PrivateAttributes i)) = Inr p0"
    and p: "(if flag_set (ms_ulReqFlags session) BID_ACQUIRE_FLAG_MUTUAL_AUTH
        then BIDJsonObjectSet p0 ''nonce'' (json_object_get (Some (ms_Claims session)) ''nonce'') 0 else Inr p0) = Inr p"
    and cc: "cc = \<lparr>cc_szAssertion = Some a, cc_identity = Some (i\<lparr>PrivateAttributes := p\<rparr>), cc_expiryTime = e, cc_ulRetFlags = 0\<rparr>"
    by (auto simp: BIDCompleteModalSession_def bid_result)
  show ?thesis
    by (rule that[OF 1(1), of i p])
      (use p0 p in \<open>auto simp: cc 1(2) BIDSetKeyAgreementObject_def BIDJsonObjectSet_get split: if_splits\<close>)
qed

text \<open>A browser is asked only if there is no ticket.\<close>

lemma begin_session_Inr:
  assumes "BIDBeginModalSession env ui now context tc (Some aud) cb name fl userClaims heap = Some (Inr st)"
  shows "(\<exists>cc. st = SessionDone cc \<and> flag_set (ContextOptions context) BID_CONTEXT_REAUTH \<and> \<not> flag_set fl BID_ACQUIRE_FLAG_NO_CACHED \<and>
      BIDBeginModalSessionReauth env now context tc (Some aud) cb name fl heap = Some (Inr cc)) \<or>
    begin_interaction env ui context aud cb name fl userClaims = Inr st"
  using assms by (auto simp: BIDBeginModalSession_def Let_def split: if_splits option.splits sum.splits)

lemma reauth_flags: "flag_set (or_flag b BID_ACQUIRE_FLAG_REAUTH_MUTUAL (0 OR BID_ACQUIRE_FLAG_REAUTH)) BID_ACQUIRE_FLAG_REAUTH"
  by (simp add: or_flag_def flag_set_def)

lemma begin_reauth_Inr:
  assumes "BIDBeginModalSessionReauth env now context tc aud cb name fl heap = Some (Inr cc)"
  shows "flag_set (cc_ulRetFlags cc) BID_ACQUIRE_FLAG_REAUTH"
    "\<exists>tfl. BIDGetReauthAssertion env now context tc aud cb name fl True True heap =
      Some (Inr (cc_szAssertion cc, cc_identity cc, cc_expiryTime cc, tfl))"
  using assms reauth_flags by (auto simp: BIDBeginModalSessionReauth_def bid_result)

section \<open>A sample handshake\<close>

definition hs_ctx :: BIDContextDesc where
  "hs_ctx = (new_context BID_CONTEXT_ECDH_KEYEX)\<lparr>ECDHCurve := BID_CONTEXT_ECDH_CURVE_P256\<rparr>"

definition hs_response :: json where
  "hs_response = JObject [(''exp'', JInteger 8000), (''epk'', JObject (point_of sample_env (3, 4)))]"

definition hs_env :: bid_env where
  "hs_env = verify_env\<lparr>
     json_loads := (\<lambda>s. if s = ''h'' then Some hs256_header else if s = ''r'' then Some hs_response else None),
     json_dumps := (\<lambda>j. if j = hs256_header then Some ''h'' else if j = hs_response then Some ''r'' else None)\<rparr>"

definition hs_user :: BIDIdentityDesc where
  "hs_user = \<lparr>Attributes = JObject [], PrivateAttributes = JObject [(''epk'', dh_key hs_env ''P-256'' (2, 4) (2, 4) 2)], SecretHandle = None\<rparr>"

definition hs_rp :: "json \<Rightarrow> BIDSecretHandleDesc option \<Rightarrow> BIDIdentityDesc" where
  "hs_rp epk secret = \<lparr>Attributes = JObject [], PrivateAttributes = JObject [(''epk'', epk), (''a-exp'', JInteger 8000)], SecretHandle = secret\<rparr>"

lemma hs_env_simps [simp]:
  "json_dumps hs_env hs256_header = Some ''h''" "json_dumps hs_env hs_response = Some ''r''"
  "HMAC hs_env md key bs = take 2 (key @ bs @ [0, 0])" "BN_bn2bin hs_env n = [word_of_int n]" "BN_bin2bn hs_env [b] = uint b"
  "EC_POINT_valid hs_env curve q" "ECDH_compute_key hs_env curve d q = Some [word_of_int (d + fst q)]"
  by (simp_all add: hs_env_def verify_env_def sample_bid_env_def sample_env_def crypto_env.defs hs256_header_def hs_response_def)

lemma hs_ctx_simps [simp]:
  "flag_set (ContextOptions hs_ctx) BID_CONTEXT_ECDH_KEYEX" "Skew hs_ctx = 0" "curve_name hs_ctx = Inr ''P-256''"
  by (simp_all add: hs_ctx_def new_context_def flag_set_def curve_name_def)

lemma hs_env_library: "json_library hs_env"
  by (simp add: json_library_def hs_env_def hs256_header_def hs_response_def)

lemma hs_env_mac: "HMAC hs_env EVP_sha256 k m \<noteq> []"
  by (cases k) simp_all

lemma hs_point: "point_of sample_env q = point_of hs_env q" by (simp add: point_of_def sample_env_def)

lemma hs_claims: "BIDMakeClaims (hs_env\<lparr>EC_KEY_generate_key := \<lambda>_. Some (2, 4, 2)\<rparr>) hs_ctx None 0 None =
    Inr (JObject [(''epk'', dh_params hs_env ''P-256'' (2, 4))], Some (dh_key hs_env ''P-256'' (2, 4) (2, 4) 2))"
  by (simp add: BIDMakeClaims_def claims_key_def BIDGetKeyAgreementParams_def BIDGenerateECDHParams_def BIDSetKeyAgreementObject_def
      BIDAllocJsonObject_def BIDGenerateECDHKey_def BIDGetECDHCurve_def BIDMakeECKeyByCurve_def BIDMakeProtocolOpts_def BIDSetJsonBNValue_def BIDJsonBinaryValue_def
      BIDBase64UrlEncode_text dh_params_def dh_key_def point_of_def set_member_def)

lemma hs_verifier: "BIDVerifierKeyAgreement (hs_env\<lparr>EC_KEY_generate_key := \<lambda>_. Some (3, 4, 3)\<rparr>)
      (hs_rp (JObject [(''params'', dh_params hs_env ''P-256'' (2, 4))]) None) =
    (Inr (), hs_rp (dh_key hs_env ''P-256'' (2, 4) (3, 4) 3) None)"
  by (simp add: BIDVerifierKeyAgreement_def hs_rp_def BIDGetKeyAgreementObject_def BIDGenerateECDHKey_def BIDGetECDHCurve_def BIDMakeECKeyByCurve_def
      BIDAllocJsonObject_def BIDSetJsonBNValue_def BIDJsonBinaryValue_def BIDBase64UrlEncode_text dh_params_def dh_key_def point_of_def set_member_def)

lemma hs_secret: "BIDDeriveSessionSubkey hs_env hs_ctx (hs_rp (dh_key hs_env ''P-256'' (2, 4) (3, 4) 3) None) ''RRK'' =
    (Inr (hmac_jwk [5, 66]), hs_rp (dh_key hs_env ''P-256'' (2, 4) (3, 4) 3) (Some (SecretHandleDesc (Some [5]))))"
proof -
  have "BIDECDHSecretAgreement hs_env (Some (dh_key hs_env ''P-256'' (2, 4) (3, 4) 3)) (Some (dh_params hs_env ''P-256'' (2, 4))) =
      (let curve = (if ''P-256'' = ''P-256'' then 256 else if ''P-256'' = ''P-384'' then 384 else 521) in
       case ECDH_compute_key hs_env curve 3 (2, 4) of
         None \<Rightarrow> Inl BID_S_CRYPTO_ERROR
       | Some raw \<Rightarrow> if curve div 8 + 1 < length raw then Inl BID_S_CRYPTO_ERROR else Inr (SecretHandleDesc (Some raw)))"
    by (rule dh_key_agreement) auto
  then have "BIDIdentitySecretAgreement hs_env hs_ctx (hs_rp (dh_key hs_env ''P-256'' (2, 4) (3, 4) 3) None) =
      (Inr (), (hs_rp (dh_key hs_env ''P-256'' (2, 4) (3, 4) 3) None)\<lparr>SecretHandle := Some (SecretHandleDesc (Some [5]))\<rparr>)"
    by (intro dh_secret_agreement_ok[of _ hs_env "''P-256''" "(2, 4)" "(3, 4)" 3]) (simp_all add: hs_rp_def)
  then show ?thesis
    by (simp add: BIDDeriveSessionSubkey_def BIDDeriveKey_def hs_rp_def BIDSalt_def
      bytes_of_string_def BIDJsonBinaryValue_def BIDBase64UrlEncode_text BIDAllocJsonObject_def hmac_jwk_def)
qed

lemma hs_make:
  obtains s where "BIDMakeRPResponseToken hs_env hs_ctx (Some (hs_rp (dh_key hs_env ''P-256'' (2, 4) (3, 4) 3) None)) (Some sample_assertion)
      (BID_RP_FLAG_HAVE_SESSION_KEY OR BID_RP_FLAG_INITIAL) sample_heap =
    (Inr s, 0, Some (hs_rp (dh_key hs_env ''P-256'' (2, 4) (3, 4) 3) (Some (SecretHandleDesc (Some [5])))))"
proof -
  let ?rp = "hs_rp (dh_key hs_env ''P-256'' (2, 4) (3, 4) 3)"
  have c: "rp_session_claims (?rp None) True sample_assertion = Inr hs_response" "rp_proto_opts (Some (?rp None)) = Inr 0"
    "rp_nonces hs_env (?rp h) False False hs_response = (Inr hs_response, ?rp h)" for h
    by (simp_all add: rp_session_claims_def BIDGetIdentityReauthTicket_def hs_rp_def sample_assertion_def hs_response_def hs_point
        rp_proto_opts_def has_private_def BIDParseProtocolOpts_def rp_nonces_def dh_public_value BIDSetKeyAgreementObject_def)
  have mac: "length (HMAC hs_env EVP_sha256 [5, 66] m) = 2" for m by simp
  obtain s jwt where "BIDMakeSignature hs_env (token_for hs_response) (Some (hmac_jwk [5, 66])) None = Inr (s, jwt)"
    by (rule token_made[OF hs_env_library hs_env_simps(1,2) mac])
  then obtain s a where p: "BIDPackBackedAssertion hs_env (bare_token hs_response) (Some (hmac_jwk [5, 66])) None = Inr (s, a)"
    by (simp add: BIDPackBackedAssertion_def bare_token_def token_for_def)
  have "flag_set (BID_RP_FLAG_HAVE_SESSION_KEY OR BID_RP_FLAG_INITIAL) BID_RP_FLAG_HAVE_SESSION_KEY"
    "flag_set (BID_RP_FLAG_HAVE_SESSION_KEY OR BID_RP_FLAG_INITIAL) BID_RP_FLAG_INITIAL"
    "\<not> flag_set 0 BID_VERIFY_FLAG_MUTUAL_AUTH" "\<not> flag_set 0 BID_VERIFY_FLAG_EXTRA_ROUND_TRIP"
    "\<not> flag_set (BID_RP_FLAG_HAVE_SESSION_KEY OR BID_RP_FLAG_INITIAL) BID_RP_FLAG_FORCE_EXTRA_ROUND_TRIP"
    by (simp_all add: flag_set_def)
  with p show ?thesis by (intro that[of s]) (simp add: BIDMakeRPResponseToken_def c hs_secret or_flag_def)
qed

text \<open>A browser that always returns one assertion, and an assertion it can return.\<close>

definition sample_browser :: "string \<Rightarrow> browser" where
  "sample_browser a = \<lparr>BrowserGetAssertion = \<lambda>_ _ _ _. Inr (), RunModalSession = \<lambda>_ _ _ _. Inr (Some (Inr a))\<rparr>"

lemma sample_from_string:
  obtains s i where "BIDAcquireAssertionFromString verify_env rp_ctx (Some s) True = Inr (Some i, 9)"
proof -
  have mac: "length (HMAC verify_env EVP_sha256 k m) = 2" for k m by simp
  obtain c cert where c: "CHR ''~'' \<notin> set c" "BIDParseJWT verify_env c = Inr (Some cert)" "Payload cert = Some sample_cert"
    by (rule token_made[OF verify_env_library verify_env_simps(1,2) mac, of "[1]"]) blast
  obtain a jwt where a: "CHR ''~'' \<notin> set a" "BIDParseJWT verify_env a = Inr (Some jwt)" "Payload jwt = Some sample_assertion"
    by (rule token_made[OF verify_env_library verify_env_simps(1,3) mac, of "[1]"]) blast
  let ?ba = "\<lparr>ba_EncData = c @ ''~'' @ a, Assertion = Some jwt, rCertificates = [cert]\<rparr>"
  have "unpack_loop verify_env (c @ ''~'' @ a) [] = Inr ([cert], Some jwt)"
    using unpack_part[OF c(1), of "[]" verify_env a] c(2) a(1,2) by (simp add: unpack_last)
  then have un: "BIDUnpackBackedAssertion verify_env (Some (c @ ''~'' @ a)) = Inr ?ba"
    by (simp add: BIDUnpackBackedAssertion_def guard_def)
  have leaf: "BIDLeafCert \<lparr>ba_EncData = e, Assertion = Some jwt, rCertificates = [cert]\<rparr> = Some sample_cert" for e using c(3) by (simp add: BIDLeafCert_def)
  have [simp]: "\<not> flag_set 0 BID_VERIFY_FLAG_X509" "\<not> flag_set 0 BID_VERIFY_FLAG_RP" by (simp_all add: flag_set_def)
  obtain p where "populate_private rp_ctx (Some sample_assertion) BIDAllocJsonObject = Inr p"
    by (simp add: populate_private_def sample_assertion_def BIDAllocJsonObject_def BIDJsonObjectSet_none)
  then obtain i where i: "BIDPopulateIdentity verify_env rp_ctx ?ba 0 = Inr i"
    using a(3) by (simp add: BIDPopulateIdentity_def leaf BIDAllocIdentity_def) (simp add: sample_cert_def)
  have "timestamp_or_zero (BIDGetJsonTimestampValue (Some sample_cert) ''exp'') = 9"
    by (simp add: sample_cert_def BIDGetJsonTimestampValue_def timestamp_or_zero_def signed_divide_int_def)
  then have "BIDAcquireAssertionFromString verify_env rp_ctx (Some (c @ ''~'' @ a)) True = Inr (Some i, 9)"
    using i unfolding BIDAcquireAssertionFromString_def un by (simp add: leaf)
  then show ?thesis by (rule that)
qed

lemma sample_acquired:
  obtains s cc where "BIDAcquireAssertionEx verify_env (sample_browser s) 0 rp_ctx None (Some ''https://rp'') None None 0 None sample_heap = Some (Inr cc)"
    "cc_szAssertion cc = Some s" "cc_expiryTime cc = 9"
proof -
  obtain s i where i: "BIDAcquireAssertionFromString verify_env rp_ctx (Some s) True = Inr (Some i, 9)" by (rule sample_from_string)
  have "BIDCanInteractP rp_ctx 0" "\<not> flag_set 0 BID_ACQUIRE_FLAG_MUTUAL_AUTH"
    by (simp_all add: BIDCanInteractP_def rp_ctx_def new_context_def flag_set_def)
  then have "BIDAcquireAssertionEx verify_env (sample_browser s) 0 rp_ctx None (Some ''https://rp'') None None 0 None sample_heap =
      Some (Inr \<lparr>cc_szAssertion = Some s, cc_identity = Some i, cc_expiryTime = 9, cc_ulRetFlags = 0\<rparr>)"
    by (simp add: BIDAcquireAssertionEx_def BIDBeginModalSession_def begin_interaction_def BIDMakeClaims_def
      BIDMakeProtocolOpts_def sample_browser_def guard_def BIDCompleteModalSession_def i)
  then show ?thesis by (rule that) simp_all
qed

section \<open>Properties\<close>



text \<open>C12: where an acquired assertion comes from.  It is either made from a cached ticket, which is
  reported and needs no browser, or the user was allowed to be asked and the browser returned it
  for the claims of this request; then the identity has the key pair of the claims, and with
  mutual authentication their nonce.  A browser that ends without completing its session gives
  success with no assertion.\<close>

theorem acquire_sound:
  assumes "BIDAcquireAssertionEx env ui now context tc (Some aud) cb name fl userClaims heap = Some (Inr cc)"
  shows "(flag_set (cc_ulRetFlags cc) BID_ACQUIRE_FLAG_REAUTH \<and> flag_set (ContextOptions context) BID_CONTEXT_REAUTH \<and>
      \<not> flag_set fl BID_ACQUIRE_FLAG_NO_CACHED \<and>
      (\<exists>tfl. BIDGetReauthAssertion env now context tc (Some aud) cb name fl True True heap =
        Some (Inr (cc_szAssertion cc, cc_identity cc, cc_expiryTime cc, tfl))) \<and>
      (\<forall>ui'. BIDAcquireAssertionEx env ui' now context tc (Some aud) cb name fl userClaims heap = Some (Inr cc))) \<or>
    (BIDCanInteractP context fl \<and> cc_ulRetFlags cc = 0 \<and>
      (\<exists>ms. begin_interaction env ui context aud cb name fl userClaims = Inr (SessionPending ms) \<and>
        (RunModalSession ui aud (ms_Claims ms) name fl = Inr None \<and> cc_szAssertion cc = None \<or>
         (\<exists>a i p. RunModalSession ui aud (ms_Claims ms) name fl = Inr (Some (Inr a)) \<and> cc_szAssertion cc = Some a \<and>
           BIDAcquireAssertionFromString env context (Some a) True = Inr (Some i, cc_expiryTime cc) \<and>
           cc_identity cc = Some (i\<lparr>PrivateAttributes := p\<rparr>) \<and>
           (flag_set (ContextOptions context) BID_CONTEXT_ECDH_KEYEX \<longrightarrow> json_object_get (Some p) ''epk'' = ms_Key ms) \<and>
           (flag_set fl BID_ACQUIRE_FLAG_MUTUAL_AUTH \<longrightarrow>
             json_object_get (Some p) ''nonce'' = json_object_get (Some (ms_Claims ms)) ''nonce'')))))"
    (is "?ticket \<or> ?browser")
proof -
  from assms obtain st where st: "BIDBeginModalSession env ui now context tc (Some aud) cb name fl userClaims heap = Some (Inr st)"
    by (auto simp: BIDAcquireAssertionEx_def bid_result)
  from begin_session_Inr[OF this] show ?thesis
  proof
    assume "\<exists>cc. st = SessionDone cc \<and> flag_set (ContextOptions context) BID_CONTEXT_REAUTH \<and> \<not> flag_set fl BID_ACQUIRE_FLAG_NO_CACHED \<and>
      BIDBeginModalSessionReauth env now context tc (Some aud) cb name fl heap = Some (Inr cc)"
    with assms st have r: "flag_set (ContextOptions context) BID_CONTEXT_REAUTH" "\<not> flag_set fl BID_ACQUIRE_FLAG_NO_CACHED"
      "BIDBeginModalSessionReauth env now context tc (Some aud) cb name fl heap = Some (Inr cc)"
      by (auto simp: BIDAcquireAssertionEx_def)
    then have "BIDAcquireAssertionEx env ui' now context tc (Some aud) cb name fl userClaims heap = Some (Inr cc)" for ui'
      by (simp add: BIDAcquireAssertionEx_def BIDBeginModalSession_def)
    with r begin_reauth_Inr[OF r(3)] show ?thesis by blast
  next
    assume b: "begin_interaction env ui context aud cb name fl userClaims = Inr st"
    from begin_interaction_Inr[OF this] obtain ms where ms: "st = SessionPending ms" "BIDCanInteractP context fl" "ms_ulReqFlags ms = fl" .
    from assms st ms(1) consider "RunModalSession ui aud (ms_Claims ms) name fl = Inr None" "cc_szAssertion cc = None" "cc_ulRetFlags cc = 0"
      | out where "RunModalSession ui aud (ms_Claims ms) name fl = Inr (Some out)" "BIDCompleteModalSession env context out ms = Inr cc"
      by (cases "RunModalSession ui aud (ms_Claims ms) name fl") (auto simp: BIDAcquireAssertionEx_def split: option.splits)
    then have ?browser
    proof cases
      case 1
      with b ms show ?thesis by blast
    next
      case 2
      from complete_session_Inr[OF 2(2)] obtain a i p where c: "out = Inr a" "cc_szAssertion cc = Some a" "cc_ulRetFlags cc = 0"
        "BIDAcquireAssertionFromString env context (Some a) True = Inr (Some i, cc_expiryTime cc)"
        "cc_identity cc = Some (i\<lparr>PrivateAttributes := p\<rparr>)"
        "flag_set (ContextOptions context) BID_CONTEXT_ECDH_KEYEX \<longrightarrow> json_object_get (Some p) ''epk'' = ms_Key ms"
        "flag_set (ms_ulReqFlags ms) BID_ACQUIRE_FLAG_MUTUAL_AUTH \<longrightarrow>
          json_object_get (Some p) ''nonce'' = json_object_get (Some (ms_Claims ms)) ''nonce''" .
      then show ?thesis using b ms 2(1) by auto
    qed
    then show ?thesis ..
  qed
qed

theorem acquire_sound_witness:
  "\<exists>s cc ms. BIDAcquireAssertionEx verify_env (sample_browser s) 0 rp_ctx None (Some ''https://rp'') None None 0 None sample_heap = Some (Inr cc) \<and>
     begin_interaction verify_env (sample_browser s) rp_ctx ''https://rp'' None None 0 None = Inr (SessionPending ms) \<and>
     cc_szAssertion cc = Some s"
proof -
  obtain s cc where a: "BIDAcquireAssertionEx verify_env (sample_browser s) 0 rp_ctx None (Some ''https://rp'') None None 0 None sample_heap = Some (Inr cc)"
    "cc_szAssertion cc = Some s" by (rule sample_acquired)
  from acquire_sound[OF a(1)] have "\<exists>ms. begin_interaction verify_env (sample_browser s) rp_ctx ''https://rp'' None None 0 None = Inr (SessionPending ms)"
    by auto
  with a show ?thesis by blast
qed

end
