(* ===== verification/Fcache.thy ===== *)
theory Fcache
  imports Replay "HOL-Library.Countable"
begin

text \<open>
  The file implementation of the cache interface, \<^verbatim>\<open>libbrowserid/bid_fcache.c\<close>: a cache is a JSON
  text in a file, which every change replaces by a new file of the same name.  The file system
  has names and inodes, so that a descriptor of a replaced file keeps the old contents.
\<close>

section \<open>The file system\<close>

record os_file =
  f_text :: string
  f_mtime :: int

record file_system =
  names :: "(string \<times> nat) list"
  inodes :: "nat \<Rightarrow> os_file"
  next_inode :: nat

datatype errno = ENOENT | EPERM | EEXIST | EACCES | EAGAIN | EOTHER

text \<open>The flags of \<^verbatim>\<open>open\<close> that the file cache uses; \<^verbatim>\<open>O_CLOEXEC\<close> has no effect here.\<close>

datatype open_flags = O_RDONLY | O_RDWR | O_RDWR_CREAT | O_RDWR_CREAT_EXCL

text \<open>
  What may fail in the operating system beside the files themselves, and the clock.  The error of
  \<^verbatim>\<open>open\<close> may depend on whether the file is opened for writing; \<^verbatim>\<open>mkstemp\<close> chooses the last
  characters of a name that no file has yet.
\<close>

record file_env = json_env +
  sys_open :: "string \<Rightarrow> bool \<Rightarrow> errno option"
  sys_lock :: "errno option"
  sys_unlock :: "errno option"
  sys_close :: bool
  sys_lstat :: bool
  sys_fstat :: bool
  sys_unlink :: bool
  sys_read :: bool
  sys_write :: bool
  sys_mkstemp :: "string list \<Rightarrow> string \<Rightarrow> string option"
  sys_rename :: bool
  sys_time :: int

definition new_file :: "int \<Rightarrow> file_system \<Rightarrow> nat \<times> file_system" where
  "new_file now fs =
     (next_inode fs, fs\<lparr>inodes := (inodes fs)(next_inode fs := \<lparr>f_text = [], f_mtime = now\<rparr>), next_inode := Suc (next_inode fs)\<rparr>)"

section \<open>Files of a cache\<close>

record BIDFileCache =
  fc_Name :: string
  fc_Flags :: u32
  fc_Fs :: file_system

definition BIDFileCacheAcquire :: "file_system \<Rightarrow> string \<Rightarrow> u32 \<Rightarrow> BIDError + BIDFileCache" where
  "BIDFileCacheAcquire fs name ulFlags = Inr \<lparr>fc_Name = name, fc_Flags = ulFlags, fc_Fs = fs\<rparr>"

definition BIDFileCacheRelease :: "BIDFileCache \<Rightarrow> BIDError + unit" where
  "BIDFileCacheRelease fc = Inr ()"

definition BIDFileCacheLock :: "'x file_env_scheme \<Rightarrow> BIDError + unit" where
  "BIDFileCacheLock env =
     (case sys_lock env of
        None \<Rightarrow> Inr ()
      | Some ret \<Rightarrow> let ret = (if ret = EACCES then EAGAIN else ret) in
          Inl (if ret = EAGAIN then BID_S_CACHE_LOCK_TIMEOUT else BID_S_CACHE_LOCK_ERROR))"

definition BIDFileCacheUnlock :: "'x file_env_scheme \<Rightarrow> BIDError + unit" where
  "BIDFileCacheUnlock env = guard (sys_unlock env \<noteq> None) BID_S_CACHE_UNLOCK_ERROR"

text \<open>The system call \<^verbatim>\<open>open\<close> and its errors.\<close>

definition open_file :: "'x file_env_scheme \<Rightarrow> int \<Rightarrow> BIDFileCache \<Rightarrow> open_flags \<Rightarrow> (errno + nat) \<times> BIDFileCache" where
  "open_file env now fc flags =
     (case sys_open env (fc_Name fc) (flags \<noteq> O_RDONLY) of
        Some e \<Rightarrow> (Inl e, fc)
      | None \<Rightarrow>
          (case map_of (names (fc_Fs fc)) (fc_Name fc) of
             Some ino \<Rightarrow> (if flags = O_RDWR_CREAT_EXCL then Inl EEXIST else Inr ino, fc)
           | None \<Rightarrow>
               if flags = O_RDWR_CREAT \<or> flags = O_RDWR_CREAT_EXCL
               then let (ino, fs) = new_file now (fc_Fs fc)
                    in (Inr ino, fc\<lparr>fc_Fs := fs\<lparr>names := AList.update (fc_Name fc) ino (names fs)\<rparr>\<rparr>)
               else (Inl ENOENT, fc)))"

definition BIDFileCacheOpen :: "'x file_env_scheme \<Rightarrow> int \<Rightarrow> BIDFileCache \<Rightarrow> open_flags \<Rightarrow> (BIDError + nat) \<times> BIDFileCache" where
  "BIDFileCacheOpen env now fc flags =
     (let (r, fc) = open_file env now fc flags in
      case r of
        Inl e \<Rightarrow>
          (Inl (if e = ENOENT then BID_S_CACHE_NOT_FOUND
                else if e = EPERM then BID_S_CACHE_PERMISSION_DENIED
                else if e = EEXIST then BID_S_CACHE_ALREADY_EXISTS
                else BID_S_CACHE_OPEN_ERROR), fc)
      | Inr fd \<Rightarrow> (bail (BIDFileCacheLock env) (\<lambda>_. Inr fd), fc))"

definition BIDFileCacheClose :: "'x file_env_scheme \<Rightarrow> nat option \<Rightarrow> BIDError + unit" where
  "BIDFileCacheClose env fd =
     (if fd = None then Inr ()
      else if \<not> sys_close env then Inl BID_S_CACHE_CLOSE_ERROR else BIDFileCacheUnlock env)"

definition set_text :: "int \<Rightarrow> nat \<Rightarrow> string \<Rightarrow> BIDFileCache \<Rightarrow> BIDFileCache" where
  "set_text now ino s fc = fc\<lparr>fc_Fs := (fc_Fs fc)\<lparr>inodes := (inodes (fc_Fs fc))(ino := \<lparr>f_text = s, f_mtime = now\<rparr>)\<rparr>\<rparr>"

definition BIDFileCacheScrub :: "'x file_env_scheme \<Rightarrow> int \<Rightarrow> nat \<Rightarrow> BIDFileCache \<Rightarrow> (BIDError + unit) \<times> BIDFileCache" where
  "BIDFileCacheScrub env now fd fc =
     (if \<not> sys_write env then (Inl BID_S_CACHE_DESTROY_ERROR, fc)
      else (Inr (), set_text now fd (replicate (length (f_text (inodes (fc_Fs fc) fd))) (CHR 0x00)) fc))"

text \<open>The result of an operation, which that of closing the file may replace.\<close>

definition and_close :: "BIDError + unit \<Rightarrow> BIDError + unit \<Rightarrow> BIDError + unit" where
  "and_close err err2 = (case err of Inr _ \<Rightarrow> err2 | Inl e \<Rightarrow> Inl e)"

definition BIDFileCacheErase :: "'x file_env_scheme \<Rightarrow> BIDFileCache \<Rightarrow> (BIDError + unit) \<times> BIDFileCache" where
  "BIDFileCacheErase env fc =
     (let sb1 = map_of (names (fc_Fs fc)) (fc_Name fc) in
      if \<not> sys_lstat env \<or> sb1 = None then (Inl BID_S_CACHE_DESTROY_ERROR, fc)
      else
        bailS (BIDFileCacheOpen env (sys_time env) fc O_RDWR) (\<lambda>fd fc.
        if \<not> sys_unlink env then (and_close (Inl BID_S_CACHE_DESTROY_ERROR) (BIDFileCacheClose env (Some fd)), fc)
        else
          let fc = fc\<lparr>fc_Fs := (fc_Fs fc)\<lparr>names := AList.delete (fc_Name fc) (names (fc_Fs fc))\<rparr>\<rparr> in
          if \<not> sys_fstat env then (and_close (Inl BID_S_CACHE_DESTROY_ERROR) (BIDFileCacheClose env (Some fd)), fc)
          else if sb1 \<noteq> Some fd then (and_close (Inl BID_S_CACHE_PERMISSION_DENIED) (BIDFileCacheClose env (Some fd)), fc)
          else if filter (\<lambda>(_, ino). ino = fd) (names (fc_Fs fc)) = []
          then let (r, fc) = BIDFileCacheScrub env (sys_time env) fd fc in (and_close r (BIDFileCacheClose env (Some fd)), fc)
          else (BIDFileCacheClose env (Some fd), fc)))"

text \<open>Writing to a file that was just created, and reading one.\<close>

definition BIDFileCacheStore :: "'x file_env_scheme \<Rightarrow> int \<Rightarrow> nat \<Rightarrow> json \<Rightarrow> BIDFileCache \<Rightarrow> (BIDError + unit) \<times> BIDFileCache" where
  "BIDFileCacheStore env now fd data fc =
     (case json_dumps env data of
        None \<Rightarrow> (Inl BID_S_CANNOT_ENCODE_JSON, fc)
      | Some szJson \<Rightarrow>
          if \<not> sys_write env then (Inl BID_S_CACHE_WRITE_ERROR, fc)
          else (Inr (), set_text now fd (szJson @ [CHR 0x0A]) fc))"

definition BIDFileCacheLoad :: "'x file_env_scheme \<Rightarrow> nat \<Rightarrow> BIDFileCache \<Rightarrow> BIDError + json" where
  "BIDFileCacheLoad env fd fc =
     bail (guard (\<not> sys_read env) BID_S_CACHE_READ_ERROR) (\<lambda>_.
       some_or (json_loads env (f_text (inodes (fc_Fs fc) fd))) BID_S_CACHE_READ_ERROR)"

text \<open>
  The contents of a cache file: the object with the entries, under the member \<^verbatim>\<open>d\<close> beside a
  version unless the cache is unversioned, and the contents after the entries were changed in
  place.
\<close>

definition user_data :: "u32 \<Rightarrow> json \<Rightarrow> json option" where
  "user_data ulFlags data =
     (if flag_set ulFlags BID_CACHE_FLAG_UNVERSIONED then Some data else json_object_get (Some data) ''d'')"

definition with_user_data :: "u32 \<Rightarrow> json \<Rightarrow> json \<Rightarrow> json" where
  "with_user_data ulFlags data d =
     (if flag_set ulFlags BID_CACHE_FLAG_UNVERSIONED then d
      else case json_object_set data ''d'' d of Some data \<Rightarrow> data | None \<Rightarrow> data)"

definition BIDFileCacheNew :: "BIDFileCache \<Rightarrow> BIDError + json" where
  "BIDFileCacheNew fc =
     (if flag_set (fc_Flags fc) BID_CACHE_FLAG_UNVERSIONED then Inr BIDAllocJsonObject
      else
        bail (BIDJsonObjectSet BIDAllocJsonObject ''v'' (Some (JString ''2013.01.01'')) BID_JSON_FLAG_CONSUME_REF) (\<lambda>data.
        BIDJsonObjectSet data ''d'' (Some (JObject [])) BID_JSON_FLAG_CONSUME_REF))"

definition BIDFileCacheInitialize :: "'x file_env_scheme \<Rightarrow> BIDFileCache \<Rightarrow> (BIDError + unit) \<times> BIDFileCache" where
  "BIDFileCacheInitialize env fc =
     bailS (BIDFileCacheNew fc, fc) (\<lambda>data fc.
     bailS (BIDFileCacheOpen env (sys_time env) fc O_RDWR_CREAT_EXCL) (\<lambda>fd fc.
       let (r, fc) = BIDFileCacheStore env (sys_time env) fd data fc
       in (and_close r (BIDFileCacheClose env (Some fd)), fc)))"

definition BIDFileCacheRead :: "'x file_env_scheme \<Rightarrow> nat \<Rightarrow> BIDFileCache \<Rightarrow> BIDError + json" where
  "BIDFileCacheRead env fd fc =
     bail (BIDFileCacheLoad env fd fc) (\<lambda>data.
       if flag_set (fc_Flags fc) BID_CACHE_FLAG_UNVERSIONED then Inr data
       else if json_string_value (json_object_get (Some data) ''v'') \<noteq> Some ''2013.01.01''
       then Inl BID_S_CACHE_INVALID_VERSION
       else if \<not> json_is_object (json_object_get (Some data) ''d'') then Inl BID_S_CACHE_READ_ERROR
       else Inr data)"

text \<open>
  The new contents are written to a fresh file, which then takes the name of the cache.  When
  writing fails the fresh file stays.
\<close>

definition BIDFileCacheWrite :: "'x file_env_scheme \<Rightarrow> int \<Rightarrow> json \<Rightarrow> BIDFileCache \<Rightarrow> (BIDError + unit) \<times> BIDFileCache" where
  "BIDFileCacheWrite env now data fc =
     (case sys_mkstemp env (map fst (names (fc_Fs fc))) (fc_Name fc @ ''.'') of
        None \<Rightarrow> (Inl BID_S_CACHE_WRITE_ERROR, fc)
      | Some suffix \<Rightarrow>
          let szTmpName = fc_Name fc @ ''.'' @ suffix;
              (fd, fs) = new_file now (fc_Fs fc);
              fc = fc\<lparr>fc_Fs := fs\<lparr>names := AList.update szTmpName fd (names fs)\<rparr>\<rparr>;
              (r, fc) = BIDFileCacheStore env now fd data fc
          in case r of
               Inl e \<Rightarrow> (Inl (if sys_close env then e else BID_S_CACHE_CLOSE_ERROR), fc)
             | Inr _ \<Rightarrow>
                 if \<not> sys_rename env then (Inl BID_S_CACHE_WRITE_ERROR, fc)
                 else (Inr (), fc\<lparr>fc_Fs := (fc_Fs fc)\<lparr>names :=
                         AList.update (fc_Name fc) fd (AList.delete szTmpName (names (fc_Fs fc)))\<rparr>\<rparr>))"

section \<open>The operations of the cache\<close>

definition BIDFileCacheDestroy :: "'x file_env_scheme \<Rightarrow> BIDFileCache \<Rightarrow> (BIDError + unit) \<times> BIDFileCache" where
  "BIDFileCacheDestroy env fc = BIDFileCacheErase env fc"

definition BIDFileCacheGetName :: "BIDFileCache \<Rightarrow> BIDError + string" where
  "BIDFileCacheGetName fc = Inr (fc_Name fc)"

text \<open>The operations that only read return no cache: without \<open>O_RDWR_CREAT\<close> the call of
  \<^verbatim>\<open>open\<close> changes no file.\<close>

definition BIDFileCacheGetLastChangedTime :: "'x file_env_scheme \<Rightarrow> BIDFileCache \<Rightarrow> BIDError + int" where
  "BIDFileCacheGetLastChangedTime env fc =
     bail (fst (BIDFileCacheOpen env (sys_time env) fc O_RDONLY)) (\<lambda>fd.
     if sys_fstat env then Inr (f_mtime (inodes (fc_Fs fc) fd)) else Inl BID_S_CACHE_OPEN_ERROR)"

definition BIDFileCacheGetObject :: "'x file_env_scheme \<Rightarrow> BIDFileCache \<Rightarrow> string \<Rightarrow> BIDError + json" where
  "BIDFileCacheGetObject env fc key =
     bail (fst (BIDFileCacheOpen env (sys_time env) fc O_RDONLY)) (\<lambda>fd.
     bail (BIDFileCacheRead env fd fc) (\<lambda>data.
       some_or (json_object_get (user_data (fc_Flags fc) data) key) BID_S_CACHE_KEY_NOT_FOUND))"

text \<open>
  A change of the cache: \<open>set_begin\<close> opens, locks and reads the file, \<open>set_finish\<close> changes the
  contents and writes them.  They are two steps because other processes may run between them: the
  record lock of \<^verbatim>\<open>fcntl\<close> is gone once \<^verbatim>\<open>_BIDFileCacheLoad\<close> has closed its duplicate of the
  descriptor, and a lock belongs to an inode that \<^verbatim>\<open>rename\<close> takes the name from.  The result of
  closing the file is ignored.
\<close>

definition set_begin :: "'x file_env_scheme \<Rightarrow> int \<Rightarrow> BIDFileCache \<Rightarrow> (BIDError + json) \<times> BIDFileCache" where
  "set_begin env now fc =
     (let (r, fc) = BIDFileCacheOpen env now fc O_RDWR_CREAT;
          r = bail r (\<lambda>fd. BIDFileCacheRead env fd fc)
      in (if r = Inl BID_S_CACHE_NOT_FOUND \<or> r = Inl BID_S_CACHE_READ_ERROR then BIDFileCacheNew fc else r, fc))"

definition set_finish ::
  "'x file_env_scheme \<Rightarrow> int \<Rightarrow> json \<Rightarrow> string \<Rightarrow> json option \<Rightarrow> bool \<Rightarrow> BIDFileCache \<Rightarrow> (BIDError + unit) \<times> BIDFileCache" where
  "set_finish env now data key val remove fc =
     (let d = the (user_data (fc_Flags fc) data) in
      case (if remove then BIDJsonObjectDel d key 0 else BIDJsonObjectSet d key val 0) of
        Inl e \<Rightarrow> (Inl e, fc)
      | Inr d \<Rightarrow> BIDFileCacheWrite env now (with_user_data (fc_Flags fc) data d) fc)"

definition BIDFileCacheSetOrRemoveObject ::
  "'x file_env_scheme \<Rightarrow> int \<Rightarrow> BIDFileCache \<Rightarrow> string \<Rightarrow> json option \<Rightarrow> bool \<Rightarrow> (BIDError + unit) \<times> BIDFileCache" where
  "BIDFileCacheSetOrRemoveObject env now fc key val remove =
     (if val = None \<and> \<not> remove then (Inl BID_S_INVALID_PARAMETER, fc)
      else if flag_set (fc_Flags fc) BID_CACHE_FLAG_READONLY then (Inl BID_S_CACHE_PERMISSION_DENIED, fc)
      else bailS (set_begin env now fc) (\<lambda>data fc. set_finish env now data key val remove fc))"

definition BIDFileCacheSetObject ::
  "'x file_env_scheme \<Rightarrow> int \<Rightarrow> BIDFileCache \<Rightarrow> string \<Rightarrow> json option \<Rightarrow> (BIDError + unit) \<times> BIDFileCache" where
  "BIDFileCacheSetObject env now fc key val = BIDFileCacheSetOrRemoveObject env now fc key val False"

definition BIDFileCacheRemoveObject ::
  "'x file_env_scheme \<Rightarrow> int \<Rightarrow> BIDFileCache \<Rightarrow> string \<Rightarrow> (BIDError + unit) \<times> BIDFileCache" where
  "BIDFileCacheRemoveObject env now fc key = BIDFileCacheSetOrRemoveObject env now fc key None True"

definition BIDFileCacheFirstObject ::
  "'x file_env_scheme \<Rightarrow> BIDFileCache \<Rightarrow> (BIDError + string \<times> json) \<times> BIDCacheIterator option" where
  "BIDFileCacheFirstObject env fc =
     (let r = bail (fst (BIDFileCacheOpen env (sys_time env) fc O_RDWR)) (\<lambda>fd.
              bail (BIDFileCacheRead env fd fc) (\<lambda>data.
              bail (BIDFileCacheClose env (Some fd)) (\<lambda>_. BIDCacheIteratorAlloc (user_data (fc_Flags fc) data))))
      in case r of Inl e \<Rightarrow> (Inl e, None) | Inr cookie \<Rightarrow> BIDCacheIteratorNext cookie)"

definition BIDFileCacheNextObject ::
  "BIDFileCache \<Rightarrow> BIDCacheIterator \<Rightarrow> (BIDError + string \<times> json) \<times> BIDCacheIterator option" where
  "BIDFileCacheNextObject fc cookie = BIDCacheIteratorNext cookie"

text \<open>The table of operations, for a cache that is opened in the file system \<open>fs\<close>.\<close>

definition BIDFileCacheOps :: "'x file_env_scheme \<Rightarrow> file_system \<Rightarrow> BIDFileCache BIDCacheOps" where
  "BIDFileCacheOps env fs =
     \<lparr>Scheme = ''file'',
      op_Acquire = BIDFileCacheAcquire fs,
      op_Release = Some BIDFileCacheRelease,
      op_Initialize = Some (BIDFileCacheInitialize env),
      op_Destroy = Some (BIDFileCacheDestroy env),
      op_GetName = Some BIDFileCacheGetName,
      op_GetLastChangedTime = Some (BIDFileCacheGetLastChangedTime env),
      op_GetObject = Some (BIDFileCacheGetObject env),
      op_SetObject = Some (BIDFileCacheSetObject env),
      op_RemoveObject = Some (BIDFileCacheRemoveObject env),
      op_FirstObject = Some (BIDFileCacheFirstObject env),
      op_NextObject = Some BIDFileCacheNextObject\<rparr>"

section \<open>Reading and writing a cache file\<close>

text \<open>The system calls work, and \<^verbatim>\<open>mkstemp\<close> finds a name as long as there are fewer files than
  names that it can make of six letters and digits.\<close>

definition max_names :: nat where
  "max_names = 62 ^ 6"

definition files_work :: "'x file_env_scheme \<Rightarrow> bool" where
  "files_work env \<longleftrightarrow>
     (\<forall>n w. sys_open env n w = None) \<and> sys_lock env = None \<and> sys_unlock env = None \<and> sys_close env \<and>
     sys_lstat env \<and> sys_fstat env \<and> sys_unlink env \<and> sys_read env \<and> sys_write env \<and> sys_rename env \<and>
     (\<forall>ns n. card (set ns) < max_names \<longrightarrow> (\<exists>x. sys_mkstemp env ns n = Some x \<and> length x = 6 \<and> n @ x \<notin> set ns))"

text \<open>What the JSON library printed, it parses back with a newline after it.\<close>

definition json_text :: "'x json_env_scheme \<Rightarrow> bool" where
  "json_text env \<longleftrightarrow> (\<forall>j t. json_dumps env j = Some t \<longrightarrow> json_loads env (t @ [CHR 0x0A]) = Some j)"

definition cache_file :: "BIDFileCache \<Rightarrow> nat option" where
  "cache_file fc = map_of (names (fc_Fs fc)) (fc_Name fc)"

definition cache_contents :: "'x json_env_scheme \<Rightarrow> BIDFileCache \<Rightarrow> json option" where
  "cache_contents env fc =
     (case cache_file fc of None \<Rightarrow> None | Some ino \<Rightarrow> json_loads env (f_text (inodes (fc_Fs fc) ino)))"

definition cache_document :: "u32 \<Rightarrow> json \<Rightarrow> bool" where
  "cache_document ulFlags data \<longleftrightarrow>
     (flag_set ulFlags BID_CACHE_FLAG_UNVERSIONED \<or>
      json_string_value (json_object_get (Some data) ''v'') = Some ''2013.01.01'') \<and>
     (\<exists>ms. user_data ulFlags data = Some (JObject ms) \<and> distinct (map fst ms))"

definition doc_entries :: "u32 \<Rightarrow> json \<Rightarrow> (string \<times> json) list" where
  "doc_entries ulFlags data = json_object_members (user_data ulFlags data)"

lemma BIDFileCacheLock_works [simp]: "files_work env \<Longrightarrow> BIDFileCacheLock env = Inr ()"
  by (simp add: files_work_def BIDFileCacheLock_def)

lemma BIDFileCacheClose_works [simp]: "files_work env \<Longrightarrow> BIDFileCacheClose env fd = Inr ()"
  by (simp add: files_work_def BIDFileCacheClose_def BIDFileCacheUnlock_def guard_def)

lemma BIDFileCacheOpen_works:
  "files_work env \<Longrightarrow> cache_file fc = Some ino \<Longrightarrow> flags \<noteq> O_RDWR_CREAT_EXCL \<Longrightarrow>
   BIDFileCacheOpen env now fc flags = (Inr ino, fc)"
  by (simp add: BIDFileCacheOpen_def open_file_def cache_file_def) (simp add: files_work_def)

lemma BIDFileCacheRead_works:
  assumes "files_work env" "json_loads env (f_text (inodes (fc_Fs fc) ino)) = Some data"
    "cache_document (fc_Flags fc) data"
  shows "BIDFileCacheRead env ino fc = Inr data"
  using assms by (auto simp: BIDFileCacheRead_def BIDFileCacheLoad_def files_work_def guard_def cache_document_def user_data_def
      split: if_splits)

lemma mkstemp_works:
  assumes "files_work env" "card (set ns) < max_names"
  obtains x where "sys_mkstemp env ns n = Some x" "length x = 6" "n @ x \<notin> set ns"
  using assms unfolding files_work_def by metis

lemma cache_contents_file:
  "cache_contents env fc = Some data \<longleftrightarrow>
    (\<exists>ino. cache_file fc = Some ino \<and> json_loads env (f_text (inodes (fc_Fs fc) ino)) = Some data)"
  by (auto simp: cache_contents_def split: option.splits)

lemma BIDFileCacheGetObject_works:
  assumes "files_work env" "cache_contents env fc = Some data" "cache_document (fc_Flags fc) data"
  shows "BIDFileCacheGetObject env fc k = some_or (map_of (doc_entries (fc_Flags fc) data) k) BID_S_CACHE_KEY_NOT_FOUND"
proof -
  from assms(2) obtain ino where "cache_file fc = Some ino" "json_loads env (f_text (inodes (fc_Fs fc) ino)) = Some data"
    by (auto simp: cache_contents_file)
  moreover obtain ms where "user_data (fc_Flags fc) data = Some (JObject ms)"
    using assms(3) by (auto simp: cache_document_def)
  ultimately show ?thesis using assms
    by (simp add: BIDFileCacheGetObject_def BIDFileCacheOpen_works BIDFileCacheRead_works doc_entries_def)
qed

lemma set_begin_works:
  assumes "files_work env" "cache_contents env fc = Some data" "cache_document (fc_Flags fc) data"
  shows "set_begin env now fc = (Inr data, fc)"
proof -
  from assms(2) obtain ino where "cache_file fc = Some ino" "json_loads env (f_text (inodes (fc_Fs fc) ino)) = Some data"
    by (auto simp: cache_contents_file)
  with assms show ?thesis by (simp add: set_begin_def BIDFileCacheOpen_works BIDFileCacheRead_works)
qed

text \<open>
  Writing succeeds when the contents can be printed, and fails without touching the file of the
  cache when they cannot.  In both cases no other file changes; in the second, one more file
  stays behind.
\<close>

text \<open>Every name refers to an inode that was made, and \<^verbatim>\<open>mkstemp\<close> has names left.\<close>

definition file_system_ok :: "file_system \<Rightarrow> bool" where
  "file_system_ok fs \<longleftrightarrow> (\<forall>n i. map_of (names fs) n = Some i \<longrightarrow> i < next_inode fs) \<and>
     card (dom (map_of (names fs))) < max_names"

lemma file_system_ok_card: "file_system_ok fs \<Longrightarrow> card (set (map fst (names fs))) < max_names"
  by (simp add: file_system_ok_def dom_map_of_conv_image_fst)

lemma BIDFileCacheWrite_works:
  assumes "files_work env" "json_dumps env data = Some t" "file_system_ok (fc_Fs fc)"
  obtains fs where "BIDFileCacheWrite env now data fc = (Inr (), fc\<lparr>fc_Fs := fs\<rparr>)"
    "map_of (names fs) = (map_of (names (fc_Fs fc)))(fc_Name fc \<mapsto> next_inode (fc_Fs fc))"
    "inodes fs = (inodes (fc_Fs fc))(next_inode (fc_Fs fc) := \<lparr>f_text = t @ [CHR 0x0A], f_mtime = now\<rparr>)"
    "next_inode fs = Suc (next_inode (fc_Fs fc))"
proof -
  obtain x where x: "sys_mkstemp env (map fst (names (fc_Fs fc))) (fc_Name fc @ ''.'') = Some x" "length x = 6"
    "(fc_Name fc @ ''.'') @ x \<notin> set (map fst (names (fc_Fs fc)))"
    by (rule mkstemp_works[OF assms(1) file_system_ok_card[OF assms(3)]])
  have w: "sys_write env" "sys_rename env" using assms(1) by (simp_all add: files_work_def)
  from x(3) have "map_of (names (fc_Fs fc)) (fc_Name fc @ ''.'' @ x) = None" by (simp add: map_of_eq_None_iff)
  then have m: "(map_of (names (fc_Fs fc)))(fc_Name fc @ ''.'' @ x := None) = map_of (names (fc_Fs fc))"
    by (rule fun_upd_idem)
  have "BIDFileCacheWrite env now data fc = (Inr (), fc\<lparr>fc_Fs := (fc_Fs fc)\<lparr>next_inode := Suc (next_inode (fc_Fs fc)),
      inodes := (inodes (fc_Fs fc))(next_inode (fc_Fs fc) := \<lparr>f_text = t @ [CHR 0x0A], f_mtime = now\<rparr>),
      names := AList.update (fc_Name fc) (next_inode (fc_Fs fc)) (AList.delete (fc_Name fc @ ''.'' @ x)
        (AList.update (fc_Name fc @ ''.'' @ x) (next_inode (fc_Fs fc)) (names (fc_Fs fc))))\<rparr>\<rparr>)"
    using x w assms(2) by (simp add: BIDFileCacheWrite_def new_file_def BIDFileCacheStore_def set_text_def Let_def)
  then show thesis by (rule that) (use m in \<open>simp_all add: update_conv' delete_conv'\<close>)
qed

text \<open>What a set or a removal does to the entries of a document.\<close>

lemma set_document:
  assumes "cache_document fl data"
  shows "\<exists>d. BIDJsonObjectSet (the (user_data fl data)) k (Some v) 0 = Inr d \<and>
    cache_document fl (with_user_data fl data d) \<and>
    map_of (doc_entries fl (with_user_data fl data d)) = (map_of (doc_entries fl data))(k \<mapsto> v)"
proof -
  from assms obtain ms where ms: "user_data fl data = Some (JObject ms)" "distinct (map fst ms)"
    by (auto simp: cache_document_def)
  show ?thesis
  proof (cases "flag_set fl BID_CACHE_FLAG_UNVERSIONED")
    case True
    with ms show ?thesis
      by (simp add: cache_document_def user_data_def with_user_data_def doc_entries_def distinct_update update_conv')
  next
    case False
    with ms obtain top where "data = JObject top" by (cases data) (simp_all add: user_data_def)
    with False ms assms show ?thesis
      by (simp add: cache_document_def user_data_def with_user_data_def doc_entries_def distinct_update update_conv')
  qed
qed

lemma del_document:
  assumes "cache_document fl data"
  shows "\<exists>d. BIDJsonObjectDel (the (user_data fl data)) k 0 = Inr d \<and>
    cache_document fl (with_user_data fl data d) \<and>
    map_of (doc_entries fl (with_user_data fl data d)) = (map_of (doc_entries fl data))(k := None)"
proof -
  from assms obtain ms where ms: "user_data fl data = Some (JObject ms)" "distinct (map fst ms)"
    by (auto simp: cache_document_def)
  have del: "\<exists>ms'. BIDJsonObjectDel (JObject ms) k 0 = Inr (JObject ms') \<and> distinct (map fst ms') \<and> map_of ms' = (map_of ms)(k := None)"
  proof (cases "map_of ms k")
    case None
    then have "map_of ms = (map_of ms)(k := None)" by (simp add: fun_upd_idem)
    with None ms show ?thesis by (auto simp: BIDJsonObjectDel_def)
  next
    case (Some v)
    with ms show ?thesis by (auto simp: BIDJsonObjectDel_def delete_conv' distinct_delete)
  qed
  then obtain ms' where ms': "BIDJsonObjectDel (JObject ms) k 0 = Inr (JObject ms')" "distinct (map fst ms')"
    "map_of ms' = (map_of ms)(k := None)" by blast
  show ?thesis
  proof (cases "flag_set fl BID_CACHE_FLAG_UNVERSIONED")
    case True
    with ms ms' show ?thesis by (simp add: cache_document_def user_data_def with_user_data_def doc_entries_def)
  next
    case False
    with ms obtain top where "data = JObject top" by (cases data) (simp_all add: user_data_def)
    with False ms ms' assms show ?thesis
      by (simp add: cache_document_def user_data_def with_user_data_def doc_entries_def update_conv')
  qed
qed

definition put_document :: "u32 \<Rightarrow> json \<Rightarrow> string \<Rightarrow> json \<Rightarrow> json" where
  "put_document fl data k v = with_user_data fl data (projr (BIDJsonObjectSet (the (user_data fl data)) k (Some v) 0))"

definition drop_document :: "u32 \<Rightarrow> json \<Rightarrow> string \<Rightarrow> json" where
  "drop_document fl data k = with_user_data fl data (projr (BIDJsonObjectDel (the (user_data fl data)) k 0))"

lemma put_document_ok:
  assumes "cache_document fl data"
  shows "cache_document fl (put_document fl data k v)"
    "map_of (doc_entries fl (put_document fl data k v)) = (map_of (doc_entries fl data))(k \<mapsto> v)"
  using set_document[OF assms, of k v] by (auto simp: put_document_def)

lemma drop_document_ok:
  assumes "cache_document fl data"
  shows "cache_document fl (drop_document fl data k)"
    "map_of (doc_entries fl (drop_document fl data k)) = (map_of (doc_entries fl data))(k := None)"
  using del_document[OF assms, of k] by (auto simp: drop_document_def)

lemma set_finish_documents:
  assumes "cache_document (fc_Flags fc) data"
  shows "set_finish env now data k (Some v) False fc = BIDFileCacheWrite env now (put_document (fc_Flags fc) data k v) fc"
    "set_finish env now data k None True fc = BIDFileCacheWrite env now (drop_document (fc_Flags fc) data k) fc"
  using set_document[OF assms, of k v] del_document[OF assms, of k]
  by (auto simp: set_finish_def put_document_def drop_document_def)

lemma write_contents:
  assumes "files_work env" "json_text env" "json_dumps env data = Some t" "file_system_ok (fc_Fs fc)" "cache_file fc \<noteq> None"
  obtains fc' where "BIDFileCacheWrite env now data fc = (Inr (), fc')" "fc_Name fc' = fc_Name fc" "fc_Flags fc' = fc_Flags fc"
    "cache_contents env fc' = Some data" "file_system_ok (fc_Fs fc')"
    "\<forall>h h'. fc_Name h \<noteq> fc_Name fc \<longrightarrow> fc_Fs h = fc_Fs fc \<longrightarrow> h' = h\<lparr>fc_Fs := fc_Fs fc'\<rparr> \<longrightarrow>
      cache_contents env h' = cache_contents env h"
proof -
  obtain fs where fs: "BIDFileCacheWrite env now data fc = (Inr (), fc\<lparr>fc_Fs := fs\<rparr>)"
    "map_of (names fs) = (map_of (names (fc_Fs fc)))(fc_Name fc \<mapsto> next_inode (fc_Fs fc))"
    "inodes fs = (inodes (fc_Fs fc))(next_inode (fc_Fs fc) := \<lparr>f_text = t @ [CHR 0x0A], f_mtime = now\<rparr>)"
    "next_inode fs = Suc (next_inode (fc_Fs fc))" by (rule BIDFileCacheWrite_works[OF assms(1,3,4)])
  have old: "map_of (names (fc_Fs fc)) n = Some i \<Longrightarrow> i < next_inode (fc_Fs fc)" for n i
    using assms(4) by (auto simp: file_system_ok_def)
  show thesis
  proof (rule that[OF fs(1)])
    show "cache_contents env (fc\<lparr>fc_Fs := fs\<rparr>) = Some data"
      using assms(2,3) fs by (simp add: cache_contents_def cache_file_def json_text_def)
    show "file_system_ok (fc_Fs (fc\<lparr>fc_Fs := fs\<rparr>))"
      using fs old assms(4,5) by (auto simp: file_system_ok_def less_Suc_eq cache_file_def insert_absorb domIff)
    show "\<forall>h h'. fc_Name h \<noteq> fc_Name fc \<longrightarrow> fc_Fs h = fc_Fs fc \<longrightarrow> h' = h\<lparr>fc_Fs := fc_Fs (fc\<lparr>fc_Fs := fs\<rparr>)\<rparr> \<longrightarrow>
      cache_contents env h' = cache_contents env h"
      using fs old by (fastforce simp: cache_contents_def cache_file_def split: option.splits)
  qed simp_all
qed

text \<open>When the contents cannot be printed the call fails; only an empty file is left over.\<close>

lemma write_unprintable:
  assumes "files_work env" "json_dumps env data = None" "file_system_ok (fc_Fs fc)"
  obtains fc' where "BIDFileCacheWrite env now data fc = (Inl BID_S_CANNOT_ENCODE_JSON, fc')"
    "fc_Name fc' = fc_Name fc" "fc_Flags fc' = fc_Flags fc" "cache_contents env fc' = cache_contents env fc"
    "length (names (fc_Fs fc')) = Suc (length (names (fc_Fs fc)))"
proof -
  obtain x where x: "sys_mkstemp env (map fst (names (fc_Fs fc))) (fc_Name fc @ ''.'') = Some x" "length x = 6"
    "(fc_Name fc @ ''.'') @ x \<notin> set (map fst (names (fc_Fs fc)))"
    by (rule mkstemp_works[OF assms(1) file_system_ok_card[OF assms(3)]])
  have new: "length (AList.update k v al) = Suc (length al)" if "k \<notin> fst ` set al" for k :: string and v :: nat and al
    using that by (induction al) auto
  have old: "map_of (names (fc_Fs fc)) n = Some i \<Longrightarrow> i < next_inode (fc_Fs fc)" for n i
    using assms(3) by (auto simp: file_system_ok_def)
  have "sys_close env" using assms(1) by (simp add: files_work_def)
  then have "BIDFileCacheWrite env now data fc = (Inl BID_S_CANNOT_ENCODE_JSON,
      fc\<lparr>fc_Fs := (snd (new_file now (fc_Fs fc)))\<lparr>names := AList.update (fc_Name fc @ ''.'' @ x) (next_inode (fc_Fs fc)) (names (fc_Fs fc))\<rparr>\<rparr>)"
    using x assms(2) by (simp add: BIDFileCacheWrite_def new_file_def BIDFileCacheStore_def Let_def)
  then show thesis
  proof (rule that)
    show "length (names (fc_Fs (fc\<lparr>fc_Fs := (snd (new_file now (fc_Fs fc)))\<lparr>names := AList.update (fc_Name fc @ ''.'' @ x) (next_inode (fc_Fs fc)) (names (fc_Fs fc))\<rparr>\<rparr>))) =
      Suc (length (names (fc_Fs fc)))" using x(3) by (simp add: new)
  qed (use x old in \<open>auto simp: cache_contents_def cache_file_def new_file_def update_conv' split: option.splits\<close>)
qed

section \<open>The file cache provides the interface\<close>

abbreviation fc_writable :: "BIDFileCache \<Rightarrow> bool" where
  "fc_writable fc \<equiv> \<not> flag_set (fc_Flags fc) BID_CACHE_FLAG_READONLY"

lemma BIDFileCacheSetObject_writes:
  assumes "files_work env" "cache_contents env fc = Some data" "cache_document (fc_Flags fc) data" "fc_writable fc"
  shows "BIDFileCacheSetObject env now fc k (Some v) = BIDFileCacheWrite env now (put_document (fc_Flags fc) data k v) fc"
    "BIDFileCacheRemoveObject env now fc k = BIDFileCacheWrite env now (drop_document (fc_Flags fc) data k) fc"
  using assms by (simp_all add: BIDFileCacheSetObject_def BIDFileCacheRemoveObject_def BIDFileCacheSetOrRemoveObject_def
      set_begin_works set_finish_documents)

definition fc_inv :: "'x file_env_scheme \<Rightarrow> BIDFileCache \<Rightarrow> bool" where
  "fc_inv env fc \<longleftrightarrow> files_work env \<and> json_text env \<and> (\<forall>j. json_dumps env j \<noteq> None) \<and> file_system_ok (fc_Fs fc) \<and>
     (\<exists>data. cache_contents env fc = Some data \<and> cache_document (fc_Flags fc) data)"

definition fc_entries :: "'x file_env_scheme \<Rightarrow> BIDFileCache \<Rightarrow> (string \<times> json) list" where
  "fc_entries env fc = doc_entries (fc_Flags fc) (the (cache_contents env fc))"

lemma fc_inv_write:
  assumes "fc_inv env fc" "cache_document (fc_Flags fc) data"
  obtains fc' where "BIDFileCacheWrite env now data fc = (Inr (), fc')" "fc_inv env fc'" "fc_Flags fc' = fc_Flags fc"
    "fc_entries env fc' = doc_entries (fc_Flags fc) data"
proof -
  from assms(1) obtain t where t: "json_dumps env data = Some t" "files_work env" "json_text env" "file_system_ok (fc_Fs fc)"
    "cache_file fc \<noteq> None" by (auto simp: fc_inv_def cache_contents_file)
  obtain fc' where fc': "BIDFileCacheWrite env now data fc = (Inr (), fc')" "fc_Name fc' = fc_Name fc" "fc_Flags fc' = fc_Flags fc"
    "cache_contents env fc' = Some data" "file_system_ok (fc_Fs fc')" by (rule write_contents[OF t(2,3,1,4,5)]) auto
  have inv: "fc_inv env fc'" using assms fc' by (simp add: fc_inv_def)
  have "fc_entries env fc' = doc_entries (fc_Flags fc) data" using fc' by (simp add: fc_entries_def)
  with fc'(1,3) inv show thesis by (intro that)
qed

lemma file_cache_sets:
  assumes "fc_inv env fc" "fc_writable fc"
  shows "\<exists>fc'. BIDFileCacheSetObject env now fc k (Some v) = (Inr (), fc') \<and> fc_inv env fc' \<and> fc_writable fc' \<and>
      map_of (fc_entries env fc') = (map_of (fc_entries env fc))(k \<mapsto> v)"
    "\<exists>fc'. BIDFileCacheRemoveObject env now fc k = (Inr (), fc') \<and> fc_inv env fc' \<and> fc_writable fc' \<and>
      map_of (fc_entries env fc') = (map_of (fc_entries env fc))(k := None)"
proof -
  from assms obtain data where d: "files_work env" "cache_contents env fc = Some data" "cache_document (fc_Flags fc) data"
    by (auto simp: fc_inv_def)
  note w = BIDFileCacheSetObject_writes[OF d assms(2)] and put = put_document_ok[OF d(3)] and drop = drop_document_ok[OF d(3)]
  have e: "fc_entries env fc = doc_entries (fc_Flags fc) data" using d by (simp add: fc_entries_def)
  show "\<exists>fc'. BIDFileCacheSetObject env now fc k (Some v) = (Inr (), fc') \<and> fc_inv env fc' \<and> fc_writable fc' \<and>
      map_of (fc_entries env fc') = (map_of (fc_entries env fc))(k \<mapsto> v)"
    by (rule fc_inv_write[OF assms(1) put(1)[of k v], of now]) (use assms(2) in \<open>simp add: w e put(2)\<close>)
  show "\<exists>fc'. BIDFileCacheRemoveObject env now fc k = (Inr (), fc') \<and> fc_inv env fc' \<and> fc_writable fc' \<and>
      map_of (fc_entries env fc') = (map_of (fc_entries env fc))(k := None)"
    by (rule fc_inv_write[OF assms(1) drop(1)[of k], of now]) (use assms(2) in \<open>simp add: w e drop(2)\<close>)
qed

lemma file_cache_first:
  assumes "fc_inv env fc"
  shows "BIDFileCacheFirstObject env fc = (case fc_entries env fc of [] \<Rightarrow> (Inl BID_S_CACHE_KEY_NOT_FOUND, None)
      | kv # rest \<Rightarrow> (Inr kv, Some rest))"
proof -
  from assms obtain data where d: "files_work env" "cache_contents env fc = Some data" "cache_document (fc_Flags fc) data"
    by (auto simp: fc_inv_def)
  from d(2) obtain ino where "cache_file fc = Some ino" "json_loads env (f_text (inodes (fc_Fs fc) ino)) = Some data"
    by (auto simp: cache_contents_file)
  moreover obtain ms where "user_data (fc_Flags fc) data = Some (JObject ms)"
    using d(3) by (auto simp: cache_document_def)
  ultimately show ?thesis using d
    by (auto simp: BIDFileCacheFirstObject_def BIDFileCacheOpen_works BIDFileCacheRead_works fc_entries_def doc_entries_def
        BIDCacheIteratorAlloc_def split: list.splits)
qed

interpretation fcache: bid_cache "BIDFileCacheOps env fs" "fc_inv env" "fc_entries env" fc_writable
  "BIDFileCacheGetObject env" "BIDFileCacheSetObject env" "BIDFileCacheRemoveObject env"
  "BIDFileCacheFirstObject env" BIDFileCacheNextObject for env :: "'x file_env_scheme" and fs
proof (unfold_locales, goal_cases)
  case (6 d)
  then show ?case by (auto simp: fc_inv_def fc_entries_def doc_entries_def cache_document_def)
next
  case (7 d k)
  then show ?case by (auto simp: fc_inv_def fc_entries_def BIDFileCacheGetObject_works)
next
  case (8 d now k v)
  then show ?case by (rule file_cache_sets(1))
next
  case (11 d now k)
  then show ?case by (rule file_cache_sets(2))
next
  case (13 d)
  then show ?case by (rule file_cache_first)
qed (simp_all add: BIDFileCacheOps_def BIDFileCacheSetObject_def BIDFileCacheRemoveObject_def
    BIDFileCacheSetOrRemoveObject_def BIDFileCacheNextObject_def)

text \<open>A cache cell of the heap that holds a file cache.\<close>

definition file_cache_at ::
  "'x file_env_scheme \<Rightarrow> file_system \<Rightarrow> BIDFileCache cache_heap \<Rightarrow> nat \<Rightarrow> BIDFileCache \<Rightarrow> bool" where
  "file_cache_at env fs heap a fc \<longleftrightarrow> cells heap a = Some \<lparr>Ops = BIDFileCacheOps env fs, Data = fc\<rparr> \<and> fc_inv env fc"

lemma file_cache_holds: "bid_cache.holds (BIDFileCacheOps env fs) (fc_inv env) = file_cache_at env fs"
  by (simp add: fun_eq_iff fcache.holds_def file_cache_at_def)

lemma contents_agree:
  "fc_Name h = fc_Name g \<Longrightarrow> fc_Fs h = fc_Fs g \<Longrightarrow> cache_contents env h = cache_contents env g"
  by (simp add: cache_contents_def cache_file_def cong: option.case_cong)

lemma flags_agree:
  assumes "flag_set fl BID_CACHE_FLAG_UNVERSIONED = flag_set fl' BID_CACHE_FLAG_UNVERSIONED"
  shows "cache_document fl = cache_document fl'" "doc_entries fl = doc_entries fl'"
  using assms by (simp_all add: fun_eq_iff cache_document_def doc_entries_def user_data_def)

text \<open>New caches.\<close>

definition new_document :: "u32 \<Rightarrow> json" where
  "new_document fl = (if flag_set fl BID_CACHE_FLAG_UNVERSIONED then JObject []
     else JObject [(''v'', JString ''2013.01.01''), (''d'', JObject [])])"

lemma new_document_ok [simp]: "cache_document fl (new_document fl)" "doc_entries fl (new_document fl) = []"
  by (simp_all add: cache_document_def new_document_def user_data_def doc_entries_def)

lemma BIDFileCacheNew_document: "BIDFileCacheNew fc = Inr (new_document (fc_Flags fc))"
  by (simp add: BIDFileCacheNew_def new_document_def BIDAllocJsonObject_def BIDJsonObjectSet_def BIDJsonObjectSetNew_def
      BIDJsonObjectSetOld_def)

lemma initialize_works:
  assumes "files_work env" "json_text env" "cache_file fc = None" "json_dumps env (new_document (fc_Flags fc)) = Some t"
    "file_system_ok (fc_Fs fc)" "Suc (card (dom (map_of (names (fc_Fs fc))))) < max_names"
  shows "\<exists>fc'. BIDFileCacheInitialize env fc = (Inr (), fc') \<and> fc_Name fc' = fc_Name fc \<and> fc_Flags fc' = fc_Flags fc \<and>
    cache_contents env fc' = Some (new_document (fc_Flags fc)) \<and> file_system_ok (fc_Fs fc')"
proof -
  have "sys_write env" "\<And>n w. sys_open env n w = None" using assms(1) by (simp_all add: files_work_def)
  moreover have "card (insert (fc_Name fc) (dom (map_of (names (fc_Fs fc))))) = Suc (card (dom (map_of (names (fc_Fs fc)))))"
    using assms(3) by (intro card_insert_disjoint) (auto simp: cache_file_def finite_dom_map_of)
  ultimately show ?thesis using assms
    by (auto simp: BIDFileCacheInitialize_def BIDFileCacheNew_document BIDFileCacheOpen_def open_file_def new_file_def
        cache_file_def BIDFileCacheStore_def set_text_def and_close_def cache_contents_def update_conv' json_text_def
        file_system_ok_def less_Suc_eq)
qed

section \<open>Sample\<close>

text \<open>
  A printer that writes a value as a run of letters, as many as the number of the value, the
  parser that counts them, and a \<^verbatim>\<open>mkstemp\<close> that takes the first free name.
\<close>

instance json :: countable
  by countable_datatype

definition name_chars :: string where
  "name_chars = ''0123456789abcdefghijklmnopqrstuvwxyzABCDEFGHIJKLMNOPQRSTUVWXYZ''"

lemma name_chars_size: "length name_chars = 62" "distinct name_chars"
  by (simp_all add: name_chars_def)

definition sample_file_env :: file_env where
  "sample_file_env =
     \<lparr>json_loads = (\<lambda>s. case length (takeWhile (\<lambda>c. c = CHR ''a'') s) of 0 \<Rightarrow> None | Suc n \<Rightarrow> Some (from_nat n)),
      json_dumps = (\<lambda>j. Some (replicate (Suc (to_nat j)) (CHR ''a''))),
      sys_open = (\<lambda>_ _. None), sys_lock = None, sys_unlock = None, sys_close = True, sys_lstat = True, sys_fstat = True,
      sys_unlink = True, sys_read = True, sys_write = True,
      sys_mkstemp = (\<lambda>ns n. find (\<lambda>x. n @ x \<notin> set ns) (List.n_lists 6 name_chars)), sys_rename = True, sys_time = 0\<rparr>"

lemma sample_mkstemp:
  assumes "card (set ns) < max_names"
  shows "\<exists>x. find (\<lambda>x. n @ x \<notin> set ns) (List.n_lists 6 name_chars) = Some x \<and> length x = 6 \<and> n @ x \<notin> set ns"
proof -
  let ?L = "List.n_lists 6 name_chars"
  have "find (\<lambda>x. n @ x \<notin> set ns) ?L \<noteq> None"
  proof
    assume "find (\<lambda>x. n @ x \<notin> set ns) ?L = None"
    then have "(@) n ` set ?L \<subseteq> set ns" by (auto simp: find_None_iff)
    then have "card ((@) n ` set ?L) \<le> card (set ns)" by (simp add: card_mono)
    moreover have "card ((@) n ` set ?L) = card (set ?L)" by (rule card_image) (simp add: inj_on_def)
    moreover have "card (set ?L) = max_names"
      by (simp only: distinct_card[OF distinct_n_lists[OF name_chars_size(2)]] length_n_lists name_chars_size(1) max_names_def)
    ultimately show False using assms by simp
  qed
  then obtain x where x: "find (\<lambda>x. n @ x \<notin> set ns) ?L = Some x" by blast
  then have "x \<in> set ?L" "n @ x \<notin> set ns" by (auto simp: find_Some_iff)
  with x show ?thesis by (auto simp: set_n_lists)
qed

lemma sample_file_env_works: "files_work sample_file_env" "json_text sample_file_env" "\<forall>j. json_dumps sample_file_env j \<noteq> None"
proof -
  show "files_work sample_file_env" using sample_mkstemp by (simp add: files_work_def sample_file_env_def)
  have "takeWhile (\<lambda>c. c = CHR ''a'') (replicate m (CHR ''a'') @ [CHR 0x0A]) = replicate m (CHR ''a'')" for m
    by (induction m) auto
  from this[of "Suc m" for m] show "json_text sample_file_env"
    by (auto simp: json_text_def sample_file_env_def simp del: replicate_Suc)
qed (simp add: sample_file_env_def)

text \<open>An empty cache that was initialised in an empty file system.\<close>

definition sample_file_cache :: BIDFileCache where
  "sample_file_cache = snd (BIDFileCacheInitialize sample_file_env
     \<lparr>fc_Name = ''replay.json'', fc_Flags = 0, fc_Fs = \<lparr>names = [], inodes = (\<lambda>_. \<lparr>f_text = [], f_mtime = 0\<rparr>), next_inode = 0\<rparr>\<rparr>)"

lemma sample_file_cache_ok:
  "fc_inv sample_file_env sample_file_cache" "fc_Flags sample_file_cache = 0" "fc_entries sample_file_env sample_file_cache = []"
proof -
  let ?fc = "\<lparr>fc_Name = ''replay.json'', fc_Flags = 0,
    fc_Fs = \<lparr>names = [], inodes = (\<lambda>_. \<lparr>f_text = [], f_mtime = 0\<rparr>), next_inode = 0\<rparr>\<rparr>"
  obtain t where t: "json_dumps sample_file_env (new_document (fc_Flags ?fc)) = Some t"
    using sample_file_env_works(3) by blast
  from initialize_works[OF sample_file_env_works(1,2) _ t] have i: "fc_Flags sample_file_cache = 0"
    "cache_contents sample_file_env sample_file_cache = Some (new_document 0)" "file_system_ok (fc_Fs sample_file_cache)"
    by (auto simp: sample_file_cache_def cache_file_def file_system_ok_def max_names_def)
  then show "fc_inv sample_file_env sample_file_cache" "fc_Flags sample_file_cache = 0"
    "fc_entries sample_file_env sample_file_cache = []"
    using sample_file_env_works by (auto simp: fc_inv_def fc_entries_def)
qed

section \<open>Properties\<close>





text \<open>Storing in a writable cache whose file cannot be parsed, an empty file that was just created
  or a damaged one, succeeds and starts a new document: what the file may have held is lost without
  an error.  A document of another version is refused and kept.\<close>

theorem file_cache_unreadable_replaced:
  assumes "files_work env" "json_text env" "\<forall>j. json_dumps env j \<noteq> None" "file_system_ok (fc_Fs fc)"
    and "cache_file fc = Some ino" "\<not> flag_set (fc_Flags fc) BID_CACHE_FLAG_READONLY"
  shows "(json_loads env (f_text (inodes (fc_Fs fc) ino)) = None \<longrightarrow>
      (\<exists>fc'. BIDFileCacheSetObject env now fc k (Some v) = (Inr (), fc') \<and>
        (\<forall>k'. BIDFileCacheGetObject env fc' k' = (if k' = k then Inr v else Inl BID_S_CACHE_KEY_NOT_FOUND)))) \<and>
    (\<forall>data. json_loads env (f_text (inodes (fc_Fs fc) ino)) = Some data \<longrightarrow>
      \<not> flag_set (fc_Flags fc) BID_CACHE_FLAG_UNVERSIONED \<longrightarrow>
      json_string_value (json_object_get (Some data) ''v'') \<noteq> Some ''2013.01.01'' \<longrightarrow>
      BIDFileCacheSetObject env now fc k (Some v) = (Inl BID_S_CACHE_INVALID_VERSION, fc))"
proof (intro conjI impI allI)
  let ?new = "new_document (fc_Flags fc)"
  assume none: "json_loads env (f_text (inodes (fc_Fs fc) ino)) = None"
  have b: "set_begin env now fc = (Inr ?new, fc)"
    using assms(1) none BIDFileCacheOpen_works[OF assms(1,5)]
    by (simp add: set_begin_def BIDFileCacheRead_def BIDFileCacheLoad_def BIDFileCacheNew_document files_work_def guard_def)
  note put = put_document_ok[OF new_document_ok(1), of "fc_Flags fc" k v]
  obtain t where t: "json_dumps env (put_document (fc_Flags fc) ?new k v) = Some t" using assms(3) by blast
  obtain fc' where fc': "BIDFileCacheWrite env now (put_document (fc_Flags fc) ?new k v) fc = (Inr (), fc')"
    "fc_Flags fc' = fc_Flags fc" "cache_contents env fc' = Some (put_document (fc_Flags fc) ?new k v)"
    by (rule write_contents[OF assms(1,2) t assms(4), of now]) (use assms(5) in auto)
  have "BIDFileCacheSetObject env now fc k (Some v) = (Inr (), fc')"
    using assms(6) b fc'(1) by (simp add: BIDFileCacheSetObject_def BIDFileCacheSetOrRemoveObject_def set_finish_documents)
  moreover have "BIDFileCacheGetObject env fc' k' = (if k' = k then Inr v else Inl BID_S_CACHE_KEY_NOT_FOUND)" for k'
    using BIDFileCacheGetObject_works[OF assms(1) fc'(3)] fc'(2) put by simp
  ultimately show "\<exists>fc'. BIDFileCacheSetObject env now fc k (Some v) = (Inr (), fc') \<and>
      (\<forall>k'. BIDFileCacheGetObject env fc' k' = (if k' = k then Inr v else Inl BID_S_CACHE_KEY_NOT_FOUND))" by blast
next
  fix data
  assume "json_loads env (f_text (inodes (fc_Fs fc) ino)) = Some data" "\<not> flag_set (fc_Flags fc) BID_CACHE_FLAG_UNVERSIONED"
    "json_string_value (json_object_get (Some data) ''v'') \<noteq> Some ''2013.01.01''"
  then have "set_begin env now fc = (Inl BID_S_CACHE_INVALID_VERSION, fc)"
    using assms(1) BIDFileCacheOpen_works[OF assms(1,5)]
    by (simp add: set_begin_def BIDFileCacheRead_def BIDFileCacheLoad_def files_work_def guard_def)
  with assms(6) show "BIDFileCacheSetObject env now fc k (Some v) = (Inl BID_S_CACHE_INVALID_VERSION, fc)"
    by (simp add: BIDFileCacheSetObject_def BIDFileCacheSetOrRemoveObject_def)
qed

theorem file_cache_unreadable_replaced_witness:
  "\<exists>fc'. BIDFileCacheSetObject sample_file_env 1 \<lparr>fc_Name = ''c'', fc_Flags = 0,
      fc_Fs = \<lparr>names = [(''c'', 0)], inodes = (\<lambda>_. \<lparr>f_text = ''{'', f_mtime = 0\<rparr>), next_inode = 1\<rparr>\<rparr> ''k'' (Some JNull) = (Inr (), fc') \<and>
    BIDFileCacheGetObject sample_file_env fc' ''k'' = Inr JNull"
proof -
  let ?fc = "\<lparr>fc_Name = ''c'', fc_Flags = 0,
      fc_Fs = \<lparr>names = [(''c'', 0)], inodes = (\<lambda>_. \<lparr>f_text = ''{'', f_mtime = 0\<rparr>), next_inode = 1\<rparr>\<rparr>"
  have "cache_file ?fc = Some 0" "file_system_ok (fc_Fs ?fc)" "json_loads sample_file_env (f_text (inodes (fc_Fs ?fc) 0)) = None"
    by (simp_all add: cache_file_def file_system_ok_def max_names_def sample_file_env_def)
  with file_cache_unreadable_replaced[OF sample_file_env_works, of ?fc 0 1 "''k''" JNull] show ?thesis by auto
qed



end
