(* ===== verification/Gss.thy ===== *)
theory Gss
  imports Prelude
begin

text \<open>
  What the files of the GSS mechanism share: status codes, the framing of tokens
  (\<^verbatim>\<open>mech_browserid/util_token.c\<close> and the byte order functions of \<^verbatim>\<open>util.h\<close>), and the mapping of
  error codes (\<^verbatim>\<open>util_browserid.cpp\<close>).
\<close>

section \<open>Status codes\<close>

text \<open>The codes of RFC 2744: an error in the upper half of a word, supplementary bits below.\<close>

type_synonym OM_uint32 = u32
type_synonym u64 = "64 word"

abbreviation GSS_S_COMPLETE :: OM_uint32 where "GSS_S_COMPLETE \<equiv> 0"
abbreviation GSS_S_CONTINUE_NEEDED :: OM_uint32 where "GSS_S_CONTINUE_NEEDED \<equiv> 0x1"
abbreviation GSS_S_DUPLICATE_TOKEN :: OM_uint32 where "GSS_S_DUPLICATE_TOKEN \<equiv> 0x2"
abbreviation GSS_S_OLD_TOKEN :: OM_uint32 where "GSS_S_OLD_TOKEN \<equiv> 0x4"
abbreviation GSS_S_UNSEQ_TOKEN :: OM_uint32 where "GSS_S_UNSEQ_TOKEN \<equiv> 0x8"
abbreviation GSS_S_GAP_TOKEN :: OM_uint32 where "GSS_S_GAP_TOKEN \<equiv> 0x10"
abbreviation GSS_S_PROMPTING_NEEDED :: OM_uint32 where "GSS_S_PROMPTING_NEEDED \<equiv> 0x20"
abbreviation GSS_S_BAD_MECH :: OM_uint32 where "GSS_S_BAD_MECH \<equiv> 0x10000"
abbreviation GSS_S_BAD_NAME :: OM_uint32 where "GSS_S_BAD_NAME \<equiv> 0x20000"
abbreviation GSS_S_BAD_BINDINGS :: OM_uint32 where "GSS_S_BAD_BINDINGS \<equiv> 0x40000"
abbreviation GSS_S_BAD_STATUS :: OM_uint32 where "GSS_S_BAD_STATUS \<equiv> 0x50000"
abbreviation GSS_S_BAD_SIG :: OM_uint32 where "GSS_S_BAD_SIG \<equiv> 0x60000"
abbreviation GSS_S_NO_CRED :: OM_uint32 where "GSS_S_NO_CRED \<equiv> 0x70000"
abbreviation GSS_S_NO_CONTEXT :: OM_uint32 where "GSS_S_NO_CONTEXT \<equiv> 0x80000"
abbreviation GSS_S_DEFECTIVE_TOKEN :: OM_uint32 where "GSS_S_DEFECTIVE_TOKEN \<equiv> 0x90000"
abbreviation GSS_S_CREDENTIALS_EXPIRED :: OM_uint32 where "GSS_S_CREDENTIALS_EXPIRED \<equiv> 0xB0000"
abbreviation GSS_S_CONTEXT_EXPIRED :: OM_uint32 where "GSS_S_CONTEXT_EXPIRED \<equiv> 0xC0000"
abbreviation GSS_S_FAILURE :: OM_uint32 where "GSS_S_FAILURE \<equiv> 0xD0000"
abbreviation GSS_S_UNAVAILABLE :: OM_uint32 where "GSS_S_UNAVAILABLE \<equiv> 0x100000"
abbreviation GSS_S_CRED_UNAVAIL :: OM_uint32 where "GSS_S_CRED_UNAVAIL \<equiv> GSS_S_FAILURE"

definition GSS_ERROR :: "OM_uint32 \<Rightarrow> bool" where
  "GSS_ERROR x \<longleftrightarrow> x AND 0xFFFF0000 \<noteq> 0"

text \<open>
  The minor codes come from two tables that \<^verbatim>\<open>compile_et\<close> generates; the number of the first code
  of each is a parameter.  The parts of a GSS library and of Kerberos that the mechanism calls are
  further fields of the environment.
\<close>

record gss_tables =
  ERROR_TABLE_BASE_bidg :: OM_uint32
  ERROR_TABLE_BASE_lbid :: OM_uint32

abbreviation GSSBID_WRONG_SIZE :: OM_uint32 where "GSSBID_WRONG_SIZE \<equiv> 1"
abbreviation GSSBID_WRONG_MECH :: OM_uint32 where "GSSBID_WRONG_MECH \<equiv> 2"
abbreviation GSSBID_BAD_TOK_HEADER :: OM_uint32 where "GSSBID_BAD_TOK_HEADER \<equiv> 3"
abbreviation GSSBID_TOK_TRUNC :: OM_uint32 where "GSSBID_TOK_TRUNC \<equiv> 4"
abbreviation GSSBID_WRONG_TOK_ID :: OM_uint32 where "GSSBID_WRONG_TOK_ID \<equiv> 6"
abbreviation GSSBID_CONTEXT_ESTABLISHED :: OM_uint32 where "GSSBID_CONTEXT_ESTABLISHED \<equiv> 9"
abbreviation GSSBID_CONTEXT_INCOMPLETE :: OM_uint32 where "GSSBID_CONTEXT_INCOMPLETE \<equiv> 10"
abbreviation GSSBID_BAD_CONTEXT_TOKEN :: OM_uint32 where "GSSBID_BAD_CONTEXT_TOKEN \<equiv> 11"
abbreviation GSSBID_REAUTH_FAILED :: OM_uint32 where "GSSBID_REAUTH_FAILED \<equiv> 14"
abbreviation GSSBID_CRED_EXPIRED :: OM_uint32 where "GSSBID_CRED_EXPIRED \<equiv> 25"
abbreviation GSSBID_NO_DEFAULT_CRED :: OM_uint32 where "GSSBID_NO_DEFAULT_CRED \<equiv> 28"
abbreviation GSSBID_BAD_INVOCATION :: OM_uint32 where "GSSBID_BAD_INVOCATION \<equiv> 62"

text \<open>The code with a number in the table of the mechanism.\<close>

definition bidg :: "'x gss_tables_scheme \<Rightarrow> OM_uint32 \<Rightarrow> OM_uint32" where
  "bidg T n = ERROR_TABLE_BASE_bidg T + n"

definition gssBidApiToWireError :: "'x gss_tables_scheme \<Rightarrow> OM_uint32 \<Rightarrow> OM_uint32" where
  "gssBidApiToWireError T minor =
     (if ERROR_TABLE_BASE_bidg T \<le> minor \<and> minor \<le> bidg T GSSBID_BAD_INVOCATION
      then (minor - ERROR_TABLE_BASE_bidg T) OR 0x80000000
      else if ERROR_TABLE_BASE_lbid T <=s minor \<and> sint minor \<le> sint (ERROR_TABLE_BASE_lbid T) + 80
      then minor - ERROR_TABLE_BASE_lbid T
      else 0)"

definition gssBidWireToApiError :: "'x gss_tables_scheme \<Rightarrow> OM_uint32 \<Rightarrow> OM_uint32" where
  "gssBidWireToApiError T minor =
     (if minor AND 0x80000000 \<noteq> 0
      then let minor = (minor AND NOT 0x80000000) + ERROR_TABLE_BASE_bidg T
           in if bidg T GSSBID_BAD_INVOCATION < minor then 0 else minor
      else if minor \<noteq> 0 \<and> minor \<le> 80 then minor + ERROR_TABLE_BASE_lbid T
      else 0)"

text \<open>\<^verbatim>\<open>gssBidMapError\<close> gives the major and the minor code; \<open>ENOMEM\<close> is 12.\<close>

fun error_number :: "BIDError \<Rightarrow> int" where
  "error_number (BID_S n) = n"

definition map_major :: "BIDError \<Rightarrow> OM_uint32" where
  "map_major err =
     (if err = BID_S_OK then GSS_S_COMPLETE
      else if err = BID_S_NO_MEMORY then GSS_S_FAILURE
      else if err \<in> {BID_S_BAD_AUDIENCE, BID_S_MISSING_PRINCIPAL, BID_S_UNKNOWN_PRINCIPAL_TYPE} then GSS_S_BAD_NAME
      else if err = BID_S_INTERACT_REQUIRED then GSS_S_CRED_UNAVAIL OR GSS_S_PROMPTING_NEEDED
      else if err \<in> {BID_S_INTERACT_UNAVAILABLE, BID_S_INTERACT_FAILURE} then GSS_S_CRED_UNAVAIL
      else if err \<in> {BID_S_INVALID_JSON, BID_S_INVALID_BASE64, BID_S_INVALID_ASSERTION, BID_S_MISSING_ALGORITHM,
         BID_S_TOO_MANY_CERTS, BID_S_UNTRUSTED_ISSUER, BID_S_INVALID_ISSUER, BID_S_MISSING_ISSUER, BID_S_MISSING_AUDIENCE}
      then GSS_S_DEFECTIVE_TOKEN
      else if err \<in> {BID_S_EXPIRED_ASSERTION, BID_S_EXPIRED_CERT} then GSS_S_CREDENTIALS_EXPIRED
      else if err \<in> {BID_S_MISSING_CHANNEL_BINDINGS, BID_S_CHANNEL_BINDINGS_MISMATCH} then GSS_S_BAD_BINDINGS
      else if err = BID_S_UNKNOWN_ERROR_CODE then GSS_S_BAD_STATUS
      else if err = BID_S_INVALID_SIGNATURE then GSS_S_BAD_SIG
      else if err \<in> {BID_S_UNAVAILABLE, BID_S_NOT_IMPLEMENTED} then GSS_S_UNAVAILABLE
      else GSS_S_FAILURE)"

definition gssBidMapError :: "'x gss_tables_scheme \<Rightarrow> BIDError \<Rightarrow> OM_uint32 \<times> OM_uint32" where
  "gssBidMapError T err =
     (let major = map_major err;
          minor = (if err = BID_S_NO_MEMORY then 12
                   else if err \<in> {BID_S_INTERACT_UNAVAILABLE, BID_S_INTERACT_FAILURE, BID_S_INTERACT_REQUIRED}
                   then bidg T GSSBID_NO_DEFAULT_CRED else 0)
      in (major, if GSS_ERROR major \<and> minor = 0 then ERROR_TABLE_BASE_lbid T + of_int (error_number err) else minor))"

section \<open>Mechanism identifiers\<close>

type_synonym gss_OID = "byte list"

definition GSS_BROWSERID_MECHANISM :: gss_OID where
  "GSS_BROWSERID_MECHANISM = [0x2B, 0x06, 0x01, 0x04, 0x01, 0xA9, 0x4A, 0x18, 0x01]"

definition gssBidIsConcreteMechanismOid :: "gss_OID \<Rightarrow> bool" where
  "gssBidIsConcreteMechanismOid oid \<longleftrightarrow>
     length GSS_BROWSERID_MECHANISM < length oid \<and> take (length GSS_BROWSERID_MECHANISM) oid = GSS_BROWSERID_MECHANISM"

text \<open>
  The suffix of an identifier, seven bits per byte, most significant first.  The number of bytes is
  counted before they are written from the end; a suffix is not negative.
\<close>

fun septet_count :: "nat \<Rightarrow> nat" where
  "septet_count suffix = (if suffix = 0 then 0 else Suc (septet_count (suffix div 128)))"

fun septets :: "nat \<Rightarrow> bool \<Rightarrow> byte list" where
  "septets suffix lst =
     (if suffix = 0 then []
      else septets (suffix div 128) False @ [(of_nat (suffix mod 128)) OR (if lst then 0 else 0x80)])"

declare septet_count.simps [simp del] septets.simps [simp del]

definition composeOid :: "'x gss_tables_scheme \<Rightarrow> gss_OID \<Rightarrow> nat \<Rightarrow> nat \<Rightarrow> OM_uint32 \<times> OM_uint32 + gss_OID" where
  "composeOid T pre suffix cap =
     bail (guard (cap < length pre) (GSS_S_FAILURE, bidg T GSSBID_WRONG_SIZE)) (\<lambda>_.
     bail (guard (cap < length pre + septet_count suffix) (GSS_S_FAILURE, bidg T GSSBID_WRONG_SIZE)) (\<lambda>_.
       Inr (pre @ septets suffix True)))"

text \<open>The suffix is an \<^verbatim>\<open>int\<close> and keeps its last 32 bits.\<close>

fun decompose_loop :: "u32 \<Rightarrow> byte list \<Rightarrow> u32 option" where
  "decompose_loop suffix [] = Some suffix"
| "decompose_loop suffix (b # op) =
     (let suffix = push_bit 7 suffix OR ucast (b AND 0x7f)
      in if op \<noteq> [] \<and> b AND 0x80 = 0 then None else decompose_loop suffix op)"

definition decomposeOid :: "'x gss_tables_scheme \<Rightarrow> gss_OID \<Rightarrow> gss_OID \<Rightarrow> OM_uint32 \<times> OM_uint32 + u32" where
  "decomposeOid T pre oid =
     bail (guard (length oid < length pre \<or> take (length pre) oid \<noteq> pre) (GSS_S_BAD_MECH, 0)) (\<lambda>_.
       some_or (decompose_loop 0 (drop (length pre) oid)) (GSS_S_FAILURE, bidg T GSSBID_WRONG_SIZE))"

definition gssBidOidToEnctype :: "'x gss_tables_scheme \<Rightarrow> gss_OID \<Rightarrow> OM_uint32 \<times> OM_uint32 + u32" where
  "gssBidOidToEnctype T oid = decomposeOid T GSS_BROWSERID_MECHANISM oid"

definition gssBidEnctypeToOid :: "'x gss_tables_scheme \<Rightarrow> nat \<Rightarrow> OM_uint32 \<times> OM_uint32 + gss_OID" where
  "gssBidEnctypeToOid T enctype =
     composeOid T GSS_BROWSERID_MECHANISM enctype (length GSS_BROWSERID_MECHANISM + 1)"

end
