(* ===== verification/Ordering.thy ===== *)
theory Ordering
  imports Gss
begin

text \<open>
  Sequencing of the messages of a GSS context, \<^verbatim>\<open>mech_browserid/util_ordering.c\<close>: a window of the
  last sequence numbers, kept in a circular buffer as differences from the first one.
\<close>

section \<open>Data\<close>

record queue =
  do_replay :: bool
  do_sequence :: bool
  q_start :: nat
  q_length :: nat
  firstnum :: u64
  elem :: "u64 list"
  q_mask :: u64

abbreviation QUEUE_LENGTH :: nat where "QUEUE_LENGTH \<equiv> 20"

section \<open>Operations\<close>

definition QELEM :: "queue \<Rightarrow> nat \<Rightarrow> u64" where
  "QELEM q i = elem q ! (i mod QUEUE_LENGTH)"

text \<open>The loop that moves the elements after a position up by one slot.\<close>

fun move_up :: "nat \<Rightarrow> nat \<Rightarrow> u64 list \<Rightarrow> u64 list" where
  "move_up i after e =
     (if after < i then move_up (i - 1) after (e[(i + 1) mod QUEUE_LENGTH := e ! (i mod QUEUE_LENGTH)]) else e)"

declare move_up.simps [simp del]

definition queue_insert :: "queue \<Rightarrow> nat \<Rightarrow> u64 \<Rightarrow> queue" where
  "queue_insert q after seqnum =
     (let e = move_up (q_start q + q_length q - 1) after (elem q);
          q = q\<lparr>elem := e[(after + 1) mod QUEUE_LENGTH := seqnum]\<rparr>
      in if q_length q = QUEUE_LENGTH
         then q\<lparr>q_start := (if q_start q + 1 = QUEUE_LENGTH then 0 else q_start q + 1)\<rparr>
         else q\<lparr>q_length := q_length q + 1\<rparr>)"

definition sequenceInit :: "u64 \<Rightarrow> bool \<Rightarrow> bool \<Rightarrow> bool \<Rightarrow> queue" where
  "sequenceInit seqnum replay sequence wide_nums =
     (let mask = (if wide_nums then NOT 0 else 0xffffffff) in
      \<lparr>do_replay = replay, do_sequence = sequence, q_start = 0, q_length = 1, firstnum = seqnum,
       elem = (replicate QUEUE_LENGTH 0)[0 := (0 - 1) AND mask], q_mask = mask\<rparr>)"

text \<open>The search for the place of a late number.\<close>

function late_loop :: "queue \<Rightarrow> u64 \<Rightarrow> nat \<Rightarrow> OM_uint32 \<times> queue" where
  "late_loop q seqnum i =
     (if i < q_start q + q_length q - 1 then
        if seqnum = QELEM q i then (GSS_S_DUPLICATE_TOKEN, q)
        else if QELEM q i < seqnum \<and> seqnum < QELEM q (i + 1)
        then (if do_replay q \<and> \<not> do_sequence q then GSS_S_COMPLETE else GSS_S_UNSEQ_TOKEN, queue_insert q i seqnum)
        else late_loop q seqnum (i + 1)
      else (GSS_S_FAILURE, q))"
  by pat_completeness auto
termination by (relation "measure (\<lambda>(q, _, i). q_start q + q_length q - i)") auto

declare late_loop.simps [simp del]

definition sequenceCheck :: "queue \<Rightarrow> u64 \<Rightarrow> OM_uint32 \<times> queue" where
  "sequenceCheck q seqnum =
     (if \<not> do_replay q \<and> \<not> do_sequence q then (GSS_S_COMPLETE, q)
      else
        let seqnum = (seqnum - firstnum q) AND q_mask q;
            lst = q_start q + q_length q - 1;
            expected = (QELEM q lst + 1) AND q_mask q in
        if seqnum = expected then (GSS_S_COMPLETE, queue_insert q lst seqnum)
        else if expected < seqnum
        then (if do_replay q \<and> \<not> do_sequence q then GSS_S_COMPLETE else GSS_S_GAP_TOKEN, queue_insert q lst seqnum)
        else if seqnum < QELEM q (q_start q) \<and> seqnum AND (1 + drop_bit 1 (q_mask q)) \<noteq> 0
        then (if do_replay q \<and> \<not> do_sequence q then GSS_S_OLD_TOKEN else GSS_S_UNSEQ_TOKEN, q)
        else if seqnum = QELEM q lst then (GSS_S_DUPLICATE_TOKEN, q)
        else late_loop q seqnum (q_start q))"

text \<open>The checks of a sequence of messages.\<close>

fun check_all :: "queue \<Rightarrow> u64 list \<Rightarrow> OM_uint32 list \<times> queue" where
  "check_all q [] = ([], q)"
| "check_all q (n # ns) =
     (let (r, q') = sequenceCheck q n; (rs, q'') = check_all q' ns in (r # rs, q''))"

text \<open>What can be reached from a queue, with the numbers that were accepted on the way.\<close>

abbreviation accepted :: "OM_uint32 \<Rightarrow> bool" where "accepted r \<equiv> r = GSS_S_COMPLETE \<or> r = GSS_S_GAP_TOKEN"

inductive reaches :: "queue \<Rightarrow> u64 set \<Rightarrow> queue \<Rightarrow> bool" for q0 :: queue where
  start: "reaches q0 {} q0"
| check: "reaches q0 A q \<Longrightarrow> sequenceCheck q n = (r, q') \<Longrightarrow> reaches q0 (if accepted r then insert n A else A) q'"

inductive_simps reaches_start [simp]: "reaches q0 {} q0"

section \<open>The window as a list\<close>

text \<open>The contents of the buffer, oldest first, and the shape of a queue.\<close>

definition window :: "queue \<Rightarrow> u64 list" where
  "window q = map (\<lambda>k. QELEM q (q_start q + k)) [0..<q_length q]"

definition queue_inv :: "queue \<Rightarrow> bool" where
  "queue_inv q \<longleftrightarrow> length (elem q) = QUEUE_LENGTH \<and> q_start q < QUEUE_LENGTH \<and> 0 < q_length q \<and> q_length q \<le> QUEUE_LENGTH"

text \<open>Inserting into a list, forgetting the oldest element of a full one.\<close>

definition window_insert :: "u64 list \<Rightarrow> nat \<Rightarrow> u64 \<Rightarrow> u64 list" where
  "window_insert xs i n =
     (let ys = take (Suc i) xs @ n # drop (Suc i) xs in if length xs = QUEUE_LENGTH then tl ys else ys)"

function window_late :: "bool \<Rightarrow> u64 list \<Rightarrow> nat \<Rightarrow> u64 \<Rightarrow> OM_uint32 \<times> u64 list" where
  "window_late seq xs i n =
     (if Suc i < length xs then
        if n = xs ! i then (GSS_S_DUPLICATE_TOKEN, xs)
        else if xs ! i < n \<and> n < xs ! Suc i then (if seq then GSS_S_UNSEQ_TOKEN else GSS_S_COMPLETE, window_insert xs i n)
        else window_late seq xs (Suc i) n
      else (GSS_S_FAILURE, xs))"
  by pat_completeness auto
termination by (relation "measure (\<lambda>(_, xs, i, _). length xs - i)") auto

declare window_late.simps [simp del]

definition window_check :: "bool \<Rightarrow> u64 \<Rightarrow> u64 list \<Rightarrow> u64 \<Rightarrow> OM_uint32 \<times> u64 list" where
  "window_check seq m xs n =
     (let expected = (last xs + 1) AND m in
      if n = expected then (GSS_S_COMPLETE, window_insert xs (length xs - 1) n)
      else if expected < n then (if seq then GSS_S_GAP_TOKEN else GSS_S_COMPLETE, window_insert xs (length xs - 1) n)
      else if n < hd xs \<and> n AND (1 + drop_bit 1 m) \<noteq> 0 then (if seq then GSS_S_UNSEQ_TOKEN else GSS_S_OLD_TOKEN, xs)
      else if n = last xs then (GSS_S_DUPLICATE_TOKEN, xs)
      else window_late seq xs 0 n)"

definition same_settings :: "queue \<Rightarrow> queue \<Rightarrow> bool" where
  "same_settings q q' \<longleftrightarrow> q_mask q' = q_mask q \<and> firstnum q' = firstnum q \<and> do_replay q' = do_replay q \<and> do_sequence q' = do_sequence q"

text \<open>The difference of a number from the first one.\<close>

definition delta :: "queue \<Rightarrow> u64 \<Rightarrow> u64" where
  "delta q n = (n - firstnum q) AND q_mask q"

text \<open>A window of increasing numbers, perhaps still after the mask, which stands for the number
  before the first, that covers a set of numbers accepted so far.\<close>

definition covers :: "u64 \<Rightarrow> u64 list \<Rightarrow> u64 set \<Rightarrow> bool" where
  "covers m xs A \<longleftrightarrow> xs \<noteq> [] \<and> (\<forall>x\<in>set xs. x \<le> m) \<and>
     (hd xs = m \<and> sorted_wrt (<) (tl xs) \<and> m \<notin> set (tl xs) \<and> A \<subseteq> set (tl xs) \<or>
      sorted_wrt (<) xs \<and> m \<notin> set xs \<and> (\<forall>a\<in>A. a \<in> set xs \<or> a < hd xs))"

section \<open>Lemmas\<close>

lemma length_move_up [simp]: "length (move_up i after e) = length e"
  by (induction i after e rule: move_up.induct) (subst move_up.simps, simp)

text \<open>Slots of a stretch of the buffer are different.\<close>

lemma slot_inj:
  fixes i j b :: nat
  assumes "b \<le> i" "i < b + QUEUE_LENGTH" "b \<le> j" "j < b + QUEUE_LENGTH" "i mod QUEUE_LENGTH = j mod QUEUE_LENGTH"
  shows "i = j"
proof -
  have "k = l" if "k \<le> l" "l < k + QUEUE_LENGTH" "k mod QUEUE_LENGTH = l mod QUEUE_LENGTH" for k l :: nat
  proof -
    from that(1,3) have "QUEUE_LENGTH dvd l - k" by (metis mod_eq_dvd_iff_nat)
    with that(1,2) have "l - k = 0" by (cases "l - k = 0") (auto dest: dvd_imp_le)
    with that(1) show ?thesis by simp
  qed
  from this[of i j] this[of j i] assms show ?thesis by linarith
qed

lemma move_up_nth:
  assumes "length e = QUEUE_LENGTH" "b \<le> Suc after" "Suc i < b + QUEUE_LENGTH" "b \<le> j" "j < b + QUEUE_LENGTH"
  shows "move_up i after e ! (j mod QUEUE_LENGTH) =
    (if Suc after < j \<and> j \<le> Suc i then e ! ((j - 1) mod QUEUE_LENGTH) else e ! (j mod QUEUE_LENGTH))"
  using assms
proof (induction i after e rule: move_up.induct)
  case (1 i after e)
  show ?case
  proof (cases "after < i")
    case False
    then show ?thesis by (subst move_up.simps) auto
  next
    case True
    let ?e = "e[(i + 1) mod QUEUE_LENGTH := e ! (i mod QUEUE_LENGTH)]"
    have upd: "?e ! (k mod QUEUE_LENGTH) = (if k = Suc i then e ! (i mod QUEUE_LENGTH) else e ! (k mod QUEUE_LENGTH))"
      if "b \<le> k" "k < b + QUEUE_LENGTH" for k
      using slot_inj[of b k "Suc i"] that 1(2-4) True by (auto simp: nth_list_update)
    have "move_up i after e ! (j mod QUEUE_LENGTH) =
        (if Suc after < j \<and> j \<le> Suc (i - 1) then ?e ! ((j - 1) mod QUEUE_LENGTH) else ?e ! (j mod QUEUE_LENGTH))"
      using 1 True by (subst move_up.simps) simp
    also have "\<dots> = (if Suc after < j \<and> j \<le> Suc i then e ! ((j - 1) mod QUEUE_LENGTH) else e ! (j mod QUEUE_LENGTH))"
      using True 1(3-6) upd[of j] upd[of "j - 1"] by (auto simp: le_Suc_eq)
    finally show ?thesis .
  qed
qed

lemma length_window [simp]: "length (window q) = q_length q"
  by (simp add: window_def)

lemma window_nth [simp]: "k < q_length q \<Longrightarrow> window q ! k = QELEM q (q_start q + k)"
  by (simp add: window_def)

text \<open>The slots after an insertion.\<close>

lemma insert_slot:
  assumes "queue_inv q" "i < q_length q" "k \<le> q_length q" "q_length q < QUEUE_LENGTH \<or> 0 < k"
  shows "((move_up (q_start q + q_length q - 1) (q_start q + i) (elem q))[(q_start q + i + 1) mod QUEUE_LENGTH := n]) !
      ((q_start q + k) mod QUEUE_LENGTH) = (take (Suc i) (window q) @ n # drop (Suc i) (window q)) ! k"
proof -
  let ?s = "q_start q" and ?L = "q_length q"
  let ?e = "move_up (?s + ?L - 1) (?s + i) (elem q)"
  define b where "b = (if ?L < QUEUE_LENGTH then ?s else Suc ?s)"
  have b: "length (elem q) = QUEUE_LENGTH" "b \<le> Suc (?s + i)" "Suc (?s + ?L - 1) < b + QUEUE_LENGTH" "b \<le> ?s + k" "?s + k < b + QUEUE_LENGTH"
    "Suc (?s + i) < b + QUEUE_LENGTH"
    using assms by (auto simp: b_def queue_inv_def)
  have old: "?e ! ((?s + k) mod QUEUE_LENGTH) =
      (if Suc i < k then elem q ! ((?s + k - 1) mod QUEUE_LENGTH) else elem q ! ((?s + k) mod QUEUE_LENGTH))"
    using move_up_nth[OF b(1-5)] assms(3) by auto
  have new: "(?s + i + 1) mod QUEUE_LENGTH = (?s + k) mod QUEUE_LENGTH \<longleftrightarrow> k = Suc i"
    using slot_inj[of b "Suc (?s + i)" "?s + k"] b by auto
  have pred: "Suc (?s + k - 2) = ?s + k - Suc 0" if "Suc i < k" using that by simp
  show ?thesis
    using assms(1-3) b(1) old new pred
    by (auto simp: nth_list_update nth_append nth_Cons' QELEM_def min_def not_less less_Suc_eq_le)
qed

lemma queue_insert_window:
  assumes "queue_inv q" "i < q_length q"
  shows "window (queue_insert q (q_start q + i) n) = window_insert (window q) i n" "queue_inv (queue_insert q (q_start q + i) n)"
    "q_mask (queue_insert q (q_start q + i) n) = q_mask q" "firstnum (queue_insert q (q_start q + i) n) = firstnum q"
    "do_replay (queue_insert q (q_start q + i) n) = do_replay q" "do_sequence (queue_insert q (q_start q + i) n) = do_sequence q"
proof -
  note slot = insert_slot[OF assms, of _ n]
  show "window (queue_insert q (q_start q + i) n) = window_insert (window q) i n"
  proof (cases "q_length q = QUEUE_LENGTH")
    case True
    have wrap: "((if q_start q + 1 = QUEUE_LENGTH then 0 else q_start q + 1) + k) mod QUEUE_LENGTH = (q_start q + Suc k) mod QUEUE_LENGTH" for k
      by (auto simp: mod_if)
    show ?thesis
      using True assms(2) slot[of "Suc _"] by (intro nth_equalityI) (auto simp: queue_insert_def window_insert_def Let_def QELEM_def wrap nth_tl)
  next
    case False
    with assms(1) have "q_length q < QUEUE_LENGTH" by (simp add: queue_inv_def)
    then show ?thesis
      using assms(2) slot by (intro nth_equalityI) (auto simp: queue_insert_def window_insert_def Let_def QELEM_def)
  qed
qed (use assms in \<open>auto simp: queue_insert_def queue_inv_def Let_def\<close>)

lemma queue_insert_settings: "same_settings q (queue_insert q i n)"
  by (simp add: queue_insert_def same_settings_def Let_def)

lemma same_settings_refl [simp]: "same_settings q q"
  by (simp add: same_settings_def)

lemma last_window: "queue_inv q \<Longrightarrow> last (window q) = QELEM q (q_start q + q_length q - 1)"
  and hd_window: "queue_inv q \<Longrightarrow> hd (window q) = QELEM q (q_start q)"
  and window_nonempty: "queue_inv q \<Longrightarrow> window q \<noteq> []"
proof -
  assume "queue_inv q"
  then have L: "0 < q_length q" by (simp add: queue_inv_def)
  then show "window q \<noteq> []" by (metis length_0_conv length_window less_irrefl)
  with L show "last (window q) = QELEM q (q_start q + q_length q - 1)" "hd (window q) = QELEM q (q_start q)"
    by (simp_all add: last_conv_nth hd_conv_nth)
qed

subsection \<open>The buffer implements the list\<close>

lemma late_loop_window:
  assumes "queue_inv q" "do_replay q \<or> do_sequence q"
  shows "(case late_loop q n (q_start q + i) of (r, q') \<Rightarrow>
    (r, window q') = window_late (do_sequence q) (window q) i n \<and> queue_inv q' \<and> same_settings q q')"
proof (induction "q_length q - i" arbitrary: i rule: less_induct)
  case less
  show ?case
  proof (cases "Suc i < q_length q")
    case False
    then have "\<not> q_start q + i < q_start q + q_length q - 1" by simp
    with False show ?thesis using assms(1) by (subst late_loop.simps, subst window_late.simps) simp
  next
    case True
    then have i: "i < q_length q" "q_start q + i < q_start q + q_length q - 1" by simp_all
    have rest: "case late_loop q n (q_start q + Suc i) of (r, q') \<Rightarrow>
        (r, window q') = window_late (do_sequence q) (window q) (Suc i) n \<and> queue_inv q' \<and> same_settings q q'"
      by (rule less) (use True in simp)
    show ?thesis
      using True i rest assms queue_insert_window(1,2)[OF assms(1) i(1), of n] queue_insert_settings[of q "q_start q + i" n]
      by (subst late_loop.simps, subst window_late.simps) auto
  qed
qed

lemma sequence_check_window:
  assumes "queue_inv q" "do_replay q \<or> do_sequence q"
  shows "(case sequenceCheck q n of (r, q') \<Rightarrow>
    (r, window q') = window_check (do_sequence q) (q_mask q) (window q) (delta q n) \<and> queue_inv q' \<and> same_settings q q')"
proof -
  have L: "q_length q - 1 < q_length q" "q_start q + q_length q - 1 = q_start q + (q_length q - 1)"
    using assms(1) by (auto simp: queue_inv_def)
  define d where "d = delta q n"
  have eq: "sequenceCheck q n = (let expected = (last (window q) + 1) AND q_mask q; q' = queue_insert q (q_start q + (q_length q - 1)) d in
      if d = expected then (GSS_S_COMPLETE, q')
      else if expected < d then (if do_replay q \<and> \<not> do_sequence q then GSS_S_COMPLETE else GSS_S_GAP_TOKEN, q')
      else if d < hd (window q) \<and> d AND (1 + drop_bit 1 (q_mask q)) \<noteq> 0
      then (if do_replay q \<and> \<not> do_sequence q then GSS_S_OLD_TOKEN else GSS_S_UNSEQ_TOKEN, q)
      else if d = last (window q) then (GSS_S_DUPLICATE_TOKEN, q)
      else late_loop q d (q_start q + 0))"
    using assms(2) unfolding sequenceCheck_def Let_def d_def delta_def last_window[OF assms(1)] hd_window[OF assms(1)] L(2) add_0_right
    by (simp only: de_Morgan_disj[symmetric] not_True_eq_False if_False)
  obtain r q' where late: "late_loop q d (q_start q + 0) = (r, q')" by (cases "late_loop q d (q_start q + 0)")
  have "(r, window q') = window_late (do_sequence q) (window q) 0 d" "queue_inv q'" "same_settings q q'"
    using late_loop_window[OF assms, of 0 d] unfolding late by simp_all
  moreover have "window (queue_insert q (q_start q + (q_length q - 1)) d) = window_insert (window q) (q_length q - 1) d"
    "queue_inv (queue_insert q (q_start q + (q_length q - 1)) d)"
    using queue_insert_window(1,2)[OF assms(1) L(1), of d] by auto
  moreover define b1 b2 b3 b4 where "b1 \<longleftrightarrow> d = (last (window q) + 1) AND q_mask q" and "b2 \<longleftrightarrow> (last (window q) + 1) AND q_mask q < d"
    and "b3 \<longleftrightarrow> d < hd (window q) \<and> d AND (1 + drop_bit 1 (q_mask q)) \<noteq> 0" and "b4 \<longleftrightarrow> d = last (window q)"
  ultimately show ?thesis
    unfolding eq d_def[symmetric] window_check_def Let_def late b1_def[symmetric] b2_def[symmetric] b3_def[symmetric] b4_def[symmetric]
    using assms by (cases b1; cases b2; cases b3; cases b4) (auto simp: queue_insert_settings simp del: One_nat_def)
qed

lemma sequence_init:
  "queue_inv (sequenceInit n rep seq wide)" "window (sequenceInit n rep seq wide) = [q_mask (sequenceInit n rep seq wide)]"
  "firstnum (sequenceInit n rep seq wide) = n" "do_replay (sequenceInit n rep seq wide) = rep"
  "do_sequence (sequenceInit n rep seq wide) = seq" "q_mask (sequenceInit n rep seq wide) \<in> {NOT 0, 0xffffffff}"
  by (auto simp: sequenceInit_def Let_def queue_inv_def window_def QELEM_def)

subsection \<open>Windows cover what was accepted\<close>

lemma covers_tl:
  assumes "covers m (x # xs) A" "xs \<noteq> []"
  shows "covers m xs A"
  using assms by (cases xs) (auto simp: covers_def)

lemma window_split:
  assumes "Suc i < length xs"
  obtains us vs where "xs = us @ xs ! i # xs ! Suc i # vs" "take (Suc i) xs = us @ [xs ! i]" "drop (Suc i) xs = xs ! Suc i # vs" "length us = i"
proof (rule that)
  have "drop (Suc i) xs = xs ! Suc i # drop (Suc (Suc i)) xs" using assms by (simp add: Cons_nth_drop_Suc)
  then show "drop (Suc i) xs = xs ! Suc i # drop (Suc (Suc i)) xs"
    "xs = take i xs @ xs ! i # xs ! Suc i # drop (Suc (Suc i)) xs" using id_take_nth_drop[of i xs] assms by simp_all
qed (use assms in \<open>simp_all add: take_Suc_conv_app_nth\<close>)

lemma sorted_insert_between:
  fixes n :: "'a::linorder"
  assumes "sorted_wrt (<) xs" "Suc i < length xs" "xs ! i < n" "n < xs ! Suc i"
  shows "sorted_wrt (<) (take (Suc i) xs @ n # drop (Suc i) xs)" "n \<notin> set xs"
proof -
  from window_split[OF assms(2)] obtain us vs where x: "xs = us @ xs ! i # xs ! Suc i # vs" "take (Suc i) xs = us @ [xs ! i]"
    "drop (Suc i) xs = xs ! Suc i # vs" "length us = i" .
  define a b where "a = xs ! i" and "b = xs ! Suc i"
  note x = x[folded a_def b_def]
  note ab = assms(3)[folded a_def] assms(4)[folded b_def] assms(1)[unfolded x(1)]
  then show "sorted_wrt (<) (take (Suc i) xs @ n # drop (Suc i) xs)"
    unfolding x(2,3) by (auto simp: sorted_wrt_append intro: order.strict_trans)
  have "n \<notin> set (us @ a # b # vs)" using ab by (fastforce simp: sorted_wrt_append)
  then show "n \<notin> set xs" by (subst x(1))
qed

lemma strict_sorted_last:
  fixes x :: "'a::linorder"
  shows "sorted_wrt (<) xs \<Longrightarrow> x \<in> set xs \<Longrightarrow> x \<le> last xs"
  by (induction xs) (auto dest: order.strict_implies_order split: if_splits)

lemma strict_sorted_hd:
  fixes x :: "'a::linorder"
  shows "sorted_wrt (<) xs \<Longrightarrow> x \<in> set xs \<Longrightarrow> hd xs \<le> x"
  by (cases xs) auto

text \<open>The two shapes of a window.\<close>

lemma covers_cases:
  assumes "covers m xs A"
  obtains (initial) ys where "xs = m # ys" "sorted_wrt (<) ys" "\<forall>y\<in>set ys. y < m" "A \<subseteq> set ys"
  | (running) "xs \<noteq> []" "sorted_wrt (<) xs" "\<forall>x\<in>set xs. x < m" "\<forall>a\<in>A. a \<in> set xs \<or> a < hd xs"
proof -
  from assms have le: "xs \<noteq> []" "\<forall>x\<in>set xs. x \<le> m" by (simp_all add: covers_def)
  from assms consider "hd xs = m" "sorted_wrt (<) (tl xs)" "m \<notin> set (tl xs)" "A \<subseteq> set (tl xs)"
    | "sorted_wrt (<) xs" "m \<notin> set xs" "\<forall>a\<in>A. a \<in> set xs \<or> a < hd xs"
    unfolding covers_def by blast
  then show thesis
  proof cases
    case 1
    have "xs = m # tl xs" using le(1) 1(1) by (cases xs) simp_all
    moreover have "\<forall>y\<in>set (tl xs). y < m" using le 1(3) by (metis list.set_sel(2) order_le_less)
    ultimately show ?thesis using initial 1(2,4) by blast
  next
    case 2
    then have "\<forall>x\<in>set xs. x < m" using le(2) by (metis order_le_less)
    then show ?thesis using running le(1) 2(1,3) by blast
  qed
qed

lemma covers_initial:
  "sorted_wrt (<) ys \<Longrightarrow> \<forall>y\<in>set ys. y < m \<Longrightarrow> A \<subseteq> set ys \<Longrightarrow> covers m (m # ys) A"
  by (auto simp: covers_def)

lemma covers_running:
  "xs \<noteq> [] \<Longrightarrow> sorted_wrt (<) xs \<Longrightarrow> \<forall>x\<in>set xs. x < m \<Longrightarrow> \<forall>a\<in>A. a \<in> set xs \<or> a < hd xs \<Longrightarrow> covers m xs A"
  by (auto simp: covers_def)

lemma covers_insert:
  assumes "covers m xs A" "i < length xs"
    and "covers m (take (Suc i) xs @ n # drop (Suc i) xs) (insert n A)"
  shows "covers m (window_insert xs i n) (insert n A)"
proof (cases "length xs = QUEUE_LENGTH")
  case True
  obtain x ys where "take (Suc i) xs @ n # drop (Suc i) xs = x # ys" "ys \<noteq> []"
    using assms(2) by (cases xs) auto
  with True assms(3) show ?thesis using covers_tl[of m x ys] by (simp add: window_insert_def)
qed (use assms(3) in \<open>simp add: window_insert_def\<close>)

text \<open>Insertion at the end and in between.\<close>

lemma covers_append:
  assumes "covers m xs A" "n < m" "last xs = m \<or> last xs < n"
  shows "covers m (window_insert xs (length xs - 1) n) (insert n A)" "n \<notin> A"
proof -
  have ne: "xs \<noteq> []" using assms(1) by (simp add: covers_def)
  have "covers m (xs @ [n]) (insert n A) \<and> n \<notin> A" using assms(1)
  proof (cases rule: covers_cases)
    case (initial ys)
    have lt: "y < n" if "y \<in> set ys" for y
      using that strict_sorted_last[OF initial(2) that] initial(1,3) assms(3) by (cases "ys = []") (auto dest: last_in_set)
    with initial(2-4) assms(2) show ?thesis unfolding initial(1)
      by (auto simp: sorted_wrt_append intro!: covers_initial)
  next
    case running
    have lt: "y < n" if "y \<in> set xs" for y
      using strict_sorted_last[OF running(2) that] running(1,3) assms(3) last_in_set[of xs] by auto
    moreover have "hd xs < n" using lt running(1) by simp
    moreover from this have "n \<notin> A" using running(4) lt by (meson order.asym order.irrefl)
    ultimately show ?thesis using running assms(2)
      by (auto simp: sorted_wrt_append intro!: covers_running)
  qed
  then show "covers m (window_insert xs (length xs - 1) n) (insert n A)" "n \<notin> A"
    using ne by (auto intro!: covers_insert[OF assms(1)])
qed

lemma covers_between:
  assumes "covers m xs A" "Suc i < length xs" "xs ! i < n" "n < xs ! Suc i"
  shows "covers m (window_insert xs i n) (insert n A)" "n \<notin> A"
proof -
  have "covers m (take (Suc i) xs @ n # drop (Suc i) xs) (insert n A) \<and> n \<notin> A" using assms(1)
  proof (cases rule: covers_cases)
    case (initial ys)
    with assms(2-4) have "i \<noteq> 0"
      using nth_mem[of 0 ys] by (intro notI) (force dest: order.strict_trans)
    then obtain j where i: "i = Suc j" by (cases i) auto
    with assms(2-4) initial(1) have j: "Suc j < length ys" "ys ! j < n" "n < ys ! Suc j" by auto
    have "n < m" using j(1,3) initial(3) by (meson nth_mem order.strict_trans)
    have "set (take (Suc j) ys) \<union> set (drop (Suc j) ys) = set ys" by (metis append_take_drop_id set_append)
    then have "set (take (Suc j) ys @ n # drop (Suc j) ys) = insert n (set ys)" by auto
    with sorted_insert_between[OF initial(2) j] initial(3,4) \<open>n < m\<close> show ?thesis
      unfolding initial(1) i by (auto intro!: covers_initial simp del: set_append)
  next
    case running
    have "n < m" using assms(2,4) running(3) by (meson nth_mem order.strict_trans)
    moreover have "hd xs < n" using strict_sorted_hd[OF running(2), of "xs ! i"] assms(2,3) by simp
    moreover define zs where "zs = take (Suc i) xs @ n # drop (Suc i) xs"
    moreover have "set (take (Suc i) xs) \<union> set (drop (Suc i) xs) = set xs" by (metis append_take_drop_id set_append)
    then have "set zs = insert n (set xs)" by (auto simp: zs_def)
    moreover have "hd zs = hd xs" "zs \<noteq> []" using running(1) by (cases xs; simp add: zs_def)+
    moreover have "sorted_wrt (<) zs" "n \<notin> set xs" using sorted_insert_between[OF running(2) assms(2-4)] by (simp_all add: zs_def)
    moreover from this(2) have "n \<notin> A" using running(4) \<open>hd xs < n\<close> by (meson order.asym)
    ultimately show ?thesis using running unfolding zs_def[symmetric] by (auto intro!: covers_running)
  qed
  then show "covers m (window_insert xs i n) (insert n A)" "n \<notin> A"
    using assms(2) by (auto intro!: covers_insert[OF assms(1)])
qed

text \<open>A late number that is accepted lies between two neighbours.\<close>

lemma window_late_cases:
  "window_late seq xs i n = (r, ys) \<Longrightarrow>
    (r \<in> {GSS_S_DUPLICATE_TOKEN, GSS_S_FAILURE} \<and> ys = xs) \<or>
    (r = (if seq then GSS_S_UNSEQ_TOKEN else GSS_S_COMPLETE) \<and>
      (\<exists>j. Suc j < length xs \<and> xs ! j < n \<and> n < xs ! Suc j \<and> ys = window_insert xs j n))"
proof (induction seq xs i n rule: window_late.induct)
  case (1 seq xs i n)
  from 1(2) show ?case
    by (subst (asm) window_late.simps) (use 1(1) in \<open>auto split: if_splits\<close>)
qed

lemma mask_and:
  fixes x m :: u64
  assumes "m \<in> {NOT 0, 0xffffffff}" "x \<le> m"
  shows "x AND m = x"
proof (cases "m = NOT 0")
  case False
  with assms have "unat x < 2 ^ 32" "m = mask 32" by (auto simp: word_le_nat_alt mask_eq_exp_minus_1)
  then show ?thesis by (intro word_unat_eq_iff[THEN iffD2])
      (simp add: take_bit_eq_mask[symmetric] unsigned_take_bit_eq take_bit_nat_eq_self)
qed simp

lemma mask_below:
  fixes n m :: u64
  assumes "m \<in> {NOT 0, 0xffffffff}" "n < m"
  shows "(n + 1) AND m = n + 1" "n < n + 1" "n + 1 \<le> m"
proof -
  have "unat n < unat m" "unat m < 2 ^ 64" using assms(2) unsigned_less[of m] by (simp_all add: word_less_nat_alt)
  then have "unat (n + 1) = unat n + 1" by (simp add: unat_word_ariths(1))
  with \<open>unat n < unat m\<close> show le: "n < n + 1" "n + 1 \<le> m" by (simp_all add: word_less_nat_alt word_le_nat_alt)
  show "(n + 1) AND m = n + 1" by (rule mask_and[OF assms(1) le(2)])
qed

lemma covers_mono: "covers m xs B \<Longrightarrow> A \<subseteq> B \<Longrightarrow> covers m xs A"
  by (auto simp: covers_def)

lemma covers_last:
  assumes "m \<in> {NOT 0, 0xffffffff}" "covers m xs A"
  shows "last xs = m \<and> (last xs + 1) AND m = 0 \<or> last xs < m \<and> (last xs + 1) AND m = last xs + 1 \<and> last xs < last xs + 1"
proof -
  have "last xs \<le> m" using assms(2) by (simp add: covers_def)
  moreover have "(m + 1) AND m = 0" using assms(1) by auto
  ultimately show ?thesis using mask_below[OF assms(1), of "last xs"] by (auto simp: order_le_less)
qed

lemma window_check_covers:
  assumes m: "m \<in> {NOT 0, 0xffffffff}" and c: "covers m xs A" and n: "n < m" and r: "window_check seq m xs n = (r, ys)"
  shows "covers m ys (if accepted r then insert n A else A)"
    "accepted r \<Longrightarrow> n \<notin> A"
proof -
  note l = covers_last[OF m c]
  consider (last) "n = (last xs + 1) AND m \<or> (last xs + 1) AND m < n" "ys = window_insert xs (length xs - 1) n"
      "accepted r"
    | (old) "ys = xs" "\<not> accepted r" | (late) "window_late seq xs 0 n = (r, ys)"
    using r by (auto simp: window_check_def Let_def split: if_splits)
  then have "covers m ys (if accepted r then insert n A else A) \<and>
      (accepted r \<longrightarrow> n \<notin> A)"
  proof cases
    case last
    have "last xs = m \<or> last xs < n" using l last(1) by auto
    from covers_append[OF c n this] last(2,3) show ?thesis by simp
  next
    case old
    then show ?thesis using c by simp
  next
    case late
    from window_late_cases[OF late] show ?thesis
    proof
      assume "r \<in> {GSS_S_DUPLICATE_TOKEN, GSS_S_FAILURE} \<and> ys = xs"
      then show ?thesis using c by auto
    next
      assume "r = (if seq then GSS_S_UNSEQ_TOKEN else GSS_S_COMPLETE) \<and>
        (\<exists>j. Suc j < length xs \<and> xs ! j < n \<and> n < xs ! Suc j \<and> ys = window_insert xs j n)"
      then obtain j where j: "Suc j < length xs" "xs ! j < n" "n < xs ! Suc j" "ys = window_insert xs j n" by blast
      from covers_between[OF c j(1-3)] j(4) show ?thesis by (auto intro: covers_mono)
    qed
  qed
  then show "covers m ys (if accepted r then insert n A else A)"
    "accepted r \<Longrightarrow> n \<notin> A" by blast+
qed

lemma mask_accepted:
  assumes "m \<in> {NOT 0, 0xffffffff}" "covers m xs A" "window_check seq m xs m = (r, ys)"
  shows "accepted r"
proof -
  have "(last xs + 1) AND m \<le> m"
    using covers_last[OF assms(1,2)] mask_below(3)[OF assms(1), of "last xs"] by auto
  then show ?thesis using assms(3) by (auto simp: window_check_def Let_def order_le_less split: if_splits)
qed

lemma delta_settings: "same_settings q q' \<Longrightarrow> delta q' n = delta q n"
  by (simp add: same_settings_def delta_def)

lemma delta_le: "delta q n \<le> q_mask q"
  by (simp add: delta_def word_and_le1)

text \<open>An invariant of everything that can be reached, with the accepted differences.\<close>

lemma reaches_covers:
  assumes "reaches q0 A q" "queue_inv q0" "do_replay q0 \<or> do_sequence q0" "q_mask q0 \<in> {NOT 0, 0xffffffff}"
    and "covers (q_mask q0) (window q0) {}" "\<forall>a\<in>A. delta q0 a \<noteq> q_mask q0"
  shows "queue_inv q \<and> same_settings q0 q \<and> covers (q_mask q0) (window q) (delta q0 ` A)"
  using assms
proof (induction rule: reaches.induct)
  case start
  then show ?case by simp
next
  case (check A q n r q')
  have "\<forall>a\<in>A. delta q0 a \<noteq> q_mask q0" using check.prems(5) by (cases "accepted r") simp_all
  from check.IH[OF check.prems(1-4) this]
  have q: "queue_inv q" "same_settings q0 q" "covers (q_mask q0) (window q) (delta q0 ` A)" by simp_all
  from q(2) check.prems(2) have s: "do_replay q \<or> do_sequence q" "q_mask q = q_mask q0" "delta q n = delta q0 n"
    using delta_settings[OF q(2), of n] by (auto simp: same_settings_def)
  from sequence_check_window[OF q(1) s(1), of n] check.hyps(2) s have c: "window_check (do_sequence q) (q_mask q0) (window q) (delta q0 n) = (r, window q')"
    and q': "queue_inv q'" "same_settings q q'" by simp_all
  have "delta q0 n \<noteq> q_mask q0"
  proof
    assume eq: "delta q0 n = q_mask q0"
    have "accepted r" by (rule mask_accepted[OF check.prems(3) q(3)]) (use c eq in simp)
    with eq check.prems(5) show False by auto
  qed
  with delta_le[of q0 n] have "delta q0 n < q_mask q0" by simp
  from window_check_covers(1)[OF check.prems(3) q(3) this c] have "covers (q_mask q0) (window q') (delta q0 ` (if accepted r then insert n A else A))"
    by (cases "accepted r") simp_all
  with q' q(2) show ?case by (auto simp: same_settings_def)
qed

subsection \<open>In order\<close>

lemma mask_step:
  fixes x m :: u64
  assumes "m \<in> {NOT 0, 0xffffffff}"
  shows "((x AND m) + 1) AND m = (x + 1) AND m"
proof (cases "m = NOT 0")
  case False
  with assms have m: "m = mask 32" by (simp add: mask_eq_exp_minus_1)
  have um: "unat (y AND mask 32) = unat y mod 2 ^ 32" for y :: u64
    by (simp only: take_bit_eq_mask[symmetric] unsigned_take_bit_eq) (simp only: take_bit_eq_mod)
  have "unat x mod 2 ^ 32 < 2 ^ 32" by simp
  then have "unat ((x AND mask 32) + 1) = unat x mod 2 ^ 32 + 1" by (simp add: unat_word_ariths(1) um)
  then have "unat (((x AND mask 32) + 1) AND mask 32) = (unat x + 1) mod 2 ^ 32" by (simp add: um mod_simps)
  moreover have "unat ((x + 1) AND mask 32) = (unat x + 1) mod 2 ^ 32"
    by (simp add: um unat_word_ariths(1) mod_mod_cancel)
  ultimately show ?thesis unfolding m by (simp add: word_unat_eq_iff)
qed simp

lemma last_window_insert: "xs \<noteq> [] \<Longrightarrow> last (window_insert xs (length xs - 1) n) = n"
  by (cases xs) (auto simp: window_insert_def Let_def last_tl)

lemma check_expected:
  assumes "queue_inv q" "do_replay q \<or> do_sequence q" "delta q n = (last (window q) + 1) AND q_mask q"
  obtains q' where "sequenceCheck q n = (GSS_S_COMPLETE, q')" "queue_inv q'" "same_settings q q'" "last (window q') = delta q n"
proof -
  obtain r q' where c: "sequenceCheck q n = (r, q')" by (cases "sequenceCheck q n")
  have ins: "last (window_insert (window q) (q_length q - 1) (delta q n)) = delta q n"
    using last_window_insert[OF window_nonempty[OF assms(1)]] by simp
  have "(r, window q') = (GSS_S_COMPLETE, window_insert (window q) (q_length q - 1) (delta q n))" "queue_inv q'" "same_settings q q'"
    using sequence_check_window[OF assms(1,2), of n] assms(3) by (simp_all add: c window_check_def)
  with ins c show ?thesis by (intro that[of q']) auto
qed

lemma check_all_in_order:
  assumes "queue_inv q" "do_replay q \<or> do_sequence q" "q_mask q \<in> {NOT 0, 0xffffffff}"
    and "last (window q) = (of_nat j - 1) AND q_mask q"
  shows "fst (check_all q (map (\<lambda>i. firstnum q + of_nat i) [j..<j + k])) = replicate k GSS_S_COMPLETE"
  using assms
proof (induction k arbitrary: q j)
  case (Suc k)
  have d: "delta q (firstnum q + of_nat j) = of_nat j AND q_mask q" by (simp add: delta_def)
  obtain q' where q': "sequenceCheck q (firstnum q + of_nat j) = (GSS_S_COMPLETE, q')" "queue_inv q'" "same_settings q q'"
    "last (window q') = delta q (firstnum q + of_nat j)"
    by (rule check_expected[OF Suc.prems(1,2), of "firstnum q + of_nat j"]) (use mask_step[OF Suc.prems(3), of "of_nat j - 1"] Suc.prems(4) d in simp)
  define ns where "ns = map (\<lambda>i. firstnum q + of_nat i) [Suc j..<Suc j + k]"
  have "fst (check_all q' (map (\<lambda>i. firstnum q' + of_nat i) [Suc j..<Suc j + k])) = replicate k GSS_S_COMPLETE"
    by (rule Suc.IH) (use q' Suc.prems d in \<open>auto simp: same_settings_def\<close>)
  then have "fst (check_all q' ns) = replicate k GSS_S_COMPLETE" using q'(3) by (simp add: ns_def same_settings_def)
  moreover have "[j..<j + Suc k] = j # [Suc j..<Suc j + k]" using upt_conv_Cons[of j "j + Suc k"] by (simp del: upt_Suc)
  then have "map (\<lambda>i. firstnum q + of_nat i) [j..<j + Suc k] = (firstnum q + of_nat j) # ns" by (simp only: ns_def list.map)
  ultimately show ?case using q'(1) by (cases "check_all q' ns") (simp del: upt_Suc)
qed simp

subsection \<open>Every outcome\<close>

lemma window_late_outcome:
  assumes "sorted_wrt (<) xs" "i < length xs" "n < last xs"
  shows "fst (window_late False xs i n) =
    (if n < xs ! i then GSS_S_FAILURE else if n \<in> set (drop i xs) then GSS_S_DUPLICATE_TOKEN else GSS_S_COMPLETE)"
  using assms
proof (induction "length xs - i" arbitrary: i)
  case (Suc k)
  show ?case
  proof (cases "Suc i < length xs")
    case True
    then have IH: "fst (window_late False xs (Suc i) n) = (if n < xs ! Suc i then GSS_S_FAILURE
        else if n \<in> set (drop (Suc i) xs) then GSS_S_DUPLICATE_TOKEN else GSS_S_COMPLETE)"
      using Suc by (intro Suc.hyps(1)) auto
    have lt: "xs ! i < xs ! Suc i" using True Suc.prems(1) by (simp add: sorted_wrt_nth_less)
    have d: "drop i xs = xs ! i # drop (Suc i) xs" using Suc.prems(2) by (simp add: Cons_nth_drop_Suc)
    have out: "n \<notin> set (drop (Suc i) xs)" if "n < xs ! Suc i"
    proof -
      have "sorted_wrt (<) (drop (Suc i) xs)" using Suc.prems(1) by (metis sorted_wrt_drop)
      from strict_sorted_hd[OF this, of n] that True show ?thesis by (auto simp: hd_drop_conv_nth)
    qed
    show ?thesis using True IH lt d out by (subst window_late.simps) auto
  next
    case False
    with Suc.prems have "xs ! i = last xs" by (metis Suc_lessI diff_Suc_1 last_conv_nth length_0_conv not_less_zero)
    with False Suc.prems(3) show ?thesis by (subst window_late.simps) simp
  qed
qed simp

section \<open>Properties\<close>

text \<open>C21: the circular buffer implements a list of at most twenty numbers: a check answers what a check on
  the list of the contents answers, leaves the contents that the list check leaves, and keeps the
  shape of the queue and its settings.\<close>

theorem sequence_check_refines:
  assumes "queue_inv q" "do_replay q \<or> do_sequence q" "sequenceCheck q n = (r, q')"
  shows "window_check (do_sequence q) (q_mask q) (window q) (delta q n) = (r, window q') \<and> queue_inv q' \<and> same_settings q q'"
  using sequence_check_window[OF assms(1,2), of n] assms(3) by simp

text \<open>C22: no number is accepted twice.  Whatever numbers were checked since the start, a number whose
  difference is one of those accepted, with or without a gap, is not accepted again; only the
  number before the first one, whose difference is the mask, must not have been among them.\<close>

theorem sequence_no_replay:
  assumes "reaches (sequenceInit first rep seq wide) A q" "rep \<or> seq"
    and "\<forall>a\<in>insert n A. delta (sequenceInit first rep seq wide) a \<noteq> q_mask (sequenceInit first rep seq wide)"
    and "sequenceCheck q n = (r, q')" "accepted r"
  shows "delta (sequenceInit first rep seq wide) n \<notin> delta (sequenceInit first rep seq wide) ` A \<and> n \<notin> A"
proof -
  let ?q = "sequenceInit first rep seq wide"
  note i = sequence_init[of first rep seq wide]
  have cov: "covers (q_mask ?q) (window ?q) {}" by (simp add: i(2) covers_def)
  have q: "queue_inv q" "same_settings ?q q" "covers (q_mask ?q) (window q) (delta ?q ` A)"
    using reaches_covers[OF assms(1) i(1) _ i(6) cov] assms(2,3) i(4,5) by auto
  then have s: "do_replay q \<or> do_sequence q" "q_mask q = q_mask ?q" "delta q n = delta ?q n"
    using assms(2) i(4,5) delta_settings[OF q(2), of n] by (auto simp: same_settings_def)
  have c: "window_check (do_sequence q) (q_mask ?q) (window q) (delta ?q n) = (r, window q')"
    using sequence_check_window[OF q(1) s(1), of n] assms(4) s by simp
  have "delta ?q n < q_mask ?q" using assms(3) delta_le[of ?q n] by (simp add: order_le_less)
  from window_check_covers(2)[OF i(6) q(3) this c assms(5)] show ?thesis by blast
qed

theorem sequence_check_refines_witness:
  "\<exists>r q'. sequenceCheck (sequenceInit 7 True False True) 7 = (r, q') \<and> r = GSS_S_COMPLETE \<and> window q' = [- 1, 0]"
proof -
  obtain r q' where c: "sequenceCheck (sequenceInit 7 True False True) 7 = (r, q')" by (cases "sequenceCheck (sequenceInit 7 True False True) 7")
  have m: "q_mask (sequenceInit 7 True False True) = - 1" by (simp add: sequenceInit_def Let_def)
  have "window_check False (- 1) [- 1] 0 = (r, window q')"
    using sequence_check_refines[OF sequence_init(1) _ c] sequence_init(2-5)[of 7 True False True] by (simp add: m delta_def)
  then have "r = GSS_S_COMPLETE \<and> window q' = [- 1, 0]" by (auto simp: window_check_def window_insert_def)
  with c show ?thesis by blast
qed

theorem sequence_no_replay_witness:
  "\<exists>A q r q'. reaches (sequenceInit 7 True False True) A q \<and> 9 \<in> A \<and> sequenceCheck q 9 = (r, q') \<and> \<not> accepted r"
proof -
  let ?q = "sequenceInit 7 True False True"
  have "fst (sequenceCheck ?q 7) = GSS_S_COMPLETE" by code_simp
  then obtain q1 where q1: "sequenceCheck ?q 7 = (GSS_S_COMPLETE, q1)" by (cases "sequenceCheck ?q 7") simp
  have "fst (sequenceCheck (snd (sequenceCheck ?q 7)) 9) = GSS_S_COMPLETE" by code_simp
  then obtain q2 where q2: "sequenceCheck q1 9 = (GSS_S_COMPLETE, q2)" by (cases "sequenceCheck q1 9") (simp add: q1)
  have r: "reaches ?q {9, 7} q2"
    using reaches.check[OF reaches.check[OF reaches.start q1] q2] by simp
  obtain r q3 where c: "sequenceCheck q2 9 = (r, q3)" by (cases "sequenceCheck q2 9")
  have d: "\<forall>a\<in>insert 9 {9, 7}. delta ?q a \<noteq> q_mask ?q" by code_simp
  have "\<not> accepted r" using sequence_no_replay[OF r _ d c] by auto
  with r c show ?thesis by blast
qed

text \<open>Numbers that arrive in order are all accepted, however many there are and also past the largest
  number.\<close>

theorem sequence_in_order:
  "fst (check_all (sequenceInit first rep seq wide) (map (\<lambda>i. first + of_nat i) [0..<k])) = replicate k GSS_S_COMPLETE"
proof (cases "rep \<or> seq")
  case True
  note i = sequence_init[of first rep seq wide]
  have "last (window (sequenceInit first rep seq wide)) = (of_nat 0 - 1) AND q_mask (sequenceInit first rep seq wide)"
    by (simp add: i(2))
  from check_all_in_order[OF i(1) _ i(6) this, of k] True show ?thesis by (simp add: i(3-5))
next
  case False
  then have "sequenceCheck (sequenceInit first rep seq wide) n = (GSS_S_COMPLETE, sequenceInit first rep seq wide)" for n
    by (simp add: sequenceCheck_def sequence_init)
  then have "fst (check_all (sequenceInit first rep seq wide) ns) = replicate (length ns) GSS_S_COMPLETE" for ns
    by (induction ns) (auto split: prod.splits)
  then show ?thesis by simp
qed

text \<open>The answer for every number, once the window has only received numbers.  A number of the window is a
  duplicate; a number that is missing after the oldest one, or that is newer than all, is
  accepted; and an older number is old if its top bit is set, but is a failure otherwise, although
  the code takes that to be impossible.\<close>

theorem sequence_check_outcome:
  assumes "queue_inv q" "do_replay q" "\<not> do_sequence q" "q_mask q \<in> {NOT 0, 0xffffffff}"
    and "sorted_wrt (<) (window q)" "last (window q) < q_mask q"
  shows "fst (sequenceCheck q n) =
    (if delta q n \<in> set (window q) then GSS_S_DUPLICATE_TOKEN
     else if hd (window q) < delta q n then GSS_S_COMPLETE
     else if delta q n AND (1 + drop_bit 1 (q_mask q)) \<noteq> 0 then GSS_S_OLD_TOKEN else GSS_S_FAILURE)"
proof -
  note ne = window_nonempty[OF assms(1)]
  let ?xs = "window q" and ?n = "delta q n"
  obtain r q' where c: "sequenceCheck q n = (r, q')" by (cases "sequenceCheck q n")
  have w: "window_check False (q_mask q) ?xs ?n = (r, window q')"
    using sequence_check_refines[OF assms(1) _ c] assms(2,3) by simp
  have e: "(last ?xs + 1) AND q_mask q = last ?xs + 1" "last ?xs < last ?xs + 1" using mask_below[OF assms(4,6)] by auto
  have hl: "hd ?xs \<le> last ?xs" "hd ?xs = ?xs ! 0" using strict_sorted_hd[OF assms(5)] ne by (simp_all add: hd_conv_nth)
  have mem: "hd ?xs \<le> x \<and> x \<le> last ?xs" if "x \<in> set ?xs" for x
    using that strict_sorted_hd[OF assms(5)] strict_sorted_last[OF assms(5)] by blast
  have ends: "hd ?xs \<in> set ?xs" "last ?xs \<in> set ?xs" using ne by simp_all
  consider (new) "last ?xs < ?n" | (last) "?n = last ?xs" | (late) "?n < last ?xs" by (rule linorder_cases)
  then have "r = (if ?n \<in> set ?xs then GSS_S_DUPLICATE_TOKEN else if hd ?xs < ?n then GSS_S_COMPLETE
      else if ?n AND (1 + drop_bit 1 (q_mask q)) \<noteq> 0 then GSS_S_OLD_TOKEN else GSS_S_FAILURE)"
  proof cases
    case new
    then have "last ?xs + 1 \<le> ?n" by (rule inc_le)
    then have "r = GSS_S_COMPLETE"
      using w e(1) by (cases "?n = last ?xs + 1") (auto simp: window_check_def Let_def order_le_less)
    moreover have "?n \<notin> set ?xs" using mem[of ?n] new by auto
    moreover have "hd ?xs < ?n" using hl(1) new by simp
    ultimately show ?thesis by simp
  next
    case last
    have "\<not> last ?xs + 1 < last ?xs" "\<not> last ?xs < hd ?xs" using e(2) hl(1) by auto
    then have "r = GSS_S_DUPLICATE_TOKEN" using w e unfolding last by (auto simp: window_check_def Let_def)
    then show ?thesis using ends(2) by (simp add: last)
  next
    case late
    have "\<not> last ?xs + 1 < ?n" "?n \<noteq> last ?xs + 1" "?n \<noteq> last ?xs" using late e(2) by auto
    then have "r = (if ?n < hd ?xs \<and> ?n AND (1 + drop_bit 1 (q_mask q)) \<noteq> 0 then GSS_S_OLD_TOKEN else fst (window_late False ?xs 0 ?n))"
      using w e(1) late by (auto simp: window_check_def Let_def)
    moreover have "fst (window_late False ?xs 0 ?n) =
        (if ?n < hd ?xs then GSS_S_FAILURE else if ?n \<in> set ?xs then GSS_S_DUPLICATE_TOKEN else GSS_S_COMPLETE)"
      unfolding hl(2) using window_late_outcome[OF assms(5) _ late, of 0] ne by (simp del: window_nth length_window)
    ultimately have r: "r = (if ?n < hd ?xs then (if ?n AND (1 + drop_bit 1 (q_mask q)) \<noteq> 0 then GSS_S_OLD_TOKEN else GSS_S_FAILURE)
        else if ?n \<in> set ?xs then GSS_S_DUPLICATE_TOKEN else GSS_S_COMPLETE)" by simp
    consider "?n < hd ?xs" | "?n = hd ?xs" | "hd ?xs < ?n" by (rule linorder_cases)
    then show ?thesis
    proof cases
      case 1
      then have "?n \<notin> set ?xs" "\<not> hd ?xs < ?n" using mem[of ?n] by auto
      with 1 r show ?thesis by simp
    next
      case 2
      then show ?thesis using r ends(1) by simp
    next
      case 3
      then have "\<not> ?n < hd ?xs" by simp
      with 3 r show ?thesis by simp
    qed
  qed
  then show ?thesis by (simp add: c)
qed

theorem sequence_check_outcome_witness:
  "\<exists>q. window q = [1, 2, 5] \<and> fst (sequenceCheck q 3) = GSS_S_COMPLETE \<and> fst (sequenceCheck q 2) = GSS_S_DUPLICATE_TOKEN \<and>
     fst (sequenceCheck q 0) = GSS_S_FAILURE"
proof -
  define q where "q = \<lparr>do_replay = True, do_sequence = False, q_start = 0, q_length = 3, firstnum = 0,
      elem = [1, 2, 5] @ replicate 17 0, q_mask = - 1\<rparr>"
  have w: "window q = [1, 2, 5]" unfolding q_def by code_simp
  have q: "queue_inv q" "do_replay q" "\<not> do_sequence q" "q_mask q \<in> {NOT 0, 0xffffffff}" "delta q n = n" for n
    by (simp_all add: q_def queue_inv_def delta_def)
  have s: "sorted_wrt (<) (window q)" "last (window q) < q_mask q" by (simp_all add: w) (simp add: q_def)
  note out = sequence_check_outcome[OF q(1-4) s, unfolded w q(5)]
  have "fst (sequenceCheck q 3) = GSS_S_COMPLETE" "fst (sequenceCheck q 2) = GSS_S_DUPLICATE_TOKEN" "fst (sequenceCheck q 0) = GSS_S_FAILURE"
    by (simp_all add: out)
  with w show ?thesis by blast
qed

text \<open>The first numbers of a connection are treated differently: if a number overtakes another one
  before the first number has arrived, the late one is refused as a failure, although it was never
  received and would be accepted a moment later.\<close>

theorem sequence_early_overtaking:
  "fst (check_all (sequenceInit 0 True False True) [5, 3]) = [GSS_S_COMPLETE, GSS_S_FAILURE] \<and>
   fst (check_all (sequenceInit 0 True False True) [0, 5, 3]) = [GSS_S_COMPLETE, GSS_S_COMPLETE, GSS_S_COMPLETE]"
  by code_simp

end
