(* ===== verification/Token.thy ===== *)
theory Token
  imports Gss
begin

text \<open>
  The framing of GSS tokens: \<^verbatim>\<open>mech_browserid/util_token.c\<close>, the byte order functions of
  \<^verbatim>\<open>util.h\<close>, and the functions of \<^verbatim>\<open>util_context.c\<close> and \<^verbatim>\<open>util_mech.c\<close> that make and take
  apart tokens.  A read outside the buffer is \<open>None\<close>.
\<close>

section \<open>Numbers in network byte order\<close>

definition store_uint16_be :: "16 word \<Rightarrow> byte list" where
  "store_uint16_be val = [ucast (drop_bit 8 val), ucast val]"

definition load_uint16_be :: "byte list \<Rightarrow> 16 word option" where
  "load_uint16_be p =
     (case p of a # b # _ \<Rightarrow> Some (ucast b OR push_bit 8 (ucast a)) | _ \<Rightarrow> None)"

definition store_uint32_be :: "u32 \<Rightarrow> byte list" where
  "store_uint32_be val = [ucast (drop_bit 24 val), ucast (drop_bit 16 val), ucast (drop_bit 8 val), ucast val]"

definition load_uint32_be :: "byte list \<Rightarrow> u32 option" where
  "load_uint32_be p =
     (case p of
        a # b # c # d # _ \<Rightarrow> Some (ucast d OR push_bit 8 (ucast c) OR push_bit 16 (ucast b) OR push_bit 24 (ucast a))
      | _ \<Rightarrow> None)"

definition store_uint64_be :: "64 word \<Rightarrow> byte list" where
  "store_uint64_be val =
     [ucast (drop_bit 56 val), ucast (drop_bit 48 val), ucast (drop_bit 40 val), ucast (drop_bit 32 val),
      ucast (drop_bit 24 val), ucast (drop_bit 16 val), ucast (drop_bit 8 val), ucast val]"

definition load_uint64_be :: "byte list \<Rightarrow> 64 word option" where
  "load_uint64_be p =
     (case load_uint32_be p of
        None \<Rightarrow> None
      | Some h \<Rightarrow> map_option (\<lambda>l. push_bit 32 (ucast h) OR ucast l) (load_uint32_be (drop 4 p)))"

section \<open>Lengths\<close>

definition der_length_size :: "nat \<Rightarrow> nat" where
  "der_length_size n =
     (if n < 2 ^ 7 then 1 else if n < 2 ^ 8 then 2 else if n < 2 ^ 16 then 3 else if n < 2 ^ 24 then 4 else 5)"

definition der_write_length :: "nat \<Rightarrow> byte list" where
  "der_write_length n =
     (if n < 2 ^ 7 then [of_nat n]
      else [of_nat (der_length_size n + 127)]
           @ (if 2 ^ 24 \<le> n then [of_nat (n div 2 ^ 24)] else [])
           @ (if 2 ^ 16 \<le> n then [of_nat (n div 2 ^ 16)] else [])
           @ (if 2 ^ 8 \<le> n then [of_nat (n div 2 ^ 8)] else [])
           @ [of_nat n])"

text \<open>
  The value is an \<^verbatim>\<open>int\<close> of 32 bits, shifted as compilers do it: a length of four bytes with the
  top bit set comes out negative.
\<close>

fun der_read_loop :: "nat \<Rightarrow> u32 \<Rightarrow> byte list \<Rightarrow> int \<Rightarrow> (u32 \<times> byte list \<times> int) option" where
  "der_read_loop 0 ret buf bufsize = Some (ret, buf, bufsize)"
| "der_read_loop (Suc sf) ret [] bufsize = None"
| "der_read_loop (Suc sf) ret (b # buf) bufsize = der_read_loop sf (push_bit 8 ret + ucast b) buf (bufsize - 1)"

definition der_read_length :: "byte list \<Rightarrow> int \<Rightarrow> (int \<times> byte list \<times> int) option" where
  "der_read_length buf bufsize =
     (if bufsize < 1 then Some (-1, buf, bufsize)
      else case buf of
        [] \<Rightarrow> None
      | sf # buf \<Rightarrow>
          let bufsize = bufsize - 1 in
          if sf AND 0x80 = 0 then Some (uint sf, buf, bufsize)
          else let sf = unat (sf AND 0x7f) in
            if bufsize - 1 < int sf then Some (-1, buf, bufsize)
            else if 4 < sf then Some (-1, buf, bufsize)
            else map_option (\<lambda>(ret, buf, bufsize). (sint ret, buf, bufsize)) (der_read_loop sf 0 buf bufsize))"

section \<open>Headers\<close>

abbreviation TOK_TYPE_INITIATOR_CONTEXT :: "16 word" where "TOK_TYPE_INITIATOR_CONTEXT \<equiv> 0x632C"
abbreviation TOK_TYPE_ACCEPTOR_CONTEXT :: "16 word" where "TOK_TYPE_ACCEPTOR_CONTEXT \<equiv> 0x432C"

definition tokenSize :: "gss_OID option \<Rightarrow> nat \<Rightarrow> nat" where
  "tokenSize mech body_size =
     (let body_size = body_size + 2 in
      case mech of
        None \<Rightarrow> body_size
      | Some oid \<Rightarrow> let body_size = body_size + 2 + length oid in body_size + 1 + der_length_size body_size)"

definition makeTokenHeader :: "gss_OID option \<Rightarrow> nat \<Rightarrow> 16 word \<Rightarrow> byte list" where
  "makeTokenHeader mech body_size tok_type =
     (case mech of
        None \<Rightarrow> []
      | Some oid \<Rightarrow> [0x60] @ der_write_length (4 + length oid + body_size) @ [0x06, of_nat (length oid)] @ oid)
     @ [ucast (drop_bit 8 tok_type), ucast tok_type]"

text \<open>Reading one byte.\<close>

definition rd :: "byte list \<Rightarrow> (byte \<Rightarrow> byte list \<Rightarrow> 'a option) \<Rightarrow> 'a option" where
  "rd buf k = (case buf of [] \<Rightarrow> None | b # buf \<Rightarrow> k b buf)"

type_synonym gss_error = "OM_uint32 \<times> OM_uint32"

definition verify_type ::
  "'x gss_tables_scheme \<Rightarrow> gss_OID \<Rightarrow> byte list \<Rightarrow> int \<Rightarrow> (gss_error + gss_OID \<times> byte list \<times> int \<times> 16 word) option" where
  "verify_type T toid buf toksize =
     (let toksize = toksize - 2 in
      if toksize < 0 then Some (Inl (GSS_S_DEFECTIVE_TOKEN, bidg T GSSBID_BAD_TOK_HEADER))
      else map_option (\<lambda>t. Inr (toid, drop 2 buf, toksize, t)) (load_uint16_be buf))"

text \<open>The identifier of a mechanism, and the rest of the header.\<close>

definition verify_mech ::
  "'x gss_tables_scheme \<Rightarrow> byte list \<Rightarrow> int \<Rightarrow> (gss_error + gss_OID \<times> byte list \<times> int \<times> 16 word) option" where
  "verify_mech T buf toksize =
     (let bad = Some (Inl (GSS_S_DEFECTIVE_TOKEN, bidg T GSSBID_BAD_TOK_HEADER)) in
      let toksize = toksize - 1 in if toksize < 0 then bad else
      rd buf (\<lambda>tag buf. if tag \<noteq> 0x06 then bad else
      let toksize = toksize - 1 in if toksize < 0 then bad else
      rd buf (\<lambda>len buf.
      let toksize = toksize - uint len in if toksize < 0 then bad else
      if len = 0 then Some (Inl (GSS_S_BAD_MECH, bidg T GSSBID_BAD_TOK_HEADER))
      else verify_type T (take (unat len) buf) (drop (unat len) buf) toksize)))"

text \<open>The token has \<open>toksize\<close> bytes; \<open>mech\<close> says whether an identifier is expected, which is
  returned with the rest of the buffer, the number of bytes in it, and the token type.\<close>

definition verifyTokenHeader ::
  "'x gss_tables_scheme \<Rightarrow> bool \<Rightarrow> byte list \<Rightarrow> int \<Rightarrow> (gss_error + gss_OID \<times> byte list \<times> int \<times> 16 word) option" where
  "verifyTokenHeader T mech buf toksize =
     (let bad = Some (Inl (GSS_S_DEFECTIVE_TOKEN, bidg T GSSBID_BAD_TOK_HEADER)) in
      if \<not> mech then verify_type T [] buf toksize
      else
        let toksize = toksize - 1 in if toksize < 0 then bad else
        rd buf (\<lambda>tag buf. if tag \<noteq> 0x60 then bad else
        case der_read_length buf toksize of
          None \<Rightarrow> None
        | Some (seqsize, buf, toksize) \<Rightarrow>
            if seqsize < 0 then bad else if seqsize \<noteq> toksize then bad else verify_mech T buf toksize))"

section \<open>Tokens of a context\<close>

abbreviation OID_FLAG_NULL_VALID :: u32 where "OID_FLAG_NULL_VALID \<equiv> 1"
abbreviation OID_FLAG_FAMILY_MECH_VALID :: u32 where "OID_FLAG_FAMILY_MECH_VALID \<equiv> 2"
abbreviation OID_FLAG_MAP_NULL_TO_DEFAULT_MECH :: u32 where "OID_FLAG_MAP_NULL_TO_DEFAULT_MECH \<equiv> 4"
abbreviation OID_FLAG_MAP_FAMILY_MECH_TO_NULL :: u32 where "OID_FLAG_MAP_FAMILY_MECH_TO_NULL \<equiv> 8"

text \<open>\<open>gssBidDefaultMech\<close> asks Kerberos for its encryption types, and is a parameter.\<close>

definition gssBidCanonicalizeOid ::
  "'x gss_tables_scheme \<Rightarrow> gss_error + gss_OID \<Rightarrow> gss_OID option \<Rightarrow> u32 \<Rightarrow> gss_error + gss_OID option" where
  "gssBidCanonicalizeOid T gssBidDefaultMech oid flags =
     (let wrong = Inl (GSS_S_BAD_MECH, bidg T GSSBID_WRONG_MECH) in
      case oid of
        None \<Rightarrow>
          if \<not> flag_set flags OID_FLAG_NULL_VALID then wrong
          else if flag_set flags OID_FLAG_MAP_NULL_TO_DEFAULT_MECH then map_sum id Some gssBidDefaultMech
          else Inr None
      | Some oid \<Rightarrow>
          if oid = GSS_BROWSERID_MECHANISM
          then if \<not> flag_set flags OID_FLAG_FAMILY_MECH_VALID then wrong
               else if flag_set flags OID_FLAG_MAP_FAMILY_MECH_TO_NULL then Inr None
               else Inr (Some oid)
          else if \<not> gssBidIsConcreteMechanismOid oid then wrong
          else Inr (Some oid))"

definition gssBidMakeToken :: "gss_OID option \<Rightarrow> byte list \<Rightarrow> 16 word \<Rightarrow> bool \<Rightarrow> byte list" where
  "gssBidMakeToken mechanismUsed innerToken tokenType bOidWrapping =
     makeTokenHeader (if bOidWrapping then mechanismUsed else None) (length innerToken) tokenType @ innerToken"

definition gssBidVerifyToken ::
  "'x gss_tables_scheme \<Rightarrow> byte list \<Rightarrow> gss_OID option \<Rightarrow> (gss_error + 16 word \<times> byte list \<times> gss_OID option) option" where
  "gssBidVerifyToken T inputToken mechanismUsed =
     (case verifyTokenHeader T (mechanismUsed = None) inputToken (int (length inputToken)) of
        None \<Rightarrow> None
      | Some r \<Rightarrow> Some (
          bail r (\<lambda>(oid, p, bodySize, actualToken).
          bail (if mechanismUsed = None then gssBidCanonicalizeOid T (Inl (GSS_S_BAD_MECH, 0)) (Some oid) 0 else Inr mechanismUsed)
            (\<lambda>mech. Inr (actualToken, take (nat bodySize) p, mech)))))"

text \<open>
  The mechanism in front of an exported object.  The sum of four and the length in the token is
  one of 32 bits.  An identifier of length \<open>l\<close> is read up to that of the mechanism when it is long
  enough for a comparison, and as a whole when it begins with it.
\<close>

definition oid_readable :: "nat \<Rightarrow> byte list \<Rightarrow> bool" where
  "oid_readable l b \<longleftrightarrow>
     (let n = length GSS_BROWSERID_MECHANISM
      in l < n \<or> n \<le> length b \<and> (take n b \<noteq> GSS_BROWSERID_MECHANISM \<or> l \<le> length b))"

definition gssBidImportMechanismOid ::
  "'x gss_tables_scheme \<Rightarrow> byte list \<Rightarrow> (gss_error + gss_OID option \<times> byte list) option" where
  "gssBidImportMechanismOid T buf =
     (case load_uint32_be buf of
        None \<Rightarrow> None
      | Some len \<Rightarrow>
          if length buf < unat (4 + len) \<or> len = 0
          then Some (Inl (GSS_S_DEFECTIVE_TOKEN, bidg T GSSBID_TOK_TRUNC))
          else if \<not> oid_readable (unat len) (drop 4 buf) then None
          else Some (bail (gssBidCanonicalizeOid T (Inl (GSS_S_BAD_MECH, 0)) (Some (take (unat len) (drop 4 buf))) 0)
                 (\<lambda>oid. Inr (oid, drop (unat (4 + len)) buf))))"

section \<open>Lemmas\<close>

lemma load_store_uint16: "load_uint16_be (store_uint16_be v @ rest) = Some v"
  unfolding load_uint16_be_def store_uint16_be_def
  by (simp, rule bit_word_eqI) (auto simp: bit_simps not_less le_Suc_ex)

lemma load_store_uint32: "load_uint32_be (store_uint32_be v @ rest) = Some v"
proof -
  have "(ucast (ucast v :: byte) OR push_bit 8 (ucast (ucast (drop_bit 8 v) :: byte)) OR
      push_bit 16 (ucast (ucast (drop_bit 16 v) :: byte)) OR push_bit 24 (ucast (ucast (drop_bit 24 v) :: byte))) = v"
  proof (rule bit_word_eqI)
    fix n assume n: "n < LENGTH(32)"
    consider "n < 8" | "8 \<le> n" "n < 16" | "16 \<le> n" "n < 24" | "24 \<le> n" by linarith
    then show "bit (ucast (ucast v :: byte) OR push_bit 8 (ucast (ucast (drop_bit 8 v) :: byte)) OR
      push_bit 16 (ucast (ucast (drop_bit 16 v) :: byte)) OR push_bit 24 (ucast (ucast (drop_bit 24 v) :: byte)) :: u32) n = bit v n"
      by cases (use n in \<open>simp add: bit_simps; linarith\<close>)+
  qed
  then show ?thesis by (simp add: load_uint32_be_def store_uint32_be_def)
qed

lemma load_uint32_length: "load_uint32_be p = None \<longleftrightarrow> length p < 4"
  by (auto simp: load_uint32_be_def split: list.splits)

lemma load_store_uint64: "load_uint64_be (store_uint64_be v @ rest) = Some v"
proof -
  have "store_uint64_be v = store_uint32_be (ucast (drop_bit 32 v)) @ store_uint32_be (ucast v)"
    unfolding store_uint64_be_def store_uint32_be_def
    by (simp, intro conjI; rule bit_word_eqI) (auto simp: bit_simps)
  moreover have "push_bit 32 (ucast (ucast (drop_bit 32 v) :: u32)) OR ucast (ucast v :: u32) = v"
    by (rule bit_word_eqI) (auto simp: bit_simps not_less)
  ultimately show ?thesis
    by (simp add: load_uint64_be_def load_store_uint32) (simp add: store_uint32_be_def load_store_uint32[unfolded store_uint32_be_def, simplified])
qed

text \<open>Lengths: each byte that is read completes one more digit of base 256.\<close>

lemma read_digit: "push_bit 8 (of_nat (n div 256) :: u32) + ucast (of_nat n :: byte) = of_nat n"
proof -
  have "ucast (of_nat n :: byte) = (of_nat (n mod 256) :: u32)"
    by (simp add: of_nat_mod unat_of_nat flip: of_nat_unat[of "of_nat n :: byte"])
  moreover have "push_bit 8 (of_nat (n div 256) :: u32) = of_nat (n div 256 * 256)"
    by (simp add: push_bit_eq_mult)
  ultimately show ?thesis by (simp only: of_nat_add[symmetric] div_mult_mod_eq)
qed

lemma length_der_write_length: "length (der_write_length n) = der_length_size n"
  by (simp add: der_write_length_def der_length_size_def)

lemma read_first: "n < 256 \<Longrightarrow> ucast (of_nat n :: byte) = (of_nat n :: u32)"
  using read_digit[of n] by simp

lemma der_read_loop_numeral [simp]:
  "der_read_loop (numeral k) r (b # buf) m = der_read_loop (pred_numeral k) (push_bit 8 r + ucast b) buf (m - 1)"
  by (simp add: numeral_eq_Suc)

lemma der_read_loop_one [simp]: "der_read_loop (Suc 0) r (b # buf) m = Some (push_bit 8 r + ucast b, buf, m - 1)"
  by simp

lemma der_read_write:
  assumes "n < 2 ^ 31" "int (der_length_size n) < bufsize"
  shows "der_read_length (der_write_length n @ buf) bufsize = Some (int n, buf, bufsize - int (der_length_size n))"
proof -
  have s: "sint (of_nat n :: u32) = int n"
    using assms(1) by (simp add: signed_of_nat signed_take_bit_int_eq_self)
  consider "n < 2 ^ 7" | "2 ^ 7 \<le> n" "n < 2 ^ 8" | "2 ^ 8 \<le> n" "n < 2 ^ 16" | "2 ^ 16 \<le> n" "n < 2 ^ 24" | "2 ^ 24 \<le> n"
    by linarith
  then show ?thesis
  proof cases
    case 1
    then have "(of_nat n :: byte) AND 0x80 = 0"
      using and_exp_eq_0_iff_not_bit[of "of_nat n :: byte" 7] by (simp add: bit_of_nat_iff) (simp add: bit_iff_odd)
    then show ?thesis using 1 assms(2)
      by (simp add: der_write_length_def der_length_size_def der_read_length_def uint_nat unat_of_nat)
  next
    case 2
    then show ?thesis using assms(2) s
      by (simp add: der_write_length_def der_length_size_def der_read_length_def read_first)
  next
    case 3
    then have "n div 256 < 256" by (simp add: less_mult_imp_div_less)
    then show ?thesis using 3 assms(2) s
      by (simp add: der_write_length_def der_length_size_def der_read_length_def read_first read_digit)
  next
    case 4
    then have "n div 65536 < 256" by (simp add: less_mult_imp_div_less)
    moreover have "n div 65536 = n div 256 div 256" by (simp add: div_mult2_eq[symmetric])
    ultimately show ?thesis using 4 assms(2) s read_digit[of "n div 256"]
      by (simp add: der_write_length_def der_length_size_def der_read_length_def read_first read_digit)
  next
    case 5
    then have "n div 16777216 < 256" using assms(1) by (simp add: less_mult_imp_div_less)
    moreover have "n div 65536 = n div 256 div 256" "n div 16777216 = n div 65536 div 256" by (simp_all add: div_mult2_eq[symmetric])
    ultimately show ?thesis using 5 assms(2) s read_digit[of "n div 256"] read_digit[of "n div 65536"]
      by (simp add: der_write_length_def der_length_size_def der_read_length_def read_first read_digit)
  qed
qed

text \<open>What is read of a length are the first bytes of the buffer, and the count of the rest is kept.\<close>

lemma der_read_loop_in:
  assumes "sf \<le> length buf"
  shows "\<exists>ret'. der_read_loop sf ret buf (int (length buf)) = Some (ret', drop sf buf, int (length (drop sf buf)))"
  using assms
proof (induction sf arbitrary: ret buf)
  case (Suc sf)
  then obtain b rest where buf: "buf = b # rest" by (cases buf) auto
  with Suc have "sf \<le> length rest" by simp
  from Suc.IH[OF this, of "push_bit 8 ret + ucast b"] buf show ?case by simp
qed simp

lemma der_read_length_in:
  obtains n lenbytes rest where "der_read_length buf (int (length buf)) = Some (n, rest, int (length rest))" "buf = lenbytes @ rest"
proof (cases buf)
  case Nil
  then show thesis by (intro that[of "-1" "[]" "[]"]) (simp_all add: der_read_length_def)
next
  case (Cons b tl)
  let ?sf = "unat (b AND 0x7f)"
  consider "b AND 0x80 = 0" | "b AND 0x80 \<noteq> 0" "int (length tl) - 1 < int ?sf \<or> 4 < ?sf"
    | "b AND 0x80 \<noteq> 0" "?sf \<le> length tl" "\<not> int (length tl) - 1 < int ?sf" "\<not> 4 < ?sf" by linarith
  then show thesis
  proof cases
    case 1
    with Cons show thesis by (intro that[of "uint b" tl "[b]"]) (simp_all add: der_read_length_def)
  next
    case 2
    with Cons show thesis by (intro that[of "-1" tl "[b]"]) (auto simp: der_read_length_def Let_def)
  next
    case 3
    from der_read_loop_in[OF 3(2), of 0] obtain r where
      "der_read_loop ?sf 0 tl (int (length tl)) = Some (r, drop ?sf tl, int (length (drop ?sf tl)))" by blast
    with 3 Cons show thesis
      by (intro that[of "sint r" "drop ?sf tl" "b # take ?sf tl"]) (simp_all add: der_read_length_def)
  qed
qed

lemma verify_type_in:
  obtains e where "verify_type T toid buf (int (length buf)) = Some (Inl e)"
  | t body where "verify_type T toid buf (int (length buf)) = Some (Inr (toid, body, int (length body), t))"
    "buf = store_uint16_be t @ body"
proof (cases buf rule: remdups_adj.cases)
  case (3 a b body)
  have "(ucast (drop_bit 8 (ucast b OR push_bit 8 (ucast a) :: 16 word)) :: byte) = a"
    by (rule bit_word_eqI) (auto simp: bit_simps dest: bit_imp_le_length)
  moreover have "(ucast (ucast b OR push_bit 8 (ucast a) :: 16 word) :: byte) = b"
    by (rule bit_word_eqI) (auto simp: bit_simps)
  ultimately show thesis using 3
    by (intro that(2)[of body "ucast b OR push_bit 8 (ucast a)"])
      (simp_all add: verify_type_def load_uint16_be_def store_uint16_be_def)
qed (use that(1) in \<open>simp_all add: verify_type_def\<close>)

lemma verify_mech_in:
  obtains e where "verify_mech T buf (int (length buf)) = Some (Inl e)"
  | toid t body where "verify_mech T buf (int (length buf)) = Some (Inr (toid, body, int (length body), t))"
    "buf = [0x06, of_nat (length toid)] @ toid @ store_uint16_be t @ body" "toid \<noteq> []" "length toid < 256"
proof (cases buf rule: remdups_adj.cases)
  case (3 tag l rest)
  have n: "length buf = Suc (Suc (length rest))" using 3 by simp
  show thesis
  proof (cases "tag = 0x06 \<and> uint l \<le> int (length rest) \<and> l \<noteq> 0")
    case False
    then show thesis using 3
      by (intro that(1)[of "if tag = 0x06 \<and> uint l \<le> int (length rest) then (GSS_S_BAD_MECH, bidg T GSSBID_BAD_TOK_HEADER)
          else (GSS_S_DEFECTIVE_TOKEN, bidg T GSSBID_BAD_TOK_HEADER)"]) (simp add: verify_mech_def rd_def Let_def)
  next
    case True
    have "int (unat l) \<le> int (length rest)" using True by simp
    then have le: "unat l \<le> length rest" by (simp only: of_nat_le_iff)
    then have k: "int (length rest) - uint l = int (length (drop (unat l) rest))"
      by (simp add: of_nat_diff)
    have v: "verify_mech T buf (int (length buf)) =
        verify_type T (take (unat l) rest) (drop (unat l) rest) (int (length (drop (unat l) rest)))"
      using 3 True unfolding k[symmetric] by (simp add: verify_mech_def rd_def Let_def)
    have l: "length (take (unat l) rest) = unat l" "unat l < 256" "0 < unat l"
      using True le unsigned_less[of l, where ?'a = nat] by (simp_all add: unat_gt_0)
    show thesis
    proof (cases rule: verify_type_in[of T "take (unat l) rest" "drop (unat l) rest"])
      case (1 e)
      then show thesis using v by (intro that(1)) simp
    next
      case (2 t body)
      have "rest = take (unat l) rest @ store_uint16_be t @ body" using 2(2) append_take_drop_id[of "unat l" rest] by simp
      then have "buf = [0x06, of_nat (length (take (unat l) rest))] @ take (unat l) rest @ store_uint16_be t @ body"
        using l(1) 3 True by simp
      moreover have "take (unat l) rest \<noteq> []" using l by auto
      ultimately show thesis using v 2(1) l by (intro that(2)[of "take (unat l) rest" body t]) simp_all
    qed
  qed
next
  case 1
  then show thesis by (intro that(1)) (simp add: verify_mech_def Let_def)
next
  case (2 x)
  then show thesis by (intro that(1)[of "(GSS_S_DEFECTIVE_TOKEN, bidg T GSSBID_BAD_TOK_HEADER)"]) (simp add: verify_mech_def rd_def Let_def)
qed

lemma verifyTokenHeader_in:
  obtains e where "verifyTokenHeader T mech buf (int (length buf)) = Some (Inl e)"
  | toid t body where "verifyTokenHeader T mech buf (int (length buf)) = Some (Inr (toid, body, int (length body), t))"
    "if mech then \<exists>lenbytes. buf = [0x60] @ lenbytes @ [0x06, of_nat (length toid)] @ toid @ store_uint16_be t @ body \<and>
        toid \<noteq> [] \<and> length toid < 256
     else buf = store_uint16_be t @ body"
proof (cases mech)
  case False
  then show thesis
    by (cases rule: verify_type_in[of T "[]" buf]) (use that in \<open>auto simp: verifyTokenHeader_def\<close>)
next
  case True
  show thesis
  proof (cases buf)
    case Nil
    then show thesis by (intro that(1)) (auto simp: verifyTokenHeader_def True)
  next
    case (Cons tag b1)
    obtain n lenbytes b2 where len: "der_read_length b1 (int (length b1)) = Some (n, b2, int (length b2))" "b1 = lenbytes @ b2"
      by (rule der_read_length_in)
    note start = verifyTokenHeader_def True Cons rd_def len(1)
    show thesis
    proof (cases "tag = 0x60 \<and> n = int (length b2)")
      case False
      then show thesis
        by (intro that(1)[of "(GSS_S_DEFECTIVE_TOKEN, bidg T GSSBID_BAD_TOK_HEADER)"]) (auto simp: start Let_def)
    next
      case ok: True
      then have v: "verifyTokenHeader T mech buf (int (length buf)) = verify_mech T b2 (int (length b2))"
        by (simp add: start)
      show thesis
      proof (cases rule: verify_mech_in[of T b2])
        case (1 e)
        then show thesis using v by (intro that(1)) simp
      next
        case (2 toid t body)
        then show thesis using v ok Cons len(2) by (intro that(2)[of toid body t]) (auto simp: True)
      qed
    qed
  qed
qed

text \<open>Reading back a header that was written.\<close>

lemma verify_type_make: "verify_type T toid ([ucast (drop_bit 8 t), ucast t] @ body) (int (length body) + 2) =
    Some (Inr (toid, body, int (length body), t))"
  using load_store_uint16[of t body] by (simp add: verify_type_def store_uint16_be_def)

lemma verify_mech_make:
  assumes "toid \<noteq> []" "length toid < 256"
  shows "verify_mech T ([0x06, of_nat (length toid)] @ toid @ [ucast (drop_bit 8 t), ucast t] @ body)
      (int (length toid) + int (length body) + 4) = Some (Inr (toid, body, int (length body), t))"
proof -
  have u: "unat (of_nat (length toid) :: byte) = length toid" using assms(2) by (simp add: unat_of_nat)
  then have "uint (of_nat (length toid) :: byte) = int (length toid)" by (simp only: uint_nat)
  moreover have "(of_nat (length toid) :: byte) \<noteq> 0" using u assms(1) by fastforce
  ultimately show ?thesis using verify_type_make[of T toid t body]
    by (simp add: verify_mech_def rd_def Let_def u add.commute)
qed

lemma verifyTokenHeader_mech:
  assumes "der_read_length b1 (int (length b1)) = Some (int (length b2), b2, int (length b2))"
  shows "verifyTokenHeader T True (0x60 # b1) (int (length (0x60 # b1))) = verify_mech T b2 (int (length b2))"
  using assms by (simp add: verifyTokenHeader_def rd_def Let_def)

lemma verifyTokenHeader_make:
  assumes "oid \<noteq> []" "length oid < 256" "4 + length oid + length body < 2 ^ 31"
  shows "verifyTokenHeader T True (makeTokenHeader (Some oid) (length body) t @ body)
      (int (length (makeTokenHeader (Some oid) (length body) t @ body))) = Some (Inr (oid, body, int (length body), t))"
proof -
  let ?n = "4 + length oid + length body"
  let ?b = "[0x06, of_nat (length oid)] @ oid @ [ucast (drop_bit 8 t), ucast t] @ body"
  have h: "makeTokenHeader (Some oid) (length body) t @ body = 0x60 # (der_write_length ?n @ ?b)"
    by (simp add: makeTokenHeader_def)
  have "int (length (der_write_length ?n @ ?b)) = int (der_length_size ?n) + int ?n" and n: "int (length ?b) = int ?n"
    by (simp_all add: length_der_write_length)
  then have "der_read_length (der_write_length ?n @ ?b) (int (length (der_write_length ?n @ ?b))) = Some (int (length ?b), ?b, int (length ?b))"
    using der_read_write[OF assms(3), of "int (der_length_size ?n) + int ?n" ?b] by (simp only:) simp
  from verifyTokenHeader_mech[OF this] have "verifyTokenHeader T True (makeTokenHeader (Some oid) (length body) t @ body)
      (int (length (makeTokenHeader (Some oid) (length body) t @ body))) = verify_mech T ?b (int (length ?b))"
    unfolding h .
  also have "\<dots> = Some (Inr (oid, body, int (length body), t))"
    using verify_mech_make[OF assms(1,2), of T t body] unfolding n by (simp add: add.commute add.left_commute)
  finally show ?thesis .
qed

section \<open>Properties\<close>

text \<open>The token made around a message fills its buffer exactly, and the peer gets back the
  message, the token type and the mechanism, which only an initial token carries.\<close>

theorem gss_token_roundtrip:
  assumes "gssBidIsConcreteMechanismOid oid" "length oid < 256" "4 + length oid + length inner < 2 ^ 31"
  shows "gssBidVerifyToken T (gssBidMakeToken (Some oid) inner t True) None = Some (Inr (t, inner, Some oid)) \<and>
    gssBidVerifyToken T (gssBidMakeToken mech inner t False) (Some oid) = Some (Inr (t, inner, Some oid)) \<and>
    length (gssBidMakeToken mech inner t b) = tokenSize (if b then mech else None) (length inner)"
proof (intro conjI)
  from assms(1) have "oid \<noteq> []" "oid \<noteq> GSS_BROWSERID_MECHANISM"
    by (auto simp: gssBidIsConcreteMechanismOid_def)
  with verifyTokenHeader_make[OF _ assms(2,3), of T t] assms(1)
  show "gssBidVerifyToken T (gssBidMakeToken (Some oid) inner t True) None = Some (Inr (t, inner, Some oid))"
    by (simp add: gssBidVerifyToken_def gssBidMakeToken_def gssBidCanonicalizeOid_def Let_def)
  show "gssBidVerifyToken T (gssBidMakeToken mech inner t False) (Some oid) = Some (Inr (t, inner, Some oid))"
    using verify_type_make[of T "[]" t inner]
    by (simp add: gssBidVerifyToken_def gssBidMakeToken_def makeTokenHeader_def verifyTokenHeader_def add.commute)
  show "length (gssBidMakeToken mech inner t b) = tokenSize (if b then mech else None) (length inner)"
    by (cases mech) (simp_all add: gssBidMakeToken_def makeTokenHeader_def tokenSize_def length_der_write_length Let_def
        algebra_simps eval_nat_numeral)
qed

theorem gss_token_roundtrip_witness:
  "gssBidVerifyToken \<lparr>ERROR_TABLE_BASE_bidg = 256, ERROR_TABLE_BASE_lbid = 512\<rparr>
     (gssBidMakeToken (Some (GSS_BROWSERID_MECHANISM @ [0x11])) (replicate 300 7) TOK_TYPE_INITIATOR_CONTEXT True) None =
   Some (Inr (TOK_TYPE_INITIATOR_CONTEXT, replicate 300 7, Some (GSS_BROWSERID_MECHANISM @ [0x11])))"
  by (rule gss_token_roundtrip[THEN conjunct1]) (simp_all add: gssBidIsConcreteMechanismOid_def GSS_BROWSERID_MECHANISM_def)

text \<open>Whatever the peer sends, taking a token apart never reads outside it, and a token that is
  accepted consists of nothing but the header with the stated type and mechanism, and the message.\<close>

theorem gss_token_verify_sound:
  "\<exists>r. gssBidVerifyToken T tok mech = Some r \<and>
    (\<forall>t inner mech'. r = Inr (t, inner, mech') \<longrightarrow>
      (case mech of
         Some _ \<Rightarrow> mech' = mech \<and> tok = store_uint16_be t @ inner
       | None \<Rightarrow> \<exists>oid lenbytes. mech' = Some oid \<and> gssBidIsConcreteMechanismOid oid \<and> length oid < 256 \<and>
           tok = [0x60] @ lenbytes @ [0x06, of_nat (length oid)] @ oid @ store_uint16_be t @ inner))"
proof (cases rule: verifyTokenHeader_in[of T "mech = None" tok])
  case (1 e)
  then show ?thesis by (auto simp: gssBidVerifyToken_def)
next
  case (2 toid t body)
  show ?thesis
  proof (cases mech)
    case None
    with 2 show ?thesis
      by (auto simp: gssBidVerifyToken_def gssBidCanonicalizeOid_def Let_def split: if_splits)
  next
    case (Some m)
    with 2 show ?thesis by (auto simp: gssBidVerifyToken_def)
  qed
qed

theorem gss_token_verify_sound_witness:
  "gssBidVerifyToken \<lparr>ERROR_TABLE_BASE_bidg = 256, ERROR_TABLE_BASE_lbid = 512\<rparr> [0x60, 0x84] None \<noteq> None"
  using gss_token_verify_sound[of "\<lparr>ERROR_TABLE_BASE_bidg = 256, ERROR_TABLE_BASE_lbid = 512\<rparr>" "[0x60, 0x84]" None] by auto

text \<open>The mechanism in front of an exported object is read within the buffer when its length is
  small, but a length of the last four numbers of 32 bits wraps around in the check, and the
  identifier is then read far outside, unless its first bytes are those of another mechanism.\<close>

theorem import_mech_bounds:
  assumes "length rest < 0xFFFFFFFC"
  shows "gssBidImportMechanismOid T (store_uint32_be len @ rest) = None \<longleftrightarrow>
    0xFFFFFFFC \<le> len \<and> unat (4 + len) \<le> length rest + 4 \<and> (length rest < 9 \<or> take 9 rest = GSS_BROWSERID_MECHANISM)"
proof -
  have n: "length GSS_BROWSERID_MECHANISM = 9" by (simp add: GSS_BROWSERID_MECHANISM_def)
  have l: "length (store_uint32_be len) = 4" "drop 4 (store_uint32_be len @ rest) = rest"
    by (simp_all add: store_uint32_be_def)
  show ?thesis
  proof (cases "0xFFFFFFFC \<le> len")
    case True
    then have "0xFFFFFFFC \<le> unat len" by (simp add: word_le_nat_alt)
    with assms have "\<not> unat len < 9" "\<not> unat len \<le> length rest" by simp_all
    moreover have "len \<noteq> 0" using True by auto
    ultimately show ?thesis
      using True l by (auto simp: gssBidImportMechanismOid_def load_store_uint32 oid_readable_def Let_def n)
  next
    case False
    then have "unat len < 0xFFFFFFFC" by (simp add: word_le_nat_alt)
    then have "unat (4 + len) = 4 + unat len" by (subst unat_plus_simple[THEN iffD1]) (simp_all add: word_le_nat_alt unat_word_ariths)
    with False l show ?thesis
      by (auto simp: gssBidImportMechanismOid_def load_store_uint32 oid_readable_def Let_def n)
  qed
qed

theorem import_mech_bounds_witness:
  "gssBidImportMechanismOid \<lparr>ERROR_TABLE_BASE_bidg = 256, ERROR_TABLE_BASE_lbid = 512\<rparr> (store_uint32_be 0xFFFFFFFF @ [1, 2, 3]) = None"
  using import_mech_bounds[of "[1, 2, 3]" "\<lparr>ERROR_TABLE_BASE_bidg = 256, ERROR_TABLE_BASE_lbid = 512\<rparr>" "0xFFFFFFFF"] by simp

end
