(* ===== verification/Name.thy ===== *)
theory Name
  imports Json Token
begin

text \<open>
  The mechanisms on offer (\<^verbatim>\<open>mech_browserid/util_mech.c\<close>) and the names of principals
  (\<^verbatim>\<open>util_name.c\<close>): importing, exporting, displaying and comparing them.  The build is the one with
  an acceptor and MIT Kerberos.
\<close>

section \<open>Kerberos\<close>

text \<open>
  What the mechanism asks of Kerberos: the encryption types it may use, up to the terminating zero,
  parsing and printing of principals with their flags, the default domain of the configuration, and
  the name of the host.  An attribute context belongs to the C++ classes of \<^verbatim>\<open>util_attr.cpp\<close>, which
  can write it to bytes and read it back.
\<close>

record krb5_principal =
  KRB_PRINC_REALM :: string
  KRB_PRINC_NAME :: "string list"
  KRB_PRINC_TYPE :: int

record name_env = gss_tables +
  krb5_get_permitted_enctypes :: "OM_uint32 + int list"
  krb5_parse_name_flags :: "string \<Rightarrow> u32 \<Rightarrow> OM_uint32 + krb5_principal"
  krb5_unparse_name_flags :: "krb5_principal \<Rightarrow> u32 \<Rightarrow> OM_uint32 + string"
  krb5_build_principal :: "string list \<Rightarrow> OM_uint32 + krb5_principal"
  krb5_principal_compare :: "krb5_principal \<Rightarrow> krb5_principal \<Rightarrow> bool"
  krb5_principal_compare_any_realm :: "krb5_principal \<Rightarrow> krb5_principal \<Rightarrow> bool"
  krb5_default_domain :: "string option"
  gethostname :: "OM_uint32 + string"
  attr_exportToBuffer :: "json \<Rightarrow> gss_error + byte list"
  attr_initWithBuffer :: "byte list \<Rightarrow> gss_error + json"
  attr_initWithExistingContext :: "json \<Rightarrow> json option"

abbreviation KRB5_PRINCIPAL_PARSE_NO_REALM :: u32 where "KRB5_PRINCIPAL_PARSE_NO_REALM \<equiv> 1"
abbreviation KRB5_PRINCIPAL_PARSE_REQUIRE_REALM :: u32 where "KRB5_PRINCIPAL_PARSE_REQUIRE_REALM \<equiv> 2"
abbreviation KRB5_PRINCIPAL_UNPARSE_NO_REALM :: u32 where "KRB5_PRINCIPAL_UNPARSE_NO_REALM \<equiv> 2"
abbreviation KRB5_PARSE_MALFORMED :: OM_uint32 where "KRB5_PARSE_MALFORMED \<equiv> 0x96C73A86"
abbreviation KRB5_NT_SRV_HST :: int where "KRB5_NT_SRV_HST \<equiv> 3"

abbreviation EINVAL :: OM_uint32 where "EINVAL \<equiv> 22"
abbreviation GSS_S_BAD_NAMETYPE :: OM_uint32 where "GSS_S_BAD_NAMETYPE \<equiv> 0x30000"
abbreviation GSS_S_CALL_INACCESSIBLE_READ :: OM_uint32 where "GSS_S_CALL_INACCESSIBLE_READ \<equiv> 0x1000000"
abbreviation GSSBID_BAD_SERVICE_NAME :: OM_uint32 where "GSSBID_BAD_SERVICE_NAME \<equiv> 15"
abbreviation GSSBID_BAD_INITIATOR_NAME :: OM_uint32 where "GSSBID_BAD_INITIATOR_NAME \<equiv> 16"
abbreviation GSSBID_BAD_NAME_TOKEN :: OM_uint32 where "GSSBID_BAD_NAME_TOKEN \<equiv> 20"

section \<open>Mechanisms\<close>

text \<open>No identifier stands for any mechanism.\<close>

definition gssBidIsMechanismOid :: "gss_OID option \<Rightarrow> bool" where
  "gssBidIsMechanismOid oid \<longleftrightarrow>
     (case oid of None \<Rightarrow> True | Some oid \<Rightarrow> oid = GSS_BROWSERID_MECHANISM \<or> gssBidIsConcreteMechanismOid oid)"

definition gssBidValidateMechs :: "'x gss_tables_scheme \<Rightarrow> gss_OID list option \<Rightarrow> gss_error + unit" where
  "gssBidValidateMechs T mechs =
     (case mechs of
        None \<Rightarrow> Inr ()
      | Some oids \<Rightarrow> guard (\<not> list_all gssBidIsConcreteMechanismOid oids) (GSS_S_BAD_MECH, bidg T GSSBID_WRONG_MECH))"

text \<open>A set of identifiers is a list without repetitions; the loop skips encryption types that do not
  fit in one byte of an identifier.\<close>

definition gss_add_oid_set_member :: "gss_OID \<Rightarrow> gss_OID list \<Rightarrow> gss_OID list" where
  "gss_add_oid_set_member oid oids = (if oid \<in> set oids then oids else oids @ [oid])"

fun indicate_loop :: "'x gss_tables_scheme \<Rightarrow> int list \<Rightarrow> gss_OID list \<Rightarrow> OM_uint32 \<times> gss_OID list" where
  "indicate_loop T [] mechs = (GSS_S_COMPLETE, mechs)"
| "indicate_loop T (etype # etypes) mechs =
     (if etype = 0 then (GSS_S_COMPLETE, mechs)
      else if etype < 0 \<or> 127 < etype then indicate_loop T etypes mechs
      else case gssBidEnctypeToOid T (nat etype) of
             Inl e \<Rightarrow> (fst e, mechs)
           | Inr mechOid \<Rightarrow> indicate_loop T etypes (gss_add_oid_set_member mechOid mechs))"

definition gssBidIndicateMechs :: "'x name_env_scheme \<Rightarrow> gss_error + gss_OID list" where
  "gssBidIndicateMechs G =
     (case krb5_get_permitted_enctypes G of
        Inl minor \<Rightarrow> Inl (GSS_S_FAILURE, minor)
      | Inr etypes \<Rightarrow>
          let (major, mechs) = indicate_loop G etypes [] in if GSS_ERROR major then Inl (major, 0) else Inr mechs)"

definition gssBidDefaultMech :: "'x name_env_scheme \<Rightarrow> gss_error + gss_OID" where
  "gssBidDefaultMech G =
     bail (gssBidIndicateMechs G) (\<lambda>mechs. case mechs of [] \<Rightarrow> Inl (GSS_S_BAD_MECH, 0) | oid # _ \<Rightarrow> Inr oid)"

definition gssBidSaslMechs :: "(gss_OID \<times> string) list" where
  "gssBidSaslMechs =
     [(GSS_BROWSERID_MECHANISM @ [0x00], ''BROWSERID''),
      (GSS_BROWSERID_MECHANISM @ [0x11], ''BROWSERID-AES128''),
      (GSS_BROWSERID_MECHANISM @ [0x12], ''BROWSERID-AES256'')]"

definition gssBidOidToSaslName :: "gss_OID \<Rightarrow> string option" where
  "gssBidOidToSaslName oid = map_of gssBidSaslMechs oid"

definition gssBidSaslNameToOid :: "string \<Rightarrow> gss_OID option" where
  "gssBidSaslNameToOid name = map_of (map (\<lambda>(oid, s). (s, oid)) gssBidSaslMechs) name"

section \<open>Names\<close>

record gss_name =
  name_flags :: u32
  name_mechanismUsed :: "gss_OID option"
  krbPrincipal :: krb5_principal
  attrCtx :: "json option"

abbreviation NAME_FLAG_EMAIL :: u32 where "NAME_FLAG_EMAIL \<equiv> 1"
abbreviation NAME_FLAG_SERVICE :: u32 where "NAME_FLAG_SERVICE \<equiv> 2"

abbreviation EXPORT_NAME_FLAG_OID :: u32 where "EXPORT_NAME_FLAG_OID \<equiv> 1"
abbreviation EXPORT_NAME_FLAG_COMPOSITE :: u32 where "EXPORT_NAME_FLAG_COMPOSITE \<equiv> 2"
abbreviation EXPORT_NAME_FLAG_ALLOW_COMPOSITE :: u32 where "EXPORT_NAME_FLAG_ALLOW_COMPOSITE \<equiv> 4"
abbreviation COMPARE_NAME_FLAG_IGNORE_EMPTY_REALMS :: u32 where "COMPARE_NAME_FLAG_IGNORE_EMPTY_REALMS \<equiv> 1"

abbreviation TOK_TYPE_EXPORT_NAME :: "16 word" where "TOK_TYPE_EXPORT_NAME \<equiv> 0x0401"
abbreviation TOK_TYPE_EXPORT_NAME_COMPOSITE :: "16 word" where "TOK_TYPE_EXPORT_NAME_COMPOSITE \<equiv> 0x0402"

definition krbPrincipalToName :: "krb5_principal \<Rightarrow> gss_name" where
  "krbPrincipalToName princ =
     \<lparr>name_flags = (if 1 < length (KRB_PRINC_NAME princ) then NAME_FLAG_SERVICE else NAME_FLAG_EMAIL),
      name_mechanismUsed = None, krbPrincipal = princ, attrCtx = None\<rparr>"

text \<open>A service name is split at the first at sign; without one the host is this one.\<close>

definition importServiceName :: "'x name_env_scheme \<Rightarrow> byte list \<Rightarrow> gss_error + gss_name" where
  "importServiceName G nameBuffer =
     (let s = c_string nameBuffer in
      bail (case split_at (CHR ''@'') s of
              Some (service, host) \<Rightarrow> Inr (service, host)
            | None \<Rightarrow> (case gethostname G of Inl e \<Rightarrow> Inl (GSS_S_FAILURE, e) | Inr host \<Rightarrow> Inr (s, host)))
        (\<lambda>(service, host).
      case krb5_build_principal G [service, host] of
        Inl _ \<Rightarrow> Inl (GSS_S_FAILURE, bidg G GSSBID_BAD_SERVICE_NAME)
      | Inr princ \<Rightarrow> Inr (krbPrincipalToName (princ\<lparr>KRB_PRINC_TYPE := KRB5_NT_SRV_HST\<rparr>))))"

text \<open>The name is parsed as one with a realm; if that fails for its form, again, without a realm
  unless there is a default domain.  Only whether there is a default domain matters.\<close>

definition importBidNameFlags :: "'x name_env_scheme \<Rightarrow> byte list option \<Rightarrow> bool \<Rightarrow> gss_error + gss_name" where
  "importBidNameFlags G nameBuffer importDefaultDomain =
     (let nameString = (case nameBuffer of None \<Rightarrow> [] | Some b \<Rightarrow> c_string b);
          code = (case nameBuffer of
                    None \<Rightarrow> Inl KRB5_PARSE_MALFORMED
                  | Some _ \<Rightarrow> krb5_parse_name_flags G nameString KRB5_PRINCIPAL_PARSE_REQUIRE_REALM);
          defaultDomain = (if importDefaultDomain then krb5_default_domain G else None);
          code = (if code = Inl KRB5_PARSE_MALFORMED
                  then krb5_parse_name_flags G nameString
                         (if defaultDomain = None \<or> defaultDomain = Some [] then KRB5_PRINCIPAL_PARSE_NO_REALM else 0)
                  else code)
      in case code of Inl e \<Rightarrow> Inl (GSS_S_FAILURE, e) | Inr princ \<Rightarrow> Inr (krbPrincipalToName princ))"

definition importBidName :: "'x name_env_scheme \<Rightarrow> byte list \<Rightarrow> gss_error + gss_name" where
  "importBidName G nameBuffer = importBidNameFlags G (Some nameBuffer) False"

definition importUserName :: "'x name_env_scheme \<Rightarrow> byte list \<Rightarrow> gss_error + gss_name" where
  "importUserName G nameBuffer = importBidNameFlags G (Some nameBuffer) True"

definition importAnonymousName :: "'x name_env_scheme \<Rightarrow> byte list \<Rightarrow> gss_error + gss_name" where
  "importAnonymousName G nameBuffer = importBidNameFlags G None False"

section \<open>Attribute contexts of names\<close>

definition gssBidExportAttrContext :: "'x name_env_scheme \<Rightarrow> gss_name \<Rightarrow> gss_error + byte list" where
  "gssBidExportAttrContext G name = (case attrCtx name of None \<Rightarrow> Inr [] | Some ctx \<Rightarrow> attr_exportToBuffer G ctx)"

definition gssBidImportAttrContext :: "'x name_env_scheme \<Rightarrow> byte list \<Rightarrow> gss_name \<Rightarrow> gss_error + gss_name" where
  "gssBidImportAttrContext G buffer name =
     (if buffer = [] then Inr name else bail (attr_initWithBuffer G buffer) (\<lambda>ctx. Inr (name\<lparr>attrCtx := Some ctx\<rparr>)))"

text \<open>The result of the copy is not reported: the name may be left without attributes.\<close>

definition gssBidDuplicateAttrContext :: "'x name_env_scheme \<Rightarrow> gss_name \<Rightarrow> gss_name \<Rightarrow> gss_name" where
  "gssBidDuplicateAttrContext G inName out =
     (case attrCtx inName of None \<Rightarrow> out | Some ctx \<Rightarrow> out\<lparr>attrCtx := attr_initWithExistingContext G ctx\<rparr>)"

section \<open>Exported names\<close>

text \<open>
  The header with the mechanism.  \<open>remain\<close> is the \<^verbatim>\<open>size_t\<close> that the code counts down, \<open>p\<close> the bytes that
  are really left.  The length of the identifier is compared with what is left including the two
  bytes in front of it, so that up to two bytes after the buffer are read.
\<close>

definition import_name_oid ::
  "'x name_env_scheme \<Rightarrow> u32 \<Rightarrow> byte list \<Rightarrow> u64 \<Rightarrow> (gss_error + u32 \<times> gss_OID option \<times> byte list \<times> u64) option" where
  "import_name_oid G flags p remain =
     (let malformed = Some (Inl (GSS_S_BAD_NAME, bidg G GSSBID_BAD_NAME_TOKEN)) in
      if remain < 6 then malformed else
      case load_uint16_be p of None \<Rightarrow> None | Some wireTokType \<Rightarrow>
      let composite = flag_set flags EXPORT_NAME_FLAG_COMPOSITE \<or>
            flag_set flags EXPORT_NAME_FLAG_ALLOW_COMPOSITE \<and> wireTokType = TOK_TYPE_EXPORT_NAME_COMPOSITE;
          flags = or_flag composite EXPORT_NAME_FLAG_COMPOSITE flags in
      if wireTokType \<noteq> (if composite then TOK_TYPE_EXPORT_NAME_COMPOSITE else TOK_TYPE_EXPORT_NAME)
      then Some (Inl (GSS_S_BAD_NAME, bidg G GSSBID_WRONG_TOK_ID)) else
      let p = drop 2 p; remain = remain - 2 in
      case load_uint16_be p of None \<Rightarrow> None | Some len \<Rightarrow>
      if len < 2 then malformed else
      let p = drop 2 p; remain = remain - 2 in
      rd p (\<lambda>tag p. if tag \<noteq> 0x06 then malformed else
      rd p (\<lambda>mechLength p.
      if remain < ucast mechLength then Some (Inl (GSS_S_BAD_NAME, bidg G GSSBID_TOK_TRUNC))
      else if \<not> oid_readable (unat mechLength) p then None
      else Some (bail (gssBidCanonicalizeOid G (gssBidDefaultMech G) (Some (take (unat mechLength) p))
                         (OID_FLAG_FAMILY_MECH_VALID OR OID_FLAG_MAP_FAMILY_MECH_TO_NULL)) (\<lambda>mechanismUsed.
             Inr (flags, mechanismUsed, drop (unat mechLength) p, remain - (2 + ucast mechLength)))))))"

definition gssBidImportNameInternal :: "'x name_env_scheme \<Rightarrow> byte list \<Rightarrow> u32 \<Rightarrow> (gss_error + gss_name) option" where
  "gssBidImportNameInternal G nameBuffer flags =
     (let truncated = Some (Inl (GSS_S_BAD_NAME, bidg G GSSBID_TOK_TRUNC)) in
      case (if flag_set flags EXPORT_NAME_FLAG_OID then import_name_oid G flags nameBuffer (of_nat (length nameBuffer))
            else Some (Inr (flags, None, nameBuffer, of_nat (length nameBuffer)))) of
        None \<Rightarrow> None
      | Some (Inl e) \<Rightarrow> Some (Inl e)
      | Some (Inr (flags, mechanismUsed, p, remain)) \<Rightarrow>
          if remain < 4 then truncated else
          case load_uint32_be p of None \<Rightarrow> None | Some len \<Rightarrow>
          let p = drop 4 p; remain = remain - 4 in
          if remain < ucast len then truncated
          else if length p < unat len then None
          else Some (bail (importBidNameFlags G (Some (take (unat len) p)) False) (\<lambda>name.
                 let name = name\<lparr>name_mechanismUsed := mechanismUsed\<rparr> in
                 if flag_set flags EXPORT_NAME_FLAG_COMPOSITE then gssBidImportAttrContext G (drop (unat len) p) name
                 else Inr name)))"

definition importExportName :: "'x name_env_scheme \<Rightarrow> byte list \<Rightarrow> (gss_error + gss_name) option" where
  "importExportName G nameBuffer =
     gssBidImportNameInternal G nameBuffer (EXPORT_NAME_FLAG_OID OR EXPORT_NAME_FLAG_ALLOW_COMPOSITE)"

definition importCompositeExportName :: "'x name_env_scheme \<Rightarrow> byte list \<Rightarrow> (gss_error + gss_name) option" where
  "importCompositeExportName G nameBuffer =
     gssBidImportNameInternal G nameBuffer (EXPORT_NAME_FLAG_OID OR EXPORT_NAME_FLAG_COMPOSITE)"

section \<open>Types of names\<close>

abbreviation GSS_C_NT_USER_NAME :: gss_OID where "GSS_C_NT_USER_NAME \<equiv> [0x2a, 0x86, 0x48, 0x86, 0xf7, 0x12, 0x01, 0x02, 0x01, 0x01]"
abbreviation GSS_C_NT_HOSTBASED_SERVICE :: gss_OID where "GSS_C_NT_HOSTBASED_SERVICE \<equiv> [0x2a, 0x86, 0x48, 0x86, 0xf7, 0x12, 0x01, 0x02, 0x01, 0x04]"
abbreviation GSS_C_NT_HOSTBASED_SERVICE_X :: gss_OID where "GSS_C_NT_HOSTBASED_SERVICE_X \<equiv> [0x2b, 0x06, 0x01, 0x05, 0x06, 0x02]"
abbreviation GSS_C_NT_ANONYMOUS :: gss_OID where "GSS_C_NT_ANONYMOUS \<equiv> [0x2b, 0x06, 0x01, 0x05, 0x06, 0x03]"
abbreviation GSS_C_NT_EXPORT_NAME :: gss_OID where "GSS_C_NT_EXPORT_NAME \<equiv> [0x2b, 0x06, 0x01, 0x05, 0x06, 0x04]"
abbreviation GSS_C_NT_COMPOSITE_EXPORT :: gss_OID where "GSS_C_NT_COMPOSITE_EXPORT \<equiv> [0x2b, 0x06, 0x01, 0x05, 0x06, 0x06]"
abbreviation GSS_KRB5_NT_PRINCIPAL_NAME :: gss_OID where "GSS_KRB5_NT_PRINCIPAL_NAME \<equiv> [0x2a, 0x86, 0x48, 0x86, 0xf7, 0x12, 0x01, 0x02, 0x02, 0x01]"

definition GSS_C_NT_BROWSERID_PRINCIPAL :: gss_OID where
  "GSS_C_NT_BROWSERID_PRINCIPAL = [0x2B, 0x06, 0x01, 0x04, 0x01, 0xA9, 0x4A, 0x18, 0x02, 0x01]"

definition nameTypes :: "(gss_OID \<times> ('x name_env_scheme \<Rightarrow> byte list \<Rightarrow> (gss_error + gss_name) option)) list" where
  "nameTypes =
     [(GSS_C_NT_BROWSERID_PRINCIPAL, \<lambda>G b. Some (importBidName G b)),
      (GSS_C_NT_USER_NAME, \<lambda>G b. Some (importUserName G b)),
      (GSS_C_NT_HOSTBASED_SERVICE, \<lambda>G b. Some (importServiceName G b)),
      (GSS_C_NT_HOSTBASED_SERVICE_X, \<lambda>G b. Some (importServiceName G b)),
      (GSS_C_NT_ANONYMOUS, \<lambda>G b. Some (importAnonymousName G b)),
      (GSS_C_NT_EXPORT_NAME, importExportName),
      (GSS_KRB5_NT_PRINCIPAL_NAME, \<lambda>G b. Some (importUserName G b)),
      (GSS_C_NT_COMPOSITE_EXPORT, importCompositeExportName)]"

text \<open>An unknown type leaves the minor code as it was; it is 0 here.\<close>

definition gssBidImportName ::
  "'x name_env_scheme \<Rightarrow> byte list \<Rightarrow> gss_OID option \<Rightarrow> gss_OID option \<Rightarrow> (gss_error + gss_name) option" where
  "gssBidImportName G nameBuffer nameType mechType =
     (case map_of nameTypes (case nameType of None \<Rightarrow> GSS_C_NT_BROWSERID_PRINCIPAL | Some t \<Rightarrow> t) of
        None \<Rightarrow> Some (Inl (GSS_S_BAD_NAMETYPE, 0))
      | Some import \<Rightarrow>
          map_option (\<lambda>r. bail r (\<lambda>name.
            if mechType = None then Inr name
            else bail (gssBidCanonicalizeOid G (gssBidDefaultMech G) mechType 0) (\<lambda>mech.
                   Inr (name\<lparr>name_mechanismUsed := mech\<rparr>)))) (import G nameBuffer))"

section \<open>Display, export, copy and comparison\<close>

definition hasRealmP :: "gss_name \<Rightarrow> bool" where
  "hasRealmP name \<longleftrightarrow> KRB_PRINC_REALM (krbPrincipal name) \<noteq> []"

definition gssBidDisplayName :: "'x name_env_scheme \<Rightarrow> gss_name option \<Rightarrow> gss_error + string \<times> gss_OID" where
  "gssBidDisplayName G name =
     (case name of
        None \<Rightarrow> Inl (GSS_S_CALL_INACCESSIBLE_READ OR GSS_S_BAD_NAME, EINVAL)
      | Some name \<Rightarrow>
          (case krb5_unparse_name_flags G (krbPrincipal name) (if hasRealmP name then 0 else KRB5_PRINCIPAL_UNPARSE_NO_REALM) of
             Inl e \<Rightarrow> Inl (GSS_S_FAILURE, e)
           | Inr krbName \<Rightarrow>
               Inr (krbName, if krbName = [] then GSS_C_NT_ANONYMOUS
                             else if flag_set (name_flags name) NAME_FLAG_EMAIL then GSS_C_NT_USER_NAME
                             else GSS_C_NT_BROWSERID_PRINCIPAL)))"

definition gssBidExportNameInternal :: "'x name_env_scheme \<Rightarrow> gss_name \<Rightarrow> u32 \<Rightarrow> gss_error + byte list" where
  "gssBidExportNameInternal G name flags =
     (let mech = (case name_mechanismUsed name of Some m \<Rightarrow> m | None \<Rightarrow> GSS_BROWSERID_MECHANISM);
          composite = flag_set flags EXPORT_NAME_FLAG_COMPOSITE in
      bail (gssBidDisplayName G (Some name)) (\<lambda>(nameBuf, _).
      bail (if composite then gssBidExportAttrContext G name else Inr []) (\<lambda>attrs.
      Inr ((if flag_set flags EXPORT_NAME_FLAG_OID
            then store_uint16_be (if composite then TOK_TYPE_EXPORT_NAME_COMPOSITE else TOK_TYPE_EXPORT_NAME) @
                 store_uint16_be (of_nat (length mech + 2)) @ [0x06, of_nat (length mech)] @ mech
            else []) @
           store_uint32_be (of_nat (length nameBuf)) @ bytes_of_string nameBuf @ attrs))))"

definition gssBidExportName :: "'x name_env_scheme \<Rightarrow> gss_name \<Rightarrow> gss_error + byte list" where
  "gssBidExportName G name = gssBidExportNameInternal G name EXPORT_NAME_FLAG_OID"

definition gssBidCanonicalizeName ::
  "'x name_env_scheme \<Rightarrow> gss_name option \<Rightarrow> gss_OID option \<Rightarrow> gss_error + gss_name" where
  "gssBidCanonicalizeName G input_name mech_type =
     (case input_name of
        None \<Rightarrow> Inl (GSS_S_CALL_INACCESSIBLE_READ OR GSS_S_BAD_NAME, EINVAL)
      | Some inName \<Rightarrow>
          bail (gssBidCanonicalizeOid G (gssBidDefaultMech G)
                  (if mech_type \<noteq> None then mech_type else name_mechanismUsed inName) OID_FLAG_NULL_VALID) (\<lambda>mech.
          Inr (gssBidDuplicateAttrContext G inName
                 \<lparr>name_flags = name_flags inName, name_mechanismUsed = mech, krbPrincipal = krbPrincipal inName, attrCtx = None\<rparr>)))"

definition gssBidDuplicateName :: "'x name_env_scheme \<Rightarrow> gss_name option \<Rightarrow> gss_error + gss_name" where
  "gssBidDuplicateName G input_name = gssBidCanonicalizeName G input_name None"

definition gssBidCompareName :: "'x name_env_scheme \<Rightarrow> gss_name option \<Rightarrow> gss_name option \<Rightarrow> u32 \<Rightarrow> bool" where
  "gssBidCompareName G name1 name2 flags =
     (case (name1, name2) of
        (None, None) \<Rightarrow> True
      | (Some n1, Some n2) \<Rightarrow>
          if flag_set flags COMPARE_NAME_FLAG_IGNORE_EMPTY_REALMS \<and> (\<not> hasRealmP n1 \<or> \<not> hasRealmP n2)
          then krb5_principal_compare_any_realm G (krbPrincipal n1) (krbPrincipal n2)
          else krb5_principal_compare G (krbPrincipal n1) (krbPrincipal n2)
      | _ \<Rightarrow> False)"

section \<open>Lemmas\<close>

text \<open>How a name is printed, so that it is parsed as the same principal.\<close>

definition printed_as :: "'x name_env_scheme \<Rightarrow> krb5_principal \<Rightarrow> string \<Rightarrow> bool" where
  "printed_as G princ s \<longleftrightarrow>
     krb5_unparse_name_flags G princ (if KRB_PRINC_REALM princ \<noteq> [] then 0 else KRB5_PRINCIPAL_UNPARSE_NO_REALM) = Inr s \<and>
     CHR 0x00 \<notin> set s \<and> length s < 2 ^ 32 \<and>
     (krb5_parse_name_flags G s KRB5_PRINCIPAL_PARSE_REQUIRE_REALM = Inr princ \<or>
      krb5_parse_name_flags G s KRB5_PRINCIPAL_PARSE_REQUIRE_REALM = Inl KRB5_PARSE_MALFORMED \<and>
      krb5_parse_name_flags G s KRB5_PRINCIPAL_PARSE_NO_REALM = Inr princ)"

text \<open>Names as the program makes them.\<close>

definition name_ok :: "gss_name \<Rightarrow> bool" where
  "name_ok name \<longleftrightarrow>
     name_flags name = name_flags (krbPrincipalToName (krbPrincipal name)) \<and>
     (case name_mechanismUsed name of None \<Rightarrow> True | Some m \<Rightarrow> gssBidIsConcreteMechanismOid m \<and> length m < 256)"

lemma printed_as_display:
  "printed_as G (krbPrincipal name) s \<Longrightarrow> \<exists>t. gssBidDisplayName G (Some name) = Inr (s, t)"
  by (simp add: printed_as_def gssBidDisplayName_def hasRealmP_def)

lemma printed_as_import:
  "printed_as G princ s \<Longrightarrow> importBidNameFlags G (Some (bytes_of_string s)) False = Inr (krbPrincipalToName princ)"
  by (auto simp: printed_as_def importBidNameFlags_def Let_def c_string_bytes_of_string)

lemma oid_readable_all [simp]: "l \<le> length b \<Longrightarrow> oid_readable l b"
  by (auto simp: oid_readable_def Let_def)

lemma canonicalize_family:
  "gssBidCanonicalizeOid T d (Some GSS_BROWSERID_MECHANISM) (OID_FLAG_FAMILY_MECH_VALID OR OID_FLAG_MAP_FAMILY_MECH_TO_NULL) = Inr None"
  by (simp add: gssBidCanonicalizeOid_def flag_set_def)

lemma canonicalize_concrete:
  "gssBidIsConcreteMechanismOid m \<Longrightarrow> gssBidCanonicalizeOid T d (Some m) fl = Inr (Some m)"
  by (auto simp: gssBidCanonicalizeOid_def gssBidIsConcreteMechanismOid_def Let_def)

text \<open>Reading back what was written in front of a name.\<close>

lemma remain_less: "n < 2 ^ 64 \<Longrightarrow> (word_of_nat n :: u64) < word_of_nat k \<longleftrightarrow> n < k" if "k < 2 ^ 64"
  using that by (simp add: word_less_nat_alt unat_of_nat take_bit_nat_eq_self)

lemma import_name_header:
  fixes rest m :: "byte list" and c :: bool
  defines "buf \<equiv> store_uint16_be (if c then TOK_TYPE_EXPORT_NAME_COMPOSITE else TOK_TYPE_EXPORT_NAME) @
    store_uint16_be (of_nat (length m + 2)) @ [0x06, of_nat (length m)] @ m @ rest"
  assumes m: "m = GSS_BROWSERID_MECHANISM \<and> mech = None \<or> gssBidIsConcreteMechanismOid m \<and> mech = Some m"
    and l: "length m < 256" "length buf < 2 ^ 64"
  shows "import_name_oid G (EXPORT_NAME_FLAG_OID OR EXPORT_NAME_FLAG_ALLOW_COMPOSITE) buf (of_nat (length buf)) =
    Some (Inr (or_flag c EXPORT_NAME_FLAG_COMPOSITE (EXPORT_NAME_FLAG_OID OR EXPORT_NAME_FLAG_ALLOW_COMPOSITE), mech, rest, of_nat (length rest)))"
proof -
  have st: "length (store_uint16_be v) = 2" "drop 2 (store_uint16_be v @ r) = r" for v r
    by (simp_all add: store_uint16_be_def)
  have len: "length buf = 6 + length m + length rest" by (simp add: buf_def st)
  have big: "\<not> (word_of_nat (length buf) :: u64) < 6"
    using l remain_less[of 6 "length buf"] by (simp add: len)
  have fits: "\<not> (word_of_nat (length buf) :: u64) - 2 - 2 < ucast (word_of_nat (length m) :: byte)"
  proof -
    have "(word_of_nat (length buf) :: u64) - 2 - 2 = word_of_nat (2 + length m + length rest)" by (simp add: len)
    moreover have "ucast (word_of_nat (length m) :: byte) = (word_of_nat (length m) :: u64)"
      using l by (simp add: unsigned_of_nat take_bit_nat_eq_self)
    ultimately show ?thesis using l remain_less[of "length m" "2 + length m + length rest"] by (simp add: len)
  qed
  have left: "(word_of_nat (length buf) :: u64) - 2 - 2 - (2 + ucast (word_of_nat (length m) :: byte)) = word_of_nat (length rest)"
    using l by (simp add: len unsigned_of_nat take_bit_nat_eq_self)
  have unat: "unat (word_of_nat (length m) :: byte) = length m" using l by (simp add: unat_of_nat take_bit_nat_eq_self)
  have two: "\<not> (word_of_nat (length m + 2) :: 16 word) < 2"
  proof -
    have "unat (word_of_nat (length m + 2) :: 16 word) = length m + 2"
      using l by (simp only: unat_of_nat) (simp add: take_bit_nat_eq_self)
    then show ?thesis by (simp only: word_less_nat_alt) simp
  qed
  have canon: "gssBidCanonicalizeOid G (gssBidDefaultMech G) (Some m) (OID_FLAG_FAMILY_MECH_VALID OR OID_FLAG_MAP_FAMILY_MECH_TO_NULL) = Inr mech"
    using m canonicalize_family canonicalize_concrete by metis
  have load: "load_uint16_be buf = Some (if c then TOK_TYPE_EXPORT_NAME_COMPOSITE else TOK_TYPE_EXPORT_NAME)"
    "load_uint16_be (drop 2 buf) = Some (of_nat (length m + 2))" "drop 2 (drop 2 buf) = 0x06 # of_nat (length m) # m @ rest"
    unfolding buf_def by (simp_all only: load_store_uint16 st append.simps)
  show ?thesis
    unfolding import_name_oid_def Let_def load
    using big fits two left canon by (simp add: load rd_def unat flag_set_def or_flag_def)
qed

lemma store_uint16_length [simp]: "length (store_uint16_be v) = 2" "drop 2 (store_uint16_be v @ r) = r"
  and store_uint32_length [simp]: "length (store_uint32_be w) = 4" "drop 4 (store_uint32_be w @ r) = r"
  by (simp_all add: store_uint16_be_def store_uint32_be_def)

text \<open>What follows the header.\<close>

lemma import_name_rest:
  assumes "(if flag_set flags EXPORT_NAME_FLAG_OID then import_name_oid G flags buf (of_nat (length buf))
       else Some (Inr (flags, None, buf, of_nat (length buf)))) =
      Some (Inr (flags', mech, store_uint32_be (of_nat (length s)) @ bytes_of_string s @ attrs, of_nat (4 + length s + length attrs)))"
    and "printed_as G princ s" "4 + length s + length attrs < 2 ^ 64"
  shows "gssBidImportNameInternal G buf flags =
    Some (let name = (krbPrincipalToName princ)\<lparr>name_mechanismUsed := mech\<rparr>
          in if flag_set flags' EXPORT_NAME_FLAG_COMPOSITE then gssBidImportAttrContext G attrs name else Inr name)"
proof -
  let ?n = "length s" and ?a = "length attrs"
  have s: "?n < 2 ^ 32" using assms(2) by (simp add: printed_as_def)
  then have unat: "unat (word_of_nat ?n :: u32) = ?n" by (simp add: unat_of_nat take_bit_nat_eq_self)
  have "\<not> (word_of_nat (4 + ?n + ?a) :: u64) < 4" using remain_less[of 4 "4 + ?n + ?a"] assms(3) by simp
  moreover have "\<not> (word_of_nat (4 + ?n + ?a) :: u64) - 4 < ucast (word_of_nat ?n :: u32)"
  proof -
    have "(word_of_nat (4 + ?n + ?a) :: u64) - 4 = word_of_nat (?n + ?a)" by simp
    moreover have "ucast (word_of_nat ?n :: u32) = (word_of_nat ?n :: u64)"
      using s by (simp add: unsigned_of_nat take_bit_nat_eq_self)
    ultimately show ?thesis using remain_less[of ?n "?n + ?a"] assms(3) s by simp
  qed
  ultimately show ?thesis
    using assms(1) printed_as_import[OF assms(2)]
    by (simp add: gssBidImportNameInternal_def load_store_uint32 unat Let_def)
qed

text \<open>The attributes of a name as they are written, and read back.\<close>

definition attrs_written :: "'x name_env_scheme \<Rightarrow> json option \<Rightarrow> byte list \<Rightarrow> bool" where
  "attrs_written G ctx attrs \<longleftrightarrow>
     (case ctx of None \<Rightarrow> attrs = []
      | Some j \<Rightarrow> attr_exportToBuffer G j = Inr attrs \<and> attrs \<noteq> [] \<and> attr_initWithBuffer G attrs = Inr j)"

lemma attrs_written_import:
  "attrs_written G (attrCtx name) attrs \<Longrightarrow>
    gssBidExportAttrContext G name = Inr attrs \<and>
    gssBidImportAttrContext G attrs (name\<lparr>attrCtx := None\<rparr>) = Inr name"
  by (auto simp: attrs_written_def gssBidExportAttrContext_def gssBidImportAttrContext_def split: option.splits)

lemma name_ok_mechanism:
  assumes "name_ok name"
  obtains m where "name_mechanismUsed name = None \<and> m = GSS_BROWSERID_MECHANISM \<or>
      name_mechanismUsed name = Some m \<and> gssBidIsConcreteMechanismOid m"
    "length m < 256" "(case name_mechanismUsed name of Some m' \<Rightarrow> m' | None \<Rightarrow> GSS_BROWSERID_MECHANISM) = m"
proof (cases "name_mechanismUsed name")
  case None
  then show ?thesis by (intro that[of GSS_BROWSERID_MECHANISM]) (simp_all add: GSS_BROWSERID_MECHANISM_def)
next
  case (Some m)
  then show ?thesis using assms by (intro that[of m]) (simp_all add: name_ok_def)
qed

text \<open>A name that is exported, with or without its attributes, is the same name again after it has
  been imported, whatever its mechanism.\<close>

theorem name_export_import:
  assumes "name_ok name" "printed_as G (krbPrincipal name) s" "attrs_written G (attrCtx name) attrs"
    and "length s + length attrs < 2 ^ 63"
  shows "\<exists>b. gssBidExportNameInternal G name (if c then EXPORT_NAME_FLAG_OID OR EXPORT_NAME_FLAG_COMPOSITE else EXPORT_NAME_FLAG_OID) = Inr b \<and>
    gssBidImportName G b (Some GSS_C_NT_EXPORT_NAME) None = Some (Inr (if c then name else name\<lparr>attrCtx := None\<rparr>))"
proof -
  let ?fl = "EXPORT_NAME_FLAG_OID OR EXPORT_NAME_FLAG_ALLOW_COMPOSITE"
  let ?attrs = "if c then attrs else []"
  let ?rest = "store_uint32_be (of_nat (length s)) @ bytes_of_string s @ ?attrs"
  from name_ok_mechanism[OF assms(1)] obtain m where m: "name_mechanismUsed name = None \<and> m = GSS_BROWSERID_MECHANISM \<or>
      name_mechanismUsed name = Some m \<and> gssBidIsConcreteMechanismOid m"
    and l: "length m < 256" and mech: "(case name_mechanismUsed name of Some m' \<Rightarrow> m' | None \<Rightarrow> GSS_BROWSERID_MECHANISM) = m"
    by metis
  define b where "b = store_uint16_be (if c then TOK_TYPE_EXPORT_NAME_COMPOSITE else TOK_TYPE_EXPORT_NAME) @
    store_uint16_be (of_nat (length m + 2)) @ [0x06, of_nat (length m)] @ m @ ?rest"
  obtain t where disp: "gssBidDisplayName G (Some name) = Inr (s, t)" using printed_as_display[OF assms(2)] by blast
  have e: "gssBidExportNameInternal G name (if c then EXPORT_NAME_FLAG_OID OR EXPORT_NAME_FLAG_COMPOSITE else EXPORT_NAME_FLAG_OID) = Inr b"
    using disp attrs_written_import[OF assms(3)] mech
    by (simp add: gssBidExportNameInternal_def b_def flag_set_def)
  have "length b < 2 ^ 64" using assms(4) l by (simp add: b_def)
  then have h: "import_name_oid G ?fl b (of_nat (length b)) =
      Some (Inr (or_flag c EXPORT_NAME_FLAG_COMPOSITE ?fl, name_mechanismUsed name, ?rest, of_nat (length ?rest)))"
    using m l unfolding b_def by (intro import_name_header) auto
  have fl: "flag_set (or_flag c EXPORT_NAME_FLAG_COMPOSITE ?fl) EXPORT_NAME_FLAG_COMPOSITE = c"
    by (simp add: flag_set_def or_flag_def)
  have n: "(krbPrincipalToName (krbPrincipal name))\<lparr>name_mechanismUsed := name_mechanismUsed name\<rparr> = name\<lparr>attrCtx := None\<rparr>"
    using assms(1) by (cases name) (simp add: name_ok_def krbPrincipalToName_def)
  have oid: "flag_set ?fl EXPORT_NAME_FLAG_OID = True" by (simp add: flag_set_def)
  have "gssBidImportNameInternal G b ?fl = Some (Inr (if c then name else name\<lparr>attrCtx := None\<rparr>))"
    using import_name_rest[of ?fl G b _ _ s ?attrs, unfolded oid if_True,
        OF h[unfolded length_append store_uint32_length length_bytes_of_string, folded add.assoc] assms(2)]
      assms(4) attrs_written_import[OF assms(3)]
    by (simp add: fl[simplified] n Let_def)
  then have "gssBidImportName G b (Some GSS_C_NT_EXPORT_NAME) None = Some (Inr (if c then name else name\<lparr>attrCtx := None\<rparr>))"
    by (simp add: gssBidImportName_def nameTypes_def GSS_C_NT_BROWSERID_PRINCIPAL_def importExportName_def)
  with e show ?thesis by blast
qed

text \<open>A small Kerberos: a name with one component and perhaps a realm.\<close>

definition sample_name_env :: name_env where
  "sample_name_env =
     \<lparr>ERROR_TABLE_BASE_bidg = 256, ERROR_TABLE_BASE_lbid = 512, krb5_get_permitted_enctypes = Inr [18, 17],
      krb5_parse_name_flags = (\<lambda>s fl. case split_at (CHR ''@'') s of
          Some (u, r) \<Rightarrow> Inr \<lparr>KRB_PRINC_REALM = r, KRB_PRINC_NAME = [u], KRB_PRINC_TYPE = 1\<rparr>
        | None \<Rightarrow> if fl = KRB5_PRINCIPAL_PARSE_REQUIRE_REALM then Inl KRB5_PARSE_MALFORMED
                  else Inr \<lparr>KRB_PRINC_REALM = [], KRB_PRINC_NAME = [s], KRB_PRINC_TYPE = 1\<rparr>),
      krb5_unparse_name_flags = (\<lambda>p fl. Inr (concat (KRB_PRINC_NAME p) @
        (if fl = KRB5_PRINCIPAL_UNPARSE_NO_REALM then [] else CHR ''@'' # KRB_PRINC_REALM p))),
      krb5_build_principal = (\<lambda>cs. Inr \<lparr>KRB_PRINC_REALM = [], KRB_PRINC_NAME = cs, KRB_PRINC_TYPE = 1\<rparr>),
      krb5_principal_compare = (=), krb5_principal_compare_any_realm = (\<lambda>p q. KRB_PRINC_NAME p = KRB_PRINC_NAME q),
      krb5_default_domain = None, gethostname = Inr ''host'',
      attr_exportToBuffer = (\<lambda>_. Inr [1]), attr_initWithBuffer = (\<lambda>_. Inr JNull), attr_initWithExistingContext = Some\<rparr>"

definition sample_name :: gss_name where
  "sample_name =
     \<lparr>name_flags = NAME_FLAG_EMAIL, name_mechanismUsed = Some (GSS_BROWSERID_MECHANISM @ [0x11]),
      krbPrincipal = \<lparr>KRB_PRINC_REALM = ''example.com'', KRB_PRINC_NAME = [''joe''], KRB_PRINC_TYPE = 1\<rparr>, attrCtx = Some JNull\<rparr>"

lemma sample_name_printed: "printed_as sample_name_env (krbPrincipal sample_name) ''joe@example.com''"
  by (simp add: printed_as_def sample_name_env_def sample_name_def)

theorem name_export_import_witness:
  "\<exists>b. gssBidExportNameInternal sample_name_env sample_name (EXPORT_NAME_FLAG_OID OR EXPORT_NAME_FLAG_COMPOSITE) = Inr b \<and>
    gssBidImportName sample_name_env b (Some GSS_C_NT_EXPORT_NAME) None = Some (Inr sample_name)"
proof -
  have "name_ok sample_name"
    by (simp add: name_ok_def sample_name_def krbPrincipalToName_def gssBidIsConcreteMechanismOid_def GSS_BROWSERID_MECHANISM_def)
  moreover have "attrs_written sample_name_env (attrCtx sample_name) [1]"
    by (simp add: attrs_written_def sample_name_env_def sample_name_def)
  ultimately show ?thesis using name_export_import[OF _ sample_name_printed, of "[1]" True] by simp
qed

text \<open>Taking apart the header of an exported name.\<close>

lemma load_uint16_two: "load_uint16_be (a # b # rest) = load_uint16_be [a, b]" "load_uint16_be [a, b] \<noteq> None"
  by (simp_all add: load_uint16_be_def)

lemma import_name_oid_cases:
  fixes a b c d t l :: byte and e :: "byte list"
  defines "buf \<equiv> a # b # c # d # t # l # e" and "fl \<equiv> EXPORT_NAME_FLAG_OID OR EXPORT_NAME_FLAG_ALLOW_COMPOSITE"
  assumes len: "length buf < 2 ^ 63"
  shows "import_name_oid G fl buf (of_nat (length buf)) =
    (if load_uint16_be [a, b] \<notin> {Some TOK_TYPE_EXPORT_NAME, Some TOK_TYPE_EXPORT_NAME_COMPOSITE}
     then Some (Inl (GSS_S_BAD_NAME, bidg G GSSBID_WRONG_TOK_ID))
     else if load_uint16_be [c, d] \<in> {Some 0, Some 1} \<or> t \<noteq> 0x06 then Some (Inl (GSS_S_BAD_NAME, bidg G GSSBID_BAD_NAME_TOKEN))
     else if length e + 2 < unat l then Some (Inl (GSS_S_BAD_NAME, bidg G GSSBID_TOK_TRUNC))
     else if \<not> oid_readable (unat l) e then None
     else Some (bail (gssBidCanonicalizeOid G (gssBidDefaultMech G) (Some (take (unat l) e))
            (OID_FLAG_FAMILY_MECH_VALID OR OID_FLAG_MAP_FAMILY_MECH_TO_NULL)) (\<lambda>mech.
          Inr (or_flag (load_uint16_be [a, b] = Some TOK_TYPE_EXPORT_NAME_COMPOSITE) EXPORT_NAME_FLAG_COMPOSITE fl,
               mech, drop (unat l) e, of_nat (length e) - ucast l))))"
proof -
  obtain w n where w: "load_uint16_be [a, b] = Some w" and n: "load_uint16_be [c, d] = Some n"
    using load_uint16_two(2) by blast
  have load: "load_uint16_be buf = Some w" "load_uint16_be (drop 2 buf) = Some n" "drop 2 (drop 2 buf) = t # l # e"
    using load_uint16_two(1)[of a b] load_uint16_two(1)[of c d] w n by (simp_all add: buf_def)
  have big: "\<not> (word_of_nat (length buf) :: u64) < 6" using remain_less[of 6 "length buf"] len by (simp add: buf_def)
  have r: "(word_of_nat (length buf) :: u64) - 2 - 2 = word_of_nat (length e + 2)" by (simp add: buf_def)
  have u: "ucast l = (word_of_nat (unat l) :: u64)" by simp
  have "unat l < 2 ^ 64" using unsigned_less[of l, where ?'a = nat] by simp
  then have lt: "(word_of_nat (length buf) :: u64) - 2 - 2 < ucast l \<longleftrightarrow> length e + 2 < unat l"
    unfolding r u using remain_less[of "unat l" "length e + 2"] len by (simp add: buf_def)
  have left: "(word_of_nat (length buf) :: u64) - 2 - 2 - (2 + ucast l) = of_nat (length e) - ucast l" unfolding r by simp
  have two: "n < 2 \<longleftrightarrow> n = 0 \<or> n = 1"
  proof -
    have "n < 2 \<longleftrightarrow> unat n < 2" by (simp add: word_less_nat_alt)
    also have "\<dots> \<longleftrightarrow> unat n = 0 \<or> unat n = 1" by linarith
    finally show ?thesis by (simp add: word_unat_eq_iff)
  qed
  have fl: "\<not> flag_set fl EXPORT_NAME_FLAG_COMPOSITE" "flag_set fl EXPORT_NAME_FLAG_ALLOW_COMPOSITE"
    by (simp_all add: fl_def flag_set_def)
  show ?thesis
    unfolding import_name_oid_def Let_def load option.case w n rd_def list.case lt left two
    using big fl by (auto simp: or_flag_def)
qed

lemma canonicalize_prefix:
  "gssBidCanonicalizeOid T d (Some oid) fl = Inr m \<Longrightarrow> 9 \<le> length oid \<and> take 9 oid = GSS_BROWSERID_MECHANISM"
proof -
  have n: "length GSS_BROWSERID_MECHANISM = 9" by (simp add: GSS_BROWSERID_MECHANISM_def)
  assume "gssBidCanonicalizeOid T d (Some oid) fl = Inr m"
  then have "oid = GSS_BROWSERID_MECHANISM \<or> gssBidIsConcreteMechanismOid oid"
    by (auto simp: gssBidCanonicalizeOid_def Let_def split: if_splits)
  then show ?thesis using n by (auto simp: gssBidIsConcreteMechanismOid_def)
qed

lemma length_ge_6: "\<not> length xs < 6 \<Longrightarrow> \<exists>a b c d t l e. xs = a # b # c # d # t # l # e"
  by (auto simp: not_less Suc_le_length_iff eval_nat_numeral)

lemma load_uint32_none: "load_uint32_be p = None \<longleftrightarrow> length p < 4"
  by (auto simp: load_uint32_be_def split: list.splits)

lemma import_name_rest_reads:
  assumes "flag_set fl EXPORT_NAME_FLAG_OID" "length p < 2 ^ 63"
    and "import_name_oid G fl buf (of_nat (length buf)) = Some (Inr (fl', mech, p, of_nat (length p)))"
  shows "gssBidImportNameInternal G buf fl \<noteq> None"
proof (cases "length p < 4")
  case True
  then have "(word_of_nat (length p) :: u64) < 4" using remain_less[of 4 "length p"] by simp
  with assms show ?thesis by (simp add: gssBidImportNameInternal_def Let_def)
next
  case False
  then obtain len where len: "load_uint32_be p = Some len" using load_uint32_none[of p] by auto
  have "(word_of_nat (length p) :: u64) - 4 = word_of_nat (length p - 4)" using False by (simp add: of_nat_diff)
  moreover have small: "length p - 4 < 2 ^ 64" using assms(2) by simp
  moreover have "(ucast len :: u64) = word_of_nat (unat len)" by simp
  moreover have "unat len < 2 ^ 64" using unsigned_less[of len, where ?'a = nat] by simp
  ultimately have "(word_of_nat (length p) :: u64) - 4 < ucast len \<longleftrightarrow> length p - 4 < unat len"
    using remain_less[of "unat len" "length p - 4"] small by (simp only:)
  then show ?thesis using assms len by (auto simp: gssBidImportNameInternal_def Let_def)
qed

text \<open>Importing an exported name reads outside the buffer for exactly these tokens: the identifier of
  the mechanism is up to two bytes longer than what is left of the buffer, and is this mechanism as
  far as it can be compared.\<close>

theorem import_name_bounds:
  assumes "length buf < 2 ^ 63"
  shows "importExportName G buf = None \<longleftrightarrow>
    (\<exists>a b c d l e. buf = [a, b, c, d, 0x06, l] @ e \<and>
      load_uint16_be [a, b] \<in> {Some TOK_TYPE_EXPORT_NAME, Some TOK_TYPE_EXPORT_NAME_COMPOSITE} \<and>
      load_uint16_be [c, d] \<notin> {Some 0, Some 1} \<and>
      9 \<le> unat l \<and> length e < unat l \<and> unat l \<le> length e + 2 \<and> (length e < 9 \<or> take 9 e = GSS_BROWSERID_MECHANISM))"
    (is "_ \<longleftrightarrow> ?rhs")
proof (cases "length buf < 6")
  case True
  then have "(word_of_nat (length buf) :: u64) < 6" using remain_less[of 6 "length buf"] assms by simp
  with True show ?thesis
    by (auto simp: importExportName_def gssBidImportNameInternal_def import_name_oid_def flag_set_def)
next
  case False
  let ?fl = "EXPORT_NAME_FLAG_OID OR EXPORT_NAME_FLAG_ALLOW_COMPOSITE"
  from False obtain a b c d t l e where buf: "buf = a # b # c # d # t # l # e" using length_ge_6 by blast
  have fl: "flag_set ?fl EXPORT_NAME_FLAG_OID" by (simp add: flag_set_def)
  note oid = import_name_oid_cases[of a b c d t l e G, folded buf, OF assms]
  have n: "length GSS_BROWSERID_MECHANISM = 9" by (simp add: GSS_BROWSERID_MECHANISM_def)
  have readable: "oid_readable (unat l) e \<longleftrightarrow> unat l < 9 \<or> 9 \<le> length e \<and> (take 9 e \<noteq> GSS_BROWSERID_MECHANISM \<or> unat l \<le> length e)"
    by (simp add: oid_readable_def Let_def n)
  have "importExportName G buf = None \<longleftrightarrow> import_name_oid G ?fl buf (of_nat (length buf)) = None"
  proof (cases "import_name_oid G ?fl buf (of_nat (length buf))")
    case (Some r)
    show ?thesis
    proof (cases r)
      case (Inr x)
      obtain fl' mech p remain where x: "x = (fl', mech, p, remain)" by (cases x) auto
      have step: "import_name_oid G ?fl buf (of_nat (length buf)) = Some (Inr (fl', mech, p, remain))"
        unfolding Some Inr x by (rule refl)
      from step[unfolded oid] have p: "p = drop (unat l) e" "remain = of_nat (length e) - ucast l"
        and c: "gssBidCanonicalizeOid G (gssBidDefaultMech G) (Some (take (unat l) e)) (OID_FLAG_FAMILY_MECH_VALID OR OID_FLAG_MAP_FAMILY_MECH_TO_NULL) = Inr mech"
        and rd: "oid_readable (unat l) e"
        by (auto simp: bid_result split: if_splits)
      from canonicalize_prefix[OF c] rd readable have le: "unat l \<le> length e" by (auto simp: min_def split: if_splits)
      then have "remain = of_nat (length p)" by (simp add: p of_nat_diff)
      moreover have "length p < 2 ^ 63" using assms by (simp add: p buf)
      ultimately show ?thesis
        using import_name_rest_reads[OF fl, of p G buf fl' mech] Some Inr x by (simp add: importExportName_def)
    qed (use Some fl in \<open>auto simp: importExportName_def gssBidImportNameInternal_def\<close>)
  qed (use fl in \<open>simp add: importExportName_def gssBidImportNameInternal_def\<close>)
  also have "\<dots> \<longleftrightarrow> load_uint16_be [a, b] \<in> {Some TOK_TYPE_EXPORT_NAME, Some TOK_TYPE_EXPORT_NAME_COMPOSITE} \<and>
      load_uint16_be [c, d] \<notin> {Some 0, Some 1} \<and> t = 0x06 \<and> unat l \<le> length e + 2 \<and> \<not> oid_readable (unat l) e"
    unfolding oid by auto
  also have "\<dots> \<longleftrightarrow> ?rhs"
    unfolding readable by (auto simp: buf)
  finally show ?thesis .
qed

theorem import_name_bounds_witness:
  "importExportName sample_name_env ([0x04, 0x01, 0x00, 0x0C, 0x06, 10] @ GSS_BROWSERID_MECHANISM) = None"
  by (subst import_name_bounds) (simp_all add: GSS_BROWSERID_MECHANISM_def load_uint16_be_def)

end
