(* ===== verification/Cred.thy ===== *)
theory Cred
  imports Name Replay
begin

text \<open>
  Credentials of the GSS mechanism, \<^verbatim>\<open>mech_browserid/util_cred.c\<close>: making, copying and releasing
  them, their attributes, and what is told about them.  Resolving them belongs to the initiator.
\<close>

section \<open>Data\<close>

record cred_env = name_env +
  GSSBID_CONFIG_FILE :: string

record gss_cred =
  cred_flags :: u32
  cred_name :: "gss_name option"
  cred_target :: "gss_name option"
  cred_assertion :: "byte list option"
  mechanisms :: "gss_OID list option"
  cred_expiryTime :: int
  cred_bidContext :: BIDContextDesc
  bidTicketCache :: BIDCache
  bidReplayCache :: BIDCache

abbreviation CRED_FLAG_INITIATE :: u32 where "CRED_FLAG_INITIATE \<equiv> 0x10000"
abbreviation CRED_FLAG_ACCEPT :: u32 where "CRED_FLAG_ACCEPT \<equiv> 0x20000"
abbreviation CRED_FLAG_ASSERTION :: u32 where "CRED_FLAG_ASSERTION \<equiv> 0x40000"
abbreviation CRED_FLAG_RESOLVED :: u32 where "CRED_FLAG_RESOLVED \<equiv> 0x100000"
abbreviation CRED_FLAG_TARGET :: u32 where "CRED_FLAG_TARGET \<equiv> 0x200000"
abbreviation CRED_FLAG_CALLER_UI :: u32 where "CRED_FLAG_CALLER_UI \<equiv> 0x400000"

abbreviation GSS_C_BOTH :: int where "GSS_C_BOTH \<equiv> 0"
abbreviation GSS_C_INITIATE :: int where "GSS_C_INITIATE \<equiv> 1"
abbreviation GSS_C_ACCEPT :: int where "GSS_C_ACCEPT \<equiv> 2"

abbreviation GSS_C_INDEFINITE :: u32 where "GSS_C_INDEFINITE \<equiv> 0xFFFFFFFF"
abbreviation GSSBID_BAD_USAGE :: OM_uint32 where "GSSBID_BAD_USAGE \<equiv> 22"
abbreviation GSSBID_CRED_USAGE_MISMATCH :: OM_uint32 where "GSSBID_CRED_USAGE_MISMATCH \<equiv> 23"
abbreviation GSSBID_CRED_MECH_MISMATCH :: OM_uint32 where "GSSBID_CRED_MECH_MISMATCH \<equiv> 24"
abbreviation GSSBID_CRED_RESOLVED :: OM_uint32 where "GSSBID_CRED_RESOLVED \<equiv> 29"

section \<open>Allocation and release\<close>

definition BIDAcquireTicketCache :: "'d BIDCacheOps list \<Rightarrow> string \<Rightarrow> 'd cache_heap \<Rightarrow> (BIDError + nat) \<times> 'd cache_heap" where
  "BIDAcquireTicketCache table szCacheName heap = BIDAcquireCache table szCacheName 0 heap"

definition BIDReleaseTicketCache :: "BIDCache \<Rightarrow> 'd cache_heap \<Rightarrow> (BIDError + unit) \<times> 'd cache_heap" where
  "BIDReleaseTicketCache cache heap = BIDReleaseCache cache heap"

definition gssBidAllocCred :: "'x cred_env_scheme \<Rightarrow> 'd cache_system \<Rightarrow> 'd cache_heap \<Rightarrow> (gss_error + gss_cred) \<times> 'd cache_heap" where
  "gssBidAllocCred G sys heap =
     (case BIDAcquireContext sys (Some (GSSBID_CONFIG_FILE G)) BID_CONTEXT_GSS None heap of
        (Inl e, heap) \<Rightarrow>
          let (major, minor) = gssBidMapError G e in (Inl (if GSS_ERROR major then major else GSS_S_FAILURE, minor), heap)
      | (Inr context, heap) \<Rightarrow>
          (Inr \<lparr>cred_flags = 0, cred_name = None, cred_target = None, cred_assertion = None, mechanisms = None,
                cred_expiryTime = 0, cred_bidContext = context, bidTicketCache = None, bidReplayCache = None\<rparr>, heap))"

definition gssBidReleaseCred :: "gss_cred option \<Rightarrow> 'd cache_heap \<Rightarrow> 'd cache_heap" where
  "gssBidReleaseCred cred heap =
     (case cred of
        None \<Rightarrow> heap
      | Some cred \<Rightarrow>
          snd (BIDReleaseContext (Some (cred_bidContext cred))
            (snd (BIDReleaseReplayCache (bidReplayCache cred) (snd (BIDReleaseTicketCache (bidTicketCache cred) heap))))))"

text \<open>A fresh credential is filled in, and released when that fails.\<close>

definition with_new_cred ::
  "'x cred_env_scheme \<Rightarrow> 'd cache_system \<Rightarrow> (gss_cred \<Rightarrow> gss_error + gss_cred) \<Rightarrow> 'd cache_heap \<Rightarrow> (gss_error + gss_cred) \<times> 'd cache_heap" where
  "with_new_cred G sys fill heap =
     bailS (gssBidAllocCred G sys heap) (\<lambda>cred heap.
       case fill cred of Inl e \<Rightarrow> (Inl e, gssBidReleaseCred (Some cred) heap) | Inr cred \<Rightarrow> (Inr cred, heap))"

section \<open>Attributes\<close>

definition duplicateOidSet :: "gss_OID list option \<Rightarrow> gss_OID list option" where
  "duplicateOidSet src = map_option (\<lambda>oids. fold gss_add_oid_set_member oids []) src"

definition gssBidPrimaryMechForCred :: "gss_cred option \<Rightarrow> gss_OID option" where
  "gssBidPrimaryMechForCred cred =
     (case cred of None \<Rightarrow> None | Some cred \<Rightarrow> (case mechanisms cred of Some [oid] \<Rightarrow> Some oid | _ \<Rightarrow> None))"

definition gssBidSetCredMechs :: "gss_OID list option \<Rightarrow> gss_cred \<Rightarrow> gss_cred" where
  "gssBidSetCredMechs mechs cred = cred\<lparr>mechanisms := duplicateOidSet mechs\<rparr>"

definition gssBidSetCredName :: "'x name_env_scheme \<Rightarrow> gss_name \<Rightarrow> bool \<Rightarrow> gss_cred \<Rightarrow> gss_error + gss_cred" where
  "gssBidSetCredName G name freeIt cred =
     bail (if freeIt then Inr name else gssBidDuplicateName G (Some name)) (\<lambda>newName. Inr (cred\<lparr>cred_name := Some newName\<rparr>))"

text \<open>A resolved credential takes no further attributes.\<close>

definition not_resolved :: "'x gss_tables_scheme \<Rightarrow> gss_cred \<Rightarrow> gss_error + unit" where
  "not_resolved T cred = guard (flag_set (cred_flags cred) CRED_FLAG_RESOLVED) (GSS_S_FAILURE, bidg T GSSBID_CRED_RESOLVED)"

definition gssBidSetCredAssertion :: "'x gss_tables_scheme \<Rightarrow> byte list option \<Rightarrow> gss_cred \<Rightarrow> gss_error + gss_cred" where
  "gssBidSetCredAssertion T assertion cred =
     bail (not_resolved T cred) (\<lambda>_.
       Inr (case assertion of
              Some a \<Rightarrow> cred\<lparr>cred_flags := cred_flags cred OR CRED_FLAG_ASSERTION OR CRED_FLAG_RESOLVED, cred_assertion := Some a\<rparr>
            | None \<Rightarrow> cred\<lparr>cred_flags := cred_flags cred AND NOT CRED_FLAG_ASSERTION, cred_assertion := None\<rparr>))"

definition gssBidSetCredService :: "'x name_env_scheme \<Rightarrow> gss_name option \<Rightarrow> gss_cred \<Rightarrow> gss_error + gss_cred" where
  "gssBidSetCredService G target cred =
     bail (not_resolved G cred) (\<lambda>_.
       case target of
         Some _ \<Rightarrow> bail (gssBidDuplicateName G target) (\<lambda>newTarget.
             Inr (cred\<lparr>cred_flags := cred_flags cred OR CRED_FLAG_TARGET, cred_target := Some newTarget\<rparr>))
       | None \<Rightarrow> Inr (cred\<lparr>cred_flags := cred_flags cred AND NOT CRED_FLAG_TARGET, cred_target := None\<rparr>))"

definition gssBidSetCredTicketCacheName ::
  "'x gss_tables_scheme \<Rightarrow> 'd BIDCacheOps list \<Rightarrow> string option \<Rightarrow> gss_cred \<Rightarrow> 'd cache_heap \<Rightarrow> (gss_error + gss_cred) \<times> 'd cache_heap" where
  "gssBidSetCredTicketCacheName T table cacheName cred heap =
     bailS (not_resolved T cred, heap) (\<lambda>_ heap.
     bailS (case cacheName of
              None \<Rightarrow> (Inr None, heap)
            | Some name \<Rightarrow> (case BIDAcquireTicketCache table name heap of
                (Inl e, heap) \<Rightarrow> (Inl (gssBidMapError T e), heap)
              | (Inr newCache, heap) \<Rightarrow> (Inr (Some newCache), heap))) (\<lambda>newCache heap.
       (Inr (cred\<lparr>bidTicketCache := newCache\<rparr>), snd (BIDReleaseTicketCache (bidTicketCache cred) heap))))"

definition gssBidSetCredReplayCacheName ::
  "'x gss_tables_scheme \<Rightarrow> 'd BIDCacheOps list \<Rightarrow> string option \<Rightarrow> gss_cred \<Rightarrow> 'd cache_heap \<Rightarrow> (gss_error + gss_cred) \<times> 'd cache_heap" where
  "gssBidSetCredReplayCacheName T table cacheName cred heap =
     bailS (not_resolved T cred, heap) (\<lambda>_ heap.
     bailS (case cacheName of
              None \<Rightarrow> (Inr None, heap)
            | Some name \<Rightarrow> (case BIDAcquireReplayCache table name heap of
                (Inl e, heap) \<Rightarrow> (Inl (gssBidMapError T e), heap)
              | (Inr newCache, heap) \<Rightarrow> (Inr (Some newCache), heap))) (\<lambda>newCache heap.
       (Inr (cred\<lparr>bidReplayCache := newCache\<rparr>), snd (BIDReleaseReplayCache (bidReplayCache cred) heap))))"

section \<open>Acquiring, copying and inquiring\<close>

definition gssBidAcquireCred ::
  "'x cred_env_scheme \<Rightarrow> 'd cache_system \<Rightarrow> gss_name option \<Rightarrow> gss_OID list option \<Rightarrow> int \<Rightarrow> 'd cache_heap \<Rightarrow>
    (gss_error + gss_cred) \<times> 'd cache_heap" where
  "gssBidAcquireCred G sys desiredName desiredMechs credUsage heap =
     with_new_cred G sys (\<lambda>cred.
       bail (some_or (map_of [(GSS_C_BOTH, CRED_FLAG_INITIATE OR CRED_FLAG_ACCEPT), (GSS_C_INITIATE, CRED_FLAG_INITIATE),
                              (GSS_C_ACCEPT, CRED_FLAG_ACCEPT)] credUsage) (GSS_S_FAILURE, bidg G GSSBID_BAD_USAGE)) (\<lambda>usage.
       bail (gssBidValidateMechs G desiredMechs) (\<lambda>_.
         let cred = gssBidSetCredMechs desiredMechs (cred\<lparr>cred_flags := cred_flags cred OR usage\<rparr>)
         in case desiredName of None \<Rightarrow> Inr cred | Some name \<Rightarrow> gssBidSetCredName G name False cred))) heap"

definition gssBidCredAvailable :: "gss_cred option \<Rightarrow> gss_OID option \<Rightarrow> bool" where
  "gssBidCredAvailable cred mech \<longleftrightarrow>
     (case cred of
        None \<Rightarrow> True
      | Some cred \<Rightarrow>
          (case mechanisms cred of
             None \<Rightarrow> True
           | Some oids \<Rightarrow> (case mech of None \<Rightarrow> False | Some m \<Rightarrow> m \<in> set oids)))"

text \<open>The lifetime as a \<^verbatim>\<open>time_t\<close>.\<close>

definition inquire_lifetime :: "int \<Rightarrow> gss_cred \<Rightarrow> int" where
  "inquire_lifetime now cred =
     (if cred_expiryTime cred = 0 then uint GSS_C_INDEFINITE
      else let lifetime = now - cred_expiryTime cred in if lifetime < 0 then 0 else lifetime)"

definition inquire_usage :: "gss_cred \<Rightarrow> int" where
  "inquire_usage cred =
     (let flags = cred_flags cred AND (CRED_FLAG_INITIATE OR CRED_FLAG_ACCEPT)
      in if flags = CRED_FLAG_INITIATE then GSS_C_INITIATE else if flags = CRED_FLAG_ACCEPT then GSS_C_ACCEPT else GSS_C_BOTH)"

text \<open>All results are asked for: the name, the lifetime, the usage and the mechanisms.  The last three
  are stored also when the credential is reported as expired.\<close>

definition gssBidInquireCred ::
  "'x name_env_scheme \<Rightarrow> int \<Rightarrow> gss_cred \<Rightarrow> (gss_error + unit) \<times> (gss_name option \<times> u32 \<times> int \<times> gss_OID list) option" where
  "gssBidInquireCred G now cred =
     (case bail (case cred_name cred of None \<Rightarrow> Inr None | Some n \<Rightarrow> map_sum id Some (gssBidDuplicateName G (Some n))) (\<lambda>name.
           bail (case duplicateOidSet (mechanisms cred) of Some oids \<Rightarrow> Inr oids | None \<Rightarrow> gssBidIndicateMechs G) (\<lambda>oids.
           Inr (name, oids))) of
        Inl e \<Rightarrow> (Inl e, None)
      | Inr (name, oids) \<Rightarrow>
          let lifetime = inquire_lifetime now cred
          in (guard (lifetime = 0) (GSS_S_CREDENTIALS_EXPIRED, bidg G GSSBID_CRED_EXPIRED),
              Some (name, of_int lifetime, inquire_usage cred, oids)))"

text \<open>The flags are copied first.\<close>

definition duplicate_fields :: "'x name_env_scheme \<Rightarrow> gss_cred \<Rightarrow> gss_cred \<Rightarrow> gss_error + gss_cred" where
  "duplicate_fields G src dst =
     (let dst = dst\<lparr>cred_flags := cred_flags src\<rparr> in
      bail (case cred_name src of None \<Rightarrow> Inr dst | Some n \<Rightarrow> gssBidSetCredName G n False dst) (\<lambda>dst.
      bail (if cred_target src = None then Inr dst else gssBidSetCredService G (cred_target src) dst) (\<lambda>dst.
      let dst = (case cred_assertion src of None \<Rightarrow> dst | Some a \<Rightarrow> dst\<lparr>cred_assertion := Some a\<rparr>)
      in Inr ((gssBidSetCredMechs (mechanisms src) dst)\<lparr>cred_expiryTime := cred_expiryTime src\<rparr>))))"

definition gssBidDuplicateCred ::
  "'x cred_env_scheme \<Rightarrow> 'd cache_system \<Rightarrow> gss_cred \<Rightarrow> 'd cache_heap \<Rightarrow> (gss_error + gss_cred) \<times> 'd cache_heap" where
  "gssBidDuplicateCred G sys src heap = with_new_cred G sys (duplicate_fields G src) heap"

section \<open>Lemmas and properties\<close>

text \<open>Names that are copied faithfully.\<close>

definition name_copies :: "'x name_env_scheme \<Rightarrow> gss_name option \<Rightarrow> bool" where
  "name_copies G name \<longleftrightarrow>
     (case name of
        None \<Rightarrow> True
      | Some n \<Rightarrow> name_ok n \<and> (case attrCtx n of None \<Rightarrow> True | Some ctx \<Rightarrow> attr_initWithExistingContext G ctx = Some ctx))"

lemma canonicalize_none: "gssBidCanonicalizeOid T d None OID_FLAG_NULL_VALID = Inr None"
  by (simp add: gssBidCanonicalizeOid_def flag_set_def)

lemma name_copies_duplicate: "name_copies G (Some n) \<Longrightarrow> gssBidDuplicateName G (Some n) = Inr n"
  by (cases n)
    (auto simp: name_copies_def name_ok_def gssBidDuplicateName_def gssBidCanonicalizeName_def gssBidDuplicateAttrContext_def
      canonicalize_concrete canonicalize_none split: option.splits)

lemma fold_add_members: "distinct oids \<Longrightarrow> set oids \<inter> set acc = {} \<Longrightarrow> fold gss_add_oid_set_member oids acc = acc @ oids"
  by (induction oids arbitrary: acc) (auto simp: gss_add_oid_set_member_def)

lemma duplicateOidSet_set: "(case oids of None \<Rightarrow> True | Some os \<Rightarrow> distinct os) \<Longrightarrow> duplicateOidSet oids = oids"
  using fold_add_members[of _ "[]"] by (simp add: duplicateOidSet_def split: option.splits)

text \<open>A credential that expires is reported as expired while it is still valid, with no time left, and
  as usable once it has expired, with the time since then as its lifetime.\<close>

theorem inquire_cred_expiry:
  assumes "gssBidInquireCred G now cred = (r, Some (name, lifetime, usage, mechs))"
  shows "(r = Inr () \<longleftrightarrow> cred_expiryTime cred = 0 \<or> cred_expiryTime cred < now) \<and>
    lifetime = (if cred_expiryTime cred = 0 then GSS_C_INDEFINITE else of_int (max 0 (now - cred_expiryTime cred)))"
proof -
  from assms have "r = guard (inquire_lifetime now cred = 0) (GSS_S_CREDENTIALS_EXPIRED, bidg G GSSBID_CRED_EXPIRED)"
    and "lifetime = of_int (inquire_lifetime now cred)"
    by (auto simp: gssBidInquireCred_def Let_def split: sum.splits prod.splits)
  then show ?thesis by (auto simp: inquire_lifetime_def Let_def guard_def max_def)
qed

text \<open>A credential is copied with all its attributes, unless it is resolved and has a target: then the
  copy, which has taken over the flags already, refuses the target.\<close>

theorem duplicate_cred:
  assumes "gssBidAllocCred G sys heap = (Inr new, heap')"
    and "name_copies G (cred_name src)" "name_copies G (cred_target src)"
    and "case mechanisms src of None \<Rightarrow> True | Some oids \<Rightarrow> distinct oids"
  shows "gssBidDuplicateCred G sys src heap =
    (if flag_set (cred_flags src) CRED_FLAG_RESOLVED \<and> cred_target src \<noteq> None
     then (Inl (GSS_S_FAILURE, bidg G GSSBID_CRED_RESOLVED),
           gssBidReleaseCred (Some new) heap')
     else (Inr (src\<lparr>cred_flags := or_flag (cred_target src \<noteq> None) CRED_FLAG_TARGET (cred_flags src),
                    cred_bidContext := cred_bidContext new, bidTicketCache := None, bidReplayCache := None\<rparr>), heap'))"
proof -
  from assms(1) have new: "new = \<lparr>cred_flags = 0, cred_name = None, cred_target = None, cred_assertion = None, mechanisms = None,
      cred_expiryTime = 0, cred_bidContext = cred_bidContext new, bidTicketCache = None, bidReplayCache = None\<rparr>"
    by (auto simp: gssBidAllocCred_def Let_def split: prod.splits sum.splits)
  have mech: "duplicateOidSet (mechanisms src) = mechanisms src" using duplicateOidSet_set assms(4) by blast
  have fields: "duplicate_fields G src new =
    (if flag_set (cred_flags src) CRED_FLAG_RESOLVED \<and> cred_target src \<noteq> None then Inl (GSS_S_FAILURE, bidg G GSSBID_CRED_RESOLVED)
     else Inr (src\<lparr>cred_flags := or_flag (cred_target src \<noteq> None) CRED_FLAG_TARGET (cred_flags src),
                   cred_bidContext := cred_bidContext new, bidTicketCache := None, bidReplayCache := None\<rparr>))"
    using assms(2,3) mech
    by (cases "cred_name src"; cases "cred_target src"; cases "cred_assertion src"; subst new; cases src)
      (auto simp: duplicate_fields_def Let_def gssBidSetCredName_def gssBidSetCredService_def not_resolved_def guard_def
        gssBidSetCredMechs_def name_copies_duplicate or_flag_def)
  show ?thesis by (simp add: gssBidDuplicateCred_def with_new_cred_def assms(1) fields)
qed

definition sample_cred_env :: cred_env where
  "sample_cred_env = name_env.extend sample_name_env (cred_env.fields ''conf'')"

definition sample_gss_cred :: gss_cred where
  "sample_gss_cred =
     \<lparr>cred_flags = CRED_FLAG_INITIATE OR CRED_FLAG_RESOLVED, cred_name = Some sample_name, cred_target = Some sample_name,
      cred_assertion = Some [1, 2], mechanisms = None, cred_expiryTime = 1000, cred_bidContext = new_context 0,
      bidTicketCache = None, bidReplayCache = None\<rparr>"

lemma sample_name_copies: "name_copies sample_cred_env (Some sample_name)"
  by (simp add: name_copies_def name_ok_def sample_name_def krbPrincipalToName_def gssBidIsConcreteMechanismOid_def
      GSS_BROWSERID_MECHANISM_def sample_cred_env_def sample_name_env_def name_env.defs cred_env.defs)

theorem inquire_cred_expiry_witness:
  "fst (gssBidInquireCred sample_cred_env 999 sample_gss_cred) \<noteq> Inr ()"
proof -
  obtain r name lifetime usage mechs where
    i: "gssBidInquireCred sample_cred_env 999 sample_gss_cred = (r, Some (name, lifetime, usage, mechs))"
    using name_copies_duplicate[OF sample_name_copies]
    by (simp add: gssBidInquireCred_def sample_gss_cred_def duplicateOidSet_def gssBidIndicateMechs_def sample_cred_env_def
        sample_name_env_def name_env.defs cred_env.defs gssBidEnctypeToOid_def composeOid_def guard_def septet_count.simps
        GSS_BROWSERID_MECHANISM_def gss_add_oid_set_member_def GSS_ERROR_def Let_def)
  from inquire_cred_expiry[OF i] i show ?thesis by (simp add: sample_gss_cred_def)
qed

theorem duplicate_cred_witness:
  "fst (gssBidDuplicateCred sample_cred_env sample_sys sample_gss_cred sample_heap) = Inl (GSS_S_FAILURE, 256 + GSSBID_CRED_RESOLVED)"
proof -
  obtain new heap' where a: "gssBidAllocCred sample_cred_env sample_sys sample_heap = (Inr new, heap')"
    by (simp add: gssBidAllocCred_def BIDAcquireContext_def acquire_context_body_def acquire_context_cache_def Let_def flag_set_def
        configure_context_def new_context_def BIDSetContextParam_def set_cache_by_name_def BIDAcquireCache_def sample_sys_def
        BIDMemoryCacheOps_def BIDMemoryCacheAcquire_def sample_cred_env_def name_env.defs cred_env.defs cache_field_def set_cache_field_def
        BIDReleaseCache_def deref_cache_def)
  have "flag_set (cred_flags sample_gss_cred) CRED_FLAG_RESOLVED" by (simp add: sample_gss_cred_def flag_set_def)
  moreover have "bidg sample_cred_env GSSBID_CRED_RESOLVED = 256 + GSSBID_CRED_RESOLVED"
    by (simp add: bidg_def sample_cred_env_def sample_name_env_def name_env.defs cred_env.defs)
  ultimately show ?thesis
    using duplicate_cred[OF a, of sample_gss_cred] sample_name_copies by (simp add: sample_gss_cred_def)
qed

end
