(* ===== verification/Mech.thy ===== *)
theory Mech
  imports User Ordering Cred
begin

text \<open>
  Security contexts of the GSS mechanism, \<^verbatim>\<open>mech_browserid/util_context.c\<close>: allocation and release, the
  point where a context becomes ready for messages, its lifetime.
\<close>

section \<open>Data\<close>

abbreviation GSS_C_MUTUAL_FLAG :: u32 where "GSS_C_MUTUAL_FLAG \<equiv> 2"
abbreviation GSS_C_REPLAY_FLAG :: u32 where "GSS_C_REPLAY_FLAG \<equiv> 4"
abbreviation GSS_C_SEQUENCE_FLAG :: u32 where "GSS_C_SEQUENCE_FLAG \<equiv> 8"
abbreviation GSS_C_CONF_FLAG :: u32 where "GSS_C_CONF_FLAG \<equiv> 16"
abbreviation GSS_C_INTEG_FLAG :: u32 where "GSS_C_INTEG_FLAG \<equiv> 32"
abbreviation GSS_C_ANON_FLAG :: u32 where "GSS_C_ANON_FLAG \<equiv> 64"
abbreviation GSS_C_TRANS_FLAG :: u32 where "GSS_C_TRANS_FLAG \<equiv> 256"
abbreviation GSS_C_DCE_STYLE :: u32 where "GSS_C_DCE_STYLE \<equiv> 0x1000"
abbreviation GSS_C_IDENTIFY_FLAG :: u32 where "GSS_C_IDENTIFY_FLAG \<equiv> 0x2000"

abbreviation CTX_FLAG_INITIATOR :: u32 where "CTX_FLAG_INITIATOR \<equiv> 1"
abbreviation CTX_FLAG_REAUTH :: u32 where "CTX_FLAG_REAUTH \<equiv> 2"
abbreviation CTX_FLAG_EXTRA_ROUND_TRIP :: u32 where "CTX_FLAG_EXTRA_ROUND_TRIP \<equiv> 8"

abbreviation ENCTYPE_NULL :: u32 where "ENCTYPE_NULL \<equiv> 0"

datatype gss_bid_state =
    GSSBID_STATE_INITIAL
  | GSSBID_STATE_AUTHENTICATE
  | GSSBID_STATE_RETRY_INITIAL
  | GSSBID_STATE_RETRY_AUTHENTICATE
  | GSSBID_STATE_EXTRA_ROUND_TRIP
  | GSSBID_STATE_ESTABLISHED

text \<open>\<^verbatim>\<open>GSSBID_STATE_NEXT\<close> shifts the bit of a state; the bit after the last is no state.\<close>

fun GSSBID_STATE_NEXT :: "gss_bid_state \<Rightarrow> gss_bid_state option" where
  "GSSBID_STATE_NEXT GSSBID_STATE_INITIAL = Some GSSBID_STATE_AUTHENTICATE"
| "GSSBID_STATE_NEXT GSSBID_STATE_AUTHENTICATE = Some GSSBID_STATE_RETRY_INITIAL"
| "GSSBID_STATE_NEXT GSSBID_STATE_RETRY_INITIAL = Some GSSBID_STATE_RETRY_AUTHENTICATE"
| "GSSBID_STATE_NEXT GSSBID_STATE_RETRY_AUTHENTICATE = Some GSSBID_STATE_EXTRA_ROUND_TRIP"
| "GSSBID_STATE_NEXT GSSBID_STATE_EXTRA_ROUND_TRIP = Some GSSBID_STATE_ESTABLISHED"
| "GSSBID_STATE_NEXT GSSBID_STATE_ESTABLISHED = None"

record gss_ctx =
  sm_state :: gss_bid_state
  ctx_flags :: u32
  gssFlags :: u32
  mechanismUsed :: "gss_OID option"
  checksumType :: int
  encryptionType :: u32
  rfc3961Key :: "byte list option"
  initiatorName :: "gss_name option"
  acceptorName :: "gss_name option"
  expiryTime :: int
  sendSeq :: u64
  recvSeq :: u64
  seqState :: "queue option"
  ctx_cred :: "gss_cred option"
  bidContext :: BIDContextDesc
  bidIdentity :: "BIDIdentityDesc option"

text \<open>
  What comes from Kerberos for keys: the lengths of random input and of a key of an encryption type, a key
  from random input, the type of the checksum that a key makes when none is named, and whether a type is keyed.
  \<open>gssBidCreateAttrContext\<close>, of the attribute classes, gives the attributes of an identity and
  the time they expire.
\<close>

type_synonym krb5_keyblock = "u32 \<times> byte list"

record gss_env = cred_env +
  krb5_c_keylengths :: "u32 \<Rightarrow> OM_uint32 + nat \<times> nat"
  krb5_c_random_to_key :: "u32 \<Rightarrow> byte list \<Rightarrow> nat \<Rightarrow> OM_uint32 + byte list"
  krb5_c_make_checksum :: "krb5_keyblock \<Rightarrow> OM_uint32 + int"
  krb5_c_is_keyed_cksum :: "int \<Rightarrow> bool"
  gssBidCreateAttrContext :: "BIDIdentityDesc \<Rightarrow> gss_error + json \<times> int"

abbreviation KRB5KRB_AP_ERR_INAPP_CKSUM :: OM_uint32 where "KRB5KRB_AP_ERR_INAPP_CKSUM \<equiv> 0x96C73A32"

text \<open>A call that may be undefined: its error ends the caller.\<close>

definition bailO :: "('e + 'a) option \<Rightarrow> ('a \<Rightarrow> ('e + 'b) option) \<Rightarrow> ('e + 'b) option" where
  "bailO r f = (case r of None \<Rightarrow> None | Some (Inl e) \<Rightarrow> Some (Inl e) | Some (Inr x) \<Rightarrow> f x)"

lemma bailO_Inr [simp]: "bailO (Some (Inr x)) f = f x"
  and bailO_Inl [simp]: "bailO (Some (Inl e)) f = Some (Inl e)"
  and bailO_None [simp]: "bailO None f = None"
  by (simp_all add: bailO_def)

lemma store_uint64_length [simp]: "length (store_uint64_be v) = 8" "drop 8 (store_uint64_be v @ r) = r"
  by (simp_all add: store_uint64_be_def)

section \<open>Kerberos keys\<close>

definition gssBidRfc3961KeySize :: "'x gss_env_scheme \<Rightarrow> u32 \<Rightarrow> gss_error + nat" where
  "gssBidRfc3961KeySize G enctype = map_sum (\<lambda>code. (GSS_S_FAILURE, code)) snd (krb5_c_keylengths G enctype)"

text \<open>As much of the input as the encryption type takes is made a key.\<close>

definition gssBidDeriveRfc3961Key :: "'x gss_env_scheme \<Rightarrow> byte list \<Rightarrow> u32 \<Rightarrow> gss_error + byte list" where
  "gssBidDeriveRfc3961Key G inputKey enctype =
     map_sum (\<lambda>code. (GSS_S_FAILURE, code)) id
       (bail (krb5_c_keylengths G enctype) (\<lambda>(randomLength, keyLength).
        krb5_c_random_to_key G enctype (take (min (length inputKey) randomLength) inputKey) keyLength))"

definition rfc3961ChecksumTypeForKey :: "'x gss_env_scheme \<Rightarrow> krb5_keyblock \<Rightarrow> gss_error + int" where
  "rfc3961ChecksumTypeForKey G key =
     (case krb5_c_make_checksum G key of
        Inl code \<Rightarrow> Inl (GSS_S_FAILURE, code)
      | Inr cksumtype \<Rightarrow>
          if \<not> krb5_c_is_keyed_cksum G cksumtype then Inl (GSS_S_FAILURE, KRB5KRB_AP_ERR_INAPP_CKSUM) else Inr cksumtype)"

section \<open>Allocation and release\<close>

definition new_gss_ctx :: "bool \<Rightarrow> BIDContextDesc \<Rightarrow> gss_ctx" where
  "new_gss_ctx isInitiator context =
     \<lparr>sm_state = GSSBID_STATE_INITIAL, ctx_flags = or_flag isInitiator CTX_FLAG_INITIATOR 0, gssFlags = 0, mechanismUsed = None,
      checksumType = 0, encryptionType = ENCTYPE_NULL, rfc3961Key = None, initiatorName = None, acceptorName = None,
      expiryTime = 0, sendSeq = 0, recvSeq = 0, seqState = None, ctx_cred = None, bidContext = context, bidIdentity = None\<rparr>"

text \<open>The mechanism, its encryption type and the size of its keys.\<close>

definition ctx_mechanism :: "'x gss_env_scheme \<Rightarrow> gss_OID option \<Rightarrow> gss_error + gss_OID option \<times> u32 \<times> nat" where
  "ctx_mechanism G mech =
     (case mech of
        None \<Rightarrow> Inr (None, ENCTYPE_NULL, 0)
      | Some _ \<Rightarrow>
          bail (gssBidCanonicalizeOid G (gssBidDefaultMech G) mech (OID_FLAG_NULL_VALID OR OID_FLAG_MAP_NULL_TO_DEFAULT_MECH)) (\<lambda>oid.
          bail (gssBidOidToEnctype G (case oid of Some o' \<Rightarrow> o' | None \<Rightarrow> [])) (\<lambda>enctype.
          if enctype = ENCTYPE_NULL then Inr (oid, enctype, 0)
          else bail (gssBidRfc3961KeySize G enctype) (\<lambda>cbKey. Inr (oid, enctype, cbKey)))))"

definition context_params :: "bool \<Rightarrow> u32 \<Rightarrow> u32" where
  "context_params isInitiator enctype =
     or_flag (enctype \<noteq> ENCTYPE_NULL) BID_CONTEXT_ECDH_KEYEX (BID_CONTEXT_GSS OR BID_CONTEXT_REAUTH) OR
     (if isInitiator then BID_CONTEXT_USER_AGENT OR BID_CONTEXT_TICKET_CACHE
      else BID_CONTEXT_RP OR BID_CONTEXT_AUTHORITY_CACHE OR BID_CONTEXT_REPLAY_CACHE)"

definition gssBidAllocContext ::
  "'x gss_env_scheme \<Rightarrow> 'd cache_system \<Rightarrow> bool \<Rightarrow> gss_OID option \<Rightarrow> 'd cache_heap \<Rightarrow> (gss_error + gss_ctx) \<times> 'd cache_heap" where
  "gssBidAllocContext G sys isInitiator mech heap =
     bailS (ctx_mechanism G mech, heap) (\<lambda>(oid, enctype, cbKey) heap.
     (case BIDAcquireContext sys (Some (GSSBID_CONFIG_FILE G)) (context_params isInitiator enctype) None heap of
        (Inl e, heap) \<Rightarrow> (Inl (gssBidMapError G e), heap)
      | (Inr context, heap) \<Rightarrow>
          let szCurve = (if 32 \<le> cbKey then ''P-521'' else if 24 \<le> cbKey then ''P-384'' else ''P-256'') in
          (case (if enctype = ENCTYPE_NULL then (Inr (), context, heap)
                 else BIDSetContextParam sys BID_PARAM_ECDH_CURVE (PString (Some szCurve)) (context, heap)) of
             (Inl e, context, heap) \<Rightarrow> (Inl (gssBidMapError G e), snd (BIDReleaseContext (Some context) heap))
           | (Inr _, context, heap) \<Rightarrow>
               (Inr ((new_gss_ctx isInitiator context)\<lparr>mechanismUsed := oid, encryptionType := enctype,
                  gssFlags := GSS_C_TRANS_FLAG OR GSS_C_REPLAY_FLAG OR
                    (if enctype = ENCTYPE_NULL then 0 else GSS_C_INTEG_FLAG OR GSS_C_CONF_FLAG OR GSS_C_SEQUENCE_FLAG)\<rparr>), heap))))"

definition gssBidReleaseContext :: "gss_ctx option \<Rightarrow> 'd cache_heap \<Rightarrow> 'd cache_heap" where
  "gssBidReleaseContext ctx heap =
     (case ctx of
        None \<Rightarrow> heap
      | Some ctx \<Rightarrow> gssBidReleaseCred (ctx_cred ctx) (snd (BIDReleaseContext (Some (bidContext ctx)) heap)))"

section \<open>Readiness and lifetime\<close>

definition gssBidContextTime :: "int \<Rightarrow> gss_ctx \<Rightarrow> OM_uint32 \<times> u32" where
  "gssBidContextTime now ctx =
     (if expiryTime ctx = 0 then (GSS_S_COMPLETE, GSS_C_INDEFINITE)
      else let lifetime = expiryTime ctx - now in
        if lifetime \<le> 0 then (GSS_S_CONTEXT_EXPIRED, 0) else (GSS_S_COMPLETE, of_int lifetime))"

text \<open>The key of the context, from that of the identity.  A checksum type that is refused is still stored in the
  context, which its callers give up; that is not modelled.\<close>

definition context_key ::
  "'x gss_env_scheme \<Rightarrow> 'y crypto_env_scheme \<Rightarrow> BIDIdentityDesc \<Rightarrow> gss_ctx \<Rightarrow> (gss_error + unit) \<times> gss_ctx" where
  "context_key G env identity ctx =
     (if encryptionType ctx = ENCTYPE_NULL then (Inr (), ctx)
      else case BIDIdentityDeriveKey env (bidContext ctx) identity (Some (bytes_of_string ''CRK'')) of
        (Inl e, identity) \<Rightarrow> (Inl (gssBidMapError G e), ctx\<lparr>bidIdentity := Some identity\<rparr>)
      | (Inr pbSessionKey, identity) \<Rightarrow>
          let ctx = ctx\<lparr>bidIdentity := Some identity\<rparr> in
          bailS (gssBidDeriveRfc3961Key G pbSessionKey (encryptionType ctx), ctx\<lparr>rfc3961Key := None\<rparr>) (\<lambda>key ctx.
          bailS (rfc3961ChecksumTypeForKey G (encryptionType ctx, key), ctx\<lparr>rfc3961Key := Some key\<rparr>) (\<lambda>cksum ctx.
            (Inr (), ctx\<lparr>checksumType := cksum\<rparr>))))"

text \<open>The subject as a name; importing a name of these two types never reads outside the buffer.\<close>

definition import_subject :: "'x name_env_scheme \<Rightarrow> string \<Rightarrow> bool \<Rightarrow> gss_OID option \<Rightarrow> gss_error + gss_name" where
  "import_subject G szSubject anon mech =
     the (gssBidImportName G (bytes_of_string szSubject) (Some (if anon then GSS_C_NT_ANONYMOUS else GSS_C_NT_USER_NAME)) mech)"

definition gssBidContextReady ::
  "'x gss_env_scheme \<Rightarrow> 'y crypto_env_scheme \<Rightarrow> int \<Rightarrow> BIDIdentityDesc \<Rightarrow> gss_ctx \<Rightarrow> (gss_error + unit) \<times> gss_ctx" where
  "gssBidContextReady G env now identity ctx =
     (let ctx = ctx\<lparr>initiatorName := None\<rparr> in
      bailS (map_sum (gssBidMapError G) id (BIDGetIdentitySubject identity), ctx) (\<lambda>szSubject ctx.
      let ctx = (if szSubject = [] then ctx\<lparr>gssFlags := gssFlags ctx OR GSS_C_ANON_FLAG\<rparr> else ctx) in
      bailS (import_subject G szSubject (flag_set (gssFlags ctx) GSS_C_ANON_FLAG) (mechanismUsed ctx), ctx) (\<lambda>name ctx.
      bailS (context_key G env identity (ctx\<lparr>initiatorName := Some name\<rparr>)) (\<lambda>_ ctx.
      let ctx = ctx\<lparr>seqState := Some (sequenceInit (recvSeq ctx) (flag_set (gssFlags ctx) GSS_C_REPLAY_FLAG)
                 (flag_set (gssFlags ctx) GSS_C_SEQUENCE_FLAG) True)\<rparr> in
      bailS (if flag_set (ctx_flags ctx) CTX_FLAG_INITIATOR then (Inr (), ctx)
             else case gssBidCreateAttrContext G identity of
                    Inl e \<Rightarrow> (Inl e, ctx)
                  | Inr (attrs, t) \<Rightarrow>
                      (Inr (), ctx\<lparr>initiatorName := map_option (attrCtx_update (\<lambda>_. Some attrs)) (initiatorName ctx), expiryTime := t\<rparr>)) (\<lambda>_ ctx.
      (guard (expiryTime ctx \<noteq> 0 \<and> expiryTime ctx < now) (GSS_S_CREDENTIALS_EXPIRED, bidg G GSSBID_CRED_EXPIRED), ctx))))))"

section \<open>Lemmas\<close>

text \<open>The steps change the secret and the private attributes of an identity, never its attributes.\<close>

lemma secret_agreement_attributes [simp]: "Attributes (snd (BIDIdentitySecretAgreement env context i)) = Attributes i"
  by (simp add: BIDIdentitySecretAgreement_def Let_def split: sum.splits)

lemma derive_key_attributes [simp]: "Attributes (snd (BIDIdentityDeriveKey env context i salt)) = Attributes i"
  by (simp add: BIDIdentityDeriveKey_def bailS_def split: sum.splits prod.splits)

lemma xrt_key_attributes [simp]: "Attributes (snd (BIDDeriveXRTKey env context i)) = Attributes i"
  by (simp add: BIDDeriveXRTKey_def bailS_def split: sum.splits prod.splits)

text \<open>What the steps keep of a context: libbrowserid's context, the encryption type, the state and flags, and the attributes
  of the identity.\<close>

definition same_session :: "gss_ctx \<Rightarrow> gss_ctx \<Rightarrow> bool" where
  "same_session ctx ctx' \<longleftrightarrow>
     bidContext ctx' = bidContext ctx \<and> encryptionType ctx' = encryptionType ctx \<and> sm_state ctx' = sm_state ctx \<and>
     ctx_flags ctx' = ctx_flags ctx \<and>
     map_option Attributes (bidIdentity ctx') = map_option Attributes (bidIdentity ctx)"

lemma same_session_refl [simp]: "same_session ctx ctx"
  by (simp add: same_session_def)

lemma same_session_trans: "same_session a b \<Longrightarrow> same_session b c \<Longrightarrow> same_session a c"
  by (simp add: same_session_def)

lemma same_session_update [simp]:
  "same_session ctx (c\<lparr>initiatorName := n\<rparr>) = same_session ctx c" "same_session ctx (c\<lparr>acceptorName := n\<rparr>) = same_session ctx c"
  "same_session ctx (c\<lparr>gssFlags := f\<rparr>) = same_session ctx c" "same_session ctx (c\<lparr>seqState := q\<rparr>) = same_session ctx c"
  "same_session ctx (c\<lparr>expiryTime := t\<rparr>) = same_session ctx c" "same_session ctx (c\<lparr>ctx_cred := d\<rparr>) = same_session ctx c"
  by (simp_all add: same_session_def)

lemma bailS_keeps: "P (snd m) \<Longrightarrow> (\<And>x. P (snd (f x (snd m)))) \<Longrightarrow> P (snd (bailS m f))"
  by (simp add: bailS_def split: sum.split)

lemma context_key_keeps: "bidIdentity ctx = Some i \<Longrightarrow> same_session ctx (snd (context_key G env i ctx))"
  by (auto simp: context_key_def same_session_def bailS_def Let_def split: sum.splits prod.splits)
    (metis derive_key_attributes snd_conv)+

lemma context_ready_keeps:
  assumes "bidIdentity ctx = Some i"
  shows "same_session ctx (snd (gssBidContextReady G env now i ctx))"
proof -
  have key: "same_session ctx (snd (context_key G env i c))" if "same_session ctx c" "bidIdentity c = Some i" for c
    using same_session_trans[OF that(1) context_key_keeps[OF that(2)]] .
  show ?thesis
    unfolding gssBidContextReady_def Let_def
    by (rule bailS_keeps, simp, rule bailS_keeps, simp, rule bailS_keeps)
      (use assms key in \<open>auto intro!: bailS_keeps[where P = "same_session ctx"] split: sum.split prod.split\<close>)
qed

text \<open>A context of a concrete user becomes ready.\<close>

definition sample_gss_env :: gss_env where
  "sample_gss_env = cred_env.extend sample_cred_env (gss_env.fields (\<lambda>_. Inr (16, 16))
     (\<lambda>_ b n. Inr (take n (b @ replicate n 0))) (\<lambda>_. Inr 16) (\<lambda>_. True) (\<lambda>_. Inr (JNull, 0)))"

lemma sample_ready:
  assumes "BIDGetIdentitySubject i = Inr ''a@b.org''" "sm_state ctx = GSSBID_STATE_INITIAL" "ctx_flags ctx = 0"
    "encryptionType ctx = ENCTYPE_NULL" "gssFlags ctx = 0" "mechanismUsed ctx = None"
  obtains ctx' where "gssBidContextReady sample_gss_env env now i ctx = (Inr (), ctx')" "bidIdentity ctx' = bidIdentity ctx"
    "expiryTime ctx' = 0" "encryptionType ctx' = ENCTYPE_NULL"
proof -
  have "c_string (bytes_of_string ''a@b.org'') = ''a@b.org''" by (rule c_string_bytes_of_string) simp
  then obtain name where "import_subject sample_gss_env ''a@b.org'' False None = Inr name"
    by (simp add: import_subject_def gssBidImportName_def nameTypes_def importUserName_def importBidNameFlags_def sample_gss_env_def GSS_C_NT_BROWSERID_PRINCIPAL_def
        sample_cred_env_def sample_name_env_def name_env.defs cred_env.defs gss_env.defs Let_def)
  then have "fst (gssBidContextReady sample_gss_env env now i ctx) = Inr ()"
    "bidIdentity (snd (gssBidContextReady sample_gss_env env now i ctx)) = bidIdentity ctx"
    "expiryTime (snd (gssBidContextReady sample_gss_env env now i ctx)) = 0"
    "encryptionType (snd (gssBidContextReady sample_gss_env env now i ctx)) = ENCTYPE_NULL"
    using assms by (simp_all add: gssBidContextReady_def context_key_def flag_set_def guard_def)
      (simp_all add: sample_gss_env_def cred_env.defs gss_env.defs)
  then show ?thesis by (metis that prod.collapse)
qed

end
