(* ===== verification/Accept.thy ===== *)
theory Accept
  imports Mech
begin

text \<open>
  The acceptor of a security context, \<^verbatim>\<open>mech_browserid/accept_sec_context.c\<close>: a state machine
  that verifies an assertion, answers with a response token, and may ask for a fresh assertion or
  for one more token.  Undefined behaviour is \<open>None\<close>.
\<close>

section \<open>The response token\<close>

definition response_claims :: "int \<Rightarrow> int \<Rightarrow> OM_uint32 \<Rightarrow> OM_uint32 \<Rightarrow> json" where
  "response_claims nowms expiry protocolMajor protocolMinor =
     (let set_new = (\<lambda>j k v. case json_object_set j k v of Some j' \<Rightarrow> j' | None \<Rightarrow> j);
          response = JObject [];
          response = (if expiry = 0 then response
                      else case BIDSetJsonTimestampValue response ''exp'' expiry of Inr r \<Rightarrow> r | Inl _ \<Rightarrow> response);
          response = (if GSS_ERROR protocolMajor then set_new response ''gss-maj'' (JInteger (uint protocolMajor)) else response)
      in if protocolMinor = 0 then response
         else set_new (set_new response ''iat'' (JInteger nowms)) ''gss-min'' (JInteger (uint protocolMinor)))"

definition makeResponseToken ::
  "'x gss_tables_scheme \<Rightarrow> 'y crypto_env_scheme \<Rightarrow> int \<Rightarrow> OM_uint32 \<Rightarrow> OM_uint32 \<Rightarrow> gss_ctx \<Rightarrow> 'd cache_heap \<Rightarrow>
    (gss_error + string) \<times> gss_ctx" where
  "makeResponseToken G env nowms protocolMajor protocolMinor ctx heap =
     (let response = response_claims nowms (expiryTime ctx) protocolMajor protocolMinor;
          ulReqFlags = or_flag (\<not> flag_set (ctx_flags ctx) CTX_FLAG_REAUTH) BID_RP_FLAG_INITIAL
            (or_flag (encryptionType ctx \<noteq> ENCTYPE_NULL \<and> bidIdentity ctx \<noteq> None) BID_RP_FLAG_HAVE_SESSION_KEY 0);
          (r, ulRetFlags, identity) = BIDMakeRPResponseToken env (bidContext ctx) (bidIdentity ctx) (Some response) ulReqFlags heap;
          ctx = ctx\<lparr>bidIdentity := identity\<rparr>
      in case r of
           Inl e \<Rightarrow> (Inl (gssBidMapError G e), ctx)
         | Inr s \<Rightarrow> (Inr s, ctx\<lparr>gssFlags := or_flag (flag_set ulRetFlags BID_RP_FLAG_X509) GSS_C_MUTUAL_FLAG (gssFlags ctx)\<rparr>))"

section \<open>One token\<close>

text \<open>An assertion, in the first two states.\<close>

definition accept_assertion ::
  "'x gss_tables_scheme \<Rightarrow> 'y bid_env_scheme \<Rightarrow> int \<Rightarrow> gss_cred \<Rightarrow> string option \<Rightarrow> string \<Rightarrow> byte list option \<Rightarrow> gss_ctx \<Rightarrow> 'd cache_heap \<Rightarrow>
    (OM_uint32 \<times> OM_uint32) \<times> gss_ctx \<times> 'd cache_heap" where
  "accept_assertion G env now cred audience szAssertion cb ctx heap =
     (let (r, identity, ulBidFlags, heap) =
            BIDVerifyAssertion env now (bidContext ctx) (bidReplayCache cred) (Some szAssertion) audience cb now
              (if sm_state ctx = GSSBID_STATE_RETRY_INITIAL then 0 else BID_VERIFY_FLAG_REAUTH) heap;
          ctx = ctx\<lparr>bidIdentity := identity, expiryTime := (case r of Inr t \<Rightarrow> t | Inl _ \<Rightarrow> 0)\<rparr>;
          (major, minor) = (case r of Inl e \<Rightarrow> gssBidMapError G e | Inr _ \<Rightarrow> (GSS_S_COMPLETE, 0));
          recoverable = (r = Inl BID_S_INVALID_ASSERTION \<or> r = Inl BID_S_EXPIRED_ASSERTION \<or>
            \<not> flag_set (ContextOptions (bidContext ctx)) BID_CONTEXT_HOST_SPN_ALIAS \<and> r = Inl BID_S_BAD_AUDIENCE);
          reauth = flag_set ulBidFlags BID_VERIFY_FLAG_REAUTH;
          xrt = flag_set ulBidFlags BID_VERIFY_FLAG_EXTRA_ROUND_TRIP;
          (major, minor) = (if reauth \<and> recoverable then (GSS_S_CONTINUE_NEEDED, bidg G GSSBID_REAUTH_FAILED) else (major, minor));
          major = (if xrt then GSS_S_CONTINUE_NEEDED else major);
          ctx = ctx\<lparr>ctx_flags := or_flag xrt CTX_FLAG_EXTRA_ROUND_TRIP (or_flag (reauth \<and> \<not> recoverable) CTX_FLAG_REAUTH (ctx_flags ctx)),
                    gssFlags := or_flag (flag_set ulBidFlags BID_VERIFY_FLAG_IDENTIFY) GSS_C_IDENTIFY_FLAG
                      (or_flag (flag_set ulBidFlags BID_VERIFY_FLAG_DCE) GSS_C_DCE_STYLE
                      (or_flag (flag_set ulBidFlags BID_VERIFY_FLAG_REAUTH_MUTUAL \<and> flag_set ulBidFlags BID_VERIFY_FLAG_MUTUAL_AUTH)
                        GSS_C_MUTUAL_FLAG (gssFlags ctx)))\<rparr>
      in ((major, minor), ctx, heap))"

text \<open>The token of the extra round trip; it needs the identity of the assertion.\<close>

definition accept_xrt ::
  "'x gss_tables_scheme \<Rightarrow> 'y crypto_env_scheme \<Rightarrow> string \<Rightarrow> gss_ctx \<Rightarrow> ((OM_uint32 \<times> OM_uint32) \<times> gss_ctx) option" where
  "accept_xrt G env szAssertion ctx =
     map_option (\<lambda>identity.
       let (r, _, identity) = BIDVerifyXRTToken env (bidContext ctx) identity (Some szAssertion)
       in (case r of Inl e \<Rightarrow> gssBidMapError G e | Inr _ \<Rightarrow> (GSS_S_COMPLETE, 0), ctx\<lparr>bidIdentity := Some identity\<rparr>))
       (bidIdentity ctx)"

definition accept_ready ::
  "'x gss_env_scheme \<Rightarrow> 'y crypto_env_scheme \<Rightarrow> int \<Rightarrow> OM_uint32 \<times> OM_uint32 \<Rightarrow> gss_ctx \<Rightarrow> ((OM_uint32 \<times> OM_uint32) \<times> gss_ctx) option" where
  "accept_ready G env now st ctx =
     (if fst st \<noteq> GSS_S_COMPLETE then Some (st, ctx)
      else map_option (\<lambda>identity.
        let (r, ctx) = gssBidContextReady G env now identity ctx
        in (case r of Inl e \<Rightarrow> e | Inr _ \<Rightarrow> (GSS_S_COMPLETE, 0), ctx)) (bidIdentity ctx))"

definition accept_transition :: "OM_uint32 \<Rightarrow> gss_ctx \<Rightarrow> gss_ctx" where
  "accept_transition major ctx =
     ctx\<lparr>sm_state := (if major = GSS_S_CONTINUE_NEEDED
        then if flag_set (ctx_flags ctx) CTX_FLAG_EXTRA_ROUND_TRIP then GSSBID_STATE_EXTRA_ROUND_TRIP else GSSBID_STATE_RETRY_INITIAL
        else GSSBID_STATE_ESTABLISHED)\<rparr>"

text \<open>The answer, except in the extra round trip, and the next state.  \<^verbatim>\<open>makeResponseToken\<close> sets the
  minor code to 0 when it succeeds.\<close>

definition accept_finish ::
  "'x gss_env_scheme \<Rightarrow> 'y crypto_env_scheme \<Rightarrow> int \<Rightarrow> OM_uint32 \<times> OM_uint32 \<Rightarrow> gss_ctx \<Rightarrow> 'd cache_heap \<Rightarrow>
    (OM_uint32 \<times> OM_uint32) \<times> string option \<times> gss_ctx \<times> 'd cache_heap" where
  "accept_finish G env nowms st ctx heap =
     (if sm_state ctx = GSSBID_STATE_EXTRA_ROUND_TRIP then (st, None, accept_transition (fst st) ctx, heap)
      else case makeResponseToken G env nowms (fst st) (gssBidApiToWireError G (snd st)) ctx heap of
        (Inl e, ctx) \<Rightarrow> (e, None, ctx, heap)
      | (Inr s, ctx) \<Rightarrow>
          if GSS_ERROR (fst st) then ((fst st, 0), Some s, ctx, heap)
          else ((fst st, 0), Some s, accept_transition (fst st) ctx, heap))"

definition accept_cred ::
  "'x gss_env_scheme \<Rightarrow> 'd cache_system \<Rightarrow> gss_cred option \<Rightarrow> gss_ctx \<Rightarrow> 'd cache_heap \<Rightarrow> (gss_error + gss_cred) \<times> gss_ctx \<times> 'd cache_heap" where
  "accept_cred G sys cred ctx heap =
     (case cred of
        Some c \<Rightarrow> (Inr c, ctx, heap)
      | None \<Rightarrow>
          (case ctx_cred ctx of
             Some c \<Rightarrow> (Inr c, ctx, heap)
           | None \<Rightarrow>
               (case gssBidAcquireCred G sys None None GSS_C_ACCEPT heap of
                  (Inl e, heap) \<Rightarrow> (Inl e, ctx, heap)
                | (Inr c, heap) \<Rightarrow> (Inr c, ctx\<lparr>ctx_cred := Some c\<rparr>, heap))))"

text \<open>The name of the acceptor is that of the credential, and so is the audience.\<close>

definition accept_names :: "'x gss_env_scheme \<Rightarrow> gss_cred \<Rightarrow> gss_ctx \<Rightarrow> (gss_error + string option) \<times> gss_ctx" where
  "accept_names G cred ctx =
     (case cred_name cred of
        None \<Rightarrow> (Inr None, ctx)
      | Some name \<Rightarrow>
          bailS (if acceptorName ctx = None
                 then (case gssBidDuplicateName G (Some name) of
                         Inl e \<Rightarrow> (Inl e, ctx) | Inr name' \<Rightarrow> (Inr (), ctx\<lparr>acceptorName := Some name'\<rparr>))
                 else (Inr (), ctx)) (\<lambda>_ ctx.
            (map_sum id (\<lambda>(s, _). Some s) (gssBidDisplayName G (Some name)), ctx)))"

definition gssBidAcceptSecContext ::
  "'x gss_env_scheme \<Rightarrow> 'y bid_env_scheme \<Rightarrow> 'd cache_system \<Rightarrow> int \<Rightarrow> int \<Rightarrow> gss_cred option \<Rightarrow> byte list \<Rightarrow> byte list option \<Rightarrow>
    gss_ctx \<Rightarrow> 'd cache_heap \<Rightarrow> ((OM_uint32 \<times> OM_uint32) \<times> string option \<times> gss_ctx \<times> 'd cache_heap) option" where
  "gssBidAcceptSecContext G env sys now nowms cred input_token cb ctx heap =
     (case accept_cred G sys cred ctx heap of
        (Inl e, ctx, heap) \<Rightarrow> Some (e, None, ctx, heap)
      | (Inr cred, ctx, heap) \<Rightarrow>
          if sm_state ctx = GSSBID_STATE_ESTABLISHED
          then Some ((GSS_S_FAILURE, bidg G GSSBID_CONTEXT_ESTABLISHED), None, ctx, heap)
          else
            (case accept_names G cred ctx of
               (Inl e, ctx) \<Rightarrow> Some (e, None, ctx, heap)
             | (Inr audience, ctx) \<Rightarrow>
                 let szAssertion = c_string input_token;
                     verified = (case sm_state ctx of
                         GSSBID_STATE_INITIAL \<Rightarrow> Some (accept_assertion G env now cred audience szAssertion cb ctx heap)
                       | GSSBID_STATE_RETRY_INITIAL \<Rightarrow> Some (accept_assertion G env now cred audience szAssertion cb ctx heap)
                       | GSSBID_STATE_EXTRA_ROUND_TRIP \<Rightarrow> map_option (\<lambda>(st, ctx). (st, ctx, heap)) (accept_xrt G env szAssertion ctx)
                       | _ \<Rightarrow> None)
                 in case verified of
                      None \<Rightarrow> None
                    | Some (st, ctx, heap) \<Rightarrow>
                        map_option (\<lambda>(st, ctx). accept_finish G env nowms st ctx heap) (accept_ready G env now st ctx)))"

section \<open>The interface\<close>

text \<open>
  What the caller asks for: the mechanism, the name of the initiator, the time left.  The result is the
  codes and the name; an error in copying the name or of the lifetime replaces the major code only.
\<close>

definition accept_outputs ::
  "'x gss_env_scheme \<Rightarrow> int \<Rightarrow> bool \<Rightarrow> bool \<Rightarrow> bool \<Rightarrow> OM_uint32 \<times> OM_uint32 \<Rightarrow> gss_ctx \<Rightarrow> (OM_uint32 \<times> OM_uint32) \<times> gss_name option" where
  "accept_outputs G now want_mech want_name want_time st ctx =
     (case if want_mech then gssBidCanonicalizeOid G (gssBidDefaultMech G) (mechanismUsed ctx) 0 else Inr None of
        Inl e \<Rightarrow> (e, None)
      | Inr _ \<Rightarrow>
          if fst st \<noteq> GSS_S_COMPLETE then (st, None)
          else
            (case if want_name \<and> initiatorName ctx \<noteq> None then map_sum id Some (gssBidDuplicateName G (initiatorName ctx)) else Inr None of
               Inl (major, _) \<Rightarrow> ((major, snd st), None)
             | Inr name \<Rightarrow> ((if want_time then fst (gssBidContextTime now ctx) else GSS_S_COMPLETE, snd st), name)))"

text \<open>After an error the context is released and gone.\<close>

definition gss_accept_sec_context ::
  "'x gss_env_scheme \<Rightarrow> 'y bid_env_scheme \<Rightarrow> 'd cache_system \<Rightarrow> int \<Rightarrow> int \<Rightarrow> gss_cred option \<Rightarrow> byte list \<Rightarrow> byte list option \<Rightarrow>
    bool \<Rightarrow> bool \<Rightarrow> bool \<Rightarrow> gss_ctx option \<Rightarrow> 'd cache_heap \<Rightarrow>
    ((OM_uint32 \<times> OM_uint32) \<times> gss_name option \<times> byte list \<times> gss_ctx option \<times> 'd cache_heap) option" where
  "gss_accept_sec_context G env sys now nowms cred input_token cb want_mech want_name want_time handle heap =
     (if input_token = [] then Some ((GSS_S_DEFECTIVE_TOKEN, bidg G GSSBID_TOK_TRUNC), None, [], handle, heap)
      else
        let mech = (case handle of Some ctx \<Rightarrow> if sm_state ctx = GSSBID_STATE_INITIAL then None else mechanismUsed ctx | None \<Rightarrow> None);
            failed = (\<lambda>e ctx heap. Some (e, None, [], None, gssBidReleaseContext ctx heap))
        in case gssBidVerifyToken G input_token mech of
             None \<Rightarrow> None
           | Some (Inl e) \<Rightarrow> failed e handle heap
           | Some (Inr (actualTokenType, inner, mech)) \<Rightarrow>
               if actualTokenType \<noteq> TOK_TYPE_INITIATOR_CONTEXT
               then failed (GSS_S_DEFECTIVE_TOKEN, bidg G GSSBID_WRONG_TOK_ID) handle heap
               else
                 (case (case handle of Some ctx \<Rightarrow> (Inr ctx, heap) | None \<Rightarrow> gssBidAllocContext G sys False mech heap) of
                    (Inl e, heap) \<Rightarrow> failed e None heap
                  | (Inr ctx, heap) \<Rightarrow>
                      (case gssBidAcceptSecContext G env sys now nowms cred inner cb ctx heap of
                         None \<Rightarrow> None
                       | Some (st, output, ctx, heap) \<Rightarrow>
                           if GSS_ERROR (fst st) then failed st (Some ctx) heap
                           else
                             let token = (case output of None \<Rightarrow> []
                                   | Some s \<Rightarrow> gssBidMakeToken (mechanismUsed ctx) (bytes_of_string s) TOK_TYPE_ACCEPTOR_CONTEXT False);
                                 (st, name) = accept_outputs G now want_mech want_name want_time st ctx
                             in if GSS_ERROR (fst st) then Some (st, name, token, None, gssBidReleaseContext (Some ctx) heap)
                                else Some (st, name, token, Some ctx, heap))))"

section \<open>Lemmas\<close>

text \<open>What follows the verification of an assertion changes the secret and the private attributes of
  its identity, never the attributes.\<close>

lemma xrt_token_attributes: "BIDVerifyXRTToken env context i s = (r, p, i') \<Longrightarrow> Attributes i' = Attributes i"
  by (auto simp: BIDVerifyXRTToken_def bailS_def split: sum.splits)

lemma verifier_agreement_attributes: "BIDVerifierKeyAgreement env i = (r, i') \<Longrightarrow> Attributes i' = Attributes i"
  by (auto simp: BIDVerifierKeyAgreement_def split: sum.splits prod.splits)

lemma update_replay_attributes:
  "BIDUpdateReplayCache env now context rc i s t fl heap = (r, i', heap') \<Longrightarrow> Attributes i' = Attributes i"
  by (auto simp: BIDUpdateReplayCache_def split: sum.splits prod.splits if_splits dest!: replay_entry_attributes)

lemma nonces_attributes: "rp_nonces env i xrt x509 payload = (r, i') \<Longrightarrow> Attributes i' = Attributes i"
  by (auto simp: rp_nonces_def bailS_def split: sum.splits prod.splits if_splits)

text \<open>The option for an extra round trip is only reported with an identity.\<close>

lemma reauth_assertion_flags:
  "flag_set (snd (BIDVerifyReauthAssertion env context rc a t fl heap)) BID_VERIFY_FLAG_EXTRA_ROUND_TRIP \<Longrightarrow>
    flag_set fl BID_VERIFY_FLAG_EXTRA_ROUND_TRIP"
  by (auto simp: BIDVerifyReauthAssertion_def bailS_def Let_def bid_flag flag_set_def[of 1] flag_set_def[of 524288] split: sum.splits)

lemma credential_flags:
  "flag_set (snd (local_credential env context rc ba jwt t req cred anchors fl heap)) BID_VERIFY_FLAG_EXTRA_ROUND_TRIP \<Longrightarrow>
    flag_set fl BID_VERIFY_FLAG_EXTRA_ROUND_TRIP"
  by (auto simp: local_credential_def bailS_def bid_flag flag_set_def[of 131072] flag_set_def[of 262144] flag_set_def[of 393216]
      split: sum.splits option.splits if_splits prod.splits dest: reauth_assertion_flags)

lemma local_failure_flags:
  assumes "BIDVerifyLocal env now context rc ba aud subj cb t req cred anchors heap = (Inl e, fl, heap')"
  shows "\<not> flag_set fl BID_VERIFY_FLAG_EXTRA_ROUND_TRIP"
proof (cases "Assertion ba")
  case None
  with assms show ?thesis by (simp add: BIDVerifyLocal_def)
next
  case (Some jwt)
  let ?req = "if flag_set req BID_VERIFY_FLAG_REAUTH \<and> \<not> flag_set (ContextOptions context) BID_CONTEXT_REAUTH
              then req AND NOT BID_VERIFY_FLAG_REAUTH else req"
  let ?fl0 = "or_flag (flag_set ?req BID_VERIFY_FLAG_RP) BID_VERIFY_FLAG_RP 0"
  obtain r1 fl1 where c: "local_credential env context rc ba jwt t ?req cred anchors ?fl0 heap = (r1, fl1)"
    by (cases "local_credential env context rc ba jwt t ?req cred anchors ?fl0 heap") auto
  have "\<not> flag_set fl1 BID_VERIFY_FLAG_EXTRA_ROUND_TRIP"
    using credential_flags[of env "context" rc ba jwt t ?req cred anchors ?fl0 heap] c by (auto simp: bid_flag flag_set_def[of 65536])
  moreover have "fl = fl1 \<or> fl = or_flag (rCertificates ba \<noteq> []) BID_VERIFY_FLAG_VALIDATED_CERTS fl1"
    using assms c Some
    by (auto simp: BIDVerifyLocal_def local_finish_def Let_def bailS_def split: sum.splits prod.splits if_splits)
  ultimately show ?thesis by (auto simp: bid_flag flag_set_def[of 131072])
qed

lemma remote_flags:
  "BIDVerifyRemote env context ba aud subj cb req = (r, fl) \<Longrightarrow> \<not> flag_set fl BID_VERIFY_FLAG_EXTRA_ROUND_TRIP"
  by (auto simp: BIDVerifyRemote_def bailS_def Let_def flag_set_def split: sum.splits)

lemma verify_xrt_identity:
  assumes "BIDVerifyAssertion env now context rc s aud cb t req heap = (r, identity, fl, heap')"
    and "flag_set fl BID_VERIFY_FLAG_EXTRA_ROUND_TRIP"
  shows "identity \<noteq> None"
  using assms
  by (auto simp: BIDVerifyAssertion_def Let_def split: option.splits if_splits sum.splits prod.splits
      dest: local_failure_flags remote_flags)

lemma verify_ok_identity:
  "BIDVerifyAssertion env now context rc s aud cb t req heap = (Inr e, identity, fl, heap') \<Longrightarrow> identity \<noteq> None"
  by (auto simp: BIDVerifyAssertion_def Let_def split: option.splits if_splits sum.splits prod.splits)

text \<open>A mapped error is \<open>GSS_S_COMPLETE\<close> only for the code of success, and never asks to continue.\<close>

lemma map_major_codes: "fst (gssBidMapError T e) \<noteq> GSS_S_CONTINUE_NEEDED" "fst (gssBidMapError T e) = GSS_S_COMPLETE \<longleftrightarrow> e = BID_S_OK"
  by (auto simp: gssBidMapError_def map_major_def Let_def)

lemma nonces_identity [simp]: "Attributes (snd (rp_nonces env i xrt x509 payload)) = Attributes i"
  using nonces_attributes[of env i xrt x509 payload] by (cases "rp_nonces env i xrt x509 payload") simp

lemma subkey_identity [simp]: "Attributes (snd (BIDDeriveSessionSubkey env context i salt)) = Attributes i"
  using BIDDeriveSessionSubkey_attributes[of env "context" i salt] by (cases "BIDDeriveSessionSubkey env context i salt") simp

lemma response_identity:
  "BIDMakeRPResponseToken env context identity claims req heap = (r, fl, identity') \<Longrightarrow>
    map_option Attributes identity' = map_option Attributes identity"
  by (auto simp: BIDMakeRPResponseToken_def Let_def split: sum.splits prod.splits option.splits if_splits
      dest!: nonces_attributes BIDDeriveSessionSubkey_attributes)

lemma response_keeps: "same_session ctx (snd (makeResponseToken G env nowms major minor ctx heap))"
  by (auto simp: makeResponseToken_def same_session_def Let_def split: prod.splits sum.splits dest: response_identity)

lemma assertion_result:
  assumes "accept_assertion G env now cred aud s cb ctx heap = ((major, minor), ctx', heap')"
  obtains fl0 r identity fl where
    "BIDVerifyAssertion env now (bidContext ctx) (bidReplayCache cred) (Some s) aud cb now fl0 heap = (r, identity, fl, heap')"
    "bidIdentity ctx' = identity" "bidContext ctx' = bidContext ctx" "sm_state ctx' = sm_state ctx"
    "flag_set (ctx_flags ctx') CTX_FLAG_EXTRA_ROUND_TRIP \<longleftrightarrow>
      flag_set (ctx_flags ctx) CTX_FLAG_EXTRA_ROUND_TRIP \<or> flag_set fl BID_VERIFY_FLAG_EXTRA_ROUND_TRIP"
    "major = GSS_S_COMPLETE \<longrightarrow> \<not> flag_set fl BID_VERIFY_FLAG_EXTRA_ROUND_TRIP \<and> (r = Inl BID_S_OK \<or> (\<exists>t. r = Inr t))"
proof -
  let ?fl0 = "if sm_state ctx = GSSBID_STATE_RETRY_INITIAL then 0 else BID_VERIFY_FLAG_REAUTH"
  obtain r identity fl h where v: "BIDVerifyAssertion env now (bidContext ctx) (bidReplayCache cred) (Some s) aud cb now ?fl0 heap =
      (r, identity, fl, h)" by (rule prod_cases4)
  have "flag_set (or_flag x CTX_FLAG_EXTRA_ROUND_TRIP (or_flag y CTX_FLAG_REAUTH f)) CTX_FLAG_EXTRA_ROUND_TRIP \<longleftrightarrow>
      flag_set f CTX_FLAG_EXTRA_ROUND_TRIP \<or> x" for x y and f :: u32
    by (auto simp: bid_flag flag_set_def[of 2] flag_set_def[of 8])
  moreover let ?a = "accept_assertion G env now cred aud s cb ctx heap"
  have "snd (snd ?a) = h" "bidIdentity (fst (snd ?a)) = identity" "bidContext (fst (snd ?a)) = bidContext ctx"
    "sm_state (fst (snd ?a)) = sm_state ctx"
    "\<exists>y. ctx_flags (fst (snd ?a)) =
      or_flag (flag_set fl BID_VERIFY_FLAG_EXTRA_ROUND_TRIP) CTX_FLAG_EXTRA_ROUND_TRIP (or_flag y CTX_FLAG_REAUTH (ctx_flags ctx))"
    by (auto simp: accept_assertion_def v Let_def case_prod_beta)
  moreover have "fst (fst ?a) = GSS_S_COMPLETE \<Longrightarrow> \<not> flag_set fl BID_VERIFY_FLAG_EXTRA_ROUND_TRIP \<and> (r = Inl BID_S_OK \<or> (\<exists>t. r = Inr t))"
    using map_major_codes(2)[of G] by (cases r) (auto simp: accept_assertion_def v Let_def case_prod_beta split: if_splits)
  ultimately show ?thesis using assms v that by auto
qed

lemma xrt_result:
  assumes "accept_xrt G env s ctx = Some (st, ctx')"
  obtains identity r p i' where "bidIdentity ctx = Some identity" "BIDVerifyXRTToken env (bidContext ctx) identity (Some s) = (r, p, i')"
    "same_session ctx ctx'" "fst st = GSS_S_COMPLETE \<longrightarrow> r = Inl BID_S_OK \<or> r = Inr ()"
proof -
  from assms obtain identity where i: "bidIdentity ctx = Some identity" by (auto simp: accept_xrt_def)
  obtain r p i' where v: "BIDVerifyXRTToken env (bidContext ctx) identity (Some s) = (r, p, i')" by (rule prod_cases3)
  from xrt_token_attributes[OF v] have "same_session ctx (ctx\<lparr>bidIdentity := Some i'\<rparr>)" by (simp add: same_session_def i)
  with assms i v that map_major_codes(2)[of G] show ?thesis by (cases r) (auto simp: accept_xrt_def)
qed

lemma ready_result:
  assumes "accept_ready G env now st ctx = Some (st', ctx')"
  shows "same_session ctx ctx'" "fst st' = GSS_S_COMPLETE \<Longrightarrow> fst st = GSS_S_COMPLETE"
proof -
  have "same_session ctx c" if "bidIdentity ctx = Some i" "gssBidContextReady G env now i ctx = (r, c)" for i r c
    using context_ready_keeps[OF that(1), of G env now] that(2) by simp
  then show "same_session ctx ctx'"
    using assms by (auto simp: accept_ready_def case_prod_beta split: if_splits intro!: prod.collapse[symmetric])
  show "fst st' = GSS_S_COMPLETE \<Longrightarrow> fst st = GSS_S_COMPLETE"
    using assms by (auto simp: accept_ready_def split: if_splits)
qed

text \<open>What is left of the context at the end of a step that completes or continues.\<close>

lemma finish_result:
  assumes "accept_finish G env nowms st ctx heap = ((major, minor), out, ctx', heap')"
    and "major = GSS_S_CONTINUE_NEEDED \<or> major = GSS_S_COMPLETE \<and> sm_state ctx' = GSSBID_STATE_ESTABLISHED"
    and "sm_state ctx \<noteq> GSSBID_STATE_ESTABLISHED"
  obtains c where "same_session ctx c" "ctx' = accept_transition major c" "fst st = major"
proof (cases "sm_state ctx = GSSBID_STATE_EXTRA_ROUND_TRIP")
  case True
  with assms(1) have "st = (major, minor)" "ctx' = accept_transition major ctx" by (auto simp: accept_finish_def)
  with that[of ctx] show ?thesis by simp
next
  case False
  obtain r c where m: "makeResponseToken G env nowms (fst st) (gssBidApiToWireError G (snd st)) ctx heap = (r, c)" by fastforce
  then have c: "same_session ctx c" by (metis response_keeps snd_conv)
  from m have "\<And>e. r = Inl e \<Longrightarrow> fst e \<noteq> GSS_S_CONTINUE_NEEDED"
    using map_major_codes(1)[of G] by (auto simp: makeResponseToken_def Let_def split: sum.splits prod.splits)
  then show ?thesis
    using assms False m c by (intro that[of c])
      (auto simp: accept_finish_def same_session_def GSS_ERROR_def split: sum.splits if_splits)
qed

lemma cred_keeps: "accept_cred G sys cred ctx heap = (r, ctx', heap') \<Longrightarrow> same_session ctx ctx'"
  by (auto simp: accept_cred_def split: option.splits prod.splits sum.splits)

lemma names_keeps: "accept_names G cred ctx = (r, ctx') \<Longrightarrow> same_session ctx ctx'"
  by (auto simp: accept_names_def bailS_def split: option.splits if_splits sum.splits)

text \<open>One token: the context is as before, or the token was verified.\<close>

lemma accept_step_cases:
  assumes "gssBidAcceptSecContext G env sys now nowms cred token cb ctx heap = Some (st', out, ctx', heap')"
  obtains (kept) "same_session ctx ctx'"
  | (assertion) cred' aud c1 h1 st c2 h2 st2 c3 where "same_session ctx c1"
      "sm_state ctx = GSSBID_STATE_INITIAL \<or> sm_state ctx = GSSBID_STATE_RETRY_INITIAL"
      "accept_assertion G env now cred' aud (c_string token) cb c1 h1 = (st, c2, h2)"
      "accept_ready G env now st c2 = Some (st2, c3)" "accept_finish G env nowms st2 c3 h2 = (st', out, ctx', heap')"
  | (xrt) c1 h1 st c2 st2 c3 where "same_session ctx c1" "sm_state ctx = GSSBID_STATE_EXTRA_ROUND_TRIP"
      "accept_xrt G env (c_string token) c1 = Some (st, c2)"
      "accept_ready G env now st c2 = Some (st2, c3)" "accept_finish G env nowms st2 c3 h1 = (st', out, ctx', heap')"
proof -
  obtain r c1 h1 where c: "accept_cred G sys cred ctx heap = (r, c1, h1)" by (rule prod_cases3)
  note k1 = cred_keeps[OF c]
  show ?thesis
  proof (cases r)
    case (Inl e)
    with assms c k1 kept show ?thesis by (simp add: gssBidAcceptSecContext_def)
  next
    case (Inr cr)
    obtain n c2 where n: "accept_names G cr c1 = (n, c2)" by (rule prod.exhaust)
    note k2 = same_session_trans[OF k1 names_keeps[OF n]]
    then have st: "sm_state c2 = sm_state ctx" by (simp add: same_session_def)
    show ?thesis
    proof (cases "sm_state c1 = GSSBID_STATE_ESTABLISHED \<or> (\<exists>e. n = Inl e)")
      case True
      with assms c Inr n k1 k2 kept show ?thesis by (auto simp: gssBidAcceptSecContext_def split: if_splits)
    next
      case False
      then obtain aud where aud: "n = Inr aud" by (cases n) auto
      from assms c Inr n False show ?thesis
        by (cases "sm_state c2") (auto simp: gssBidAcceptSecContext_def aud Let_def st[symmetric]
          intro: assertion[OF k2] xrt[OF k2] split: option.splits prod.splits)
    qed
  qed
qed

section \<open>The acceptor over several tokens\<close>

text \<open>
  The tokens of a context while it asks to continue.  Between the steps the clock, the credential, the
  channel bindings of the caller and the caches may change in any way.
\<close>

inductive accept_run ::
  "'x gss_env_scheme \<Rightarrow> 'y bid_env_scheme \<Rightarrow> 'd cache_system \<Rightarrow> gss_ctx \<Rightarrow> string list \<Rightarrow> bool"
  for G env sys where
  accept_start: "sm_state ctx = GSSBID_STATE_INITIAL \<Longrightarrow> \<not> flag_set (ctx_flags ctx) CTX_FLAG_EXTRA_ROUND_TRIP \<Longrightarrow>
    accept_run G env sys ctx []"
| accept_step: "accept_run G env sys ctx tokens \<Longrightarrow>
    gssBidAcceptSecContext G env sys now nowms cred token cb ctx heap = Some ((GSS_S_CONTINUE_NEEDED, minor), out, ctx', heap') \<Longrightarrow>
    accept_run G env sys ctx' (tokens @ [c_string token])"

text \<open>The identity of a context is from the verification of an assertion, with these caches; \<open>flags\<close>
  are those the verification returned.\<close>

definition verified_token ::
  "'y bid_env_scheme \<Rightarrow> gss_ctx \<Rightarrow> string \<Rightarrow> 'd cache_heap \<Rightarrow> BIDError + int \<Rightarrow> u32 \<Rightarrow> bool" where
  "verified_token env ctx s heap r flags \<longleftrightarrow>
     (\<exists>now rc aud cb req identity heap'.
        BIDVerifyAssertion env now (bidContext ctx) rc (Some s) aud cb now req heap = (r, Some identity, flags, heap') \<and>
        map_option Attributes (bidIdentity ctx) = Some (Attributes identity))"

lemma verified_token_session: "same_session ctx ctx' \<Longrightarrow> verified_token env ctx' s heap r fl = verified_token env ctx s heap r fl"
  by (simp add: verified_token_def same_session_def)

lemma verified_token_transition [simp]: "verified_token env (accept_transition major ctx) s heap r fl = verified_token env ctx s heap r fl"
  by (simp add: verified_token_def accept_transition_def)

text \<open>What holds between the steps: in the extra round trip an assertion that asked for it was verified.\<close>

definition run_inv :: "'y bid_env_scheme \<Rightarrow> 'd cache_system \<Rightarrow> gss_ctx \<Rightarrow> string list \<Rightarrow> bool" where
  "run_inv env sys ctx tokens \<longleftrightarrow>
     (if sm_state ctx = GSSBID_STATE_EXTRA_ROUND_TRIP
      then \<exists>s \<in> set tokens. \<exists>(heap :: 'd cache_heap) r fl. verified_token env ctx s heap r fl \<and> flag_set fl BID_VERIFY_FLAG_EXTRA_ROUND_TRIP
      else \<not> flag_set (ctx_flags ctx) CTX_FLAG_EXTRA_ROUND_TRIP)"

lemma run_inv_session: "run_inv env sys ctx tokens \<Longrightarrow> same_session ctx ctx' \<Longrightarrow> run_inv env sys ctx' (tokens @ ts')"
  by (auto simp: run_inv_def verified_token_session) (auto simp: same_session_def)

lemma assertion_verified:
  fixes heap :: "'d cache_heap"
  assumes "same_session ctx c1" "\<not> flag_set (ctx_flags ctx) CTX_FLAG_EXTRA_ROUND_TRIP"
    and "accept_assertion G env now cred aud s cb c1 heap = ((major, minor), c2, heap')" "same_session c2 c3"
  obtains r fl where "flag_set (ctx_flags c3) CTX_FLAG_EXTRA_ROUND_TRIP \<longleftrightarrow> flag_set fl BID_VERIFY_FLAG_EXTRA_ROUND_TRIP"
    "flag_set fl BID_VERIFY_FLAG_EXTRA_ROUND_TRIP \<or> bidIdentity c3 \<noteq> None \<longrightarrow> verified_token env c3 s heap r fl"
    "major = GSS_S_COMPLETE \<longrightarrow> \<not> flag_set fl BID_VERIFY_FLAG_EXTRA_ROUND_TRIP \<and> (r = Inl BID_S_OK \<or> (\<exists>t. r = Inr t))"
proof -
  from assertion_result[OF assms(3)] obtain fl0 r identity fl where
    v: "BIDVerifyAssertion env now (bidContext c1) (bidReplayCache cred) (Some s) aud cb now fl0 heap = (r, identity, fl, heap')" and
    k: "bidIdentity c2 = identity" "bidContext c2 = bidContext c1" "sm_state c2 = sm_state c1"
      "flag_set (ctx_flags c2) CTX_FLAG_EXTRA_ROUND_TRIP \<longleftrightarrow>
        flag_set (ctx_flags c1) CTX_FLAG_EXTRA_ROUND_TRIP \<or> flag_set fl BID_VERIFY_FLAG_EXTRA_ROUND_TRIP" and
    m: "major = GSS_S_COMPLETE \<longrightarrow> \<not> flag_set fl BID_VERIFY_FLAG_EXTRA_ROUND_TRIP \<and> (r = Inl BID_S_OK \<or> (\<exists>t. r = Inr t))" .
  have "verified_token env c2 s heap r fl" if "identity \<noteq> None"
  proof -
    from that obtain j where j: "identity = Some j" by auto
    with k(1) have "map_option Attributes (bidIdentity c2) = Some (Attributes j)" by simp
    with v[unfolded j] show ?thesis unfolding verified_token_def k(2) by blast
  qed
  moreover have "ctx_flags c3 = ctx_flags c2" "bidIdentity c3 = None \<longleftrightarrow> bidIdentity c2 = None" "ctx_flags c1 = ctx_flags ctx"
    using assms(1,4) by (auto simp: same_session_def)
  ultimately show ?thesis
    using that[of fl r] m k assms(2) verify_xrt_identity[OF v] by (simp add: verified_token_session[OF assms(4)])
qed

lemma accept_step_inv:
  assumes "gssBidAcceptSecContext G env (sys :: 'd cache_system) now nowms cred token cb ctx heap =
      Some ((GSS_S_CONTINUE_NEEDED, minor), out, ctx', heap')"
    and inv: "run_inv env sys ctx tokens"
  shows "run_inv env sys ctx' (tokens @ [c_string token])"
  using assms(1)
proof (cases rule: accept_step_cases)
  case kept
  with inv run_inv_session show ?thesis by blast
next
  case (assertion cred' aud c1 h1 st c2 h2 st2 c3)
  note keep = ready_result(1)[OF assertion(4)]
  obtain maj mi where st: "st = (maj, mi)" by (rule prod.exhaust)
  from inv assertion(2) have x: "\<not> flag_set (ctx_flags ctx) CTX_FLAG_EXTRA_ROUND_TRIP" by (auto simp: run_inv_def)
  have "sm_state c2 = sm_state c1" by (rule assertion_result[OF assertion(3)[unfolded st]])
  then have "sm_state c3 \<noteq> GSSBID_STATE_ESTABLISHED" using assertion(1,2) keep by (auto simp: same_session_def)
  from finish_result[OF assertion(5) _ this] obtain c4 where
    c4: "same_session c3 c4" "ctx' = accept_transition GSS_S_CONTINUE_NEEDED c4" by auto
  from assertion_verified[OF assertion(1) x assertion(3)[unfolded st] same_session_trans[OF keep c4(1)]] obtain r fl where
    v: "flag_set (ctx_flags c4) CTX_FLAG_EXTRA_ROUND_TRIP \<longleftrightarrow> flag_set fl BID_VERIFY_FLAG_EXTRA_ROUND_TRIP"
    "flag_set fl BID_VERIFY_FLAG_EXTRA_ROUND_TRIP \<longrightarrow> verified_token env c4 (c_string token) h1 r fl" by blast
  then show ?thesis by (auto simp: run_inv_def c4(2)) (auto simp: accept_transition_def)
next
  case (xrt c1 h1 st c2 st2 c3)
  have k: "same_session c1 c2" by (rule xrt_result[OF xrt(3)])
  note keep = same_session_trans[OF xrt(1) same_session_trans[OF k ready_result(1)[OF xrt(4)]]]
  then have "sm_state c3 \<noteq> GSSBID_STATE_ESTABLISHED" using xrt(2) by (simp add: same_session_def)
  from finish_result[OF xrt(5) _ this] obtain c4 where
    c4: "same_session c3 c4" "ctx' = accept_transition GSS_S_CONTINUE_NEEDED c4" by auto
  from inv xrt(2) obtain s and heap :: "'d cache_heap" and r fl where
    "s \<in> set tokens" "verified_token env c4 s heap r fl" "flag_set fl BID_VERIFY_FLAG_EXTRA_ROUND_TRIP"
    unfolding run_inv_def verified_token_session[OF same_session_trans[OF keep c4(1)]] by auto
  then show ?thesis
    by (auto simp: run_inv_def c4(2)) (auto simp: accept_transition_def)
qed

lemma accept_run_inv: "accept_run G env sys ctx tokens \<Longrightarrow> run_inv env sys ctx tokens"
  by (induction rule: accept_run.induct) (simp add: run_inv_def, rule accept_step_inv)

section \<open>Properties\<close>


definition sample_acceptor :: gss_cred where
  "sample_acceptor =
     \<lparr>cred_flags = CRED_FLAG_ACCEPT, cred_name = None, cred_target = None, cred_assertion = None, mechanisms = None,
      cred_expiryTime = 0, cred_bidContext = rp_ctx, bidTicketCache = None, bidReplayCache = None\<rparr>"

lemma sample_finish:
  assumes "sm_state ctx = GSSBID_STATE_INITIAL" "bidContext ctx = rp_ctx" "bidIdentity ctx = Some i"
    and "json_object_get (Some (PrivateAttributes i)) ''opts'' = None" "expiryTime ctx = 0" "encryptionType ctx = ENCTYPE_NULL"
  obtains out ctx' where "accept_finish sample_gss_env verify_env 5 (GSS_S_COMPLETE, 0) ctx heap = ((GSS_S_COMPLETE, 0), Some out, ctx', heap)"
    "sm_state ctx' = GSSBID_STATE_ESTABLISHED"
proof -
  have o: "rp_proto_opts (Some i) = Inr 0" using assms(4) by (simp add: rp_proto_opts_def BIDParseProtocolOpts_def)
  have no: "rp_nonces verify_env i False False (JObject []) = (Inr (JObject []), i)" by (simp add: rp_nonces_def)
  have "BIDJsonObjectSet BIDAllocJsonObject ''alg'' (Some (JString ''none'')) (BID_JSON_FLAG_REQUIRED OR BID_JSON_FLAG_CONSUME_REF) =
      Inr none_header" by (simp add: BIDAllocJsonObject_def none_header_def)
  then obtain s a where p: "BIDPackBackedAssertion verify_env (bare_token (JObject [])) None None = Inr (s, a)"
    by (simp add: BIDPackBackedAssertion_def bare_token_def BIDMakeSignature_def BIDMakeSignatureData_def BIDEncodeJson_def
        BIDBase64UrlEncode_text)
  have e: "response_claims 5 0 0 m = (if m = 0 then JObject [] else response_claims 5 0 0 m)" for m
    by (simp add: response_claims_def GSS_ERROR_def)
  have "gssBidApiToWireError sample_gss_env 0 = 0"
    by (simp add: gssBidApiToWireError_def sample_gss_env_def sample_cred_env_def sample_name_env_def name_env.defs cred_env.defs
        gss_env.defs word_sle_eq)
  then show ?thesis
    using assms p o no e[of 0] by (intro that)
      (auto simp: accept_finish_def makeResponseToken_def BIDMakeRPResponseToken_def or_flag_def flag_set_def accept_transition_def
        GSS_ERROR_def Let_def)
qed


end
