(* ===== verification/Init.thy ===== *)
theory Init
  imports Mech
begin

text \<open>
  The initiator of a security context, \<^verbatim>\<open>mech_browserid/init_sec_context.c\<close>, and how it gets its assertion,
  \<^verbatim>\<open>gssBidResolveInitiatorCred\<close> of \<^verbatim>\<open>util_cred.c\<close>.  Undefined behaviour is \<open>None\<close>.  The loop of the initiator
  is a partial function: its outer \<open>None\<close> is a loop that never ends, its inner one undefined behaviour.
\<close>

section \<open>Resolving a credential\<close>

text \<open>The credential to resolve is a copy of the caller's, or a new one.\<close>

definition resolve_begin ::
  "'x cred_env_scheme \<Rightarrow> 'd cache_system \<Rightarrow> gss_cred option \<Rightarrow> 'd cache_heap \<Rightarrow> (gss_error + gss_cred) \<times> 'd cache_heap" where
  "resolve_begin G sys cred heap =
     (case cred of
        None \<Rightarrow> gssBidAcquireCred G sys None None GSS_C_INITIATE heap
      | Some cred \<Rightarrow>
          if \<not> flag_set (cred_flags cred) CRED_FLAG_INITIATE then (Inl (GSS_S_NO_CRED, bidg G GSSBID_CRED_USAGE_MISMATCH), heap)
          else gssBidDuplicateCred G sys cred heap)"

definition acquire_flags :: "u32 \<Rightarrow> u32 \<Rightarrow> u32 \<Rightarrow> u32" where
  "acquire_flags credFlags ctxFlags reqFlags =
     or_flag (flag_set reqFlags GSS_C_IDENTIFY_FLAG) BID_ACQUIRE_FLAG_IDENTIFY
     (or_flag (flag_set reqFlags GSS_C_DCE_STYLE) (BID_ACQUIRE_FLAG_EXTRA_ROUND_TRIP OR BID_ACQUIRE_FLAG_DCE)
     (or_flag (flag_set reqFlags GSS_C_MUTUAL_FLAG) BID_ACQUIRE_FLAG_MUTUAL_AUTH
     (or_flag (flag_set ctxFlags CTX_FLAG_REAUTH) BID_ACQUIRE_FLAG_NO_CACHED
     (or_flag (flag_set credFlags CRED_FLAG_CALLER_UI) BID_ACQUIRE_FLAG_NO_INTERACT 0))))"

text \<open>The assertion of a credential that has one, or a new one.\<close>

definition resolve_assertion ::
  "'x gss_env_scheme \<Rightarrow> 'y crypto_env_scheme \<Rightarrow> browser \<Rightarrow> int \<Rightarrow> gss_cred option \<Rightarrow> gss_name option \<Rightarrow> u32 \<Rightarrow> byte list option \<Rightarrow>
    gss_cred \<Rightarrow> gss_ctx \<Rightarrow> 'd cache_heap \<Rightarrow> (gss_error + BIDAcquireAssertionCompletionContextDesc) option" where
  "resolve_assertion G env ui nowms cred target reqFlags cb resolved ctx heap =
     (if flag_set (cred_flags resolved) CRED_FLAG_RESOLVED
      then Some (case BIDAcquireAssertionFromString env (bidContext ctx) (map_option c_string (cred_assertion resolved)) True of
             Inl e \<Rightarrow> Inl (gssBidMapError G e)
           | Inr (identity, expiry) \<Rightarrow>
               Inr \<lparr>cc_szAssertion = None, cc_identity = identity, cc_expiryTime = expiry, cc_ulRetFlags = 0\<rparr>)
      else
        let name_text = (\<lambda>n. case n of None \<Rightarrow> Inr None | Some _ \<Rightarrow> map_sum id (\<lambda>(s, _). Some s) (gssBidDisplayName G n))
        in case bail (name_text target) (\<lambda>aud. bail (name_text (cred_name resolved)) (\<lambda>subj. Inr (aud, subj))) of
             Inl e \<Rightarrow> Some (Inl e)
           | Inr (aud, subj) \<Rightarrow>
               map_option (map_sum (gssBidMapError G) id)
                 (BIDAcquireAssertion env ui nowms (bidContext ctx) (case cred of None \<Rightarrow> None | Some c \<Rightarrow> bidTicketCache c)
                   aud cb subj (acquire_flags (cred_flags resolved) (ctx_flags ctx) reqFlags) heap))"

text \<open>The identity of the assertion must have the name of the credential, if there is one.\<close>

definition resolve_finish ::
  "'x gss_env_scheme \<Rightarrow> BIDAcquireAssertionCompletionContextDesc \<Rightarrow> gss_cred \<Rightarrow> gss_ctx \<Rightarrow> ((gss_error + gss_cred) \<times> gss_ctx) option" where
  "resolve_finish G cc resolved ctx =
     (let fl = cc_ulRetFlags cc;
          ctx = ctx\<lparr>bidIdentity := cc_identity cc,
                    ctx_flags := or_flag (flag_set fl BID_ACQUIRE_FLAG_REAUTH) CTX_FLAG_REAUTH (ctx_flags ctx AND NOT CTX_FLAG_REAUTH),
                    gssFlags := or_flag (flag_set fl BID_ACQUIRE_FLAG_REAUTH_MUTUAL) GSS_C_MUTUAL_FLAG (gssFlags ctx AND NOT GSS_C_MUTUAL_FLAG)\<rparr>;
          resolved = resolved\<lparr>cred_expiryTime := cc_expiryTime cc\<rparr>;
          resolved = (case cc_szAssertion cc of None \<Rightarrow> resolved | Some s \<Rightarrow> resolved\<lparr>cred_assertion := Some (bytes_of_string s)\<rparr>)
      in map_option (\<lambda>identity.
           (bail (map_sum (gssBidMapError G) id (BIDGetIdentitySubject identity)) (\<lambda>subject.
            bail (import_subject G subject False None) (\<lambda>identityName.
            bail (case cred_name resolved of
                    None \<Rightarrow> Inr (resolved\<lparr>cred_name := Some identityName\<rparr>)
                  | Some name \<Rightarrow>
                      if gssBidCompareName G (Some name) (Some identityName) 0 then Inr resolved
                      else Inl (GSS_S_NO_CRED, bidg G GSSBID_BAD_INITIATOR_NAME)) (\<lambda>resolved.
            Inr (resolved\<lparr>cred_flags := cred_flags resolved OR CRED_FLAG_RESOLVED\<rparr>)))), ctx)) (cc_identity cc))"

text \<open>A caller that shows its own dialogs is asked to do so when reauthentication has failed.\<close>

definition gssBidResolveInitiatorCred ::
  "'x gss_env_scheme \<Rightarrow> 'y crypto_env_scheme \<Rightarrow> browser \<Rightarrow> 'd cache_system \<Rightarrow> int \<Rightarrow> gss_cred option \<Rightarrow> gss_name option \<Rightarrow> u32 \<Rightarrow>
    byte list option \<Rightarrow> gss_ctx \<Rightarrow> 'd cache_heap \<Rightarrow> ((gss_error + unit) \<times> gss_ctx \<times> 'd cache_heap) option" where
  "gssBidResolveInitiatorCred G env ui sys nowms cred target reqFlags cb ctx heap =
     (if ctx_cred ctx \<noteq> None then Some (Inr (), ctx, heap)
      else case resolve_begin G sys cred heap of
        (Inl e, heap) \<Rightarrow> Some (Inl e, ctx, heap)
      | (Inr resolved, heap) \<Rightarrow>
          let failed = (\<lambda>e ctx. (Inl e, ctx, gssBidReleaseCred (Some resolved) heap)) in
          if flag_set (cred_flags resolved) CRED_FLAG_CALLER_UI \<and> flag_set (ctx_flags ctx) CTX_FLAG_REAUTH
          then Some (failed (GSS_S_FAILURE OR GSS_S_PROMPTING_NEEDED, bidg G GSSBID_REAUTH_FAILED)
                 (ctx\<lparr>ctx_flags := ctx_flags ctx AND NOT CTX_FLAG_REAUTH, sm_state := GSSBID_STATE_RETRY_INITIAL\<rparr>))
          else
            (case resolve_assertion G env ui nowms cred target reqFlags cb resolved ctx heap of
               None \<Rightarrow> None
             | Some (Inl e) \<Rightarrow> Some (failed e ctx)
             | Some (Inr cc) \<Rightarrow>
                 map_option (\<lambda>(r, ctx). case r of Inl e \<Rightarrow> failed e ctx | Inr resolved \<Rightarrow> (Inr (), ctx\<lparr>ctx_cred := Some resolved\<rparr>, heap))
                   (resolve_finish G cc resolved ctx)))"

section \<open>The token with an assertion\<close>

definition initBegin ::
  "'x name_env_scheme \<Rightarrow> int \<Rightarrow> gss_cred \<Rightarrow> gss_name option \<Rightarrow> u32 \<Rightarrow> gss_ctx \<Rightarrow> (gss_error + unit) \<times> gss_ctx" where
  "initBegin G now cred target timeReq ctx =
     (let ctx = ctx\<lparr>expiryTime :=
            (if cred_expiryTime cred \<noteq> 0 then cred_expiryTime cred
             else if timeReq = 0 \<or> timeReq = GSS_C_INDEFINITE then 0
             else now + uint timeReq)\<rparr> in
      bailS (gssBidDuplicateName G (cred_name cred), ctx) (\<lambda>name ctx.
      bailS (case target of
               None \<Rightarrow> (Inr (), ctx\<lparr>initiatorName := Some name\<rparr>)
             | Some _ \<Rightarrow>
                 (case gssBidDuplicateName G target of
                    Inl e \<Rightarrow> (Inl e, ctx\<lparr>initiatorName := Some name\<rparr>)
                  | Inr t \<Rightarrow> (Inr (), ctx\<lparr>initiatorName := Some name, acceptorName := Some t\<rparr>))) (\<lambda>_ ctx.
      (guard (\<not> gssBidCredAvailable (Some cred) (mechanismUsed ctx)) (GSS_S_BAD_MECH, bidg G GSSBID_CRED_MECH_MISMATCH), ctx))))"

text \<open>\<open>cred\<close> is the resolved credential of the context.\<close>

definition gssBidInitAssertionToken ::
  "'x name_env_scheme \<Rightarrow> int \<Rightarrow> gss_cred \<Rightarrow> gss_name option \<Rightarrow> u32 \<Rightarrow> byte list \<Rightarrow> gss_ctx \<Rightarrow>
    (OM_uint32 \<times> OM_uint32) \<times> gss_ctx \<times> byte list option" where
  "gssBidInitAssertionToken G now cred target timeReq input_token ctx =
     (let initialContextToken = (sm_state ctx = GSSBID_STATE_INITIAL) in
      if input_token \<noteq> [] then ((GSS_S_DEFECTIVE_TOKEN, bidg G GSSBID_BAD_CONTEXT_TOKEN), ctx, None)
      else
        (case (if initialContextToken then initBegin G now cred target timeReq ctx else (Inr (), ctx)) of
           (Inl e, ctx) \<Rightarrow> (e, ctx, None)
         | (Inr _, ctx) \<Rightarrow>
             let assertion = (case cred_assertion cred of None \<Rightarrow> [] | Some a \<Rightarrow> a)
             in ((GSS_S_CONTINUE_NEEDED, 0),
                 ctx\<lparr>expiryTime := cred_expiryTime cred, sm_state := the (GSSBID_STATE_NEXT (sm_state ctx))\<rparr>,
                 Some (gssBidMakeToken (mechanismUsed ctx) assertion TOK_TYPE_INITIATOR_CONTEXT initialContextToken))))"

section \<open>The response\<close>

text \<open>A ticket in the response is stored under the name of the acceptor; an error of that is ignored.\<close>

definition init_ticket ::
  "'y crypto_env_scheme \<Rightarrow> int \<Rightarrow> gss_name option \<Rightarrow> json option \<Rightarrow> gss_ctx \<Rightarrow> 'd cache_heap \<Rightarrow> gss_ctx \<times> 'd cache_heap" where
  "init_ticket env now target response ctx heap =
     (case json_object_get response ''tkt'' of
        None \<Rightarrow> (ctx, heap)
      | Some tkt \<Rightarrow>
          if target = None then (ctx, heap)
          else
            let (_, identity, heap) = BIDStoreTicketInCache env now (bidContext ctx) (bidIdentity ctx) (Some tkt)
                  (or_flag (flag_set (gssFlags ctx) GSS_C_MUTUAL_FLAG) BID_TICKET_FLAG_MUTUAL_AUTH
                    (or_flag (flag_set (ctx_flags ctx) CTX_FLAG_REAUTH) BID_TICKET_FLAG_RENEWED 0)) heap
            in (ctx\<lparr>bidIdentity := identity\<rparr>, heap))"

text \<open>The token of the extra round trip.\<close>

definition init_xrt ::
  "'x gss_tables_scheme \<Rightarrow> 'y crypto_env_scheme \<Rightarrow> BIDIdentityDesc \<Rightarrow> gss_ctx \<Rightarrow> (gss_error + byte list) \<times> gss_ctx" where
  "init_xrt G env identity ctx =
     (let ctx = ctx\<lparr>ctx_flags := ctx_flags ctx OR CTX_FLAG_EXTRA_ROUND_TRIP\<rparr>;
          (r, identity) = BIDMakeXRTToken env (bidContext ctx) identity None
      in (case r of
            Inl e \<Rightarrow> Inl (gssBidMapError G e)
          | Inr s \<Rightarrow> Inr (gssBidMakeToken (mechanismUsed ctx) (bytes_of_string s) TOK_TYPE_INITIATOR_CONTEXT False),
          ctx\<lparr>bidIdentity := Some identity\<rparr>))"

text \<open>What follows the verification of the response; \<open>flags\<close> are those it returned.\<close>

definition init_accepted ::
  "'x gss_env_scheme \<Rightarrow> 'y crypto_env_scheme \<Rightarrow> int \<Rightarrow> gss_name option \<Rightarrow> json option \<Rightarrow> u32 \<Rightarrow> gss_ctx \<Rightarrow> 'd cache_heap \<Rightarrow>
    ((OM_uint32 \<times> OM_uint32) \<times> gss_ctx \<times> byte list option \<times> 'd cache_heap) option" where
  "init_accepted G env now target response flags ctx heap =
     (let ctx = (if flag_set (ctx_flags ctx) CTX_FLAG_REAUTH then ctx
                 else ctx\<lparr>gssFlags := or_flag (flag_set flags BID_RP_FLAG_VALIDATED_CERTS) GSS_C_MUTUAL_FLAG
                            (gssFlags ctx AND NOT GSS_C_MUTUAL_FLAG)\<rparr>);
          ctx = ctx\<lparr>expiryTime := timestamp_or_zero (BIDGetJsonTimestampValue response ''exp'')\<rparr>;
          (ctx, heap) = init_ticket env now target response ctx heap
      in case bidIdentity ctx of
           None \<Rightarrow> None
         | Some identity \<Rightarrow>
             Some (case (if flag_set flags BID_RP_FLAG_EXTRA_ROUND_TRIP
                         then let (r, ctx) = init_xrt G env identity ctx in (map_sum id Some r, ctx)
                         else (Inr None, ctx)) of
                (Inl e, ctx) \<Rightarrow> (e, ctx, None, heap)
              | (Inr out, ctx) \<Rightarrow>
                  (case gssBidContextReady G env now (case bidIdentity ctx of None \<Rightarrow> identity | Some i \<Rightarrow> i) ctx of
                     (Inl e, ctx) \<Rightarrow> (e, ctx, out, heap)
                   | (Inr _, ctx) \<Rightarrow> ((GSS_S_COMPLETE, 0), ctx\<lparr>sm_state := GSSBID_STATE_ESTABLISHED\<rparr>, out, heap))))"

text \<open>
  An error that the response reports ends the step, and it is read before the response is known to
  be verified.  An unsigned response is accepted where there is no key.
\<close>

definition init_verify ::
  "'x gss_env_scheme \<Rightarrow> 'y bid_env_scheme \<Rightarrow> int \<Rightarrow> gss_name option \<Rightarrow> string \<Rightarrow> string option \<Rightarrow> gss_ctx \<Rightarrow> 'd cache_heap \<Rightarrow>
    ((OM_uint32 \<times> OM_uint32) \<times> gss_ctx \<times> byte list option \<times> 'd cache_heap) option" where
  "init_verify G env now target szAssertion audience ctx heap =
     (case bidIdentity ctx of
        None \<Rightarrow> None
      | Some identity \<Rightarrow>
          let ulReqFlags = or_flag (\<not> flag_set (ctx_flags ctx) CTX_FLAG_REAUTH) BID_RP_FLAG_INITIAL
                (or_flag (encryptionType ctx \<noteq> ENCTYPE_NULL) BID_RP_FLAG_HAVE_SESSION_KEY 0);
              (err, response, ulRetFlags, identity, heap) =
                BIDVerifyRPResponseToken env now (bidContext ctx) identity (Some szAssertion) audience ulReqFlags heap;
              ctx = ctx\<lparr>bidIdentity := Some identity\<rparr>;
              major = word_of_int (json_integer_value (json_object_get response ''gss-maj''));
              minor = gssBidWireToApiError G (word_of_int (json_integer_value (json_object_get response ''gss-min'')))
          in if GSS_ERROR major \<or> minor \<noteq> 0 then Some ((major, minor), ctx, None, heap)
             else
               case (if err = Inl BID_S_MISSING_SIGNATURE \<and> encryptionType ctx = ENCTYPE_NULL then Inr () else err) of
                 Inl e \<Rightarrow> Some (gssBidMapError G e, ctx, None, heap)
               | Inr _ \<Rightarrow> init_accepted G env now target response ulRetFlags ctx heap)"

definition gssBidInitResponseToken ::
  "'x gss_env_scheme \<Rightarrow> 'y bid_env_scheme \<Rightarrow> int \<Rightarrow> gss_name option \<Rightarrow> byte list \<Rightarrow> gss_ctx \<Rightarrow> 'd cache_heap \<Rightarrow>
    ((OM_uint32 \<times> OM_uint32) \<times> gss_ctx \<times> byte list option \<times> 'd cache_heap) option" where
  "gssBidInitResponseToken G env now target input_token ctx heap =
     (if input_token = [] then Some ((GSS_S_DEFECTIVE_TOKEN, bidg G GSSBID_TOK_TRUNC), ctx, None, heap)
      else case gssBidVerifyToken G input_token (mechanismUsed ctx) of
        None \<Rightarrow> None
      | Some (Inl e) \<Rightarrow> Some (e, ctx, None, heap)
      | Some (Inr (actualTokenType, inner, mech)) \<Rightarrow>
          let ctx = ctx\<lparr>mechanismUsed := mech\<rparr> in
          if actualTokenType \<noteq> TOK_TYPE_ACCEPTOR_CONTEXT
          then Some ((GSS_S_DEFECTIVE_TOKEN, bidg G GSSBID_WRONG_TOK_ID), ctx, None, heap)
          else
            (case (case target of None \<Rightarrow> Inr None | Some _ \<Rightarrow> map_sum id (\<lambda>(s, _). Some s) (gssBidDisplayName G target)) of
               Inl e \<Rightarrow> Some (e, ctx, None, heap)
             | Inr audience \<Rightarrow> init_verify G env now target (c_string inner) audience ctx heap))"

section \<open>The loop\<close>

text \<open>
  One round, on the context, the input token and the caches: it goes on while the minor code is the one
  of a failed reauthentication.  (That code does not occur together with an output token.)
\<close>

definition init_retry ::
  "'x gss_env_scheme \<Rightarrow> 'y crypto_env_scheme \<Rightarrow> browser \<Rightarrow> 'd cache_system \<Rightarrow> int \<Rightarrow> gss_cred option \<Rightarrow> gss_name option \<Rightarrow> u32 \<Rightarrow>
    byte list option \<Rightarrow> gss_ctx \<Rightarrow> 'd cache_heap \<Rightarrow>
    (gss_ctx \<times> byte list \<times> 'd cache_heap + (OM_uint32 \<times> OM_uint32) \<times> byte list option \<times> gss_ctx \<times> 'd cache_heap) option" where
  "init_retry G env ui sys nowms cred target reqFlags cb ctx heap =
     (let heap = gssBidReleaseCred (ctx_cred ctx) heap;
          ctx = ctx\<lparr>ctx_cred := None, bidIdentity := None\<rparr>
      in case gssBidResolveInitiatorCred G env ui sys nowms cred target reqFlags cb ctx heap of
           None \<Rightarrow> None
         | Some (Inl e, ctx, heap) \<Rightarrow> if GSS_ERROR (fst e) then Some (Inr (e, None, ctx, heap)) else None
         | Some (Inr _, ctx, heap) \<Rightarrow> Some (Inl (ctx\<lparr>sm_state := GSSBID_STATE_RETRY_INITIAL\<rparr>, [], heap)))"

definition init_round ::
  "'x gss_env_scheme \<Rightarrow> 'y bid_env_scheme \<Rightarrow> browser \<Rightarrow> 'd cache_system \<Rightarrow> int \<Rightarrow> int \<Rightarrow> gss_cred option \<Rightarrow> gss_name option \<Rightarrow> u32 \<Rightarrow>
    u32 \<Rightarrow> byte list option \<Rightarrow> gss_ctx \<times> byte list \<times> 'd cache_heap \<Rightarrow>
    (gss_ctx \<times> byte list \<times> 'd cache_heap + (OM_uint32 \<times> OM_uint32) \<times> byte list option \<times> gss_ctx \<times> 'd cache_heap) option" where
  "init_round G env ui sys now nowms cred target reqFlags timeReq cb = (\<lambda>(ctx, input_token, heap).
     if sm_state ctx = GSSBID_STATE_INITIAL \<or> sm_state ctx = GSSBID_STATE_RETRY_INITIAL
     then map_option (\<lambda>resolved.
            let (st, ctx, out) = gssBidInitAssertionToken G now resolved target timeReq input_token ctx
            in if snd st = bidg G GSSBID_REAUTH_FAILED then Inl (ctx, input_token, heap) else Inr (st, out, ctx, heap)) (ctx_cred ctx)
     else if sm_state ctx = GSSBID_STATE_AUTHENTICATE \<or> sm_state ctx = GSSBID_STATE_RETRY_AUTHENTICATE
     then (case gssBidInitResponseToken G env now target input_token ctx heap of
             None \<Rightarrow> None
           | Some (st, ctx, out, heap) \<Rightarrow>
               if snd st \<noteq> bidg G GSSBID_REAUTH_FAILED then Some (Inr (st, out, ctx, heap))
               else if flag_set (ctx_flags ctx) CTX_FLAG_REAUTH \<and> sm_state ctx \<noteq> GSSBID_STATE_RETRY_AUTHENTICATE
               then init_retry G env ui sys nowms cred target reqFlags cb ctx heap
               else Some (Inl (ctx, input_token, heap)))
     else Some (Inr ((GSS_S_FAILURE, bidg G GSSBID_CONTEXT_ESTABLISHED), None, ctx, heap)))"

partial_function (option) run_rounds :: "('s \<Rightarrow> ('s + 'r) option) \<Rightarrow> 's \<Rightarrow> 'r option option" where
  "run_rounds step s =
     (case step s of
        None \<Rightarrow> Some None
      | Some (Inl s') \<Rightarrow> run_rounds step s'
      | Some (Inr r) \<Rightarrow> Some (Some r))"

definition gssBidInitSecContext ::
  "'x gss_env_scheme \<Rightarrow> 'y bid_env_scheme \<Rightarrow> browser \<Rightarrow> 'd cache_system \<Rightarrow> int \<Rightarrow> int \<Rightarrow> gss_cred option \<Rightarrow> gss_name option \<Rightarrow> u32 \<Rightarrow>
    u32 \<Rightarrow> byte list option \<Rightarrow> byte list \<Rightarrow> bool \<Rightarrow> gss_ctx \<Rightarrow> 'd cache_heap \<Rightarrow>
    ((OM_uint32 \<times> OM_uint32) \<times> byte list option \<times> gss_ctx \<times> 'd cache_heap) option option" where
  "gssBidInitSecContext G env ui sys now nowms cred target reqFlags timeReq cb input_token want_mech ctx heap =
     (case (if ctx_cred ctx \<noteq> None then Some (Inr (), ctx, heap)
            else gssBidResolveInitiatorCred G env ui sys nowms cred target reqFlags cb ctx heap) of
        None \<Rightarrow> Some None
      | Some (Inl e, ctx, heap) \<Rightarrow> if GSS_ERROR (fst e) then Some (Some (e, None, ctx, heap)) else Some None
      | Some (Inr _, ctx, heap) \<Rightarrow>
          map_option (map_option (\<lambda>(st, out, ctx, heap).
            if GSS_ERROR (fst st) \<or> \<not> want_mech then (st, out, ctx, heap)
            else case gssBidCanonicalizeOid G (gssBidDefaultMech G) (mechanismUsed ctx) 0 of
                   Inl e \<Rightarrow> (if GSS_ERROR (fst e) then e else st, out, ctx, heap)
                 | Inr _ \<Rightarrow> (st, out, ctx, heap)))
            (run_rounds (init_round G env ui sys now nowms cred target reqFlags timeReq cb) (ctx, input_token, heap)))"

text \<open>After an error the context is released and gone.\<close>

definition gss_init_sec_context ::
  "'x gss_env_scheme \<Rightarrow> 'y bid_env_scheme \<Rightarrow> browser \<Rightarrow> 'd cache_system \<Rightarrow> int \<Rightarrow> int \<Rightarrow> gss_cred option \<Rightarrow> gss_name option \<Rightarrow>
    gss_OID option \<Rightarrow> u32 \<Rightarrow> u32 \<Rightarrow> byte list option \<Rightarrow> byte list \<Rightarrow> bool \<Rightarrow> gss_ctx option \<Rightarrow> 'd cache_heap \<Rightarrow>
    ((OM_uint32 \<times> OM_uint32) \<times> byte list option \<times> gss_ctx option \<times> 'd cache_heap) option option" where
  "gss_init_sec_context G env ui sys now nowms cred target mech reqFlags timeReq cb input_token want_mech handle heap =
     (case (case handle of
              Some ctx \<Rightarrow> (Inr ctx, heap)
            | None \<Rightarrow>
                if input_token \<noteq> [] then (Inl (GSS_S_DEFECTIVE_TOKEN, bidg G GSSBID_WRONG_SIZE), heap)
                else gssBidAllocContext G sys True mech heap) of
        (Inl e, heap) \<Rightarrow> Some (Some (e, None, None, heap))
      | (Inr ctx, heap) \<Rightarrow>
          map_option (map_option (\<lambda>(st, out, ctx, heap).
            if GSS_ERROR (fst st) then (st, out, None, gssBidReleaseContext (Some ctx) heap) else (st, out, Some ctx, heap)))
            (gssBidInitSecContext G env ui sys now nowms cred target reqFlags timeReq cb input_token want_mech ctx heap))"

section \<open>Lemmas\<close>

lemma run_rounds_stop: "step s = Some (Inr r) \<Longrightarrow> run_rounds step s = Some (Some r)"
  by (subst run_rounds.simps) simp

lemma run_rounds_undefined: "step s = None \<Longrightarrow> run_rounds step s = Some None"
  by (subst run_rounds.simps) simp

lemma run_rounds_step: "step s = Some (Inl s') \<Longrightarrow> run_rounds step s = run_rounds step s'"
  by (subst run_rounds.simps) simp

text \<open>A loop whose rounds preserve an invariant and never stop has no result; a result comes from a
  round in a state that satisfies the invariants of the rounds.\<close>

lemma run_rounds_invariant:
  fixes step :: "'s \<Rightarrow> ('s + 'r) option"
  assumes "run_rounds step s = Some r" "P s" "\<And>s s'. P s \<Longrightarrow> step s = Some (Inl s') \<Longrightarrow> P s'"
  shows "\<exists>s. P s \<and> (case r of None \<Rightarrow> step s = None | Some x \<Rightarrow> step s = Some (Inr x))"
proof -
  let ?Q = "\<lambda>(step :: 's \<Rightarrow> ('s + 'r) option) s r. (\<forall>s s'. P s \<longrightarrow> step s = Some (Inl s') \<longrightarrow> P s') \<longrightarrow> P s \<longrightarrow>
    (\<exists>s. P s \<and> (case r of None \<Rightarrow> step s = None | Some x \<Rightarrow> step s = Some (Inr x)))"
  have "?Q step s r"
  proof (rule run_rounds.raw_induct[of ?Q, OF _ assms(1)])
    fix rec :: "('s \<Rightarrow> ('s + 'r) option) \<Rightarrow> 's \<Rightarrow> 'r option option" and step s y
    assume ih: "\<And>st b y. rec st b = Some y \<Longrightarrow> ?Q st b y"
      and eq: "(case step s of None \<Rightarrow> Some None | Some (Inl s') \<Rightarrow> rec step s' | Some (Inr r) \<Rightarrow> Some (Some r)) = Some y"
    show "?Q step s y"
    proof (intro impI)
      assume inv: "\<forall>s s'. P s \<longrightarrow> step s = Some (Inl s') \<longrightarrow> P s'" and p: "P s"
      show "\<exists>s. P s \<and> (case y of None \<Rightarrow> step s = None | Some x \<Rightarrow> step s = Some (Inr x))"
      proof (cases "\<exists>s'. step s = Some (Inl s')")
        case True
        then obtain s' where s': "step s = Some (Inl s')" by blast
        with eq have "rec step s' = Some y" by simp
        with ih inv p s' show ?thesis by blast
      next
        case False
        with eq p show ?thesis by (intro exI[of _ s]) (auto split: option.splits sum.splits)
      qed
    qed
  qed
  with assms(2,3) show ?thesis by blast
qed

lemma run_rounds_diverges:
  assumes "P s" "\<And>s. P s \<Longrightarrow> \<exists>s'. P s' \<and> step s = Some (Inl s')"
  shows "run_rounds step s = None"
proof (rule ccontr)
  assume "run_rounds step s \<noteq> None"
  then obtain r where "run_rounds step s = Some r" by auto
  from run_rounds_invariant[of step s r P, OF this assms(1)] assms(2) show False by (fastforce split: option.splits)
qed

text \<open>What the steps of the initiator keep: libbrowserid's context, the encryption type and the state.\<close>

definition same_machine :: "gss_ctx \<Rightarrow> gss_ctx \<Rightarrow> bool" where
  "same_machine ctx ctx' \<longleftrightarrow>
     bidContext ctx' = bidContext ctx \<and> encryptionType ctx' = encryptionType ctx \<and> sm_state ctx' = sm_state ctx"

lemma same_machine_trans: "same_machine a b \<Longrightarrow> same_machine b c \<Longrightarrow> same_machine a c"
  by (simp add: same_machine_def)

lemma same_machine_session: "same_session a b \<Longrightarrow> same_machine a b"
  by (simp add: same_machine_def same_session_def)

lemma ready_machine:
  assumes "gssBidContextReady G env now i ctx = (r, ctx')" "bidIdentity ctx = Some i"
  shows "same_machine ctx ctx'"
  using context_ready_keeps[OF assms(2), of G env now] assms(1) by (simp add: same_machine_session)

lemma ticket_machine: "same_machine ctx (fst (init_ticket env now target response ctx heap))"
  by (simp add: init_ticket_def same_machine_def Let_def split: option.split prod.split)

lemma xrt_machine:
  "init_xrt G env identity ctx = (r, ctx') \<Longrightarrow> same_machine ctx ctx' \<and> bidIdentity ctx' \<noteq> None"
  by (auto simp: init_xrt_def same_machine_def Let_def split: prod.splits)

lemma begin_machine: "same_machine ctx (snd (initBegin G now cred target timeReq ctx))"
  by (simp add: initBegin_def bailS_def same_machine_def Let_def split: sum.split option.split)

lemma assertion_machine:
  assumes "gssBidInitAssertionToken G now cred target timeReq input ctx = (st, ctx', out)"
  shows "bidContext ctx' = bidContext ctx" "encryptionType ctx' = encryptionType ctx"
    "sm_state ctx = GSSBID_STATE_INITIAL \<or> sm_state ctx = GSSBID_STATE_RETRY_INITIAL \<Longrightarrow> sm_state ctx' \<noteq> GSSBID_STATE_ESTABLISHED"
  using begin_machine[of ctx G now cred target timeReq] assms
  by (auto simp: gssBidInitAssertionToken_def same_machine_def Let_def split: if_splits prod.splits sum.splits)

lemma resolve_finish_machine: "resolve_finish G cc resolved ctx = Some (r, ctx') \<Longrightarrow> same_machine ctx ctx'"
  by (auto simp: resolve_finish_def same_machine_def Let_def)

lemma resolve_machine:
  assumes "gssBidResolveInitiatorCred G env ui sys nowms cred target reqFlags cb ctx heap = Some (r, ctx', heap')"
  shows "same_machine ctx ctx' \<or> same_machine (ctx\<lparr>sm_state := GSSBID_STATE_RETRY_INITIAL\<rparr>) ctx'"
proof (cases "ctx_cred ctx")
  case (Some c)
  with assms show ?thesis by (simp add: gssBidResolveInitiatorCred_def same_machine_def)
next
  case none: None
  obtain rb h where b: "resolve_begin G sys cred heap = (rb, h)" by (rule prod.exhaust)
  note [simp] = gssBidResolveInitiatorCred_def same_machine_def Let_def
  show ?thesis
  proof (cases rb)
    case (Inl e)
    with assms none b show ?thesis by simp
  next
    case (Inr resolved)
    note known = assms none b Inr
    show ?thesis
    proof (cases "flag_set (cred_flags resolved) CRED_FLAG_CALLER_UI \<and> flag_set (ctx_flags ctx) CTX_FLAG_REAUTH")
      case True
      with known show ?thesis by auto
    next
      case no_ui: False
      show ?thesis
      proof (cases "resolve_assertion G env ui nowms cred target reqFlags cb resolved ctx h")
        case None
        with known no_ui show ?thesis by simp
      next
        case (Some ra)
        show ?thesis
        proof (cases ra)
          case (Inl e)
          with known no_ui Some show ?thesis by simp
        next
          case (Inr cc)
          with known no_ui Some obtain rf c where f: "resolve_finish G cc resolved ctx = Some (rf, c)" by (cases "resolve_finish G cc resolved ctx") auto
          then have "same_machine ctx c" by (rule resolve_finish_machine)
          with known no_ui Some Inr f show ?thesis by (cases rf) auto
        qed
      qed
    qed
  qed
qed

lemma accepted_machine:
  assumes "init_accepted G env now target response fl ctx heap = Some (st, ctx', out, heap')"
  shows "same_machine ctx ctx' \<or> same_machine (ctx\<lparr>sm_state := GSSBID_STATE_ESTABLISHED\<rparr>) ctx'"
proof -
  let ?c0 = "(if flag_set (ctx_flags ctx) CTX_FLAG_REAUTH then ctx
      else ctx\<lparr>gssFlags := or_flag (flag_set fl BID_RP_FLAG_VALIDATED_CERTS) GSS_C_MUTUAL_FLAG (gssFlags ctx AND NOT GSS_C_MUTUAL_FLAG)\<rparr>)
      \<lparr>expiryTime := timestamp_or_zero (BIDGetJsonTimestampValue response ''exp'')\<rparr>"
  obtain c1 h1 where t: "init_ticket env now target response ?c0 heap = (c1, h1)" by (rule prod.exhaust)
  have "same_machine ctx ?c0" by (simp add: same_machine_def)
  with ticket_machine[of ?c0 env now target response heap] t have k1: "same_machine ctx c1" by (auto intro: same_machine_trans)
  from assms t obtain i where i: "bidIdentity c1 = Some i" by (auto simp: init_accepted_def Let_def split: option.splits prod.splits)
  obtain r c2 where x: "(if flag_set fl BID_RP_FLAG_EXTRA_ROUND_TRIP
      then let (r, ctx) = init_xrt G env i c1 in (map_sum id Some r, ctx) else (Inr None, c1)) = (r, c2)" by (rule prod.exhaust)
  then have "same_machine c1 c2" and j: "bidIdentity c2 \<noteq> None"
    using xrt_machine[of G env i c1] i by (auto simp: same_machine_def split: if_splits prod.splits)
  with k1 have k2: "same_machine ctx c2" by (blast intro: same_machine_trans)
  obtain i2 where i2: "bidIdentity c2 = Some i2" using j by auto
  obtain r3 c3 where y: "gssBidContextReady G env now i2 c2 = (r3, c3)" by (rule prod.exhaust)
  with k2 ready_machine[OF y i2] have "same_machine ctx c3" by (blast intro: same_machine_trans)
  with assms t i x i2 y k2 show ?thesis
    by (auto simp: init_accepted_def Let_def same_machine_def split: sum.splits)
qed

text \<open>The response of the acceptor was verified, or is unsigned where there is no key to sign with.\<close>

definition response_verified ::
  "'x gss_tables_scheme \<Rightarrow> 'y bid_env_scheme \<Rightarrow> int \<Rightarrow> BIDContextDesc \<Rightarrow> u32 \<Rightarrow> byte list \<Rightarrow> 'd cache_heap \<Rightarrow> bool" where
  "response_verified G env now context enctype token heap \<longleftrightarrow>
     (\<exists>used inner mech i audience req err response fl i' heap'.
        gssBidVerifyToken G token used = Some (Inr (TOK_TYPE_ACCEPTOR_CONTEXT, inner, mech)) \<and>
        BIDVerifyRPResponseToken env now context i (Some (c_string inner)) audience req heap = (err, response, fl, i', heap') \<and>
        (flag_set req BID_RP_FLAG_HAVE_SESSION_KEY \<longleftrightarrow> enctype \<noteq> ENCTYPE_NULL) \<and>
        (err = Inr () \<or> err = Inl BID_S_MISSING_SIGNATURE \<and> enctype = ENCTYPE_NULL) \<and>
        \<not> GSS_ERROR (word_of_int (json_integer_value (json_object_get response ''gss-maj''))))"

lemma response_established:
  assumes "gssBidInitResponseToken G env now target token ctx heap = Some (st, ctx', out, heap')"
  shows "same_machine ctx ctx' \<or>
    same_machine (ctx\<lparr>sm_state := GSSBID_STATE_ESTABLISHED\<rparr>) ctx' \<and> token \<noteq> [] \<and>
    response_verified G env now (bidContext ctx) (encryptionType ctx) token heap"
proof (cases "same_machine ctx ctx'")
  case False
  then have tok: "token \<noteq> []" using assms by (auto simp: gssBidInitResponseToken_def same_machine_def)
  with assms False obtain inner mech where
    v: "gssBidVerifyToken G token (mechanismUsed ctx) = Some (Inr (TOK_TYPE_ACCEPTOR_CONTEXT, inner, mech))"
    by (auto simp: gssBidInitResponseToken_def same_machine_def Let_def split: option.splits sum.splits if_splits)
  let ?ctx = "ctx\<lparr>mechanismUsed := mech\<rparr>"
  from assms False tok v obtain audience where
    iv: "init_verify G env now target (c_string inner) audience ?ctx heap = Some (st, ctx', out, heap')"
    by (auto simp: gssBidInitResponseToken_def same_machine_def Let_def split: option.splits sum.splits if_splits)
  then obtain i where i: "bidIdentity ctx = Some i" by (auto simp: init_verify_def split: option.splits)
  let ?req = "or_flag (\<not> flag_set (ctx_flags ctx) CTX_FLAG_REAUTH) BID_RP_FLAG_INITIAL
    (or_flag (encryptionType ctx \<noteq> ENCTYPE_NULL) BID_RP_FLAG_HAVE_SESSION_KEY 0)"
  obtain err response fl i' h where
    r: "BIDVerifyRPResponseToken env now (bidContext ctx) i (Some (c_string inner)) audience ?req heap = (err, response, fl, i', h)"
    by (rule prod_cases5)
  let ?ok = "err = Inr () \<or> err = Inl BID_S_MISSING_SIGNATURE \<and> encryptionType ctx = ENCTYPE_NULL"
  let ?maj = "word_of_int (json_integer_value (json_object_get response ''gss-maj'')) :: OM_uint32"
  have req: "flag_set ?req BID_RP_FLAG_HAVE_SESSION_KEY \<longleftrightarrow> encryptionType ctx \<noteq> ENCTYPE_NULL"
    by (auto simp: or_flag_def flag_set_def)
  show ?thesis
  proof (cases "?ok \<and> \<not> GSS_ERROR ?maj")
    case ok: True
    with iv i r False have "init_accepted G env now target response fl (?ctx\<lparr>bidIdentity := Some i'\<rparr>) h = Some (st, ctx', out, heap')"
      by (auto simp: init_verify_def same_machine_def Let_def split: if_splits)
    from accepted_machine[OF this] False have "same_machine (ctx\<lparr>sm_state := GSSBID_STATE_ESTABLISHED\<rparr>) ctx'"
      by (auto simp: same_machine_def)
    moreover have "response_verified G env now (bidContext ctx) (encryptionType ctx) token heap"
      unfolding response_verified_def using v r req ok by blast
    ultimately show ?thesis using tok by blast
  next
    case False
    with iv i r \<open>\<not> same_machine ctx ctx'\<close> show ?thesis
      by (auto simp: init_verify_def same_machine_def Let_def split: if_splits sum.splits)
  qed
qed simp

text \<open>The invariant of the loop; \<open>V\<close> is what an established context stands for.\<close>

definition loop_inv :: "BIDContextDesc \<Rightarrow> u32 \<Rightarrow> byte list \<Rightarrow> bool \<Rightarrow> gss_ctx \<times> byte list \<times> 'd cache_heap \<Rightarrow> bool" where
  "loop_inv context enctype token V s \<longleftrightarrow>
     (case s of (ctx, input, heap) \<Rightarrow>
        bidContext ctx = context \<and> encryptionType ctx = enctype \<and> (input = token \<or> input = []) \<and>
        (sm_state ctx = GSSBID_STATE_ESTABLISHED \<longrightarrow> V))"

lemma loop_inv_machine:
  "loop_inv context enctype token V (ctx, input, heap) \<Longrightarrow> same_machine ctx ctx' \<Longrightarrow> loop_inv context enctype token V (ctx', input, heap')"
  by (auto simp: loop_inv_def same_machine_def)

lemma retry_inv:
  assumes "init_retry G env ui sys nowms cred target reqFlags cb ctx heap = Some r"
    "loop_inv context enctype token V (ctx, input, heap)"
  shows "(case r of Inl s \<Rightarrow> loop_inv context enctype token V s
    | Inr (st, out, ctx', heap') \<Rightarrow> loop_inv context enctype token V (ctx', input, heap'))"
  using assms
  by (auto simp: init_retry_def loop_inv_def same_machine_def Let_def split: option.splits sum.splits if_splits dest!: resolve_machine)

lemma round_inv:
  fixes heap :: "'d cache_heap"
  assumes "init_round G env ui sys now nowms cred target reqFlags timeReq cb (ctx, input, heap) = Some r"
    and inv: "loop_inv context enctype token (\<exists>h :: 'd cache_heap. response_verified G env now context enctype token h) (ctx, input, heap)"
  shows "(case r of Inl s \<Rightarrow> loop_inv context enctype token (\<exists>h :: 'd cache_heap. response_verified G env now context enctype token h) s
    | Inr (st, out, ctx', heap') \<Rightarrow>
        loop_inv context enctype token (\<exists>h :: 'd cache_heap. response_verified G env now context enctype token h) (ctx', input, heap'))"
proof -
  let ?V = "\<exists>h :: 'd cache_heap. response_verified G env now context enctype token h"
  consider (assertion) "sm_state ctx = GSSBID_STATE_INITIAL \<or> sm_state ctx = GSSBID_STATE_RETRY_INITIAL"
    | (response) "sm_state ctx = GSSBID_STATE_AUTHENTICATE \<or> sm_state ctx = GSSBID_STATE_RETRY_AUTHENTICATE"
    | (ended) "sm_state ctx = GSSBID_STATE_EXTRA_ROUND_TRIP \<or> sm_state ctx = GSSBID_STATE_ESTABLISHED"
    by (cases "sm_state ctx") auto
  then show ?thesis
  proof cases
    case assertion
    with assms(1) obtain resolved where q: "ctx_cred ctx = Some resolved" by (auto simp: init_round_def)
    obtain st c out where a: "gssBidInitAssertionToken G now resolved target timeReq input ctx = (st, c, out)" by (rule prod_cases3)
    with assms(1) assertion q have r: "r = Inl (c, input, heap) \<or> r = Inr (st, out, c, heap)"
      by (auto simp: init_round_def split: if_splits)
    from assertion_machine[OF a] assertion inv have "loop_inv context enctype token ?V (c, input, heap)" by (auto simp: loop_inv_def)
    with r show ?thesis by (elim disjE) simp_all
  next
    case response
    with assms(1) obtain st c out h where t: "gssBidInitResponseToken G env now target input ctx heap = Some (st, c, out, h)"
      by (auto simp: init_round_def split: option.splits)
    from inv have e: "bidContext ctx = context" "encryptionType ctx = enctype" "input = token \<or> input = []"
      by (auto simp: loop_inv_def)
    have c: "loop_inv context enctype token ?V (c, input, h)"
      using response_established[OF t]
    proof (elim disjE conjE)
      assume "same_machine ctx c"
      with inv show ?thesis by (rule loop_inv_machine)
    next
      assume m: "same_machine (ctx\<lparr>sm_state := GSSBID_STATE_ESTABLISHED\<rparr>) c" and "input \<noteq> []"
        and "response_verified G env now (bidContext ctx) (encryptionType ctx) input heap"
      with e have "response_verified G env now context enctype token heap" by simp
      then have ?V ..
      with e m show ?thesis by (simp add: loop_inv_def same_machine_def)
    qed
    have "r = Inr (st, out, c, h) \<or> r = Inl (c, input, h) \<or>
        init_retry G env ui sys nowms cred target reqFlags cb c h = Some r"
      using response assms(1) t by (elim disjE) (simp_all add: init_round_def split: if_splits)
    with c retry_inv[of G env ui sys nowms cred target reqFlags cb c h r "context" enctype token ?V input] show ?thesis
      by (elim disjE) simp_all
  next
    case ended
    with assms(1) have "r = Inr ((GSS_S_FAILURE, bidg G GSSBID_CONTEXT_ESTABLISHED), None, ctx, heap)" by (auto simp: init_round_def)
    with inv show ?thesis by simp
  qed
qed

lemma rp_response_payload:
  assumes "BIDUnpackBackedAssertion env s = Inr ba"
  shows "fst (snd (BIDVerifyRPResponseToken env now context i s aud req heap)) = (case Assertion ba of None \<Rightarrow> None | Some jwt \<Rightarrow> Payload jwt)"
  by (simp add: BIDVerifyRPResponseToken_def assms Let_def split: sum.split prod.split)

text \<open>A response that reports only a minor code ends the step with that code, whether or not it verifies.\<close>

definition reports :: "'x gss_tables_scheme \<Rightarrow> 'y crypto_env_scheme \<Rightarrow> gss_OID option \<Rightarrow> byte list \<Rightarrow> OM_uint32 \<Rightarrow> bool" where
  "reports G env mech token minor \<longleftrightarrow>
     (\<exists>inner ba jwt p. gssBidVerifyToken G token mech = Some (Inr (TOK_TYPE_ACCEPTOR_CONTEXT, inner, mech)) \<and> token \<noteq> [] \<and>
        BIDUnpackBackedAssertion env (Some (c_string inner)) = Inr ba \<and> Assertion ba = Some jwt \<and> Payload jwt = Some p \<and>
        json_object_get (Some p) ''gss-maj'' = None \<and>
        minor = gssBidWireToApiError G (word_of_int (json_integer_value (json_object_get (Some p) ''gss-min''))))"

lemma response_reports:
  assumes "reports G env (mechanismUsed ctx) token minor" "minor \<noteq> 0" "bidIdentity ctx = Some i"
    and "target \<noteq> None \<longrightarrow> (\<exists>d. gssBidDisplayName G target = Inr d)"
  obtains i' heap' where "gssBidInitResponseToken G env now target token ctx heap =
    Some ((GSS_S_COMPLETE, minor), ctx\<lparr>bidIdentity := Some i'\<rparr>, None, heap')"
proof -
  from assms(1) obtain inner ba jwt p where v: "gssBidVerifyToken G token (mechanismUsed ctx) =
      Some (Inr (TOK_TYPE_ACCEPTOR_CONTEXT, inner, mechanismUsed ctx))" and "token \<noteq> []"
    and un: "BIDUnpackBackedAssertion env (Some (c_string inner)) = Inr ba" "Assertion ba = Some jwt" "Payload jwt = Some p"
    and maj: "json_object_get (Some p) ''gss-maj'' = None"
    and min: "minor = gssBidWireToApiError G (word_of_int (json_integer_value (json_object_get (Some p) ''gss-min'')))"
    unfolding reports_def by blast
  obtain audience where aud: "(case target of None \<Rightarrow> Inr None | Some _ \<Rightarrow> map_sum id (\<lambda>(s, _). Some s) (gssBidDisplayName G target)) =
      (Inr audience :: gss_error + string option)"
    using assms(4) by (cases target) auto
  let ?req = "or_flag (\<not> flag_set (ctx_flags ctx) CTX_FLAG_REAUTH) BID_RP_FLAG_INITIAL
    (or_flag (encryptionType ctx \<noteq> ENCTYPE_NULL) BID_RP_FLAG_HAVE_SESSION_KEY 0)"
  obtain err response fl i' h where
    r: "BIDVerifyRPResponseToken env now (bidContext ctx) i (Some (c_string inner)) audience ?req heap = (err, response, fl, i', h)"
    by (rule prod_cases5)
  with rp_response_payload[OF un(1), of now "bidContext ctx" i audience ?req heap] un have "response = Some p" by simp
  moreover have "ctx\<lparr>mechanismUsed := mechanismUsed ctx\<rparr> = ctx" by simp
  ultimately have "gssBidInitResponseToken G env now target token ctx heap = Some ((GSS_S_COMPLETE, minor), ctx\<lparr>bidIdentity := Some i'\<rparr>, None, h)"
    using v aud r maj min \<open>token \<noteq> []\<close> assms(2,3)
    by (simp add: gssBidInitResponseToken_def init_verify_def GSS_ERROR_def)
  then show ?thesis by (rule that)
qed

section \<open>Properties\<close>


text \<open>A response with a minor code and no major code makes the initiator return
  \<open>GSS_S_COMPLETE\<close>, whether or not it verifies: the code is read before the result of the verification
  is looked at, and 0 is the code of success.  The context is not established.\<close>

theorem init_complete_unverified:
  assumes "reports G env (mechanismUsed ctx) token minor" "minor \<noteq> 0" "minor \<noteq> bidg G GSSBID_REAUTH_FAILED"
    and "sm_state ctx = GSSBID_STATE_AUTHENTICATE \<or> sm_state ctx = GSSBID_STATE_RETRY_AUTHENTICATE"
    and "bidIdentity ctx = Some i" "ctx_cred ctx = Some c"
    and "target \<noteq> None \<longrightarrow> (\<exists>d. gssBidDisplayName G target = Inr d)"
  shows "\<exists>ctx' heap'. gss_init_sec_context G env ui sys now nowms cred target mech reqFlags timeReq cb token False (Some ctx) heap =
      Some (Some ((GSS_S_COMPLETE, minor), None, Some ctx', heap')) \<and> sm_state ctx' = sm_state ctx"
proof -
  obtain i' heap' where r: "gssBidInitResponseToken G env now target token ctx heap =
      Some ((GSS_S_COMPLETE, minor), ctx\<lparr>bidIdentity := Some i'\<rparr>, None, heap')"
    by (rule response_reports[OF assms(1,2,5,7)])
  then have "init_round G env ui sys now nowms cred target reqFlags timeReq cb (ctx, token, heap) =
      Some (Inr ((GSS_S_COMPLETE, minor), None, ctx\<lparr>bidIdentity := Some i'\<rparr>, heap'))"
    using assms(3,4) by (elim disjE) (simp_all add: init_round_def)
  then have "run_rounds (init_round G env ui sys now nowms cred target reqFlags timeReq cb) (ctx, token, heap) =
      Some (Some ((GSS_S_COMPLETE, minor), None, ctx\<lparr>bidIdentity := Some i'\<rparr>, heap'))" by (rule run_rounds_stop)
  then show ?thesis
    using assms(6) by (simp add: gss_init_sec_context_def gssBidInitSecContext_def GSS_ERROR_def)
qed

text \<open>C25: the initiator never returns from a response, verified or not, that reports a failed
  reauthentication to an initiator that did not reauthenticate, or already retries: every round of
  the loop reads the same token again.\<close>

theorem init_response_never_returns:
  fixes heap :: "'d cache_heap"
  assumes "reports G env (mechanismUsed ctx) token (bidg G GSSBID_REAUTH_FAILED)" "bidg G GSSBID_REAUTH_FAILED \<noteq> 0"
    and "sm_state ctx = GSSBID_STATE_RETRY_AUTHENTICATE \<or>
      sm_state ctx = GSSBID_STATE_AUTHENTICATE \<and> \<not> flag_set (ctx_flags ctx) CTX_FLAG_REAUTH"
    and "bidIdentity ctx \<noteq> None" "ctx_cred ctx = Some c"
    and "target \<noteq> None \<longrightarrow> (\<exists>d. gssBidDisplayName G target = Inr d)"
  shows "gss_init_sec_context G env ui sys now nowms cred target mech reqFlags timeReq cb token want (Some ctx) heap = None"
proof -
  let ?P = "\<lambda>(c :: gss_ctx, input, heap :: 'd cache_heap). input = token \<and> mechanismUsed c = mechanismUsed ctx \<and> sm_state c = sm_state ctx \<and>
    ctx_flags c = ctx_flags ctx \<and> bidIdentity c \<noteq> None"
  have "run_rounds (init_round G env ui sys now nowms cred target reqFlags timeReq cb) (ctx, token, heap) = None"
  proof (rule run_rounds_diverges[of ?P])
    fix s assume s: "?P s"
    obtain c input h where [simp]: "s = (c, input, h)" by (rule prod_cases3)
    from s obtain i where i: "bidIdentity c = Some i" by auto
    have "reports G env (mechanismUsed c) token (bidg G GSSBID_REAUTH_FAILED)" using assms(1) s by simp
    then obtain i' h' where "gssBidInitResponseToken G env now target token c h =
        Some ((GSS_S_COMPLETE, bidg G GSSBID_REAUTH_FAILED), c\<lparr>bidIdentity := Some i'\<rparr>, None, h')"
      by (rule response_reports[OF _ assms(2) i assms(6)])
    then have "init_round G env ui sys now nowms cred target reqFlags timeReq cb s = Some (Inl (c\<lparr>bidIdentity := Some i'\<rparr>, token, h'))"
      using assms(3) s by (elim disjE conjE) (simp_all add: init_round_def)
    with s show "\<exists>s'. ?P s' \<and> init_round G env ui sys now nowms cred target reqFlags timeReq cb s = Some (Inl s')" by auto
  qed (use assms(4) in simp)
  then show ?thesis using assms(5) by (simp add: gss_init_sec_context_def gssBidInitSecContext_def)
qed

section \<open>Concrete responses\<close>

definition retry_claims :: json where
  "retry_claims = JObject [(''gss-min'', JInteger 0x8000000E)]"

definition minor_claims :: json where
  "minor_claims = JObject [(''gss-min'', JInteger 1)]"

definition init_env :: bid_env where
  "init_env = verify_env\<lparr>
     json_loads := (\<lambda>s. if s = ''n'' then Some none_header else if s = ''a'' then Some sample_assertion
       else if s = ''r'' then Some retry_claims else if s = ''m'' then Some minor_claims else None),
     json_dumps := (\<lambda>j. if j = none_header then Some ''n'' else if j = sample_assertion then Some ''a''
       else if j = retry_claims then Some ''r'' else if j = minor_claims then Some ''m'' else None)\<rparr>"

lemma init_env_simps [simp]:
  "json_dumps init_env none_header = Some ''n''" "json_dumps init_env sample_assertion = Some ''a''"
  "json_dumps init_env retry_claims = Some ''r''" "json_dumps init_env minor_claims = Some ''m''"
  by (simp_all add: init_env_def none_header_def sample_assertion_def retry_claims_def minor_claims_def)

lemma init_env_library: "json_library init_env"
  by (simp add: json_library_def init_env_def none_header_def sample_assertion_def retry_claims_def minor_claims_def)

definition null_mech :: gss_OID where
  "null_mech = GSS_BROWSERID_MECHANISM @ [0]"

lemma unsigned_token:
  assumes "json_dumps init_env p = Some [y]"
  obtains token s ba jwt where "\<And>G :: gss_env. gssBidVerifyToken G token (Some null_mech) =
      Some (Inr (TOK_TYPE_ACCEPTOR_CONTEXT, bytes_of_string s, Some null_mech))" "token \<noteq> []" "c_string (bytes_of_string s) = s"
    "BIDUnpackBackedAssertion init_env (Some s) = Inr ba" "rCertificates ba = []" "Assertion ba = Some jwt" "Payload jwt = Some p"
    "json_object_get (Header jwt) ''x5c'' = None" "Signature jwt = []"
proof -
  let ?jwt = "\<lparr>EncData = None, EncDataLength = 0, Header = None, Payload = Some p, Signature = []\<rparr>"
  have "BIDJsonObjectSet BIDAllocJsonObject ''alg'' (Some (JString ''none'')) (BID_JSON_FLAG_REQUIRED OR BID_JSON_FLAG_CONSUME_REF) =
      Inr none_header" by (simp add: BIDAllocJsonObject_def none_header_def)
  then obtain t jwt' where mk: "BIDMakeSignature init_env ?jwt None None = Inr (t, jwt')" and
    h: "Header jwt' = Some none_header" "Signature jwt' = []"
    using assms by (simp add: BIDMakeSignature_def BIDMakeSignatureData_def BIDEncodeJson_def BIDBase64UrlEncode_text)
  then have pk: "BIDPackBackedAssertion init_env \<lparr>ba_EncData = [], Assertion = Some ?jwt, rCertificates = []\<rparr> None None =
      Inr (''~'' @ t, \<lparr>ba_EncData = [], Assertion = Some jwt', rCertificates = []\<rparr>)"
    by (simp add: BIDPackBackedAssertion_def)
  have hd: "Header ?jwt = None \<or> BIDValidateJWTHeader (Header ?jwt) = Inr ()" by simp
  let ?s = "''~'' @ t" let ?token = "store_uint16_be TOK_TYPE_ACCEPTOR_CONTEXT @ bytes_of_string ?s"
  from pack_unpack_bare[OF init_env_library pk hd] mk have
    un: "BIDUnpackBackedAssertion init_env (Some ?s) = Inr \<lparr>ba_EncData = ?s, Assertion = Some (jwt'\<lparr>EncData := Some t\<rparr>), rCertificates = []\<rparr>"
    by auto
  have nul: "c_string (bytes_of_string ?s) = ?s" by (rule c_string_bytes_of_string) (use made_no_nul[OF mk] in simp)
  have len: "length (store_uint16_be v) = 2" for v by (simp add: store_uint16_be_def)
  have tok: "gssBidVerifyToken G ?token (Some null_mech) = Some (Inr (TOK_TYPE_ACCEPTOR_CONTEXT, bytes_of_string ?s, Some null_mech))" for G :: gss_env
    by (simp add: gssBidVerifyToken_def verifyTokenHeader_def verify_type_def load_store_uint16 len)
  show ?thesis
    by (rule that[OF tok _ nul un, of "jwt'\<lparr>EncData := Some t\<rparr>"]) (use parse_made(2)[OF init_env_library mk hd] h in \<open>simp_all add: store_uint16_be_def none_header_def\<close>)
qed

definition init_user :: BIDIdentityDesc where
  "init_user = \<lparr>Attributes = JObject [(''sub'', JString ''a@b.org'')], PrivateAttributes = JObject [], SecretHandle = None\<rparr>"

definition init_ctx :: gss_ctx where
  "init_ctx = (new_gss_ctx True rp_ctx)\<lparr>sm_state := GSSBID_STATE_AUTHENTICATE, mechanismUsed := Some null_mech,
     bidIdentity := Some init_user, ctx_cred := Some sample_gss_cred\<rparr>"

lemma init_ctx_simps [simp]:
  "sm_state init_ctx = GSSBID_STATE_AUTHENTICATE" "mechanismUsed init_ctx = Some null_mech" "bidIdentity init_ctx = Some init_user"
  "ctx_cred init_ctx = Some sample_gss_cred" "\<not> flag_set (ctx_flags init_ctx) CTX_FLAG_REAUTH" "bidContext init_ctx = rp_ctx"
  "encryptionType init_ctx = ENCTYPE_NULL" "gssFlags init_ctx = 0" "flag_set (ctx_flags init_ctx) CTX_FLAG_INITIATOR"
  by (simp_all add: init_ctx_def new_gss_ctx_def or_flag_def flag_set_def)

lemma sample_bases [simp]: "ERROR_TABLE_BASE_bidg sample_gss_env = 256" "ERROR_TABLE_BASE_lbid sample_gss_env = 512"
  by (simp_all add: sample_gss_env_def sample_cred_env_def sample_name_env_def name_env.defs cred_env.defs gss_env.defs)

theorem init_complete_unverified_witness:
  "\<exists>token ctx' heap'. gss_init_sec_context sample_gss_env init_env (sample_browser []) sample_sys 5 5 None None None 0 0 None token False
     (Some init_ctx) sample_heap = Some (Some ((GSS_S_COMPLETE, 513), None, Some ctx', heap')) \<and> sm_state ctx' = GSSBID_STATE_AUTHENTICATE"
proof -
  obtain token s ba jwt where t: "gssBidVerifyToken sample_gss_env token (Some null_mech) =
      Some (Inr (TOK_TYPE_ACCEPTOR_CONTEXT, bytes_of_string s, Some null_mech))" "token \<noteq> []" "c_string (bytes_of_string s) = s"
    "BIDUnpackBackedAssertion init_env (Some s) = Inr ba" "Assertion ba = Some jwt" "Payload jwt = Some minor_claims"
    by (rule unsigned_token[OF init_env_simps(4)]) blast
  have "gssBidWireToApiError sample_gss_env 1 = 513" by (simp add: gssBidWireToApiError_def)
  with t have "reports sample_gss_env init_env (mechanismUsed init_ctx) token 513"
    unfolding reports_def by (intro exI[of _ "bytes_of_string s"] exI[of _ ba] exI[of _ jwt] exI[of _ minor_claims])
      (simp add: minor_claims_def)
  from init_complete_unverified[OF this, of init_user sample_gss_cred None] show ?thesis by (simp add: bidg_def) blast
qed

theorem init_response_never_returns_witness:
  "\<exists>token. gss_init_sec_context sample_gss_env init_env (sample_browser []) sample_sys 5 5 None None None 0 0 None token False
     (Some init_ctx) sample_heap = None"
proof -
  obtain token s ba jwt where t: "gssBidVerifyToken sample_gss_env token (Some null_mech) =
      Some (Inr (TOK_TYPE_ACCEPTOR_CONTEXT, bytes_of_string s, Some null_mech))" "token \<noteq> []" "c_string (bytes_of_string s) = s"
    "BIDUnpackBackedAssertion init_env (Some s) = Inr ba" "Assertion ba = Some jwt" "Payload jwt = Some retry_claims"
    by (rule unsigned_token[OF init_env_simps(3)]) blast
  have "gssBidWireToApiError sample_gss_env 0x8000000E = bidg sample_gss_env GSSBID_REAUTH_FAILED"
    by (simp add: gssBidWireToApiError_def bidg_def)
  with t have "reports sample_gss_env init_env (mechanismUsed init_ctx) token (bidg sample_gss_env GSSBID_REAUTH_FAILED)"
    unfolding reports_def by (intro exI[of _ "bytes_of_string s"] exI[of _ ba] exI[of _ jwt] exI[of _ retry_claims])
      (simp add: retry_claims_def)
  from init_response_never_returns[OF this, of sample_gss_cred None] show ?thesis by (simp add: bidg_def) blast
qed

lemma unsigned_response:
  assumes "BIDUnpackBackedAssertion init_env (Some s) = Inr ba" "rCertificates ba = []" "Assertion ba = Some jwt"
    "Payload jwt = Some sample_assertion" "json_object_get (Header jwt) ''x5c'' = None" "Signature jwt = []"
  shows "BIDVerifyRPResponseToken init_env 5 rp_ctx init_user (Some s) None BID_RP_FLAG_INITIAL heap =
    (Inl BID_S_MISSING_SIGNATURE, Some sample_assertion, 0, init_user, heap)"
proof -
  have f: "\<not> flag_set BID_RP_FLAG_INITIAL BID_RP_FLAG_HAVE_SESSION_KEY" "\<not> flag_set BID_VERIFY_FLAG_RP BID_VERIFY_FLAG_REAUTH"
    "flag_set BID_VERIFY_FLAG_RP BID_VERIFY_FLAG_RP" by (simp_all add: flag_set_def)
  have "BIDGetKeyAgreementObject (Some sample_assertion) = Inl BID_S_NO_KEY"
    by (simp add: BIDGetKeyAgreementObject_def sample_assertion_def)
  then have c: "rp_verify_cred init_env rp_ctx init_user (Some sample_assertion) BID_RP_FLAG_INITIAL = (Inr None, init_user)"
    by (simp add: rp_verify_cred_def f)
  have "BIDValidateExpiry rp_ctx 5 (Some sample_assertion) = Inr ()"
    by (simp add: BIDValidateExpiry_valid valid_at_def sample_assertion_def BIDGetJsonTimestampValue_def signed_divide_int_def)
  moreover have "BIDValidateAudience rp_ctx ba None None = Inr ()" using assms(3,4) by (simp add: BIDValidateAudience_def)
  moreover have "BIDVerifySignature init_env (Some jwt) None = Inl BID_S_MISSING_SIGNATURE"
    using assms(6) by (simp add: BIDVerifySignature_def guard_def)
  ultimately have "\<exists>fl. BIDVerifyLocal init_env 5 rp_ctx None ba None None None 5 BID_VERIFY_FLAG_RP None None heap =
      (Inl BID_S_MISSING_SIGNATURE, fl, heap)"
    using assms(2-5) by (simp add: BIDVerifyLocal_def f local_credential_def local_finish_def guard_def or_flag_def)
  with c assms(1,3,4) show ?thesis
    by (auto simp: BIDVerifyRPResponseToken_def init_user_def)
qed

lemma user_ready:
  assumes "BIDGetIdentitySubject i = Inr ''a@b.org''" "flag_set (ctx_flags ctx) CTX_FLAG_INITIATOR"
    "encryptionType ctx = ENCTYPE_NULL" "gssFlags ctx = 0" "mechanismUsed ctx = Some null_mech" "5 \<le> expiryTime ctx"
  shows "\<exists>ctx'. gssBidContextReady sample_gss_env env 5 i ctx = (Inr (), ctx')"
proof -
  have n: "c_string (bytes_of_string ''a@b.org'') = ''a@b.org''" by (rule c_string_bytes_of_string) simp
  have "gssBidCanonicalizeOid sample_gss_env (gssBidDefaultMech sample_gss_env) (Some null_mech) 0 = Inr (Some null_mech)"
    by (simp add: gssBidCanonicalizeOid_def null_mech_def gssBidIsConcreteMechanismOid_def GSS_BROWSERID_MECHANISM_def)
  with n obtain name where "import_subject sample_gss_env ''a@b.org'' False (Some null_mech) = Inr name"
    by (simp add: import_subject_def gssBidImportName_def nameTypes_def importUserName_def importBidNameFlags_def GSS_C_NT_BROWSERID_PRINCIPAL_def)
      (simp add: sample_gss_env_def sample_cred_env_def sample_name_env_def name_env.defs cred_env.defs gss_env.defs Let_def)
  with assms show ?thesis by (simp add: gssBidContextReady_def context_key_def guard_def flag_set_def[of 0])
qed


end
