(* ===== verification/Export.thy ===== *)
theory Export
  imports Mech
begin

text \<open>
  Moving an established context to another process: \<^verbatim>\<open>mech_browserid/export_sec_context.c\<close>,
  \<^verbatim>\<open>import_sec_context.c\<close>, and the bytes of the window of sequence numbers (\<^verbatim>\<open>util_ordering.c\<close>).
  Undefined behaviour is \<open>None\<close>.
\<close>

section \<open>Bytes\<close>

text \<open>
  The window is copied as the bytes of its structure, which the compiler lays out: its size, its bytes and
  the structure that bytes are read as are parameters.  So is the copying of a key by Kerberos, given
  its type and contents.
\<close>

record export_env = gss_env +
  sizeof_queue :: nat
  queue_image :: "queue \<Rightarrow> byte list"
  queue_of_image :: "byte list \<Rightarrow> queue"
  krb5_copy_keyblock_contents :: "u32 \<Rightarrow> byte list \<Rightarrow> OM_uint32 + byte list"

abbreviation BROWSERID_EXPORT_CONTEXT_V1 :: u32 where "BROWSERID_EXPORT_CONTEXT_V1 \<equiv> 1"

definition store_buffer :: "byte list \<Rightarrow> bool \<Rightarrow> byte list" where
  "store_buffer buffer wide_nums =
     (if wide_nums then store_uint64_be (of_nat (length buffer)) else store_uint32_be (of_nat (length buffer))) @ buffer"

definition store_oid :: "gss_OID option \<Rightarrow> byte list" where
  "store_oid oid = store_buffer (case oid of None \<Rightarrow> [] | Some o' \<Rightarrow> o') False"

definition sequenceSize :: "'x export_env_scheme \<Rightarrow> nat" where
  "sequenceSize G = sizeof_queue G"

definition sequenceExternalize :: "'x export_env_scheme \<Rightarrow> queue option \<Rightarrow> nat \<Rightarrow> gss_error + byte list" where
  "sequenceExternalize G vqueue lenremain =
     (if lenremain < sizeof_queue G then Inl (GSS_S_FAILURE, bidg G GSSBID_WRONG_SIZE)
      else Inr (case vqueue of Some q \<Rightarrow> queue_image G q | None \<Rightarrow> replicate (sizeof_queue G) 0))"

text \<open>The result is the window and the bytes that follow; nothing of the window is checked.\<close>

definition sequenceInternalize :: "'x export_env_scheme \<Rightarrow> byte list \<Rightarrow> gss_error + queue \<times> byte list" where
  "sequenceInternalize G buf =
     (if length buf < sizeof_queue G then Inl (GSS_S_DEFECTIVE_TOKEN, bidg G GSSBID_TOK_TRUNC)
      else Inr (queue_of_image G (take (sizeof_queue G) buf), drop (sizeof_queue G) buf))"

text \<open>The numbers of the states.\<close>

fun state_value :: "gss_bid_state \<Rightarrow> u32" where
  "state_value GSSBID_STATE_INITIAL = 0x01"
| "state_value GSSBID_STATE_AUTHENTICATE = 0x02"
| "state_value GSSBID_STATE_RETRY_INITIAL = 0x04"
| "state_value GSSBID_STATE_RETRY_AUTHENTICATE = 0x08"
| "state_value GSSBID_STATE_EXTRA_ROUND_TRIP = 0x10"
| "state_value GSSBID_STATE_ESTABLISHED = 0x20"

definition state_of_value :: "u32 \<Rightarrow> gss_bid_state option" where
  "state_of_value n =
     find (\<lambda>s. state_value s = n) [GSSBID_STATE_INITIAL, GSSBID_STATE_AUTHENTICATE, GSSBID_STATE_RETRY_INITIAL,
       GSSBID_STATE_RETRY_AUTHENTICATE, GSSBID_STATE_EXTRA_ROUND_TRIP, GSSBID_STATE_ESTABLISHED]"

section \<open>Export\<close>

definition export_name :: "'x name_env_scheme \<Rightarrow> gss_name option \<Rightarrow> u32 \<Rightarrow> gss_error + byte list" where
  "export_name G name flags = (case name of None \<Rightarrow> Inr [] | Some n \<Rightarrow> gssBidExportNameInternal G n flags)"

text \<open>The length of the mechanism is read without a check that there is one.\<close>

definition gssBidExportSecContext :: "'x export_env_scheme \<Rightarrow> gss_ctx \<Rightarrow> (gss_error + byte list) option" where
  "gssBidExportSecContext G ctx =
     (if sm_state ctx \<noteq> GSSBID_STATE_ESTABLISHED then Some (Inl (GSS_S_NO_CONTEXT, bidg G GSSBID_CONTEXT_INCOMPLETE))
      else
        let key = (case rfc3961Key ctx of None \<Rightarrow> [] | Some k \<Rightarrow> k) in
        bailO (Some (export_name G (initiatorName ctx) EXPORT_NAME_FLAG_COMPOSITE)) (\<lambda>initiator.
        bailO (Some (export_name G (acceptorName ctx) (EXPORT_NAME_FLAG_OID OR EXPORT_NAME_FLAG_COMPOSITE))) (\<lambda>acceptor.
        case mechanismUsed ctx of
          None \<Rightarrow> None
        | Some mech \<Rightarrow>
            let len = 16 + (4 + length mech) + (12 + length key) + (4 + length initiator) + (4 + length acceptor) +
                  (24 + sequenceSize G) in
            Some (bail (sequenceExternalize G (seqState ctx) len) (\<lambda>image.
              Inr (store_uint32_be BROWSERID_EXPORT_CONTEXT_V1 @ store_uint32_be (state_value (sm_state ctx)) @
                   store_uint32_be (ctx_flags ctx) @ store_uint32_be (gssFlags ctx) @ store_oid (Some mech) @
                   store_uint32_be (word_of_int (checksumType ctx)) @ store_uint32_be (encryptionType ctx) @
                   store_buffer key False @ store_buffer initiator False @ store_buffer acceptor False @
                   store_uint64_be (word_of_int (expiryTime ctx)) @ store_uint64_be (sendSeq ctx) @
                   store_uint64_be (recvSeq ctx) @ image))))))"

text \<open>A context that has been exported is released, and its handle with it.\<close>

definition gss_export_sec_context ::
  "'x export_env_scheme \<Rightarrow> gss_ctx option \<Rightarrow> 'd cache_heap \<Rightarrow>
    ((gss_error + byte list) \<times> gss_ctx option \<times> 'd cache_heap) option" where
  "gss_export_sec_context G handle heap =
     (case handle of
        None \<Rightarrow> Some (Inl (GSS_S_CALL_INACCESSIBLE_READ OR GSS_S_NO_CONTEXT, EINVAL), None, heap)
      | Some ctx \<Rightarrow>
          map_option (\<lambda>r. case r of
              Inl e \<Rightarrow> (Inl e, Some ctx, heap)
            | Inr token \<Rightarrow> (Inr token, None, gssBidReleaseContext (Some ctx) heap)) (gssBidExportSecContext G ctx))"

section \<open>Import\<close>

text \<open>A key, with its checksum and encryption types, and the bytes that follow.\<close>

definition importKerberosKey ::
  "'x export_env_scheme \<Rightarrow> byte list \<Rightarrow> (gss_error + int \<times> u32 \<times> byte list option \<times> byte list) option" where
  "importKerberosKey G buf =
     (let truncated = Some (Inl (GSS_S_DEFECTIVE_TOKEN, bidg G GSSBID_TOK_TRUNC)) in
      if length buf < 12 then truncated else
      case load_uint32_be buf of None \<Rightarrow> None | Some cksum \<Rightarrow>
      case load_uint32_be (drop 4 buf) of None \<Rightarrow> None | Some etype \<Rightarrow>
      case load_uint32_be (drop 8 buf) of None \<Rightarrow> None | Some len \<Rightarrow>
      if (len \<noteq> 0) \<noteq> (etype \<noteq> ENCTYPE_NULL) then Some (Inl (GSS_S_DEFECTIVE_TOKEN, bidg G GSSBID_BAD_CONTEXT_TOKEN))
      else if length buf - 12 < unat len then truncated
      else Some (bail (if etype = ENCTYPE_NULL then Inr None
                       else case krb5_copy_keyblock_contents G etype (take (unat len) (drop 12 buf)) of
                              Inl code \<Rightarrow> Inl (GSS_S_FAILURE, code)
                            | Inr key \<Rightarrow> Inr (Some key)) (\<lambda>key.
             Inr (sint cksum, etype, key, drop (12 + unat len) buf))))"

text \<open>A name: \<open>name\<close> is what the field held before.  A name without a mechanism gets that of the context.\<close>

definition importName ::
  "'x name_env_scheme \<Rightarrow> gss_OID option \<Rightarrow> byte list \<Rightarrow> gss_name option \<Rightarrow> (gss_error + gss_name option \<times> byte list) option" where
  "importName G mech buf name =
     (let truncated = Some (Inl (GSS_S_DEFECTIVE_TOKEN, bidg G GSSBID_TOK_TRUNC)) in
      if length buf < 4 then truncated else
      case load_uint32_be buf of None \<Rightarrow> None | Some len \<Rightarrow>
      if len = 0 then Some (Inr (name, drop 4 buf))
      else if length buf - 4 < unat len then truncated
      else
        bailO (gssBidImportNameInternal G (take (unat len) (drop 4 buf)) (or_flag (mech = None) EXPORT_NAME_FLAG_OID EXPORT_NAME_FLAG_COMPOSITE))
          (\<lambda>n. Some (bail (if mech = None then Inr n
                          else map_sum id (\<lambda>m. n\<lparr>name_mechanismUsed := m\<rparr>) (gssBidCanonicalizeOid G (gssBidDefaultMech G) mech 0)) (\<lambda>n.
                 Inr (Some n, drop (4 + unat len) buf)))))"

text \<open>
  What comes after the state.  Where the code leaves the minor code alone it is 0, from the call
  before.
\<close>

definition import_fields :: "'x export_env_scheme \<Rightarrow> byte list \<Rightarrow> gss_ctx \<Rightarrow> (gss_error + gss_ctx) option" where
  "import_fields G p ctx =
     bailO (gssBidImportMechanismOid G p) (\<lambda>(mech, p).
     bailO (importKerberosKey G p) (\<lambda>(cksum, enctype, key, p).
     bailO (importName G mech p (initiatorName ctx)) (\<lambda>(initiator, p).
     bailO (importName G None p (acceptorName ctx)) (\<lambda>(acceptor, p).
     let ctx = ctx\<lparr>mechanismUsed := mech, checksumType := cksum, encryptionType := enctype, rfc3961Key := key,
                   initiatorName := initiator, acceptorName := acceptor\<rparr> in
     if sm_state ctx = GSSBID_STATE_ESTABLISHED \<and>
        (if flag_set (ctx_flags ctx) CTX_FLAG_INITIATOR then acceptorName ctx = None else initiatorName ctx = None)
     then Some (Inl (GSS_S_DEFECTIVE_TOKEN, 0))
     else if length p < 24 + sequenceSize G then Some (Inl (GSS_S_DEFECTIVE_TOKEN, bidg G GSSBID_TOK_TRUNC)) else
     case load_uint64_be p of None \<Rightarrow> None | Some expiry \<Rightarrow>
     case load_uint64_be (drop 8 p) of None \<Rightarrow> None | Some snd_seq \<Rightarrow>
     case load_uint64_be (drop 16 p) of None \<Rightarrow> None | Some rcv_seq \<Rightarrow>
     Some (bail (sequenceInternalize G (drop 24 p)) (\<lambda>(q, _).
       Inr (ctx\<lparr>expiryTime := sint expiry, sendSeq := snd_seq, recvSeq := rcv_seq, seqState := Some q\<rparr>)))))))"

text \<open>
  The state is only checked to lie between the first and the last one; a number between two states, for
  which a context of the model has no value, is \<open>None\<close>.  What is changed in a context when the import
  fails is not seen, since the caller releases it.
\<close>

definition gssBidImportContext :: "'x export_env_scheme \<Rightarrow> byte list \<Rightarrow> gss_ctx \<Rightarrow> (gss_error + gss_ctx) option" where
  "gssBidImportContext G token ctx =
     (if length token < 16 then Some (Inl (GSS_S_DEFECTIVE_TOKEN, bidg G GSSBID_TOK_TRUNC)) else
      case load_uint32_be token of None \<Rightarrow> None | Some version \<Rightarrow>
      case load_uint32_be (drop 4 token) of None \<Rightarrow> None | Some state \<Rightarrow>
      case load_uint32_be (drop 8 token) of None \<Rightarrow> None | Some flags \<Rightarrow>
      case load_uint32_be (drop 12 token) of None \<Rightarrow> None | Some gss_flags \<Rightarrow>
      if version \<noteq> BROWSERID_EXPORT_CONTEXT_V1 then Some (Inl (GSS_S_DEFECTIVE_TOKEN, bidg G GSSBID_BAD_CONTEXT_TOKEN))
      else if state < state_value GSSBID_STATE_INITIAL \<or> state_value GSSBID_STATE_ESTABLISHED < state
      then Some (Inl (GSS_S_DEFECTIVE_TOKEN, 0))
      else if flag_set flags CTX_FLAG_INITIATOR \<and> state \<noteq> state_value GSSBID_STATE_ESTABLISHED
      then Some (Inl (GSS_S_DEFECTIVE_TOKEN, 0))
      else case state_of_value state of
             None \<Rightarrow> None
           | Some s \<Rightarrow> import_fields G (drop 16 token) (ctx\<lparr>sm_state := s, ctx_flags := flags, gssFlags := gss_flags\<rparr>))"

definition gss_import_sec_context ::
  "'x export_env_scheme \<Rightarrow> 'd cache_system \<Rightarrow> byte list option \<Rightarrow> 'd cache_heap \<Rightarrow> ((gss_error + gss_ctx) \<times> 'd cache_heap) option" where
  "gss_import_sec_context G sys token heap =
     (case token of
        None \<Rightarrow> Some (Inl (GSS_S_DEFECTIVE_TOKEN, bidg G GSSBID_TOK_TRUNC), heap)
      | Some token \<Rightarrow>
          if token = [] then Some (Inl (GSS_S_DEFECTIVE_TOKEN, bidg G GSSBID_TOK_TRUNC), heap)
          else case gssBidAllocContext G sys False None heap of
            (Inl e, heap) \<Rightarrow> Some (Inl e, heap)
          | (Inr ctx, heap) \<Rightarrow>
              map_option (\<lambda>r. case r of Inl e \<Rightarrow> (Inl e, gssBidReleaseContext (Some ctx) heap) | Inr ctx \<Rightarrow> (Inr ctx, heap))
                (gssBidImportContext G token ctx))"

section \<open>Lemmas\<close>

lemma store_buffer_length [simp]: "length (store_buffer b False) = 4 + length b"
  by (simp add: store_buffer_def)

lemma state_of_state_value [simp]: "state_of_value (state_value s) = Some s"
  by (cases s) (simp_all add: state_of_value_def)

text \<open>A buffer that was stored is found again behind its length.\<close>

lemma load_store_buffer:
  assumes "length b < 2 ^ 32"
  shows "load_uint32_be (store_buffer b False @ rest) = Some (of_nat (length b))" "unat (of_nat (length b) :: u32) = length b"
    "(of_nat (length b) :: u32) = 0 \<longleftrightarrow> b = []" "drop 4 (store_buffer b False @ rest) = b @ rest"
proof -
  show u: "unat (of_nat (length b) :: u32) = length b" using assms by (simp add: unat_of_nat take_bit_nat_eq_self)
  show "load_uint32_be (store_buffer b False @ rest) = Some (of_nat (length b))"
    by (simp add: store_buffer_def load_store_uint32)
  show "(of_nat (length b) :: u32) = 0 \<longleftrightarrow> b = []"
  proof
    assume "(of_nat (length b) :: u32) = 0"
    with u show "b = []" by simp
  qed simp
  show "drop 4 (store_buffer b False @ rest) = b @ rest" by (simp add: store_buffer_def)
qed

text \<open>The key of a context, as Kerberos copies it.\<close>

definition key_ok :: "'x export_env_scheme \<Rightarrow> u32 \<Rightarrow> byte list option \<Rightarrow> bool" where
  "key_ok G etype key \<longleftrightarrow>
     (case key of None \<Rightarrow> etype = ENCTYPE_NULL
      | Some k \<Rightarrow> etype \<noteq> ENCTYPE_NULL \<and> k \<noteq> [] \<and> length k < 2 ^ 32 \<and> krb5_copy_keyblock_contents G etype k = Inr k)"

lemma import_stored_key:
  assumes "key_ok G etype key" "sint (word_of_int c :: u32) = c"
  shows "importKerberosKey G (store_uint32_be (word_of_int c) @ store_uint32_be etype @
      store_buffer (case key of None \<Rightarrow> [] | Some k \<Rightarrow> k) False @ rest) = Some (Inr (c, etype, key, rest))"
proof -
  let ?k = "case key of None \<Rightarrow> [] | Some k \<Rightarrow> k"
  let ?b = "store_uint32_be (word_of_int c) @ store_uint32_be etype @ store_buffer ?k False @ rest"
  have l: "length ?k < 2 ^ 32" and e: "?k \<noteq> [] \<longleftrightarrow> etype \<noteq> ENCTYPE_NULL"
    using assms(1) by (auto simp: key_ok_def split: option.splits)
  note ld = load_store_buffer[OF l]
  have d: "drop 4 ?b = store_uint32_be etype @ store_buffer ?k False @ rest" "drop 8 ?b = store_buffer ?k False @ rest"
    "drop 12 ?b = ?k @ rest" by (simp_all add: store_buffer_def)
  have n: "drop (12 + length ?k) ?b = rest" "take (length ?k) (drop 12 ?b) = ?k" "12 \<le> length ?b" "length ?k \<le> length ?b - 12"
    by (simp_all add: store_buffer_def)
  show ?thesis
    using n assms e l unfolding importKerberosKey_def Let_def d
    by (cases key) (simp_all add: load_store_uint32 load_store_buffer key_ok_def)
qed

text \<open>The names: the initiator's without its mechanism, the acceptor's with it.\<close>

lemma import_name_oid_composite:
  assumes "load_uint16_be p = Some TOK_TYPE_EXPORT_NAME_COMPOSITE"
    and "import_name_oid G (EXPORT_NAME_FLAG_OID OR EXPORT_NAME_FLAG_ALLOW_COMPOSITE) p r = Some (Inr (fl, m, p', r'))"
  shows "import_name_oid G (EXPORT_NAME_FLAG_OID OR EXPORT_NAME_FLAG_COMPOSITE) p r =
    Some (Inr (EXPORT_NAME_FLAG_OID OR EXPORT_NAME_FLAG_COMPOSITE, m, p', r'))"
  using assms
  by (auto simp: import_name_oid_def Let_def rd_def flag_set_def or_flag_def bail_def split: if_splits option.splits list.splits sum.splits)

text \<open>A name that is printed and parsed again, and whose attributes are written and read again.\<close>

definition portable :: "'x name_env_scheme \<Rightarrow> gss_name \<Rightarrow> bool" where
  "portable G name \<longleftrightarrow>
     name_ok name \<and>
     (\<exists>s attrs. printed_as G (krbPrincipal name) s \<and> attrs_written G (attrCtx name) attrs \<and> length s + length attrs < 2 ^ 31)"

lemma export_import_composite:
  assumes "portable G name"
  obtains b where "gssBidExportNameInternal G name (or_flag oid EXPORT_NAME_FLAG_OID EXPORT_NAME_FLAG_COMPOSITE) = Inr b"
    "b \<noteq> []" "length b < 2 ^ 32"
    "gssBidImportNameInternal G b (or_flag oid EXPORT_NAME_FLAG_OID EXPORT_NAME_FLAG_COMPOSITE) =
       Some (Inr (if oid then name else name\<lparr>name_mechanismUsed := None\<rparr>))"
proof -
  let ?fl = "or_flag oid EXPORT_NAME_FLAG_OID EXPORT_NAME_FLAG_COMPOSITE"
  from assms obtain s attrs where ok: "name_ok name" "printed_as G (krbPrincipal name) s" "attrs_written G (attrCtx name) attrs"
    and l: "length s + length attrs < 2 ^ 31" unfolding portable_def by blast
  from name_ok_mechanism[OF ok(1)] obtain m where m: "name_mechanismUsed name = None \<and> m = GSS_BROWSERID_MECHANISM \<or>
      name_mechanismUsed name = Some m \<and> gssBidIsConcreteMechanismOid m"
    and lm: "length m < 256" and mech: "(case name_mechanismUsed name of Some m' \<Rightarrow> m' | None \<Rightarrow> GSS_BROWSERID_MECHANISM) = m"
    by metis
  let ?rest = "store_uint32_be (of_nat (length s)) @ bytes_of_string s @ attrs"
  let ?header = "store_uint16_be TOK_TYPE_EXPORT_NAME_COMPOSITE @ store_uint16_be (of_nat (length m + 2)) @ [0x06, of_nat (length m)] @ m"
  define b where "b = (if oid then ?header else []) @ ?rest"
  let ?mech = "if oid then name_mechanismUsed name else None"
  obtain t where disp: "gssBidDisplayName G (Some name) = Inr (s, t)" using printed_as_display[OF ok(2)] by blast
  have e: "gssBidExportNameInternal G name ?fl = Inr b"
    using disp attrs_written_import[OF ok(3)] mech by (simp add: gssBidExportNameInternal_def b_def flag_set_def or_flag_def)
  have lb: "length b < 2 ^ 32" using l lm by (simp add: b_def)
  have h: "(if flag_set ?fl EXPORT_NAME_FLAG_OID then import_name_oid G ?fl b (of_nat (length b)) else Some (Inr (?fl, None, b, of_nat (length b)))) =
      Some (Inr (?fl, ?mech, ?rest, of_nat (length ?rest)))"
  proof (cases oid)
    case True
    have "length b < 2 ^ 64" using lb by simp
    then have "import_name_oid G (EXPORT_NAME_FLAG_OID OR EXPORT_NAME_FLAG_ALLOW_COMPOSITE) b (of_nat (length b)) =
        Some (Inr (or_flag True EXPORT_NAME_FLAG_COMPOSITE (EXPORT_NAME_FLAG_OID OR EXPORT_NAME_FLAG_ALLOW_COMPOSITE), name_mechanismUsed name, ?rest, of_nat (length ?rest)))"
      using import_name_header[of m "name_mechanismUsed name" True ?rest G] m lm unfolding b_def if_True append_assoc if_P[OF True]
      by (metis (no_types))
    moreover have "load_uint16_be b = Some TOK_TYPE_EXPORT_NAME_COMPOSITE" using True by (simp only: b_def if_True append_assoc load_store_uint16)
    ultimately show ?thesis using import_name_oid_composite True by (simp add: flag_set_def or_flag_def)
  next
    case False
    then show ?thesis by (simp add: b_def flag_set_def or_flag_def)
  qed
  have "(krbPrincipalToName (krbPrincipal name))\<lparr>name_mechanismUsed := ?mech\<rparr> = name\<lparr>attrCtx := None, name_mechanismUsed := ?mech\<rparr>"
    using ok(1) by (cases name) (simp add: name_ok_def krbPrincipalToName_def)
  moreover have "gssBidImportAttrContext G attrs (name\<lparr>attrCtx := None, name_mechanismUsed := ?mech\<rparr>) = Inr (name\<lparr>name_mechanismUsed := ?mech\<rparr>)"
    using ok(3) by (cases name; cases oid) (auto simp: attrs_written_def gssBidImportAttrContext_def split: option.splits)
  moreover have "flag_set ?fl EXPORT_NAME_FLAG_COMPOSITE" by (simp add: flag_set_def or_flag_def)
  ultimately have "gssBidImportNameInternal G b ?fl = Some (Inr (name\<lparr>name_mechanismUsed := ?mech\<rparr>))"
    using import_name_rest[OF h[unfolded length_append store_uint32_length length_bytes_of_string, folded add.assoc] ok(2)] l by simp
  moreover have "b \<noteq> []" by (simp add: b_def store_uint32_be_def)
  ultimately show ?thesis using that[OF e _ lb] by (cases oid) simp_all
qed

lemma export_import_name:
  assumes "\<And>n. name = Some n \<Longrightarrow> portable G n \<and> (mech = None \<or> mech = name_mechanismUsed n \<and> (\<exists>m. mech = Some m \<and> gssBidIsConcreteMechanismOid m))"
  obtains b where "export_name G name (or_flag (mech = None) EXPORT_NAME_FLAG_OID EXPORT_NAME_FLAG_COMPOSITE) = Inr b"
    "\<And>rest. importName G mech (store_buffer b False @ rest) None = Some (Inr (name, rest))"
proof (cases name)
  case None
  show ?thesis
  proof (rule that[of "[]"])
    show "export_name G name (or_flag (mech = None) EXPORT_NAME_FLAG_OID EXPORT_NAME_FLAG_COMPOSITE) = Inr []"
      using None by (simp add: export_name_def)
    show "importName G mech (store_buffer [] False @ rest) None = Some (Inr (name, rest))" for rest
      using None by (simp add: importName_def load_store_buffer)
  qed
next
  case (Some n)
  note n = assms[OF Some]
  from export_import_composite[OF conjunct1[OF n], of "mech = None"] obtain b where
    e: "gssBidExportNameInternal G n (or_flag (mech = None) EXPORT_NAME_FLAG_OID EXPORT_NAME_FLAG_COMPOSITE) = Inr b"
    and b: "b \<noteq> []" "length b < 2 ^ 32"
    and i: "gssBidImportNameInternal G b (or_flag (mech = None) EXPORT_NAME_FLAG_OID EXPORT_NAME_FLAG_COMPOSITE) =
       Some (Inr (if mech = None then n else n\<lparr>name_mechanismUsed := None\<rparr>))" by blast
  show ?thesis
  proof (rule that[of b])
    show "export_name G name (or_flag (mech = None) EXPORT_NAME_FLAG_OID EXPORT_NAME_FLAG_COMPOSITE) = Inr b"
      using Some e by (simp add: export_name_def)
    fix rest
    note ld = load_store_buffer[OF b(2)]
    have d: "drop (4 + length b) (store_buffer b False @ rest) = rest" by simp
    show "importName G mech (store_buffer b False @ rest) None = Some (Inr (name, rest))"
      using n Some b(1) unfolding importName_def Let_def ld option.case
      by (auto simp: ld(2,3) i d canonicalize_concrete dest: sym)
  qed
qed

lemma import_stored_mech:
  assumes "gssBidIsConcreteMechanismOid m" "length m < 256"
  shows "gssBidImportMechanismOid G (store_oid (Some m) @ rest) = Some (Inr (Some m, rest))"
proof -
  have l: "length m < 2 ^ 32" and ne: "m \<noteq> []" using assms by (auto simp: gssBidIsConcreteMechanismOid_def)
  note ld = load_store_buffer[OF l]
  have "unat (4 + of_nat (length m) :: u32) = 4 + length m"
    using assms(2) unat_of_nat[of "4 + length m", where ?'a = 32] by (simp add: take_bit_nat_eq_self)
  then show ?thesis
    using ne assms
    by (simp add: gssBidImportMechanismOid_def store_oid_def ld(1,2,3) oid_readable_all) (simp add: store_buffer_def canonicalize_concrete)
qed

lemma alloc_context_fresh:
  assumes "gssBidAllocContext G sys isInitiator mech heap = (Inr ctx, heap')"
  shows "initiatorName ctx = None \<and> acceptorName ctx = None"
  using assms by (auto simp: gssBidAllocContext_def bailS_def new_gss_ctx_def Let_def split: sum.splits prod.splits)

text \<open>An established context all of whose parts can be moved.\<close>

definition exportable :: "'x export_env_scheme \<Rightarrow> gss_ctx \<Rightarrow> queue \<Rightarrow> bool" where
  "exportable G ctx q \<longleftrightarrow>
     sm_state ctx = GSSBID_STATE_ESTABLISHED \<and>
     (\<exists>m. mechanismUsed ctx = Some m \<and> gssBidIsConcreteMechanismOid m \<and> length m < 256) \<and>
     key_ok G (encryptionType ctx) (rfc3961Key ctx) \<and> sint (word_of_int (checksumType ctx) :: u32) = checksumType ctx \<and>
     (\<forall>n. initiatorName ctx = Some n \<longrightarrow> portable G n \<and> name_mechanismUsed n = mechanismUsed ctx) \<and>
     (\<forall>n. acceptorName ctx = Some n \<longrightarrow> portable G n) \<and>
     sint (word_of_int (expiryTime ctx) :: u64) = expiryTime ctx \<and>
     seqState ctx = Some q \<and> length (queue_image G q) = sizeof_queue G \<and> queue_of_image G (queue_image G q) = q"

text \<open>The peer's name is the one an established context must have.\<close>

definition peer_name :: "gss_ctx \<Rightarrow> gss_name option" where
  "peer_name ctx = (if flag_set (ctx_flags ctx) CTX_FLAG_INITIATOR then acceptorName ctx else initiatorName ctx)"

text \<open>What an import takes over.\<close>

definition moved_to :: "gss_ctx \<Rightarrow> gss_ctx \<Rightarrow> gss_ctx" where
  "moved_to ctx0 ctx = ctx\<lparr>ctx_cred := ctx_cred ctx0, bidContext := bidContext ctx0, bidIdentity := bidIdentity ctx0\<rparr>"

lemma export_import_context:
  assumes "exportable G ctx q" "initiatorName ctx0 = None" "acceptorName ctx0 = None"
  obtains token where "gssBidExportSecContext G ctx = Some (Inr token)" "token \<noteq> []"
    "gssBidImportContext G token ctx0 =
       Some (if peer_name ctx = None then Inl (GSS_S_DEFECTIVE_TOKEN, 0) else Inr (moved_to ctx0 ctx))"
proof -
  from assms(1) obtain m where m: "mechanismUsed ctx = Some m" "gssBidIsConcreteMechanismOid m" "length m < 256"
    and st: "sm_state ctx = GSSBID_STATE_ESTABLISHED"
    and q: "seqState ctx = Some q" "length (queue_image G q) = sizeof_queue G" "queue_of_image G (queue_image G q) = q"
    unfolding exportable_def by blast
  obtain bi where bi: "export_name G (initiatorName ctx) EXPORT_NAME_FLAG_COMPOSITE = Inr bi"
    "\<And>rest. importName G (Some m) (store_buffer bi False @ rest) None = Some (Inr (initiatorName ctx, rest))"
    using export_import_name[of "initiatorName ctx" G "Some m"] assms(1) m by (auto simp: exportable_def or_flag_def)
  obtain ba where ba: "export_name G (acceptorName ctx) (EXPORT_NAME_FLAG_OID OR EXPORT_NAME_FLAG_COMPOSITE) = Inr ba"
    "\<And>rest. importName G None (store_buffer ba False @ rest) None = Some (Inr (acceptorName ctx, rest))"
    using export_import_name[of "acceptorName ctx" G None] assms(1) by (auto simp: exportable_def or_flag_def)
  let ?key = "case rfc3961Key ctx of None \<Rightarrow> [] | Some k \<Rightarrow> k"
  let ?nums = "store_uint64_be (word_of_int (expiryTime ctx)) @ store_uint64_be (sendSeq ctx) @ store_uint64_be (recvSeq ctx) @ queue_image G q"
  let ?names = "store_buffer bi False @ store_buffer ba False @ ?nums"
  let ?body = "store_oid (Some m) @ store_uint32_be (word_of_int (checksumType ctx)) @ store_uint32_be (encryptionType ctx) @
    store_buffer ?key False @ ?names"
  define token where "token = store_uint32_be BROWSERID_EXPORT_CONTEXT_V1 @ store_uint32_be (state_value GSSBID_STATE_ESTABLISHED) @
    store_uint32_be (ctx_flags ctx) @ store_uint32_be (gssFlags ctx) @ ?body"
  have e: "gssBidExportSecContext G ctx = Some (Inr token)"
    using st m q bi(1) ba(1) by (simp add: gssBidExportSecContext_def token_def sequenceExternalize_def sequenceSize_def Let_def)
  have key: "importKerberosKey G (store_uint32_be (word_of_int (checksumType ctx)) @ store_uint32_be (encryptionType ctx) @
      store_buffer ?key False @ ?names) = Some (Inr (checksumType ctx, encryptionType ctx, rfc3961Key ctx, ?names))"
    using assms(1) by (intro import_stored_key) (simp_all add: exportable_def)
  have nums: "24 + sequenceSize G \<le> length ?nums" "load_uint64_be ?nums = Some (word_of_int (expiryTime ctx))"
    "load_uint64_be (drop 8 ?nums) = Some (sendSeq ctx)" "load_uint64_be (drop 16 ?nums) = Some (recvSeq ctx)"
    "sequenceInternalize G (drop 24 ?nums) = Inr (q, [])"
    using q by (simp_all add: load_store_uint64 sequenceSize_def sequenceInternalize_def)
  have fields: "import_fields G ?body c = Some
      (if sm_state c = GSSBID_STATE_ESTABLISHED \<and>
          (if flag_set (ctx_flags c) CTX_FLAG_INITIATOR then acceptorName ctx = None else initiatorName ctx = None)
       then Inl (GSS_S_DEFECTIVE_TOKEN, 0)
       else Inr (c\<lparr>mechanismUsed := Some m, checksumType := checksumType ctx, encryptionType := encryptionType ctx,
          rfc3961Key := rfc3961Key ctx, initiatorName := initiatorName ctx, acceptorName := acceptorName ctx,
          expiryTime := expiryTime ctx, sendSeq := sendSeq ctx, recvSeq := recvSeq ctx, seqState := Some q\<rparr>))"
    if "initiatorName c = None" "acceptorName c = None" for c
  proof -
    have "sint (word_of_int (expiryTime ctx) :: u64) = expiryTime ctx" using assms(1) by (simp add: exportable_def)
    then show ?thesis
      unfolding import_fields_def import_stored_mech[OF m(2,3)] bailO_Inr prod.case key that bi(2) ba(2) Let_def
      using nums by (simp add: not_less)
  qed
  let ?c = "ctx0\<lparr>sm_state := GSSBID_STATE_ESTABLISHED, ctx_flags := ctx_flags ctx, gssFlags := gssFlags ctx\<rparr>"
  have "gssBidImportContext G token ctx0 = import_fields G ?body ?c"
    by (simp add: gssBidImportContext_def token_def load_store_uint32 state_of_value_def)
  also have "\<dots> = Some (if peer_name ctx = None then Inl (GSS_S_DEFECTIVE_TOKEN, 0) else Inr (moved_to ctx0 ctx))"
    using m q st assms by (subst fields) (simp_all add: peer_name_def moved_to_def)
  finally have i: "gssBidImportContext G token ctx0 =
      Some (if peer_name ctx = None then Inl (GSS_S_DEFECTIVE_TOKEN, 0) else Inr (moved_to ctx0 ctx))" .
  have "token \<noteq> []" by (simp add: token_def store_uint32_be_def)
  with e i show ?thesis using that by blast
qed


text \<open>A context of an initiator that named no target can be exported, which destroys it, but nobody can import it.\<close>

theorem export_without_peer_lost:
  assumes "exportable G ctx q" "peer_name ctx = None"
    and "gssBidAllocContext G sys False None heap = (Inr ctx0, heap')"
  shows "\<exists>token. gss_export_sec_context G (Some ctx) heap0 = Some (Inr token, None, gssBidReleaseContext (Some ctx) heap0) \<and>
    gss_import_sec_context G sys (Some token) heap = Some (Inl (GSS_S_DEFECTIVE_TOKEN, 0), gssBidReleaseContext (Some ctx0) heap')"
proof -
  have "initiatorName ctx0 = None" "acceptorName ctx0 = None"
    using alloc_context_fresh[OF assms(3)] by simp_all
  from export_import_context[OF assms(1) this] obtain token where
    "gssBidExportSecContext G ctx = Some (Inr token)" "token \<noteq> []"
    "gssBidImportContext G token ctx0 = Some (Inl (GSS_S_DEFECTIVE_TOKEN, 0))" using assms(2) by auto
  with assms(3) show ?thesis by (simp add: gss_export_sec_context_def gss_import_sec_context_def)
qed

text \<open>A system whose caches named as files are in memory; a window written as one byte.\<close>

definition sample_disk_sys :: "BIDMemoryCache cache_system" where
  "sample_disk_sys = \<lparr>CacheTable = [BIDMemoryCacheOps\<lparr>Scheme := ''file''\<rparr>], RuntimeDir = None, Uid = ''0''\<rparr>"

definition sample_export_env :: export_env where
  "sample_export_env = gss_env.extend sample_gss_env
     (export_env.fields 1 (\<lambda>_. [7]) (\<lambda>_. sequenceInit 5 True False True) (\<lambda>_. Inr))"

lemma sample_alloc:
  obtains ctx0 heap' where "gssBidAllocContext sample_export_env sample_disk_sys False None sample_heap = (Inr ctx0, heap')"
proof -
  have "\<exists>c h. BIDAcquireContext sample_disk_sys (Some ''conf'') (context_params False ENCTYPE_NULL) None sample_heap = (Inr c, h)"
    by (simp add: BIDAcquireContext_def acquire_context_body_def acquire_context_cache_def Let_def flag_set_def
        configure_context_def new_context_def context_params_def or_flag_def BIDSetContextParam_def set_cache_by_name_def sample_disk_sys_def
        BIDAcquireCacheForUser_def BIDAcquireCache_def BIDMemoryCacheAcquire_def cache_field_def split: prod.split)
  then obtain c h where "BIDAcquireContext sample_disk_sys (Some ''conf'') (context_params False ENCTYPE_NULL) None sample_heap = (Inr c, h)" by blast
  moreover have "GSSBID_CONFIG_FILE sample_export_env = ''conf''"
    by (simp add: sample_export_env_def sample_gss_env_def sample_cred_env_def name_env.defs cred_env.defs gss_env.defs export_env.defs)
  ultimately show ?thesis using that by (simp add: gssBidAllocContext_def ctx_mechanism_def)
qed

definition sample_established :: "BIDContextDesc \<Rightarrow> bool \<Rightarrow> gss_ctx" where
  "sample_established context peer = (new_gss_ctx True context)\<lparr>sm_state := GSSBID_STATE_ESTABLISHED,
     mechanismUsed := Some (GSS_BROWSERID_MECHANISM @ [0x11]), encryptionType := 17, rfc3961Key := Some [1, 2, 3],
     initiatorName := Some sample_name, acceptorName := (if peer then Some sample_name else None), expiryTime := 99,
     seqState := Some (sequenceInit 5 True False True)\<rparr>"

lemma sample_exportable: "exportable sample_export_env (sample_established c peer) (sequenceInit 5 True False True)"
proof -
  have "portable sample_export_env sample_name"
    unfolding portable_def
    by (intro conjI exI[of _ "''joe@example.com''"] exI[of _ "[1]"])
      (simp_all add: name_ok_def sample_name_def krbPrincipalToName_def gssBidIsConcreteMechanismOid_def GSS_BROWSERID_MECHANISM_def
        printed_as_def attrs_written_def sample_export_env_def sample_gss_env_def sample_cred_env_def sample_name_env_def
        name_env.defs cred_env.defs gss_env.defs export_env.defs)
  moreover have "name_mechanismUsed sample_name = Some (GSS_BROWSERID_MECHANISM @ [0x11])" by (simp add: sample_name_def)
  ultimately show ?thesis
    by (simp add: exportable_def sample_established_def new_gss_ctx_def key_ok_def gssBidIsConcreteMechanismOid_def GSS_BROWSERID_MECHANISM_def
        sample_export_env_def export_env.defs gss_env.defs)
qed


theorem export_without_peer_lost_witness:
  "\<exists>token (h :: BIDMemoryCache cache_heap) h' h''.
     gss_export_sec_context sample_export_env (Some (sample_established (new_context 0) False)) h = Some (Inr token, None, h') \<and>
     gss_import_sec_context sample_export_env sample_disk_sys (Some token) sample_heap = Some (Inl (GSS_S_DEFECTIVE_TOKEN, 0), h'')"
proof -
  obtain ctx0 heap' where a: "gssBidAllocContext sample_export_env sample_disk_sys False None sample_heap = (Inr ctx0, heap')"
    by (rule sample_alloc)
  have p: "peer_name (sample_established (new_context 0) False) = None"
    by (simp add: peer_name_def sample_established_def new_gss_ctx_def flag_set_def or_flag_def)
  from export_without_peer_lost[OF sample_exportable p a, of sample_heap] show ?thesis by blast
qed

end
