(* ===== verification/Wrap.thy ===== *)
theory Wrap
  imports Mech
begin

text \<open>
  Protection of messages in an established context (RFC 4121): \<^verbatim>\<open>util_crypt.c\<close>, \<^verbatim>\<open>util_cksum.c\<close>,
  \<^verbatim>\<open>wrap_iov.c\<close>, \<^verbatim>\<open>unwrap_iov.c\<close>, \<^verbatim>\<open>wrap_iov_length.c\<close> and the calls of the mechanism that use them.
  The build is the one with MIT Kerberos.  Undefined behaviour and a failed assertion are \<open>None\<close>.
  The contents of buffers after a failure are not modelled.
\<close>

section \<open>Kerberos and buffers\<close>

datatype krb5_cryptotype =
    KRB5_CRYPTO_TYPE_EMPTY | KRB5_CRYPTO_TYPE_HEADER | KRB5_CRYPTO_TYPE_DATA | KRB5_CRYPTO_TYPE_SIGN_ONLY
  | KRB5_CRYPTO_TYPE_TRAILER | KRB5_CRYPTO_TYPE_CHECKSUM

datatype gss_iov_type =
    GSS_IOV_BUFFER_TYPE_EMPTY | GSS_IOV_BUFFER_TYPE_DATA | GSS_IOV_BUFFER_TYPE_HEADER | GSS_IOV_BUFFER_TYPE_TRAILER
  | GSS_IOV_BUFFER_TYPE_PADDING | GSS_IOV_BUFFER_TYPE_STREAM | GSS_IOV_BUFFER_TYPE_SIGN_ONLY

text \<open>
  What the code calls in Kerberos.  The functions on several buffers get the flags and contents of the
  buffers and return their new contents; making a checksum returns the contents of the buffer of
  the checksum.
\<close>

record krb_env = gss_env +
  krb5_c_crypto_length :: "u32 \<Rightarrow> krb5_cryptotype \<Rightarrow> OM_uint32 + nat"
  krb5_c_padding_length :: "u32 \<Rightarrow> nat \<Rightarrow> OM_uint32 + nat"
  krb5_c_block_size :: "u32 \<Rightarrow> OM_uint32 + nat"
  krb5_c_encrypt_iov :: "krb5_keyblock \<Rightarrow> nat \<Rightarrow> (krb5_cryptotype \<times> byte list) list \<Rightarrow> OM_uint32 + byte list list"
  krb5_c_decrypt_iov :: "krb5_keyblock \<Rightarrow> nat \<Rightarrow> (krb5_cryptotype \<times> byte list) list \<Rightarrow> OM_uint32 + byte list list"
  krb5_c_make_checksum_iov :: "int \<Rightarrow> krb5_keyblock \<Rightarrow> nat \<Rightarrow> (krb5_cryptotype \<times> byte list) list \<Rightarrow> OM_uint32 + byte list"
  krb5_c_verify_checksum_iov :: "int \<Rightarrow> krb5_keyblock \<Rightarrow> nat \<Rightarrow> (krb5_cryptotype \<times> byte list) list \<Rightarrow> OM_uint32 + bool"

text \<open>A buffer of a message, and whether the caller wants it allocated.\<close>

record gss_iov_buffer =
  iov_type :: gss_iov_type
  iov_ALLOCATE :: bool
  iov_ALLOCATED :: bool
  iov_buffer :: "byte list"

abbreviation iov_of :: "gss_iov_type \<Rightarrow> byte list \<Rightarrow> gss_iov_buffer" where
  "iov_of t b \<equiv> \<lparr>iov_type = t, iov_ALLOCATE = False, iov_ALLOCATED = False, iov_buffer = b\<rparr>"

abbreviation KRB5_BAD_MSIZE :: OM_uint32 where "KRB5_BAD_MSIZE \<equiv> 0x96C73ABE"
abbreviation GSSBID_BAD_DIRECTION :: OM_uint32 where "GSSBID_BAD_DIRECTION \<equiv> 5"
abbreviation GSSBID_KEY_UNAVAILABLE :: OM_uint32 where "GSSBID_KEY_UNAVAILABLE \<equiv> 7"
abbreviation GSSBID_BAD_WRAP_TOKEN :: OM_uint32 where "GSSBID_BAD_WRAP_TOKEN \<equiv> 36"
abbreviation GSSBID_MISSING_IOV :: OM_uint32 where "GSSBID_MISSING_IOV \<equiv> 37"
abbreviation GSSBID_BAD_STREAM_IOV :: OM_uint32 where "GSSBID_BAD_STREAM_IOV \<equiv> 38"
abbreviation GSSBID_BAD_PADDING_IOV :: OM_uint32 where "GSSBID_BAD_PADDING_IOV \<equiv> 39"
abbreviation GSSBID_UNKNOWN_QOP :: OM_uint32 where "GSSBID_UNKNOWN_QOP \<equiv> 40"
abbreviation TOK_TYPE_MIC :: "16 word" where "TOK_TYPE_MIC \<equiv> 0x0404"
abbreviation TOK_TYPE_WRAP :: "16 word" where "TOK_TYPE_WRAP \<equiv> 0x0504"
abbreviation TOK_TYPE_DELETE_CONTEXT :: "16 word" where "TOK_TYPE_DELETE_CONTEXT \<equiv> 0x442C"
abbreviation TOK_FLAG_SENDER_IS_ACCEPTOR :: byte where "TOK_FLAG_SENDER_IS_ACCEPTOR \<equiv> 1"
abbreviation TOK_FLAG_WRAP_CONFIDENTIAL :: byte where "TOK_FLAG_WRAP_CONFIDENTIAL \<equiv> 2"
abbreviation TOK_FLAG_ACCEPTOR_SUBKEY :: byte where "TOK_FLAG_ACCEPTOR_SUBKEY \<equiv> 4"

text \<open>The type of a key is 0 as long as there is none.\<close>

definition ctx_key :: "gss_ctx \<Rightarrow> krb5_keyblock" where
  "ctx_key ctx = (case rfc3961Key ctx of None \<Rightarrow> (0, []) | Some k \<Rightarrow> (encryptionType ctx, k))"

definition krbCryptoLength :: "'x krb_env_scheme \<Rightarrow> krb5_keyblock \<Rightarrow> krb5_cryptotype \<Rightarrow> OM_uint32 + nat" where
  "krbCryptoLength G key t = krb5_c_crypto_length G (fst key) t"

definition krbPaddingLength :: "'x krb_env_scheme \<Rightarrow> krb5_keyblock \<Rightarrow> nat \<Rightarrow> OM_uint32 + nat" where
  "krbPaddingLength G key dataLength = krb5_c_padding_length G (fst key) dataLength"

definition krbBlockSize :: "'x krb_env_scheme \<Rightarrow> krb5_keyblock \<Rightarrow> OM_uint32 + nat" where
  "krbBlockSize G key = krb5_c_block_size G (fst key)"

section \<open>Lists of buffers\<close>

definition gssBidMapCryptoFlag :: "gss_iov_type \<Rightarrow> krb5_cryptotype" where
  "gssBidMapCryptoFlag t =
     (if t = GSS_IOV_BUFFER_TYPE_DATA \<or> t = GSS_IOV_BUFFER_TYPE_PADDING then KRB5_CRYPTO_TYPE_DATA
      else if t = GSS_IOV_BUFFER_TYPE_SIGN_ONLY then KRB5_CRYPTO_TYPE_SIGN_ONLY
      else KRB5_CRYPTO_TYPE_EMPTY)"

text \<open>The only buffer of a type, by its position.\<close>

definition gssBidLocateIov :: "gss_iov_buffer list \<Rightarrow> gss_iov_type \<Rightarrow> nat option" where
  "gssBidLocateIov iov t =
     (case filter (\<lambda>i. iov_type (iov ! i) = t) [0..<length iov] of [i] \<Rightarrow> Some i | _ \<Rightarrow> None)"

definition gssBidIovMessageLength :: "gss_iov_buffer list \<Rightarrow> nat \<times> nat" where
  "gssBidIovMessageLength iov =
     (sum_list (map (length \<circ> iov_buffer) (filter (\<lambda>b. iov_type b = GSS_IOV_BUFFER_TYPE_DATA \<or> iov_type b = GSS_IOV_BUFFER_TYPE_SIGN_ONLY) iov)),
      sum_list (map (length \<circ> iov_buffer) (filter (\<lambda>b. iov_type b = GSS_IOV_BUFFER_TYPE_SIGN_ONLY) iov)))"

definition gssBidIsIntegrityOnly :: "gss_iov_buffer list \<Rightarrow> bool" where
  "gssBidIsIntegrityOnly iov \<longleftrightarrow> \<not> list_ex (\<lambda>b. iov_type b = GSS_IOV_BUFFER_TYPE_DATA) iov"

text \<open>The contents of a new buffer are undefined; every byte is written before it is read.\<close>

definition gssBidAllocIov :: "nat \<Rightarrow> gss_iov_buffer \<Rightarrow> gss_iov_buffer" where
  "gssBidAllocIov n b = b\<lparr>iov_buffer := replicate n 0, iov_ALLOCATED := True\<rparr>"

definition write_at :: "nat \<Rightarrow> byte list \<Rightarrow> byte list \<Rightarrow> byte list" where
  "write_at off bs b = take off b @ bs @ drop (off + length bs) b"

definition put :: "nat \<Rightarrow> nat \<Rightarrow> byte list \<Rightarrow> gss_iov_buffer list \<Rightarrow> gss_iov_buffer list" where
  "put i off bs iov = iov[i := (iov ! i)\<lparr>iov_buffer := write_at off bs (iov_buffer (iov ! i))\<rparr>]"

section \<open>Buffers for Kerberos\<close>

text \<open>A part of a buffer of the message: the buffer, the offset in it and the length.\<close>

record krb5_crypto_iov =
  k_flags :: krb5_cryptotype
  k_buf :: nat
  k_off :: nat
  k_len :: nat

definition read_parts :: "gss_iov_buffer list \<Rightarrow> krb5_crypto_iov list \<Rightarrow> (krb5_cryptotype \<times> byte list) list" where
  "read_parts iov kiov = map (\<lambda>k. (k_flags k, take (k_len k) (drop (k_off k) (iov_buffer (iov ! k_buf k))))) kiov"

fun write_parts :: "krb5_crypto_iov list \<Rightarrow> byte list list \<Rightarrow> gss_iov_buffer list \<Rightarrow> gss_iov_buffer list" where
  "write_parts (k # ks) (b # bs) iov = write_parts ks bs (put (k_buf k) (k_off k) b iov)"
| "write_parts _ _ iov = iov"

definition message_parts :: "gss_iov_buffer list \<Rightarrow> krb5_crypto_iov list" where
  "message_parts iov =
     map (\<lambda>j. \<lparr>k_flags = gssBidMapCryptoFlag (iov_type (iov ! j)), k_buf = j, k_off = 0, k_len = length (iov_buffer (iov ! j))\<rparr>) [0..<length iov]"

text \<open>With DCE style the real rotation is by the extra count as well.\<close>

definition mapIov ::
  "'x krb_env_scheme \<Rightarrow> bool \<Rightarrow> nat \<Rightarrow> nat \<Rightarrow> krb5_keyblock \<Rightarrow> gss_iov_buffer list \<Rightarrow> (OM_uint32 + krb5_crypto_iov list) option" where
  "mapIov G dce_style ec rrc key iov =
     (case gssBidLocateIov iov GSS_IOV_BUFFER_TYPE_HEADER of
        None \<Rightarrow> None
      | Some header \<Rightarrow>
          let trailer = gssBidLocateIov iov GSS_IOV_BUFFER_TYPE_TRAILER;
              len = (\<lambda>i. length (iov_buffer (iov ! i)))
          in if trailer \<noteq> None \<and> rrc \<noteq> 0 then None
             else Some (bail (krbCryptoLength G key KRB5_CRYPTO_TYPE_HEADER) (\<lambda>k5_headerlen.
                   bail (krbCryptoLength G key KRB5_CRYPTO_TYPE_TRAILER) (\<lambda>k5_trailerlen.
                   let gss_trailerlen = ec + 16 + k5_trailerlen;
                       gss_headerlen = 16 + k5_headerlen + (if trailer = None then gss_trailerlen else 0);
                       (buf, off) = (case trailer of None \<Rightarrow> (header, 16) | Some t \<Rightarrow> (t, 0))
                   in if (case trailer of
                            None \<Rightarrow> (if dce_style then rrc + ec else rrc) \<noteq> gss_trailerlen
                          | Some t \<Rightarrow> len t \<noteq> gss_trailerlen) \<or> len header \<noteq> gss_headerlen
                      then Inl KRB5_BAD_MSIZE
                      else Inr ([\<lparr>k_flags = KRB5_CRYPTO_TYPE_HEADER, k_buf = header, k_off = len header - k5_headerlen, k_len = k5_headerlen\<rparr>] @
                                filter (\<lambda>k. k_flags k \<noteq> KRB5_CRYPTO_TYPE_EMPTY) (message_parts iov) @
                                [\<lparr>k_flags = KRB5_CRYPTO_TYPE_DATA, k_buf = buf, k_off = off, k_len = ec + 16\<rparr>,
                                 \<lparr>k_flags = KRB5_CRYPTO_TYPE_TRAILER, k_buf = buf, k_off = off + ec + 16, k_len = k5_trailerlen\<rparr>])))))"

definition gssBidEncrypt ::
  "'x krb_env_scheme \<Rightarrow> bool \<Rightarrow> nat \<Rightarrow> nat \<Rightarrow> krb5_keyblock \<Rightarrow> nat \<Rightarrow> gss_iov_buffer list \<Rightarrow> (OM_uint32 + gss_iov_buffer list) option" where
  "gssBidEncrypt G dce_style ec rrc key usage iov =
     bailO (mapIov G dce_style ec rrc key iov) (\<lambda>kiov.
       Some (bail (krb5_c_encrypt_iov G key usage (read_parts iov kiov)) (\<lambda>out. Inr (write_parts kiov out iov))))"

definition gssBidDecrypt ::
  "'x krb_env_scheme \<Rightarrow> bool \<Rightarrow> nat \<Rightarrow> nat \<Rightarrow> krb5_keyblock \<Rightarrow> nat \<Rightarrow> gss_iov_buffer list \<Rightarrow> (OM_uint32 + gss_iov_buffer list) option" where
  "gssBidDecrypt G dce_style ec rrc key usage iov =
     bailO (mapIov G dce_style ec rrc key iov) (\<lambda>kiov.
       Some (bail (krb5_c_decrypt_iov G key usage (read_parts iov kiov)) (\<lambda>out. Inr (write_parts kiov out iov))))"

text \<open>The buffers of a checksum: the message, the header and, last, the checksum.\<close>

definition checksum_parts ::
  "'x krb_env_scheme \<Rightarrow> nat \<Rightarrow> krb5_keyblock \<Rightarrow> gss_iov_buffer list \<Rightarrow> (OM_uint32 + krb5_crypto_iov list) option" where
  "checksum_parts G rrc key iov =
     bailO (Some (krbCryptoLength G key KRB5_CRYPTO_TYPE_CHECKSUM)) (\<lambda>k5_checksumlen.
     case gssBidLocateIov iov GSS_IOV_BUFFER_TYPE_HEADER of
        None \<Rightarrow> None
      | Some header \<Rightarrow>
          let trailer = gssBidLocateIov iov GSS_IOV_BUFFER_TYPE_TRAILER;
              len = (\<lambda>i. length (iov_buffer (iov ! i)))
          in if rrc = 0 \<and> trailer = None then None
             else if (case trailer of
                        None \<Rightarrow> rrc \<noteq> k5_checksumlen \<or> len header \<noteq> 16 + k5_checksumlen
                      | Some t \<Rightarrow> len t \<noteq> k5_checksumlen)
             then Some (Inl KRB5_BAD_MSIZE)
             else Some (Inr (message_parts iov @
                    [\<lparr>k_flags = KRB5_CRYPTO_TYPE_SIGN_ONLY, k_buf = header, k_off = 0, k_len = 16\<rparr>,
                     (case trailer of
                        None \<Rightarrow> \<lparr>k_flags = KRB5_CRYPTO_TYPE_CHECKSUM, k_buf = header, k_off = 16, k_len = len header - 16\<rparr>
                      | Some t \<Rightarrow> \<lparr>k_flags = KRB5_CRYPTO_TYPE_CHECKSUM, k_buf = t, k_off = 0, k_len = len t\<rparr>)])))"

definition gssBidSign ::
  "'x krb_env_scheme \<Rightarrow> int \<Rightarrow> nat \<Rightarrow> krb5_keyblock \<Rightarrow> nat \<Rightarrow> gss_iov_buffer list \<Rightarrow> (OM_uint32 + gss_iov_buffer list) option" where
  "gssBidSign G cksumtype rrc key usage iov =
     bailO (checksum_parts G rrc key iov) (\<lambda>kiov.
       Some (bail (krb5_c_make_checksum_iov G cksumtype key usage (read_parts iov kiov)) (\<lambda>cksum.
         Inr (write_parts [last kiov] [cksum] iov))))"

definition gssBidVerify ::
  "'x krb_env_scheme \<Rightarrow> int \<Rightarrow> nat \<Rightarrow> krb5_keyblock \<Rightarrow> nat \<Rightarrow> gss_iov_buffer list \<Rightarrow> (OM_uint32 + bool) option" where
  "gssBidVerify G cksumtype rrc key usage iov =
     bailO (checksum_parts G rrc key iov) (\<lambda>kiov.
       Some (krb5_c_verify_checksum_iov G cksumtype key usage (read_parts iov kiov)))"

section \<open>Wrapping\<close>

definition rfc4121Flags :: "gss_ctx \<Rightarrow> bool \<Rightarrow> byte" where
  "rfc4121Flags ctx receiving =
     (let isAcceptor = ((\<not> flag_set (ctx_flags ctx) CTX_FLAG_INITIATOR) \<noteq> receiving)
      in (if isAcceptor then TOK_FLAG_SENDER_IS_ACCEPTOR else 0) OR
         (if flag_set (ctx_flags ctx) CTX_FLAG_EXTRA_ROUND_TRIP then TOK_FLAG_ACCEPTOR_SUBKEY else 0))"

definition key_usage :: "bool \<Rightarrow> 16 word \<Rightarrow> nat" where
  "key_usage initiator toktype =
     (if toktype = TOK_TYPE_WRAP then (if initiator then 24 else 22) else (if initiator then 25 else 23))"

text \<open>Header and trailer of the right size, allocated if the caller wants it.\<close>

definition sized_iov :: "'x gss_tables_scheme \<Rightarrow> nat \<Rightarrow> gss_iov_buffer \<Rightarrow> OM_uint32 + gss_iov_buffer" where
  "sized_iov G n b =
     (if iov_ALLOCATE b then Inr (gssBidAllocIov n b)
      else if length (iov_buffer b) < n then Inl (bidg G GSSBID_WRONG_SIZE)
      else Inr (b\<lparr>iov_buffer := take n (iov_buffer b)\<rparr>))"

definition size_buffers ::
  "'x gss_tables_scheme \<Rightarrow> nat \<Rightarrow> nat option \<Rightarrow> nat \<Rightarrow> nat \<Rightarrow> gss_iov_buffer list \<Rightarrow> OM_uint32 + gss_iov_buffer list" where
  "size_buffers G header trailer gssHeaderLen gssTrailerLen iov =
     bail (sized_iov G gssHeaderLen (iov ! header)) (\<lambda>h.
     let iov = iov[header := h] in
     case trailer of None \<Rightarrow> Inr iov | Some t \<Rightarrow> bail (sized_iov G gssTrailerLen (iov ! t)) (\<lambda>b. Inr (iov[t := b])))"

definition token_header :: "16 word \<Rightarrow> byte \<Rightarrow> 16 word \<Rightarrow> 16 word \<Rightarrow> u64 \<Rightarrow> byte list" where
  "token_header toktype flags ec rrc seqnum =
     store_uint16_be toktype @ [flags, 0xFF] @ store_uint16_be ec @ store_uint16_be rrc @ store_uint64_be seqnum"

text \<open>The extra count, the rotation and the sizes of header and trailer of an encrypted message.\<close>

definition wrap_lengths ::
  "'x krb_env_scheme \<Rightarrow> bool \<Rightarrow> krb5_keyblock \<Rightarrow> bool \<Rightarrow> nat \<Rightarrow> OM_uint32 + nat \<times> nat \<times> nat \<times> nat" where
  "wrap_lengths G dce_style key has_trailer confDataLen =
     bail (krbCryptoLength G key KRB5_CRYPTO_TYPE_HEADER) (\<lambda>krbHeaderLen.
     bail (krbPaddingLength G key (confDataLen + 16)) (\<lambda>krbPadLen.
     bail (if krbPadLen = 0 \<and> dce_style then krbBlockSize G key else Inr krbPadLen) (\<lambda>ec.
     bail (krbCryptoLength G key KRB5_CRYPTO_TYPE_TRAILER) (\<lambda>krbTrailerLen.
     let gssTrailerLen = ec + 16 + krbTrailerLen
     in Inr (ec, if has_trailer then 0 else if dce_style then gssTrailerLen - ec else gssTrailerLen,
             16 + krbHeaderLen + (if has_trailer then 0 else gssTrailerLen), gssTrailerLen)))))"

definition wrap_confidential ::
  "'x krb_env_scheme \<Rightarrow> gss_ctx \<Rightarrow> gss_iov_buffer list \<Rightarrow> nat \<Rightarrow> nat option \<Rightarrow> (OM_uint32 + gss_iov_buffer list) option" where
  "wrap_confidential G ctx iov header trailer =
     (let key = ctx_key ctx; dce_style = flag_set (gssFlags ctx) GSS_C_DCE_STYLE;
          (dataLen, assocDataLen) = gssBidIovMessageLength iov in
      bailO (Some (wrap_lengths G dce_style key (trailer \<noteq> None) (dataLen - assocDataLen))) (\<lambda>(ec, rrc, gssHeaderLen, gssTrailerLen).
      bailO (Some (size_buffers G header trailer gssHeaderLen gssTrailerLen iov)) (\<lambda>iov.
      let hdr = token_header TOK_TYPE_WRAP (rfc4121Flags ctx False OR TOK_FLAG_WRAP_CONFIDENTIAL) (of_nat ec) 0 (sendSeq ctx);
          iov = put header 0 hdr iov;
          iov = (case trailer of None \<Rightarrow> put header 16 (replicate ec 0xFF @ hdr) iov | Some t \<Rightarrow> put t 0 (replicate ec 0xFF @ hdr) iov)
      in bailO (gssBidEncrypt G dce_style ec rrc key (key_usage (flag_set (ctx_flags ctx) CTX_FLAG_INITIATOR) TOK_TYPE_WRAP) iov) (\<lambda>iov.
         Some (Inr (put header 6 (store_uint16_be (of_nat rrc)) iov))))))"

text \<open>A message with a checksum: its counts are zero, or all ones without a message, while it is signed.\<close>

definition wrap_with_checksum ::
  "'x krb_env_scheme \<Rightarrow> gss_ctx \<Rightarrow> 16 word \<Rightarrow> gss_iov_buffer list \<Rightarrow> nat \<Rightarrow> nat option \<Rightarrow> (OM_uint32 + gss_iov_buffer list) option" where
  "wrap_with_checksum G ctx toktype iov header trailer =
     (let key = ctx_key ctx in
      bailO (Some (krbCryptoLength G key KRB5_CRYPTO_TYPE_CHECKSUM)) (\<lambda>gssTrailerLen.
      if 0xFFFF < gssTrailerLen then None else
      let rrc = (if trailer = None then gssTrailerLen else 0);
          gssHeaderLen = 16 + rrc;
          count = (if toktype = TOK_TYPE_WRAP then 0 else 0xFFFF) in
      bailO (Some (size_buffers G header trailer gssHeaderLen gssTrailerLen iov)) (\<lambda>iov.
      bailO (gssBidSign G (checksumType ctx) rrc key (key_usage (flag_set (ctx_flags ctx) CTX_FLAG_INITIATOR) toktype)
               (put header 0 (token_header toktype (rfc4121Flags ctx False) count count (sendSeq ctx)) iov)) (\<lambda>iov.
      Some (Inr (if toktype = TOK_TYPE_WRAP
                 then put header 4 (store_uint16_be (of_nat gssTrailerLen) @ store_uint16_be (of_nat rrc)) iov else iov))))))"

text \<open>Success returns whether the message is confidential, and the buffers.\<close>

definition gssBidWrapOrGetMIC ::
  "'x krb_env_scheme \<Rightarrow> gss_ctx \<Rightarrow> bool \<Rightarrow> gss_iov_buffer list \<Rightarrow> 16 word \<Rightarrow>
    ((gss_error + bool \<times> gss_iov_buffer list) \<times> gss_ctx) option" where
  "gssBidWrapOrGetMIC G ctx conf_req_flag iov toktype =
     (if encryptionType ctx = ENCTYPE_NULL then Some (Inl (GSS_S_UNAVAILABLE, bidg G GSSBID_KEY_UNAVAILABLE), ctx)
      else case gssBidLocateIov iov GSS_IOV_BUFFER_TYPE_HEADER of
        None \<Rightarrow> Some (Inl (GSS_S_FAILURE, bidg G GSSBID_MISSING_IOV), ctx)
      | Some header \<Rightarrow>
          let iov = (case gssBidLocateIov iov GSS_IOV_BUFFER_TYPE_PADDING of None \<Rightarrow> iov | Some p \<Rightarrow> iov[p := (iov ! p)\<lparr>iov_buffer := []\<rparr>]);
              trailer = gssBidLocateIov iov GSS_IOV_BUFFER_TYPE_TRAILER
          in map_option (\<lambda>r. case r of
                Inl code \<Rightarrow> (Inl (GSS_S_FAILURE, code), ctx)
              | Inr iov \<Rightarrow> (Inr (conf_req_flag, iov), ctx\<lparr>sendSeq := sendSeq ctx + 1\<rparr>))
              (if toktype = TOK_TYPE_WRAP \<and> conf_req_flag then wrap_confidential G ctx iov header trailer
               else if toktype = TOK_TYPE_WRAP then wrap_with_checksum G ctx toktype iov header trailer
               else if toktype = TOK_TYPE_MIC \<or> toktype = TOK_TYPE_DELETE_CONTEXT then wrap_with_checksum G ctx toktype iov header None
               else None))"

section \<open>Lengths\<close>

text \<open>Only the lengths of the buffers mean something; a message without data is not encrypted.\<close>

definition gssBidWrapIovLength ::
  "'x krb_env_scheme \<Rightarrow> gss_ctx \<Rightarrow> bool \<Rightarrow> u32 \<Rightarrow> gss_iov_buffer list \<Rightarrow> gss_error + bool \<times> gss_iov_buffer list" where
  "gssBidWrapIovLength G ctx conf_req_flag qop_req iov =
     (if qop_req \<noteq> 0 then Inl (GSS_S_UNAVAILABLE, bidg G GSSBID_UNKNOWN_QOP)
      else if encryptionType ctx = ENCTYPE_NULL then Inl (GSS_S_UNAVAILABLE, bidg G GSSBID_KEY_UNAVAILABLE)
      else case gssBidLocateIov iov GSS_IOV_BUFFER_TYPE_HEADER of
        None \<Rightarrow> Inl (GSS_S_FAILURE, bidg G GSSBID_MISSING_IOV)
      | Some header \<Rightarrow>
          let trailer = gssBidLocateIov iov GSS_IOV_BUFFER_TYPE_TRAILER;
              padding = gssBidLocateIov iov GSS_IOV_BUFFER_TYPE_PADDING;
              set_len = (\<lambda>i n iov. iov[i := (iov ! i)\<lparr>iov_buffer := replicate n 0\<rparr>]);
              (dataLength, assocDataLength) = gssBidIovMessageLength iov;
              conf_req_flag = (conf_req_flag \<and> \<not> gssBidIsIntegrityOnly iov);
              key = ctx_key ctx
          in map_sum (\<lambda>code. (GSS_S_FAILURE, code)) id
              (bail (krbCryptoLength G key (if conf_req_flag then KRB5_CRYPTO_TYPE_TRAILER else KRB5_CRYPTO_TYPE_CHECKSUM)) (\<lambda>krbTrailerLen.
               bail (if conf_req_flag then krbCryptoLength G key KRB5_CRYPTO_TYPE_HEADER else Inr 0) (\<lambda>krbHeaderLen.
               bail (if conf_req_flag
                     then bail (krbPaddingLength G key (dataLength - assocDataLength + 16)) (\<lambda>krbPadLen.
                          if krbPadLen = 0 \<and> flag_set (gssFlags ctx) GSS_C_DCE_STYLE then krbBlockSize G key else Inr krbPadLen)
                     else Inr 0) (\<lambda>ec.
               let gssTrailerLen = (if conf_req_flag then 16 + krbTrailerLen + ec else krbTrailerLen);
                   iov = (case trailer of None \<Rightarrow> iov | Some t \<Rightarrow> set_len t gssTrailerLen iov);
                   iov = (case padding of None \<Rightarrow> iov | Some p \<Rightarrow> set_len p 0 iov);
                   iov = set_len header (16 + krbHeaderLen + (if trailer = None then gssTrailerLen else 0)) iov
               in Inr (conf_req_flag, iov))))))"

section \<open>Unwrapping\<close>

definition rotateLeft :: "byte list \<Rightarrow> nat \<Rightarrow> byte list" where
  "rotateLeft b rc =
     (if b = [] then []
      else let rc = rc mod length b in if rc = 0 then b else drop rc b @ take rc b)"

text \<open>The number of a message is checked against the window once the message is verified.\<close>

definition check_sequence :: "gss_ctx \<Rightarrow> u64 \<Rightarrow> ((gss_error + unit) \<times> gss_ctx) option" where
  "check_sequence ctx seqnum =
     map_option (\<lambda>q. let (major, q) = sequenceCheck q seqnum; ctx = ctx\<lparr>seqState := Some q\<rparr>
       in (guard (GSS_ERROR major) (major, 0), ctx)) (seqState ctx)"

text \<open>The copy of the header that was encrypted with the message must be that of the token, except for its counts.\<close>

definition same_header :: "byte list \<Rightarrow> byte list \<Rightarrow> bool option" where
  "same_header althdr hdr =
     (if length althdr < 16 \<or> length hdr < 16 then None
      else Some (load_uint16_be althdr = Some TOK_TYPE_WRAP \<and> althdr ! 2 = hdr ! 2 \<and> althdr ! 3 = hdr ! 3 \<and>
                 take 8 (drop 8 althdr) = take 8 (drop 8 hdr)))"

definition unwrap_sealed ::
  "'x krb_env_scheme \<Rightarrow> gss_ctx \<Rightarrow> gss_iov_buffer list \<Rightarrow> nat \<Rightarrow> nat option \<Rightarrow> nat \<Rightarrow> nat \<Rightarrow>
    (gss_error + gss_iov_buffer list) option" where
  "unwrap_sealed G ctx iov header trailer ec rrc =
     (case gssBidDecrypt G (flag_set (gssFlags ctx) GSS_C_DCE_STYLE) ec rrc (ctx_key ctx)
             (key_usage (\<not> flag_set (ctx_flags ctx) CTX_FLAG_INITIATOR) TOK_TYPE_WRAP) iov of
        None \<Rightarrow> None
      | Some (Inl code) \<Rightarrow> Some (Inl (GSS_S_BAD_SIG, code))
      | Some (Inr iov) \<Rightarrow>
          (case same_header (drop ec (case trailer of None \<Rightarrow> drop 16 (iov_buffer (iov ! header)) | Some t \<Rightarrow> iov_buffer (iov ! t)))
                  (iov_buffer (iov ! header)) of
             None \<Rightarrow> None
           | Some ok \<Rightarrow> Some (if ok then Inr iov else Inl (GSS_S_BAD_SIG, bidg G GSSBID_BAD_WRAP_TOKEN))))"

text \<open>A checksum is verified over the header with its counts set to zero.\<close>

definition unwrap_signed ::
  "'x krb_env_scheme \<Rightarrow> gss_ctx \<Rightarrow> 16 word \<Rightarrow> gss_iov_buffer list \<Rightarrow> nat \<Rightarrow> (gss_error + gss_iov_buffer list) option" where
  "unwrap_signed G ctx toktype iov rrc =
     map_option (\<lambda>r. case r of
         Inl code \<Rightarrow> Inl (GSS_S_BAD_SIG, code)
       | Inr valid \<Rightarrow> if valid then Inr iov else Inl (GSS_S_BAD_SIG, 0))
       (gssBidVerify G (checksumType ctx) rrc (ctx_key ctx) (key_usage (\<not> flag_set (ctx_flags ctx) CTX_FLAG_INITIATOR) toktype) iov)"

text \<open>A wrap token: its header, and whether its message is confidential.\<close>

definition unwrap_wrap ::
  "'x krb_env_scheme \<Rightarrow> gss_ctx \<Rightarrow> gss_iov_buffer list \<Rightarrow> nat \<Rightarrow> nat option \<Rightarrow> (gss_error + bool \<times> u64 \<times> gss_iov_buffer list) option" where
  "unwrap_wrap G ctx iov header trailer =
     (let ptr = iov_buffer (iov ! header);
          defective = Some (Inl (GSS_S_DEFECTIVE_TOKEN, bidg G GSSBID_BAD_WRAP_TOKEN)) in
      case (load_uint16_be ptr, load_uint16_be (drop 4 ptr), load_uint16_be (drop 6 ptr), load_uint64_be (drop 8 ptr)) of
        (Some toktype, Some ec, Some rrc, Some seqnum) \<Rightarrow>
          let conf_flag = (ptr ! 2 AND TOK_FLAG_WRAP_CONFIDENTIAL \<noteq> 0); ec = unat ec; rrc = unat rrc in
          if toktype \<noteq> TOK_TYPE_WRAP \<or> ptr ! 3 \<noteq> 0xFF then defective
          else
            bailO (Some (map_sum (\<lambda>code. (GSS_S_FAILURE, code)) id
                     (krbCryptoLength G (ctx_key ctx) (if conf_flag then KRB5_CRYPTO_TYPE_TRAILER else KRB5_CRYPTO_TYPE_CHECKSUM)))) (\<lambda>krbTrailerLen.
            if rrc \<noteq> (case trailer of
                        None \<Rightarrow> krbTrailerLen + (if conf_flag then 16 + (if flag_set (gssFlags ctx) GSS_C_DCE_STYLE then 0 else ec) else 0)
                      | Some _ \<Rightarrow> 0)
            then defective
            else if conf_flag
            then bailO (unwrap_sealed G ctx iov header trailer ec rrc) (\<lambda>iov. Some (Inr (True, seqnum, iov)))
            else if ec \<noteq> krbTrailerLen then defective
            else bailO (unwrap_signed G ctx TOK_TYPE_WRAP (put header 4 [0, 0, 0, 0] iov) rrc) (\<lambda>iov. Some (Inr (False, seqnum, iov))))
      | _ \<Rightarrow> None)"

text \<open>A token without a message of its own.\<close>

definition unwrap_mic ::
  "'x krb_env_scheme \<Rightarrow> gss_ctx \<Rightarrow> 16 word \<Rightarrow> gss_iov_buffer list \<Rightarrow> nat \<Rightarrow> nat option \<Rightarrow> (gss_error + bool \<times> u64 \<times> gss_iov_buffer list) option" where
  "unwrap_mic G ctx toktype iov header trailer =
     (let ptr = iov_buffer (iov ! header) in
      case (load_uint16_be ptr, load_uint64_be (drop 8 ptr)) of
        (Some t, Some seqnum) \<Rightarrow>
          if t \<noteq> toktype \<or> ptr ! 3 \<noteq> 0xFF then Some (Inl (GSS_S_DEFECTIVE_TOKEN, bidg G GSSBID_BAD_WRAP_TOKEN))
          else bailO (unwrap_signed G ctx toktype iov (if trailer \<noteq> None then 0 else length ptr - 16)) (\<lambda>iov. Some (Inr (False, seqnum, iov)))
      | _ \<Rightarrow> None)"

text \<open>
  The answer of the window is replaced by success unless it is an error: duplicates, old numbers and
  gaps, which are only supplementary information, are not reported.
\<close>

definition unwrapToken ::
  "'x krb_env_scheme \<Rightarrow> gss_ctx \<Rightarrow> gss_iov_buffer list \<Rightarrow> 16 word \<Rightarrow> ((gss_error + bool \<times> gss_iov_buffer list) \<times> gss_ctx) option" where
  "unwrapToken G ctx iov toktype =
     (case gssBidLocateIov iov GSS_IOV_BUFFER_TYPE_HEADER of
        None \<Rightarrow> None
      | Some header \<Rightarrow>
          let trailer = gssBidLocateIov iov GSS_IOV_BUFFER_TYPE_TRAILER;
              flags = rfc4121Flags ctx True;
              ptr = iov_buffer (iov ! header)
          in if (case gssBidLocateIov iov GSS_IOV_BUFFER_TYPE_PADDING of None \<Rightarrow> False | Some p \<Rightarrow> iov_buffer (iov ! p) \<noteq> [])
             then Some (Inl (GSS_S_DEFECTIVE_TOKEN, bidg G GSSBID_BAD_PADDING_IOV), ctx)
             else if length ptr < 16 then Some (Inl (GSS_S_DEFECTIVE_TOKEN, bidg G GSSBID_TOK_TRUNC), ctx)
             else if ptr ! 2 AND flags \<noteq> flags then Some (Inl (GSS_S_BAD_SIG, bidg G GSSBID_BAD_DIRECTION), ctx)
             else
               (case (if toktype = TOK_TYPE_WRAP then unwrap_wrap G ctx iov header trailer
                      else if toktype = TOK_TYPE_MIC \<or> toktype = TOK_TYPE_DELETE_CONTEXT then unwrap_mic G ctx toktype iov header trailer
                      else Some (Inl (GSS_S_DEFECTIVE_TOKEN, bidg G GSSBID_BAD_WRAP_TOKEN))) of
                  None \<Rightarrow> None
                | Some (Inl e) \<Rightarrow> Some (Inl e, ctx)
                | Some (Inr (conf_flag, seqnum, iov)) \<Rightarrow>
                    map_option (\<lambda>(r, ctx). (map_sum id (\<lambda>_. (conf_flag, iov)) r, ctx)) (check_sequence ctx seqnum)))"

text \<open>
  The whole token in one buffer: it is turned back and split into the header, the data and the trailer.
  The stream keeps the header and trailer as they are left, and the data too unless they were allocated.
\<close>

definition unwrapStream ::
  "'x krb_env_scheme \<Rightarrow> gss_ctx \<Rightarrow> gss_iov_buffer list \<Rightarrow> nat \<Rightarrow> 16 word \<Rightarrow> ((gss_error + bool \<times> gss_iov_buffer list) \<times> gss_ctx) option" where
  "unwrapStream G ctx iov stream toktype =
     (let fail = (\<lambda>e. Some (Inl e, ctx)); b = iov_buffer (iov ! stream) in
      if toktype \<noteq> TOK_TYPE_WRAP then None
      else if length b < 16 then fail (GSS_S_DEFECTIVE_TOKEN, 0)
      else case filter (\<lambda>j. iov_type (iov ! j) = GSS_IOV_BUFFER_TYPE_DATA) [0..<length iov] of
        [data] \<Rightarrow>
          (case (load_uint16_be (drop 4 b), load_uint16_be (drop 6 b)) of
             (Some ec, Some rrc) \<Rightarrow>
               let conf_req_flag = (b ! 2 AND TOK_FLAG_WRAP_CONFIDENTIAL \<noteq> 0);
                   ec = (if conf_req_flag then unat ec else 0);
                   b = (if rrc \<noteq> 0 then write_at 6 [0, 0] (take 16 b @ rotateLeft (drop 16 b) (unat rrc)) else b)
               in (case bail (if conf_req_flag then krbCryptoLength G (ctx_key ctx) KRB5_CRYPTO_TYPE_HEADER else Inr 0) (\<lambda>krbHeaderLen.
                         map_sum id (\<lambda>l. (16 + krbHeaderLen, ec + (if conf_req_flag then 16 else 0) + l))
                           (krbCryptoLength G (ctx_key ctx) (if conf_req_flag then KRB5_CRYPTO_TYPE_TRAILER else KRB5_CRYPTO_TYPE_CHECKSUM))) of
                     Inl code \<Rightarrow> fail (GSS_S_FAILURE, code)
                   | Inr (hlen, tlen) \<Rightarrow>
                       if length b < hlen + tlen then fail (GSS_S_DEFECTIVE_TOKEN, bidg G GSSBID_TOK_TRUNC)
                       else
                         let text = take (length b - tlen - hlen) (drop hlen b);
                             alloc = iov_ALLOCATE (iov ! data);
                             tdata = (iov ! data)\<lparr>iov_buffer := text, iov_ALLOCATED := (alloc \<or> iov_ALLOCATED (iov ! data))\<rparr>;
                             tiov = [iov_of GSS_IOV_BUFFER_TYPE_HEADER (take hlen b)] @
                               map (\<lambda>j. if j = data then tdata else iov ! j)
                                 (filter (\<lambda>j. iov_type (iov ! j) = GSS_IOV_BUFFER_TYPE_DATA \<or> iov_type (iov ! j) = GSS_IOV_BUFFER_TYPE_SIGN_ONLY) [0..<length iov]) @
                               [iov_of GSS_IOV_BUFFER_TYPE_PADDING [], iov_of GSS_IOV_BUFFER_TYPE_TRAILER (drop (length b - tlen) b)]
                         in map_option (\<lambda>(r, ctx). (map_sum id (\<lambda>(conf, tiov).
                              let tdata = hd (filter (\<lambda>v. iov_type v = GSS_IOV_BUFFER_TYPE_DATA) tiov);
                                  left = iov_buffer (hd tiov) @ (if alloc then text else iov_buffer tdata) @ iov_buffer (last tiov)
                              in (conf, iov[data := tdata, stream := (iov ! stream)\<lparr>iov_buffer := left\<rparr>])) r, ctx))
                              (unwrapToken G ctx tiov toktype))
           | _ \<Rightarrow> None)
      | _ \<Rightarrow> fail (GSS_S_FAILURE, bidg G GSSBID_BAD_STREAM_IOV))"

definition gssBidUnwrapOrVerifyMIC ::
  "'x krb_env_scheme \<Rightarrow> gss_ctx \<Rightarrow> gss_iov_buffer list \<Rightarrow> 16 word \<Rightarrow> ((gss_error + bool \<times> gss_iov_buffer list) \<times> gss_ctx) option" where
  "gssBidUnwrapOrVerifyMIC G ctx iov toktype =
     (if encryptionType ctx = ENCTYPE_NULL then Some (Inl (GSS_S_UNAVAILABLE, bidg G GSSBID_KEY_UNAVAILABLE), ctx)
      else case gssBidLocateIov iov GSS_IOV_BUFFER_TYPE_STREAM of
        Some stream \<Rightarrow> unwrapStream G ctx iov stream toktype
      | None \<Rightarrow> unwrapToken G ctx iov toktype)"

section \<open>The calls of the mechanism\<close>

definition with_established ::
  "'x gss_tables_scheme \<Rightarrow> gss_ctx option \<Rightarrow> (gss_ctx \<Rightarrow> ((gss_error + 'a) \<times> gss_ctx) option) \<Rightarrow> ((gss_error + 'a) \<times> gss_ctx option) option" where
  "with_established G handle f =
     (case handle of
        None \<Rightarrow> Some (Inl (GSS_S_CALL_INACCESSIBLE_READ OR GSS_S_NO_CONTEXT, EINVAL), None)
      | Some ctx \<Rightarrow>
          if sm_state ctx \<noteq> GSSBID_STATE_ESTABLISHED then Some (Inl (GSS_S_NO_CONTEXT, bidg G GSSBID_CONTEXT_INCOMPLETE), handle)
          else map_option (\<lambda>(r, ctx). (r, Some ctx)) (f ctx))"

text \<open>A quality of protection other than the default is refused, after a missing context.\<close>

definition with_qop :: "'x gss_tables_scheme \<Rightarrow> u32 \<Rightarrow> gss_ctx option \<Rightarrow> ((gss_error + 'a) \<times> gss_ctx option) option \<Rightarrow>
    ((gss_error + 'a) \<times> gss_ctx option) option" where
  "with_qop G qop_req handle r =
     (if handle \<noteq> None \<and> qop_req \<noteq> 0 then Some (Inl (GSS_S_UNAVAILABLE, bidg G GSSBID_UNKNOWN_QOP), handle) else r)"

definition gss_wrap_iov ::
  "'x krb_env_scheme \<Rightarrow> gss_ctx option \<Rightarrow> bool \<Rightarrow> u32 \<Rightarrow> gss_iov_buffer list \<Rightarrow> ((gss_error + bool \<times> gss_iov_buffer list) \<times> gss_ctx option) option" where
  "gss_wrap_iov G handle conf_req_flag qop_req iov =
     with_qop G qop_req handle (with_established G handle (\<lambda>ctx. gssBidWrapOrGetMIC G ctx conf_req_flag iov TOK_TYPE_WRAP))"

definition gss_unwrap_iov ::
  "'x krb_env_scheme \<Rightarrow> gss_ctx option \<Rightarrow> gss_iov_buffer list \<Rightarrow> ((gss_error + bool \<times> gss_iov_buffer list) \<times> gss_ctx option) option" where
  "gss_unwrap_iov G handle iov = with_established G handle (\<lambda>ctx. gssBidUnwrapOrVerifyMIC G ctx iov TOK_TYPE_WRAP)"

definition gss_wrap_iov_length ::
  "'x krb_env_scheme \<Rightarrow> gss_ctx option \<Rightarrow> bool \<Rightarrow> u32 \<Rightarrow> gss_iov_buffer list \<Rightarrow> ((gss_error + bool \<times> gss_iov_buffer list) \<times> gss_ctx option) option" where
  "gss_wrap_iov_length G handle conf_req_flag qop_req iov =
     with_established G handle (\<lambda>ctx. Some (gssBidWrapIovLength G ctx conf_req_flag qop_req iov, ctx))"

text \<open>The four buffers of a message are parts of the output, one after another.\<close>

definition gssBidWrap ::
  "'x krb_env_scheme \<Rightarrow> gss_ctx \<Rightarrow> bool \<Rightarrow> u32 \<Rightarrow> byte list \<Rightarrow> ((gss_error + bool \<times> byte list) \<times> gss_ctx) option" where
  "gssBidWrap G ctx conf_req_flag qop_req message =
     (case gssBidWrapIovLength G ctx conf_req_flag qop_req
             [iov_of GSS_IOV_BUFFER_TYPE_HEADER [], iov_of GSS_IOV_BUFFER_TYPE_DATA message,
              iov_of GSS_IOV_BUFFER_TYPE_PADDING [], iov_of GSS_IOV_BUFFER_TYPE_TRAILER []] of
        Inl e \<Rightarrow> Some (Inl e, ctx)
      | Inr (_, iov) \<Rightarrow>
          map_option (\<lambda>(r, ctx). (map_sum id (\<lambda>(conf, iov). (conf, concat (map iov_buffer iov))) r, ctx))
            (gssBidWrapOrGetMIC G ctx conf_req_flag iov TOK_TYPE_WRAP))"

definition gss_wrap ::
  "'x krb_env_scheme \<Rightarrow> gss_ctx option \<Rightarrow> bool \<Rightarrow> u32 \<Rightarrow> byte list \<Rightarrow> ((gss_error + bool \<times> byte list) \<times> gss_ctx option) option" where
  "gss_wrap G handle conf_req_flag qop_req message =
     with_established G handle (\<lambda>ctx. gssBidWrap G ctx conf_req_flag qop_req message)"

definition gss_unwrap ::
  "'x krb_env_scheme \<Rightarrow> gss_ctx option \<Rightarrow> byte list \<Rightarrow> ((gss_error + bool \<times> byte list) \<times> gss_ctx option) option" where
  "gss_unwrap G handle token =
     with_established G handle (\<lambda>ctx.
       map_option (\<lambda>(r, ctx). (map_sum id (\<lambda>(conf, iov). (conf, iov_buffer (iov ! 1))) r, ctx))
         (gssBidUnwrapOrVerifyMIC G ctx
            [iov_of GSS_IOV_BUFFER_TYPE_STREAM token, (iov_of GSS_IOV_BUFFER_TYPE_DATA [])\<lparr>iov_ALLOCATE := True\<rparr>] TOK_TYPE_WRAP))"

definition gss_get_mic ::
  "'x krb_env_scheme \<Rightarrow> gss_ctx option \<Rightarrow> u32 \<Rightarrow> byte list \<Rightarrow> ((gss_error + byte list) \<times> gss_ctx option) option" where
  "gss_get_mic G handle qop_req message =
     with_qop G qop_req handle (with_established G handle (\<lambda>ctx.
       map_option (\<lambda>(r, ctx). (map_sum id (\<lambda>(_, iov). iov_buffer (iov ! 1)) r, ctx))
         (gssBidWrapOrGetMIC G ctx False
            [iov_of GSS_IOV_BUFFER_TYPE_DATA message, (iov_of GSS_IOV_BUFFER_TYPE_HEADER [])\<lparr>iov_ALLOCATE := True\<rparr>] TOK_TYPE_MIC)))"

text \<open>There is no check that there is a context, or that it is established.\<close>

definition gss_verify_mic ::
  "'x krb_env_scheme \<Rightarrow> gss_ctx option \<Rightarrow> byte list \<Rightarrow> byte list \<Rightarrow> ((gss_error + unit) \<times> gss_ctx option) option" where
  "gss_verify_mic G handle message token =
     (if length token < 16 then Some (Inl (GSS_S_BAD_SIG, bidg G GSSBID_TOK_TRUNC), handle)
      else case handle of
        None \<Rightarrow> None
      | Some ctx \<Rightarrow>
          map_option (\<lambda>(r, ctx). (map_sum id (\<lambda>_. ()) r, Some ctx))
            (gssBidUnwrapOrVerifyMIC G ctx [iov_of GSS_IOV_BUFFER_TYPE_DATA message, iov_of GSS_IOV_BUFFER_TYPE_HEADER token] TOK_TYPE_MIC))"

text \<open>The largest message for an output of a given size; the numbers have 32 bits.\<close>

definition gss_wrap_size_limit ::
  "'x krb_env_scheme \<Rightarrow> gss_ctx option \<Rightarrow> bool \<Rightarrow> u32 \<Rightarrow> u32 \<Rightarrow> ((gss_error + u32) \<times> gss_ctx option) option" where
  "gss_wrap_size_limit G handle conf_req_flag qop_req req_output_size =
     with_established G handle (\<lambda>ctx. Some (map_sum id (\<lambda>(_, iov).
         let overhead = of_nat (length (iov_buffer (iov ! 0)) + length (iov_buffer (iov ! 3)))
         in if iov_buffer (iov ! 2) = [] \<and> overhead < req_output_size then req_output_size - overhead else 0)
       (gssBidWrapIovLength G ctx conf_req_flag qop_req
          [iov_of GSS_IOV_BUFFER_TYPE_HEADER [], iov_of GSS_IOV_BUFFER_TYPE_DATA (replicate (unat req_output_size) 0),
           iov_of GSS_IOV_BUFFER_TYPE_PADDING [], iov_of GSS_IOV_BUFFER_TYPE_TRAILER []]), ctx))"

text \<open>
  A token that deletes the context: the context is freed, although the caller, which passed its handle by
  value, still has it.  No context in the result is a freed one.
\<close>

definition gss_process_context_token ::
  "'x krb_env_scheme \<Rightarrow> gss_ctx option \<Rightarrow> byte list \<Rightarrow> 'd cache_heap \<Rightarrow> ((gss_error + unit) \<times> gss_ctx option \<times> 'd cache_heap) option" where
  "gss_process_context_token G handle token heap =
     map_option (\<lambda>(r, h). case r of
         Inl e \<Rightarrow> (Inl e, h, heap)
       | Inr _ \<Rightarrow> (Inr (), None, gssBidReleaseContext h heap))
       (with_established G handle (\<lambda>ctx. gssBidUnwrapOrVerifyMIC G ctx [iov_of GSS_IOV_BUFFER_TYPE_HEADER token] TOK_TYPE_DELETE_CONTEXT))"

text \<open>The token that is made for the peer stays in a local buffer; the caller always gets an empty one.\<close>

definition gss_delete_sec_context ::
  "'x krb_env_scheme \<Rightarrow> gss_ctx option \<Rightarrow> bool \<Rightarrow> 'd cache_heap \<Rightarrow> (byte list \<times> gss_ctx option \<times> 'd cache_heap) option" where
  "gss_delete_sec_context G handle want_token heap =
     (case handle of
        None \<Rightarrow> Some ([], None, heap)
      | Some ctx \<Rightarrow>
          if \<not> want_token then Some ([], None, gssBidReleaseContext handle heap)
          else map_option (\<lambda>(_, ctx). ([], None, gssBidReleaseContext (Some ctx) heap))
            (gssBidWrapOrGetMIC G ctx False
               [iov_of GSS_IOV_BUFFER_TYPE_DATA [], (iov_of GSS_IOV_BUFFER_TYPE_HEADER [])\<lparr>iov_ALLOCATE := True\<rparr>] TOK_TYPE_DELETE_CONTEXT))"

section \<open>Lemmas\<close>

text \<open>The header of a token, read and overwritten.\<close>

lemma token_header_length [simp]: "length (token_header t f ec rrc n) = 16"
  by (simp add: token_header_def)

lemma store_uint16_zero: "store_uint16_be 0 = [0, 0]"
  by (simp add: store_uint16_be_def)

lemma token_header_read [simp]:
  "load_uint16_be (token_header t f ec rrc n @ r) = Some t" "(token_header t f ec rrc n @ r) ! 2 = f" "(token_header t f ec rrc n @ r) ! 3 = 0xFF"
  "load_uint16_be (drop 4 (token_header t f ec rrc n @ r)) = Some ec" "load_uint16_be (drop 6 (token_header t f ec rrc n @ r)) = Some rrc"
  "load_uint64_be (drop 8 (token_header t f ec rrc n @ r)) = Some n"
proof -
  have d: "drop 4 (token_header t f ec rrc n @ r) = store_uint16_be ec @ store_uint16_be rrc @ store_uint64_be n @ r"
    "drop 6 (token_header t f ec rrc n @ r) = store_uint16_be rrc @ store_uint64_be n @ r"
    "drop 8 (token_header t f ec rrc n @ r) = store_uint64_be n @ r"
    by (simp_all add: token_header_def)
  show "load_uint16_be (token_header t f ec rrc n @ r) = Some t" by (simp add: token_header_def load_store_uint16)
  show "(token_header t f ec rrc n @ r) ! 2 = f" "(token_header t f ec rrc n @ r) ! 3 = 0xFF"
    by (simp_all add: token_header_def nth_append store_uint16_be_def)
  show "load_uint16_be (drop 4 (token_header t f ec rrc n @ r)) = Some ec" "load_uint16_be (drop 6 (token_header t f ec rrc n @ r)) = Some rrc"
    "load_uint64_be (drop 8 (token_header t f ec rrc n @ r)) = Some n"
    unfolding d by (simp_all add: load_store_uint16 load_store_uint64)
qed

lemmas token_header_reads [simp] = token_header_read[where r = "[]", unfolded append_Nil2] token_header_read(4-6)[simplified]

lemma token_header_write:
  "write_at 4 (store_uint16_be ec' @ store_uint16_be rrc') (token_header t f ec rrc n @ r) = token_header t f ec' rrc' n @ r"
  "write_at 6 (store_uint16_be rrc') (token_header t f ec rrc n @ r) = token_header t f ec rrc' n @ r"
  "write_at 4 [0, 0, 0, 0] (token_header t f ec rrc n @ r) = token_header t f 0 0 n @ r"
  by (simp_all add: write_at_def token_header_def store_uint16_zero)

lemma write_at_all: "length b = length bs \<Longrightarrow> write_at 0 bs b = bs"
  by (simp add: write_at_def)

text \<open>A rotation is that of lists.\<close>

theorem rotateLeft_rotate: "rotateLeft b rc = rotate rc b"
  by (simp add: rotateLeft_def rotate_drop_take Let_def)

text \<open>The buffers of a message with its own trailer.\<close>

abbreviation message_iov :: "byte list \<Rightarrow> gss_iov_buffer \<Rightarrow> byte list \<Rightarrow> gss_iov_buffer list" where
  "message_iov h d t \<equiv> [iov_of GSS_IOV_BUFFER_TYPE_HEADER h, d, iov_of GSS_IOV_BUFFER_TYPE_PADDING [], iov_of GSS_IOV_BUFFER_TYPE_TRAILER t]"

lemma locate_message:
  assumes "iov_type d = GSS_IOV_BUFFER_TYPE_DATA"
  shows "gssBidLocateIov (message_iov h d t) GSS_IOV_BUFFER_TYPE_HEADER = Some 0" "gssBidLocateIov (message_iov h d t) GSS_IOV_BUFFER_TYPE_PADDING = Some 2"
    "gssBidLocateIov (message_iov h d t) GSS_IOV_BUFFER_TYPE_TRAILER = Some 3" "gssBidLocateIov (message_iov h d t) GSS_IOV_BUFFER_TYPE_STREAM = None"
  using assms by (simp_all add: gssBidLocateIov_def upt_conv_Cons numeral_2_eq_2 numeral_3_eq_3)

lemma message_parts_message:
  assumes "iov_type d = GSS_IOV_BUFFER_TYPE_DATA"
  shows "message_parts (message_iov h d t) =
    [\<lparr>k_flags = KRB5_CRYPTO_TYPE_EMPTY, k_buf = 0, k_off = 0, k_len = length h\<rparr>,
     \<lparr>k_flags = KRB5_CRYPTO_TYPE_DATA, k_buf = 1, k_off = 0, k_len = length (iov_buffer d)\<rparr>,
     \<lparr>k_flags = KRB5_CRYPTO_TYPE_DATA, k_buf = 2, k_off = 0, k_len = 0\<rparr>,
     \<lparr>k_flags = KRB5_CRYPTO_TYPE_EMPTY, k_buf = 3, k_off = 0, k_len = length t\<rparr>]"
  using assms by (simp add: message_parts_def upt_conv_Cons gssBidMapCryptoFlag_def numeral_2_eq_2 numeral_3_eq_3)

text \<open>What Kerberos is given to encrypt or decrypt, and where its results go.\<close>

definition sealed_parts :: "byte list \<Rightarrow> byte list \<Rightarrow> byte list \<Rightarrow> byte list \<Rightarrow> (krb5_cryptotype \<times> byte list) list" where
  "sealed_parts hb d e tb =
     [(KRB5_CRYPTO_TYPE_HEADER, hb), (KRB5_CRYPTO_TYPE_DATA, d), (KRB5_CRYPTO_TYPE_DATA, []), (KRB5_CRYPTO_TYPE_DATA, e), (KRB5_CRYPTO_TYPE_TRAILER, tb)]"

lemma map_message:
  assumes "iov_type d = GSS_IOV_BUFFER_TYPE_DATA" "krbCryptoLength G key KRB5_CRYPTO_TYPE_HEADER = Inr (length hb)"
    "krbCryptoLength G key KRB5_CRYPTO_TYPE_TRAILER = Inr (length tb)" "length hdr = 16" "length e = ec + 16"
  obtains kiov where "mapIov G dce ec 0 key (message_iov (hdr @ hb) d (e @ tb)) = Some (Inr kiov)"
    "read_parts (message_iov (hdr @ hb) d (e @ tb)) kiov = sealed_parts hb (iov_buffer d) e tb"
    "\<And>hb' d' e' tb'. length hb' = length hb \<Longrightarrow> length d' = length (iov_buffer d) \<Longrightarrow> length e' = length e \<Longrightarrow> length tb' = length tb \<Longrightarrow>
       write_parts kiov [hb', d', [], e', tb'] (message_iov (hdr @ hb) d (e @ tb)) =
         message_iov (hdr @ hb') (d\<lparr>iov_buffer := d'\<rparr>) (e' @ tb')"
proof -
  let ?kiov = "[\<lparr>k_flags = KRB5_CRYPTO_TYPE_HEADER, k_buf = 0, k_off = 16, k_len = length hb\<rparr>,
     \<lparr>k_flags = KRB5_CRYPTO_TYPE_DATA, k_buf = 1, k_off = 0, k_len = length (iov_buffer d)\<rparr>,
     \<lparr>k_flags = KRB5_CRYPTO_TYPE_DATA, k_buf = 2, k_off = 0, k_len = 0\<rparr>,
     \<lparr>k_flags = KRB5_CRYPTO_TYPE_DATA, k_buf = 3, k_off = 0, k_len = ec + 16\<rparr>,
     \<lparr>k_flags = KRB5_CRYPTO_TYPE_TRAILER, k_buf = 3, k_off = ec + 16, k_len = length tb\<rparr>]"
  show ?thesis
  proof (rule that[of ?kiov])
    show "mapIov G dce ec 0 key (message_iov (hdr @ hb) d (e @ tb)) = Some (Inr ?kiov)"
      using assms by (simp add: mapIov_def locate_message message_parts_message Let_def)
    show "read_parts (message_iov (hdr @ hb) d (e @ tb)) ?kiov = sealed_parts hb (iov_buffer d) e tb"
      using assms by (simp add: read_parts_def sealed_parts_def)
    show "write_parts ?kiov [hb', d', [], e', tb'] (message_iov (hdr @ hb) d (e @ tb)) =
         message_iov (hdr @ hb') (d\<lparr>iov_buffer := d'\<rparr>) (e' @ tb')"
      if "length hb' = length hb" "length d' = length (iov_buffer d)" "length e' = length e" "length tb' = length tb" for hb' d' e' tb'
      using assms that by (simp add: put_def write_at_def numeral_2_eq_2 numeral_3_eq_3)
  qed
qed

text \<open>
  What is needed of Kerberos for a key and a usage: decryption undoes encryption and no length changes,
  for text whose length needs no padding; padding makes lengths such; and the checksum is a
  function of the buffers with data or to be signed.
\<close>

definition text_length :: "(krb5_cryptotype \<times> byte list) list \<Rightarrow> nat" where
  "text_length parts = sum_list (map (\<lambda>(f, b). if f = KRB5_CRYPTO_TYPE_DATA then length b else 0) parts)"

definition cipher_law :: "'x krb_env_scheme \<Rightarrow> krb5_keyblock \<Rightarrow> nat \<Rightarrow> nat \<Rightarrow> nat \<Rightarrow> bool" where
  "cipher_law G key usage h t \<longleftrightarrow>
     krbCryptoLength G key KRB5_CRYPTO_TYPE_HEADER = Inr h \<and> krbCryptoLength G key KRB5_CRYPTO_TYPE_TRAILER = Inr t \<and>
     (\<forall>hb d e tb. length hb = h \<and> length tb = t \<and> krbPaddingLength G key (length d + length e) = Inr 0 \<longrightarrow>
        (\<exists>hb' d' e' tb' hb'' tb''. krb5_c_encrypt_iov G key usage (sealed_parts hb d e tb) = Inr [hb', d', [], e', tb'] \<and>
           length hb' = h \<and> length d' = length d \<and> length e' = length e \<and> length tb' = t \<and>
           length hb'' = h \<and> length tb'' = t \<and>
           krb5_c_decrypt_iov G key usage (sealed_parts hb' d' e' tb') = Inr [hb'', d, [], e, tb'']))"

definition padding_law :: "'x krb_env_scheme \<Rightarrow> krb5_keyblock \<Rightarrow> bool" where
  "padding_law G key \<longleftrightarrow>
     (\<exists>b. krbBlockSize G key = Inr b \<and> b < 2 ^ 16 \<and>
        (\<forall>n. \<exists>p. krbPaddingLength G key n = Inr p \<and> p < 2 ^ 16 \<and> krbPaddingLength G key (n + p) = Inr 0 \<and>
               (p = 0 \<longrightarrow> krbPaddingLength G key (n + b) = Inr 0)))"

definition covered :: "(krb5_cryptotype \<times> byte list) list \<Rightarrow> byte list" where
  "covered parts = concat (map snd (filter (\<lambda>(f, _). f = KRB5_CRYPTO_TYPE_DATA \<or> f = KRB5_CRYPTO_TYPE_SIGN_ONLY) parts))"

definition checksum_law :: "'x krb_env_scheme \<Rightarrow> int \<Rightarrow> krb5_keyblock \<Rightarrow> nat \<Rightarrow> (byte list \<Rightarrow> byte list) \<Rightarrow> nat \<Rightarrow> bool" where
  "checksum_law G cksumtype key usage mac n \<longleftrightarrow>
     krbCryptoLength G key KRB5_CRYPTO_TYPE_CHECKSUM = Inr n \<and> 0 < n \<and> n < 2 ^ 16 \<and> (\<forall>b. length (mac b) = n) \<and>
     (\<forall>parts c. length c = n \<longrightarrow>
        krb5_c_make_checksum_iov G cksumtype key usage (parts @ [(KRB5_CRYPTO_TYPE_CHECKSUM, c)]) = Inr (mac (covered parts)) \<and>
        krb5_c_verify_checksum_iov G cksumtype key usage (parts @ [(KRB5_CRYPTO_TYPE_CHECKSUM, c)]) = Inr (c = mac (covered parts)))"

text \<open>The extra count of a message, which makes its text a whole number of blocks.\<close>

lemma wrap_lengths_message:
  assumes "cipher_law G key usage h t" "padding_law G key"
  obtains ec where "wrap_lengths G dce key True n = Inr (ec, 0, 16 + h, ec + 16 + t)" "ec < 2 ^ 16"
    "krbPaddingLength G key (n + (ec + 16)) = Inr 0"
    "bail (krbPaddingLength G key (n + 16)) (\<lambda>p. if p = 0 \<and> dce then krbBlockSize G key else Inr p) = Inr ec"
proof -
  obtain b p where b: "krbBlockSize G key = Inr b" "b < 2 ^ 16"
    and p: "krbPaddingLength G key (n + 16) = Inr p" "p < 2 ^ 16" "krbPaddingLength G key (n + 16 + p) = Inr 0"
      "p = 0 \<longrightarrow> krbPaddingLength G key (n + 16 + b) = Inr 0"
    using assms(2) unfolding padding_law_def by blast
  define ec where "ec = (if p = 0 \<and> dce then b else p)"
  have "wrap_lengths G dce key True n = Inr (ec, 0, 16 + h, ec + 16 + t)"
    using assms(1) b p by (simp add: wrap_lengths_def cipher_law_def ec_def Let_def)
  moreover have "krbPaddingLength G key (n + (ec + 16)) = Inr 0" using p(3,4) by (simp add: ec_def ac_simps)
  moreover have "bail (krbPaddingLength G key (n + 16)) (\<lambda>p. if p = 0 \<and> dce then krbBlockSize G key else Inr p) = Inr ec"
    using b p by (simp add: ec_def)
  ultimately show ?thesis using that b(2) p(2) by (simp add: ec_def)
qed

text \<open>Sealing a message, and opening it again.\<close>

lemma encrypt_message:
  assumes "cipher_law G key usage (length hb) (length tb)" "iov_type d = GSS_IOV_BUFFER_TYPE_DATA" "length hdr = 16" "length e = ec + 16"
    and "krbPaddingLength G key (length (iov_buffer d) + (ec + 16)) = Inr 0"
  obtains hb' d' e' tb' hb'' tb'' where
    "gssBidEncrypt G dce ec 0 key usage (message_iov (hdr @ hb) d (e @ tb)) = Some (Inr (message_iov (hdr @ hb') (d\<lparr>iov_buffer := d'\<rparr>) (e' @ tb')))"
    "length hb' = length hb" "length d' = length (iov_buffer d)" "length e' = ec + 16" "length tb' = length tb"
    "length hb'' = length hb" "length tb'' = length tb"
    "krb5_c_decrypt_iov G key usage (sealed_parts hb' d' e' tb') = Inr [hb'', iov_buffer d, [], e, tb'']"
proof -
  have l: "krbCryptoLength G key KRB5_CRYPTO_TYPE_HEADER = Inr (length hb)" "krbCryptoLength G key KRB5_CRYPTO_TYPE_TRAILER = Inr (length tb)"
    using assms(1) by (simp_all add: cipher_law_def)
  from map_message[OF assms(2) l assms(3,4), where dce = dce] obtain kiov where
    k: "mapIov G dce ec 0 key (message_iov (hdr @ hb) d (e @ tb)) = Some (Inr kiov)"
    "read_parts (message_iov (hdr @ hb) d (e @ tb)) kiov = sealed_parts hb (iov_buffer d) e tb"
    and w: "\<And>hb' d' e' tb'. length hb' = length hb \<Longrightarrow> length d' = length (iov_buffer d) \<Longrightarrow> length e' = length e \<Longrightarrow> length tb' = length tb \<Longrightarrow>
       write_parts kiov [hb', d', [], e', tb'] (message_iov (hdr @ hb) d (e @ tb)) = message_iov (hdr @ hb') (d\<lparr>iov_buffer := d'\<rparr>) (e' @ tb')"
    by blast
  have "krbPaddingLength G key (length (iov_buffer d) + length e) = Inr 0" using assms(4,5) by simp
  then have "length hb = length hb \<and> length tb = length tb \<and> krbPaddingLength G key (length (iov_buffer d) + length e) = Inr 0" by simp
  from conjunct2[OF conjunct2[OF assms(1)[unfolded cipher_law_def]], THEN spec, THEN spec, THEN spec, THEN spec, THEN mp, OF this] obtain hb' d' e' tb' hb'' tb'' where c: "krb5_c_encrypt_iov G key usage (sealed_parts hb (iov_buffer d) e tb) = Inr [hb', d', [], e', tb']"
    "length hb' = length hb" "length d' = length (iov_buffer d)" "length e' = length e" "length tb' = length tb"
    "length hb'' = length hb" "length tb'' = length tb"
    "krb5_c_decrypt_iov G key usage (sealed_parts hb' d' e' tb') = Inr [hb'', iov_buffer d, [], e, tb'']"
    by (elim exE conjE) (rule that)
  have "gssBidEncrypt G dce ec 0 key usage (message_iov (hdr @ hb) d (e @ tb)) = Some (Inr (message_iov (hdr @ hb') (d\<lparr>iov_buffer := d'\<rparr>) (e' @ tb')))"
    using w[OF c(2-5)] by (simp add: gssBidEncrypt_def k c(1))
  with c show ?thesis using that assms(4) by simp
qed

lemma decrypt_message:
  assumes "krb5_c_decrypt_iov G key usage (sealed_parts hb (iov_buffer d) e tb) = Inr [hb', d', [], e', tb']"
    and "krbCryptoLength G key KRB5_CRYPTO_TYPE_HEADER = Inr (length hb)" "krbCryptoLength G key KRB5_CRYPTO_TYPE_TRAILER = Inr (length tb)"
    and "iov_type d = GSS_IOV_BUFFER_TYPE_DATA" "length hdr = 16" "length e = ec + 16"
    and "length hb' = length hb" "length d' = length (iov_buffer d)" "length e' = length e" "length tb' = length tb"
  shows "gssBidDecrypt G dce ec 0 key usage (message_iov (hdr @ hb) d (e @ tb)) = Some (Inr (message_iov (hdr @ hb') (d\<lparr>iov_buffer := d'\<rparr>) (e' @ tb')))"
proof -
  from map_message[OF assms(4,2,3,5,6), where dce = dce] obtain kiov where
    k: "mapIov G dce ec 0 key (message_iov (hdr @ hb) d (e @ tb)) = Some (Inr kiov)"
    "read_parts (message_iov (hdr @ hb) d (e @ tb)) kiov = sealed_parts hb (iov_buffer d) e tb"
    "write_parts kiov [hb', d', [], e', tb'] (message_iov (hdr @ hb) d (e @ tb)) = message_iov (hdr @ hb') (d\<lparr>iov_buffer := d'\<rparr>) (e' @ tb')"
    using assms(7-10) by metis
  then show ?thesis by (simp add: gssBidDecrypt_def assms(1))
qed

lemma message_length:
  assumes "iov_type d = GSS_IOV_BUFFER_TYPE_DATA"
  shows "gssBidIovMessageLength (message_iov h d t) = (length (iov_buffer d), 0)" "\<not> gssBidIsIntegrityOnly (message_iov h d t)"
  using assms by (simp_all add: gssBidIovMessageLength_def gssBidIsIntegrityOnly_def)

lemma message_update:
  "(message_iov h d t)[0 := iov_of GSS_IOV_BUFFER_TYPE_HEADER h'] = message_iov h' d t"
  "(message_iov h d t)[2 := iov_of GSS_IOV_BUFFER_TYPE_PADDING []] = message_iov h d t"
  "(message_iov h d t)[3 := iov_of GSS_IOV_BUFFER_TYPE_TRAILER t'] = message_iov h d t'"
  "(message_iov h d t) ! 0 = iov_of GSS_IOV_BUFFER_TYPE_HEADER h" "(message_iov h d t) ! 2 = iov_of GSS_IOV_BUFFER_TYPE_PADDING []"
  "(message_iov h d t) ! 3 = iov_of GSS_IOV_BUFFER_TYPE_TRAILER t"
  by (simp_all add: numeral_2_eq_2 numeral_3_eq_3)

lemma message_put:
  "put 0 off b (message_iov h d t) = message_iov (write_at off b h) d t" "put 3 off b (message_iov h d t) = message_iov h d (write_at off b t)"
  by (simp_all add: put_def numeral_3_eq_3)

lemma size_message:
  "size_buffers G 0 (Some 3) (length h) (length t) (message_iov h d t) = Inr (message_iov h d t)"
  by (simp add: size_buffers_def sized_iov_def Let_def message_update)

text \<open>The length of the buffers of a message is what wrapping it needs.\<close>

lemma wrap_length_message:
  assumes "encryptionType ctx \<noteq> ENCTYPE_NULL"
    and "krbCryptoLength G (ctx_key ctx) (if conf then KRB5_CRYPTO_TYPE_TRAILER else KRB5_CRYPTO_TYPE_CHECKSUM) = Inr t"
    and "conf \<longrightarrow> krbCryptoLength G (ctx_key ctx) KRB5_CRYPTO_TYPE_HEADER = Inr h \<and>
      bail (krbPaddingLength G (ctx_key ctx) (length msg + 16)) (\<lambda>p. if p = 0 \<and> flag_set (gssFlags ctx) GSS_C_DCE_STYLE then krbBlockSize G (ctx_key ctx) else Inr p) = Inr ec"
  shows "gssBidWrapIovLength G ctx conf 0 (message_iov [] (iov_of GSS_IOV_BUFFER_TYPE_DATA msg) []) =
    Inr (conf, message_iov (replicate (if conf then 16 + h else 16) 0) (iov_of GSS_IOV_BUFFER_TYPE_DATA msg) (replicate (if conf then ec + 16 + t else t) 0))"
proof -
  have [simp]: "iov_type (iov_of GSS_IOV_BUFFER_TYPE_DATA msg) = GSS_IOV_BUFFER_TYPE_DATA" by simp
  show ?thesis
  proof (cases conf)
    case True
    with assms show ?thesis
      by (simp add: gssBidWrapIovLength_def locate_message message_length message_update Let_def ac_simps)
  next
    case False
    with assms show ?thesis
      by (simp add: gssBidWrapIovLength_def locate_message message_length message_update Let_def)
  qed
qed

text \<open>The token of a confidential message.\<close>

lemma wrap_sealed_message:
  assumes "encryptionType ctx \<noteq> ENCTYPE_NULL" "padding_law G (ctx_key ctx)"
    and "cipher_law G (ctx_key ctx) (key_usage (flag_set (ctx_flags ctx) CTX_FLAG_INITIATOR) TOK_TYPE_WRAP) h t"
  obtains ec hb d e tb hb'' tb'' hdr where
    "gssBidWrap G ctx True 0 msg = Some (Inr (True, hdr @ hb @ d @ e @ tb), ctx\<lparr>sendSeq := sendSeq ctx + 1\<rparr>)"
    "hdr = token_header TOK_TYPE_WRAP (rfc4121Flags ctx False OR TOK_FLAG_WRAP_CONFIDENTIAL) (of_nat ec) 0 (sendSeq ctx)" "ec < 2 ^ 16"
    "length hb = h" "length d = length msg" "length e = ec + 16" "length tb = t" "length hb'' = h" "length tb'' = t"
    "krb5_c_decrypt_iov G (ctx_key ctx) (key_usage (flag_set (ctx_flags ctx) CTX_FLAG_INITIATOR) TOK_TYPE_WRAP) (sealed_parts hb d e tb) =
       Inr [hb'', msg, [], replicate ec 0xFF @ hdr, tb'']"
proof -
  let ?dce = "flag_set (gssFlags ctx) GSS_C_DCE_STYLE" and ?D = "iov_of GSS_IOV_BUFFER_TYPE_DATA msg"
  let ?u = "key_usage (flag_set (ctx_flags ctx) CTX_FLAG_INITIATOR) TOK_TYPE_WRAP"
  obtain ec where ec: "wrap_lengths G ?dce (ctx_key ctx) True (length msg) = Inr (ec, 0, 16 + h, ec + 16 + t)" "ec < 2 ^ 16"
    "krbPaddingLength G (ctx_key ctx) (length msg + (ec + 16)) = Inr 0"
    "bail (krbPaddingLength G (ctx_key ctx) (length msg + 16)) (\<lambda>p. if p = 0 \<and> ?dce then krbBlockSize G (ctx_key ctx) else Inr p) = Inr ec"
    using wrap_lengths_message[OF assms(3,2), of ?dce "length msg"] by blast
  define hdr where "hdr = token_header TOK_TYPE_WRAP (rfc4121Flags ctx False OR TOK_FLAG_WRAP_CONFIDENTIAL) (of_nat ec) 0 (sendSeq ctx)"
  let ?hb = "replicate h 0 :: byte list" and ?tb = "replicate t 0 :: byte list" and ?e = "replicate ec 0xFF @ hdr"
  have hl: "length hdr = 16" by (simp add: hdr_def)
  have law: "cipher_law G (ctx_key ctx) ?u (length ?hb) (length ?tb)" using assms(3) by simp
  have pad: "krbPaddingLength G (ctx_key ctx) (length (iov_buffer ?D) + (ec + 16)) = Inr 0" using ec(3) by simp
  have dt: "iov_type ?D = GSS_IOV_BUFFER_TYPE_DATA" and el: "length ?e = ec + 16" using hl by simp_all
  obtain hb' d' e' tb' hb'' tb'' where
    c: "gssBidEncrypt G ?dce ec 0 (ctx_key ctx) ?u (message_iov (hdr @ ?hb) ?D (?e @ ?tb)) =
      Some (Inr (message_iov (hdr @ hb') (?D\<lparr>iov_buffer := d'\<rparr>) (e' @ tb')))"
    "length hb' = h" "length d' = length msg" "length e' = ec + 16" "length tb' = t" "length hb'' = h" "length tb'' = t"
    "krb5_c_decrypt_iov G (ctx_key ctx) ?u (sealed_parts hb' d' e' tb') = Inr [hb'', msg, [], ?e, tb'']"
    by (rule encrypt_message[OF law dt hl el pad, where dce = ?dce]) (rule that; simp)
  have w1: "write_at 0 hdr (replicate (16 + h) 0) = hdr @ ?hb" and w2: "write_at 0 ?e (replicate (ec + 16 + t) 0) = ?e @ ?tb"
    by (simp_all add: write_at_def hl)
  have w3: "write_at 6 (store_uint16_be 0) (hdr @ hb') = hdr @ hb'" by (simp add: hdr_def token_header_write)
  have len: "gssBidWrapIovLength G ctx True 0 (message_iov [] ?D []) = Inr (True, message_iov (replicate (16 + h) 0) ?D (replicate (ec + 16 + t) 0))"
    using wrap_length_message[OF assms(1), of G True t h msg ec] assms(3) ec(4) by (simp add: cipher_law_def)
  have size: "size_buffers G 0 (Some 3) (16 + h) (ec + 16 + t) (message_iov (replicate (16 + h) 0) ?D (replicate (ec + 16 + t) 0)) =
      Inr (message_iov (replicate (16 + h) 0) ?D (replicate (ec + 16 + t) 0))"
    using size_message[of G "replicate (16 + h) 0" "replicate (ec + 16 + t) 0" ?D] by (simp only: length_replicate)
  have "wrap_confidential G ctx (message_iov (replicate (16 + h) 0) ?D (replicate (ec + 16 + t) 0)) 0 (Some 3) =
      Some (Inr (message_iov (hdr @ hb') (?D\<lparr>iov_buffer := d'\<rparr>) (e' @ tb')))"
    unfolding wrap_confidential_def Let_def
    by (simp only: message_length gss_iov_buffer.simps prod.case option.simps simp_thms diff_zero ec(1) bailO_Inr size message_put
        hdr_def[symmetric] w1 w2 c(1)) (simp add: w3)
  then have "gssBidWrap G ctx True 0 msg = Some (Inr (True, hdr @ hb' @ d' @ e' @ tb'), ctx\<lparr>sendSeq := sendSeq ctx + 1\<rparr>)"
    using assms(1) by (simp add: gssBidWrap_def len gssBidWrapOrGetMIC_def locate_message message_update Let_def)
  then show ?thesis using that[OF _ hdr_def ec(2) c(2-8)] by blast
qed

text \<open>The token of a message that is only signed.\<close>

lemma checksum_message:
  assumes "checksum_law G ct key usage mac (length c)" "iov_type d = GSS_IOV_BUFFER_TYPE_DATA" "length hdr = 16"
  shows "gssBidSign G ct 0 key usage (message_iov hdr d c) = Some (Inr (message_iov hdr d (mac (iov_buffer d @ hdr))))"
    "gssBidVerify G ct 0 key usage (message_iov hdr d c) = Some (Inr (c = mac (iov_buffer d @ hdr)))"
proof -
  let ?iov = "message_iov hdr d c"
  let ?kiov = "message_parts ?iov @ [\<lparr>k_flags = KRB5_CRYPTO_TYPE_SIGN_ONLY, k_buf = 0, k_off = 0, k_len = 16\<rparr>,
     \<lparr>k_flags = KRB5_CRYPTO_TYPE_CHECKSUM, k_buf = 3, k_off = 0, k_len = length c\<rparr>]"
  have k: "checksum_parts G 0 key ?iov = Some (Inr ?kiov)"
    using assms by (simp add: checksum_parts_def locate_message checksum_law_def Let_def)
  let ?parts = "[(KRB5_CRYPTO_TYPE_EMPTY, hdr), (KRB5_CRYPTO_TYPE_DATA, iov_buffer d), (KRB5_CRYPTO_TYPE_DATA, []), (KRB5_CRYPTO_TYPE_EMPTY, c),
    (KRB5_CRYPTO_TYPE_SIGN_ONLY, hdr)]"
  have r: "read_parts ?iov ?kiov = ?parts @ [(KRB5_CRYPTO_TYPE_CHECKSUM, c)]"
    using assms(2,3) by (simp add: read_parts_def message_parts_message)
  have cov: "covered ?parts = iov_buffer d @ hdr" by (simp add: covered_def)
  have law: "krb5_c_make_checksum_iov G ct key usage (?parts @ [(KRB5_CRYPTO_TYPE_CHECKSUM, c)]) = Inr (mac (iov_buffer d @ hdr))"
    "krb5_c_verify_checksum_iov G ct key usage (?parts @ [(KRB5_CRYPTO_TYPE_CHECKSUM, c)]) = Inr (c = mac (iov_buffer d @ hdr))"
    and len: "length (mac b) = length c" for b
    using assms(1) cov unfolding checksum_law_def by metis+
  have w: "put 3 0 (mac (iov_buffer d @ hdr)) ?iov = message_iov hdr d (mac (iov_buffer d @ hdr))"
    using len by (simp add: message_put write_at_all)
  have lst: "last ?kiov = \<lparr>k_flags = KRB5_CRYPTO_TYPE_CHECKSUM, k_buf = 3, k_off = 0, k_len = length c\<rparr>" by simp
  have wp: "write_parts [last ?kiov] [b] ?iov = put 3 0 b ?iov" for b unfolding lst by simp
  show "gssBidSign G ct 0 key usage ?iov = Some (Inr (message_iov hdr d (mac (iov_buffer d @ hdr))))"
    unfolding gssBidSign_def k bailO_Inr r law(1) wp by (simp add: w)
  show "gssBidVerify G ct 0 key usage ?iov = Some (Inr (c = mac (iov_buffer d @ hdr)))"
    unfolding gssBidVerify_def k bailO_Inr r law(2) by (rule refl)
qed

lemma wrap_signed_message:
  assumes "encryptionType ctx \<noteq> ENCTYPE_NULL"
    and "checksum_law G (checksumType ctx) (ctx_key ctx) (key_usage (flag_set (ctx_flags ctx) CTX_FLAG_INITIATOR) TOK_TYPE_WRAP) mac n"
  shows "gssBidWrap G ctx False 0 msg =
    Some (Inr (False, token_header TOK_TYPE_WRAP (rfc4121Flags ctx False) (of_nat n) 0 (sendSeq ctx) @ msg @
        mac (msg @ token_header TOK_TYPE_WRAP (rfc4121Flags ctx False) 0 0 (sendSeq ctx))), ctx\<lparr>sendSeq := sendSeq ctx + 1\<rparr>)"
proof -
  let ?D = "iov_of GSS_IOV_BUFFER_TYPE_DATA msg" and ?hdr = "token_header TOK_TYPE_WRAP (rfc4121Flags ctx False) 0 0 (sendSeq ctx)"
  let ?iov = "message_iov (replicate 16 0) ?D (replicate n 0)"
  have l: "krbCryptoLength G (ctx_key ctx) KRB5_CRYPTO_TYPE_CHECKSUM = Inr n" using assms(2) by (simp add: checksum_law_def)
  have len: "gssBidWrapIovLength G ctx False 0 (message_iov [] ?D []) = Inr (False, ?iov)"
    using wrap_length_message[OF assms(1), of G False n] l by simp
  have size: "size_buffers G 0 (Some 3) 16 n ?iov = Inr ?iov"
    using size_message[of G "replicate 16 0" "replicate n 0" ?D] by (simp only: length_replicate)
  have law: "checksum_law G (checksumType ctx) (ctx_key ctx) (key_usage (flag_set (ctx_flags ctx) CTX_FLAG_INITIATOR) TOK_TYPE_WRAP) mac (length (replicate n 0 :: byte list))"
    using assms(2) by simp
  have sign: "gssBidSign G (checksumType ctx) 0 (ctx_key ctx) (key_usage (flag_set (ctx_flags ctx) CTX_FLAG_INITIATOR) TOK_TYPE_WRAP)
      (message_iov ?hdr ?D (replicate n 0)) = Some (Inr (message_iov ?hdr ?D (mac (msg @ ?hdr))))"
    using checksum_message(1)[OF law, of ?D ?hdr] by simp
  have small: "\<not> 0xFFFF < n" using assms(2) by (simp add: checksum_law_def)
  have w: "write_at 0 ?hdr (replicate 16 0) = ?hdr" by (simp add: write_at_all)
  have w4: "write_at 4 (store_uint16_be (of_nat n) @ store_uint16_be (of_nat 0)) ?hdr =
      token_header TOK_TYPE_WRAP (rfc4121Flags ctx False) (of_nat n) 0 (sendSeq ctx)"
    using token_header_write(1)[of _ _ _ _ _ _ _ "[]"] by simp
  have "wrap_with_checksum G ctx TOK_TYPE_WRAP ?iov 0 (Some 3) =
      Some (Inr (message_iov (token_header TOK_TYPE_WRAP (rfc4121Flags ctx False) (of_nat n) 0 (sendSeq ctx)) ?D (mac (msg @ ?hdr))))"
    unfolding wrap_with_checksum_def Let_def
    by (simp only: l small bailO_Inr option.simps if_False simp_thms add_0_right size message_put w sign if_True w4)
  then show ?thesis
    using assms(1) by (simp add: gssBidWrap_def len gssBidWrapOrGetMIC_def locate_message message_update Let_def)
qed

text \<open>The two sides of a context, and Kerberos for their key.\<close>

definition peers :: "gss_ctx \<Rightarrow> gss_ctx \<Rightarrow> bool" where
  "peers s r \<longleftrightarrow>
     flag_set (ctx_flags s) CTX_FLAG_INITIATOR \<noteq> flag_set (ctx_flags r) CTX_FLAG_INITIATOR \<and>
     flag_set (ctx_flags s) CTX_FLAG_EXTRA_ROUND_TRIP = flag_set (ctx_flags r) CTX_FLAG_EXTRA_ROUND_TRIP \<and>
     flag_set (gssFlags s) GSS_C_DCE_STYLE = flag_set (gssFlags r) GSS_C_DCE_STYLE \<and>
     encryptionType s = encryptionType r \<and> encryptionType s \<noteq> ENCTYPE_NULL \<and> rfc3961Key s = rfc3961Key r \<and> checksumType s = checksumType r"

lemma peers_agree:
  assumes "peers s r"
  shows "rfc4121Flags r True = rfc4121Flags s False" "ctx_key r = ctx_key s"
    "(\<not> flag_set (ctx_flags r) CTX_FLAG_INITIATOR) = flag_set (ctx_flags s) CTX_FLAG_INITIATOR"
    "checksumType r = checksumType s" "encryptionType r \<noteq> ENCTYPE_NULL"
  using assms by (auto simp: peers_def rfc4121Flags_def ctx_key_def Let_def split: option.split)

lemma flags_conf:
  "rfc4121Flags s c AND TOK_FLAG_WRAP_CONFIDENTIAL = 0" "(rfc4121Flags s c OR TOK_FLAG_WRAP_CONFIDENTIAL) AND TOK_FLAG_WRAP_CONFIDENTIAL \<noteq> 0"
  "(rfc4121Flags s c OR TOK_FLAG_WRAP_CONFIDENTIAL) AND rfc4121Flags s c = rfc4121Flags s c"
  by (simp_all add: rfc4121Flags_def Let_def)

text \<open>Splitting the token.\<close>

lemma unwrap_stream_message:
  assumes "token = token_header TOK_TYPE_WRAP f ec 0 n @ hb @ d @ tr" "conf \<longleftrightarrow> f AND TOK_FLAG_WRAP_CONFIDENTIAL \<noteq> 0"
    and "krbCryptoLength G (ctx_key ctx) (if conf then KRB5_CRYPTO_TYPE_TRAILER else KRB5_CRYPTO_TYPE_CHECKSUM) = Inr t"
    and "if conf then krbCryptoLength G (ctx_key ctx) KRB5_CRYPTO_TYPE_HEADER = Inr (length hb) else hb = []"
    and "length tr = (if conf then unat ec + 16 + t else t)"
    and "unwrapToken G ctx (message_iov (token_header TOK_TYPE_WRAP f ec 0 n @ hb)
        \<lparr>iov_type = GSS_IOV_BUFFER_TYPE_DATA, iov_ALLOCATE = True, iov_ALLOCATED = True, iov_buffer = d\<rparr> tr) TOK_TYPE_WRAP =
      Some (Inr (conf', message_iov h' D' t'), ctx')" "iov_type D' = GSS_IOV_BUFFER_TYPE_DATA"
  shows "\<exists>stream'. unwrapStream G ctx [iov_of GSS_IOV_BUFFER_TYPE_STREAM token, (iov_of GSS_IOV_BUFFER_TYPE_DATA [])\<lparr>iov_ALLOCATE := True\<rparr>] 0 TOK_TYPE_WRAP =
    Some (Inr (conf', [stream', D']), ctx')"
proof -
  let ?hdr = "token_header TOK_TYPE_WRAP f ec 0 n"
  let ?hlen = "16 + length hb" and ?tlen = "length tr"
  have len: "length token = ?hlen + length d + ?tlen" and parts: "take ?hlen token = ?hdr @ hb" "take (length token - ?tlen - ?hlen) (drop ?hlen token) = d"
    "drop (length token - ?tlen) token = tr"
    by (simp_all add: assms(1))
  have filters: "filter (\<lambda>j. iov_type ([iov_of GSS_IOV_BUFFER_TYPE_STREAM token, (iov_of GSS_IOV_BUFFER_TYPE_DATA [])\<lparr>iov_ALLOCATE := True\<rparr>] ! j) = GSS_IOV_BUFFER_TYPE_DATA) [0..<2] = [1]"
    "filter (\<lambda>j. iov_type ([iov_of GSS_IOV_BUFFER_TYPE_STREAM token, (iov_of GSS_IOV_BUFFER_TYPE_DATA [])\<lparr>iov_ALLOCATE := True\<rparr>] ! j) = GSS_IOV_BUFFER_TYPE_DATA \<or>
        iov_type ([iov_of GSS_IOV_BUFFER_TYPE_STREAM token, (iov_of GSS_IOV_BUFFER_TYPE_DATA [])\<lparr>iov_ALLOCATE := True\<rparr>] ! j) = GSS_IOV_BUFFER_TYPE_SIGN_ONLY) [0..<2] = [1]"
    by (simp_all add: upt_conv_Cons)
  have rd: "load_uint16_be (drop 4 token) = Some ec" "load_uint16_be (drop 6 token) = Some 0" "token ! 2 = f" "\<not> length token < 16"
    by (simp_all add: assms(1))
  have lens: "bail (if conf then krbCryptoLength G (ctx_key ctx) KRB5_CRYPTO_TYPE_HEADER else Inr 0) (\<lambda>krbHeaderLen.
        map_sum id (\<lambda>l. (16 + krbHeaderLen, (if conf then unat ec else 0) + (if conf then 16 else 0) + l))
          (krbCryptoLength G (ctx_key ctx) (if conf then KRB5_CRYPTO_TYPE_TRAILER else KRB5_CRYPTO_TYPE_CHECKSUM))) = Inr (?hlen, ?tlen)"
    using assms(3-5) by (cases conf) simp_all
  note core = assms(6)[unfolded parts(1)[symmetric]]
  show ?thesis
    unfolding unwrapStream_def Let_def
    using rd lens assms(2,6,7) filters len parts
    by (simp add: upt_conv_Cons)
qed

lemma check_sequence_accepts:
  assumes "seqState ctx = Some q" "\<not> GSS_ERROR (fst (sequenceCheck q n))"
  shows "check_sequence ctx n = Some (Inr (), ctx\<lparr>seqState := Some (snd (sequenceCheck q n))\<rparr>)"
  using assms by (simp add: check_sequence_def guard_def case_prod_beta Let_def)

text \<open>What a token must carry to be looked at.\<close>

lemma unwrap_token_message:
  assumes "iov_type d = GSS_IOV_BUFFER_TYPE_DATA" "f AND rfc4121Flags ctx True = rfc4121Flags ctx True"
    and "unwrap_wrap G ctx (message_iov (token_header TOK_TYPE_WRAP f ec rrc n @ hb) d t) 0 (Some 3) = Some (Inr (conf, n, iov))"
    and "seqState ctx = Some q" "\<not> GSS_ERROR (fst (sequenceCheck q n))"
  shows "unwrapToken G ctx (message_iov (token_header TOK_TYPE_WRAP f ec rrc n @ hb) d t) TOK_TYPE_WRAP =
    Some (Inr (conf, iov), ctx\<lparr>seqState := Some (snd (sequenceCheck q n))\<rparr>)"
  using assms(2,3) locate_message[OF assms(1)] check_sequence_accepts[OF assms(4,5)]
  by (simp add: unwrapToken_def message_update Let_def)

lemma unwrap_sealed_message:
  assumes "hdr = token_header TOK_TYPE_WRAP f (of_nat ec) 0 n" "ec < 2 ^ 16" "f AND TOK_FLAG_WRAP_CONFIDENTIAL \<noteq> 0"
    and "krb5_c_decrypt_iov G (ctx_key ctx) (key_usage (\<not> flag_set (ctx_flags ctx) CTX_FLAG_INITIATOR) TOK_TYPE_WRAP)
        (sealed_parts hb (iov_buffer d) e tb) = Inr [hb', msg, [], replicate ec 0xFF @ hdr, tb']"
    and "krbCryptoLength G (ctx_key ctx) KRB5_CRYPTO_TYPE_HEADER = Inr (length hb)" "krbCryptoLength G (ctx_key ctx) KRB5_CRYPTO_TYPE_TRAILER = Inr (length tb)"
    and "iov_type d = GSS_IOV_BUFFER_TYPE_DATA" "length e = ec + 16" "length hb' = length hb" "length (iov_buffer d) = length msg" "length tb' = length tb"
  shows "unwrap_wrap G ctx (message_iov (hdr @ hb) d (e @ tb)) 0 (Some 3) =
    Some (Inr (True, n, message_iov (hdr @ hb') (d\<lparr>iov_buffer := msg\<rparr>) ((replicate ec 0xFF @ hdr) @ tb')))"
proof -
  let ?u = "key_usage (\<not> flag_set (ctx_flags ctx) CTX_FLAG_INITIATOR) TOK_TYPE_WRAP" and ?dce = "flag_set (gssFlags ctx) GSS_C_DCE_STYLE"
  have hl: "length hdr = 16" by (simp add: assms(1))
  have ec: "unat (of_nat ec :: 16 word) = ec" using assms(2) by (simp add: unat_of_nat take_bit_nat_eq_self)
  have "gssBidDecrypt G ?dce ec 0 (ctx_key ctx) ?u (message_iov (hdr @ hb) d (e @ tb)) =
      Some (Inr (message_iov (hdr @ hb') (d\<lparr>iov_buffer := msg\<rparr>) ((replicate ec 0xFF @ hdr) @ tb')))"
    using assms(8-11) hl by (intro decrypt_message[OF assms(4-7)]) simp_all
  moreover have "same_header (hdr @ tb') (hdr @ hb') = Some True" using hl by (simp add: same_header_def assms(1))
  ultimately have "unwrap_sealed G ctx (message_iov (hdr @ hb) d (e @ tb)) 0 (Some 3) ec 0 =
      Some (Inr (message_iov (hdr @ hb') (d\<lparr>iov_buffer := msg\<rparr>) ((replicate ec 0xFF @ hdr) @ tb')))"
    by (simp add: unwrap_sealed_def message_update)
  then show ?thesis
    using assms(1,3,6) ec by (simp add: unwrap_wrap_def message_update Let_def)
qed

lemma unwrap_signed_message:
  assumes "checksum_law G (checksumType ctx) (ctx_key ctx) (key_usage (\<not> flag_set (ctx_flags ctx) CTX_FLAG_INITIATOR) TOK_TYPE_WRAP) mac k"
    and "f AND TOK_FLAG_WRAP_CONFIDENTIAL = 0" "iov_type d = GSS_IOV_BUFFER_TYPE_DATA"
    and "c = mac (iov_buffer d @ token_header TOK_TYPE_WRAP f 0 0 n)"
  shows "unwrap_wrap G ctx (message_iov (token_header TOK_TYPE_WRAP f (of_nat k) 0 n) d c) 0 (Some 3) =
    Some (Inr (False, n, message_iov (token_header TOK_TYPE_WRAP f 0 0 n) d c))"
proof -
  let ?hdr = "token_header TOK_TYPE_WRAP f 0 0 n"
  have k: "unat (of_nat k :: 16 word) = k" "length c = k" "krbCryptoLength G (ctx_key ctx) KRB5_CRYPTO_TYPE_CHECKSUM = Inr k"
    using assms(1,4) by (simp_all add: checksum_law_def unat_of_nat take_bit_nat_eq_self)
  have "gssBidVerify G (checksumType ctx) 0 (ctx_key ctx) (key_usage (\<not> flag_set (ctx_flags ctx) CTX_FLAG_INITIATOR) TOK_TYPE_WRAP) (message_iov ?hdr d c) =
      Some (Inr True)"
    using checksum_message(2)[of G _ _ _ mac c, OF _ assms(3), of _ _ _ ?hdr] assms(1,4) k(2) by simp
  then have "unwrap_signed G ctx TOK_TYPE_WRAP (message_iov ?hdr d c) 0 = Some (Inr (message_iov ?hdr d c))"
    by (simp add: unwrap_signed_def)
  moreover have "write_at 4 [0, 0, 0, 0] (token_header TOK_TYPE_WRAP f (of_nat k) 0 n) = ?hdr"
    using token_header_write(3)[where r = "[]"] by simp
  ultimately show ?thesis
    using assms(2) k by (simp add: unwrap_wrap_def message_update message_put Let_def)
qed

text \<open>The message of a MIC is in one buffer, the header and the checksum in another.\<close>

lemma mic_checksum:
  assumes "checksum_law G ct key usage mac (length c)" "length hdr = 16" "iov_type h = GSS_IOV_BUFFER_TYPE_HEADER" "iov_buffer h = hdr @ c"
  shows "gssBidSign G ct (length c) key usage [iov_of GSS_IOV_BUFFER_TYPE_DATA msg, h] =
      Some (Inr [iov_of GSS_IOV_BUFFER_TYPE_DATA msg, h\<lparr>iov_buffer := hdr @ mac (msg @ hdr)\<rparr>])"
    "gssBidVerify G ct (length c) key usage [iov_of GSS_IOV_BUFFER_TYPE_DATA msg, h] = Some (Inr (c = mac (msg @ hdr)))"
proof -
  let ?iov = "[iov_of GSS_IOV_BUFFER_TYPE_DATA msg, h]"
  let ?kiov = "message_parts ?iov @ [\<lparr>k_flags = KRB5_CRYPTO_TYPE_SIGN_ONLY, k_buf = 1, k_off = 0, k_len = 16\<rparr>,
     \<lparr>k_flags = KRB5_CRYPTO_TYPE_CHECKSUM, k_buf = 1, k_off = 16, k_len = length c\<rparr>]"
  have k: "checksum_parts G (length c) key ?iov = Some (Inr ?kiov)"
    using assms by (simp add: checksum_parts_def gssBidLocateIov_def upt_conv_Cons checksum_law_def)
  let ?parts = "[(KRB5_CRYPTO_TYPE_DATA, msg), (KRB5_CRYPTO_TYPE_EMPTY, hdr @ c), (KRB5_CRYPTO_TYPE_SIGN_ONLY, hdr)]"
  have r: "read_parts ?iov ?kiov = ?parts @ [(KRB5_CRYPTO_TYPE_CHECKSUM, c)]"
    using assms(2-4) by (simp add: read_parts_def message_parts_def gssBidMapCryptoFlag_def upt_conv_Cons)
  have cov: "covered ?parts = msg @ hdr" by (simp add: covered_def)
  have law: "krb5_c_make_checksum_iov G ct key usage (?parts @ [(KRB5_CRYPTO_TYPE_CHECKSUM, c)]) = Inr (mac (msg @ hdr))"
    "krb5_c_verify_checksum_iov G ct key usage (?parts @ [(KRB5_CRYPTO_TYPE_CHECKSUM, c)]) = Inr (c = mac (msg @ hdr))"
    and len: "length (mac b) = length c" for b
    using assms(1) cov unfolding checksum_law_def by metis+
  have lst: "last ?kiov = \<lparr>k_flags = KRB5_CRYPTO_TYPE_CHECKSUM, k_buf = 1, k_off = 16, k_len = length c\<rparr>" by simp
  have w: "put 1 16 (mac (msg @ hdr)) ?iov = [iov_of GSS_IOV_BUFFER_TYPE_DATA msg, h\<lparr>iov_buffer := hdr @ mac (msg @ hdr)\<rparr>]"
    using assms(2,4) len by (simp add: put_def write_at_def)
  show "gssBidSign G ct (length c) key usage ?iov = Some (Inr [iov_of GSS_IOV_BUFFER_TYPE_DATA msg, h\<lparr>iov_buffer := hdr @ mac (msg @ hdr)\<rparr>])"
    unfolding gssBidSign_def k bailO_Inr r law(1) lst using w by simp
  show "gssBidVerify G ct (length c) key usage ?iov = Some (Inr (c = mac (msg @ hdr)))"
    unfolding gssBidVerify_def k bailO_Inr r law(2) by (rule refl)
qed

abbreviation mic_header :: "gss_ctx \<Rightarrow> byte list" where
  "mic_header s \<equiv> token_header TOK_TYPE_MIC (rfc4121Flags s False) 0xFFFF 0xFFFF (sendSeq s)"

lemma get_mic:
  assumes "encryptionType s \<noteq> ENCTYPE_NULL" "sm_state s = GSSBID_STATE_ESTABLISHED"
    and "checksum_law G (checksumType s) (ctx_key s) (key_usage (flag_set (ctx_flags s) CTX_FLAG_INITIATOR) TOK_TYPE_MIC) mac n"
  shows "gss_get_mic G (Some s) 0 msg = Some (Inr (mic_header s @ mac (msg @ mic_header s)), Some (s\<lparr>sendSeq := sendSeq s + 1\<rparr>))"
proof -
  let ?iov = "[iov_of GSS_IOV_BUFFER_TYPE_DATA msg,
      \<lparr>iov_type = GSS_IOV_BUFFER_TYPE_HEADER, iov_ALLOCATE = True, iov_ALLOCATED = False, iov_buffer = []\<rparr>]"
  let ?h = "\<lambda>b. \<lparr>iov_type = GSS_IOV_BUFFER_TYPE_HEADER, iov_ALLOCATE = True, iov_ALLOCATED = True, iov_buffer = b\<rparr>"
  have l: "krbCryptoLength G (ctx_key s) KRB5_CRYPTO_TYPE_CHECKSUM = Inr n" "\<not> 0xFFFF < n" using assms(3) by (simp_all add: checksum_law_def)
  have size: "size_buffers G 1 None (16 + n) n ?iov = Inr [iov_of GSS_IOV_BUFFER_TYPE_DATA msg, ?h (replicate (16 + n) 0)]"
    by (simp add: size_buffers_def sized_iov_def gssBidAllocIov_def)
  have p: "put 1 0 (mic_header s) [iov_of GSS_IOV_BUFFER_TYPE_DATA msg, ?h (replicate (16 + n) 0)] =
      [iov_of GSS_IOV_BUFFER_TYPE_DATA msg, ?h (mic_header s @ replicate n 0)]"
    by (simp add: put_def write_at_def)
  have sign: "gssBidSign G (checksumType s) n (ctx_key s) (key_usage (flag_set (ctx_flags s) CTX_FLAG_INITIATOR) TOK_TYPE_MIC)
      [iov_of GSS_IOV_BUFFER_TYPE_DATA msg, ?h (mic_header s @ replicate n 0)] =
      Some (Inr [iov_of GSS_IOV_BUFFER_TYPE_DATA msg, ?h (mic_header s @ mac (msg @ mic_header s))])"
    using mic_checksum(1)[of G _ _ _ mac "replicate n 0" "mic_header s" "?h (mic_header s @ replicate n 0)"] assms(3) by simp
  have "wrap_with_checksum G s TOK_TYPE_MIC ?iov 1 None = Some (Inr [iov_of GSS_IOV_BUFFER_TYPE_DATA msg, ?h (mic_header s @ mac (msg @ mic_header s))])"
    unfolding wrap_with_checksum_def Let_def by (simp add: l size[unfolded One_nat_def] p[unfolded One_nat_def] sign)
  then show ?thesis
    using assms(1,2)
    by (simp add: gss_get_mic_def with_qop_def with_established_def gssBidWrapOrGetMIC_def gssBidLocateIov_def upt_conv_Cons)
qed

lemma map_sum_unit: "map_sum id (\<lambda>_. ()) (map_sum id g r) = r"
  by (cases r) simp_all

text \<open>What the receiver makes of a MIC in the form of one: a checksum that must be right.\<close>

lemma verify_mic:
  assumes "encryptionType r \<noteq> ENCTYPE_NULL" "f AND rfc4121Flags r True = rfc4121Flags r True" "hdr = token_header TOK_TYPE_MIC f ec rrc n"
    and "gssBidVerify G (checksumType r) (length c) (ctx_key r) (key_usage (\<not> flag_set (ctx_flags r) CTX_FLAG_INITIATOR) TOK_TYPE_MIC)
        [iov_of GSS_IOV_BUFFER_TYPE_DATA msg, iov_of GSS_IOV_BUFFER_TYPE_HEADER (hdr @ c)] = v"
  shows "gss_verify_mic G (Some r) msg (hdr @ c) =
    (case v of
       Some (Inr True) \<Rightarrow> map_option (\<lambda>(res, r). (res, Some r)) (check_sequence r n)
     | Some (Inr False) \<Rightarrow> Some (Inl (GSS_S_BAD_SIG, 0), Some r)
     | Some (Inl code) \<Rightarrow> Some (Inl (GSS_S_BAD_SIG, code), Some r)
     | None \<Rightarrow> None)"
proof -
  have m: "gss_verify_mic G (Some r) msg (hdr @ c) =
      (case unwrap_signed G r TOK_TYPE_MIC [iov_of GSS_IOV_BUFFER_TYPE_DATA msg, iov_of GSS_IOV_BUFFER_TYPE_HEADER (hdr @ c)] (length c) of
         None \<Rightarrow> None | Some (Inl e) \<Rightarrow> Some (Inl e, Some r)
       | Some (Inr _) \<Rightarrow> map_option (\<lambda>(res, r). (res, Some r)) (check_sequence r n))"
    using assms(1,2)
    by (auto simp: assms(3) gss_verify_mic_def gssBidUnwrapOrVerifyMIC_def unwrapToken_def unwrap_mic_def gssBidLocateIov_def upt_conv_Cons
        bailO_def Let_def map_option_case map_sum_unit split: option.splits sum.splits)
  show ?thesis
    unfolding m unwrap_signed_def assms(4) by (auto split: option.splits sum.splits bool.splits)
qed

definition kerberos_ok :: "'x krb_env_scheme \<Rightarrow> gss_ctx \<Rightarrow> bool" where
  "kerberos_ok G s \<longleftrightarrow>
     padding_law G (ctx_key s) \<and>
     (\<exists>h t. cipher_law G (ctx_key s) (key_usage (flag_set (ctx_flags s) CTX_FLAG_INITIATOR) TOK_TYPE_WRAP) h t) \<and>
     (\<forall>toktype. \<exists>mac n. checksum_law G (checksumType s) (ctx_key s) (key_usage (flag_set (ctx_flags s) CTX_FLAG_INITIATOR) toktype) mac n)"

text \<open>A token that opens to a message, for a receiver whose window does not fail on its number.\<close>

abbreviation stream_iov :: "byte list \<Rightarrow> gss_iov_buffer list" where
  "stream_iov token \<equiv> [iov_of GSS_IOV_BUFFER_TYPE_STREAM token, (iov_of GSS_IOV_BUFFER_TYPE_DATA [])\<lparr>iov_ALLOCATE := True\<rparr>]"

definition opens :: "'x krb_env_scheme \<Rightarrow> gss_ctx \<Rightarrow> byte list \<Rightarrow> bool \<Rightarrow> byte list \<Rightarrow> u64 \<Rightarrow> bool" where
  "opens G r token conf msg n \<longleftrightarrow>
     (\<forall>q. seqState r = Some q \<longrightarrow> \<not> GSS_ERROR (fst (sequenceCheck q n)) \<longrightarrow>
        (\<exists>stream D. gssBidUnwrapOrVerifyMIC G r (stream_iov token) TOK_TYPE_WRAP =
           Some (Inr (conf, [stream, D]), r\<lparr>seqState := Some (snd (sequenceCheck q n))\<rparr>) \<and> iov_buffer D = msg))"

lemma opens_stream:
  assumes "peers s r" "\<And>q. seqState r = Some q \<Longrightarrow> \<not> GSS_ERROR (fst (sequenceCheck q n)) \<Longrightarrow>
    \<exists>stream D. unwrapStream G r (stream_iov token) 0 TOK_TYPE_WRAP =
       Some (Inr (conf, [stream, D]), r\<lparr>seqState := Some (snd (sequenceCheck q n))\<rparr>) \<and> iov_buffer D = msg"
  shows "opens G r token conf msg n"
  using assms(2) peers_agree(5)[OF assms(1)]
  by (simp add: opens_def gssBidUnwrapOrVerifyMIC_def gssBidLocateIov_def upt_conv_Cons)

lemma sealed_opens:
  assumes "peers s r" "kerberos_ok G s"
  obtains token where "gssBidWrap G s True 0 msg = Some (Inr (True, token), s\<lparr>sendSeq := sendSeq s + 1\<rparr>)"
    "\<And>r. peers s r \<Longrightarrow> opens G r token True msg (sendSeq s)"
proof -
  let ?D = "\<lambda>d. \<lparr>iov_type = GSS_IOV_BUFFER_TYPE_DATA, iov_ALLOCATE = True, iov_ALLOCATED = True, iov_buffer = d\<rparr>"
  have et: "encryptionType s \<noteq> ENCTYPE_NULL" using assms(1) unfolding peers_def by blast
  obtain h t where law: "padding_law G (ctx_key s)" "cipher_law G (ctx_key s) (key_usage (flag_set (ctx_flags s) CTX_FLAG_INITIATOR) TOK_TYPE_WRAP) h t"
    using assms(2) by (auto simp: kerberos_ok_def)
  then have lens: "krbCryptoLength G (ctx_key s) KRB5_CRYPTO_TYPE_HEADER = Inr h" "krbCryptoLength G (ctx_key s) KRB5_CRYPTO_TYPE_TRAILER = Inr t"
    by (simp_all add: cipher_law_def)
  obtain ec hb d e tb hb'' tb'' hdr where w: "gssBidWrap G s True 0 msg = Some (Inr (True, hdr @ hb @ d @ e @ tb), s\<lparr>sendSeq := sendSeq s + 1\<rparr>)"
    and hdr: "hdr = token_header TOK_TYPE_WRAP (rfc4121Flags s False OR TOK_FLAG_WRAP_CONFIDENTIAL) (of_nat ec) 0 (sendSeq s)" "ec < 2 ^ 16"
    and l: "length hb = h" "length d = length msg" "length e = ec + 16" "length tb = t" "length hb'' = h" "length tb'' = t"
    and dec: "krb5_c_decrypt_iov G (ctx_key s) (key_usage (flag_set (ctx_flags s) CTX_FLAG_INITIATOR) TOK_TYPE_WRAP) (sealed_parts hb d e tb) =
       Inr [hb'', msg, [], replicate ec 0xFF @ hdr, tb'']"
    by (rule wrap_sealed_message[OF et law, where msg = msg]) (rule that; assumption)
  have ec: "unat (of_nat ec :: 16 word) = ec" using hdr(2) by (simp add: unat_of_nat take_bit_nat_eq_self)
  have "opens G r (hdr @ hb @ d @ e @ tb) True msg (sendSeq s)" if r: "peers s r" for r
  proof (rule opens_stream[OF r])
    fix q assume q: "seqState r = Some q" "\<not> GSS_ERROR (fst (sequenceCheck q (sendSeq s)))"
    let ?r = "r\<lparr>seqState := Some (snd (sequenceCheck q (sendSeq s)))\<rparr>"
    note agree = peers_agree[OF r]
    have "unwrap_wrap G r (message_iov (hdr @ hb) (?D d) (e @ tb)) 0 (Some 3) =
        Some (Inr (True, sendSeq s, message_iov (hdr @ hb'') ((?D d)\<lparr>iov_buffer := msg\<rparr>) ((replicate ec 0xFF @ hdr) @ tb'')))"
      by (rule unwrap_sealed_message[OF hdr flags_conf(2)]) (use dec lens l in \<open>simp_all add: agree\<close>)
    from unwrap_token_message[OF _ _ this[unfolded hdr(1)] q] agree(1) flags_conf(3)[of s False]
    have u: "unwrapToken G r (message_iov (hdr @ hb) (?D d) (e @ tb)) TOK_TYPE_WRAP =
        Some (Inr (True, message_iov (hdr @ hb'') ((?D d)\<lparr>iov_buffer := msg\<rparr>) ((replicate ec 0xFF @ hdr) @ tb'')), ?r)"
      by (simp add: hdr(1))
    have "\<exists>stream'. unwrapStream G r (stream_iov (hdr @ hb @ d @ e @ tb)) 0 TOK_TYPE_WRAP =
        Some (Inr (True, [stream', (?D d)\<lparr>iov_buffer := msg\<rparr>]), ?r)"
      by (rule unwrap_stream_message[where conf = True and t = t, OF _ _ _ _ _ u[unfolded hdr(1)]])
        (use lens l ec in \<open>simp_all add: hdr(1) agree flags_conf\<close>)
    then show "\<exists>stream D. unwrapStream G r (stream_iov (hdr @ hb @ d @ e @ tb)) 0 TOK_TYPE_WRAP = Some (Inr (True, [stream, D]), ?r) \<and> iov_buffer D = msg"
      by fastforce
  qed
  with w that show ?thesis by blast
qed

lemma signed_opens:
  assumes "peers s r" "kerberos_ok G s"
  obtains token where "gssBidWrap G s False 0 msg = Some (Inr (False, token), s\<lparr>sendSeq := sendSeq s + 1\<rparr>)"
    "\<And>r. peers s r \<Longrightarrow> opens G r token False msg (sendSeq s)"
proof -
  let ?D = "\<lparr>iov_type = GSS_IOV_BUFFER_TYPE_DATA, iov_ALLOCATE = True, iov_ALLOCATED = True, iov_buffer = msg\<rparr>"
  let ?f = "rfc4121Flags s False"
  obtain mac n where law: "checksum_law G (checksumType s) (ctx_key s) (key_usage (flag_set (ctx_flags s) CTX_FLAG_INITIATOR) TOK_TYPE_WRAP) mac n"
    using assms(2) unfolding kerberos_ok_def by blast
  let ?hdr = "token_header TOK_TYPE_WRAP ?f (of_nat n) 0 (sendSeq s)" and ?bare = "token_header TOK_TYPE_WRAP ?f 0 0 (sendSeq s)"
  define c where "c = mac (msg @ ?bare)"
  have lc: "length c = n" and ln: "krbCryptoLength G (ctx_key s) KRB5_CRYPTO_TYPE_CHECKSUM = Inr n"
    using law by (simp_all add: checksum_law_def c_def)
  have w: "gssBidWrap G s False 0 msg = Some (Inr (False, ?hdr @ msg @ c), s\<lparr>sendSeq := sendSeq s + 1\<rparr>)"
    using wrap_signed_message[OF _ law] assms(1) unfolding peers_def c_def by blast
  have "opens G r (?hdr @ msg @ c) False msg (sendSeq s)" if r: "peers s r" for r
  proof (rule opens_stream[OF r])
    fix q assume q: "seqState r = Some q" "\<not> GSS_ERROR (fst (sequenceCheck q (sendSeq s)))"
    let ?r = "r\<lparr>seqState := Some (snd (sequenceCheck q (sendSeq s)))\<rparr>"
    note agree = peers_agree[OF r]
    have "unwrap_wrap G r (message_iov ?hdr ?D c) 0 (Some 3) = Some (Inr (False, sendSeq s, message_iov ?bare ?D c))"
      by (rule unwrap_signed_message[where mac = mac]) (use law in \<open>simp_all add: agree flags_conf c_def\<close>)
    with unwrap_token_message[of ?D ?f r G "of_nat n" 0 "sendSeq s" "[]" c False _ q, OF _ _ _ q] agree(1)
    have u: "unwrapToken G r (message_iov (?hdr @ []) ?D c) TOK_TYPE_WRAP = Some (Inr (False, message_iov ?bare ?D c), ?r)"
      by simp
    have "\<exists>stream'. unwrapStream G r (stream_iov (?hdr @ msg @ c)) 0 TOK_TYPE_WRAP = Some (Inr (False, [stream', ?D]), ?r)"
      by (rule unwrap_stream_message[where conf = False and t = n, OF _ _ _ _ _ u]) (use ln lc in \<open>simp_all add: agree flags_conf\<close>)
    then show "\<exists>stream D. unwrapStream G r (stream_iov (?hdr @ msg @ c)) 0 TOK_TYPE_WRAP = Some (Inr (False, [stream, D]), ?r) \<and> iov_buffer D = msg"
      by fastforce
  qed
  with w that show ?thesis by blast
qed

text \<open>What a successful step has checked.\<close>

lemma map_sum_eq_Inr: "map_sum f g r = Inr y \<longleftrightarrow> (\<exists>x. r = Inr x \<and> y = g x)"
  by (cases r) auto

lemma unwrap_token_elim:
  assumes "unwrapToken G r (message_iov h d t) TOK_TYPE_WRAP = Some (Inr (conf, iov), r')" "iov_type d = GSS_IOV_BUFFER_TYPE_DATA"
  obtains n where "16 \<le> length h" "h ! 2 AND rfc4121Flags r True = rfc4121Flags r True"
    "unwrap_wrap G r (message_iov h d t) 0 (Some 3) = Some (Inr (conf, n, iov))" "check_sequence r n = Some (Inr (), r')"
proof -
  from assms locate_message[OF assms(2)] have "16 \<le> length h" "h ! 2 AND rfc4121Flags r True = rfc4121Flags r True"
    "\<exists>n. unwrap_wrap G r (message_iov h d t) 0 (Some 3) = Some (Inr (conf, n, iov)) \<and> check_sequence r n = Some (Inr (), r')"
    by (auto simp: unwrapToken_def message_update map_sum_eq_Inr Let_def not_less split: if_splits option.splits sum.splits)
  then show ?thesis using that by blast
qed

lemma unwrap_wrap_elim:
  assumes "unwrap_wrap G r (message_iov h d t) 0 (Some 3) = Some (Inr (conf, n, iov))"
  obtains ec where "load_uint16_be h = Some TOK_TYPE_WRAP" "h ! 3 = 0xFF" "load_uint64_be (drop 8 h) = Some n" "conf \<longleftrightarrow> h ! 2 AND TOK_FLAG_WRAP_CONFIDENTIAL \<noteq> 0"
    "if conf then unwrap_sealed G r (message_iov h d t) 0 (Some 3) ec 0 = Some (Inr iov)
     else unwrap_signed G r TOK_TYPE_WRAP (message_iov (write_at 4 [0, 0, 0, 0] h) d t) 0 = Some (Inr iov)"
proof -
  from assms have "load_uint16_be h = Some TOK_TYPE_WRAP \<and> h ! 3 = 0xFF \<and> load_uint64_be (drop 8 h) = Some n \<and>
      (conf \<longleftrightarrow> h ! 2 AND TOK_FLAG_WRAP_CONFIDENTIAL \<noteq> 0) \<and>
      (\<exists>ec. if conf then unwrap_sealed G r (message_iov h d t) 0 (Some 3) ec 0 = Some (Inr iov)
       else unwrap_signed G r TOK_TYPE_WRAP (message_iov (write_at 4 [0, 0, 0, 0] h) d t) 0 = Some (Inr iov))"
    by (auto simp: unwrap_wrap_def message_update message_put bailO_def Let_def split: option.splits sum.splits if_splits)
  then show ?thesis using that by blast
qed

text \<open>The message was decrypted, with a copy of the header of the token.\<close>

lemma unwrap_sealed_elim:
  assumes "unwrap_sealed G r (message_iov (hdr @ hb) d t) 0 (Some 3) ec 0 = Some (Inr iov)" "iov_type d = GSS_IOV_BUFFER_TYPE_DATA" "length hdr = 16"
    and "\<forall>key usage parts out. krb5_c_decrypt_iov G key usage parts = Inr out \<longrightarrow> map length out = map (length \<circ> snd) parts"
  obtains e tb hb' msg e' tb' where
    "krb5_c_decrypt_iov G (ctx_key r) (key_usage (\<not> flag_set (ctx_flags r) CTX_FLAG_INITIATOR) TOK_TYPE_WRAP) (sealed_parts hb (iov_buffer d) e tb) =
       Inr [hb', msg, [], e', tb']"
    "iov = message_iov (hdr @ hb') (d\<lparr>iov_buffer := msg\<rparr>) (e' @ tb')" "same_header (drop ec (e' @ tb')) (hdr @ hb') = Some True"
proof -
  let ?u = "key_usage (\<not> flag_set (ctx_flags r) CTX_FLAG_INITIATOR) TOK_TYPE_WRAP" and ?dce = "flag_set (gssFlags r) GSS_C_DCE_STYLE"
  from assms(1) have dec: "gssBidDecrypt G ?dce ec 0 (ctx_key r) ?u (message_iov (hdr @ hb) d t) = Some (Inr iov)"
    and same: "same_header (drop ec (iov_buffer (iov ! 3))) (iov_buffer (iov ! 0)) = Some True"
    by (auto simp: unwrap_sealed_def message_update split: option.splits sum.splits if_splits)
  from dec have "\<exists>k. mapIov G ?dce ec 0 (ctx_key r) (message_iov (hdr @ hb) d t) = Some (Inr k)"
    by (auto simp: gssBidDecrypt_def bailO_def split: option.splits sum.splits)
  then have l: "krbCryptoLength G (ctx_key r) KRB5_CRYPTO_TYPE_HEADER = Inr (length hb)"
    "\<exists>tl. krbCryptoLength G (ctx_key r) KRB5_CRYPTO_TYPE_TRAILER = Inr tl \<and> length t = ec + 16 + tl"
    using assms(2,3) by (auto simp: mapIov_def locate_message bail_def Let_def split: sum.splits if_splits)
  define e where "e = take (ec + 16) t"
  define tb where "tb = drop (ec + 16) t"
  have t: "t = e @ tb" "length e = ec + 16" "krbCryptoLength G (ctx_key r) KRB5_CRYPTO_TYPE_TRAILER = Inr (length tb)"
    using l(2) by (auto simp: e_def tb_def)
  from map_message[OF assms(2) l(1) t(3) assms(3) t(2), where dce = ?dce] obtain kiov where
    k: "mapIov G ?dce ec 0 (ctx_key r) (message_iov (hdr @ hb) d (e @ tb)) = Some (Inr kiov)"
    "read_parts (message_iov (hdr @ hb) d (e @ tb)) kiov = sealed_parts hb (iov_buffer d) e tb"
    and w: "\<And>hb' d' e' tb'. length hb' = length hb \<Longrightarrow> length d' = length (iov_buffer d) \<Longrightarrow> length e' = length e \<Longrightarrow> length tb' = length tb \<Longrightarrow>
       write_parts kiov [hb', d', [], e', tb'] (message_iov (hdr @ hb) d (e @ tb)) = message_iov (hdr @ hb') (d\<lparr>iov_buffer := d'\<rparr>) (e' @ tb')"
    by blast
  from dec obtain out where o: "krb5_c_decrypt_iov G (ctx_key r) ?u (sealed_parts hb (iov_buffer d) e tb) = Inr out"
    "iov = write_parts kiov out (message_iov (hdr @ hb) d (e @ tb))"
    unfolding t(1) by (auto simp: gssBidDecrypt_def k bail_def split: sum.splits)
  have "map length out = map (length \<circ> snd) (sealed_parts hb (iov_buffer d) e tb)" using assms(4) o(1) by blast
  then have "map length out = [length hb, length (iov_buffer d), 0, length e, length tb]" by (simp add: sealed_parts_def)
  then obtain hb' msg e' tb' where out: "out = [hb', msg, [], e', tb']" "length hb' = length hb" "length msg = length (iov_buffer d)"
    "length e' = length e" "length tb' = length tb" by (auto simp: map_eq_Cons_conv)
  have iov: "iov = message_iov (hdr @ hb') (d\<lparr>iov_buffer := msg\<rparr>) (e' @ tb')" using o(2) w[OF out(2-5)] by (simp add: out(1))
  from same have "same_header (drop ec (e' @ tb')) (hdr @ hb') = Some True" by (simp add: iov message_update)
  with that o(1) out(1) iov show ?thesis by blast
qed

lemma unwrap_signed_elim:
  assumes "unwrap_signed G r TOK_TYPE_WRAP (message_iov h d t) 0 = Some (Inr iov)" "iov_type d = GSS_IOV_BUFFER_TYPE_DATA"
  shows "iov = message_iov h d t \<and> (\<exists>parts c. covered parts = iov_buffer d @ take 16 h \<and>
    krb5_c_verify_checksum_iov G (checksumType r) (ctx_key r) (key_usage (\<not> flag_set (ctx_flags r) CTX_FLAG_INITIATOR) TOK_TYPE_WRAP)
      (parts @ [(KRB5_CRYPTO_TYPE_CHECKSUM, c)]) = Inr True)"
proof -
  let ?v = "gssBidVerify G (checksumType r) 0 (ctx_key r) (key_usage (\<not> flag_set (ctx_flags r) CTX_FLAG_INITIATOR) TOK_TYPE_WRAP) (message_iov h d t)"
  have "iov = message_iov h d t \<and> ?v = Some (Inr True)"
  proof (cases ?v)
    case None
    with assms(1) show ?thesis by (simp add: unwrap_signed_def)
  next
    case (Some x)
    with assms(1) show ?thesis by (cases x) (simp_all add: unwrap_signed_def split: if_splits)
  qed
  then have iov: "iov = message_iov h d t" and v: "?v = Some (Inr True)" by blast+
  let ?parts = "[(KRB5_CRYPTO_TYPE_EMPTY, h), (KRB5_CRYPTO_TYPE_DATA, iov_buffer d), (KRB5_CRYPTO_TYPE_DATA, []), (KRB5_CRYPTO_TYPE_EMPTY, t),
    (KRB5_CRYPTO_TYPE_SIGN_ONLY, take 16 h)]"
  from v obtain kiov where k: "checksum_parts G 0 (ctx_key r) (message_iov h d t) = Some (Inr kiov)"
    unfolding gssBidVerify_def bailO_def by (simp split: option.splits sum.splits)
  then have "read_parts (message_iov h d t) kiov = ?parts @ [(KRB5_CRYPTO_TYPE_CHECKSUM, t)]"
    using assms(2) by (auto simp: checksum_parts_def locate_message message_parts_message read_parts_def bailO_def Let_def split: sum.splits if_splits)
  with v k have "krb5_c_verify_checksum_iov G (checksumType r) (ctx_key r) (key_usage (\<not> flag_set (ctx_flags r) CTX_FLAG_INITIATOR) TOK_TYPE_WRAP)
      (?parts @ [(KRB5_CRYPTO_TYPE_CHECKSUM, t)]) = Inr True"
    by (simp add: gssBidVerify_def)
  moreover have "covered ?parts = iov_buffer d @ take 16 h" by (simp add: covered_def)
  ultimately show ?thesis using iov by blast
qed

lemma unwrap_stream_elim:
  assumes "unwrapStream G r (stream_iov token) 0 TOK_TYPE_WRAP = Some (Inr (conf, iov), r')"
  obtains hdr hb d t tiov where "length hdr = 16"
    "unwrapToken G r (message_iov (hdr @ hb) \<lparr>iov_type = GSS_IOV_BUFFER_TYPE_DATA, iov_ALLOCATE = True, iov_ALLOCATED = True, iov_buffer = d\<rparr> t) TOK_TYPE_WRAP =
       Some (Inr (conf, tiov), r')" "iov ! 1 = hd (filter (\<lambda>v. iov_type v = GSS_IOV_BUFFER_TYPE_DATA) tiov)"
proof -
  let ?D = "\<lambda>d. \<lparr>iov_type = GSS_IOV_BUFFER_TYPE_DATA, iov_ALLOCATE = True, iov_ALLOCATED = True, iov_buffer = d\<rparr>"
  have filters: "filter (\<lambda>j. iov_type (stream_iov token ! j) = GSS_IOV_BUFFER_TYPE_DATA) [0..<2] = [1]"
    "filter (\<lambda>j. iov_type (stream_iov token ! j) = GSS_IOV_BUFFER_TYPE_DATA \<or> iov_type (stream_iov token ! j) = GSS_IOV_BUFFER_TYPE_SIGN_ONLY) [0..<2] = [1]"
    by (simp_all add: upt_conv_Cons)
  from assms filters have "\<exists>b h d t tiov. unwrapToken G r (message_iov (take h b) (?D d) t) TOK_TYPE_WRAP = Some (Inr (conf, tiov), r') \<and>
      16 \<le> h \<and> h \<le> length b \<and> iov ! 1 = hd (filter (\<lambda>v. iov_type v = GSS_IOV_BUFFER_TYPE_DATA) tiov)"
    unfolding unwrapStream_def Let_def
    by (simp add: upt_conv_Cons map_sum_eq_Inr bail_def split: if_splits option.splits sum.splits prod.splits)
      (elim exE conjE, hypsubst, intro exI conjI, assumption, simp_all)+
  then obtain b h d t tiov where u: "16 \<le> h" "h \<le> length b" "iov ! 1 = hd (filter (\<lambda>v. iov_type v = GSS_IOV_BUFFER_TYPE_DATA) tiov)"
      "unwrapToken G r (message_iov (take h b) (?D d) t) TOK_TYPE_WRAP = Some (Inr (conf, tiov), r')" by blast
  have "take h b = take 16 b @ drop 16 (take h b)" using u(1) by (metis append_take_drop_id min.absorb1 take_take)
  with u that[of "take 16 b" "drop 16 (take h b)"] show ?thesis by simp
qed

text \<open>What one side wraps, each receiver that shares the context can unwrap.\<close>

lemma wrap_opens:
  assumes "peers s r" "kerberos_ok G s" "sm_state s = GSSBID_STATE_ESTABLISHED"
  obtains token where "gss_wrap G (Some s) conf 0 msg = Some (Inr (conf, token), Some (s\<lparr>sendSeq := sendSeq s + 1\<rparr>))"
    "\<And>r. peers s r \<Longrightarrow> opens G r token conf msg (sendSeq s)"
proof (cases conf)
  case True
  obtain token where "gssBidWrap G s True 0 msg = Some (Inr (True, token), s\<lparr>sendSeq := sendSeq s + 1\<rparr>)"
    "\<And>r. peers s r \<Longrightarrow> opens G r token True msg (sendSeq s)"
    by (rule sealed_opens[OF assms(1,2), where msg = msg]) (rule that; blast)
  with True that assms(3) show ?thesis by (simp add: gss_wrap_def with_established_def)
next
  case False
  obtain token where "gssBidWrap G s False 0 msg = Some (Inr (False, token), s\<lparr>sendSeq := sendSeq s + 1\<rparr>)"
    "\<And>r. peers s r \<Longrightarrow> opens G r token False msg (sendSeq s)"
    by (rule signed_opens[OF assms(1,2), where msg = msg]) (rule that; blast)
  with False that assms(3) show ?thesis by (simp add: gss_wrap_def with_established_def)
qed

lemma opens_unwrap:
  assumes "opens G r token conf msg n" "sm_state r = GSSBID_STATE_ESTABLISHED" "seqState r = Some q" "sequenceCheck q n = (major, q')"
    "\<not> GSS_ERROR major"
  shows "gss_unwrap G (Some r) token = Some (Inr (conf, msg), Some (r\<lparr>seqState := Some q'\<rparr>))"
proof -
  from assms obtain stream D where "gssBidUnwrapOrVerifyMIC G r (stream_iov token) TOK_TYPE_WRAP =
      Some (Inr (conf, [stream, D]), r\<lparr>seqState := Some q'\<rparr>)" "iov_buffer D = msg"
    unfolding opens_def by fastforce
  with assms(2) show ?thesis by (simp add: gss_unwrap_def with_established_def)
qed

lemma peers_move [simp]: "peers (s\<lparr>sendSeq := n\<rparr>) r = peers s r" "peers s (r\<lparr>seqState := x\<rparr>) = peers s r"
  by (simp_all add: peers_def)

lemma ctx_key_move [simp]: "ctx_key (s\<lparr>sendSeq := n\<rparr>) = ctx_key s"
  by (simp add: ctx_key_def split: option.split)

lemma kerberos_ok_move [simp]: "kerberos_ok G (s\<lparr>sendSeq := n\<rparr>) = kerberos_ok G s"
  by (simp add: kerberos_ok_def)

text \<open>The receiver waits for the next number of the sender.\<close>

definition in_step :: "gss_ctx \<Rightarrow> gss_ctx \<Rightarrow> bool" where
  "in_step s r \<longleftrightarrow> (\<exists>q. seqState r = Some q \<and> queue_inv q \<and> q_mask q \<in> {NOT 0, 0xffffffff} \<and>
     (do_replay q \<or> do_sequence q \<longrightarrow> last (window q) = (sendSeq s - firstnum q - 1) AND q_mask q))"

lemma in_step_next:
  assumes "in_step s r"
  obtains q q' where "seqState r = Some q" "sequenceCheck q (sendSeq s) = (GSS_S_COMPLETE, q')"
    "in_step (s\<lparr>sendSeq := sendSeq s + 1\<rparr>) (r\<lparr>seqState := Some q'\<rparr>)"
proof -
  from assms obtain q where q: "seqState r = Some q" "queue_inv q" "q_mask q \<in> {NOT 0, 0xffffffff}"
    "do_replay q \<or> do_sequence q \<Longrightarrow> last (window q) = (sendSeq s - firstnum q - 1) AND q_mask q"
    unfolding in_step_def by blast
  show ?thesis
  proof (cases "do_replay q \<or> do_sequence q")
    case True
    have "delta q (sendSeq s) = (last (window q) + 1) AND q_mask q"
      using mask_step[OF q(3), of "sendSeq s - firstnum q - 1"] q(4)[OF True] by (simp add: delta_def)
    with q(2) True obtain q' where q': "sequenceCheck q (sendSeq s) = (GSS_S_COMPLETE, q')" "queue_inv q'" "same_settings q q'"
      "last (window q') = delta q (sendSeq s)" by (rule check_expected)
    have "in_step (s\<lparr>sendSeq := sendSeq s + 1\<rparr>) (r\<lparr>seqState := Some q'\<rparr>)"
      using q' q(3) by (simp add: in_step_def same_settings_def delta_def)
    with q(1) q'(1) that show ?thesis by blast
  next
    case False
    then have "sequenceCheck q (sendSeq s) = (GSS_S_COMPLETE, q)" by (simp add: sequenceCheck_def)
    moreover have "in_step (s\<lparr>sendSeq := sendSeq s + 1\<rparr>) (r\<lparr>seqState := Some q\<rparr>)" using q False by (simp add: in_step_def)
    ultimately show ?thesis using q(1) that by blast
  qed
qed

lemma in_step_init:
  assumes "seqState r = Some (sequenceInit (sendSeq s) rep seq wide)"
  shows "in_step s r"
proof -
  define q where "q = sequenceInit (sendSeq s) rep seq wide"
  from sequence_init[of "sendSeq s" rep seq wide, folded q_def] assms[folded q_def] show ?thesis by (auto simp: in_step_def)
qed

lemma complete_ok [simp]: "\<not> GSS_ERROR GSS_S_COMPLETE" "\<not> GSS_ERROR GSS_S_DUPLICATE_TOKEN"
  by (simp_all add: GSS_ERROR_def)

text \<open>Messages from one side to the other, as they arrive.\<close>

fun deliver :: "'x krb_env_scheme \<Rightarrow> gss_ctx option \<Rightarrow> gss_ctx option \<Rightarrow> (bool \<times> byte list) list \<Rightarrow> (bool \<times> byte list) list option" where
  "deliver G s r [] = Some []"
| "deliver G s r ((conf, msg) # msgs) =
     (case gss_wrap G s conf 0 msg of
        Some (Inr (_, token), s) \<Rightarrow>
          (case gss_unwrap G r token of
             Some (Inr m, r) \<Rightarrow> map_option ((#) m) (deliver G s r msgs)
           | _ \<Rightarrow> None)
      | _ \<Rightarrow> None)"

lemma deliver_in_step:
  assumes "peers s r" "kerberos_ok G s" "sm_state s = GSSBID_STATE_ESTABLISHED" "sm_state r = GSSBID_STATE_ESTABLISHED" "in_step s r"
  shows "deliver G (Some s) (Some r) msgs = Some msgs"
  using assms
proof (induction msgs arbitrary: s r)
  case (Cons m msgs)
  obtain conf msg where m: "m = (conf, msg)" by (cases m)
  obtain token where w: "gss_wrap G (Some s) conf 0 msg = Some (Inr (conf, token), Some (s\<lparr>sendSeq := sendSeq s + 1\<rparr>))"
    and o: "opens G r token conf msg (sendSeq s)"
    by (rule wrap_opens[OF Cons.prems(1-3), where conf = conf and msg = msg]) (rule that, assumption, use Cons.prems(1) in blast)
  obtain q q' where q: "seqState r = Some q" "sequenceCheck q (sendSeq s) = (GSS_S_COMPLETE, q')"
    "in_step (s\<lparr>sendSeq := sendSeq s + 1\<rparr>) (r\<lparr>seqState := Some q'\<rparr>)"
    by (rule in_step_next[OF Cons.prems(5)])
  have "gss_unwrap G (Some r) token = Some (Inr (conf, msg), Some (r\<lparr>seqState := Some q'\<rparr>))"
    by (rule opens_unwrap[OF o Cons.prems(4) q(1,2) complete_ok(1)])
  moreover have "deliver G (Some (s\<lparr>sendSeq := sendSeq s + 1\<rparr>)) (Some (r\<lparr>seqState := Some q'\<rparr>)) msgs = Some msgs"
    using Cons.prems q(3) by (intro Cons.IH) simp_all
  ultimately show ?case by (simp add: m w)
qed simp

lemma first_duplicate:
  assumes "q = sequenceInit n True seq wide" "sequenceCheck q n = (major, q')"
  shows "major = GSS_S_COMPLETE" "fst (sequenceCheck q' n) = GSS_S_DUPLICATE_TOKEN"
proof -
  note i = sequence_init[of n True seq wide, folded assms(1)]
  have w: "(major, window q') = window_check seq (q_mask q) (window q) (delta q n)" "queue_inv q'" "same_settings q q'"
    using sequence_check_window[OF i(1), of n] i(4,5) by (simp_all add: assms(2))
  have d: "delta q n = 0" by (simp add: delta_def i(3))
  have c: "(q_mask q + 1) AND q_mask q = 0" "q_mask q \<noteq> 0" "1 AND q_mask q = 1" using i(6) by auto
  show "major = GSS_S_COMPLETE" using w(1) by (simp add: window_check_def i(2) d c)
  have wq: "window q' = [q_mask q, 0]" using w(1) by (simp add: window_check_def window_insert_def i(2) d c)
  have "delta q' n = 0" "q_mask q' = q_mask q" "do_replay q'" using w(3) d i(4) by (simp_all add: same_settings_def delta_def)
  with sequence_check_window[OF w(2), of n] show "fst (sequenceCheck q' n) = GSS_S_DUPLICATE_TOKEN"
    by (auto simp: window_check_def wq c split: prod.splits)
qed

section \<open>A concrete run\<close>

text \<open>A cipher that inverts every byte, with blocks of two bytes, and a checksum of one byte; and the two
  sides of a context with a key.\<close>

definition sample_krb_env :: krb_env where
  "sample_krb_env = gss_env.extend sample_gss_env (krb_env.fields
     (\<lambda>_ _. Inr 1) (\<lambda>_ n. Inr (if even n then 0 else 1)) (\<lambda>_. Inr 2)
     (\<lambda>_ _ parts. Inr (map (map NOT \<circ> snd) parts)) (\<lambda>_ _ parts. Inr (map (map NOT \<circ> snd) parts))
     (\<lambda>_ _ _ parts. Inr [sum_list (covered (butlast parts))])
     (\<lambda>_ _ _ parts. Inr (snd (last parts) = [sum_list (covered (butlast parts))])))"

definition sample_side :: "bool \<Rightarrow> gss_ctx" where
  "sample_side initiator = (new_gss_ctx initiator (new_context 0))\<lparr>sm_state := GSSBID_STATE_ESTABLISHED, encryptionType := 17,
     rfc3961Key := Some [1, 2, 3], seqState := Some (sequenceInit 0 True False True)\<rparr>"

lemma sample_side_simps [simp]:
  "sm_state (sample_side i) = GSSBID_STATE_ESTABLISHED" "seqState (sample_side i) = Some (sequenceInit 0 True False True)" "sendSeq (sample_side i) = 0"
  by (simp_all add: sample_side_def new_gss_ctx_def)

lemma sample_peers: "peers (sample_side True) (sample_side False)"
  by (simp add: peers_def sample_side_def new_gss_ctx_def flag_set_def or_flag_def)

lemma sample_kerberos: "kerberos_ok sample_krb_env s"
proof -
  let ?k = "ctx_key s"
  note d = sample_krb_env_def gss_env.defs krb_env.defs
  have "padding_law sample_krb_env ?k"
    by (simp add: padding_law_def krbBlockSize_def krbPaddingLength_def d)
  moreover have "cipher_law sample_krb_env ?k usage 1 1" for usage
    by (simp add: cipher_law_def krbCryptoLength_def krbPaddingLength_def sealed_parts_def d comp_def)
  moreover have "checksum_law sample_krb_env ct ?k usage (\<lambda>b. [sum_list b]) 1" for ct usage
    by (simp add: checksum_law_def krbCryptoLength_def d)
  ultimately show ?thesis unfolding kerberos_ok_def by blast
qed

lemmas sample_sides = sample_peers sample_kerberos[of "sample_side True"] sample_side_simps(1) sample_side_simps(1)

section \<open>Properties\<close>

text \<open>A message that one side of an established context wraps, encrypted or only signed, is what the
  other side unwraps, with the same confidentiality; each side moves on by one message.  This
  holds for every message, encryption type, padding and style, and for every window that does not
  fail on the number of the message.\<close>

theorem wrap_unwrap_roundtrip:
  assumes "peers s r" "kerberos_ok G s" "sm_state s = GSSBID_STATE_ESTABLISHED" "sm_state r = GSSBID_STATE_ESTABLISHED"
    and "seqState r = Some q" "\<not> GSS_ERROR (fst (sequenceCheck q (sendSeq s)))"
  shows "\<exists>token. gss_wrap G (Some s) conf 0 msg = Some (Inr (conf, token), Some (s\<lparr>sendSeq := sendSeq s + 1\<rparr>)) \<and>
    gss_unwrap G (Some r) token = Some (Inr (conf, msg), Some (r\<lparr>seqState := Some (snd (sequenceCheck q (sendSeq s)))\<rparr>))"
proof -
  obtain token where w: "gss_wrap G (Some s) conf 0 msg = Some (Inr (conf, token), Some (s\<lparr>sendSeq := sendSeq s + 1\<rparr>))"
    and o: "opens G r token conf msg (sendSeq s)"
    by (rule wrap_opens[OF assms(1-3), where conf = conf and msg = msg]) (rule that, assumption, use assms(1) in blast)
  with opens_unwrap[OF o assms(4,5)] assms(6) show ?thesis by (intro exI[of _ token]) (simp add: prod_eq_iff)
qed

theorem wrap_unwrap_roundtrip_witness:
  "\<exists>token s r. gss_wrap sample_krb_env (Some (sample_side True)) True 0 [104, 105, 33] = Some (Inr (True, token), s) \<and>
    gss_unwrap sample_krb_env (Some (sample_side False)) token = Some (Inr (True, [104, 105, 33]), r)"
proof -
  have "\<not> GSS_ERROR (fst (sequenceCheck (sequenceInit 0 True False True) (sendSeq (sample_side True))))"
    by (simp add: first_duplicate(1)[OF refl prod.collapse[symmetric]])
  from wrap_unwrap_roundtrip[OF sample_sides sample_side_simps(2) this, of True "[104, 105, 33]"] show ?thesis by blast
qed




text \<open>Messages sent one after another over an established context all arrive, in order and with their
  confidentiality, however many there are and whatever the window checks.\<close>

theorem messages_in_order:
  assumes "peers s r" "kerberos_ok G s" "sm_state s = GSSBID_STATE_ESTABLISHED" "sm_state r = GSSBID_STATE_ESTABLISHED"
    and "seqState r = Some (sequenceInit (sendSeq s) rep seq wide)"
  shows "deliver G (Some s) (Some r) msgs = Some msgs"
  by (rule deliver_in_step[OF assms(1-4) in_step_init[OF assms(5)]])

theorem messages_in_order_witness:
  "deliver sample_krb_env (Some (sample_side True)) (Some (sample_side False)) [(True, [1, 2, 3]), (False, []), (False, [4])] =
     Some [(True, [1, 2, 3]), (False, []), (False, [4])]"
  by (rule messages_in_order[OF sample_sides]) simp


text \<open>C31: a repeated message is not reported: although the window finds that the number was received before,
  the receiver unwraps the same token twice with full success.\<close>

theorem unwrap_duplicate_accepted:
  assumes "peers s r" "kerberos_ok G s" "sm_state s = GSSBID_STATE_ESTABLISHED" "sm_state r = GSSBID_STATE_ESTABLISHED"
    and "seqState r = Some (sequenceInit (sendSeq s) True seq wide)"
  shows "\<exists>token s' r' r'' q. gss_wrap G (Some s) conf 0 msg = Some (Inr (conf, token), s') \<and>
    gss_unwrap G (Some r) token = Some (Inr (conf, msg), Some r') \<and>
    seqState r' = Some q \<and> fst (sequenceCheck q (sendSeq s)) = GSS_S_DUPLICATE_TOKEN \<and>
    gss_unwrap G (Some r') token = Some (Inr (conf, msg), r'')"
proof -
  obtain token where w: "gss_wrap G (Some s) conf 0 msg = Some (Inr (conf, token), Some (s\<lparr>sendSeq := sendSeq s + 1\<rparr>))"
    and o: "\<And>r. peers s r \<Longrightarrow> opens G r token conf msg (sendSeq s)"
    by (rule wrap_opens[OF assms(1-3), where conf = conf and msg = msg]) (rule that; blast)
  obtain major q' where c: "sequenceCheck (sequenceInit (sendSeq s) True seq wide) (sendSeq s) = (major, q')" by fastforce
  note d = first_duplicate[OF refl c]
  let ?r = "r\<lparr>seqState := Some q'\<rparr>"
  have u: "gss_unwrap G (Some r) token = Some (Inr (conf, msg), Some ?r)"
    using opens_unwrap[OF o[OF assms(1)] assms(4,5) c] d(1) by simp
  have "peers s ?r" using assms(1) by simp
  then have "gss_unwrap G (Some ?r) token = Some (Inr (conf, msg), Some (?r\<lparr>seqState := Some (snd (sequenceCheck q' (sendSeq s)))\<rparr>))"
    using opens_unwrap[OF o, of ?r q' GSS_S_DUPLICATE_TOKEN "snd (sequenceCheck q' (sendSeq s))"] assms(4) d(2) by (simp add: prod_eq_iff)
  with w u d(2) show ?thesis by auto
qed

theorem unwrap_duplicate_accepted_witness:
  "\<exists>token s r' r''. gss_wrap sample_krb_env (Some (sample_side True)) False 0 [7] = Some (Inr (False, token), s) \<and>
    gss_unwrap sample_krb_env (Some (sample_side False)) token = Some (Inr (False, [7]), Some r') \<and>
    gss_unwrap sample_krb_env (Some r') token = Some (Inr (False, [7]), r'')"
proof -
  have "seqState (sample_side False) = Some (sequenceInit (sendSeq (sample_side True)) True False True)" by simp
  from unwrap_duplicate_accepted[OF sample_sides this, of False "[7]"] show ?thesis by blast
qed

text \<open>C30: the checksum that one side makes for a message is accepted by the other for that message, and moves
  both on by one message.\<close>

theorem mic_roundtrip:
  assumes "peers s r" "kerberos_ok G s" "sm_state s = GSSBID_STATE_ESTABLISHED"
    and "seqState r = Some q" "\<not> GSS_ERROR (fst (sequenceCheck q (sendSeq s)))"
  shows "\<exists>token. gss_get_mic G (Some s) 0 msg = Some (Inr token, Some (s\<lparr>sendSeq := sendSeq s + 1\<rparr>)) \<and>
    gss_verify_mic G (Some r) msg token = Some (Inr (), Some (r\<lparr>seqState := Some (snd (sequenceCheck q (sendSeq s)))\<rparr>))"
proof -
  note p = peers_agree[OF assms(1)]
  from assms(2) obtain mac n where
    law: "checksum_law G (checksumType s) (ctx_key s) (key_usage (flag_set (ctx_flags s) CTX_FLAG_INITIATOR) TOK_TYPE_MIC) mac n"
    unfolding kerberos_ok_def by blast
  let ?c = "mac (msg @ mic_header s)"
  have "checksum_law G (checksumType r) (ctx_key r) (key_usage (\<not> flag_set (ctx_flags r) CTX_FLAG_INITIATOR) TOK_TYPE_MIC) mac (length ?c)"
    using law unfolding p by (simp add: checksum_law_def)
  from mic_checksum(2)[OF this, of "mic_header s" "iov_of GSS_IOV_BUFFER_TYPE_HEADER (mic_header s @ ?c)" msg]
  have "gss_verify_mic G (Some r) msg (mic_header s @ ?c) = map_option (\<lambda>(res, r). (res, Some r)) (check_sequence r (sendSeq s))"
    using p(1,5) by (subst verify_mic[OF p(5) _ refl refl]) simp_all
  moreover have "gss_get_mic G (Some s) 0 msg = Some (Inr (mic_header s @ ?c), Some (s\<lparr>sendSeq := sendSeq s + 1\<rparr>))"
    by (rule get_mic[OF _ assms(3) law]) (use assms(1) in \<open>auto simp: peers_def\<close>)
  ultimately show ?thesis using check_sequence_accepts[OF assms(4,5)] by auto
qed

theorem mic_roundtrip_witness:
  "\<exists>token s r. gss_get_mic sample_krb_env (Some (sample_side True)) 0 [104, 105] = Some (Inr token, s) \<and>
    gss_verify_mic sample_krb_env (Some (sample_side False)) [104, 105] token = Some (Inr (), r)"
proof -
  have "\<not> GSS_ERROR (fst (sequenceCheck (sequenceInit 0 True False True) (sendSeq (sample_side True))))"
    by (simp add: first_duplicate(1)[OF refl prod.collapse[symmetric]])
  from mic_roundtrip[OF sample_sides(1-3) sample_side_simps(2) this, of "[104, 105]"] show ?thesis by blast
qed

text \<open>C32: a checksum token that is only a header makes the verifier fail an assertion, whatever its number:
  the length check lets it pass, and its rotation of zero means that there is no checksum.\<close>

theorem verify_mic_header_only_aborts:
  assumes "encryptionType r \<noteq> ENCTYPE_NULL" "f AND rfc4121Flags r True = rfc4121Flags r True"
    and "krbCryptoLength G (ctx_key r) KRB5_CRYPTO_TYPE_CHECKSUM = Inr k"
  shows "gss_verify_mic G (Some r) msg (token_header TOK_TYPE_MIC f ec rrc n) = None"
proof -
  have "gssBidVerify G (checksumType r) (length []) (ctx_key r) (key_usage (\<not> flag_set (ctx_flags r) CTX_FLAG_INITIATOR) TOK_TYPE_MIC)
      [iov_of GSS_IOV_BUFFER_TYPE_DATA msg, iov_of GSS_IOV_BUFFER_TYPE_HEADER (token_header TOK_TYPE_MIC f ec rrc n @ [])] = None"
    using assms(3) by (simp add: gssBidVerify_def checksum_parts_def gssBidLocateIov_def upt_conv_Cons)
  from verify_mic[OF assms(1,2) refl this] show ?thesis by simp
qed

theorem verify_mic_header_only_aborts_witness:
  "gss_verify_mic sample_krb_env (Some (sample_side False)) [1, 2] (token_header TOK_TYPE_MIC 0 0 0 0) = None"
  by (rule verify_mic_header_only_aborts)
    (simp_all add: sample_side_def new_gss_ctx_def rfc4121Flags_def flag_set_def or_flag_def krbCryptoLength_def
      sample_krb_env_def krb_env.defs gss_env.defs)

end
