(* ===== verification/Session.thy ===== *)
theory Session
  imports Wrap
begin

text \<open>
  From the secret that an authentication leaves with both sides to the messages they exchange: how
  \<^verbatim>\<open>util_context.c\<close>, \<^verbatim>\<open>util_krb.c\<close>, \<^verbatim>\<open>util_ordering.c\<close> and the protection of messages work together.
\<close>

section \<open>The key of a context that is ready\<close>

text \<open>The key and the checksum type for a secret.\<close>

definition session_key :: "'x gss_env_scheme \<Rightarrow> 'y crypto_env_scheme \<Rightarrow> BIDSecretHandleDesc \<Rightarrow> u32 \<Rightarrow> gss_error + byte list \<times> int" where
  "session_key G env secret enctype =
     bail (map_sum (gssBidMapError G) id (BIDDeriveKey env (Some secret) (Some (bytes_of_string ''CRK'')))) (\<lambda>k.
     bail (gssBidDeriveRfc3961Key G k enctype) (\<lambda>key.
     map_sum id (Pair key) (rfc3961ChecksumTypeForKey G (enctype, key))))"

definition same_message_state :: "gss_ctx \<Rightarrow> gss_ctx \<Rightarrow> bool" where
  "same_message_state c c' \<longleftrightarrow> encryptionType c' = encryptionType c \<and> ctx_flags c' = ctx_flags c \<and> sendSeq c' = sendSeq c \<and> recvSeq c' = recvSeq c \<and>
     sm_state c' = sm_state c \<and> flag_set (gssFlags c') GSS_C_DCE_STYLE = flag_set (gssFlags c) GSS_C_DCE_STYLE"

lemma context_key_result:
  assumes "context_key G env i c = (Inr u, c')" "SecretHandle i = Some secret" "encryptionType c \<noteq> ENCTYPE_NULL"
  shows "same_message_state c c' \<and> (\<exists>key cksum. session_key G env secret (encryptionType c) = Inr (key, cksum) \<and>
    rfc3961Key c' = Some key \<and> checksumType c' = cksum)"
  using assms
  by (auto simp: context_key_def BIDIdentityDeriveKey_def BIDIdentitySecretAgreement_def session_key_def same_message_state_def bailS_def bail_def Let_def
      split: sum.splits)

lemma bailS_Inr_elim:
  assumes "bailS m f = (Inr y, c')"
  obtains x c where "m = (Inr x, c)" "f x c = (Inr y, c')"
  using assms by (cases m; cases "fst m") (auto simp: bailS_def)

lemma anon_keeps_dce: "flag_set (f OR GSS_C_ANON_FLAG) GSS_C_DCE_STYLE = flag_set f GSS_C_DCE_STYLE"
  by (simp add: flag_set_def word_ao_dist)

text \<open>A context that becomes ready has the key of the secret and a window from its receiving number.\<close>

lemma context_ready_result:
  assumes "gssBidContextReady G env now i c = (Inr (), c')" "SecretHandle i = Some secret" "encryptionType c \<noteq> ENCTYPE_NULL"
  obtains key cksum rep seq where "same_message_state c c'" "session_key G env secret (encryptionType c) = Inr (key, cksum)"
    "rfc3961Key c' = Some key" "checksumType c' = cksum" "seqState c' = Some (sequenceInit (recvSeq c) rep seq True)"
proof -
  from assms(1) have "\<exists>c1 c2 u. context_key G env i c1 = (Inr u, c2) \<and> same_message_state c c1 \<and> same_message_state c2 c' \<and>
    rfc3961Key c' = rfc3961Key c2 \<and> checksumType c' = checksumType c2 \<and> (\<exists>rep seq. seqState c' = Some (sequenceInit (recvSeq c2) rep seq True))"
    unfolding gssBidContextReady_def Let_def
    by - (elim bailS_Inr_elim, intro exI conjI, assumption,
      auto simp: same_message_state_def anon_keeps_dce split: if_splits sum.splits prod.splits)
  then obtain c1 c2 u where n: "context_key G env i c1 = (Inr u, c2)" "same_message_state c c1" and c': "same_message_state c2 c'"
    "rfc3961Key c' = rfc3961Key c2" "checksumType c' = checksumType c2" "\<exists>rep seq. seqState c' = Some (sequenceInit (recvSeq c2) rep seq True)"
    by blast
  from context_key_result[OF n(1) assms(2)] n(2) assms(3) have k: "same_message_state c1 c2"
    "\<exists>key cksum. session_key G env secret (encryptionType c) = Inr (key, cksum) \<and> rfc3961Key c2 = Some key \<and> checksumType c2 = cksum"
    by (auto simp: same_message_state_def)
  from n(2) k(1) c'(1) have "same_message_state c c'" "recvSeq c2 = recvSeq c" by (auto simp: same_message_state_def)
  with k(2) c'(2-4) that show ?thesis by metis
qed

section \<open>Both sides\<close>

text \<open>Contexts that become ready with the same secret share what the protection of messages needs.\<close>

lemma ready_peers:
  assumes "gssBidContextReady G env now i s = (Inr (), s')" "gssBidContextReady G env now' j r = (Inr (), r')"
    and "SecretHandle i = Some secret" "SecretHandle j = Some secret"
    and "encryptionType s = encryptionType r" "encryptionType s \<noteq> ENCTYPE_NULL"
    and "flag_set (ctx_flags s) CTX_FLAG_INITIATOR \<noteq> flag_set (ctx_flags r) CTX_FLAG_INITIATOR"
    and "flag_set (ctx_flags s) CTX_FLAG_EXTRA_ROUND_TRIP = flag_set (ctx_flags r) CTX_FLAG_EXTRA_ROUND_TRIP"
    and "flag_set (gssFlags s) GSS_C_DCE_STYLE = flag_set (gssFlags r) GSS_C_DCE_STYLE"
  shows "peers s' r' \<and> sendSeq s' = sendSeq s \<and> (\<exists>rep seq. seqState r' = Some (sequenceInit (recvSeq r) rep seq True))"
proof -
  obtain key cksum where s: "same_message_state s s'" "session_key G env secret (encryptionType s) = Inr (key, cksum)"
    "rfc3961Key s' = Some key" "checksumType s' = cksum"
    by (rule context_ready_result[OF assms(1,3,6)])
  have "encryptionType r \<noteq> ENCTYPE_NULL" using assms(5,6) by simp
  then obtain key' cksum' rep seq where r: "same_message_state r r'" "session_key G env secret (encryptionType r) = Inr (key', cksum')"
    "rfc3961Key r' = Some key'" "checksumType r' = cksum'" "seqState r' = Some (sequenceInit (recvSeq r) rep seq True)"
    by (rule context_ready_result[OF assms(2,4)])
  have "peers s' r'"
    using s r(1-4) assms(5-9) unfolding peers_def same_message_state_def by auto
  with s(1) r(5) show ?thesis by (auto simp: same_message_state_def)
qed

lemma peers_established [simp]:
  "peers (s\<lparr>sm_state := a\<rparr>) r = peers s r" "peers s (r\<lparr>sm_state := a\<rparr>) = peers s r" "kerberos_ok G (s\<lparr>sm_state := a\<rparr>) = kerberos_ok G s"
  by (simp_all add: peers_def kerberos_ok_def ctx_key_def cong: option.case_cong)

text \<open>Two sides of a sample context, with identities that share a secret.\<close>

definition session_identity :: BIDIdentityDesc where
  "session_identity = \<lparr>Attributes = JObject [(''sub'', JString ''a@b.org'')], PrivateAttributes = JObject [], SecretHandle = Some (SecretHandleDesc (Some [1, 2, 3]))\<rparr>"

lemma sample_side_ready:
  "\<exists>c. gssBidContextReady sample_krb_env sample_env 5 session_identity ((new_gss_ctx initiator (new_context 0))\<lparr>encryptionType := 17\<rparr>) = (Inr (), c)"
proof -
  note defs = sample_krb_env_def sample_gss_env_def sample_cred_env_def sample_name_env_def name_env.defs cred_env.defs gss_env.defs krb_env.defs
  have n: "c_string (bytes_of_string ''a@b.org'') = ''a@b.org''" by (rule c_string_bytes_of_string) simp
  then obtain name where name: "import_subject sample_krb_env ''a@b.org'' False None = Inr name"
    by (simp add: import_subject_def gssBidImportName_def nameTypes_def importUserName_def importBidNameFlags_def GSS_C_NT_BROWSERID_PRINCIPAL_def
        defs Let_def)
  let ?c = "((new_gss_ctx initiator (new_context 0))\<lparr>encryptionType := 17\<rparr>)\<lparr>initiatorName := Some name\<rparr>"
  have "\<exists>c. context_key sample_krb_env sample_env session_identity ?c = (Inr (), c) \<and> expiryTime c = 0"
    by (simp add: context_key_def BIDIdentityDeriveKey_def BIDIdentitySecretAgreement_def BIDDeriveKey_def session_identity_def
        gssBidDeriveRfc3961Key_def rfc3961ChecksumTypeForKey_def new_gss_ctx_def sample_env_def defs)
  then obtain c where c: "context_key sample_krb_env sample_env session_identity ?c = (Inr (), c)" "expiryTime c = 0" by blast
  have sub: "BIDGetIdentitySubject session_identity = Inr ''a@b.org''"
    by (simp add: BIDGetIdentitySubject_def BIDGetIdentityAttribute_def session_identity_def BIDGetJsonStringValue_def)
  have flags: "\<not> flag_set (gssFlags (new_gss_ctx initiator (new_context 0))) GSS_C_ANON_FLAG" "mechanismUsed (new_gss_ctx initiator (new_context 0)) = None"
    by (simp_all add: new_gss_ctx_def flag_set_def)
  have "gssBidCreateAttrContext sample_krb_env session_identity = Inr (JNull, 0)" by (simp add: defs)
  with name c flags show ?thesis by (simp add: gssBidContextReady_def sub guard_def Let_def)
qed

section \<open>Properties\<close>

text \<open>C26: from the secret of an authentication to messages: if both sides have identities with the same
  secret, and both contexts become ready, then they have the same key, and every sequence of
  messages from one to the other arrives unchanged and in order.\<close>

theorem session_delivers:
  assumes "gssBidContextReady G env now i s = (Inr (), s')" "gssBidContextReady G env now' j r = (Inr (), r')"
    and "SecretHandle i = Some secret" "SecretHandle j = Some secret"
    and "encryptionType s = encryptionType r" "encryptionType s \<noteq> ENCTYPE_NULL"
    and "flag_set (ctx_flags s) CTX_FLAG_INITIATOR \<noteq> flag_set (ctx_flags r) CTX_FLAG_INITIATOR"
    and "flag_set (ctx_flags s) CTX_FLAG_EXTRA_ROUND_TRIP = flag_set (ctx_flags r) CTX_FLAG_EXTRA_ROUND_TRIP"
    and "flag_set (gssFlags s) GSS_C_DCE_STYLE = flag_set (gssFlags r) GSS_C_DCE_STYLE"
    and "recvSeq r = sendSeq s" "kerberos_ok G s'"
  shows "rfc3961Key s' = rfc3961Key r' \<and> deliver G (Some (s'\<lparr>sm_state := GSSBID_STATE_ESTABLISHED\<rparr>)) (Some (r'\<lparr>sm_state := GSSBID_STATE_ESTABLISHED\<rparr>)) msgs = Some msgs"
proof -
  obtain rep seq where p: "peers s' r'" "sendSeq s' = sendSeq s" "seqState r' = Some (sequenceInit (recvSeq r) rep seq True)"
    using ready_peers[OF assms(1-9)] by blast
  have "in_step (s'\<lparr>sm_state := GSSBID_STATE_ESTABLISHED\<rparr>) (r'\<lparr>sm_state := GSSBID_STATE_ESTABLISHED\<rparr>)"
    using p(2,3) assms(10) by (intro in_step_init[of _ _ rep seq True]) simp
  with p(1) assms(11) have "deliver G (Some (s'\<lparr>sm_state := GSSBID_STATE_ESTABLISHED\<rparr>)) (Some (r'\<lparr>sm_state := GSSBID_STATE_ESTABLISHED\<rparr>)) msgs = Some msgs"
    by (intro deliver_in_step) simp_all
  with p(1) show ?thesis by (simp add: peers_def)
qed

theorem session_delivers_witness:
  "\<exists>s r. rfc3961Key s = rfc3961Key r \<and> deliver sample_krb_env (Some s) (Some r) [(True, [1]), (False, [2, 3])] = Some [(True, [1]), (False, [2, 3])]"
proof -
  let ?c = "\<lambda>initiator. (new_gss_ctx initiator (new_context 0))\<lparr>encryptionType := 17\<rparr>"
  obtain s where s: "gssBidContextReady sample_krb_env sample_env 5 session_identity (?c True) = (Inr (), s)" using sample_side_ready by blast
  obtain r where r: "gssBidContextReady sample_krb_env sample_env 5 session_identity (?c False) = (Inr (), r)" using sample_side_ready by blast
  have "SecretHandle session_identity = Some (SecretHandleDesc (Some [1, 2, 3]))" by (simp add: session_identity_def)
  from session_delivers[OF s r this this _ _ _ _ _ _ sample_kerberos, of "[(True, [1]), (False, [2, 3])]"]
  have "rfc3961Key s = rfc3961Key r \<and> deliver sample_krb_env (Some (s\<lparr>sm_state := GSSBID_STATE_ESTABLISHED\<rparr>))
      (Some (r\<lparr>sm_state := GSSBID_STATE_ESTABLISHED\<rparr>)) [(True, [1]), (False, [2, 3])] = Some [(True, [1]), (False, [2, 3])]"
    by (simp add: new_gss_ctx_def flag_set_def or_flag_def del: deliver.simps)
  then show ?thesis
    by (intro exI[of _ "s\<lparr>sm_state := GSSBID_STATE_ESTABLISHED\<rparr>"] exI[of _ "r\<lparr>sm_state := GSSBID_STATE_ESTABLISHED\<rparr>"]) (simp del: deliver.simps)
qed

end
