(* ===== verification/Entry.thy ===== *)
theory Entry
  imports Session
begin

text \<open>
  Entry points of the mechanism that are not part of a handshake: the pseudo-random function
  (\<^verbatim>\<open>pseudo_random.c\<close>), what a context tells about itself (\<^verbatim>\<open>inquire_context.c\<close>, \<^verbatim>\<open>context_time.c\<close>,
  \<^verbatim>\<open>inquire_sec_context_by_oid.c\<close>, \<^verbatim>\<open>util_lucid.c\<close>), the options of credentials (\<^verbatim>\<open>set_cred_option.c\<close>) and the
  calls that hand on to names and credentials.  Undefined behaviour is \<open>None\<close>.
\<close>

section \<open>Pseudo-random function\<close>

text \<open>The length of a block of the function of Kerberos, and the function.\<close>

record prf_env = krb_env +
  krb5_c_prf_length :: "u32 \<Rightarrow> OM_uint32 + nat"
  krb5_c_prf :: "krb5_keyblock \<Rightarrow> byte list \<Rightarrow> OM_uint32 + byte list"

abbreviation GSS_C_PRF_KEY_FULL :: int where "GSS_C_PRF_KEY_FULL \<equiv> 0"
abbreviation GSS_C_PRF_KEY_PARTIAL :: int where "GSS_C_PRF_KEY_PARTIAL \<equiv> 1"
abbreviation GSSBID_BAD_CONTEXT_OPTION :: OM_uint32 where "GSSBID_BAD_CONTEXT_OPTION \<equiv> 13"
abbreviation GSSBID_BAD_CRED_OPTION :: OM_uint32 where "GSSBID_BAD_CRED_OPTION \<equiv> 26"
abbreviation GSSBID_BAD_PRF_KEY :: OM_uint32 where "GSSBID_BAD_PRF_KEY \<equiv> 42"

text \<open>
  Blocks for a counter before the input, until there are enough bytes; \<open>None\<close> is a loop that never ends,
  which blocks of length zero would give.
\<close>

partial_function (option) prf_loop ::
  "(byte list \<Rightarrow> OM_uint32 + byte list) \<Rightarrow> nat \<Rightarrow> byte list \<Rightarrow> u32 \<Rightarrow> nat \<Rightarrow> byte list \<Rightarrow> (OM_uint32 + byte list) option" where
  "prf_loop prf prflen input i desired out =
     (if desired = 0 then Some (Inr out)
      else case prf (store_uint32_be i @ input) of
        Inl code \<Rightarrow> Some (Inl code)
      | Inr t \<Rightarrow> prf_loop prf prflen input (i + 1) (desired - prflen) (out @ take (min prflen desired) t))"

definition gssBidPseudoRandom :: "'x prf_env_scheme \<Rightarrow> gss_ctx \<Rightarrow> int \<Rightarrow> byte list \<Rightarrow> nat \<Rightarrow> (gss_error + byte list) option" where
  "gssBidPseudoRandom G ctx prf_key prf_in desired =
     map_option (map_sum (\<lambda>code. (GSS_S_FAILURE, code)) id)
       (if prf_key \<noteq> GSS_C_PRF_KEY_PARTIAL \<and> prf_key \<noteq> GSS_C_PRF_KEY_FULL then Some (Inl (bidg G GSSBID_BAD_PRF_KEY))
        else if encryptionType ctx = ENCTYPE_NULL then Some (Inl (bidg G GSSBID_KEY_UNAVAILABLE))
        else bailO (Some (krb5_c_prf_length G (encryptionType ctx))) (\<lambda>prflen.
          prf_loop (krb5_c_prf G (ctx_key ctx)) prflen prf_in 0 desired []))"

text \<open>A negative length asks for more memory than there is.\<close>

definition gss_pseudo_random ::
  "'x prf_env_scheme \<Rightarrow> gss_ctx option \<Rightarrow> int \<Rightarrow> byte list \<Rightarrow> int \<Rightarrow> (gss_error + byte list) option" where
  "gss_pseudo_random G handle prf_key prf_in desired_output_len =
     (case handle of
        None \<Rightarrow> Some (Inl (GSS_S_CALL_INACCESSIBLE_READ OR GSS_S_NO_CONTEXT, EINVAL))
      | Some ctx \<Rightarrow>
          if sm_state ctx \<noteq> GSSBID_STATE_ESTABLISHED then Some (Inl (GSS_S_NO_CONTEXT, bidg G GSSBID_CONTEXT_INCOMPLETE))
          else if desired_output_len < 0 then Some (Inl (GSS_S_FAILURE, 12))
          else gssBidPseudoRandom G ctx prf_key prf_in (nat desired_output_len))"

section \<open>Inquiring a context\<close>

definition gss_context_time :: "'x gss_tables_scheme \<Rightarrow> int \<Rightarrow> gss_ctx option \<Rightarrow> gss_error + u32" where
  "gss_context_time G now handle =
     (case handle of
        None \<Rightarrow> Inl (GSS_S_CALL_INACCESSIBLE_READ OR GSS_S_NO_CONTEXT, EINVAL)
      | Some ctx \<Rightarrow>
          if sm_state ctx \<noteq> GSSBID_STATE_ESTABLISHED then Inl (GSS_S_NO_CONTEXT, bidg G GSSBID_CONTEXT_INCOMPLETE)
          else case gssBidContextTime now ctx of (major, time_rec) \<Rightarrow> if GSS_ERROR major then Inl (major, 0) else Inr time_rec)"

record context_info =
  src_name :: "gss_name option"
  targ_name :: "gss_name option"
  lifetime_rec :: u32
  mech_type :: "gss_OID option"
  info_flags :: u32
  locally_initiated :: bool
  is_open :: bool

text \<open>All results are asked for; a lifetime that is over is not an error.\<close>

definition gss_inquire_context :: "'x gss_env_scheme \<Rightarrow> int \<Rightarrow> gss_ctx option \<Rightarrow> gss_error + context_info" where
  "gss_inquire_context G now handle =
     (case handle of
        None \<Rightarrow> Inl (GSS_S_CALL_INACCESSIBLE_READ OR GSS_S_NO_CONTEXT, EINVAL)
      | Some ctx \<Rightarrow>
          let copy = (\<lambda>name. case name of None \<Rightarrow> Inr None | Some n \<Rightarrow> map_sum id Some (gssBidDuplicateName G (Some n))) in
          bail (copy (initiatorName ctx)) (\<lambda>src.
          bail (copy (acceptorName ctx)) (\<lambda>targ.
          bail (gssBidCanonicalizeOid G (gssBidDefaultMech G) (mechanismUsed ctx) 0) (\<lambda>mech.
          Inr \<lparr>src_name = src, targ_name = targ, lifetime_rec = snd (gssBidContextTime now ctx), mech_type = mech,
               info_flags = gssFlags ctx, locally_initiated = flag_set (ctx_flags ctx) CTX_FLAG_INITIATOR,
               is_open = (sm_state ctx = GSSBID_STATE_ESTABLISHED)\<rparr>))))"

text \<open>The structure of MIT Kerberos; a key that is not set is zero.\<close>

record lucid_context =
  lucid_initiate :: bool
  lucid_endtime :: u32
  send_seq :: u64
  recv_seq :: u64
  have_acceptor_subkey :: bool
  lucid_ctx_key :: krb5_keyblock
  lucid_acceptor_subkey :: krb5_keyblock

abbreviation KRB_TIME_FOREVER :: int where "KRB_TIME_FOREVER \<equiv> 2147483647"

definition gssBidExportLucidSecContext :: "gss_ctx \<Rightarrow> lucid_context" where
  "gssBidExportLucidSecContext ctx =
     (let haveAcceptorSubkey = (rfc4121Flags ctx False AND TOK_FLAG_ACCEPTOR_SUBKEY \<noteq> 0)
      in \<lparr>lucid_initiate = flag_set (ctx_flags ctx) CTX_FLAG_INITIATOR,
          lucid_endtime = word_of_int (if expiryTime ctx = 0 then KRB_TIME_FOREVER else expiryTime ctx),
          send_seq = sendSeq ctx, recv_seq = recvSeq ctx, have_acceptor_subkey = haveAcceptorSubkey,
          lucid_ctx_key = (if haveAcceptorSubkey then (0, []) else ctx_key ctx),
          lucid_acceptor_subkey = (if haveAcceptorSubkey then ctx_key ctx else (0, []))\<rparr>)"

text \<open>A member of a set of buffers holds bytes or a pointer to a structure.\<close>

datatype set_member = BufferBytes "byte list" | BufferLucid lucid_context

definition addEnctypeOidToBufferSet ::
  "'x gss_tables_scheme \<Rightarrow> u32 \<Rightarrow> set_member list \<Rightarrow> gss_error + set_member list" where
  "addEnctypeOidToBufferSet G enctype dataSet =
     bail (composeOid G [0x2a, 0x86, 0x48, 0x86, 0xf7, 0x12, 0x01, 0x02, 0x02, 0x04] (unat enctype) 16) (\<lambda>oid.
       Inr (dataSet @ [BufferBytes oid]))"

definition inquireSessionKey :: "'x prf_env_scheme \<Rightarrow> gss_ctx \<Rightarrow> gss_OID \<Rightarrow> (gss_error + set_member list) option" where
  "inquireSessionKey G ctx desired_object =
     Some (if encryptionType ctx = ENCTYPE_NULL then Inl (GSS_S_UNAVAILABLE, bidg G GSSBID_KEY_UNAVAILABLE)
           else addEnctypeOidToBufferSet G (encryptionType ctx) [BufferBytes (snd (ctx_key ctx))])"

definition NEGOEX_INITIATOR_SALT :: "byte list" where "NEGOEX_INITIATOR_SALT = bytes_of_string ''gss-browserid-negoex-initiator''"
definition NEGOEX_ACCEPTOR_SALT :: "byte list" where "NEGOEX_ACCEPTOR_SALT = bytes_of_string ''gss-browserid-negoex-acceptor''"

abbreviation GSS_C_INQ_SSPI_SESSION_KEY :: gss_OID where
  "GSS_C_INQ_SSPI_SESSION_KEY \<equiv> [0x2a, 0x86, 0x48, 0x86, 0xf7, 0x12, 0x01, 0x02, 0x02, 0x05, 0x05]"
abbreviation GSS_KRB5_EXPORT_LUCID_SEC_CONTEXT_V1 :: gss_OID where
  "GSS_KRB5_EXPORT_LUCID_SEC_CONTEXT_V1 \<equiv> [0x2a, 0x86, 0x48, 0x86, 0xf7, 0x12, 0x01, 0x02, 0x02, 0x05, 0x06, 0x01]"
abbreviation GSS_C_INQ_NEGOEX_KEY :: gss_OID where
  "GSS_C_INQ_NEGOEX_KEY \<equiv> [0x2a, 0x86, 0x48, 0x86, 0xf7, 0x12, 0x01, 0x02, 0x02, 0x05, 0x06]"
abbreviation GSS_C_INQ_NEGOEX_VERIFY_KEY :: gss_OID where
  "GSS_C_INQ_NEGOEX_VERIFY_KEY \<equiv> [0x2a, 0x86, 0x48, 0x86, 0xf7, 0x12, 0x01, 0x02, 0x02, 0x05, 0x07]"

text \<open>The key for signing is that of the own side, the key for verifying that of the peer.\<close>

definition inquireNegoExKey :: "'x prf_env_scheme \<Rightarrow> gss_ctx \<Rightarrow> gss_OID \<Rightarrow> (gss_error + set_member list) option" where
  "inquireNegoExKey G ctx desired_object =
     (if encryptionType ctx = ENCTYPE_NULL then Some (Inl (GSS_S_UNAVAILABLE, bidg G GSSBID_KEY_UNAVAILABLE))
      else
        let bInitiatorKey = (flag_set (ctx_flags ctx) CTX_FLAG_INITIATOR \<noteq> (desired_object = GSS_C_INQ_NEGOEX_VERIFY_KEY));
            salt = (if bInitiatorKey then NEGOEX_INITIATOR_SALT else NEGOEX_ACCEPTOR_SALT)
        in bailO (gssBidPseudoRandom G ctx GSS_C_PRF_KEY_FULL salt (length (snd (ctx_key ctx)))) (\<lambda>key.
           Some (addEnctypeOidToBufferSet G (encryptionType ctx) [BufferBytes key])))"

definition inquireCtxOps :: "(gss_OID \<times> ('x prf_env_scheme \<Rightarrow> gss_ctx \<Rightarrow> gss_OID \<Rightarrow> (gss_error + set_member list) option)) list" where
  "inquireCtxOps =
     [(GSS_C_INQ_SSPI_SESSION_KEY, inquireSessionKey),
      (GSS_KRB5_EXPORT_LUCID_SEC_CONTEXT_V1, \<lambda>_ ctx _. Some (Inr [BufferLucid (gssBidExportLucidSecContext ctx)])),
      (GSS_C_INQ_NEGOEX_KEY, inquireNegoExKey),
      (GSS_C_INQ_NEGOEX_VERIFY_KEY, inquireNegoExKey)]"

text \<open>The handle is used without a check; a context need not be established.\<close>

definition gss_inquire_sec_context_by_oid ::
  "'x prf_env_scheme \<Rightarrow> gss_ctx option \<Rightarrow> gss_OID \<Rightarrow> (gss_error + set_member list) option" where
  "gss_inquire_sec_context_by_oid G handle desired_object =
     (case handle of
        None \<Rightarrow> None
      | Some ctx \<Rightarrow>
          (case map_of inquireCtxOps desired_object of
             None \<Rightarrow> Some (Inl (GSS_S_UNAVAILABLE, bidg G GSSBID_BAD_CONTEXT_OPTION))
           | Some inquire \<Rightarrow> inquire G ctx desired_object))"

definition gss_set_sec_context_option :: "'x gss_tables_scheme \<Rightarrow> gss_ctx option \<Rightarrow> gss_OID \<Rightarrow> byte list \<Rightarrow> (gss_error + unit) \<times> gss_ctx option" where
  "gss_set_sec_context_option G handle desired_object val = (Inl (GSS_S_UNAVAILABLE, bidg G GSSBID_BAD_CONTEXT_OPTION), handle)"

section \<open>Options of credentials\<close>

abbreviation CRED_FLAG_PUBLIC_MASK :: u32 where "CRED_FLAG_PUBLIC_MASK \<equiv> 0xFFFF"

text \<open>A fifth byte that is not zero clears the flags.\<close>

definition setCredFlag :: "'x gss_tables_scheme \<Rightarrow> gss_cred \<Rightarrow> byte list option \<Rightarrow> gss_error + gss_cred" where
  "setCredFlag G cred buffer =
     (case buffer of
        None \<Rightarrow> Inl (GSS_S_CALL_INACCESSIBLE_READ OR GSS_S_FAILURE, EINVAL)
      | Some b \<Rightarrow>
          (case load_uint32_be b of
             None \<Rightarrow> Inl (GSS_S_FAILURE, bidg G GSSBID_WRONG_SIZE)
           | Some v \<Rightarrow>
               let flags = v AND CRED_FLAG_PUBLIC_MASK
               in Inr (cred\<lparr>cred_flags := (if 4 < length b \<and> b ! 4 \<noteq> 0 then cred_flags cred AND NOT flags else cred_flags cred OR flags)\<rparr>)))"

text \<open>The name of a cache is the buffer up to a zero byte, whether or not there is one in it.\<close>

definition with_cache_name ::
  "gss_cred \<Rightarrow> byte list option \<Rightarrow> (string option \<Rightarrow> (gss_error + gss_cred) \<times> 'h) \<Rightarrow> ((gss_error + gss_cred) \<times> 'h) option" where
  "with_cache_name cred buffer set_name =
     (case buffer of
        None \<Rightarrow> Some (set_name None)
      | Some b \<Rightarrow> if 0 \<in> set b \<or> flag_set (cred_flags cred) CRED_FLAG_RESOLVED then Some (set_name (Some (c_string b))) else None)"

type_synonym ('x, 'd) cred_option =
  "'x cred_env_scheme \<Rightarrow> 'd cache_system \<Rightarrow> gss_cred \<Rightarrow> byte list option \<Rightarrow> 'd cache_heap \<Rightarrow> ((gss_error + gss_cred) \<times> 'd cache_heap) option"

definition setCredAssertion :: "('x, 'd) cred_option" where
  "setCredAssertion G sys cred buffer heap = Some (gssBidSetCredAssertion G buffer cred, heap)"

definition setCredTicketCache :: "('x, 'd) cred_option" where
  "setCredTicketCache G sys cred buffer heap = with_cache_name cred buffer (\<lambda>name. gssBidSetCredTicketCacheName G (CacheTable sys) name cred heap)"

definition setCredReplayCache :: "('x, 'd) cred_option" where
  "setCredReplayCache G sys cred buffer heap = with_cache_name cred buffer (\<lambda>name. gssBidSetCredReplayCacheName G (CacheTable sys) name cred heap)"

text \<open>The table has the same identifier in its last two entries, although the comment before the last one
  names another.\<close>

definition setCredOps :: "(gss_OID \<times> ('x, 'd) cred_option) list" where
  "setCredOps =
     [([0x2B, 0x06, 0x01, 0x04, 0x01, 0xA9, 0x4A, 0x18, 0x03, 0x03, 0x01], \<lambda>G sys cred buffer heap. Some (setCredFlag G cred buffer, heap)),
      ([0x2B, 0x06, 0x01, 0x04, 0x01, 0xA9, 0x4A, 0x18, 0x03, 0x03, 0x02], setCredAssertion),
      ([0x2B, 0x06, 0x01, 0x04, 0x01, 0xA9, 0x4A, 0x18, 0x03, 0x03, 0x03], setCredTicketCache),
      ([0x2B, 0x06, 0x01, 0x04, 0x01, 0xA9, 0x4A, 0x18, 0x03, 0x03, 0x03], setCredReplayCache)]"

text \<open>A new credential is kept also when the option fails.\<close>

definition gssspi_set_cred_option ::
  "'x cred_env_scheme \<Rightarrow> 'd cache_system \<Rightarrow> gss_cred option \<Rightarrow> gss_OID \<Rightarrow> byte list option \<Rightarrow> 'd cache_heap \<Rightarrow>
    ((gss_error + unit) \<times> gss_cred option \<times> 'd cache_heap) option" where
  "gssspi_set_cred_option G sys pCred desired_object val heap =
     (case (case pCred of None \<Rightarrow> gssBidAllocCred G sys heap | Some cred \<Rightarrow> (Inr cred, heap)) of
        (Inl e, heap) \<Rightarrow> Some (Inl e, None, heap)
      | (Inr cred, heap) \<Rightarrow>
          (case map_of setCredOps desired_object of
             None \<Rightarrow> Some (Inl (GSS_S_UNAVAILABLE, bidg G GSSBID_BAD_CRED_OPTION), Some cred, heap)
           | Some setOption \<Rightarrow>
               map_option (\<lambda>(r, heap). case r of Inl e \<Rightarrow> (Inl e, Some cred, heap) | Inr cred \<Rightarrow> (Inr (), Some cred, heap))
                 (setOption G sys cred val heap)))"

section \<open>Calls on credentials\<close>

definition gss_acquire_cred ::
  "'x cred_env_scheme \<Rightarrow> 'd cache_system \<Rightarrow> gss_name option \<Rightarrow> gss_OID list option \<Rightarrow> int \<Rightarrow> 'd cache_heap \<Rightarrow> (gss_error + gss_cred) \<times> 'd cache_heap" where
  "gss_acquire_cred G sys desired_name desired_mechs cred_usage heap = gssBidAcquireCred G sys desired_name desired_mechs cred_usage heap"

definition gss_acquire_cred_from ::
  "'x cred_env_scheme \<Rightarrow> 'd cache_system \<Rightarrow> gss_name option \<Rightarrow> gss_OID list option \<Rightarrow> int \<Rightarrow> 'd cache_heap \<Rightarrow> (gss_error + gss_cred) \<times> 'd cache_heap" where
  "gss_acquire_cred_from G sys desired_name desired_mechs cred_usage heap = gssBidAcquireCred G sys desired_name desired_mechs cred_usage heap"

text \<open>Without a mechanism the set of mechanisms has one element that is not there, which is read.\<close>

definition gss_add_cred ::
  "'x cred_env_scheme \<Rightarrow> 'd cache_system \<Rightarrow> gss_name option \<Rightarrow> gss_OID option \<Rightarrow> int \<Rightarrow> 'd cache_heap \<Rightarrow>
    ((gss_error + gss_cred) \<times> 'd cache_heap) option" where
  "gss_add_cred G sys desired_name desired_mech cred_usage heap =
     (case desired_mech of
        None \<Rightarrow> None
      | Some mech \<Rightarrow> Some (gssBidAcquireCred G sys desired_name (Some [mech]) cred_usage heap))"

definition gss_add_cred_from ::
  "'x cred_env_scheme \<Rightarrow> 'd cache_system \<Rightarrow> gss_name option \<Rightarrow> gss_OID option \<Rightarrow> int \<Rightarrow> 'd cache_heap \<Rightarrow>
    ((gss_error + gss_cred) \<times> 'd cache_heap) option" where
  "gss_add_cred_from G sys desired_name desired_mech cred_usage heap =
     (case desired_mech of
        None \<Rightarrow> None
      | Some mech \<Rightarrow> Some (gssBidAcquireCred G sys desired_name (Some [mech]) cred_usage heap))"

definition gss_release_cred :: "gss_cred option \<Rightarrow> 'd cache_heap \<Rightarrow> 'd cache_heap" where
  "gss_release_cred cred_handle heap = gssBidReleaseCred cred_handle heap"

definition gss_inquire_cred ::
  "'x name_env_scheme \<Rightarrow> int \<Rightarrow> gss_cred option \<Rightarrow> (gss_error + unit) \<times> (gss_name option \<times> u32 \<times> int \<times> gss_OID list) option" where
  "gss_inquire_cred G now cred =
     (case cred of None \<Rightarrow> (Inl (GSS_S_NO_CRED, EINVAL), None) | Some cred \<Rightarrow> gssBidInquireCred G now cred)"

text \<open>The lifetimes are stored only on success, the name and usage before.\<close>

definition gss_inquire_cred_by_mech ::
  "'x name_env_scheme \<Rightarrow> int \<Rightarrow> gss_cred option \<Rightarrow> gss_OID option \<Rightarrow>
    (gss_error + u32 \<times> u32) \<times> (gss_name option \<times> int) option" where
  "gss_inquire_cred_by_mech G now cred mech =
     (case cred of
        None \<Rightarrow> (Inl (GSS_S_NO_CRED, EINVAL), None)
      | Some cred \<Rightarrow>
          if \<not> gssBidCredAvailable (Some cred) mech then (Inl (GSS_S_BAD_MECH, bidg G GSSBID_CRED_MECH_MISMATCH), None)
          else case gssBidInquireCred G now cred of
            (Inr _, Some (name, lifetime, usage, _)) \<Rightarrow>
              (Inr (if flag_set (cred_flags cred) CRED_FLAG_INITIATE then lifetime else 0,
                    if flag_set (cred_flags cred) CRED_FLAG_ACCEPT then lifetime else 0), Some (name, usage))
          | (Inr _, None) \<Rightarrow> (Inr (0, 0), None)
          | (Inl e, out) \<Rightarrow> (Inl e, map_option (\<lambda>(name, _, usage, _). (name, usage)) out))"

text \<open>Storing a credential does nothing, but is a success.\<close>

definition gss_store_cred :: "gss_cred option \<Rightarrow> int \<Rightarrow> gss_error + int" where
  "gss_store_cred cred input_usage =
     (case cred of None \<Rightarrow> Inl (GSS_S_CALL_INACCESSIBLE_READ OR GSS_S_NO_CRED, EINVAL) | Some _ \<Rightarrow> Inr input_usage)"

definition gss_inquire_cred_by_oid :: "'x gss_tables_scheme \<Rightarrow> gss_cred option \<Rightarrow> gss_OID \<Rightarrow> gss_error + byte list list" where
  "gss_inquire_cred_by_oid G cred desired_object =
     (case cred of
        None \<Rightarrow> Inl (GSS_S_CALL_INACCESSIBLE_READ OR GSS_S_NO_CRED, EINVAL)
      | Some _ \<Rightarrow> Inl (GSS_S_UNAVAILABLE, bidg G GSSBID_BAD_CRED_OPTION))"

section \<open>Calls on names\<close>

definition gss_canonicalize_name :: "'x name_env_scheme \<Rightarrow> gss_name option \<Rightarrow> gss_OID option \<Rightarrow> gss_error + gss_name" where
  "gss_canonicalize_name G input_name mech =
     (if \<not> gssBidIsMechanismOid mech then Inl (GSS_S_BAD_MECH, 0)
      else if input_name = None then Inl (GSS_S_CALL_INACCESSIBLE_READ OR GSS_S_BAD_NAME, EINVAL)
      else gssBidCanonicalizeName G input_name mech)"

definition gss_duplicate_name :: "'x name_env_scheme \<Rightarrow> gss_name option \<Rightarrow> gss_error + gss_name" where
  "gss_duplicate_name G input_name =
     (if input_name = None then Inl (GSS_S_CALL_INACCESSIBLE_READ OR GSS_S_BAD_NAME, EINVAL) else gssBidDuplicateName G input_name)"

definition gss_export_name :: "'x name_env_scheme \<Rightarrow> gss_name option \<Rightarrow> gss_error + byte list" where
  "gss_export_name G input_name =
     (case input_name of None \<Rightarrow> Inl (GSS_S_CALL_INACCESSIBLE_READ OR GSS_S_BAD_NAME, EINVAL) | Some name \<Rightarrow> gssBidExportName G name)"

definition gss_export_name_composite :: "'x name_env_scheme \<Rightarrow> gss_name option \<Rightarrow> gss_error + byte list" where
  "gss_export_name_composite G input_name =
     (case input_name of
        None \<Rightarrow> Inl (GSS_S_CALL_INACCESSIBLE_READ OR GSS_S_BAD_NAME, EINVAL)
      | Some name \<Rightarrow> gssBidExportNameInternal G name (EXPORT_NAME_FLAG_OID OR EXPORT_NAME_FLAG_COMPOSITE))"

definition gss_import_name :: "'x name_env_scheme \<Rightarrow> byte list \<Rightarrow> gss_OID option \<Rightarrow> (gss_error + gss_name) option" where
  "gss_import_name G import_name_buffer input_name_type = gssBidImportName G import_name_buffer input_name_type None"

definition gss_compare_name :: "'x name_env_scheme \<Rightarrow> gss_name option \<Rightarrow> gss_name option \<Rightarrow> bool" where
  "gss_compare_name G name1 name2 = gssBidCompareName G name1 name2 0"

definition gss_display_name :: "'x name_env_scheme \<Rightarrow> gss_name option \<Rightarrow> gss_error + string \<times> gss_OID" where
  "gss_display_name G name = gssBidDisplayName G name"

definition gss_indicate_mechs :: "'x name_env_scheme \<Rightarrow> gss_error + gss_OID list" where
  "gss_indicate_mechs G = gssBidIndicateMechs G"

section \<open>Lemmas\<close>

text \<open>Blocks of the same length: what comes first does not depend on how many there are.\<close>

lemma take_blocks:
  assumes "\<And>k. length (g k) = p" "0 < p" "m \<le> a" "a \<le> b"
  shows "take m (concat (map g [0..<b])) = take m (concat (map g [0..<a]))"
proof -
  have "length (concat (map g [0..<a])) = a * p"
    using assms(1) by (induction a) simp_all
  moreover have "m \<le> a * p" using assms(2,3) by (cases p) auto
  moreover have "[0..<b] = [0..<a] @ [a..<b]" using upt_add_eq_append[of 0 a "b - a"] assms(4) by simp
  ultimately show ?thesis by simp
qed

abbreviation prf_stream :: "(byte list \<Rightarrow> byte list) \<Rightarrow> byte list \<Rightarrow> u32 \<Rightarrow> nat \<Rightarrow> byte list" where
  "prf_stream f input i n \<equiv> concat (map (\<lambda>k. f (store_uint32_be (i + of_nat k) @ input)) [0..<n])"

text \<open>The loop computes as much of the stream of blocks as is asked for.\<close>

lemma prf_loop_stream:
  assumes "\<And>b. prf b = Inr (f b)" "\<And>b. length (f b) = p" "0 < p"
  shows "prf_loop prf p input i desired out = Some (Inr (out @ take desired (prf_stream f input i desired)))"
proof (induction desired arbitrary: i out rule: less_induct)
  case (less desired)
  show ?case
  proof (cases desired)
    case 0
    then show ?thesis by (subst prf_loop.simps) simp
  next
    case (Suc n)
    let ?t = "f (store_uint32_be i @ input)"
    have "prf_loop prf p input i desired out = prf_loop prf p input (i + 1) (desired - p) (out @ take (min p desired) ?t)"
      using Suc assms(1) by (subst prf_loop.simps) simp
    also have "\<dots> = Some (Inr (out @ take (min p desired) ?t @ take (desired - p) (prf_stream f input (i + 1) (desired - p))))"
      using less[of "desired - p"] Suc assms(3) by simp
    also have "take (desired - p) (prf_stream f input (i + 1) (desired - p)) = take (desired - p) (prf_stream f input (i + 1) n)"
      using Suc assms(2,3) by (intro take_blocks[symmetric, where p = p]) auto
    also have "take (min p desired) ?t @ take (desired - p) (prf_stream f input (i + 1) n) = take desired (?t @ prf_stream f input (i + 1) n)"
      using assms(2) by (simp add: min_def)
    also have "?t @ prf_stream f input (i + 1) n = prf_stream f input i desired"
      unfolding Suc by (simp add: upt_conv_Cons map_Suc_upt[symmetric] comp_def algebra_simps del: upt_Suc)
    finally show ?thesis by simp
  qed
qed

section \<open>Properties\<close>

text \<open>The pseudo-random function gives both sides the same bytes, as many as are asked for, and a longer
  request extends a shorter one, although the length is not a part of the input.\<close>

theorem pseudo_random_agree:
  assumes "peers s r" "sm_state s = GSSBID_STATE_ESTABLISHED" "sm_state r = GSSBID_STATE_ESTABLISHED"
    and "prf_key = GSS_C_PRF_KEY_FULL \<or> prf_key = GSS_C_PRF_KEY_PARTIAL"
    and "krb5_c_prf_length G (encryptionType s) = Inr p" "0 < p"
    and "\<And>b. \<exists>t. krb5_c_prf G (ctx_key s) b = Inr t \<and> length t = p"
  shows "\<exists>f. \<forall>n. gss_pseudo_random G (Some s) prf_key input (int n) = Some (Inr (f n)) \<and>
    gss_pseudo_random G (Some r) prf_key input (int n) = Some (Inr (f n)) \<and> length (f n) = n \<and> (\<forall>m. f (min m n) = take m (f n))"
proof -
  from assms(7) obtain t where t: "\<And>b. krb5_c_prf G (ctx_key s) b = Inr (t b)" "\<And>b. length (t b) = p" by metis
  let ?f = "\<lambda>n. take n (prf_stream t input 0 n)"
  have e: "encryptionType s \<noteq> ENCTYPE_NULL" "encryptionType r = encryptionType s" "ctx_key r = ctx_key s"
    using assms(1) peers_agree(2)[OF assms(1)] by (auto simp: peers_def)
  have loop: "prf_loop (krb5_c_prf G (ctx_key s)) p input 0 n [] = Some (Inr (?f n))" for n
    using prf_loop_stream[of "krb5_c_prf G (ctx_key s)" t p input 0 n "[]"] t assms(6) by simp
  have len: "length (?f n) = n" for n
  proof -
    have "length (prf_stream t input 0 n) = n * p" using t(2) by (induction n) simp_all
    moreover have "n \<le> n * p" using assms(6) by (cases p) auto
    ultimately show ?thesis by simp
  qed
  have "?f (min m n) = take m (?f n)" for m n
    using take_blocks[of "\<lambda>k. t (store_uint32_be (0 + of_nat k) @ input)" p "min m n" "min m n" n] t(2) assms(6) by (simp only: take_take)
  with loop len show ?thesis
    using assms(2-5) e by (intro exI[of _ ?f]) (auto simp: gss_pseudo_random_def gssBidPseudoRandom_def)
qed

text \<open>The key that one side signs with in NegoEx is the key that the other side verifies with, in both
  directions.\<close>

theorem negoex_keys_match:
  assumes "peers s r"
  shows "gss_inquire_sec_context_by_oid G (Some s) GSS_C_INQ_NEGOEX_KEY = gss_inquire_sec_context_by_oid G (Some r) GSS_C_INQ_NEGOEX_VERIFY_KEY \<and>
    gss_inquire_sec_context_by_oid G (Some s) GSS_C_INQ_NEGOEX_VERIFY_KEY = gss_inquire_sec_context_by_oid G (Some r) GSS_C_INQ_NEGOEX_KEY"
proof -
  have rnd: "gssBidPseudoRandom G s k b n = gssBidPseudoRandom G r k b n" for k b n
    using assms peers_agree(2)[OF assms] by (simp add: gssBidPseudoRandom_def peers_def)
  show ?thesis
    using assms peers_agree(2)[OF assms]
    by (simp add: gss_inquire_sec_context_by_oid_def inquireCtxOps_def inquireNegoExKey_def rnd peers_def Let_def)
qed

text \<open>No option sets the replay cache of a credential: the identifier of its entry is that of the ticket
  cache, whose entry comes first, and the identifier of the comment is unknown.\<close>

theorem replay_cache_option_lost:
  fixes G :: "'x cred_env_scheme" and heap :: "'d cache_heap"
  shows "(case gssspi_set_cred_option G sys (Some cred) desired_object val heap of
      Some (_, Some cred', _) \<Rightarrow> bidReplayCache cred' = bidReplayCache cred | _ \<Rightarrow> True) \<and>
   fst (the (gssspi_set_cred_option G sys (Some cred) [0x2B, 0x06, 0x01, 0x04, 0x01, 0xA9, 0x4A, 0x18, 0x03, 0x03, 0x04] val heap)) =
     Inl (GSS_S_UNAVAILABLE, bidg G GSSBID_BAD_CRED_OPTION)"
proof -
  have keeps: "bidReplayCache c = bidReplayCache cred"
    if "map_of setCredOps desired_object = Some opt" "opt G sys cred val heap = Some (Inr c, h)" for opt c h
    using that
    by (auto simp: setCredOps_def setCredFlag_def setCredAssertion_def setCredTicketCache_def with_cache_name_def gssBidSetCredAssertion_def
        gssBidSetCredTicketCacheName_def bailS_def bail_def Let_def split: if_splits option.splits sum.splits prod.splits)
  have "case gssspi_set_cred_option G sys (Some cred) desired_object val heap of
      Some (_, Some cred', _) \<Rightarrow> bidReplayCache cred' = bidReplayCache cred | _ \<Rightarrow> True"
  proof (cases "map_of setCredOps desired_object :: ('x, 'd) cred_option option")
    case (Some opt)
    have eq: "gssspi_set_cred_option G sys (Some cred) desired_object val heap =
        map_option (\<lambda>(r, heap). case r of Inl e \<Rightarrow> (Inl e, Some cred, heap) | Inr cred \<Rightarrow> (Inr (), Some cred, heap)) (opt G sys cred val heap)"
      by (simp add: gssspi_set_cred_option_def Some)
    show ?thesis
    proof (cases "opt G sys cred val heap")
      case (Some x)
      obtain r h where x: "x = (r, h)" by (cases x)
      show ?thesis
      proof (cases r)
        case (Inr c)
        have "bidReplayCache c = bidReplayCache cred"
          by (rule keeps[OF \<open>map_of setCredOps desired_object = Some opt\<close>]) (simp add: Some x Inr)
        then show ?thesis by (simp add: eq Some x Inr)
      qed (simp add: eq Some x)
    qed (simp add: eq)
  qed (simp add: gssspi_set_cred_option_def)
  then show ?thesis by (simp add: gssspi_set_cred_option_def setCredOps_def)
qed

text \<open>Concrete sides: blocks of three bytes made of the last bytes of the input and the key.\<close>

definition sample_prf_env :: prf_env where
  "sample_prf_env = krb_env.extend sample_krb_env (prf_env.fields (\<lambda>_. Inr 3) (\<lambda>k b. Inr (take 3 (rev b @ snd k @ [0, 0, 0]))))"

theorem pseudo_random_agree_witness:
  "\<exists>out. gss_pseudo_random sample_prf_env (Some (sample_side True)) GSS_C_PRF_KEY_FULL [1] 5 = Some (Inr out) \<and>
    gss_pseudo_random sample_prf_env (Some (sample_side False)) GSS_C_PRF_KEY_FULL [1] 5 = Some (Inr out) \<and> length out = 5"
proof -
  have "krb5_c_prf_length sample_prf_env (encryptionType (sample_side True)) = Inr 3"
    and "\<exists>t. krb5_c_prf sample_prf_env (ctx_key (sample_side True)) b = Inr t \<and> length t = 3" for b
    by (simp_all add: sample_prf_env_def prf_env.defs krb_env.defs)
  then obtain f where "\<forall>n. gss_pseudo_random sample_prf_env (Some (sample_side True)) GSS_C_PRF_KEY_FULL [1] (int n) = Some (Inr (f n)) \<and>
    gss_pseudo_random sample_prf_env (Some (sample_side False)) GSS_C_PRF_KEY_FULL [1] (int n) = Some (Inr (f n)) \<and> length (f n) = n \<and>
    (\<forall>m. f (min m n) = take m (f n))"
    using pseudo_random_agree[OF sample_peers sample_side_simps(1) sample_side_simps(1), of GSS_C_PRF_KEY_FULL sample_prf_env 3 "[1]"] by auto
  from spec[OF this, of 5] show ?thesis by auto
qed

theorem negoex_keys_match_witness:
  "gss_inquire_sec_context_by_oid sample_prf_env (Some (sample_side True)) GSS_C_INQ_NEGOEX_KEY =
   gss_inquire_sec_context_by_oid sample_prf_env (Some (sample_side False)) GSS_C_INQ_NEGOEX_VERIFY_KEY"
  using negoex_keys_match[OF sample_peers, of sample_prf_env] by blast

end
