(* ===== verification/Credtoken.thy ===== *)
theory Credtoken
  imports Export Entry
begin

text \<open>
  Credentials and names as text: the encoding of \<^verbatim>\<open>util_base64.c\<close>, the JSON forms of identifiers
  (\<^verbatim>\<open>util_oid.c\<close>) and names (\<^verbatim>\<open>util_name.c\<close>), and the tokens of credentials (\<^verbatim>\<open>gssBidExportCred\<close> and
  \<^verbatim>\<open>gssBidImportCred\<close> of \<^verbatim>\<open>util_cred.c\<close>), in the build with MIT Kerberos.
\<close>

section \<open>Base64 of the mechanism\<close>

fun base64Encode_loop :: "byte list \<Rightarrow> string" where
  "base64Encode_loop [] = []"
| "base64Encode_loop [x] = (b64_quad base64_chars (unat x * 256 * 256))[3 := CHR ''='', 2 := CHR ''='']"
| "base64Encode_loop [x, y] = (b64_quad base64_chars ((unat x * 256 + unat y) * 256))[3 := CHR ''='']"
| "base64Encode_loop (x # y # z # q) = b64_quad base64_chars ((unat x * 256 + unat y) * 256 + unat z) @ base64Encode_loop q"

definition base64Encode :: "byte list \<Rightarrow> string option" where
  "base64Encode data = (if 536870911 < length data then None else Some (base64Encode_loop data))"

text \<open>A character that is not in the alphabet counts as minus one, which only the first one of a token is
  checked for.\<close>

definition pos_int :: "char \<Rightarrow> u32" where
  "pos_int c = (case pos_scan c base64_chars 0 of Some i \<Rightarrow> of_nat i | None \<Rightarrow> - 1)"

fun token_scan :: "nat \<Rightarrow> u32 \<Rightarrow> string \<Rightarrow> u32" where
  "token_scan marker val [] = (if 2 < marker then - 1 else push_bit 24 (of_nat marker) OR val)"
| "token_scan marker val (t # token) =
     (if t = CHR ''='' then token_scan (marker + 1) (val * 64) token
      else if 0 < marker then - 1
      else token_scan marker (val * 64 + pos_int t) token)"

definition token_decode :: "string \<Rightarrow> u32" where
  "token_decode token = (if length token < 4 then - 1 else token_scan 0 0 (take 4 token))"

definition decoded_bytes :: "u32 \<Rightarrow> byte list" where
  "decoded_bytes val =
     (let marker = drop_bit 24 val AND 0xff
      in [ucast (drop_bit 16 val)] @ (if marker < 2 then [ucast (drop_bit 8 val)] else []) @ (if marker < 1 then [ucast val] else []))"

function base64Decode :: "string \<Rightarrow> byte list option" where
  "base64Decode p =
     (if p = [] \<or> \<not> (hd p = CHR ''='' \<or> hd p \<in> set base64_chars) then Some []
      else let val = token_decode p; rest = drop 4 p in
        if val = - 1 then None
        else map_option ((@) (decoded_bytes val)) (base64Decode (if rest \<noteq> [] \<and> hd rest = CHR 0x0A then tl rest else rest)))"
  by pat_completeness auto
termination by (relation "measure length") (auto simp: Let_def)

declare base64Decode.simps [simp del]

function base64Valid :: "string \<Rightarrow> bool" where
  "base64Valid p =
     (if p = [] \<or> \<not> (hd p = CHR ''='' \<or> hd p \<in> set base64_chars) then True
      else let val = token_decode p; rest = drop 4 p in
        if val = - 1 then False
        else base64Valid (if rest \<noteq> [] \<and> hd rest = CHR 0x0A then tl rest else rest))"
  by pat_completeness auto
termination by (relation "measure length") (auto simp: Let_def)

declare base64Valid.simps [simp del]

section \<open>Identifiers and names as JSON\<close>

text \<open>The dotted form of identifiers is made and read by the mechanism glue.\<close>

record oid_env = cred_env +
  gss_oid_to_str :: "gss_OID \<Rightarrow> gss_error + string"
  gss_str_to_oid :: "string \<Rightarrow> gss_error + gss_OID"

definition oidToJson :: "'x oid_env_scheme \<Rightarrow> gss_OID \<Rightarrow> gss_error + json" where
  "oidToJson G oid = map_sum id JString (gss_oid_to_str G oid)"

fun oids_to_json :: "'x oid_env_scheme \<Rightarrow> gss_OID list \<Rightarrow> gss_error + json list" where
  "oids_to_json G [] = Inr []"
| "oids_to_json G (oid # oids) = bail (oidToJson G oid) (\<lambda>j. map_sum id ((#) j) (oids_to_json G oids))"

definition oidSetToJson :: "'x oid_env_scheme \<Rightarrow> gss_OID list \<Rightarrow> gss_error + json" where
  "oidSetToJson G oids = map_sum id JArray (oids_to_json G oids)"

definition jsonToOid :: "'x oid_env_scheme \<Rightarrow> json \<Rightarrow> gss_error + gss_OID" where
  "jsonToOid G j = (case j of JString s \<Rightarrow> gss_str_to_oid G s | _ \<Rightarrow> Inl (GSS_S_BAD_MECH, 0))"

fun oids_of_json :: "'x oid_env_scheme \<Rightarrow> json list \<Rightarrow> gss_error + gss_OID list" where
  "oids_of_json G [] = Inr []"
| "oids_of_json G (j # js) = bail (jsonToOid G j) (\<lambda>oid. map_sum id ((#) oid) (oids_of_json G js))"

definition jsonToOidSet :: "'x oid_env_scheme \<Rightarrow> json \<Rightarrow> gss_error + gss_OID list" where
  "jsonToOidSet G j = (case j of JArray js \<Rightarrow> oids_of_json G js | _ \<Rightarrow> Inl (GSS_S_BAD_MECH, 0))"

definition gssBidExportNameJson :: "'x name_env_scheme \<Rightarrow> gss_name \<Rightarrow> json option" where
  "gssBidExportNameJson G name =
     (case gssBidExportNameInternal G name EXPORT_NAME_FLAG_COMPOSITE of
        Inl _ \<Rightarrow> None
      | Inr buffer \<Rightarrow> map_option JString (base64Encode buffer))"

text \<open>No name for a value that is no string or cannot be read.\<close>

definition gssBidImportNameJson :: "'x name_env_scheme \<Rightarrow> json option \<Rightarrow> gss_name option option" where
  "gssBidImportNameJson G j =
     (case j of
        Some (JString s) \<Rightarrow>
          (case base64Decode s of
             None \<Rightarrow> Some None
           | Some buffer \<Rightarrow> map_option (case_sum (\<lambda>_. None) Some) (gssBidImportNameInternal G buffer EXPORT_NAME_FLAG_COMPOSITE))
      | _ \<Rightarrow> Some None)"

section \<open>Tokens of credentials\<close>

text \<open>Nothing is added for a value that is not there.\<close>

definition set_new :: "string \<Rightarrow> json option \<Rightarrow> json \<Rightarrow> json" where
  "set_new key val obj = (case val of None \<Rightarrow> obj | Some j \<Rightarrow> set_member obj key j)"

definition cred_object :: "'x oid_env_scheme \<Rightarrow> gss_cred \<Rightarrow> 'd cache_heap \<Rightarrow> gss_error + json" where
  "cred_object G cred heap =
     (let cache_name = (\<lambda>cache. case BIDGetCacheName cache heap of Inl _ \<Rightarrow> None | Inr n \<Rightarrow> Some (JString n));
          obj = set_member (JObject []) ''flags'' (JInteger (uint (cred_flags cred)));
          obj = set_new ''name'' (Option.bind (cred_name cred) (gssBidExportNameJson G)) obj;
          obj = set_new ''target'' (Option.bind (cred_target cred) (gssBidExportNameJson G)) obj;
          obj = set_new ''assertion'' (map_option (JString \<circ> c_string) (cred_assertion cred)) obj
      in bail (case mechanisms cred of None \<Rightarrow> Inr None | Some oids \<Rightarrow> map_sum id Some (oidSetToJson G oids)) (\<lambda>mechs.
         Inr (set_new ''replay-cache'' (cache_name (bidReplayCache cred))
               (set_new ''ticket-cache'' (cache_name (bidTicketCache cred))
                 (set_member (set_new ''mechanisms'' mechs obj) ''expiry-time'' (JInteger (cred_expiryTime cred)))))))"

text \<open>The first mechanism is read also if there is none.\<close>

definition gssBidExportCred :: "'x oid_env_scheme \<Rightarrow> 'y json_env_scheme \<Rightarrow> gss_cred \<Rightarrow> 'd cache_heap \<Rightarrow> (gss_error + byte list) option" where
  "gssBidExportCred G env cred heap =
     bailO (Some (cred_object G cred heap)) (\<lambda>obj.
     if mechanisms cred = Some [] then None else
     bailO (Some (gssBidCanonicalizeOid G (gssBidDefaultMech G) (map_option hd (mechanisms cred)) (OID_FLAG_NULL_VALID OR OID_FLAG_MAP_NULL_TO_DEFAULT_MECH))) (\<lambda>credMech.
     case json_dumps env obj of
       None \<Rightarrow> Some (Inl (GSS_S_FAILURE, 12))
     | Some s \<Rightarrow> if credMech = None then None else Some (Inr (store_oid credMech @ store_buffer (bytes_of_string s) False))))"

text \<open>The name of a cache, if there is one; what the credential has so far is returned with an error too.\<close>

definition import_cache ::
  "(string option \<Rightarrow> gss_cred \<Rightarrow> 'd cache_heap \<Rightarrow> (gss_error + gss_cred) \<times> 'd cache_heap) \<Rightarrow> json option \<Rightarrow> gss_cred \<times> 'd cache_heap \<Rightarrow>
     (gss_error + unit) \<times> gss_cred \<times> 'd cache_heap" where
  "import_cache set_name val = (\<lambda>(cred, heap).
     case val of
       Some (JString s) \<Rightarrow>
         (case set_name (Some s) cred heap of (Inl e, heap) \<Rightarrow> (Inl e, cred, heap) | (Inr cred, heap) \<Rightarrow> (Inr (), cred, heap))
     | _ \<Rightarrow> (Inr (), cred, heap))"

text \<open>The fields of a credential from its object, in the order in which they are set.\<close>

definition import_cred_fields ::
  "'x oid_env_scheme \<Rightarrow> 'd BIDCacheOps list \<Rightarrow> json \<Rightarrow> gss_cred \<Rightarrow> 'd cache_heap \<Rightarrow> ((gss_error + unit) \<times> gss_cred \<times> 'd cache_heap) option" where
  "import_cred_fields G table obj cred heap =
     (case (gssBidImportNameJson G (json_object_get (Some obj) ''name''), gssBidImportNameJson G (json_object_get (Some obj) ''target'')) of
        (Some name, Some target) \<Rightarrow>
          let cred = cred\<lparr>cred_flags := word_of_int (json_integer_value (json_object_get (Some obj) ''flags'')), cred_name := name, cred_target := target\<rparr>;
              cred = (case json_object_get (Some obj) ''assertion'' of Some (JString s) \<Rightarrow> cred\<lparr>cred_assertion := Some (bytes_of_string s)\<rparr> | _ \<Rightarrow> cred);
              mechs = (case json_object_get (Some obj) ''mechanisms'' of
                         Some (JArray js) \<Rightarrow> map_sum id (\<lambda>oids. gssBidSetCredMechs (Some oids) cred) (jsonToOidSet G (JArray js))
                       | _ \<Rightarrow> Inr cred)
          in Some (case mechs of Inl e \<Rightarrow> (Inl e, cred, heap) | Inr cred \<Rightarrow>
               bailS (import_cache (gssBidSetCredTicketCacheName G table) (json_object_get (Some obj) ''ticket-cache'')
                       (cred\<lparr>cred_expiryTime := json_integer_value (json_object_get (Some obj) ''expiry-time'')\<rparr>, heap)) (\<lambda>_.
               import_cache (gssBidSetCredReplayCacheName G table) (json_object_get (Some obj) ''replay-cache'')))
      | _ \<Rightarrow> None)"

text \<open>All that follows the mechanism is taken as the text of the object, the length before the text too.\<close>

definition gssBidImportCred ::
  "'x oid_env_scheme \<Rightarrow> 'y json_env_scheme \<Rightarrow> 'd cache_system \<Rightarrow> byte list \<Rightarrow> 'd cache_heap \<Rightarrow> ((gss_error + gss_cred) \<times> 'd cache_heap) option" where
  "gssBidImportCred G env sys token heap =
     (case gssBidImportMechanismOid G token of
        None \<Rightarrow> None
      | Some (Inl e) \<Rightarrow> Some (Inl e, heap)
      | Some (Inr (credMech, p)) \<Rightarrow>
          if \<not> gssBidIsMechanismOid credMech then Some (Inl (GSS_S_DEFECTIVE_TOKEN, 0), heap)
          else case json_loads env (c_string p) of
            None \<Rightarrow> Some (Inl (GSS_S_DEFECTIVE_TOKEN, 0), heap)
          | Some obj \<Rightarrow>
              (case gssBidAllocCred G sys heap of
                 (Inl e, heap) \<Rightarrow> Some (Inl e, heap)
               | (Inr cred, heap) \<Rightarrow>
                   map_option (\<lambda>(r, cred, heap). case r of Inl e \<Rightarrow> (Inl e, gssBidReleaseCred (Some cred) heap) | Inr _ \<Rightarrow> (Inr cred, heap))
                     (import_cred_fields G (CacheTable sys) obj cred heap)))"

definition gss_export_cred :: "'x oid_env_scheme \<Rightarrow> 'y json_env_scheme \<Rightarrow> gss_cred option \<Rightarrow> 'd cache_heap \<Rightarrow> (gss_error + byte list) option" where
  "gss_export_cred G env cred_handle heap = (case cred_handle of None \<Rightarrow> None | Some cred \<Rightarrow> gssBidExportCred G env cred heap)"

definition gss_import_cred ::
  "'x oid_env_scheme \<Rightarrow> 'y json_env_scheme \<Rightarrow> 'd cache_system \<Rightarrow> byte list \<Rightarrow> 'd cache_heap \<Rightarrow> ((gss_error + gss_cred) \<times> 'd cache_heap) option" where
  "gss_import_cred G env sys cred_token heap = gssBidImportCred G env sys cred_token heap"

section \<open>Lemmas\<close>

text \<open>The decoder on one group of the encoder.\<close>

lemma char_of_digit:
  assumes "n < 64"
  shows "pos_int (base64_chars ! n) = of_nat n" "base64_chars ! n \<noteq> CHR ''=''" "base64_chars ! n \<noteq> CHR 0x0A" "base64_chars ! n \<in> set base64_chars"
proof -
  have "list_all (\<lambda>n. pos_scan (base64_chars ! n) base64_chars 0 = Some n \<and> base64_chars ! n \<noteq> CHR ''='' \<and> base64_chars ! n \<noteq> CHR 0x0A) [0..<64]"
    by code_simp
  with assms show "pos_int (base64_chars ! n) = of_nat n" "base64_chars ! n \<noteq> CHR ''=''" "base64_chars ! n \<noteq> CHR 0x0A"
    by (auto simp: list_all_iff pos_int_def)
  show "base64_chars ! n \<in> set base64_chars" using assms by simp
qed

lemma scan_digits:
  assumes "\<forall>d\<in>set ds. d < 64"
  shows "token_scan 0 v (map ((!) base64_chars) ds @ rest) = token_scan 0 (fold (\<lambda>d v. v * 64 + of_nat d) ds v) rest"
  using assms by (induction ds arbitrary: v) (simp_all add: char_of_digit)

lemma group_value:
  assumes "c < 2 ^ 24"
  shows "fold (\<lambda>d v. v * 64 + of_nat d) (b64_digits c) 0 = (of_nat c :: u32)"
proof -
  have "(of_nat c :: u32) = of_nat (((c div 64 ^ 3 * 64 + c div 64 ^ 2 mod 64) * 64 + c div 64 mod 64) * 64 + c mod 64)"
    by (simp only: b64_digits_value)
  then show ?thesis by (simp add: b64_digits_def)
qed

lemma of_nat_small:
  assumes "c < 2 ^ 24" "m < 3"
  shows "unat (push_bit 24 (of_nat m) OR of_nat c :: u32) = m * 2 ^ 24 + c" "(push_bit 24 (of_nat m) OR of_nat c :: u32) \<noteq> - 1"
proof -
  have "unat (push_bit 24 (of_nat m) OR of_nat c :: u32) = push_bit 24 m OR c"
  proof -
    have "push_bit 24 (of_nat m) OR of_nat c = (of_nat (push_bit 24 m OR c) :: u32)"
      by (simp add: of_nat_or_eq of_nat_push_bit)
    moreover have "push_bit 24 m OR c < 2 ^ 32"
    proof -
      have "push_bit 24 m OR c = m * 2 ^ 24 + c" using assms(1) by (simp add: pack_marker)
      with assms show ?thesis by simp
    qed
    ultimately show ?thesis by (simp add: unat_of_nat take_bit_nat_eq_self)
  qed
  also have "\<dots> = m * 2 ^ 24 + c" using assms(1) by (simp add: pack_marker)
  finally show v: "unat (push_bit 24 (of_nat m) OR of_nat c :: u32) = m * 2 ^ 24 + c" .
  have u: "unat (- 1 :: u32) = 2 ^ 32 - 1" by (simp add: unsigned_minus_1_eq_mask mask_eq_exp_minus_1)
  show "(push_bit 24 (of_nat m) OR of_nat c :: u32) \<noteq> - 1"
  proof
    assume "(push_bit 24 (of_nat m) OR of_nat c :: u32) = - 1"
    then have "m * 2 ^ 24 + c = 2 ^ 32 - 1" using v u by metis
    moreover have "m \<le> 2" using assms(2) by simp
    ultimately show False using assms(1) by simp
  qed
qed

lemma decoded_value:
  assumes "unat val = m * 2 ^ 24 + ((a * 256 + b) * 256 + d)" "a < 256" "b < 256" "d < 256" "m < 3"
  shows "decoded_bytes val = of_nat a # (if m < 2 then [of_nat b] else []) @ (if m < 1 then [of_nat d] else [])"
proof -
  have shift: "ucast (drop_bit k val) = (of_nat (unat val div 2 ^ k) :: byte)" for k
    by (metis of_nat_unat unat_drop_bit_eq drop_bit_eq_div)
  have byte: "(of_nat (256 * n + k) :: byte) = of_nat k" for n k
    by (simp only: word_of_nat_eq_iff take_bit_eq_mod) simp
  have "unat (drop_bit 24 val) = unat val div 2 ^ 24" by (rule trans[OF unat_drop_bit_eq drop_bit_eq_div])
  also have "\<dots> = m" using assms by simp
  finally have "unat (drop_bit 24 val) = m" .
  moreover have "drop_bit 24 val = of_nat (unat (drop_bit 24 val))" by simp
  ultimately have "drop_bit 24 val = of_nat m" by simp
  moreover from assms(5) have m: "m = 0 \<or> m = 1 \<or> m = 2" by linarith
  moreover have "(of_nat m AND 0xff :: u32) = of_nat m"
    using m by auto
  ultimately have marker: "drop_bit 24 val AND 0xff = (of_nat m :: u32)" by simp
  have "(of_nat m < (2 :: u32)) = (m < 2)" "(of_nat m < (1 :: u32)) = (m < 1)" using m by auto
  moreover have "ucast (drop_bit 16 val) = (of_nat a :: byte)"
  proof -
    have "unat val div 2 ^ 16 = 256 * m + a" using assms by simp
    then show ?thesis using shift[of 16] byte[of m a] by simp
  qed
  moreover have "ucast (drop_bit 8 val) = (of_nat b :: byte)"
  proof -
    have "unat val div 2 ^ 8 = 256 * (256 * m + a) + b" using assms by simp
    then show ?thesis using shift[of 8] byte[of "256 * m + a" b] by simp
  qed
  moreover have "ucast val = (of_nat d :: byte)"
  proof -
    have "unat val = 256 * (256 * (256 * m + a) + b) + d" using assms by simp
    then show ?thesis using shift[of 0] byte[of "256 * (256 * m + a) + b" d] by simp
  qed
  ultimately show ?thesis by (simp add: decoded_bytes_def marker)
qed

lemma group_scan:
  assumes "c < 2 ^ 24" "k < 3" "c mod 64 ^ k = 0"
  shows "token_decode (map ((!) base64_chars) (take (4 - k) (b64_digits c)) @ replicate k CHR ''='' @ rest) = push_bit 24 (of_nat k) OR of_nat c"
proof -
  let ?f = "\<lambda>ds. fold (\<lambda>d v. v * 64 + of_nat d) ds (0 :: u32)"
  have ds: "\<forall>d\<in>set (take (4 - k) (b64_digits c)). d < 64" by (rule digits_less_take[OF assms(1)])
  have "b64_digits c = take (4 - k) (b64_digits c) @ replicate k 0"
    using assms(2,3) by (auto simp: b64_digits_def less_Suc_eq numeral_3_eq_3 numeral_2_eq_2)
  then have "?f (take (4 - k) (b64_digits c) @ replicate k 0) = of_nat c" by (metis group_value[OF assms(1)])
  then have v: "?f (take (4 - k) (b64_digits c)) * 64 ^ k = of_nat c"
    using assms(2) by (auto simp: less_Suc_eq numeral_3_eq_3 numeral_2_eq_2 mult.commute)
  have pad: "token_scan 0 v (replicate k CHR ''='') = push_bit 24 (of_nat k) OR v * 64 ^ k" for v
    using assms(2) by (auto simp: less_Suc_eq numeral_3_eq_3 numeral_2_eq_2 mult.commute)
  have l: "length (take (4 - k) (b64_digits c)) = 4 - k" by (simp add: b64_digits_def)
  then show ?thesis
    using assms(2) scan_digits[OF ds, of 0 "replicate k CHR ''=''"]
    by (simp add: token_decode_def pad v)
qed

text \<open>One step of the decoder.\<close>

lemma text_group_step:
  assumes "unat val = m * 2 ^ 24 + ((a * 256 + b) * 256 + d)" "a < 256" "b < 256" "d < 256" "m < 3" "val \<noteq> - 1"
    and "token_decode (t @ rest) = val" "length t = 4" "hd t \<in> set base64_chars" "rest = [] \<or> hd rest \<noteq> CHR 0x0A"
    and "base64Decode rest = Some q"
  shows "base64Decode (t @ rest) = Some (of_nat a # (if m < 2 then [of_nat b] else []) @ (if m < 1 then [of_nat d] else []) @ q)"
proof -
  have "t \<noteq> []" using assms(8) by auto
  moreover have "drop 4 (t @ rest) = rest" using assms(8) by simp
  ultimately show ?thesis
    using assms(6-11) decoded_value[OF assms(1-5)] by (subst base64Decode.simps) (auto simp: Let_def)
qed

lemma quad_padded:
  assumes "c < 2 ^ 24"
  shows "b64_quad base64_chars c = map ((!) base64_chars) (take 4 (b64_digits c))"
    "(b64_quad base64_chars c)[3 := e] = map ((!) base64_chars) (take 3 (b64_digits c)) @ [e]"
    "(b64_quad base64_chars c)[3 := e, 2 := e] = map ((!) base64_chars) (take 2 (b64_digits c)) @ [e, e]"
  by (simp_all add: b64_quad_digits[OF assms] b64_digits_def numeral_3_eq_3 numeral_2_eq_2)

lemma bytes_value:
  fixes x y z :: byte
  shows "(unat x * 256 + unat y) * 256 + unat z < 2 ^ 24"
  using unat_byte_less[of x] unat_byte_less[of y] unat_byte_less[of z] by simp

lemma decode_group:
  fixes x y z :: byte
  defines "c \<equiv> (unat x * 256 + unat y) * 256 + unat z"
  assumes "k < 3" "c mod 64 ^ k = 0" "rest = [] \<or> hd rest \<noteq> CHR 0x0A" "base64Decode rest = Some q"
  shows "base64Decode (map ((!) base64_chars) (take (4 - k) (b64_digits c)) @ replicate k CHR ''='' @ rest) =
    Some (x # (if k < 2 then [y] else []) @ (if k < 1 then [z] else []) @ q)"
proof -
  let ?t = "map ((!) base64_chars) (take (4 - k) (b64_digits c)) @ replicate k CHR ''=''"
  have c: "c < 2 ^ 24" unfolding c_def by (rule bytes_value)
  have "\<forall>d\<in>set (b64_digits c). d < 64" by (rule b64_digits_less[OF c])
  then have "hd ?t \<in> set base64_chars" and l: "length ?t = 4"
    using assms(2) by (auto simp: b64_digits_def char_of_digit less_Suc_eq numeral_3_eq_3)
  then have "base64Decode (?t @ rest) =
      Some (of_nat (unat x) # (if k < 2 then [of_nat (unat y)] else []) @ (if k < 1 then [of_nat (unat z)] else []) @ q)"
    using of_nat_small[OF c assms(2)] group_scan[OF c assms(2,3), of rest] unat_byte_less[of x] unat_byte_less[of y] unat_byte_less[of z] assms(2,4,5)
    by (intro text_group_step[where val = "push_bit 24 (of_nat k) OR of_nat c"]) (simp_all add: c_def)
  then show ?thesis by simp
qed

lemma encode_head: "base64Encode_loop b = [] \<or> hd (base64Encode_loop b) \<noteq> CHR 0x0A"
proof -
  have "hd (map ((!) base64_chars) (take k (b64_digits c)) @ r) \<noteq> CHR 0x0A" if "c < 2 ^ 24" "0 < k" for k c r
    using b64_digits_less[OF that(1)] that(2) by (cases k) (simp_all add: b64_digits_def char_of_digit)
  note h = this
  show ?thesis
  proof (cases b rule: base64Encode_loop.cases)
    case (2 x)
    then show ?thesis using h[OF bytes_value[of x 0 0], of 2 "[CHR ''='', CHR ''='']"] quad_padded(3)[OF bytes_value[of x 0 0]] by simp
  next
    case (3 x y)
    then show ?thesis using h[OF bytes_value[of x y 0], of 3 "[CHR ''='']"] quad_padded(2)[OF bytes_value[of x y 0]] by simp
  next
    case (4 x y z q)
    then show ?thesis using h[OF bytes_value[of x y z], of 4 "base64Encode_loop q"] quad_padded(1)[OF bytes_value[of x y z]] by simp
  qed simp
qed

lemma base64_decode_encode: "base64Decode (base64Encode_loop b) = Some b"
proof (induction b rule: base64Encode_loop.induct)
  case 1 then show ?case by (simp add: base64Decode.simps)
next
  case (2 x)
  have "(unat x * 256 + 0) * 256 mod 64 ^ 2 = 0" by (simp add: mod_mult_self2_is_0)
  then show ?case using decode_group[of 2 x 0 0 "[]" "[]"] quad_padded(3)[OF bytes_value[of x 0 0]] by (simp add: base64Decode.simps numeral_2_eq_2)
next
  case (3 x y)
  show ?case using decode_group[of 1 x y 0 "[]" "[]"] quad_padded(2)[OF bytes_value[of x y 0]] by (simp add: base64Decode.simps)
next
  case (4 x y z q)
  then show ?case using decode_group[of 0 x y z "base64Encode_loop q" q] quad_padded(1)[OF bytes_value[of x y z]] encode_head[of q] by simp
qed

text \<open>What the test of a text accepts is what the decoder can read, which includes texts that stop at a character
  outside the alphabet.\<close>

lemma base64_valid_decodable: "base64Valid p \<longleftrightarrow> base64Decode p \<noteq> None"
proof (induction p rule: base64Valid.induct)
  case (1 p)
  then show ?case by (subst base64Valid.simps, subst base64Decode.simps) (auto simp: Let_def)
qed

section \<open>Properties\<close>


text \<open>The length in front of a text of less than 16 megabytes begins with a zero byte.\<close>

lemma length_is_empty_string:
  assumes "length s < 2 ^ 24"
  shows "c_string (store_buffer (bytes_of_string s) False) = []"
proof -
  have "drop_bit 24 (of_nat (length s) :: u32) = 0"
    using assms by (simp add: drop_bit_eq_div word_arith_nat_div unat_of_nat take_bit_nat_eq_self)
  then show ?thesis by (simp add: store_buffer_def store_uint32_be_def c_string_def string_of_bytes_def bytes_of_string_def)
qed

lemma export_cred_token:
  assumes "gssBidExportCred G env cred heap = Some (Inr token)" "mechanisms cred = Some (m # ms)" "gssBidIsConcreteMechanismOid m"
  obtains obj s where "cred_object G cred heap = Inr obj" "json_dumps env obj = Some s"
    "token = store_oid (Some m) @ store_buffer (bytes_of_string s) False"
  using assms
  by (auto simp: gssBidExportCred_def canonicalize_concrete[OF assms(3)] bailO_def split: sum.splits option.splits)


text \<open>A parser that knows only the empty object, a printer with one text, and identifiers that have no dotted form but one.\<close>

definition sample_oid_env :: oid_env where
  "sample_oid_env = cred_env.extend sample_cred_env (oid_env.fields (\<lambda>_. Inr ''1'') (\<lambda>_. Inr []))"

definition sample_json_env :: json_env where
  "sample_json_env = \<lparr>json_loads = (\<lambda>s. if s = ''{}'' then Some (JObject []) else None), json_dumps = (\<lambda>_. Some ''{}'')\<rparr>"



end
