(* ===== verification/Attr.thy ===== *)
theory Attr
  imports Credtoken
begin

text \<open>
  The attributes of names: the manager of providers (\<^verbatim>\<open>BIDGSSAttributeContext\<close> of \<^verbatim>\<open>util_attr.cpp\<close>), the provider
  of the attributes of an identity (\<^verbatim>\<open>util_browserid.cpp\<close>), and the calls on attributes, in a build without the
  libraries for SAML and Shibboleth, whose providers are then not there.  The methods of a class of
  providers are a record, the registered classes a table; a provider has a record of its own.

  The objects of attributes are shared between contexts and with the identity they come from, so
  they are cells of a store.  Undefined behaviour is \<open>None\<close>; an exception is \<open>Inl\<close>.  Locks and
  reference counts are not modelled.  Theory Name, which does not look into an attribute context, has its JSON
  form instead.
\<close>

section \<open>Buffers\<close>

text \<open>A buffer of the GSS-API: the memory that can be read from its pointer on, unless it is \<^verbatim>\<open>NULL\<close>, and its length.\<close>

record gss_buffer_desc =
  buf_value :: "byte list option"
  buf_length :: nat

definition buffer_bytes :: "gss_buffer_desc \<Rightarrow> byte list" where
  "buffer_bytes b = (case buf_value b of None \<Rightarrow> [] | Some m \<Rightarrow> take (buf_length b) m)"

text \<open>The string that starts at the pointer, which ends at a zero byte, also one after the buffer.\<close>

definition buffer_string :: "gss_buffer_desc \<Rightarrow> string option option" where
  "buffer_string b =
     (case buf_value b of None \<Rightarrow> Some None | Some m \<Rightarrow> if 0 \<in> set m then Some (Some (c_string m)) else None)"

text \<open>What \<^verbatim>\<open>duplicateBuffer\<close> makes of bytes.\<close>

definition duplicateBuffer :: "byte list \<Rightarrow> gss_buffer_desc" where
  "duplicateBuffer bs = \<lparr>buf_value = Some (bs @ [0]), buf_length = length bs\<rparr>"

section \<open>The store of objects\<close>

type_synonym attr_heap = "json list"

definition attr_deref :: "attr_heap \<Rightarrow> nat option \<Rightarrow> json option" where
  "attr_deref h a = (case a of None \<Rightarrow> None | Some a \<Rightarrow> if a < length h then Some (h ! a) else None)"

definition attr_alloc :: "json \<Rightarrow> attr_heap \<Rightarrow> nat \<times> attr_heap" where
  "attr_alloc j h = (length h, h @ [j])"

section \<open>Classes of providers\<close>

datatype attr_exception = bad_alloc | JSONException

text \<open>A value for display is there unless the value is binary.\<close>

record attr_value =
  av_value :: "byte list"
  av_display :: "byte list option"

record 'p BIDGSSAttributeProvider =
  provider_create :: 'p
  provider_prefix :: "string option"
  provider_name :: "string option"
  provider_initWithExistingContext :: "'p \<Rightarrow> 'p option \<Rightarrow> 'p option option"
  provider_initWithGssContext :: "'p \<Rightarrow> nat option option \<Rightarrow> attr_heap \<Rightarrow> 'p option"
  provider_initWithJsonObject :: "'p \<Rightarrow> json \<Rightarrow> attr_heap \<Rightarrow> ('p \<times> attr_heap) option"
  provider_getAttributeTypes :: "'p \<Rightarrow> attr_heap \<Rightarrow> string list option"
  provider_setAttribute :: "'p \<Rightarrow> gss_buffer_desc \<Rightarrow> gss_buffer_desc \<Rightarrow> attr_heap \<Rightarrow> (attr_exception + bool \<times> attr_heap) option"
  provider_deleteAttribute :: "'p \<Rightarrow> gss_buffer_desc \<Rightarrow> attr_heap \<Rightarrow> (attr_exception + bool \<times> attr_heap) option"
  provider_getAttribute :: "'p \<Rightarrow> gss_buffer_desc \<Rightarrow> int \<Rightarrow> attr_heap \<Rightarrow> (attr_exception + attr_value option \<times> int) option"
  provider_mapToAny :: "'p \<Rightarrow> nat option"
  provider_jsonRepresentation :: "'p \<Rightarrow> attr_heap \<Rightarrow> json option"
  provider_getExpiryTime :: "'p \<Rightarrow> attr_heap \<Rightarrow> int option"

section \<open>The provider of the attributes of an identity\<close>

text \<open>The printer of the JSON library with its default layout, and the outcome of the initialisation of the providers.\<close>

record attr_env = json_env +
  json_dumps_default :: "json \<Rightarrow> string option"
  gssBidAttrProvidersInitStatus :: OM_uint32

record BIDGSSJWTAttributeProvider =
  m_attrs :: "nat option"

text \<open>The copy refers to the object of the original.\<close>

definition jwt_initWithExistingContext ::
  "BIDGSSJWTAttributeProvider \<Rightarrow> BIDGSSJWTAttributeProvider option \<Rightarrow> BIDGSSJWTAttributeProvider option option" where
  "jwt_initWithExistingContext p ctx =
     (case ctx of
        None \<Rightarrow> None
      | Some jwt \<Rightarrow> Some (Some (if m_attrs jwt \<noteq> None then p\<lparr>m_attrs := m_attrs jwt\<rparr> else p)))"

text \<open>The context is given by the cell of the attributes of its identity, if it has one.\<close>

definition jwt_initWithGssContext ::
  "BIDGSSJWTAttributeProvider \<Rightarrow> nat option option \<Rightarrow> attr_heap \<Rightarrow> BIDGSSJWTAttributeProvider option" where
  "jwt_initWithGssContext p gssCtx h =
     (case gssCtx of
        None \<Rightarrow> Some p
      | Some identity \<Rightarrow> if json_is_object (attr_deref h identity) then Some (p\<lparr>m_attrs := identity\<rparr>) else None)"

definition jwt_initWithJsonObject ::
  "BIDGSSJWTAttributeProvider \<Rightarrow> json \<Rightarrow> attr_heap \<Rightarrow> (BIDGSSJWTAttributeProvider \<times> attr_heap) option" where
  "jwt_initWithJsonObject p obj h = (let (a, h) = attr_alloc obj h in Some (p\<lparr>m_attrs := Some a\<rparr>, h))"

definition isStringBuffer :: "byte list \<Rightarrow> bool" where
  "isStringBuffer value = list_all (\<lambda>b. 0x20 \<le> b \<and> b \<le> 0x7E) value"

text \<open>The key of the first member is used without a check that there is one.\<close>

definition jwt_getAttributeTypes :: "BIDGSSJWTAttributeProvider \<Rightarrow> attr_heap \<Rightarrow> string list option" where
  "jwt_getAttributeTypes p h =
     (case attr_deref h (m_attrs p) of
        None \<Rightarrow> None
      | Some obj \<Rightarrow> let keys = map fst (json_object_members (Some obj)) in if keys = [] then None else Some keys)"

text \<open>The name and a printable value are read as strings from their pointers on.\<close>

definition jwt_setAttribute ::
  "BIDGSSJWTAttributeProvider \<Rightarrow> gss_buffer_desc \<Rightarrow> gss_buffer_desc \<Rightarrow> attr_heap \<Rightarrow> (attr_exception + bool \<times> attr_heap) option" where
  "jwt_setAttribute p attr value h =
     (let isString = isStringBuffer (buffer_bytes value)
      in if \<not> isString \<and> base64Encode (buffer_bytes value) = None then Some (Inr (False, h))
      else case (if isString then buffer_string value else Some (base64Encode (buffer_bytes value)), attr_deref h (m_attrs p)) of
        (Some szValue, Some obj) \<Rightarrow>
          (case szValue of
             None \<Rightarrow> Some (Inl bad_alloc)
           | Some s \<Rightarrow>
               if \<not> json_is_object (Some obj) then Some (Inl JSONException)
               else (case buffer_string attr of
                       None \<Rightarrow> None
                     | Some None \<Rightarrow> Some (Inl JSONException)
                     | Some (Some key) \<Rightarrow> Some (Inr (True, h[the (m_attrs p) := set_member obj key (JString s)]))))
      | _ \<Rightarrow> None)"

definition jwt_deleteAttribute ::
  "BIDGSSJWTAttributeProvider \<Rightarrow> gss_buffer_desc \<Rightarrow> attr_heap \<Rightarrow> (attr_exception + bool \<times> attr_heap) option" where
  "jwt_deleteAttribute p attr h =
     (case attr_deref h (m_attrs p) of
        None \<Rightarrow> None
      | Some obj \<Rightarrow>
          if \<not> json_is_object (Some obj) then Some (Inr (True, h))
          else (case buffer_string attr of
                  None \<Rightarrow> None
                | Some None \<Rightarrow> Some (Inr (True, h))
                | Some (Some key) \<Rightarrow> Some (Inr (True, h[the (m_attrs p) := (case json_object_del obj key of None \<Rightarrow> obj | Some obj' \<Rightarrow> obj')]))))"

text \<open>Integers in decimal, as \<^verbatim>\<open>snprintf\<close> writes them.\<close>

fun decimal_digits :: "nat \<Rightarrow> string" where
  "decimal_digits n = (if n < 10 then [] else decimal_digits (n div 10)) @ [char_of (48 + n mod 10)]"

declare decimal_digits.simps [simp del]

definition decimal_text :: "int \<Rightarrow> string" where
  "decimal_text i = (if i < 0 then CHR ''-'' # decimal_digits (nat (- i)) else decimal_digits (nat i))"

text \<open>
  The bytes of a value, and whether they are binary.  The length is that of a string, so what was
  decoded from base64, which nothing ends, is cut at a zero byte or read beyond its end.  The case of
  a real number goes on into that of the truth values.
\<close>

definition jwt_value :: "'x attr_env_scheme \<Rightarrow> json \<Rightarrow> (attr_exception + byte list \<times> bool) option" where
  "jwt_value env jAttr =
     (let text = (\<lambda>s. Some (Inr (bytes_of_string s, False)));
          dumped = (case json_dumps_default env jAttr of None \<Rightarrow> Some (Inl bad_alloc) | Some s \<Rightarrow> text s)
      in case jAttr of
        JObject _ \<Rightarrow> dumped
      | JArray _ \<Rightarrow> dumped
      | JString s \<Rightarrow>
          if \<not> base64Valid s then text s
          else (case BIDBase64UrlDecode s None of
                  Inl e \<Rightarrow> if e = BID_UNDEFINED then None else text s
                | Inr b \<Rightarrow> if 0 \<in> set b then Some (Inr (takeWhile (\<lambda>x. x \<noteq> 0) b, True)) else None)
      | JInteger i \<Rightarrow> text (decimal_text i)
      | JReal _ \<Rightarrow> text ''FALSE''
      | JTrue \<Rightarrow> text ''TRUE''
      | JFalse \<Rightarrow> text ''FALSE''
      | JNull \<Rightarrow> text [])"

text \<open>The assignment that is to pick an element of an array leaves the array, since the operator assigns a reference
  to itself.  A member that is not there is null.\<close>

definition jwt_getAttribute ::
  "'x attr_env_scheme \<Rightarrow> BIDGSSJWTAttributeProvider \<Rightarrow> gss_buffer_desc \<Rightarrow> int \<Rightarrow> attr_heap \<Rightarrow>
     (attr_exception + attr_value option \<times> int) option" where
  "jwt_getAttribute env p attr index h =
     (case attr_deref h (m_attrs p) of
        None \<Rightarrow> None
      | Some obj \<Rightarrow>
          let jAttr = (case json_object_get (Some obj) (c_string (buffer_bytes attr)) of None \<Rightarrow> JNull | Some j \<Rightarrow> j);
              nValues = (case jAttr of JArray js \<Rightarrow> int (length js) | _ \<Rightarrow> 1);
              i = (if index = - 1 then 0 else index)
          in if nValues \<le> i then Some (Inr (None, 0))
             else bailO (jwt_value env jAttr) (\<lambda>(v, bIsBinary).
               Some (Inr (Some \<lparr>av_value = v, av_display = (if bIsBinary then None else Some v)\<rparr>, if i + 1 < nValues then i + 1 else 0))))"

definition jwt_mapToAny :: "BIDGSSJWTAttributeProvider \<Rightarrow> nat option" where
  "jwt_mapToAny p = m_attrs p"

definition jwt_jsonRepresentation :: "BIDGSSJWTAttributeProvider \<Rightarrow> attr_heap \<Rightarrow> json option" where
  "jwt_jsonRepresentation p h = attr_deref h (m_attrs p)"

text \<open>Times in an identity are in milliseconds; the division is that of C.\<close>

definition jwt_getExpiryTime :: "BIDGSSJWTAttributeProvider \<Rightarrow> attr_heap \<Rightarrow> int option" where
  "jwt_getExpiryTime p h =
     map_option (\<lambda>obj. json_integer_value (json_object_get (Some obj) ''exp'') sdiv 1000) (attr_deref h (m_attrs p))"

definition jwt_prefix :: string where
  "jwt_prefix = ''urn:ietf:params:gss:jwt''"

definition jwt_provider :: "'x attr_env_scheme \<Rightarrow> BIDGSSJWTAttributeProvider BIDGSSAttributeProvider" where
  "jwt_provider env =
     \<lparr>provider_create = \<lparr>m_attrs = None\<rparr>, provider_prefix = Some jwt_prefix, provider_name = Some ''jwt'',
      provider_initWithExistingContext = jwt_initWithExistingContext, provider_initWithGssContext = jwt_initWithGssContext,
      provider_initWithJsonObject = jwt_initWithJsonObject, provider_getAttributeTypes = jwt_getAttributeTypes,
      provider_setAttribute = jwt_setAttribute, provider_deleteAttribute = jwt_deleteAttribute,
      provider_getAttribute = jwt_getAttribute env, provider_mapToAny = jwt_mapToAny,
      provider_jsonRepresentation = jwt_jsonRepresentation, provider_getExpiryTime = jwt_getExpiryTime\<rparr>"

section \<open>The manager\<close>

abbreviation ATTR_TYPE_JWT :: nat where "ATTR_TYPE_JWT \<equiv> 0"
abbreviation ATTR_TYPE_LOCAL :: nat where "ATTR_TYPE_LOCAL \<equiv> 3"
abbreviation ATTR_FLAG_DISABLE_LOCAL :: u32 where "ATTR_FLAG_DISABLE_LOCAL \<equiv> 1"
abbreviation GSS_BROWSERID_DISABLE_LOCAL_ATTRS_FLAG :: u32 where "GSS_BROWSERID_DISABLE_LOCAL_ATTRS_FLAG \<equiv> 1"

text \<open>All types, \<^verbatim>\<open>ATTR_TYPE_MIN\<close> to \<^verbatim>\<open>ATTR_TYPE_MAX\<close>.\<close>

abbreviation attr_types :: "nat list" where "attr_types \<equiv> [0, 1, 2, 3]"

type_synonym 'p attr_factories = "nat \<Rightarrow> 'p BIDGSSAttributeProvider option"

record 'p BIDGSSAttributeContext =
  m_flags :: u32
  m_providers :: "'p option list"

definition registerProvider :: "nat \<Rightarrow> 'p BIDGSSAttributeProvider \<Rightarrow> 'p attr_factories \<Rightarrow> 'p attr_factories" where
  "registerProvider type factory F = F(type := Some factory)"

definition unregisterProvider :: "nat \<Rightarrow> 'p attr_factories \<Rightarrow> 'p attr_factories" where
  "unregisterProvider type F = F(type := None)"

text \<open>The table after the initialisation.\<close>

definition gssBidAttrFactories :: "'x attr_env_scheme \<Rightarrow> BIDGSSJWTAttributeProvider attr_factories" where
  "gssBidAttrFactories env = registerProvider ATTR_TYPE_JWT (jwt_provider env) (\<lambda>_. None)"

definition new_attr_context :: "'p attr_factories \<Rightarrow> 'p BIDGSSAttributeContext" where
  "new_attr_context F = \<lparr>m_flags = 0, m_providers = map (\<lambda>i. map_option provider_create (F i)) attr_types\<rparr>"

definition providerEnabled :: "'p BIDGSSAttributeContext \<Rightarrow> nat \<Rightarrow> bool" where
  "providerEnabled ctx type \<longleftrightarrow>
     \<not> (type = ATTR_TYPE_LOCAL \<and> flag_set (m_flags ctx) ATTR_FLAG_DISABLE_LOCAL) \<and> m_providers ctx ! type \<noteq> None"

definition setProvider :: "nat \<Rightarrow> 'p option \<Rightarrow> 'p BIDGSSAttributeContext \<Rightarrow> 'p BIDGSSAttributeContext" where
  "setProvider type p ctx = ctx\<lparr>m_providers := (m_providers ctx)[type := p]\<rparr>"

text \<open>A provider with its class.\<close>

definition provider_at :: "'p attr_factories \<Rightarrow> 'p BIDGSSAttributeContext \<Rightarrow> nat \<Rightarrow> ('p BIDGSSAttributeProvider \<times> 'p) option" where
  "provider_at F ctx type = (case (F type, m_providers ctx ! type) of (Some C, Some p) \<Rightarrow> Some (C, p) | _ \<Rightarrow> None)"

fun prefix_scan :: "'p attr_factories \<Rightarrow> 'p BIDGSSAttributeContext \<Rightarrow> byte list \<Rightarrow> nat list \<Rightarrow> nat" where
  "prefix_scan F ctx prefix [] = ATTR_TYPE_LOCAL"
| "prefix_scan F ctx prefix (i # is) =
     (if providerEnabled ctx i \<and> (\<exists>x\<in>set_option (provider_at F ctx i). map_option bytes_of_string (provider_prefix (fst x)) = Some prefix)
      then i else prefix_scan F ctx prefix is)"

definition attributePrefixToType :: "'p attr_factories \<Rightarrow> 'p BIDGSSAttributeContext \<Rightarrow> byte list \<Rightarrow> nat" where
  "attributePrefixToType F ctx prefix = prefix_scan F ctx prefix (butlast attr_types)"

definition attributeTypeToPrefix :: "'p attr_factories \<Rightarrow> 'p BIDGSSAttributeContext \<Rightarrow> nat \<Rightarrow> byte list" where
  "attributeTypeToPrefix F ctx type =
     (if ATTR_TYPE_LOCAL \<le> type \<or> \<not> providerEnabled ctx type then []
      else case provider_at F ctx type of None \<Rightarrow> [] | Some (C, _) \<Rightarrow> (case provider_prefix C of None \<Rightarrow> [] | Some s \<Rightarrow> bytes_of_string s))"

text \<open>The byte after a space is read also if the space is the last one.\<close>

definition decomposeAttributeName :: "gss_buffer_desc \<Rightarrow> (byte list \<times> gss_buffer_desc) option" where
  "decomposeAttributeName attribute =
     (let bs = buffer_bytes attribute; i = length (takeWhile (\<lambda>b. b \<noteq> 0x20) bs);
          rest = drop (i + 1) (case buf_value attribute of None \<Rightarrow> [] | Some m \<Rightarrow> m)
      in if i = length bs then Some (bs, \<lparr>buf_value = None, buf_length = 0\<rparr>)
         else if rest = [] then None
         else Some (take i bs, if hd rest = 0 then \<lparr>buf_value = None, buf_length = 0\<rparr>
                               else \<lparr>buf_value = Some rest, buf_length = length bs - 1 - i\<rparr>))"

definition decomposeAttributeName_type ::
  "'p attr_factories \<Rightarrow> 'p BIDGSSAttributeContext \<Rightarrow> gss_buffer_desc \<Rightarrow> (nat \<times> gss_buffer_desc) option" where
  "decomposeAttributeName_type F ctx attribute =
     map_option (\<lambda>(prefix, suffix). (attributePrefixToType F ctx prefix, suffix)) (decomposeAttributeName attribute)"

definition composeAttributeName :: "byte list \<Rightarrow> byte list option \<Rightarrow> byte list" where
  "composeAttributeName prefix suffix =
     (if prefix = [] then [] else prefix @ (case suffix of None \<Rightarrow> [] | Some s \<Rightarrow> 0x20 # s))"

definition composeAttributeName_type :: "'p attr_factories \<Rightarrow> 'p BIDGSSAttributeContext \<Rightarrow> nat \<Rightarrow> byte list option \<Rightarrow> byte list" where
  "composeAttributeName_type F ctx type suffix = composeAttributeName (attributeTypeToPrefix F ctx type) suffix"

text \<open>The loops over the providers stop at the first failure, whose provider is released.\<close>

fun existing_loop ::
  "'p attr_factories \<Rightarrow> 'p BIDGSSAttributeContext \<Rightarrow> nat list \<Rightarrow> 'p BIDGSSAttributeContext \<Rightarrow> (bool \<times> 'p BIDGSSAttributeContext) option" where
  "existing_loop F manager [] ctx = Some (True, ctx)"
| "existing_loop F manager (i # is) ctx =
     (if \<not> providerEnabled ctx i then existing_loop F manager is (setProvider i None ctx)
      else case provider_at F ctx i of
        None \<Rightarrow> None
      | Some (C, p) \<Rightarrow>
          (case provider_initWithExistingContext C p (m_providers manager ! i) of
             None \<Rightarrow> None
           | Some None \<Rightarrow> Some (False, setProvider i None ctx)
           | Some (Some p) \<Rightarrow> existing_loop F manager is (setProvider i (Some p) ctx)))"

definition attr_initWithExistingManager ::
  "'p attr_factories \<Rightarrow> 'p BIDGSSAttributeContext \<Rightarrow> 'p BIDGSSAttributeContext \<Rightarrow> (bool \<times> 'p BIDGSSAttributeContext) option" where
  "attr_initWithExistingManager F ctx manager = existing_loop F manager attr_types (ctx\<lparr>m_flags := m_flags manager\<rparr>)"

fun gss_context_loop ::
  "'p attr_factories \<Rightarrow> nat option option \<Rightarrow> attr_heap \<Rightarrow> nat list \<Rightarrow> 'p BIDGSSAttributeContext \<Rightarrow> (bool \<times> 'p BIDGSSAttributeContext) option" where
  "gss_context_loop F gssCtx h [] ctx = Some (True, ctx)"
| "gss_context_loop F gssCtx h (i # is) ctx =
     (if \<not> providerEnabled ctx i then gss_context_loop F gssCtx h is (setProvider i None ctx)
      else case provider_at F ctx i of
        None \<Rightarrow> None
      | Some (C, p) \<Rightarrow>
          (case provider_initWithGssContext C p gssCtx h of
             None \<Rightarrow> Some (False, setProvider i None ctx)
           | Some p \<Rightarrow> gss_context_loop F gssCtx h is (setProvider i (Some p) ctx)))"

text \<open>The flags are those of the credential, if there is one.\<close>

definition attr_initWithGssContext ::
  "'p attr_factories \<Rightarrow> 'p BIDGSSAttributeContext \<Rightarrow> u32 option \<Rightarrow> nat option option \<Rightarrow> attr_heap \<Rightarrow> (bool \<times> 'p BIDGSSAttributeContext) option" where
  "attr_initWithGssContext F ctx cred gssCtx h =
     gss_context_loop F gssCtx h attr_types
       (if (\<exists>fl\<in>set_option cred. flag_set fl GSS_BROWSERID_DISABLE_LOCAL_ATTRS_FLAG)
        then ctx\<lparr>m_flags := m_flags ctx OR ATTR_FLAG_DISABLE_LOCAL\<rparr> else ctx)"

text \<open>A provider counts as found also if its source is not there.\<close>

fun sources_loop ::
  "'p attr_factories \<Rightarrow> json \<Rightarrow> nat list \<Rightarrow> nat list \<Rightarrow> 'p BIDGSSAttributeContext \<Rightarrow> attr_heap \<Rightarrow>
     (bool \<times> nat list \<times> 'p BIDGSSAttributeContext \<times> attr_heap) option" where
  "sources_loop F sources [] found ctx h = Some (True, found, ctx, h)"
| "sources_loop F sources (i # is) found ctx h =
     (if \<not> providerEnabled ctx i then sources_loop F sources is found (setProvider i None ctx) h
      else case provider_at F ctx i of
        None \<Rightarrow> None
      | Some (C, p) \<Rightarrow>
          (case provider_name C of
             None \<Rightarrow> sources_loop F sources is found ctx h
           | Some key \<Rightarrow>
               (case json_object_get (Some sources) key of
                  None \<Rightarrow> sources_loop F sources is (i # found) ctx h
                | Some source \<Rightarrow>
                    if source = JNull then sources_loop F sources is (i # found) ctx h
                    else (case provider_initWithJsonObject C p source h of
                            None \<Rightarrow> Some (False, found, setProvider i None ctx, h)
                          | Some (p, h) \<Rightarrow> sources_loop F sources is (i # found) (setProvider i (Some p) ctx) h))))"

fun remaining_loop ::
  "'p attr_factories \<Rightarrow> nat list \<Rightarrow> attr_heap \<Rightarrow> nat list \<Rightarrow> 'p BIDGSSAttributeContext \<Rightarrow> (bool \<times> 'p BIDGSSAttributeContext) option" where
  "remaining_loop F found h [] ctx = Some (True, ctx)"
| "remaining_loop F found h (i # is) ctx =
     (if i \<in> set found \<or> \<not> providerEnabled ctx i then remaining_loop F found h is ctx
      else case provider_at F ctx i of
        None \<Rightarrow> None
      | Some (C, p) \<Rightarrow>
          (case provider_initWithGssContext C p None h of
             None \<Rightarrow> Some (False, setProvider i None ctx)
           | Some p \<Rightarrow> remaining_loop F found h is (setProvider i (Some p) ctx)))"

definition attr_initWithJsonObject ::
  "'p attr_factories \<Rightarrow> 'p BIDGSSAttributeContext \<Rightarrow> json \<Rightarrow> attr_heap \<Rightarrow> (bool \<times> 'p BIDGSSAttributeContext \<times> attr_heap) option" where
  "attr_initWithJsonObject F ctx obj h =
     (if json_integer_value (json_object_get (Some obj) ''version'') \<noteq> 1 then Some (False, ctx, h)
      else
        let ctx = ctx\<lparr>m_flags := word_of_int (json_integer_value (json_object_get (Some obj) ''flags''))\<rparr>;
            sources = (case json_object_get (Some obj) ''sources'' of None \<Rightarrow> JNull | Some j \<Rightarrow> j)
        in case sources_loop F sources attr_types [] ctx h of
             None \<Rightarrow> None
           | Some (False, _, ctx, h) \<Rightarrow> Some (False, ctx, h)
           | Some (True, found, ctx, h) \<Rightarrow> map_option (\<lambda>(ret, ctx). (ret, ctx, h)) (remaining_loop F found h attr_types ctx))"

fun represent_loop :: "'p attr_factories \<Rightarrow> 'p BIDGSSAttributeContext \<Rightarrow> attr_heap \<Rightarrow> nat list \<Rightarrow> json \<Rightarrow> json option" where
  "represent_loop F ctx h [] sources = Some sources"
| "represent_loop F ctx h (i # is) sources =
     (case provider_at F ctx i of
        None \<Rightarrow> represent_loop F ctx h is sources
      | Some (C, p) \<Rightarrow>
          (case provider_name C of
             None \<Rightarrow> represent_loop F ctx h is sources
           | Some key \<Rightarrow>
               (case provider_jsonRepresentation C p h of
                  None \<Rightarrow> None
                | Some source \<Rightarrow> represent_loop F ctx h is (set_member sources key source))))"

definition attr_jsonRepresentation :: "'p attr_factories \<Rightarrow> 'p BIDGSSAttributeContext \<Rightarrow> attr_heap \<Rightarrow> json option" where
  "attr_jsonRepresentation F ctx h =
     map_option (\<lambda>sources. JObject [(''version'', JInteger 1), (''flags'', JInteger (uint (m_flags ctx))), (''sources'', sources)])
       (represent_loop F ctx h attr_types (JObject []))"

text \<open>What is no JSON is an exception.\<close>

definition attr_initWithBuffer ::
  "'x attr_env_scheme \<Rightarrow> 'p attr_factories \<Rightarrow> 'p BIDGSSAttributeContext \<Rightarrow> byte list \<Rightarrow> attr_heap \<Rightarrow>
     (attr_exception + bool \<times> 'p BIDGSSAttributeContext \<times> attr_heap) option" where
  "attr_initWithBuffer env F ctx buffer h =
     (case json_loads env (c_string buffer) of
        None \<Rightarrow> Some (Inl bad_alloc)
      | Some obj \<Rightarrow> if obj = JNull then Some (Inr (False, ctx, h)) else map_option Inr (attr_initWithJsonObject F ctx obj h))"

definition attr_exportToBuffer :: "'x attr_env_scheme \<Rightarrow> 'p attr_factories \<Rightarrow> 'p BIDGSSAttributeContext \<Rightarrow> attr_heap \<Rightarrow> (attr_exception + byte list) option" where
  "attr_exportToBuffer env F ctx h =
     map_option (\<lambda>obj. case json_dumps env obj of None \<Rightarrow> Inl bad_alloc | Some s \<Rightarrow> Inr (bytes_of_string s)) (attr_jsonRepresentation F ctx h)"

text \<open>A name without the prefix of a provider is for the local one, with the whole name.\<close>

definition at_provider ::
  "'p attr_factories \<Rightarrow> 'p BIDGSSAttributeContext \<Rightarrow> gss_buffer_desc \<Rightarrow> 'r option \<Rightarrow>
     ('p BIDGSSAttributeProvider \<Rightarrow> 'p \<Rightarrow> gss_buffer_desc \<Rightarrow> 'r option) \<Rightarrow> 'r option" where
  "at_provider F ctx attr absent f =
     (case decomposeAttributeName_type F ctx attr of
        None \<Rightarrow> None
      | Some (type, suffix) \<Rightarrow>
          (case provider_at F ctx type of None \<Rightarrow> absent | Some (C, p) \<Rightarrow> f C p (if type = ATTR_TYPE_LOCAL then attr else suffix)))"

definition attr_setAttribute ::
  "'p attr_factories \<Rightarrow> 'p BIDGSSAttributeContext \<Rightarrow> gss_buffer_desc \<Rightarrow> gss_buffer_desc \<Rightarrow> attr_heap \<Rightarrow> (attr_exception + bool \<times> attr_heap) option" where
  "attr_setAttribute F ctx attr value h =
     at_provider F ctx attr (Some (Inr (False, h))) (\<lambda>C p attr. provider_setAttribute C p attr value h)"

definition attr_deleteAttribute ::
  "'p attr_factories \<Rightarrow> 'p BIDGSSAttributeContext \<Rightarrow> gss_buffer_desc \<Rightarrow> attr_heap \<Rightarrow> (attr_exception + bool \<times> attr_heap) option" where
  "attr_deleteAttribute F ctx attr h =
     at_provider F ctx attr (Some (Inr (False, h))) (\<lambda>C p attr. provider_deleteAttribute C p attr h)"

definition attr_getAttribute ::
  "'p attr_factories \<Rightarrow> 'p BIDGSSAttributeContext \<Rightarrow> gss_buffer_desc \<Rightarrow> int \<Rightarrow> attr_heap \<Rightarrow> (attr_exception + attr_value option \<times> int) option" where
  "attr_getAttribute F ctx attr index h =
     at_provider F ctx attr (Some (Inr (None, index))) (\<lambda>C p attr. provider_getAttribute C p attr index h)"

definition attr_mapToAny :: "'p attr_factories \<Rightarrow> 'p BIDGSSAttributeContext \<Rightarrow> gss_buffer_desc \<Rightarrow> nat option option" where
  "attr_mapToAny F ctx type_id = at_provider F ctx type_id (Some None) (\<lambda>C p _. Some (provider_mapToAny C p))"

text \<open>The names of all attributes; false if there is no provider.\<close>

fun types_loop :: "'p attr_factories \<Rightarrow> 'p BIDGSSAttributeContext \<Rightarrow> attr_heap \<Rightarrow> nat list \<Rightarrow> bool \<Rightarrow> byte list list \<Rightarrow> (bool \<times> byte list list) option" where
  "types_loop F ctx h [] ret attrs = Some (ret, attrs)"
| "types_loop F ctx h (i # is) ret attrs =
     (case provider_at F ctx i of
        None \<Rightarrow> types_loop F ctx h is ret attrs
      | Some (C, p) \<Rightarrow>
          (case provider_getAttributeTypes C p h of
             None \<Rightarrow> None
           | Some keys \<Rightarrow>
               types_loop F ctx h is True
                 (attrs @ map (\<lambda>k. if i = ATTR_TYPE_LOCAL then bytes_of_string k else composeAttributeName_type F ctx i (Some (bytes_of_string k))) keys)))"

definition attr_getAttributeTypes :: "'p attr_factories \<Rightarrow> 'p BIDGSSAttributeContext \<Rightarrow> attr_heap \<Rightarrow> byte list list option option" where
  "attr_getAttributeTypes F ctx h = map_option (\<lambda>(ret, attrs). if ret then Some attrs else None) (types_loop F ctx h attr_types False [])"

fun expiry_loop :: "'p attr_factories \<Rightarrow> 'p BIDGSSAttributeContext \<Rightarrow> attr_heap \<Rightarrow> nat list \<Rightarrow> int \<Rightarrow> int option" where
  "expiry_loop F ctx h [] t = Some t"
| "expiry_loop F ctx h (i # is) t =
     (case provider_at F ctx i of
        None \<Rightarrow> expiry_loop F ctx h is t
      | Some (C, p) \<Rightarrow>
          (case provider_getExpiryTime C p h of
             None \<Rightarrow> None
           | Some e \<Rightarrow> expiry_loop F ctx h is (if e \<noteq> 0 \<and> (t = 0 \<or> e < t) then e else t)))"

definition attr_getExpiryTime :: "'p attr_factories \<Rightarrow> 'p BIDGSSAttributeContext \<Rightarrow> attr_heap \<Rightarrow> int option" where
  "attr_getExpiryTime F ctx h = expiry_loop F ctx h attr_types 0"

section \<open>The calls on names\<close>

abbreviation GSSBID_NO_ATTR_CONTEXT :: OM_uint32 where "GSSBID_NO_ATTR_CONTEXT \<equiv> 43"
abbreviation GSSBID_NO_ATTR_PROVIDERS :: OM_uint32 where "GSSBID_NO_ATTR_PROVIDERS \<equiv> 44"
abbreviation GSSBID_NO_SUCH_ATTR :: OM_uint32 where "GSSBID_NO_SUCH_ATTR \<equiv> 45"
abbreviation GSSBID_BAD_ATTR_TOKEN :: OM_uint32 where "GSSBID_BAD_ATTR_TOKEN \<equiv> 46"
abbreviation GSSBID_ATTR_CONTEXT_FAILURE :: OM_uint32 where "GSSBID_ATTR_CONTEXT_FAILURE \<equiv> 47"

text \<open>What the calls use of a name.\<close>

record attr_name =
  attr_mechanismUsed :: "gss_OID option"
  name_attrCtx :: "BIDGSSJWTAttributeProvider BIDGSSAttributeContext option"

definition mapException :: "'x gss_tables_scheme \<Rightarrow> attr_exception \<Rightarrow> gss_error" where
  "mapException G e = (case e of bad_alloc \<Rightarrow> (GSS_S_FAILURE, 12) | JSONException \<Rightarrow> (GSS_S_BAD_NAME, bidg G GSSBID_BAD_ATTR_TOKEN))"

definition attr_call :: "'x gss_tables_scheme \<Rightarrow> (attr_exception + 'a) option \<Rightarrow> ('a \<Rightarrow> (gss_error + 'b) option) \<Rightarrow> (gss_error + 'b) option" where
  "attr_call G r f = (case r of None \<Rightarrow> None | Some (Inl e) \<Rightarrow> Some (Inl (mapException G e)) | Some (Inr x) \<Rightarrow> f x)"

definition gssBidAttrProvidersInit :: "'x gss_tables_scheme \<Rightarrow> 'y attr_env_scheme \<Rightarrow> gss_error + unit" where
  "gssBidAttrProvidersInit G env =
     guard (GSS_ERROR (gssBidAttrProvidersInitStatus env)) (gssBidAttrProvidersInitStatus env, bidg G GSSBID_NO_ATTR_PROVIDERS)"

definition providers_available :: "'x gss_tables_scheme \<Rightarrow> 'y attr_env_scheme \<Rightarrow> gss_error + unit" where
  "providers_available G env = map_sum (\<lambda>(_, minor). (GSS_S_UNAVAILABLE, minor)) id (gssBidAttrProvidersInit G env)"

definition with_attributes ::
  "'x gss_tables_scheme \<Rightarrow> 'y attr_env_scheme \<Rightarrow> attr_name \<Rightarrow> (BIDGSSJWTAttributeProvider BIDGSSAttributeContext \<Rightarrow> (gss_error + 'a) option) \<Rightarrow>
     (gss_error + 'a) option" where
  "with_attributes G env name f =
     (case name_attrCtx name of
        None \<Rightarrow> Some (Inl (GSS_S_UNAVAILABLE, bidg G GSSBID_NO_ATTR_CONTEXT))
      | Some ctx \<Rightarrow> bailO (Some (providers_available G env)) (\<lambda>_. f ctx))"

definition gssBidInquireName ::
  "'x name_env_scheme \<Rightarrow> 'y attr_env_scheme \<Rightarrow> attr_name \<Rightarrow> bool \<Rightarrow> attr_heap \<Rightarrow> (gss_error + bool \<times> gss_OID option \<times> byte list list) option" where
  "gssBidInquireName G env name MN_mech h =
     bailO (Some (if MN_mech then gssBidCanonicalizeOid G (gssBidDefaultMech G) (attr_mechanismUsed name) OID_FLAG_NULL_VALID else Inr None)) (\<lambda>mech.
     with_attributes G env name (\<lambda>ctx.
     case attr_getAttributeTypes (gssBidAttrFactories env) ctx h of
       None \<Rightarrow> None
     | Some None \<Rightarrow> Some (Inl (GSS_S_UNAVAILABLE, bidg G GSSBID_NO_ATTR_CONTEXT))
     | Some (Some attrs) \<Rightarrow> Some (Inr (attr_mechanismUsed name \<noteq> None, mech, attrs))))"

definition gssBidGetNameAttribute ::
  "'x gss_tables_scheme \<Rightarrow> 'y attr_env_scheme \<Rightarrow> attr_name \<Rightarrow> gss_buffer_desc \<Rightarrow> int \<Rightarrow> attr_heap \<Rightarrow> (gss_error + attr_value \<times> int) option" where
  "gssBidGetNameAttribute G env name attr index h =
     with_attributes G env name (\<lambda>ctx.
     attr_call G (attr_getAttribute (gssBidAttrFactories env) ctx attr index h) (\<lambda>(r, rest).
     case r of None \<Rightarrow> Some (Inl (GSS_S_UNAVAILABLE, bidg G GSSBID_NO_SUCH_ATTR)) | Some v \<Rightarrow> Some (Inr (v, rest))))"

definition attr_changed :: "'x gss_tables_scheme \<Rightarrow> bool \<times> attr_heap \<Rightarrow> (gss_error + attr_heap) option" where
  "attr_changed G = (\<lambda>(ret, h). Some (if ret then Inr h else Inl (GSS_S_UNAVAILABLE, bidg G GSSBID_NO_SUCH_ATTR)))"

definition gssBidDeleteNameAttribute ::
  "'x gss_tables_scheme \<Rightarrow> 'y attr_env_scheme \<Rightarrow> attr_name \<Rightarrow> gss_buffer_desc \<Rightarrow> attr_heap \<Rightarrow> (gss_error + attr_heap) option" where
  "gssBidDeleteNameAttribute G env name attr h =
     with_attributes G env name (\<lambda>ctx. attr_call G (attr_deleteAttribute (gssBidAttrFactories env) ctx attr h) (attr_changed G))"

definition gssBidSetNameAttribute ::
  "'x gss_tables_scheme \<Rightarrow> 'y attr_env_scheme \<Rightarrow> attr_name \<Rightarrow> gss_buffer_desc \<Rightarrow> gss_buffer_desc \<Rightarrow> attr_heap \<Rightarrow> (gss_error + attr_heap) option" where
  "gssBidSetNameAttribute G env name attr value h =
     with_attributes G env name (\<lambda>ctx. attr_call G (attr_setAttribute (gssBidAttrFactories env) ctx attr value h) (attr_changed G))"

definition gssBidMapNameToAny ::
  "'x gss_tables_scheme \<Rightarrow> 'y attr_env_scheme \<Rightarrow> attr_name \<Rightarrow> gss_buffer_desc \<Rightarrow> (gss_error + nat option) option" where
  "gssBidMapNameToAny G env name type_id =
     with_attributes G env name (\<lambda>ctx. map_option Inr (attr_mapToAny (gssBidAttrFactories env) ctx type_id))"

text \<open>The calls of theory Name on the context itself; those that make a context allocate objects.\<close>

definition export_attr_context :: "'x gss_tables_scheme \<Rightarrow> 'y attr_env_scheme \<Rightarrow> attr_name \<Rightarrow> attr_heap \<Rightarrow> (gss_error + byte list) option" where
  "export_attr_context G env name h =
     (if name_attrCtx name = None then Some (Inr [])
      else with_attributes G env name (\<lambda>ctx. attr_call G (attr_exportToBuffer env (gssBidAttrFactories env) ctx h) (\<lambda>b. Some (Inr b))))"

definition import_attr_context ::
  "'x gss_tables_scheme \<Rightarrow> 'y attr_env_scheme \<Rightarrow> byte list \<Rightarrow> attr_name \<Rightarrow> attr_heap \<Rightarrow> (gss_error + attr_name \<times> attr_heap) option" where
  "import_attr_context G env buffer name h =
     bailO (Some (providers_available G env)) (\<lambda>_.
     if buffer = [] then Some (Inr (name, h))
     else attr_call G (attr_initWithBuffer env (gssBidAttrFactories env) (new_attr_context (gssBidAttrFactories env)) buffer h) (\<lambda>(ret, ctx, h).
       Some (if ret then Inr (name\<lparr>name_attrCtx := Some ctx\<rparr>, h) else Inl (GSS_S_BAD_NAME, bidg G GSSBID_ATTR_CONTEXT_FAILURE))))"

text \<open>The failure of the copy is not reported.\<close>

definition duplicate_attr_context ::
  "'x gss_tables_scheme \<Rightarrow> 'y attr_env_scheme \<Rightarrow> attr_name \<Rightarrow> attr_name \<Rightarrow> (gss_error + attr_name) option" where
  "duplicate_attr_context G env inName out =
     (case name_attrCtx inName of
        None \<Rightarrow> Some (Inr out)
      | Some manager \<Rightarrow>
          bailO (Some (providers_available G env)) (\<lambda>_.
          map_option (\<lambda>(ret, ctx). Inr (if ret then out\<lparr>name_attrCtx := Some ctx\<rparr> else out))
            (attr_initWithExistingManager (gssBidAttrFactories env) (new_attr_context (gssBidAttrFactories env)) manager)))"

text \<open>The attributes of an established context, and when they expire.\<close>

definition create_attr_context ::
  "'x gss_tables_scheme \<Rightarrow> 'y attr_env_scheme \<Rightarrow> u32 option \<Rightarrow> nat option \<Rightarrow> attr_heap \<Rightarrow>
     (gss_error + BIDGSSJWTAttributeProvider BIDGSSAttributeContext \<times> int) option" where
  "create_attr_context G env cred identity h =
     bailO (Some (gssBidAttrProvidersInit G env)) (\<lambda>_.
     case attr_initWithGssContext (gssBidAttrFactories env) (new_attr_context (gssBidAttrFactories env)) cred (Some identity) h of
       None \<Rightarrow> None
     | Some (False, ctx) \<Rightarrow> Some (Inl (GSS_S_FAILURE, bidg G GSSBID_ATTR_CONTEXT_FAILURE))
     | Some (True, ctx) \<Rightarrow> map_option (\<lambda>t. Inr (ctx, t)) (attr_getExpiryTime (gssBidAttrFactories env) ctx h))"

section \<open>Entry points\<close>

definition with_name :: "attr_name option \<Rightarrow> (attr_name \<Rightarrow> (gss_error + 'a) option) \<Rightarrow> (gss_error + 'a) option" where
  "with_name name f =
     (case name of None \<Rightarrow> Some (Inl (GSS_S_CALL_INACCESSIBLE_READ OR GSS_S_BAD_NAME, EINVAL)) | Some name \<Rightarrow> f name)"

definition gss_get_name_attribute ::
  "'x gss_tables_scheme \<Rightarrow> 'y attr_env_scheme \<Rightarrow> attr_name option \<Rightarrow> gss_buffer_desc \<Rightarrow> int \<Rightarrow> attr_heap \<Rightarrow> (gss_error + attr_value \<times> int) option" where
  "gss_get_name_attribute G env name attr index h = with_name name (\<lambda>name. gssBidGetNameAttribute G env name attr index h)"

definition gss_set_name_attribute ::
  "'x gss_tables_scheme \<Rightarrow> 'y attr_env_scheme \<Rightarrow> attr_name option \<Rightarrow> gss_buffer_desc \<Rightarrow> gss_buffer_desc \<Rightarrow> attr_heap \<Rightarrow> (gss_error + attr_heap) option" where
  "gss_set_name_attribute G env name attr value h = with_name name (\<lambda>name. gssBidSetNameAttribute G env name attr value h)"

definition gss_delete_name_attribute ::
  "'x gss_tables_scheme \<Rightarrow> 'y attr_env_scheme \<Rightarrow> attr_name option \<Rightarrow> gss_buffer_desc \<Rightarrow> attr_heap \<Rightarrow> (gss_error + attr_heap) option" where
  "gss_delete_name_attribute G env name attr h = with_name name (\<lambda>name. gssBidDeleteNameAttribute G env name attr h)"

text \<open>Nothing is looked up for a caller that does not want the attributes.\<close>

definition gss_inquire_name ::
  "'x name_env_scheme \<Rightarrow> 'y attr_env_scheme \<Rightarrow> attr_name option \<Rightarrow> bool \<Rightarrow> bool \<Rightarrow> attr_heap \<Rightarrow>
     (gss_error + bool \<times> gss_OID option \<times> byte list list) option" where
  "gss_inquire_name G env name MN_mech attrs h =
     with_name name (\<lambda>name. if \<not> attrs then Some (Inr (False, None, [])) else gssBidInquireName G env name MN_mech h)"

definition gss_map_name_to_any ::
  "'x gss_tables_scheme \<Rightarrow> 'y attr_env_scheme \<Rightarrow> attr_name option \<Rightarrow> gss_buffer_desc \<Rightarrow> (gss_error + nat option) option" where
  "gss_map_name_to_any G env name type_id = with_name name (\<lambda>name. gssBidMapNameToAny G env name type_id)"

section \<open>Lemmas\<close>

text \<open>A context with one provider.\<close>

definition managed :: "u32 \<Rightarrow> 'p \<Rightarrow> 'p BIDGSSAttributeContext" where
  "managed flags p = \<lparr>m_flags = flags, m_providers = [Some p, None, None, None]\<rparr>"

definition only :: "'p BIDGSSAttributeProvider \<Rightarrow> 'p attr_factories" where
  "only C = registerProvider ATTR_TYPE_JWT C (\<lambda>_. None)"

lemma managed_provider [simp]:
  "provider_at (only C) (managed fl p) 0 = Some (C, p)"
  "provider_at (only C) (managed fl p) (Suc 0) = None" "provider_at (only C) (managed fl p) 2 = None" "provider_at (only C) (managed fl p) 3 = None"
  "providerEnabled (managed fl p) 0" "\<not> providerEnabled (managed fl p) (Suc 0)" "\<not> providerEnabled (managed fl p) 2"
  "\<not> providerEnabled (managed fl p) 3"
  by (simp_all add: provider_at_def providerEnabled_def managed_def only_def registerProvider_def)

lemma managed_update [simp]:
  "setProvider 0 (Some q) (managed fl p) = managed fl q" "setProvider (Suc 0) None (managed fl p) = managed fl p"
  "setProvider 2 None (managed fl p) = managed fl p" "setProvider 3 None (managed fl p) = managed fl p"
  "managed fl p\<lparr>m_flags := fl'\<rparr> = managed fl' p" "m_flags (managed fl p) = fl"
  by (simp_all add: setProvider_def managed_def numeral_2_eq_2 numeral_3_eq_3)

lemma new_managed: "new_attr_context (only C) = managed 0 (provider_create C)"
  by (simp add: new_attr_context_def managed_def only_def registerProvider_def)

text \<open>The interface between the manager and a provider: what a provider writes of itself, it can be made of again.\<close>

locale attribute_provider =
  fixes C :: "'p BIDGSSAttributeProvider" and key :: string
  assumes key: "provider_name C = Some key"
    and restored: "j \<noteq> JNull \<Longrightarrow>
      \<exists>p h'. provider_initWithJsonObject C (provider_create C) j h = Some (p, h') \<and> provider_jsonRepresentation C p h' = Some j"
begin

lemma represented:
  assumes "provider_jsonRepresentation C p h = Some j"
  shows "attr_jsonRepresentation (only C) (managed fl p) h =
    Some (JObject [(''version'', JInteger 1), (''flags'', JInteger (uint fl)), (''sources'', JObject [(key, j)])])"
  by (simp add: attr_jsonRepresentation_def key assms set_member_def)

lemma restored_context:
  assumes "provider_jsonRepresentation C p h = Some j" "j \<noteq> JNull" "attr_jsonRepresentation (only C) (managed fl p) h = Some rep"
  shows "\<exists>p' h''. attr_initWithJsonObject (only C) (new_attr_context (only C)) rep h' = Some (True, managed fl p', h'') \<and>
    provider_jsonRepresentation C p' h'' = Some j"
proof -
  have rep: "rep = JObject [(''version'', JInteger 1), (''flags'', JInteger (uint fl)), (''sources'', JObject [(key, j)])]"
    using represented[OF assms(1)] assms(3) by simp
  from restored[OF assms(2)] obtain p' h'' where
    "provider_initWithJsonObject C (provider_create C) j h' = Some (p', h'')" "provider_jsonRepresentation C p' h'' = Some j" by blast
  then show ?thesis
    by (simp add: attr_initWithJsonObject_def rep new_managed key assms(2)) blast
qed

end

interpretation jwt: attribute_provider "jwt_provider env" "''jwt''" for env
  by unfold_locales (simp_all add: jwt_provider_def jwt_initWithJsonObject_def attr_alloc_def jwt_jsonRepresentation_def attr_deref_def)

text \<open>The texts of the encoder are what the decoder of the library reads.\<close>

lemma padded_decode:
  assumes "length out + length data \<le> maxLength"
  shows "BIDBase64UrlDecode_loop maxLength (base64Encode_loop data) out = Inr (out @ data)"
  using assms
proof (induction data arbitrary: out rule: base64Encode_loop.induct)
  case 1 then show ?case by (simp add: BIDBase64UrlDecode_loop.simps)
next
  case (2 x)
  then show ?case
    using decode_group_1[of out maxLength "''==''" "[]" False x] quad_padded(3)[OF group_less(1)[of x], of "CHR ''=''"] by simp
next
  case (3 x y)
  then show ?case
    using decode_group_2[of out maxLength "''=''" "[]" False x y] quad_padded(2)[OF group_less(2)[of x y], of "CHR ''=''"] by simp
next
  case (4 x y z q)
  then show ?case
    using decode_group_3[of out maxLength False x y z "base64Encode_loop q"] quad_padded(1)[OF group_less(3)[of x y z]] by simp
qed

lemma base64_length: "length data \<le> length (base64Encode_loop data)"
  by (induction data rule: base64Encode_loop.induct) (simp_all add: b64_quad_def)

lemma encoded_value:
  "jwt_value env (JString (base64Encode_loop v)) =
     (if 0 \<in> set v then Some (Inr (takeWhile (\<lambda>x. x \<noteq> 0) v, True)) else None)"
proof -
  have "BIDBase64UrlDecode (base64Encode_loop v) None = Inr v"
    using padded_decode[of "[]" v] base64_length[of v] by (simp add: BIDBase64UrlDecode_def)
  then show ?thesis by (simp add: jwt_value_def base64_valid_decodable base64_decode_encode)
qed

text \<open>The name of an attribute of an identity.\<close>

definition jwt_attr :: "string \<Rightarrow> gss_buffer_desc" where
  "jwt_attr key = duplicateBuffer (composeAttributeName (bytes_of_string jwt_prefix) (Some (bytes_of_string key)))"

lemma factories_only: "gssBidAttrFactories env = only (jwt_provider env)"
  by (simp add: gssBidAttrFactories_def only_def)

text \<open>Strings as buffers.\<close>

lemma text_nonzero: "CHR 0x00 \<notin> set s \<Longrightarrow> 0 \<notin> set (bytes_of_string s)"
proof -
  assume "CHR 0x00 \<notin> set s"
  then have "string_of_bytes (takeWhile (\<lambda>b. b \<noteq> 0) (bytes_of_string s)) = s"
    using c_string_bytes_of_string[of s] by (simp add: c_string_def)
  then have "length (takeWhile (\<lambda>b. b \<noteq> 0) (bytes_of_string s)) = length (bytes_of_string s)"
    by (metis length_bytes_of_string length_map string_of_bytes_def)
  then have "takeWhile (\<lambda>b. b \<noteq> 0) (bytes_of_string s) = bytes_of_string s"
    by (metis takeWhile_eq_take take_all order_refl)
  then show ?thesis by (auto simp: takeWhile_eq_all_conv)
qed

lemma duplicate_bytes [simp]: "buffer_bytes (duplicateBuffer bs) = bs"
  by (simp add: buffer_bytes_def duplicateBuffer_def)

lemma duplicate_string:
  assumes "CHR 0x00 \<notin> set s"
  shows "buffer_string (duplicateBuffer (bytes_of_string s)) = Some (Some s)"
proof -
  have "takeWhile (\<lambda>b. b \<noteq> 0) (bytes_of_string s @ [0]) = bytes_of_string s"
    using text_nonzero[OF assms] by (subst takeWhile_append2) auto
  then show ?thesis by (simp add: buffer_string_def duplicateBuffer_def c_string_def)
qed

lemma jwt_attr_decomposed:
  assumes "key \<noteq> []" "CHR 0x00 \<notin> set key"
  shows "decomposeAttributeName (jwt_attr key) = Some (bytes_of_string jwt_prefix, duplicateBuffer (bytes_of_string key))"
proof -
  let ?p = "bytes_of_string jwt_prefix" and ?k = "bytes_of_string key"
  have p: "takeWhile (\<lambda>b. b \<noteq> 0x20) (?p @ 0x20 # ?k) = ?p" "?p \<noteq> []" by code_simp+
  have k: "?k \<noteq> []" "hd ?k \<noteq> 0" using assms text_nonzero[OF assms(2)] by (auto simp: bytes_of_string_def hd_map)
  have m: "jwt_attr key = \<lparr>buf_value = Some (?p @ 0x20 # ?k @ [0]), buf_length = length ?p + 1 + length ?k\<rparr>"
    using p(2) by (simp add: jwt_attr_def composeAttributeName_def duplicateBuffer_def)
  have "buffer_bytes (jwt_attr key) = ?p @ 0x20 # ?k" using p(2) by (simp add: jwt_attr_def composeAttributeName_def)
  then show ?thesis
    using k p by (simp add: decomposeAttributeName_def m duplicateBuffer_def Let_def)
qed

lemma at_jwt:
  assumes "key \<noteq> []" "CHR 0x00 \<notin> set key"
  shows "at_provider (gssBidAttrFactories env) (managed fl p) (jwt_attr key) absent f =
    f (jwt_provider env) p (duplicateBuffer (bytes_of_string key))"
proof -
  have "attributePrefixToType (only (jwt_provider env)) (managed fl p) (bytes_of_string jwt_prefix) = 0"
    by (simp add: attributePrefixToType_def jwt_provider_def)
  then show ?thesis
    by (simp add: at_provider_def decomposeAttributeName_type_def jwt_attr_decomposed[OF assms] factories_only)
qed

lemma get_set_member: "json_is_object (Some obj) \<Longrightarrow> json_object_get (Some (set_member obj key j)) key = Some j"
  by (cases obj) (simp_all add: set_member_def update_conv')

lemma printable_text: "isStringBuffer (bytes_of_string s) \<Longrightarrow> CHR 0x00 \<notin> set s"
  by (auto simp: isStringBuffer_def list_all_iff bytes_of_string_def)

text \<open>Storing a value, and reading one that is not an array.\<close>

lemma jwt_set_value:
  assumes "a < length h" "json_is_object (Some (h ! a))" "CHR 0x00 \<notin> set key"
    and "if isStringBuffer v then v = bytes_of_string s else base64Encode v = Some s"
  shows "jwt_setAttribute \<lparr>m_attrs = Some a\<rparr> (duplicateBuffer (bytes_of_string key)) (duplicateBuffer v) h =
    Some (Inr (True, h[a := set_member (h ! a) key (JString s)]))"
  using assms duplicate_string[OF assms(3)] duplicate_string[OF printable_text, of s]
  by (simp add: jwt_setAttribute_def attr_deref_def split: if_splits)

lemma jwt_get_value:
  assumes "a < length h" "json_object_get (Some (h ! a)) key = Some (JString s)" "CHR 0x00 \<notin> set key"
  shows "jwt_getAttribute env \<lparr>m_attrs = Some a\<rparr> (duplicateBuffer (bytes_of_string key)) (- 1) h =
    bailO (jwt_value env (JString s)) (\<lambda>(v, bIsBinary). Some (Inr (Some \<lparr>av_value = v, av_display = (if bIsBinary then None else Some v)\<rparr>, 0)))"
  using assms by (simp add: jwt_getAttribute_def attr_deref_def c_string_bytes_of_string Let_def)

section \<open>Properties\<close>

text \<open>A name whose attributes are in a given cell.\<close>

definition named :: "gss_OID option \<Rightarrow> u32 \<Rightarrow> nat \<Rightarrow> attr_name" where
  "named mech fl a = \<lparr>attr_mechanismUsed = mech, name_attrCtx = Some (managed fl \<lparr>m_attrs = Some a\<rparr>)\<rparr>"

lemma named_simps [simp]: "name_attrCtx (named mech fl a) = Some (managed fl \<lparr>m_attrs = Some a\<rparr>)" "attr_mechanismUsed (named mech fl a) = mech"
  "(named mech fl b)\<lparr>name_attrCtx := Some (managed fl \<lparr>m_attrs = Some a\<rparr>)\<rparr> = named mech fl a"
  by (simp_all add: named_def)

text \<open>The calls when the providers have been initialised.\<close>

lemma providers_ready: "gssBidAttrProvidersInitStatus env = GSS_S_COMPLETE \<Longrightarrow> providers_available G env = Inr ()"
  by (simp add: providers_available_def gssBidAttrProvidersInit_def GSS_ERROR_def guard_def)

lemma set_named:
  assumes "gssBidAttrProvidersInitStatus env = GSS_S_COMPLETE" "a < length h" "json_is_object (Some (h ! a))"
    and "key \<noteq> []" "CHR 0x00 \<notin> set key" "if isStringBuffer v then v = bytes_of_string s else base64Encode v = Some s"
  shows "gss_set_name_attribute G env (Some (named mech fl a)) (jwt_attr key) (duplicateBuffer v) h =
    Some (Inr (h[a := set_member (h ! a) key (JString s)]))"
  using jwt_set_value[OF assms(2,3,5,6)]
  by (simp add: gss_set_name_attribute_def with_name_def gssBidSetNameAttribute_def with_attributes_def providers_ready[OF assms(1)]
      attr_setAttribute_def at_jwt[OF assms(4,5)] jwt_provider_def attr_call_def attr_changed_def)

lemma get_named:
  assumes "gssBidAttrProvidersInitStatus env = GSS_S_COMPLETE" "a < length h" "key \<noteq> []" "CHR 0x00 \<notin> set key"
    and "json_object_get (Some (h ! a)) key = Some (JString s)"
  shows "gss_get_name_attribute G env (Some (named mech fl a)) (jwt_attr key) (- 1) h =
    attr_call G (jwt_value env (JString s)) (\<lambda>(v, bIsBinary).
      Some (Inr (\<lparr>av_value = v, av_display = (if bIsBinary then None else Some v)\<rparr>, 0)))"
proof -
  have "provider_getAttribute (jwt_provider env) = jwt_getAttribute env" by (simp add: jwt_provider_def)
  then show ?thesis
    using jwt_get_value[OF assms(2,5,4), of env]
    by (simp add: gss_get_name_attribute_def with_name_def gssBidGetNameAttribute_def with_attributes_def providers_ready[OF assms(1)]
        attr_getAttribute_def at_jwt[OF assms(3,4)] attr_call_def bailO_def split: option.splits sum.splits)
qed

text \<open>C34: the attributes of a name survive its export: the context that is made of the text of another has the same attributes and
  flags, in an object of its own.\<close>

theorem attributes_export_import:
  assumes "json_library env" "gssBidAttrProvidersInitStatus env = GSS_S_COMPLETE" "a < length h" "h ! a \<noteq> JNull"
    and "export_attr_context G env (named mech fl a) h = Some (Inr b)" "b \<noteq> []"
  shows "\<exists>a' h''. import_attr_context G env b \<lparr>attr_mechanismUsed = mech, name_attrCtx = None\<rparr> h' = Some (Inr (named mech fl a', h'')) \<and>
    attr_deref h'' (Some a') = Some (h ! a)"
proof -
  let ?C = "jwt_provider env"
  have j: "provider_jsonRepresentation ?C \<lparr>m_attrs = Some a\<rparr> h = Some (h ! a)"
    using assms(3) by (simp add: jwt_provider_def jwt_jsonRepresentation_def attr_deref_def)
  note rep = jwt.represented[OF j, of fl]
  then obtain s where s: "json_dumps env (the (attr_jsonRepresentation (only ?C) (managed fl \<lparr>m_attrs = Some a\<rparr>) h)) = Some s" "b = bytes_of_string s"
    using assms(5) by (auto simp: export_attr_context_def with_attributes_def providers_ready[OF assms(2)] attr_exportToBuffer_def
        factories_only attr_call_def split: option.splits)
  then have l: "json_loads env (c_string b) = attr_jsonRepresentation (only ?C) (managed fl \<lparr>m_attrs = Some a\<rparr>) h"
    using assms(1) rep by (simp add: json_library_def c_string_bytes_of_string)
  from jwt.restored_context[OF j assms(4) rep, of h'] obtain p h'' where
    i: "attr_initWithJsonObject (only ?C) (new_attr_context (only ?C)) (the (attr_jsonRepresentation (only ?C) (managed fl \<lparr>m_attrs = Some a\<rparr>) h)) h' =
      Some (True, managed fl p, h'')" "provider_jsonRepresentation ?C p h'' = Some (h ! a)" using rep by auto
  then obtain a' where p: "p = \<lparr>m_attrs = Some a'\<rparr>" "attr_deref h'' (Some a') = Some (h ! a)"
    by (cases p; cases "m_attrs p") (auto simp: jwt_provider_def jwt_jsonRepresentation_def attr_deref_def)
  then show ?thesis
    using assms(6) l rep i(1)
    by (intro exI[of _ a'] exI[of _ h''])
      (simp add: import_attr_context_def providers_ready[OF assms(2)] attr_initWithBuffer_def factories_only attr_call_def named_def)
qed


text \<open>C36: a binary value that is stored as an attribute is never read back: the length of the decoded bytes is taken to be that of a
  string, so they are cut at the first zero byte, and read beyond their end if there is none.\<close>

theorem binary_attribute_lost:
  assumes "gssBidAttrProvidersInitStatus env = GSS_S_COMPLETE" "a < length h" "json_is_object (Some (h ! a))"
    and "key \<noteq> []" "CHR 0x00 \<notin> set key" "\<not> isStringBuffer v" "length v \<le> 536870911"
  shows "\<exists>h'. gss_set_name_attribute G env (Some (named mech fl a)) (jwt_attr key) (duplicateBuffer v) h = Some (Inr h') \<and>
    gss_get_name_attribute G env (Some (named mech fl a)) (jwt_attr key) (- 1) h' =
      (if 0 \<in> set v then Some (Inr (\<lparr>av_value = takeWhile (\<lambda>b. b \<noteq> 0) v, av_display = None\<rparr>, 0)) else None)"
proof -
  let ?s = "base64Encode_loop v"
  let ?h = "h[a := set_member (h ! a) key (JString ?s)]"
  have g: "json_object_get (Some (?h ! a)) key = Some (JString ?s)" "a < length ?h" using assms(2,3) by (simp_all add: get_set_member)
  have "gss_set_name_attribute G env (Some (named mech fl a)) (jwt_attr key) (duplicateBuffer v) h = Some (Inr ?h)"
    using assms(6,7) by (intro set_named[OF assms(1-5)]) (simp add: base64Encode_def)
  then show ?thesis
    using get_named[OF assms(1) g(2) assms(4,5) g(1), of G mech fl]
    by (intro exI[of _ ?h]) (cases "0 \<in> set v"; simp add: encoded_value attr_call_def)
qed

text \<open>A context that was imported without attributes.\<close>

lemma import_without_attributes:
  assumes "gssBidAttrProvidersInitStatus env = GSS_S_COMPLETE" "json_loads env (c_string b) = Some obj" "b \<noteq> []"
    and "json_integer_value (json_object_get (Some obj) ''version'') = 1"
    and "json_object_get (json_object_get (Some obj) ''sources'') ''jwt'' = None"
  shows "\<exists>fl. import_attr_context G env b name h = Some (Inr (name\<lparr>name_attrCtx := Some (managed fl \<lparr>m_attrs = None\<rparr>)\<rparr>, h))"
proof -
  have c: "provider_create (jwt_provider env) = \<lparr>m_attrs = None\<rparr>" "provider_name (jwt_provider env) = Some ''jwt''" by (simp_all add: jwt_provider_def)
  have "json_object_get (Some (case json_object_get (Some obj) ''sources'' of None \<Rightarrow> JNull | Some j \<Rightarrow> j)) ''jwt'' = None"
    using assms(5) by (cases "json_object_get (Some obj) ''sources''") simp_all
  moreover have "obj \<noteq> JNull" using assms(4) by auto
  ultimately show ?thesis
    using assms(3,4) by (simp add: import_attr_context_def providers_ready[OF assms(1)] attr_initWithBuffer_def assms(2) factories_only
        attr_initWithJsonObject_def new_managed c attr_call_def Let_def) blast
qed


text \<open>Every index of an attribute that is an array gives the text of the whole array.\<close>

lemma array_attribute_whole:
  assumes "gssBidAttrProvidersInitStatus env = GSS_S_COMPLETE" "a < length h" "key \<noteq> []" "CHR 0x00 \<notin> set key"
    and "json_object_get (Some (h ! a)) key = Some (JArray js)" "json_dumps_default env (JArray js) = Some s" "i < length js"
  shows "gss_get_name_attribute G env (Some (named mech fl a)) (jwt_attr key) (int i) h =
    Some (Inr (\<lparr>av_value = bytes_of_string s, av_display = Some (bytes_of_string s)\<rparr>, if i + 1 < length js then int i + 1 else 0))"
  using assms(2,5-7)
  by (simp add: gss_get_name_attribute_def with_name_def gssBidGetNameAttribute_def with_attributes_def providers_ready[OF assms(1)]
      attr_getAttribute_def at_jwt[OF assms(3,4)] jwt_provider_def)
    (simp add: jwt_getAttribute_def attr_deref_def c_string_bytes_of_string[OF assms(4)] attr_call_def jwt_value_def)

text \<open>An attribute that is not there is an empty one.\<close>

lemma missing_attribute_empty:
  assumes "gssBidAttrProvidersInitStatus env = GSS_S_COMPLETE" "a < length h" "key \<noteq> []" "CHR 0x00 \<notin> set key"
    and "json_object_get (Some (h ! a)) key = None"
  shows "gss_get_name_attribute G env (Some (named mech fl a)) (jwt_attr key) (- 1) h =
    Some (Inr (\<lparr>av_value = [], av_display = Some []\<rparr>, 0))"
  using assms(2,5) bytes_of_string_def[of "[]"]
  by (simp add: gss_get_name_attribute_def with_name_def gssBidGetNameAttribute_def with_attributes_def providers_ready[OF assms(1)]
      attr_getAttribute_def at_jwt[OF assms(3,4)] jwt_provider_def)
    (simp add: jwt_getAttribute_def attr_deref_def c_string_bytes_of_string[OF assms(4)] attr_call_def jwt_value_def)

text \<open>The attributes of an established context are those of its identity, and a copy of a name shares them.\<close>

lemma created_shares:
  assumes "gssBidAttrProvidersInitStatus env = GSS_S_COMPLETE" "a < length h" "json_is_object (Some (h ! a))"
  shows "create_attr_context G env None (Some a) h =
    Some (Inr (managed 0 \<lparr>m_attrs = Some a\<rparr>, json_integer_value (json_object_get (Some (h ! a)) ''exp'') sdiv 1000))"
proof -
  have c: "provider_create (jwt_provider env) = \<lparr>m_attrs = None\<rparr>"
    "provider_initWithGssContext (jwt_provider env) = jwt_initWithGssContext"
    "provider_getExpiryTime (jwt_provider env) = jwt_getExpiryTime" by (simp_all add: jwt_provider_def)
  have i: "jwt_initWithGssContext \<lparr>m_attrs = None\<rparr> (Some (Some a)) h = Some \<lparr>m_attrs = Some a\<rparr>"
    using assms(2,3) by (simp add: jwt_initWithGssContext_def attr_deref_def)
  show ?thesis
    using assms(2) by (simp add: create_attr_context_def gssBidAttrProvidersInit_def assms(1) GSS_ERROR_def guard_def factories_only new_managed c i
        attr_initWithGssContext_def attr_getExpiryTime_def jwt_getExpiryTime_def attr_deref_def)
qed

lemma duplicate_shares:
  assumes "gssBidAttrProvidersInitStatus env = GSS_S_COMPLETE"
  shows "duplicate_attr_context G env (named mech fl a) out = Some (Inr (out\<lparr>name_attrCtx := Some (managed fl \<lparr>m_attrs = Some a\<rparr>)\<rparr>))"
proof -
  have c: "provider_create (jwt_provider env) = \<lparr>m_attrs = None\<rparr>"
    "provider_initWithExistingContext (jwt_provider env) = jwt_initWithExistingContext" by (simp_all add: jwt_provider_def)
  have m: "m_providers (managed fl \<lparr>m_attrs = Some a\<rparr>) ! 0 = Some \<lparr>m_attrs = Some a\<rparr>" by (simp add: managed_def)
  show ?thesis
    using m by (simp add: duplicate_attr_context_def providers_ready[OF assms] factories_only new_managed c attr_initWithExistingManager_def
        jwt_initWithExistingContext_def)
qed

text \<open>A JSON library with two documents: one identity, and one without attributes.\<close>

definition sample_attrs :: json where
  "sample_attrs = JObject [(''sub'', JString ''joe'')]"

definition sample_attr_env :: attr_env where
  "sample_attr_env =
     (let rep = JObject [(''version'', JInteger 1), (''flags'', JInteger 0), (''sources'', JObject [(''jwt'', sample_attrs)])]
      in \<lparr>json_loads = (\<lambda>s. if s = ''a'' then Some rep else if s = ''b'' then Some (JObject [(''version'', JInteger 1)]) else None),
          json_dumps = (\<lambda>j. if j = rep then Some ''a'' else None), json_dumps_default = (\<lambda>_. None), gssBidAttrProvidersInitStatus = GSS_S_COMPLETE\<rparr>)"

lemma sample_attr_env_ready [simp]: "gssBidAttrProvidersInitStatus sample_attr_env = GSS_S_COMPLETE"
  by (simp add: sample_attr_env_def Let_def)

theorem attributes_export_import_witness:
  "\<exists>b a' h''. export_attr_context sample_cred_env sample_attr_env (named None 0 0) [sample_attrs] = Some (Inr b) \<and>
     import_attr_context sample_cred_env sample_attr_env b \<lparr>attr_mechanismUsed = None, name_attrCtx = None\<rparr> [] = Some (Inr (named None 0 a', h'')) \<and>
     attr_deref h'' (Some a') = Some sample_attrs"
proof -
  have j: "provider_jsonRepresentation (jwt_provider sample_attr_env) \<lparr>m_attrs = Some 0\<rparr> [sample_attrs] = Some sample_attrs"
    by (simp add: jwt_provider_def jwt_jsonRepresentation_def attr_deref_def)
  have e: "export_attr_context sample_cred_env sample_attr_env (named None 0 0) [sample_attrs] = Some (Inr (bytes_of_string ''a''))"
    by (simp add: export_attr_context_def with_attributes_def providers_ready attr_exportToBuffer_def factories_only attr_call_def jwt.represented[OF j])
      (simp add: sample_attr_env_def Let_def)
  have "json_library sample_attr_env" by (simp add: json_library_def sample_attr_env_def Let_def)
  from attributes_export_import[OF this sample_attr_env_ready _ _ e, of "[]"] e show ?thesis
    by (auto simp: sample_attrs_def bytes_of_string_def)
qed


theorem binary_attribute_lost_witness:
  "\<exists>h'. gss_set_name_attribute sample_cred_env sample_attr_env (Some (named None 0 0)) (jwt_attr ''pic'') (duplicateBuffer [0xFF, 0xFE]) [sample_attrs] =
     Some (Inr h') \<and> gss_get_name_attribute sample_cred_env sample_attr_env (Some (named None 0 0)) (jwt_attr ''pic'') (- 1) h' = None"
proof -
  have "\<not> isStringBuffer [0xFF, 0xFE]" by (simp add: isStringBuffer_def)
  then show ?thesis
    using binary_attribute_lost[of sample_attr_env 0 "[sample_attrs]" "''pic''" "[0xFF, 0xFE]" sample_cred_env None 0]
    by (auto simp: sample_attrs_def)
qed


end
