(* ===== verification/Spec2Isabelle.thy ===== *)
theory Spec2Isabelle
  imports User Fcache Accept Init Attr
begin

text \<open>
  A verification development for libbrowserid, a C library with which a user agent proves an email
  address to a relying party by a BrowserID assertion, and a relying party verifies it, and for
  mech_browserid, the GSS-API mechanism over it.

  \<^bold>\<open>The program.\<close>  A user agent obtains an assertion, a token signed with a key that an identity
  provider has certified, and hands it to a relying party as a backed assertion: certificates and
  assertion, separated by tildes.  The relying party unpacks it (\<^verbatim>\<open>bid_util.c\<close>, \<^verbatim>\<open>bid_jwt.c\<close>),
  checks audience, validity, issuer and certificate chain (\<^verbatim>\<open>bid_verify.c\<close>), asking the network
  for the documents of authorities (\<^verbatim>\<open>bid_authority.c\<close>) or a verification service for all of it
  (\<^verbatim>\<open>bid_rverify.c\<close>), makes an identity (\<^verbatim>\<open>bid_identity.c\<close>), refuses replays and issues a
  ticket (\<^verbatim>\<open>bid_rcache.c\<close>).  With the ticket the user agent later reauthenticates without a
  certificate (\<^verbatim>\<open>bid_reauth.c\<close>).  The relying party answers with a signed response
  (\<^verbatim>\<open>bid_rp.c\<close>), to which the user agent may reply once more (\<^verbatim>\<open>bid_xrt.c\<close>); the user agent's
  side of it all starts in \<^verbatim>\<open>bid_user.c\<close>.  A relying party can prove itself by an X.509 chain
  (\<^verbatim>\<open>bid_x509.c\<close>).  Everything that lasts is in caches behind a table of operations
  (\<^verbatim>\<open>bid_cache.c\<close>, \<^verbatim>\<open>bid_mcache.c\<close>, \<^verbatim>\<open>bid_fcache.c\<close>); the options and caches of a caller are a context
  (\<^verbatim>\<open>bid_context.c\<close>).

  The mechanism is under \<^verbatim>\<open>mech_browserid/\<close>.  An initiator resolves a credential into an assertion for the
  acceptor (\<^verbatim>\<open>init_sec_context.c\<close>, \<^verbatim>\<open>util_cred.c\<close>), frames it as a token (\<^verbatim>\<open>util_token.c\<close>) and sends it;
  the acceptor verifies it with the library and answers with a response, and for mutual
  authentication or a reauthentication that fails there are further rounds (\<^verbatim>\<open>accept_sec_context.c\<close>).
  Both sides derive a Kerberos key from the secret of the library (\<^verbatim>\<open>util_context.c\<close>), with which the
  established context protects messages (\<^verbatim>\<open>wrap_iov.c\<close>, \<^verbatim>\<open>unwrap_iov.c\<close>), numbered and checked against a
  window (\<^verbatim>\<open>util_ordering.c\<close>).  Contexts and names can be written as tokens and read again.

  \<^bold>\<open>Theories and what they model.\<close>
  \<^item> Prelude: bytes, 32-bit words and flags, the error codes of \<^verbatim>\<open>browserid.h\<close>, results as sums,
    the sequencing of fallible calls (\<open>bail\<close> for \<^verbatim>\<open>BID_BAIL_ON_ERROR\<close>), C strings.
  \<^item> Base64: \<^verbatim>\<open>bid_base64.c\<close>, with the buffers of encoder and decoder.
  \<^item> Json: JSON values and the helpers of \<^verbatim>\<open>bid_util.c\<close> on them, protocol options, service names.
  \<^item> Crypto: \<^verbatim>\<open>bid_crypto.c\<close> and \<^verbatim>\<open>bid_openssl.c\<close>: digests, key sets, signature algorithms.
  \<^item> Jwt: \<^verbatim>\<open>bid_jwt.c\<close>.  Backed: backed assertions of \<^verbatim>\<open>bid_util.c\<close>.
  \<^item> Cache: the interface of \<^verbatim>\<open>bid_cache.c\<close> as a locale with the laws of a finite map, and
    \<^verbatim>\<open>bid_mcache.c\<close> as its interpretation.  Context: \<^verbatim>\<open>bid_context.c\<close>.
  \<^item> X509: the certificate parts of \<^verbatim>\<open>bid_openssl.c\<close> and \<^verbatim>\<open>bid_x509.c\<close>.
  \<^item> Identity: key agreement and \<^verbatim>\<open>bid_identity.c\<close>.
  \<^item> Authority: \<^verbatim>\<open>bid_authority.c\<close> and the validity check of \<^verbatim>\<open>bid_verify.c\<close>.
  \<^item> Reauth: \<^verbatim>\<open>bid_reauth.c\<close>.  Replay: \<^verbatim>\<open>bid_rcache.c\<close>.
  \<^item> Verify: \<^verbatim>\<open>bid_verify.c\<close>, \<^verbatim>\<open>bid_rverify.c\<close> and \<^verbatim>\<open>BIDVerifyAssertion\<close>.
  \<^item> Rp: \<^verbatim>\<open>bid_rp.c\<close> and \<^verbatim>\<open>bid_xrt.c\<close>.
  \<^item> User: \<^verbatim>\<open>bid_user.c\<close>, and the handshake between user agent and relying party; the browser that
    asks the user is a parameter.
  \<^item> Fcache: \<^verbatim>\<open>bid_fcache.c\<close> over files with names and descriptors, as another interpretation of the
    locale of caches.
  \<^item> Gss: the codes, identifiers and flags of the mechanism (\<^verbatim>\<open>util_browserid.cpp\<close>, \<^verbatim>\<open>util_oid.c\<close>,
    \<^verbatim>\<open>util_mech.c\<close>).  Ordering: \<^verbatim>\<open>util_ordering.c\<close>.  Token: \<^verbatim>\<open>util_token.c\<close>.
  \<^item> Name: \<^verbatim>\<open>util_name.c\<close> and the functions of \<^verbatim>\<open>util_attr.cpp\<close> around attribute contexts.
    Cred: \<^verbatim>\<open>util_cred.c\<close>.  Mech: the contexts of \<^verbatim>\<open>util_context.c\<close> and the keys of
    \<^verbatim>\<open>util_krb.c\<close>.
  \<^item> Accept: \<^verbatim>\<open>accept_sec_context.c\<close>.  Init: \<^verbatim>\<open>init_sec_context.c\<close> and the resolution of credentials.
  \<^item> Export: \<^verbatim>\<open>export_sec_context.c\<close>, \<^verbatim>\<open>import_sec_context.c\<close>.
  \<^item> Wrap: \<^verbatim>\<open>util_crypt.c\<close>, \<^verbatim>\<open>util_cksum.c\<close>, \<^verbatim>\<open>wrap_iov.c\<close>, \<^verbatim>\<open>unwrap_iov.c\<close>, \<^verbatim>\<open>wrap_iov_length.c\<close> and the
    entry points for the protection of messages and the deletion of contexts.  Session: from a
    common secret to the exchange of messages.  Entry: \<^verbatim>\<open>pseudo_random.c\<close>, \<^verbatim>\<open>set_cred_option.c\<close>,
    \<^verbatim>\<open>util_lucid.c\<close>, and the entry points that inquire about contexts or hand on to names and credentials.
  \<^item> Credtoken: \<^verbatim>\<open>util_base64.c\<close>, the JSON forms of identifiers and names, and the tokens of
    credentials (\<^verbatim>\<open>gssBidExportCred\<close>, \<^verbatim>\<open>gssBidImportCred\<close>).
  \<^item> Attr: the attributes of names, \<^verbatim>\<open>util_attr.cpp\<close> and the provider of \<^verbatim>\<open>util_browserid.cpp\<close>, with the
    interface between manager and providers as a locale; objects are cells of a store, since names
    share them.

  \<^bold>\<open>How the code is represented.\<close>  A function of the program has a definition with its name, less
  a leading underscore; where a static function and its public twin differ only by it, the public
  one has the suffix \<open>_pub\<close>.  A function returns \<open>Inl\<close> of an error code or \<open>Inr\<close> of its results;
  what it changes before it fails is returned as well.  A pointer that may be \<^verbatim>\<open>NULL\<close> is an option.
  Reading or writing out of bounds and dereferencing \<^verbatim>\<open>NULL\<close> is the value \<open>BID_UNDEFINED\<close>, which no
  caller turns into another one.  Flags and 32-bit quantities are words, times are integers in
  seconds.  Caches are addresses in a heap, since contexts share them.  OpenSSL, the JSON printer
  and parser, and HTTP are fields of an environment record that is a parameter of the definitions;
  what a theorem needs of them is a hypothesis.  In the
  mechanism an error is a pair of a major and a minor code, a context and its handle are passed
  and returned, and undefined behaviour is \<open>None\<close>.  Kerberos, the dotted form of identifiers, the classes of attributes, the system
  calls on files, and the layout of the window as it is copied into an exported context are
  parameters in the same way.

  The loop over the objects of a cache, which a callback could keep going forever, is a partial
  function whose result for the memory cache is proved to exist.  The loop of the initiator over
  its states is another one, where \<open>None\<close> is a call that never returns; a theorem says when that
  happens.  All other loops are total functions, and there is no fuel.

  \<^bold>\<open>What is shown.\<close>  Encodings and tokens round-trip, and exactly where they do not.  Signatures are
  accepted only under a key the key set offers for the algorithm.  The memory cache is a finite
  map, also while it is purged during iteration.  A context has the caches its options require.
  An authority is accepted exactly along published delegations.  An accepted assertion has the
  right audience, validity, issuer, certificate and signature; it is not accepted twice while its
  entry is protected; and a ticket makes reauthentication succeed with a common secret, and is
  needed for it.  A first authentication leaves both sides with the same secret, an accepted
  response is authentic, and the extra round trip replaces the secret on both sides by the same
  new one.  The window of
  message numbers refines a list of the numbers received, and accepts none twice.  A file cache
  keeps what a memory cache does, except when two processes change it at once.  An acceptor or
  initiator is established only by a verified token.  Tokens, names and established contexts
  survive being written and read; credentials do not, since what their export writes is not what
  their import reads.  Attributes of names survive being exported and, as texts, being stored; binary
  ones do not.  Messages that are wrapped arrive, in order and unchanged, and
  what is unwrapped was protected by the peer.  Where the code does not do what it means to, the
  theorem states what it does.

  \<^bold>\<open>Not modelled.\<close>  Failing allocations, reference counts and freeing; assertions, which are off in a
  release build, except in the protection of messages, where tokens from the network reach them;
  locks; the checks of UTF-8 in the JSON library; debug output; the contents of message buffers
  after a failure.  The HTTP clients, the platform layers, the registry cache, the CNG twin of the
  OpenSSL code, the browser windows that obtain an assertion, and the CoreFoundation bindings are
  calls into the operating system.  Of the mechanism, the providers of attributes that need the
  libraries for SAML and Shibboleth (a build without them is modelled), NegoEx, status messages and
  the reading of configuration are left out; of what differs between builds, the one with MIT
  Kerberos is modelled.  Theory Name sees an attribute context as a JSON value, and its printing and reading
  as parameters; theory Attr has the code behind them.  The
  command line tool, samples and tests only call the library.
\<close>

end
